(* ===== verification/Iso_Prelude.thy ===== *)
theory Iso_Prelude
  imports Main "HOL-Library.Word" "HOL-Library.Monad_Syntax"
begin

text \<open>
  Shared material of the development: the names of the machine types, the collections of
  simplification rules the components fill, big-endian and little-endian byte strings of a
  given width, the \<open>size_t\<close> subtraction of C, writes into a byte array at an offset, and the
  option monad in which \<open>None\<close> stands for undefined behaviour of the C code.
\<close>

unbundle bit_operations_syntax

section \<open>Machine types\<close>

type_synonym u8 = "8 word"
type_synonym u32 = "32 word"
type_synonym u64 = "64 word"
type_synonym bytes = "u8 list"

named_theorems packet_simps \<open>equations of the packet reader and writer\<close>
named_theorems world_simps \<open>effects of the primitive operations on the process state\<close>
named_theorems statem_simps \<open>equations of the handshake transition functions\<close>

text \<open>A \<open>size_t\<close> is a natural number below \<open>2 ^ 64\<close> (LP64); its subtraction wraps.\<close>

definition SIZE_MAX :: nat where
  "SIZE_MAX = 2 ^ 64 - 1"

definition size_sub :: "nat \<Rightarrow> nat \<Rightarrow> nat" where
  "size_sub a b = (a + 2 ^ 64 - b) mod 2 ^ 64"

lemma size_sub_le [simp]:
  assumes "b \<le> a" "a \<le> SIZE_MAX"
  shows "size_sub a b = a - b"
proof -
  have eq: "a + 2 ^ 64 - b = (a - b) + 2 ^ 64" using assms(1) by simp
  have lt: "a - b < 2 ^ 64" using assms by (simp add: SIZE_MAX_def)
  have "size_sub a b = ((a - b) + 2 ^ 64) mod 2 ^ 64"
    by (simp only: size_sub_def eq)
  also have "\<dots> = (a - b) mod 2 ^ 64" by (rule mod_add_self2)
  also have "\<dots> = a - b" using lt by (rule mod_less)
  finally show ?thesis .
qed

section \<open>Byte strings of a given width\<close>

fun be_bytes :: "nat \<Rightarrow> nat \<Rightarrow> bytes" where
  "be_bytes 0 v = []"
| "be_bytes (Suc n) v = be_bytes n (v div 256) @ [word_of_nat v]"

definition be_val :: "bytes \<Rightarrow> nat" where
  "be_val bs = foldl (\<lambda>a b. a * 256 + unat b) 0 bs"

lemma be_val_Nil [simp]: "be_val [] = 0"
  by (simp add: be_val_def)

lemma be_val_snoc [simp]: "be_val (bs @ [b]) = be_val bs * 256 + unat b"
  by (simp add: be_val_def)

lemma length_be_bytes [simp]: "length (be_bytes n v) = n"
  by (induction n arbitrary: v) simp_all

lemma unat_word8_of_nat [simp]: "unat (word_of_nat v :: u8) = v mod 256"
  by (simp add: unat_of_nat)

lemma unat_u32_of_nat: "v < 2 ^ 32 \<Longrightarrow> unat (word_of_nat v :: u32) = v"
  by (simp add: unat_of_nat)

lemma unat_u64_of_nat: "v < 2 ^ 64 \<Longrightarrow> unat (word_of_nat v :: u64) = v"
  by (simp add: unat_of_nat)

lemma be_val_be_bytes: "be_val (be_bytes n v) = v mod 256 ^ n"
proof (induction n arbitrary: v)
  case 0
  then show ?case by simp
next
  case (Suc n)
  have "v mod 256 ^ Suc n = 256 * (v div 256 mod 256 ^ n) + v mod 256"
    by (simp add: mod_mult2_eq)
  then show ?case by (simp add: Suc.IH)
qed

lemma be_val_be_bytes_id [simp]: "v < 256 ^ n \<Longrightarrow> be_val (be_bytes n v) = v"
  by (simp add: be_val_be_bytes)

lemma unat_u8_less [simp]: "unat (b :: u8) < 256"
  using unsigned_less [of b, where ?'a = nat] by simp

lemma be_bytes_be_val [simp]: "be_bytes (length bs) (be_val bs) = bs"
proof (induction bs rule: rev_induct)
  case Nil
  then show ?case by simp
next
  case (snoc b bs)
  have "(be_val bs * 256 + unat b) div 256 = be_val bs" by simp
  moreover have "(word_of_nat (be_val bs * 256 + unat b) :: u8) = b"
    by (simp only: word_unat_eq_iff unat_word8_of_nat) simp
  ultimately show ?case by (simp add: snoc.IH)
qed

lemma be_val_bound: "be_val bs < 256 ^ length bs"
proof (induction bs rule: rev_induct)
  case Nil
  then show ?case by simp
next
  case (snoc b bs)
  have "be_val bs * 256 + unat b < be_val bs * 256 + 256" by simp
  also have "\<dots> \<le> 256 ^ length bs * 256" using snoc.IH by simp
  finally show ?case by simp
qed

text \<open>The memory image of an integer on the host, and the value read back from memory.\<close>

definition mem_image :: "bool \<Rightarrow> nat \<Rightarrow> nat \<Rightarrow> bytes" where
  "mem_image little n v = (if little then rev (be_bytes n v) else be_bytes n v)"

definition mem_value :: "bool \<Rightarrow> bytes \<Rightarrow> nat" where
  "mem_value little bs = (if little then be_val (rev bs) else be_val bs)"

lemma length_mem_image [simp]: "length (mem_image little n v) = n"
  by (simp add: mem_image_def)

lemma mem_value_image [simp]: "v < 256 ^ n \<Longrightarrow> mem_value little (mem_image little n v) = v"
  by (simp add: mem_value_def mem_image_def)

lemma mem_value_bound: "mem_value little bs < 256 ^ length bs"
  using be_val_bound [of bs] be_val_bound [of "rev bs"] by (simp add: mem_value_def)

lemma mem_image_value [simp]: "mem_image little (length bs) (mem_value little bs) = bs"
  using be_bytes_be_val [of bs] be_bytes_be_val [of "rev bs"]
  by (simp add: mem_image_def mem_value_def)

section \<open>Writes into an array\<close>

definition write_at :: "'a list \<Rightarrow> nat \<Rightarrow> 'a list \<Rightarrow> 'a list" where
  "write_at buf off xs = take off buf @ xs @ drop (off + length xs) buf"

lemma length_write_at [simp]: "off + length xs \<le> length buf \<Longrightarrow> length (write_at buf off xs) = length buf"
  by (simp add: write_at_def)

lemma take_write_at_before:
  "n \<le> off \<Longrightarrow> off \<le> length buf \<Longrightarrow> take n (write_at buf off xs) = take n buf"
  by (simp add: write_at_def min_def)

lemma take_write_at_end:
  "off \<le> length buf \<Longrightarrow> take (off + length xs) (write_at buf off xs) = take off buf @ xs"
  by (simp add: write_at_def)

lemma take_write_at_inside:
  assumes "off + length xs \<le> n" "n \<le> length buf"
  shows "take n (write_at buf off xs) = write_at (take n buf) off xs"
  using assms by (auto simp: write_at_def drop_take)

lemma write_at_nth_out:
  assumes "off + length xs \<le> length buf" "i < off \<or> off + length xs \<le> i" "i < length buf"
  shows "write_at buf off xs ! i = buf ! i"
  using assms by (auto simp: write_at_def nth_append)

section \<open>Undefined behaviour\<close>

text \<open>
  A function of the model that can run into undefined behaviour of C (an access outside a
  block, a use of a freed object, a null dereference) has an option as its result, and \<open>None\<close>
  is the undefined case. \<open>guardb\<close> is the check of a memory access.
\<close>

definition guardb :: "bool \<Rightarrow> unit option" where
  "guardb b = (if b then Some () else None)"

lemma guardb_simps [simp]:
  "guardb True = Some ()" "guardb False = None"
  "(guardb b = None) \<longleftrightarrow> \<not> b" "(guardb b = Some u) \<longleftrightarrow> b"
  by (simp_all add: guardb_def)

text \<open>Reading \<open>n\<close> bytes of a block from an offset (\<open>memcpy\<close> from a block).\<close>

definition read_at :: "bytes \<Rightarrow> nat \<Rightarrow> nat \<Rightarrow> bytes option" where
  "read_at buf off n = (if off + n \<le> length buf then Some (take n (drop off buf)) else None)"

lemma read_at_Some_iff:
  "read_at buf off n = Some xs \<longleftrightarrow> off + n \<le> length buf \<and> xs = take n (drop off buf)"
  by (auto simp: read_at_def)

end
