(* ===== verification/Process_World.thy ===== *)
theory Process_World
  imports Iso_Prelude
begin

text \<open>
  The process the library runs in: the allocator (\<^verbatim>\<open>crypto/mem.c\<close>, \<^verbatim>\<open>crypto/o_str.c\<close>), the error
  queue, the sockets of the security entity connection and the store of X509 objects with
  their IEEE 1609.2 ex data. What the operating system, the peer at the other end of a socket
  and the X.509 decoder do is a parameter, the record \<open>env\<close>; everything that changes is in the
  record \<open>os\<close>.
\<close>

section \<open>Errors\<close>

datatype err_reason =
    ERR_R_MALLOC_FAILURE | ERR_R_INTERNAL_ERROR | ERR_R_PASSED_NULL_PARAMETER | ERR_R_BUF_LIB
  | ERR_R_ASN1_LIB | ERR_R_X509_LIB | ERR_R_EVP_LIB | ERR_R_SHOULD_NOT_HAVE_BEEN_CALLED
  | SSL_R_BAD_DATA | SSL_R_UNEXPECTED_MESSAGE | SSL_R_SOCKET_ALLOC_FAILED
  | SSL_R_SEC_ENT_CONNECT_FAILED | SSL_R_NOT_1609_CERT | SSL_R_CERTIFICATE_VERIFY_FAILED
  | SSL_R_UNSUPPORTED_CERT_TYPE | SSL_R_MISSING_FATAL | SSL_R_LENGTH_MISMATCH
  | SSL_R_CERT_LENGTH_MISMATCH | SSL_R_BAD_LENGTH | SSL_R_INVALID_CONTEXT
  | SSL_R_PEER_DID_NOT_RETURN_A_CERTIFICATE | SSL_R_UNKNOWN_CERTIFICATE_TYPE
  | SSL_R_ECC_CERT_NOT_FOR_SIGNING | SSL_R_X509_LIB | SSL_R_BAD_HANDSHAKE_STATE
  | SSL_R_EXCESSIVE_MESSAGE_SIZE | SSL_R_NO_CERTIFICATES_RETURNED
  | SSL_R_UNABLE_TO_FIND_PUBLIC_KEY_PARAMETERS | SSL_R_WRONG_CERTIFICATE_TYPE
  | SSL_R_BAD_KEY_UPDATE | SSL_R_NOT_ON_RECORD_BOUNDARY | SSL_R_GOT_A_FIN_BEFORE_A_CCS
  | SSL_R_BAD_DIGEST_LENGTH | SSL_R_DIGEST_CHECK_FAILED | SSL_R_BAD_CHANGE_CIPHER_SPEC
  | SSL_R_CCS_RECEIVED_EARLY | SSL_R_BAD_SIGNATURE | SSL_R_BAD_EXTENSION
  | SSL_R_SIGNATURE_FOR_NON_SIGNING_CERTIFICATE | SSL_R_NO_PROTOCOLS_AVAILABLE
  | SSL_R_NO_SUITABLE_DIGEST_ALGORITHM | SSL_R_NO_CIPHERS_AVAILABLE | SSL_R_BAD_PACKET
  | SSL_R_LEGACY_SIGALG_DISALLOWED_OR_UNSUPPORTED | SSL_R_BAD_HANDSHAKE_LENGTH
  | SSL_R_CANNOT_CHANGE_CIPHER | ERR_CODE int

section \<open>State and parameters of the process\<close>

text \<open>The certificate object of \<^verbatim>\<open>ieee1609dot2.c\<close>; \<open>cert_data\<close> is \<open>None\<close> when the pointer is NULL.\<close>

record IEEE1609_CERT =
  cert_version :: int
  cert_data_len :: int
  cert_data :: "bytes option"
  hashed_id_present :: bool
  hashedid8 :: bytes

text \<open>
  An X509 object: its reference count, the DER encoding it was last decoded from and its ex
  data slot \<open>g_x509_1609_idx\<close>.
\<close>

record X509 =
  x_refs :: nat
  x_der :: "bytes option"
  x_1609 :: "IEEE1609_CERT option"

type_synonym x509_ptr = nat

record os =
  mallocs :: nat                         \<comment> \<open>allocations asked for so far\<close>
  live :: int                            \<comment> \<open>blocks allocated and not freed\<close>
  errs :: "err_reason list"              \<comment> \<open>the error queue, newest first\<close>
  conns :: nat                           \<comment> \<open>calls of \<open>socket\<close> so far\<close>
  open_fds :: "int list"
  wire :: bytes                          \<comment> \<open>bytes written on the current connection\<close>
  inbox :: "bytes list option"           \<comment> \<open>segments still to be read; \<open>None\<close> before the first read\<close>
  requests :: "bytes list"               \<comment> \<open>what was written on the connections closed so far\<close>
  x509s :: "x509_ptr \<Rightarrow> X509 option"        \<comment> \<open>the X509 objects\<close>
  x_next :: x509_ptr

record env =
  malloc_ok :: "nat \<Rightarrow> nat \<Rightarrow> bool"      \<comment> \<open>allocation number \<open>i\<close>, of \<open>n\<close> bytes, succeeds\<close>
  host_little :: bool                    \<comment> \<open>\<open>IS_LITTLE_ENDIAN\<close>\<close>
  env_socket :: "nat \<Rightarrow> int"             \<comment> \<open>descriptor returned by call \<open>i\<close> of \<open>socket\<close>, or -1\<close>
  env_connect :: "nat \<Rightarrow> bytes \<Rightarrow> int \<Rightarrow> bool" \<comment> \<open>\<open>connect\<close> to an address and port returns 0\<close>
  env_write :: "nat \<Rightarrow> nat \<Rightarrow> nat \<Rightarrow> int" \<comment> \<open>\<open>write\<close> on connection \<open>i\<close> after \<open>k\<close> bytes, of \<open>n\<close> bytes\<close>
  env_peer :: "nat \<Rightarrow> bytes \<Rightarrow> bytes list" \<comment> \<open>segments the security entity answers to a request\<close>
  env_d2i_fake :: "nat \<Rightarrow> bool"          \<comment> \<open>the built-in X509 certificate decodes\<close>
  env_set_ex_data :: "nat \<Rightarrow> bool"       \<comment> \<open>\<open>X509_set_ex_data\<close> succeeds\<close>
  env_x509_idx :: int                    \<comment> \<open>\<open>g_x509_1609_idx\<close>, -1 when not registered\<close>
  env_security_cert :: "X509 \<Rightarrow> int"      \<comment> \<open>\<open>ssl_security_cert\<close>, 1 for success\<close>
  env_pubkey :: "X509 \<Rightarrow> nat option option" \<comment> \<open>no public key, or the slot of its type if any\<close>
  env_can_sign :: "X509 \<Rightarrow> bool"          \<comment> \<open>\<open>EVP_PKEY_can_sign\<close>\<close>
  env_check_private :: "X509 \<Rightarrow> bool"     \<comment> \<open>\<open>X509_check_private_key\<close> with the key in the slot\<close>
  env_key_slot :: "bytes \<Rightarrow> nat option option" \<comment> \<open>a private key decodes, and the slot of its type\<close>

definition ERR_raise :: "err_reason \<Rightarrow> os \<Rightarrow> os" where
  "ERR_raise r w = w\<lparr>errs := r # errs w\<rparr>"

definition ERR_clear_error :: "os \<Rightarrow> os" where
  "ERR_clear_error w = w\<lparr>errs := []\<rparr>"

definition ERR_peek_last :: "os \<Rightarrow> err_reason option" where
  "ERR_peek_last w = (case errs w of [] \<Rightarrow> None | r # _ \<Rightarrow> Some r)"

section \<open>The allocator\<close>

definition OPENSSL_malloc :: "env \<Rightarrow> nat \<Rightarrow> os \<Rightarrow> bool \<times> os" where
  "OPENSSL_malloc e n w =
     (if n = 0 then (False, w)
      else let w1 = w\<lparr>mallocs := Suc (mallocs w)\<rparr>
           in if malloc_ok e (mallocs w) n then (True, w1\<lparr>live := live w1 + 1\<rparr>) else (False, w1))"

text \<open>\<open>OPENSSL_free\<close> of a block; of NULL it does nothing, which is the argument \<open>False\<close>.\<close>

definition OPENSSL_free :: "bool \<Rightarrow> os \<Rightarrow> os" where
  "OPENSSL_free p w = (if p then w\<lparr>live := live w - 1\<rparr> else w)"

definition INT_MAX :: nat where
  "INT_MAX = 2 ^ 31 - 1"

text \<open>\<open>CRYPTO_memdup\<close>: the source is NULL (\<open>None\<close>) or a block of which \<open>siz\<close> bytes are copied.\<close>

definition OPENSSL_memdup :: "env \<Rightarrow> bytes option \<Rightarrow> nat \<Rightarrow> os \<Rightarrow> bytes option \<times> os" where
  "OPENSSL_memdup e src siz w = (case src of
      None \<Rightarrow> (None, w)
    | Some bs \<Rightarrow>
        if INT_MAX \<le> siz then (None, w)
        else case OPENSSL_malloc e siz w of
          (False, w1) \<Rightarrow> (None, ERR_raise ERR_R_MALLOC_FAILURE w1)
        | (True, w1) \<Rightarrow> (Some (take siz bs), w1))"

section \<open>Sockets\<close>

definition sock_socket :: "env \<Rightarrow> os \<Rightarrow> int \<times> os" where
  "sock_socket e w =
     (let fd = env_socket e (conns w);
          w1 = w\<lparr>conns := Suc (conns w), wire := [], inbox := None\<rparr>
      in if fd < 0 then (-1, w1) else (fd, w1\<lparr>open_fds := fd # open_fds w1\<rparr>))"

definition sock_connect :: "env \<Rightarrow> bytes \<Rightarrow> int \<Rightarrow> os \<Rightarrow> bool" where
  "sock_connect e addr port w = env_connect e (conns w - 1) addr port"

definition sock_close :: "int \<Rightarrow> os \<Rightarrow> os" where
  "sock_close fd w = w\<lparr>open_fds := remove1 fd (open_fds w), requests := requests w @ [wire w]\<rparr>"

text \<open>\<open>write\<close>: a result that is not positive is a failure, otherwise at most \<open>n\<close> bytes are taken.\<close>

definition sock_write :: "env \<Rightarrow> bytes \<Rightarrow> os \<Rightarrow> int \<times> os" where
  "sock_write e bs w =
     (let r = env_write e (conns w - 1) (length (wire w)) (length bs)
      in if r \<le> 0 then (r, w)
         else let k = min (nat r) (length bs) in (int k, w\<lparr>wire := wire w @ take k bs\<rparr>))"

text \<open>
  \<open>read\<close> of at most \<open>n\<close> bytes: it returns at most the next segment of the answer, and nothing
  (end of file or an error) when there is none.
\<close>

definition sock_read :: "env \<Rightarrow> nat \<Rightarrow> os \<Rightarrow> bytes \<times> os" where
  "sock_read e n w =
     (case (case inbox w of None \<Rightarrow> env_peer e (conns w - 1) (wire w) | Some segs \<Rightarrow> segs) of
        [] \<Rightarrow> ([], w\<lparr>inbox := Some []\<rparr>)
      | seg # rest \<Rightarrow>
          (take n seg, w\<lparr>inbox := Some (if length seg \<le> n then rest else drop n seg # rest)\<rparr>))"

section \<open>X509 objects\<close>

definition X509_alloc :: "X509 \<Rightarrow> os \<Rightarrow> x509_ptr \<times> os" where
  "X509_alloc x w = (x_next w, w\<lparr>x509s := (x509s w)(x_next w \<mapsto> x), x_next := Suc (x_next w)\<rparr>)"

definition IEEE1609_CERT_free :: "IEEE1609_CERT option \<Rightarrow> os \<Rightarrow> os" where
  "IEEE1609_CERT_free c w = (case c of
      None \<Rightarrow> w
    | Some cert \<Rightarrow> OPENSSL_free True (OPENSSL_free (cert_data cert \<noteq> None) w))"

text \<open>
  Dropping a reference; the last one releases the object and runs the free callback
  \<open>CRYPTO_EX_IEEE1609_CERT_free\<close> on its ex data. A pointer to no object is undefined behaviour,
  NULL is not.
\<close>

definition X509_free :: "x509_ptr option \<Rightarrow> os \<Rightarrow> os option" where
  "X509_free x w = (case x of
      None \<Rightarrow> Some w
    | Some a \<Rightarrow> (case x509s w a of
        None \<Rightarrow> None
      | Some o1 \<Rightarrow>
          if x_refs o1 \<le> 1
          then Some ((IEEE1609_CERT_free (x_1609 o1) w)\<lparr>x509s := (x509s w)(a := None)\<rparr>)
          else Some (w\<lparr>x509s := (x509s w)(a \<mapsto> o1\<lparr>x_refs := x_refs o1 - 1\<rparr>)\<rparr>)))"

definition X509_up_ref :: "x509_ptr \<Rightarrow> os \<Rightarrow> os option" where
  "X509_up_ref a w = (case x509s w a of
      None \<Rightarrow> None
    | Some o1 \<Rightarrow> Some (w\<lparr>x509s := (x509s w)(a \<mapsto> o1\<lparr>x_refs := x_refs o1 + 1\<rparr>)\<rparr>))"

definition IEEE1609_CERT_from_X509 :: "x509_ptr \<Rightarrow> os \<Rightarrow> IEEE1609_CERT option option" where
  "IEEE1609_CERT_from_X509 a w = map_option x_1609 (x509s w a)"

definition X509_is_IEEE1609_CERT :: "x509_ptr option \<Rightarrow> os \<Rightarrow> bool option" where
  "X509_is_IEEE1609_CERT x w = (case x of
      None \<Rightarrow> Some False
    | Some a \<Rightarrow> map_option (\<lambda>c. c \<noteq> None) (IEEE1609_CERT_from_X509 a w))"

text \<open>A store through the pointer \<open>IEEE1609_CERT_from_X509\<close> returned.\<close>

definition set_cert_hash :: "x509_ptr \<Rightarrow> bytes \<Rightarrow> os \<Rightarrow> os" where
  "set_cert_hash a h w = w\<lparr>x509s := (x509s w)(a := map_option
     (\<lambda>x. x\<lparr>x_1609 := map_option (\<lambda>c. c\<lparr>hashed_id_present := True, hashedid8 := h\<rparr>) (x_1609 x)\<rparr>) (x509s w a))\<rparr>"

section \<open>Effects of the primitives\<close>

lemma ERR_raise_fields [simp]:
  "mallocs (ERR_raise r w) = mallocs w" "live (ERR_raise r w) = live w"
  "errs (ERR_raise r w) = r # errs w" "conns (ERR_raise r w) = conns w"
  "open_fds (ERR_raise r w) = open_fds w" "wire (ERR_raise r w) = wire w"
  "inbox (ERR_raise r w) = inbox w" "requests (ERR_raise r w) = requests w"
  "x509s (ERR_raise r w) = x509s w" "x_next (ERR_raise r w) = x_next w"
  by (simp_all add: ERR_raise_def)

lemma OPENSSL_free_fields [simp]:
  "mallocs (OPENSSL_free p w) = mallocs w"
  "live (OPENSSL_free p w) = live w - (if p then 1 else 0)"
  "errs (OPENSSL_free p w) = errs w" "conns (OPENSSL_free p w) = conns w"
  "open_fds (OPENSSL_free p w) = open_fds w" "wire (OPENSSL_free p w) = wire w"
  "inbox (OPENSSL_free p w) = inbox w" "requests (OPENSSL_free p w) = requests w"
  "x509s (OPENSSL_free p w) = x509s w" "x_next (OPENSSL_free p w) = x_next w"
  by (simp_all add: OPENSSL_free_def)

lemma OPENSSL_malloc_fields:
  assumes "OPENSSL_malloc e n w = (r, w1)"
  shows "live w1 = live w + (if r then 1 else 0)" "errs w1 = errs w" "conns w1 = conns w"
    "open_fds w1 = open_fds w" "wire w1 = wire w" "inbox w1 = inbox w" "requests w1 = requests w"
    "x509s w1 = x509s w" "x_next w1 = x_next w" "r \<Longrightarrow> 0 < n"
  using assms by (auto simp: OPENSSL_malloc_def Let_def split: if_splits)

lemma OPENSSL_malloc_ok:
  "(\<And>i k. malloc_ok e i k) \<Longrightarrow> 0 < n \<Longrightarrow>
   OPENSSL_malloc e n w = (True, w\<lparr>mallocs := Suc (mallocs w), live := live w + 1\<rparr>)"
  by (simp add: OPENSSL_malloc_def)

text \<open>Everything but the allocator and the error queue is as it was.\<close>

definition same_io :: "os \<Rightarrow> os \<Rightarrow> bool" where
  "same_io w w1 \<longleftrightarrow> conns w1 = conns w \<and> open_fds w1 = open_fds w \<and> wire w1 = wire w \<and>
     inbox w1 = inbox w \<and> requests w1 = requests w \<and> x509s w1 = x509s w \<and> x_next w1 = x_next w"

lemma same_io_refl [simp]: "same_io w w"
  by (simp add: same_io_def)

lemma same_io_raise [simp]: "same_io w (ERR_raise r w1) = same_io w w1"
  by (simp add: same_io_def)

lemma same_io_free [simp]: "same_io w (OPENSSL_free p w1) = same_io w w1"
  by (simp add: same_io_def)

lemma same_io_trans: "same_io w w1 \<Longrightarrow> same_io w1 w2 \<Longrightarrow> same_io w w2"
  by (simp add: same_io_def)

lemma same_io_malloc: "OPENSSL_malloc e n w = (r, w1) \<Longrightarrow> same_io w w1"
  using OPENSSL_malloc_fields [of e n w r w1] by (simp add: same_io_def)

lemmas malloc_facts = OPENSSL_malloc_fields(1,10) same_io_malloc

end
