(* ===== verification/Packet_Reader.thy ===== *)
theory Packet_Reader
  imports Iso_Prelude
begin

text \<open>
  The reader side of \<^verbatim>\<open>include/internal/packet.h\<close>. A \<open>PACKET\<close> is a pointer and the number
  of bytes still to be read; the model keeps the bytes from the pointer on, so
  \<open>remaining\<close> is the length of the list. Every reader returns \<open>None\<close> where the C function
  returns 0, and else the value read and the advanced packet.
\<close>

section \<open>Definitions\<close>

type_synonym PACKET = bytes

definition packet_forward :: "PACKET \<Rightarrow> nat \<Rightarrow> PACKET" where
  "packet_forward pkt len = drop len pkt"

definition PACKET_remaining :: "PACKET \<Rightarrow> nat" where
  "PACKET_remaining pkt = length pkt"

definition PACKET_buf_init :: "bytes \<Rightarrow> nat \<Rightarrow> PACKET option" where
  "PACKET_buf_init buf len = (if SIZE_MAX div 2 < len then None else Some (take len buf))"

definition PACKET_equal :: "PACKET \<Rightarrow> bytes \<Rightarrow> nat \<Rightarrow> bool" where
  "PACKET_equal pkt ptr num =
     (if PACKET_remaining pkt \<noteq> num then False else take num pkt = take num ptr)"

definition PACKET_peek_sub_packet :: "PACKET \<Rightarrow> nat \<Rightarrow> PACKET option" where
  "PACKET_peek_sub_packet pkt len =
     (if PACKET_remaining pkt < len then None else PACKET_buf_init pkt len)"

definition PACKET_get_sub_packet :: "PACKET \<Rightarrow> nat \<Rightarrow> (PACKET \<times> PACKET) option" where
  "PACKET_get_sub_packet pkt len =
     (case PACKET_peek_sub_packet pkt len of
        None \<Rightarrow> None
      | Some sub \<Rightarrow> Some (sub, packet_forward pkt len))"

definition PACKET_peek_net_2 :: "PACKET \<Rightarrow> u32 option" where
  "PACKET_peek_net_2 pkt =
     (if PACKET_remaining pkt < 2 then None
      else Some (push_bit 8 (ucast (pkt ! 0)) OR ucast (pkt ! 1)))"

definition PACKET_get_net_2 :: "PACKET \<Rightarrow> (u32 \<times> PACKET) option" where
  "PACKET_get_net_2 pkt =
     (case PACKET_peek_net_2 pkt of None \<Rightarrow> None | Some v \<Rightarrow> Some (v, packet_forward pkt 2))"

definition PACKET_peek_net_3 :: "PACKET \<Rightarrow> u64 option" where
  "PACKET_peek_net_3 pkt =
     (if PACKET_remaining pkt < 3 then None
      else Some ((push_bit 16 (ucast (pkt ! 0)) OR push_bit 8 (ucast (pkt ! 1))) OR ucast (pkt ! 2)))"

definition PACKET_get_net_3 :: "PACKET \<Rightarrow> (u64 \<times> PACKET) option" where
  "PACKET_get_net_3 pkt =
     (case PACKET_peek_net_3 pkt of None \<Rightarrow> None | Some v \<Rightarrow> Some (v, packet_forward pkt 3))"

definition PACKET_peek_1 :: "PACKET \<Rightarrow> u32 option" where
  "PACKET_peek_1 pkt = (if PACKET_remaining pkt = 0 then None else Some (ucast (pkt ! 0)))"

definition PACKET_get_1 :: "PACKET \<Rightarrow> (u32 \<times> PACKET) option" where
  "PACKET_get_1 pkt =
     (case PACKET_peek_1 pkt of None \<Rightarrow> None | Some v \<Rightarrow> Some (v, packet_forward pkt 1))"

definition PACKET_get_1_len :: "PACKET \<Rightarrow> (nat \<times> PACKET) option" where
  "PACKET_get_1_len pkt = map_option (\<lambda>(v, p). (unat v, p)) (PACKET_get_1 pkt)"

definition PACKET_peek_bytes :: "PACKET \<Rightarrow> nat \<Rightarrow> bytes option" where
  "PACKET_peek_bytes pkt len = (if PACKET_remaining pkt < len then None else Some (take len pkt))"

definition PACKET_get_bytes :: "PACKET \<Rightarrow> nat \<Rightarrow> (bytes \<times> PACKET) option" where
  "PACKET_get_bytes pkt len =
     (case PACKET_peek_bytes pkt len of
        None \<Rightarrow> None
      | Some data \<Rightarrow> Some (data, packet_forward pkt len))"

definition PACKET_forward :: "PACKET \<Rightarrow> nat \<Rightarrow> PACKET option" where
  "PACKET_forward pkt len =
     (if PACKET_remaining pkt < len then None else Some (packet_forward pkt len))"

definition PACKET_get_length_prefixed_1 :: "PACKET \<Rightarrow> (PACKET \<times> PACKET) option" where
  "PACKET_get_length_prefixed_1 pkt =
     do { (len, tmp) \<leftarrow> PACKET_get_1 pkt; PACKET_get_bytes tmp (unat len) }"

definition PACKET_as_length_prefixed_1 :: "PACKET \<Rightarrow> (PACKET \<times> PACKET) option" where
  "PACKET_as_length_prefixed_1 pkt =
     do { (len, tmp) \<leftarrow> PACKET_get_1 pkt;
          (data, tmp) \<leftarrow> PACKET_get_bytes tmp (unat len);
          if PACKET_remaining tmp \<noteq> 0 then None else Some (data, tmp) }"

definition PACKET_get_length_prefixed_2 :: "PACKET \<Rightarrow> (PACKET \<times> PACKET) option" where
  "PACKET_get_length_prefixed_2 pkt =
     do { (len, tmp) \<leftarrow> PACKET_get_net_2 pkt; PACKET_get_bytes tmp (unat len) }"

definition PACKET_as_length_prefixed_2 :: "PACKET \<Rightarrow> (PACKET \<times> PACKET) option" where
  "PACKET_as_length_prefixed_2 pkt =
     do { (len, tmp) \<leftarrow> PACKET_get_net_2 pkt;
          (data, tmp) \<leftarrow> PACKET_get_bytes tmp (unat len);
          if PACKET_remaining tmp \<noteq> 0 then None else Some (data, tmp) }"

definition PACKET_get_length_prefixed_3 :: "PACKET \<Rightarrow> (PACKET \<times> PACKET) option" where
  "PACKET_get_length_prefixed_3 pkt =
     do { (len, tmp) \<leftarrow> PACKET_get_net_3 pkt; PACKET_get_bytes tmp (unat len) }"

section \<open>Network byte order\<close>

lemma unat_push_or:
  fixes a b :: "'w :: len word"
  assumes "unat b < 2 ^ k" "unat a * 2 ^ k + 2 ^ k \<le> 2 ^ LENGTH('w)"
  shows "unat (push_bit k a OR b) = unat a * 2 ^ k + unat b"
proof -
  have disj: "\<not> bit (push_bit k a) n \<or> \<not> bit b n" for n
  proof (cases "n < k")
    case False
    have "unat b = take_bit k (unat b)"
      using assms(1) by (simp add: take_bit_nat_eq_self)
    then have "\<not> bit (unat b) n"
      using False by (metis bit_take_bit_iff)
    then show ?thesis by (simp add: bit_unsigned_iff)
  qed (simp add: bit_push_bit_iff)
  have "push_bit k a OR b = push_bit k a + b"
    using disjunctive_add [of "push_bit k a" b] disj by simp
  moreover have push: "unat (push_bit k a) = unat a * 2 ^ k"
  proof -
    have "unat a * 2 ^ k < unat a * 2 ^ k + 2 ^ k" by simp
    then have "unat a * 2 ^ k < 2 ^ LENGTH('w)" using assms(2) by (rule less_le_trans)
    then have "take_bit LENGTH('w) (push_bit k (unat a)) = unat a * 2 ^ k"
      by (simp add: push_bit_eq_mult take_bit_nat_eq_self)
    then show ?thesis by (subst unsigned_push_bit_eq)
  qed
  moreover have "unat (push_bit k a) + unat b < 2 ^ LENGTH('w)"
    using assms push by simp
  ultimately show ?thesis by (simp add: unat_word_ariths)
qed

lemma unat_ucast_byte [simp]:
  "unat (ucast (b :: u8) :: u32) = unat b" "unat (ucast (b :: u8) :: u64) = unat b"
  by (simp_all add: unsigned_ucast_eq take_bit_nat_eq_self order.strict_trans [OF unat_u8_less])

lemma unat_eq_word_of_nat: "unat (v :: 'w :: len word) = n \<Longrightarrow> v = word_of_nat n"
  by (drule sym) simp

lemma net_2_val:
  "unat (push_bit 8 (ucast (a :: u8)) OR ucast (b :: u8) :: u32) = be_val [a, b]"
proof -
  have "unat a \<le> 16777215" using unat_u8_less [of a] by linarith
  then have "unat (push_bit 8 (ucast a) OR ucast b :: u32) = unat a * 2 ^ 8 + unat b"
    using unat_push_or [of "ucast b :: u32" 8 "ucast a"] by simp
  then show ?thesis by (simp add: be_val_def)
qed

lemma push_push_or:
  fixes a b :: "'w :: len word"
  shows "push_bit (m + k) a OR push_bit k b = push_bit k (push_bit m a OR b)"
  by (simp add: push_bit_or push_bit_push_bit add.commute)

lemma net_3_val:
  "unat ((push_bit 16 (ucast (a :: u8)) OR push_bit 8 (ucast (b :: u8))) OR ucast (c :: u8) :: u64)
     = be_val [a, b, c]"
proof -
  have "unat a \<le> 100000" using unat_u8_less [of a] by linarith
  then have ab: "unat (push_bit 8 (ucast a) OR ucast b :: u64) = unat a * 2 ^ 8 + unat b"
    using unat_push_or [of "ucast b :: u64" 8 "ucast a"] by simp
  have "unat a * 256 + unat b \<le> 100000" using unat_u8_less [of a] unat_u8_less [of b] by linarith
  then have "unat (push_bit 8 (push_bit 8 (ucast a) OR ucast b) OR ucast c :: u64)
      = (unat a * 2 ^ 8 + unat b) * 2 ^ 8 + unat c"
    using unat_push_or [of "ucast c :: u64" 8 "push_bit 8 (ucast a) OR ucast b"] ab by simp
  then show ?thesis
    using push_push_or [of 8 8 "ucast a :: u64" "ucast b"] by (simp add: be_val_def)
qed

section \<open>Characterisation of the readers\<close>

lemma take_packet:
  "1 \<le> length p \<Longrightarrow> take 1 p = [p ! 0]"
  "2 \<le> length p \<Longrightarrow> take 2 p = [p ! 0, p ! 1]"
  "3 \<le> length p \<Longrightarrow> take 3 p = [p ! 0, p ! 1, p ! 2]"
  by (auto intro!: nth_equalityI simp: less_Suc_eq numeral_2_eq_2 numeral_3_eq_3)

lemma unat_of_be_val:
  "length bs \<le> 4 \<Longrightarrow> unat (word_of_nat (be_val bs) :: u32) = be_val bs"
  "length bs \<le> 4 \<Longrightarrow> unat (word_of_nat (be_val bs) :: u64) = be_val bs"
proof -
  assume "length bs \<le> 4"
  then have "(256 :: nat) ^ length bs \<le> 256 ^ 4" by (rule power_increasing) simp
  then have bound: "be_val bs < 2 ^ 32" using be_val_bound [of bs] by simp
  then show "unat (word_of_nat (be_val bs) :: u32) = be_val bs"
    by (simp add: unat_of_nat)
  from bound have "be_val bs < 2 ^ 64" by simp
  then show "unat (word_of_nat (be_val bs) :: u64) = be_val bs"
    by (simp add: unat_of_nat)
qed

lemma get_1_eq [packet_simps]:
  "PACKET_get_1 p = (if length p < 1 then None else Some (word_of_nat (be_val (take 1 p)), drop 1 p))"
  by (cases p) (simp_all add: PACKET_get_1_def PACKET_peek_1_def PACKET_remaining_def
      packet_forward_def be_val_def)

lemma get_net_2_eq [packet_simps]:
  "PACKET_get_net_2 p = (if length p < 2 then None else Some (word_of_nat (be_val (take 2 p)), drop 2 p))"
  using unat_eq_word_of_nat [OF net_2_val]
  by (simp add: PACKET_get_net_2_def PACKET_peek_net_2_def PACKET_remaining_def packet_forward_def
      take_packet)

lemma get_net_3_eq [packet_simps]:
  "PACKET_get_net_3 p = (if length p < 3 then None else Some (word_of_nat (be_val (take 3 p)), drop 3 p))"
  using unat_eq_word_of_nat [OF net_3_val]
  by (simp add: PACKET_get_net_3_def PACKET_peek_net_3_def PACKET_remaining_def packet_forward_def
      take_packet)

lemma get_bytes_eq [packet_simps]:
  "PACKET_get_bytes p n = (if length p < n then None else Some (take n p, drop n p))"
  by (simp add: PACKET_get_bytes_def PACKET_peek_bytes_def PACKET_remaining_def packet_forward_def)

text \<open>Splitting a packet after a length field of \<open>n\<close> bytes and the bytes it announces.\<close>

lemma length_prefix_split:
  "(n \<le> length p \<and> be_val (take n p) \<le> length p - n \<and>
      d = take (be_val (take n p)) (drop n p) \<and> q = drop (be_val (take n p)) (drop n p))
   \<longleftrightarrow> length d < 256 ^ n \<and> p = be_bytes n (length d) @ d @ q" (is "?L \<longleftrightarrow> ?R")
proof
  assume L: ?L
  then have len: "length d = be_val (take n p)" by simp
  have "length (take n p) = n" using L by simp
  then have "take n p = be_bytes n (length d)"
    using be_bytes_be_val [of "take n p"] len by simp
  moreover have "drop n p = d @ q" using L by (metis append_take_drop_id)
  ultimately have "p = be_bytes n (length d) @ d @ q" by (metis append_take_drop_id)
  moreover have "length d < 256 ^ n"
    using be_val_bound [of "take n p"] len \<open>length (take n p) = n\<close> by simp
  ultimately show ?R by simp
next
  assume ?R
  then show ?L by simp
qed

section \<open>Length-prefixed vectors\<close>

text \<open>
  The contract of a reader of length-prefixed vectors: it accepts exactly the encodings of an
  admissible vector, followed by anything. What follows from it (the reader is the inverse of
  the encoding, it makes progress, and a sequence of vectors decodes in one way only) is
  proved once.
\<close>

locale prefix_codec =
  fixes get :: "PACKET \<Rightarrow> (bytes \<times> PACKET) option"
    and put :: "bytes \<Rightarrow> bytes"
    and fits :: "bytes \<Rightarrow> bool"
  assumes get_iff: "get p = Some (d, q) \<longleftrightarrow> fits d \<and> p = put d @ q"
    and put_nonempty: "put d \<noteq> []"
begin

lemma get_put: "fits d \<Longrightarrow> get (put d @ q) = Some (d, q)"
  by (simp add: get_iff)

lemma get_progress: "get p = Some (d, q) \<Longrightarrow> length q < length p"
  using put_nonempty by (auto simp: get_iff)

lemma put_append_inject:
  assumes "fits d" "fits e" "put d @ q = put e @ r"
  shows "d = e \<and> q = r"
proof -
  have "get (put d @ q) = Some (d, q)" "get (put d @ q) = Some (e, r)"
    using assms by (simp_all add: get_iff)
  then show ?thesis by simp
qed

lemma put_concat_inject:
  assumes "list_all fits ds" "list_all fits es" "concat (map put ds) = concat (map put es)"
  shows "ds = es"
  using assms
proof (induction ds arbitrary: es)
  case Nil
  then show ?case using put_nonempty by (cases es) auto
next
  case (Cons d ds)
  have "es \<noteq> []" using Cons.prems(3) put_nonempty [of d] by auto
  then obtain e es' where es: "es = e # es'" by (cases es) simp_all
  have eq: "d = e \<and> concat (map put ds) = concat (map put es')"
    using Cons.prems by (intro put_append_inject) (simp_all add: es)
  have "ds = es'" using Cons.prems(1,2) eq by (intro Cons.IH) (simp_all add: es)
  then show ?case using eq es by simp
qed

end

definition put_prefixed :: "nat \<Rightarrow> bytes \<Rightarrow> bytes" where
  "put_prefixed n d = be_bytes n (length d) @ d"

definition fits_prefix :: "nat \<Rightarrow> bytes \<Rightarrow> bool" where
  "fits_prefix n d \<longleftrightarrow> length d < 256 ^ n"

lemma length_prefixed_iff:
  "(if length p < n then None
    else if length (drop n p) < be_val (take n p) then None
    else Some (take (be_val (take n p)) (drop n p), drop (be_val (take n p)) (drop n p))) = Some (d, q)
   \<longleftrightarrow> fits_prefix n d \<and> p = put_prefixed n d @ q"
  using length_prefix_split [of n p d q]
  by (auto simp: fits_prefix_def put_prefixed_def not_less split: if_splits)

lemma length_prefixed_1_iff:
  "PACKET_get_length_prefixed_1 p = Some (d, q) \<longleftrightarrow> fits_prefix 1 d \<and> p = put_prefixed 1 d @ q"
  by (subst length_prefixed_iff [symmetric])
     (simp add: PACKET_get_length_prefixed_1_def packet_simps unat_of_be_val)

lemma length_prefixed_2_iff:
  "PACKET_get_length_prefixed_2 p = Some (d, q) \<longleftrightarrow> fits_prefix 2 d \<and> p = put_prefixed 2 d @ q"
  by (subst length_prefixed_iff [symmetric])
     (simp add: PACKET_get_length_prefixed_2_def packet_simps unat_of_be_val)

lemma length_prefixed_3_iff:
  "PACKET_get_length_prefixed_3 p = Some (d, q) \<longleftrightarrow> fits_prefix 3 d \<and> p = put_prefixed 3 d @ q"
  by (subst length_prefixed_iff [symmetric])
     (simp add: PACKET_get_length_prefixed_3_def packet_simps unat_of_be_val)

lemma put_prefixed_nonempty: "0 < n \<Longrightarrow> put_prefixed n d \<noteq> []"
  by (cases n) (simp_all add: put_prefixed_def)

interpretation prefix1: prefix_codec PACKET_get_length_prefixed_1 "put_prefixed 1" "fits_prefix 1"
  by unfold_locales (simp_all add: length_prefixed_1_iff put_prefixed_nonempty)

interpretation prefix2: prefix_codec PACKET_get_length_prefixed_2 "put_prefixed 2" "fits_prefix 2"
  by unfold_locales (simp_all add: length_prefixed_2_iff put_prefixed_nonempty)

interpretation prefix3: prefix_codec PACKET_get_length_prefixed_3 "put_prefixed 3" "fits_prefix 3"
  by unfold_locales (simp_all add: length_prefixed_3_iff put_prefixed_nonempty)

end
