(* ===== verification/Wpacket.thy ===== *)
theory Wpacket
  imports Packet_Reader
begin

text \<open>
  The packet writer of \<^verbatim>\<open>crypto/packet.c\<close> and the growable buffer of
  \<^verbatim>\<open>crypto/buffer/buffer.c\<close> under it. A \<open>WPACKET\<close> keeps offsets into its buffer, a stack of
  open sub-packets and two counters; every operation returns the C result and the packet as
  the C code leaves it, also on failure. The field \<open>corrupt\<close> is a ghost: it is set when a
  store would fall outside the buffer. The field \<open>wtick\<close> counts allocations, so that the
  parameter \<open>mem_ok\<close> can let any of them fail.
\<close>

section \<open>The growable buffer\<close>

text \<open>\<open>mem_ok i n\<close>: the allocation number \<open>i\<close>, of \<open>n\<close> bytes, succeeds.\<close>

type_synonym mem_ok = "nat \<Rightarrow> nat \<Rightarrow> bool"

text \<open>
  \<open>bm_data\<close> holds the \<open>length\<close> bytes the buffer exposes; \<open>bm_max\<close> is the size of the block
  (0 while \<open>data\<close> is NULL). Bytes between \<open>length\<close> and \<open>max\<close> are cleared before they are exposed.
\<close>

record BUF_MEM =
  bm_data :: bytes
  bm_max :: nat

definition LIMIT_BEFORE_EXPANSION :: nat where
  "LIMIT_BEFORE_EXPANSION = 0x5ffffffc"

definition BUF_MEM_new :: "BUF_MEM" where
  "BUF_MEM_new = \<lparr>bm_data = [], bm_max = 0\<rparr>"

definition BUF_MEM_grow :: "mem_ok \<Rightarrow> nat \<Rightarrow> BUF_MEM \<Rightarrow> nat \<Rightarrow> nat \<times> BUF_MEM" where
  "BUF_MEM_grow ok tick str len =
     (if len \<le> length (bm_data str) then (len, str\<lparr>bm_data := take len (bm_data str)\<rparr>)
      else if len \<le> bm_max str then
        (len, str\<lparr>bm_data := bm_data str @ replicate (len - length (bm_data str)) 0\<rparr>)
      else if LIMIT_BEFORE_EXPANSION < len then (0, str)
      else let n = (len + 3) div 3 * 4 in
        if \<not> ok tick n then (0, str)
        else (len, str\<lparr>bm_data := bm_data str @ replicate (len - length (bm_data str)) 0,
                       bm_max := n\<rparr>))"

section \<open>The packet writer\<close>

record WPACKET_SUB =
  packet_len :: nat
  lenbytes :: nat
  pwritten :: nat
  wflags :: u32

datatype wbuffer = WNull | WStatic bytes | WMem BUF_MEM

record WPACKET =
  wbuf :: wbuffer
  curr :: nat
  written :: nat
  maxsize :: nat
  subs :: "WPACKET_SUB list"  \<comment> \<open>innermost first; \<open>parent\<close> is the rest of the list\<close>
  endfirst :: bool
  wtick :: nat
  corrupt :: bool

definition DEFAULT_BUF_SIZE :: nat where
  "DEFAULT_BUF_SIZE = 256"

abbreviation (input) WPACKET_FLAGS_NON_ZERO_LENGTH :: u32 where
  "WPACKET_FLAGS_NON_ZERO_LENGTH \<equiv> 1"

abbreviation (input) WPACKET_FLAGS_ABANDON_ON_ZERO_LENGTH :: u32 where
  "WPACKET_FLAGS_ABANDON_ON_ZERO_LENGTH \<equiv> 2"

definition GETBUF :: "WPACKET \<Rightarrow> bytes option" where
  "GETBUF p = (case wbuf p of
      WStatic b \<Rightarrow> Some b
    | WMem m \<Rightarrow> if bm_max m = 0 then None else Some (bm_data m)
    | WNull \<Rightarrow> None)"

definition set_buf :: "WPACKET \<Rightarrow> bytes \<Rightarrow> WPACKET" where
  "set_buf p b = p\<lparr>wbuf := (case wbuf p of
      WStatic _ \<Rightarrow> WStatic b | WMem m \<Rightarrow> WMem (m\<lparr>bm_data := b\<rparr>) | WNull \<Rightarrow> WNull)\<rparr>"

text \<open>A store of \<open>bs\<close> at an offset of the buffer (\<open>memcpy\<close>, \<open>memset\<close>); NULL is never stored to.\<close>

definition wstore :: "WPACKET \<Rightarrow> nat \<Rightarrow> bytes \<Rightarrow> WPACKET" where
  "wstore p off bs = (case GETBUF p of
      None \<Rightarrow> p\<lparr>corrupt := True\<rparr>
    | Some b \<Rightarrow> if off + length bs \<le> length b then set_buf p (write_at b off bs)
                else p\<lparr>corrupt := True\<rparr>)"

definition WPACKET_get_curr :: "WPACKET \<Rightarrow> nat option" where
  "WPACKET_get_curr p = (case GETBUF p of
      None \<Rightarrow> None
    | Some _ \<Rightarrow> Some (if endfirst p then size_sub (maxsize p) (curr p) else curr p))"

definition WPACKET_is_null_buf :: "WPACKET \<Rightarrow> bool" where
  "WPACKET_is_null_buf p \<longleftrightarrow> wbuf p = WNull"

text \<open>The new length the writer asks of a buffer of \<open>cap\<close> bytes to hold \<open>len\<close> more.\<close>

definition new_length :: "nat \<Rightarrow> nat \<Rightarrow> nat" where
  "new_length len cap =
     (let reflen = (if cap < len then len else cap)
      in if SIZE_MAX div 2 < reflen then SIZE_MAX
         else if reflen * 2 < DEFAULT_BUF_SIZE then DEFAULT_BUF_SIZE else reflen * 2)"

definition wpacket_ensure :: "mem_ok \<Rightarrow> nat \<Rightarrow> WPACKET \<Rightarrow> bool \<times> WPACKET" where
  "wpacket_ensure ok len p = (case wbuf p of
      WMem m \<Rightarrow>
        if size_sub (length (bm_data m)) (written p) < len then
          (case BUF_MEM_grow ok (wtick p) m (new_length len (length (bm_data m))) of
             (r, m') \<Rightarrow> (r \<noteq> 0, p\<lparr>wbuf := WMem m', wtick := Suc (wtick p)\<rparr>))
        else (True, p)
    | _ \<Rightarrow> (True, p))"

text \<open>The result: success, the reserved position (\<open>None\<close> for NULL), and the packet.\<close>

definition WPACKET_reserve_bytes ::
    "mem_ok \<Rightarrow> nat \<Rightarrow> WPACKET \<Rightarrow> bool \<times> nat option \<times> WPACKET" where
  "WPACKET_reserve_bytes ok len p =
     (if subs p = [] \<or> len = 0 then (False, None, p)
      else if size_sub (maxsize p) (written p) < len then (False, None, p)
      else case wpacket_ensure ok len p of
        (False, p1) \<Rightarrow> (False, None, p1)
      | (True, p1) \<Rightarrow>
          (True, (case WPACKET_get_curr p1 of
                    None \<Rightarrow> None
                  | Some off \<Rightarrow> Some (if endfirst p1 then size_sub off len else off)), p1))"

definition WPACKET_allocate_bytes ::
    "mem_ok \<Rightarrow> nat \<Rightarrow> WPACKET \<Rightarrow> bool \<times> nat option \<times> WPACKET" where
  "WPACKET_allocate_bytes ok len p =
     (case WPACKET_reserve_bytes ok len p of
        (False, a, p1) \<Rightarrow> (False, a, p1)
      | (True, a, p1) \<Rightarrow> (True, a, p1\<lparr>written := written p1 + len, curr := curr p1 + len\<rparr>))"

definition maxmaxsize :: "nat \<Rightarrow> nat" where
  "maxmaxsize lb = (if 8 \<le> lb \<or> lb = 0 then SIZE_MAX else 2 ^ (lb * 8) - 1 + lb)"

definition new_sub :: WPACKET_SUB where
  "new_sub = \<lparr>packet_len = 0, lenbytes = 0, pwritten = 0, wflags = 0\<rparr>"

definition wpacket_intern_init_len :: "mem_ok \<Rightarrow> nat \<Rightarrow> WPACKET \<Rightarrow> bool \<times> WPACKET" where
  "wpacket_intern_init_len ok lb p =
     (let p1 = p\<lparr>curr := 0, written := 0, wtick := Suc (wtick p)\<rparr> in
      if \<not> ok (wtick p) 40 then (False, p1\<lparr>subs := []\<rparr>)
      else if lb = 0 then (True, p1\<lparr>subs := [new_sub]\<rparr>)
      else let p2 = p1\<lparr>subs := [new_sub\<lparr>pwritten := lb, lenbytes := lb\<rparr>]\<rparr> in
        case WPACKET_allocate_bytes ok lb p2 of
          (False, _, p3) \<Rightarrow> (False, p3\<lparr>subs := []\<rparr>)
        | (True, _, p3) \<Rightarrow> (True, p3))"

text \<open>A packet structure as it is before initialisation: only the allocation counter matters.\<close>

definition raw_packet :: "nat \<Rightarrow> WPACKET" where
  "raw_packet t = \<lparr>wbuf = WNull, curr = 0, written = 0, maxsize = 0, subs = [], endfirst = False,
                   wtick = t, corrupt = False\<rparr>"

definition WPACKET_init_static_len :: "mem_ok \<Rightarrow> bytes \<Rightarrow> nat \<Rightarrow> WPACKET \<Rightarrow> bool \<times> WPACKET" where
  "WPACKET_init_static_len ok buf lb p =
     (if length buf = 0 then (False, p)
      else wpacket_intern_init_len ok lb
        (p\<lparr>wbuf := WStatic buf,
           maxsize := (if maxmaxsize lb < length buf then maxmaxsize lb else length buf),
           endfirst := False\<rparr>))"

definition WPACKET_init_der :: "mem_ok \<Rightarrow> bytes \<Rightarrow> WPACKET \<Rightarrow> bool \<times> WPACKET" where
  "WPACKET_init_der ok buf p =
     (if length buf = 0 then (False, p)
      else wpacket_intern_init_len ok 0
        (p\<lparr>wbuf := WStatic buf, maxsize := length buf, endfirst := True\<rparr>))"

definition WPACKET_init_len :: "mem_ok \<Rightarrow> BUF_MEM \<Rightarrow> nat \<Rightarrow> WPACKET \<Rightarrow> bool \<times> WPACKET" where
  "WPACKET_init_len ok buf lb p =
     wpacket_intern_init_len ok lb
       (p\<lparr>wbuf := WMem buf, maxsize := maxmaxsize lb, endfirst := False\<rparr>)"

definition WPACKET_init :: "mem_ok \<Rightarrow> BUF_MEM \<Rightarrow> WPACKET \<Rightarrow> bool \<times> WPACKET" where
  "WPACKET_init ok buf p = WPACKET_init_len ok buf 0 p"

definition WPACKET_init_null :: "mem_ok \<Rightarrow> nat \<Rightarrow> WPACKET \<Rightarrow> bool \<times> WPACKET" where
  "WPACKET_init_null ok lb p =
     wpacket_intern_init_len ok 0
       (p\<lparr>wbuf := WNull, maxsize := maxmaxsize lb, endfirst := False\<rparr>)"

definition WPACKET_init_null_der :: "mem_ok \<Rightarrow> WPACKET \<Rightarrow> bool \<times> WPACKET" where
  "WPACKET_init_null_der ok p =
     wpacket_intern_init_len ok 0
       (p\<lparr>wbuf := WNull, maxsize := SIZE_MAX, endfirst := True\<rparr>)"

definition WPACKET_set_flags :: "u32 \<Rightarrow> WPACKET \<Rightarrow> bool \<times> WPACKET" where
  "WPACKET_set_flags fl p = (case subs p of
      [] \<Rightarrow> (False, p)
    | s # ss \<Rightarrow> (True, p\<lparr>subs := s\<lparr>wflags := fl\<rparr> # ss\<rparr>))"

text \<open>The byte loop of \<open>put_value\<close>: from the last byte to the first, shifting the value.\<close>

fun put_value_loop :: "bytes \<Rightarrow> nat \<Rightarrow> nat \<Rightarrow> nat \<Rightarrow> bytes \<times> nat" where
  "put_value_loop buf off 0 v = (buf, v)"
| "put_value_loop buf off (Suc n) v = put_value_loop (buf[off + n := word_of_nat v]) off n (v div 256)"

definition put_value :: "WPACKET \<Rightarrow> nat option \<Rightarrow> nat \<Rightarrow> nat \<Rightarrow> bool \<times> WPACKET" where
  "put_value p data v len = (case data of
      None \<Rightarrow> (True, p)
    | Some off \<Rightarrow> (case GETBUF p of
        None \<Rightarrow> (False, p\<lparr>corrupt := True\<rparr>)
      | Some b \<Rightarrow>
          if length b < off + len then (False, p\<lparr>corrupt := True\<rparr>)
          else let (b', v') = put_value_loop b off len v in (\<not> 0 < v', set_buf p b')))"

definition WPACKET_put_bytes :: "mem_ok \<Rightarrow> nat \<Rightarrow> nat \<Rightarrow> WPACKET \<Rightarrow> bool \<times> WPACKET" where
  "WPACKET_put_bytes ok val sz p =
     (if 8 < sz then (False, p)
      else case WPACKET_allocate_bytes ok sz p of
        (False, _, p1) \<Rightarrow> (False, p1)
      | (True, a, p1) \<Rightarrow> put_value p1 a val sz)"

text \<open>\<open>while ((tmplen = tmplen >> 8) > 0) numlenbytes++\<close>\<close>

fun num_len_bytes :: "nat \<Rightarrow> nat \<Rightarrow> nat" where
  "num_len_bytes tmplen n = (if 0 < tmplen div 256 then num_len_bytes (tmplen div 256) (Suc n) else n)"

declare num_len_bytes.simps [simp del]

text \<open>
  Closing a sub-packet: \<open>parents\<close> are the sub-packets around \<open>sub\<close>. The abandon branch takes
  the length bytes back; the DER branch (\<open>endfirst\<close>) writes the length after the contents.
\<close>

definition wpacket_close_abandon :: "WPACKET \<Rightarrow> WPACKET_SUB \<Rightarrow> WPACKET" where
  "wpacket_close_abandon p sub =
     (if size_sub (curr p) (lenbytes sub) = packet_len sub
      then p\<lparr>written := size_sub (written p) (lenbytes sub), curr := size_sub (curr p) (lenbytes sub)\<rparr>
      else p)"

definition wpacket_close_der :: "mem_ok \<Rightarrow> nat \<Rightarrow> WPACKET \<Rightarrow> bool \<times> WPACKET" where
  "wpacket_close_der ok packlen p =
     (let n = num_len_bytes packlen 1 in
      case WPACKET_put_bytes ok packlen n p of
        (False, p1) \<Rightarrow> (False, p1)
      | (True, p1) \<Rightarrow>
          if 0x7f < packlen then WPACKET_put_bytes ok (n OR 0x80) 1 p1 else (True, p1))"

definition wpacket_intern_close ::
    "mem_ok \<Rightarrow> WPACKET_SUB \<Rightarrow> WPACKET_SUB list \<Rightarrow> bool \<Rightarrow> WPACKET \<Rightarrow> bool \<times> WPACKET" where
  "wpacket_intern_close ok sub parents doclose p =
     (let packlen = size_sub (written p) (pwritten sub);
          abandon = (packlen = 0 \<and> wflags sub AND WPACKET_FLAGS_ABANDON_ON_ZERO_LENGTH \<noteq> 0)
      in
      if packlen = 0 \<and> wflags sub AND WPACKET_FLAGS_NON_ZERO_LENGTH \<noteq> 0 then (False, p)
      else if abandon \<and> \<not> doclose then (False, p)
      else
        let p1 = (if abandon then wpacket_close_abandon p sub else p);
            sub1 = (if abandon then sub\<lparr>packet_len := 0, lenbytes := 0\<rparr> else sub);
            (r, p2) =
              (if 0 < lenbytes sub1 then
                 (case GETBUF p1 of
                    None \<Rightarrow> (True, p1)
                  | Some _ \<Rightarrow> put_value p1 (Some (packet_len sub1)) packlen (lenbytes sub1))
               else if endfirst p1 \<and> parents \<noteq> [] \<and>
                       (packlen \<noteq> 0 \<or> wflags sub1 AND WPACKET_FLAGS_ABANDON_ON_ZERO_LENGTH = 0)
               then wpacket_close_der ok packlen p1
               else (True, p1))
        in if \<not> r then (False, p2)
           else (True, if doclose then p2\<lparr>subs := parents\<rparr> else p2))"

fun fill_lengths_loop :: "mem_ok \<Rightarrow> WPACKET_SUB list \<Rightarrow> WPACKET \<Rightarrow> bool \<times> WPACKET" where
  "fill_lengths_loop ok [] p = (True, p)"
| "fill_lengths_loop ok (sub # parents) p =
     (case wpacket_intern_close ok sub parents False p of
        (False, p1) \<Rightarrow> (False, p1)
      | (True, p1) \<Rightarrow> fill_lengths_loop ok parents p1)"

definition WPACKET_fill_lengths :: "mem_ok \<Rightarrow> WPACKET \<Rightarrow> bool \<times> WPACKET" where
  "WPACKET_fill_lengths ok p = (if subs p = [] then (False, p) else fill_lengths_loop ok (subs p) p)"

definition WPACKET_close :: "mem_ok \<Rightarrow> WPACKET \<Rightarrow> bool \<times> WPACKET" where
  "WPACKET_close ok p = (case subs p of
      sub # parent # rest \<Rightarrow> wpacket_intern_close ok sub (parent # rest) True p
    | _ \<Rightarrow> (False, p))"

definition WPACKET_finish :: "mem_ok \<Rightarrow> WPACKET \<Rightarrow> bool \<times> WPACKET" where
  "WPACKET_finish ok p = (case subs p of
      [sub] \<Rightarrow> wpacket_intern_close ok sub [] True p
    | _ \<Rightarrow> (False, p))"

definition WPACKET_start_sub_packet_len :: "mem_ok \<Rightarrow> nat \<Rightarrow> WPACKET \<Rightarrow> bool \<times> WPACKET" where
  "WPACKET_start_sub_packet_len ok lb p =
     (if subs p = [] then (False, p)
      else if 0 < lb \<and> endfirst p then (False, p)
      else
        let p1 = p\<lparr>wtick := Suc (wtick p)\<rparr> in
        if \<not> ok (wtick p) 40 then (False, p1)
        else let sub = new_sub\<lparr>pwritten := written p + lb, lenbytes := lb,
                               packet_len := (if lb = 0 then 0 else written p)\<rparr>;
                 p2 = p1\<lparr>subs := sub # subs p\<rparr>
          in if lb = 0 then (True, p2)
             else case WPACKET_allocate_bytes ok lb p2 of (r, _, p3) \<Rightarrow> (r, p3))"

definition WPACKET_start_sub_packet :: "mem_ok \<Rightarrow> WPACKET \<Rightarrow> bool \<times> WPACKET" where
  "WPACKET_start_sub_packet ok p = WPACKET_start_sub_packet_len ok 0 p"

definition WPACKET_set_max_size :: "nat \<Rightarrow> WPACKET \<Rightarrow> bool \<times> WPACKET" where
  "WPACKET_set_max_size m p =
     (if subs p = [] then (False, p)
      else let lb = lenbytes (last (subs p));
               lb = (if lb = 0 then 8 else lb)
        in if maxmaxsize lb < m \<or> m < written p then (False, p)
           else (True, p\<lparr>maxsize := m\<rparr>))"

definition WPACKET_memset :: "mem_ok \<Rightarrow> u8 \<Rightarrow> nat \<Rightarrow> WPACKET \<Rightarrow> bool \<times> WPACKET" where
  "WPACKET_memset ok ch len p =
     (if len = 0 then (True, p)
      else case WPACKET_allocate_bytes ok len p of
        (False, _, p1) \<Rightarrow> (False, p1)
      | (True, None, p1) \<Rightarrow> (True, p1)
      | (True, Some off, p1) \<Rightarrow> (True, wstore p1 off (replicate len ch)))"

definition WPACKET_memcpy :: "mem_ok \<Rightarrow> bytes \<Rightarrow> WPACKET \<Rightarrow> bool \<times> WPACKET" where
  "WPACKET_memcpy ok src p =
     (if length src = 0 then (True, p)
      else case WPACKET_allocate_bytes ok (length src) p of
        (False, _, p1) \<Rightarrow> (False, p1)
      | (True, None, p1) \<Rightarrow> (True, p1)
      | (True, Some off, p1) \<Rightarrow> (True, wstore p1 off src))"

text \<open>The short-circuit sequence \<open>!f(pkt) || !g(pkt)\<close> of the C callers.\<close>

definition wseq :: "('p \<Rightarrow> bool \<times> 'p) \<Rightarrow> ('p \<Rightarrow> bool \<times> 'p) \<Rightarrow> 'p \<Rightarrow> bool \<times> 'p" where
  "wseq f g p = (case f p of (False, p1) \<Rightarrow> (False, p1) | (True, p1) \<Rightarrow> g p1)"

definition WPACKET_sub_memcpy :: "mem_ok \<Rightarrow> bytes \<Rightarrow> nat \<Rightarrow> WPACKET \<Rightarrow> bool \<times> WPACKET" where
  "WPACKET_sub_memcpy ok src lb =
     wseq (WPACKET_start_sub_packet_len ok lb) (wseq (WPACKET_memcpy ok src) (WPACKET_close ok))"

definition WPACKET_sub_allocate_bytes ::
    "mem_ok \<Rightarrow> nat \<Rightarrow> nat \<Rightarrow> WPACKET \<Rightarrow> bool \<times> nat option \<times> WPACKET" where
  "WPACKET_sub_allocate_bytes ok len lb p =
     (case WPACKET_start_sub_packet_len ok lb p of
        (False, p1) \<Rightarrow> (False, None, p1)
      | (True, p1) \<Rightarrow> (case WPACKET_allocate_bytes ok len p1 of
          (False, a, p2) \<Rightarrow> (False, a, p2)
        | (True, a, p2) \<Rightarrow> (case WPACKET_close ok p2 of (r, p3) \<Rightarrow> (r, a, p3))))"

definition WPACKET_sub_reserve_bytes ::
    "mem_ok \<Rightarrow> nat \<Rightarrow> nat \<Rightarrow> WPACKET \<Rightarrow> bool \<times> nat option \<times> WPACKET" where
  "WPACKET_sub_reserve_bytes ok len lb p =
     (if endfirst p \<and> 0 < lb then (False, None, p)
      else case WPACKET_reserve_bytes ok (lb + len) p of
        (False, a, p1) \<Rightarrow> (False, a, p1)
      | (True, a, p1) \<Rightarrow> (True, map_option (\<lambda>off. off + lb) a, p1))"

definition WPACKET_get_total_written :: "WPACKET \<Rightarrow> nat" where
  "WPACKET_get_total_written p = written p"

definition WPACKET_get_length :: "WPACKET \<Rightarrow> nat option" where
  "WPACKET_get_length p = (case subs p of
      [] \<Rightarrow> None
    | s # _ \<Rightarrow> Some (size_sub (written p) (pwritten s)))"

definition WPACKET_cleanup :: "WPACKET \<Rightarrow> WPACKET" where
  "WPACKET_cleanup p = p\<lparr>subs := []\<rparr>"

section \<open>The value writer\<close>

lemma put_value_loop_eq:
  "off + n \<le> length buf \<Longrightarrow>
     put_value_loop buf off n v = (write_at buf off (be_bytes n v), v div 256 ^ n)"
proof (induction n arbitrary: buf v)
  case 0
  then show ?case by (simp add: write_at_def)
next
  case (Suc n)
  let ?b = "buf[off + n := word_of_nat v]"
  have "drop (off + n) ?b = word_of_nat v # drop (Suc (off + n)) buf"
    using Suc.prems by (simp add: upd_conv_take_nth_drop)
  moreover have "take off ?b = take off buf" by simp
  ultimately have "write_at ?b off (be_bytes n (v div 256)) = write_at buf off (be_bytes (Suc n) v)"
    by (simp add: write_at_def)
  then show ?case using Suc by (simp add: div_mult2_eq)
qed

lemma div_power_zero: "(v :: nat) div 256 ^ n = 0 \<longleftrightarrow> v < 256 ^ n"
  by (metis div_eq_0_iff power_not_zero zero_neq_numeral)

section \<open>The invariant of the forward writer\<close>

definition wf_buf :: "BUF_MEM \<Rightarrow> bool" where
  "wf_buf m \<longleftrightarrow> length (bm_data m) \<le> bm_max m \<and> bm_max m \<le> SIZE_MAX"

definition sub_ok :: "nat \<Rightarrow> WPACKET_SUB \<Rightarrow> bool" where
  "sub_ok w s \<longleftrightarrow> pwritten s \<le> w \<and> (0 < lenbytes s \<longrightarrow> packet_len s + lenbytes s = pwritten s)"

text \<open>The bytes of the buffer, and the part of them the packet has written.\<close>

definition wdata :: "WPACKET \<Rightarrow> bytes" where
  "wdata p = (case wbuf p of WStatic b \<Rightarrow> b | WMem m \<Rightarrow> bm_data m | WNull \<Rightarrow> [])"

definition wcontent :: "WPACKET \<Rightarrow> bytes" where
  "wcontent p = take (written p) (wdata p)"

definition buf_inv :: "WPACKET \<Rightarrow> bool" where
  "buf_inv p \<longleftrightarrow> (case wbuf p of
      WStatic b \<Rightarrow> maxsize p \<le> length b
    | WMem m \<Rightarrow> wf_buf m \<and> written p \<le> length (bm_data m)
    | WNull \<Rightarrow> False)"

text \<open>
  A forward writer over a buffer: both counters agree, nothing has been written past the limit
  or outside the buffer, and every open sub-packet has its length field directly before its
  contents.
\<close>

definition wpacket_inv :: "WPACKET \<Rightarrow> bool" where
  "wpacket_inv p \<longleftrightarrow> \<not> corrupt p \<and> \<not> endfirst p \<and> curr p = written p \<and> written p \<le> maxsize p \<and>
     maxsize p \<le> SIZE_MAX \<and> buf_inv p \<and> list_all (sub_ok (written p)) (subs p)"

lemma wpacket_invD:
  assumes "wpacket_inv p"
  shows "\<not> corrupt p" "\<not> endfirst p" "curr p = written p" "written p \<le> maxsize p"
    "maxsize p \<le> SIZE_MAX" "buf_inv p" "list_all (sub_ok (written p)) (subs p)"
    "written p \<le> length (wdata p)"
  using assms by (auto simp: wpacket_inv_def buf_inv_def wdata_def split: wbuffer.splits)

lemma length_wcontent: "wpacket_inv p \<Longrightarrow> length (wcontent p) = written p"
  by (simp add: wcontent_def wpacket_invD(8))

lemma sub_ok_mono: "w \<le> w' \<Longrightarrow> list_all (sub_ok w) ss \<Longrightarrow> list_all (sub_ok w') ss"
  by (erule list.pred_mono_strong) (auto simp: sub_ok_def)

lemma BUF_MEM_grow_spec:
  assumes "wf_buf m" "length (bm_data m) \<le> n" "BUF_MEM_grow ok t m n = (r, m')" "r \<noteq> 0"
  shows "wf_buf m' \<and> bm_data m' = bm_data m @ replicate (n - length (bm_data m)) 0"
proof -
  have le: "n \<le> (n + 3) div 3 * 4" by linarith
  have "(n + 3) div 3 * 4 \<le> 2 * n + 4" by linarith
  then have "(n + 3) div 3 * 4 \<le> SIZE_MAX" if "n \<le> LIMIT_BEFORE_EXPANSION"
    using that by (simp add: LIMIT_BEFORE_EXPANSION_def SIZE_MAX_def)
  with le show ?thesis
    using assms by (auto simp: BUF_MEM_grow_def wf_buf_def Let_def split: if_splits)
qed

text \<open>The new length leaves room for the bytes needed.\<close>

lemma new_length_ge:
  assumes "cap \<le> SIZE_MAX" "w + len \<le> SIZE_MAX" "w \<le> cap"
  shows "cap \<le> new_length len cap \<and> w + len \<le> new_length len cap"
  using assms by (auto simp: new_length_def Let_def)

lemma GETBUF_inv: "wpacket_inv p \<Longrightarrow> 0 < length (wdata p) \<Longrightarrow> GETBUF p = Some (wdata p)"
  by (auto simp: GETBUF_def wpacket_inv_def buf_inv_def wdata_def wf_buf_def split: wbuffer.splits)

lemma wpacket_ensure_spec:
  assumes inv: "wpacket_inv p" and len: "written p + len \<le> maxsize p" "0 < len"
    and r: "wpacket_ensure ok len p = (True, p1)"
  shows "wpacket_inv p1 \<and> written p1 = written p \<and> subs p1 = subs p \<and> maxsize p1 = maxsize p \<and>
     wcontent p1 = wcontent p \<and> written p + len \<le> length (wdata p1)"
proof (cases "wbuf p")
  case WNull
  then show ?thesis using wpacket_invD(6) [OF inv] by (simp add: buf_inv_def)
next
  case (WStatic b)
  then show ?thesis
    using inv len r wpacket_invD(6) [OF inv] by (simp add: wpacket_ensure_def buf_inv_def wdata_def)
next
  case (WMem m)
  then have m: "wf_buf m" "written p \<le> length (bm_data m)" "length (bm_data m) \<le> SIZE_MAX"
    using wpacket_invD(6) [OF inv] by (simp_all add: buf_inv_def wf_buf_def)
  show ?thesis
  proof (cases "length (bm_data m) - written p < len")
    case False
    then show ?thesis using WMem inv m r by (auto simp: wpacket_ensure_def wdata_def)
  next
    case True
    let ?n = "new_length len (length (bm_data m))"
    obtain m' rr where g: "BUF_MEM_grow ok (wtick p) m ?n = (rr, m')" by fastforce
    with True r WMem m have rr: "rr \<noteq> 0" and p1: "p1 = p\<lparr>wbuf := WMem m', wtick := Suc (wtick p)\<rparr>"
      by (simp_all add: wpacket_ensure_def)
    have ge: "length (bm_data m) \<le> ?n" "written p + len \<le> ?n"
      using new_length_ge [OF m(3) _ m(2), of len] len(1) wpacket_invD(5) [OF inv] by auto
    have m': "wf_buf m'" "bm_data m' = bm_data m @ replicate (?n - length (bm_data m)) 0"
      using BUF_MEM_grow_spec [OF m(1) ge(1) g rr] by auto
    have "wpacket_inv p1"
      using wpacket_invD(1-5,7) [OF inv] p1 m' m(2) by (simp add: wpacket_inv_def buf_inv_def)
    then show ?thesis
      using p1 m' m(2) ge WMem by (simp add: wcontent_def wdata_def)
  qed
qed

text \<open>A successful reservation: nothing written changes, and the bytes fit into the buffer.\<close>

lemma WPACKET_reserve_bytes_spec:
  assumes inv: "wpacket_inv p" and r: "WPACKET_reserve_bytes ok len p = (True, a, p1)"
  shows "wpacket_inv p1 \<and> written p1 = written p \<and> subs p1 = subs p \<and> maxsize p1 = maxsize p \<and>
     wcontent p1 = wcontent p \<and> a = Some (written p) \<and> 0 < len \<and> subs p \<noteq> [] \<and>
     written p + len \<le> maxsize p \<and> written p + len \<le> length (wdata p1)"
proof -
  have len: "subs p \<noteq> []" "0 < len" "written p + len \<le> maxsize p"
    using r wpacket_invD(4,5) [OF inv] by (auto simp: WPACKET_reserve_bytes_def split: if_splits)
  have e: "wpacket_ensure ok len p = (True, p1)"
    and a: "a = (case WPACKET_get_curr p1 of
                    None \<Rightarrow> None
                  | Some off \<Rightarrow> Some (if endfirst p1 then size_sub off len else off))"
    using r len by (auto simp: WPACKET_reserve_bytes_def split: if_splits prod.splits bool.splits)
  note S = wpacket_ensure_spec [OF inv len(3,2) e]
  then have "0 < length (wdata p1)" using len(2) by linarith
  then have "a = Some (written p)"
    using a S GETBUF_inv [of p1] wpacket_invD(2,3) [of p1] by (simp add: WPACKET_get_curr_def)
  with S len show ?thesis by simp
qed

lemma WPACKET_allocate_bytes_spec:
  assumes inv: "wpacket_inv p" and r: "WPACKET_allocate_bytes ok len p = (True, a, p1)"
  shows "wpacket_inv p1 \<and> written p1 = written p + len \<and> subs p1 = subs p \<and>
     maxsize p1 = maxsize p \<and> take (written p) (wdata p1) = wcontent p \<and> a = Some (written p)"
proof -
  obtain p0 where p0: "WPACKET_reserve_bytes ok len p = (True, a, p0)"
    and p1: "p1 = p0\<lparr>written := written p0 + len, curr := curr p0 + len\<rparr>"
    using r by (auto simp: WPACKET_allocate_bytes_def split: prod.splits bool.splits)
  note S = WPACKET_reserve_bytes_spec [OF inv p0]
  then have D: "wpacket_inv p0" by simp
  have "buf_inv p1"
    using wpacket_invD(6) [OF D] S p1 by (auto simp: buf_inv_def wdata_def split: wbuffer.splits)
  moreover have "list_all (sub_ok (written p1)) (subs p1)"
    using wpacket_invD(7) [OF D] p1 sub_ok_mono [of "written p0" "written p1"] by simp
  moreover have "written p0 + len \<le> maxsize p0" using S by simp
  ultimately have "wpacket_inv p1"
    using wpacket_invD(1-5) [OF D] by (simp add: wpacket_inv_def p1)
  moreover have "wdata p1 = wdata p0" using p1 by (simp add: wdata_def)
  ultimately show ?thesis using S p1 by (auto simp: wcontent_def)
qed

lemma set_buf_fields [simp]:
  "curr (set_buf p b) = curr p" "written (set_buf p b) = written p" "maxsize (set_buf p b) = maxsize p"
  "subs (set_buf p b) = subs p" "endfirst (set_buf p b) = endfirst p" "wtick (set_buf p b) = wtick p"
  "corrupt (set_buf p b) = corrupt p"
  by (simp_all add: set_buf_def)

lemma set_buf_inv:
  assumes "wpacket_inv p" "length b = length (wdata p)"
  shows "wpacket_inv (set_buf p b)" "wdata (set_buf p b) = b"
  using assms
  by (auto simp: wpacket_inv_def buf_inv_def wdata_def set_buf_def wf_buf_def split: wbuffer.splits)

lemma wstore_spec:
  assumes inv: "wpacket_inv p" and "off + length bs \<le> written p" "bs \<noteq> []"
  shows "wstore p off bs = set_buf p (write_at (wdata p) off bs) \<and> wpacket_inv (wstore p off bs) \<and>
     wdata (wstore p off bs) = write_at (wdata p) off bs"
proof -
  have w: "off + length bs \<le> length (wdata p)" using assms(2) wpacket_invD(8) [OF inv] by simp
  moreover have "GETBUF p = Some (wdata p)" using GETBUF_inv [OF inv] w assms(3) by fastforce
  ultimately have "wstore p off bs = set_buf p (write_at (wdata p) off bs)"
    by (simp add: wstore_def)
  then show ?thesis using set_buf_inv [OF inv] w by simp
qed

lemma put_value_spec:
  assumes inv: "wpacket_inv p" and "off + n \<le> written p" "0 < n"
    and r: "put_value p (Some off) v n = (r, p1)"
  shows "r \<longleftrightarrow> v < 256 ^ n" "wpacket_inv p1" "wdata p1 = write_at (wdata p) off (be_bytes n v)"
    "written p1 = written p" "subs p1 = subs p" "maxsize p1 = maxsize p"
proof -
  have w: "off + n \<le> length (wdata p)" using assms(2) wpacket_invD(8) [OF inv] by simp
  have "GETBUF p = Some (wdata p)" using GETBUF_inv [OF inv] w assms(3) by fastforce
  with r w have "p1 = set_buf p (write_at (wdata p) off (be_bytes n v))" "r \<longleftrightarrow> v div 256 ^ n = 0"
    by (auto simp: put_value_def put_value_loop_eq)
  then show "r \<longleftrightarrow> v < 256 ^ n" "wpacket_inv p1" "wdata p1 = write_at (wdata p) off (be_bytes n v)"
    "written p1 = written p" "subs p1 = subs p" "maxsize p1 = maxsize p"
    using set_buf_inv [OF inv] w by (simp_all add: div_power_zero)
qed

section \<open>What each operation appends\<close>

lemma WPACKET_memcpy_spec:
  assumes inv: "wpacket_inv p" and r: "WPACKET_memcpy ok src p = (True, p1)"
  shows "wpacket_inv p1 \<and> wcontent p1 = wcontent p @ src \<and> subs p1 = subs p"
proof (cases "src = []")
  case True
  with inv r show ?thesis by (simp add: WPACKET_memcpy_def)
next
  case False
  then obtain a p0 where p0: "WPACKET_allocate_bytes ok (length src) p = (True, a, p0)"
    using r by (auto simp: WPACKET_memcpy_def split: prod.splits bool.splits)
  note S = WPACKET_allocate_bytes_spec [OF inv p0]
  then have p1: "p1 = wstore p0 (written p) src" using r p0 False by (simp add: WPACKET_memcpy_def)
  have W: "wpacket_inv p1" "p1 = set_buf p0 (write_at (wdata p0) (written p) src)"
    "wdata p1 = write_at (wdata p0) (written p) src"
    using wstore_spec [of p0 "written p" src] S False p1 by auto
  have "written p \<le> length (wdata p0)" using S wpacket_invD(8) [of p0] by simp
  then have "wcontent p1 = wcontent p @ src"
    using W S take_write_at_end [of "written p" "wdata p0" src] by (simp add: wcontent_def)
  with W S show ?thesis by simp
qed

lemma WPACKET_put_bytes_spec:
  assumes inv: "wpacket_inv p" and r: "WPACKET_put_bytes ok v n p = (True, p1)"
  shows "wpacket_inv p1 \<and> wcontent p1 = wcontent p @ be_bytes n v \<and> subs p1 = subs p \<and> v < 256 ^ n"
proof -
  obtain a p0 where p0: "WPACKET_allocate_bytes ok n p = (True, a, p0)"
    using r by (auto simp: WPACKET_put_bytes_def split: prod.splits bool.splits if_splits)
  note S = WPACKET_allocate_bytes_spec [OF inv p0]
  have n: "0 < n" using p0 inv by (auto simp: WPACKET_allocate_bytes_def WPACKET_reserve_bytes_def
        split: if_splits)
  have pv: "put_value p0 (Some (written p)) v n = (True, p1)"
    using r p0 S by (simp add: WPACKET_put_bytes_def split: if_splits)
  have "wpacket_inv p0" "written p + n \<le> written p0" using S by simp_all
  note P = put_value_spec [OF this n pv]
  have "written p \<le> length (wdata p0)" using S wpacket_invD(8) [of p0] by simp
  then have "wcontent p1 = wcontent p @ be_bytes n v"
    using P S take_write_at_end [of "written p" "wdata p0" "be_bytes n v"] by (simp add: wcontent_def)
  with P S show ?thesis by simp
qed

lemma ensure_subs:
  "wpacket_ensure ok len (p\<lparr>subs := ss\<rparr>) = (case wpacket_ensure ok len p of (r, q) \<Rightarrow> (r, q\<lparr>subs := ss\<rparr>))"
  by (cases "wbuf p") (simp_all add: wpacket_ensure_def split: prod.splits)

lemma get_curr_subs: "WPACKET_get_curr (p\<lparr>subs := ss\<rparr>) = WPACKET_get_curr p"
  by (simp add: WPACKET_get_curr_def GETBUF_def cong: option.case_cong)

lemma allocate_subs:
  assumes "subs p \<noteq> []" "ss \<noteq> []"
  shows "WPACKET_allocate_bytes ok len (p\<lparr>subs := ss\<rparr>) =
     (case WPACKET_allocate_bytes ok len p of (r, a, q) \<Rightarrow> (r, a, q\<lparr>subs := ss\<rparr>))"
  using assms
  by (simp add: WPACKET_allocate_bytes_def WPACKET_reserve_bytes_def ensure_subs get_curr_subs
      split: prod.splits bool.splits cong: option.case_cong)

lemma wpacket_inv_subs:
  "wpacket_inv p \<Longrightarrow> list_all (sub_ok (written p)) ss \<Longrightarrow> wpacket_inv (p\<lparr>subs := ss\<rparr>)"
  by (simp add: wpacket_inv_def buf_inv_def cong: wbuffer.case_cong)

lemma wcontent_subs [simp]: "wcontent (p\<lparr>subs := ss\<rparr>) = wcontent p" "wdata (p\<lparr>subs := ss\<rparr>) = wdata p"
  by (simp_all add: wcontent_def wdata_def)

lemma wpacket_inv_tick [simp]:
  "wpacket_inv (p\<lparr>wtick := t\<rparr>) = wpacket_inv p" "wcontent (p\<lparr>wtick := t\<rparr>) = wcontent p"
  by (simp_all add: wpacket_inv_def buf_inv_def wcontent_def wdata_def cong: wbuffer.case_cong)

lemma WPACKET_start_spec:
  assumes inv: "wpacket_inv p" and r: "WPACKET_start_sub_packet_len ok n p = (True, p1)"
  shows "wpacket_inv p1 \<and> (\<exists>h. length h = n \<and> wcontent p1 = wcontent p @ h) \<and>
     subs p1 = \<lparr>packet_len = (if n = 0 then 0 else written p), lenbytes = n,
                pwritten = written p + n, wflags = 0\<rparr> # subs p \<and> subs p \<noteq> []"
proof -
  have ne: "subs p \<noteq> []" using r by (auto simp: WPACKET_start_sub_packet_len_def)
  let ?q = "p\<lparr>wtick := Suc (wtick p)\<rparr>"
  let ?sub = "\<lparr>packet_len = (if n = 0 then 0 else written p), lenbytes = n,
                pwritten = written p + n, wflags = 0\<rparr>"
  have q: "wpacket_inv ?q" using inv by simp
  show ?thesis
  proof (cases "n = 0")
    case True
    then have "p1 = ?q\<lparr>subs := ?sub # subs p\<rparr>"
      using r ne by (auto simp: WPACKET_start_sub_packet_len_def new_sub_def Let_def split: if_splits)
    moreover have "list_all (sub_ok (written ?q)) (?sub # subs p)"
      using wpacket_invD(7) [OF inv] True by (simp add: sub_ok_def)
    ultimately show ?thesis using wpacket_inv_subs [OF q] True ne by simp
  next
    case False
    then obtain a where "WPACKET_allocate_bytes ok n (?q\<lparr>subs := ?sub # subs p\<rparr>) = (True, a, p1)"
      using r ne by (auto simp: WPACKET_start_sub_packet_len_def new_sub_def Let_def
          split: if_splits prod.splits)
    then obtain q1 where q1: "WPACKET_allocate_bytes ok n ?q = (True, a, q1)"
      and p1: "p1 = q1\<lparr>subs := ?sub # subs p\<rparr>"
      using allocate_subs [of ?q "?sub # subs p" ok n] ne by (auto split: prod.splits)
    note S = WPACKET_allocate_bytes_spec [OF q q1]
    have "list_all (sub_ok (written q1)) (?sub # subs p)"
      using wpacket_invD(7) [of q1] S False by (simp add: sub_ok_def)
    then have "wpacket_inv p1" using S p1 wpacket_inv_subs by simp
    moreover have "wcontent p1 = take (written p) (wdata q1) @ take n (drop (written p) (wdata q1))"
      using S p1 by (simp add: wcontent_def take_add)
    moreover have "length (take n (drop (written p) (wdata q1))) = n"
      using S wpacket_invD(8) [of q1] by simp
    ultimately show ?thesis using S p1 ne by auto
  qed
qed

lemma WPACKET_close_spec:
  assumes inv: "wpacket_inv p" and sub: "subs p = sub # parents" and "wflags sub = 0 \<or> written p \<noteq> pwritten sub"
    and r: "WPACKET_close ok p = (r, p1)" and "parents \<noteq> []"
  shows "r \<longleftrightarrow> (0 < lenbytes sub \<longrightarrow> written p - pwritten sub < 256 ^ lenbytes sub)"
    "r \<Longrightarrow> wpacket_inv p1 \<and> subs p1 = parents \<and> written p1 = written p \<and> maxsize p1 = maxsize p \<and>
       wdata p1 = (if lenbytes sub = 0 then wdata p
                   else write_at (wdata p) (packet_len sub)
                          (be_bytes (lenbytes sub) (written p - pwritten sub)))"
proof -
  note D = wpacket_invD [OF inv]
  have so: "sub_ok (written p) sub" "list_all (sub_ok (written p)) parents"
    using D(7) sub by simp_all
  have pl: "size_sub (written p) (pwritten sub) = written p - pwritten sub"
    using so(1) D(4,5) by (simp add: sub_ok_def)
  have "pwritten sub \<le> written p" using so(1) by (simp add: sub_ok_def)
  then have nz: "wflags sub = 0 \<or> size_sub (written p) (pwritten sub) \<noteq> 0" using assms(3) pl by auto
  obtain par pars where parents: "parents = par # pars" using assms(5) by (cases parents) auto
  have close: "WPACKET_close ok p = wpacket_intern_close ok sub parents True p"
    using sub parents by (simp add: WPACKET_close_def)
  show "r \<longleftrightarrow> (0 < lenbytes sub \<longrightarrow> written p - pwritten sub < 256 ^ lenbytes sub)"
    "r \<Longrightarrow> wpacket_inv p1 \<and> subs p1 = parents \<and> written p1 = written p \<and> maxsize p1 = maxsize p \<and>
       wdata p1 = (if lenbytes sub = 0 then wdata p
                   else write_at (wdata p) (packet_len sub)
                          (be_bytes (lenbytes sub) (written p - pwritten sub)))"
  proof (atomize (full), cases "lenbytes sub = 0")
    case True
    then have "(r, p1) = (True, p\<lparr>subs := parents\<rparr>)"
      using r close nz D(2) by (auto simp: wpacket_intern_close_def Let_def)
    then show "(r = (0 < lenbytes sub \<longrightarrow> written p - pwritten sub < 256 ^ lenbytes sub)) \<and>
      (r \<longrightarrow> wpacket_inv p1 \<and> subs p1 = parents \<and> written p1 = written p \<and> maxsize p1 = maxsize p \<and>
       wdata p1 = (if lenbytes sub = 0 then wdata p
                   else write_at (wdata p) (packet_len sub)
                          (be_bytes (lenbytes sub) (written p - pwritten sub))))"
      using True wpacket_inv_subs [OF inv so(2)] by (simp add: wdata_def)
  next
    case False
    then have lb: "0 < lenbytes sub" and le: "packet_len sub + lenbytes sub \<le> written p"
      using so(1) by (simp_all add: sub_ok_def)
    have "GETBUF p = Some (wdata p)"
      using GETBUF_inv [OF inv] le lb D(8) by linarith
    moreover obtain q rq where q: "put_value p (Some (packet_len sub)) (written p - pwritten sub)
       (lenbytes sub) = (rq, q)" by fastforce
    ultimately have rp: "r = rq" "rq \<Longrightarrow> p1 = q\<lparr>subs := parents\<rparr>"
      using r close nz pl lb by (auto simp: wpacket_intern_close_def Let_def split: if_splits)
    note P = put_value_spec [OF inv le lb q]
    have "wpacket_inv (q\<lparr>subs := parents\<rparr>)" using P(2,4) so(2) by (simp add: wpacket_inv_subs)
    then show "(r = (0 < lenbytes sub \<longrightarrow> written p - pwritten sub < 256 ^ lenbytes sub)) \<and>
      (r \<longrightarrow> wpacket_inv p1 \<and> subs p1 = parents \<and> written p1 = written p \<and> maxsize p1 = maxsize p \<and>
       wdata p1 = (if lenbytes sub = 0 then wdata p
                   else write_at (wdata p) (packet_len sub)
                          (be_bytes (lenbytes sub) (written p - pwritten sub))))"
      using rp P lb by (auto simp: wdata_def)
  qed
qed

section \<open>The writer as a byte sink\<close>

text \<open>
  What a client of the writer relies on: a sub-packet opened by \<open>start n\<close>, filled with \<open>d\<close> and
  closed, adds the \<open>n\<close>-byte length of \<open>d\<close> and \<open>d\<close>. From this law the bytes of any
  composition of writes follow by its structure.
\<close>

locale byte_writer =
  fixes inv :: "'p \<Rightarrow> bool"
    and content :: "'p \<Rightarrow> bytes"
    and frames :: "'p \<Rightarrow> 'f list"
    and start :: "nat \<Rightarrow> 'p \<Rightarrow> bool \<times> 'p"
    and close :: "'p \<Rightarrow> bool \<times> 'p"
  assumes start_inv: "inv p \<Longrightarrow> start n p = (True, p1) \<Longrightarrow> inv p1"
    and start_close: "inv p \<Longrightarrow> 0 < n \<Longrightarrow> start n p = (True, p1) \<Longrightarrow> inv p2 \<Longrightarrow>
       content p2 = content p1 @ d \<Longrightarrow> frames p2 = frames p1 \<Longrightarrow> close p2 = (True, p3) \<Longrightarrow>
       inv p3 \<and> content p3 = content p @ put_prefixed n d \<and> frames p3 = frames p \<and> fits_prefix n d"
begin

text \<open>\<open>f\<close>, when it succeeds, appends exactly \<open>d\<close> and leaves the open sub-packets as they are.\<close>

definition appends :: "('p \<Rightarrow> bool \<times> 'p) \<Rightarrow> bytes \<Rightarrow> bool" where
  "appends f d \<longleftrightarrow> (\<forall>p p1. inv p \<longrightarrow> f p = (True, p1) \<longrightarrow>
     inv p1 \<and> content p1 = content p @ d \<and> frames p1 = frames p)"

lemma appendsI:
  "(\<And>p p1. inv p \<Longrightarrow> f p = (True, p1) \<Longrightarrow> inv p1 \<and> content p1 = content p @ d \<and> frames p1 = frames p)
   \<Longrightarrow> appends f d"
  by (simp add: appends_def)

lemma appendsD:
  "appends f d \<Longrightarrow> inv p \<Longrightarrow> f p = (True, p1) \<Longrightarrow> inv p1 \<and> content p1 = content p @ d \<and> frames p1 = frames p"
  by (simp add: appends_def)

lemma appends_skip: "appends (Pair True) []"
  by (simp add: appends_def)

lemma appends_seq:
  assumes "appends f d" "appends g e"
  shows "appends (wseq f g) (d @ e)"
proof (rule appendsI)
  fix p p2
  assume inv: "inv p" and run: "wseq f g p = (True, p2)"
  then obtain p1 where p1: "f p = (True, p1)" and p2: "g p1 = (True, p2)"
    by (auto simp: wseq_def split: prod.splits bool.splits)
  have F: "inv p1 \<and> content p1 = content p @ d \<and> frames p1 = frames p"
    using assms(1) inv p1 by (rule appendsD)
  then have "inv p1" by simp
  with assms(2) have "inv p2 \<and> content p2 = content p1 @ e \<and> frames p2 = frames p1"
    using p2 by (rule appendsD)
  with F show "inv p2 \<and> content p2 = content p @ d @ e \<and> frames p2 = frames p" by simp
qed

lemma appends_sub:
  assumes "0 < n" "appends f d"
  shows "appends (wseq (start n) (wseq f close)) (put_prefixed n d)"
proof (rule appendsI)
  fix p p3
  assume inv: "inv p" and run: "wseq (start n) (wseq f close) p = (True, p3)"
  then obtain p1 p2 where p1: "start n p = (True, p1)" and p2: "f p1 = (True, p2)"
    and p3: "close p2 = (True, p3)"
    by (auto simp: wseq_def split: prod.splits bool.splits)
  from inv p1 have "inv p1" by (rule start_inv)
  with assms(2) p2 have "inv p2" "content p2 = content p1 @ d" "frames p2 = frames p1"
    by (auto dest: appendsD)
  then show "inv p3 \<and> content p3 = content p @ put_prefixed n d \<and> frames p3 = frames p"
    using start_close [OF inv assms(1) p1 _ _ _ p3] by blast
qed

lemma sub_fits:
  assumes "0 < n" "appends f d" "inv p" "wseq (start n) (wseq f close) p = (True, p3)"
  shows "fits_prefix n d"
proof -
  obtain p1 p2 where p1: "start n p = (True, p1)" and p2: "f p1 = (True, p2)" and p3: "close p2 = (True, p3)"
    using assms(4) by (auto simp: wseq_def split: prod.splits bool.splits)
  have "inv p1" using assms(3) p1 by (rule start_inv)
  then have "inv p2 \<and> content p2 = content p1 @ d \<and> frames p2 = frames p1" by (rule appendsD [OF assms(2) _ p2])
  then show ?thesis using start_close [OF assms(3,1) p1 _ _ _ p3] by blast
qed

end

lemma write_at_prefix:
  "length h = n \<Longrightarrow> length b = n \<Longrightarrow> write_at (c @ h @ d) (length c) b = c @ b @ d"
  by (simp add: write_at_def)

text \<open>A sub-packet with flags, which matter only when it is empty, and one without.\<close>

lemma WPACKET_start_close_flags:
  assumes inv: "wpacket_inv p" and n: "0 < n" and st: "WPACKET_start_sub_packet_len ok n p = (True, p1)"
    and p2: "wpacket_inv p2" "wcontent p2 = wcontent p1 @ d" "subs p2 = (hd (subs p1))\<lparr>wflags := fl\<rparr> # tl (subs p1)"
    and fl: "fl = 0 \<or> d \<noteq> []" and cl: "WPACKET_close ok p2 = (r, p3)"
  shows "r \<longleftrightarrow> fits_prefix n d"
    "r \<Longrightarrow> wpacket_inv p3 \<and> wcontent p3 = wcontent p @ put_prefixed n d \<and> subs p3 = subs p"
proof -
  let ?sub = "\<lparr>packet_len = written p, lenbytes = n, pwritten = written p + n, wflags = fl\<rparr>"
  from WPACKET_start_spec [OF inv st] n obtain h where h: "length h = n" "wcontent p1 = wcontent p @ h"
    and subs: "subs p2 = ?sub # subs p" "subs p \<noteq> []" using p2(3) by auto
  have "written p2 = length (wcontent p2)" using length_wcontent [OF p2(1)] by simp
  then have w: "written p2 = written p + n + length d"
    using p2(2) h length_wcontent [OF inv] by simp
  then have fs: "wflags ?sub = 0 \<or> written p2 \<noteq> pwritten ?sub" using fl by auto
  note C = WPACKET_close_spec [OF p2(1) subs(1) fs cl subs(2)]
  show "r \<longleftrightarrow> fits_prefix n d" using C(1) n w by (simp add: fits_prefix_def)
  assume r: r
  have "wcontent p3 = take (written p2) (write_at (wdata p2) (written p) (be_bytes n (length d)))"
    using C(2) [OF r] n w by (simp add: wcontent_def)
  also have "\<dots> = write_at (wcontent p2) (written p) (be_bytes n (length d))"
    using take_write_at_inside [of "written p" "be_bytes n (length d)" "written p2" "wdata p2"]
      wpacket_invD(8) [OF p2(1)] w by (simp add: wcontent_def)
  also have "\<dots> = wcontent p @ put_prefixed n d"
    using write_at_prefix [OF h(1), of "be_bytes n (length d)" "wcontent p" d] p2(2) h
      length_wcontent [OF inv] by (simp add: put_prefixed_def)
  finally show "wpacket_inv p3 \<and> wcontent p3 = wcontent p @ put_prefixed n d \<and> subs p3 = subs p"
    using C(2) [OF r] by simp
qed

lemma WPACKET_start_close:
  assumes inv: "wpacket_inv p" and n: "0 < n" and st: "WPACKET_start_sub_packet_len ok n p = (True, p1)"
    and p2: "wpacket_inv p2" "wcontent p2 = wcontent p1 @ d" "subs p2 = subs p1"
    and cl: "WPACKET_close ok p2 = (r, p3)"
  shows "r \<longleftrightarrow> fits_prefix n d"
    "r \<Longrightarrow> wpacket_inv p3 \<and> wcontent p3 = wcontent p @ put_prefixed n d \<and> subs p3 = subs p"
proof -
  have "subs p2 = (hd (subs p1))\<lparr>wflags := 0\<rparr> # tl (subs p1)" using WPACKET_start_spec [OF inv st] p2(3) by auto
  note W = WPACKET_start_close_flags [OF inv n st p2(1,2) this _ cl]
  show "r \<longleftrightarrow> fits_prefix n d" by (rule W(1)) simp
  show "r \<Longrightarrow> wpacket_inv p3 \<and> wcontent p3 = wcontent p @ put_prefixed n d \<and> subs p3 = subs p" by (rule W(2)) simp_all
qed

interpretation wp: byte_writer wpacket_inv wcontent subs "WPACKET_start_sub_packet_len ok" "WPACKET_close ok"
  for ok
proof unfold_locales
  show "wpacket_inv p \<Longrightarrow> WPACKET_start_sub_packet_len ok n p = (True, p1) \<Longrightarrow> wpacket_inv p1" for n p p1
    using WPACKET_start_spec by blast
next
  fix p n p1 p2 d p3
  assume "wpacket_inv p" "0 < n" "WPACKET_start_sub_packet_len ok n p = (True, p1)" "wpacket_inv p2"
    "wcontent p2 = wcontent p1 @ d" "subs p2 = subs p1" "WPACKET_close ok p2 = (True, p3)"
  note W = WPACKET_start_close [OF this]
  show "wpacket_inv p3 \<and> wcontent p3 = wcontent p @ put_prefixed n d \<and> subs p3 = subs p \<and> fits_prefix n d"
    using W(1) W(2) [OF TrueI] by simp
qed

lemma memcpy_appends: "wp.appends (WPACKET_memcpy ok src) src"
  by (rule wp.appendsI) (rule WPACKET_memcpy_spec)

lemma put_bytes_appends: "wp.appends (WPACKET_put_bytes ok v n) (be_bytes n v)"
  by (rule wp.appendsI) (use WPACKET_put_bytes_spec in blast)

lemma sub_memcpy_appends:
  "0 < lb \<Longrightarrow> wp.appends (WPACKET_sub_memcpy ok src lb) (put_prefixed lb src)"
  unfolding WPACKET_sub_memcpy_def by (rule wp.appends_sub [OF _ memcpy_appends])

lemma sub_memcpy_fits:
  "0 < lb \<Longrightarrow> wpacket_inv p \<Longrightarrow> WPACKET_sub_memcpy ok src lb p = (True, p1) \<Longrightarrow> fits_prefix lb src"
  unfolding WPACKET_sub_memcpy_def by (rule wp.sub_fits [OF _ memcpy_appends])

section \<open>Success when there is room\<close>

text \<open>The bytes that can be written without growing the buffer.\<close>

definition wspace :: "WPACKET \<Rightarrow> nat" where
  "wspace p = min (maxsize p) (length (wdata p)) - written p"

lemma allocate_room:
  assumes inv: "wpacket_inv p" and "subs p \<noteq> []" "0 < len" "len \<le> wspace p"
  shows "WPACKET_allocate_bytes ok len p =
     (True, Some (written p), p\<lparr>written := written p + len, curr := curr p + len\<rparr>)"
proof -
  note D = wpacket_invD [OF inv]
  have le: "written p + len \<le> maxsize p" "written p + len \<le> length (wdata p)"
    using assms(3,4) by (auto simp: wspace_def)
  have m: "written p \<le> length (bm_data m) \<and> length (bm_data m) \<le> SIZE_MAX" if "wbuf p = WMem m" for m
    using D(6) that by (simp add: buf_inv_def wf_buf_def)
  have "wpacket_ensure ok len p = (True, p)"
  proof (cases "wbuf p")
    case (WMem m)
    then have "len \<le> length (bm_data m) - written p" using le by (simp add: wdata_def)
    then show ?thesis using m [OF WMem] WMem by (simp add: wpacket_ensure_def)
  qed (simp_all add: wpacket_ensure_def)
  moreover have "GETBUF p = Some (wdata p)"
    using GETBUF_inv [OF inv] assms(3) le(2) by linarith
  ultimately show ?thesis
    using assms le D(2-5)
    by (simp add: WPACKET_allocate_bytes_def WPACKET_reserve_bytes_def WPACKET_get_curr_def)
qed

text \<open>
  The total contract: with room for the bytes every write succeeds and uses up exactly its
  bytes. It extends the sink's contract, so the bytes written are known as well.
\<close>

locale total_writer = byte_writer inv content frames start close
  for inv :: "'p \<Rightarrow> bool" and content :: "'p \<Rightarrow> bytes" and frames :: "'p \<Rightarrow> 'f list"
    and start :: "nat \<Rightarrow> 'p \<Rightarrow> bool \<times> 'p" and close :: "'p \<Rightarrow> bool \<times> 'p" +
  fixes space :: "'p \<Rightarrow> nat"
  assumes start_total: "inv p \<Longrightarrow> frames p \<noteq> [] \<Longrightarrow> 0 < n \<Longrightarrow> n \<le> space p \<Longrightarrow>
       \<exists>p1. start n p = (True, p1) \<and> space p1 = space p - n \<and> frames p1 \<noteq> []"
    and close_total: "inv p \<Longrightarrow> 0 < n \<Longrightarrow> start n p = (True, p1) \<Longrightarrow> inv p2 \<Longrightarrow>
       content p2 = content p1 @ d \<Longrightarrow> frames p2 = frames p1 \<Longrightarrow> fits_prefix n d \<Longrightarrow>
       \<exists>p3. close p2 = (True, p3) \<and> space p3 = space p2"
begin

definition succeeds :: "('p \<Rightarrow> bool \<times> 'p) \<Rightarrow> nat \<Rightarrow> bool" where
  "succeeds f k \<longleftrightarrow> (\<forall>p. inv p \<longrightarrow> frames p \<noteq> [] \<longrightarrow> k \<le> space p \<longrightarrow>
     (\<exists>p1. f p = (True, p1) \<and> space p1 = space p - k))"

lemma succeedsD:
  assumes "succeeds f k" "inv p" "frames p \<noteq> []" "k \<le> space p"
  obtains p1 where "f p = (True, p1)" "space p1 = space p - k"
  using assms by (auto simp: succeeds_def)

lemma succeeds_skip: "succeeds (Pair True) 0"
  by (simp add: succeeds_def)

lemma succeeds_seq:
  assumes f: "appends f d" "succeeds f j" and g: "succeeds g k"
  shows "succeeds (wseq f g) (j + k)"
  unfolding succeeds_def
proof (intro allI impI)
  fix p
  assume p: "inv p" "frames p \<noteq> []" "j + k \<le> space p"
  then have j: "j \<le> space p" by simp
  obtain p1 where p1: "f p = (True, p1)" "space p1 = space p - j"
    by (rule succeedsD [OF f(2) p(1,2) j])
  have F: "inv p1" "frames p1 \<noteq> []" using appendsD [OF f(1) p(1) p1(1)] p(2) by simp_all
  have k: "k \<le> space p1" using p(3) p1(2) by simp
  obtain p2 where "g p1 = (True, p2)" "space p2 = space p1 - k"
    by (rule succeedsD [OF g F k])
  with p1 show "\<exists>p1. wseq f g p = (True, p1) \<and> space p1 = space p - (j + k)"
    by (simp add: wseq_def)
qed

lemma succeeds_sub:
  assumes n: "0 < n" and f: "appends f d" "succeeds f k" and d: "fits_prefix n d"
  shows "succeeds (wseq (start n) (wseq f close)) (n + k)"
  unfolding succeeds_def
proof (intro allI impI)
  fix p
  assume p: "inv p" "frames p \<noteq> []" "n + k \<le> space p"
  then obtain p1 where p1: "start n p = (True, p1)" "space p1 = space p - n" "frames p1 \<noteq> []"
    using start_total [OF p(1,2) n] by auto
  have i1: "inv p1" using p(1) p1(1) by (rule start_inv)
  have k: "k \<le> space p1" using p(3) p1(2) by simp
  obtain p2 where p2: "f p1 = (True, p2)" "space p2 = space p1 - k"
    by (rule succeedsD [OF f(2) i1 p1(3) k])
  have "inv p2" "content p2 = content p1 @ d" "frames p2 = frames p1"
    using appendsD [OF f(1) i1 p2(1)] by simp_all
  then obtain p3 where "close p2 = (True, p3)" "space p3 = space p2"
    using close_total [OF p(1) n p1(1) _ _ _ d] by blast
  with p1 p2 show "\<exists>p1. wseq (start n) (wseq f close) p = (True, p1) \<and> space p1 = space p - (n + k)"
    by (simp add: wseq_def)
qed

end

abbreviation mem_always :: mem_ok where
  "mem_always \<equiv> \<lambda>_ _. True"

lemma wspace_same:
  assumes "wdata p' = wdata p \<or> length (wdata p') = length (wdata p)" "maxsize p' = maxsize p"
  shows "wspace p' = min (maxsize p) (length (wdata p)) - written p'"
  using assms by (auto simp: wspace_def)

lemma start_room:
  assumes inv: "wpacket_inv p" and "subs p \<noteq> []" "0 < n" "n \<le> wspace p"
  shows "\<exists>p1. WPACKET_start_sub_packet_len mem_always n p = (True, p1) \<and> wspace p1 = wspace p - n \<and> subs p1 \<noteq> []"
proof -
  let ?q = "p\<lparr>wtick := Suc (wtick p)\<rparr>"
  have sp: "wspace ?q = wspace p" by (simp add: wspace_def wdata_def)
  have al: "WPACKET_allocate_bytes mem_always n (?q\<lparr>subs := s # subs p\<rparr>) =
      (True, Some (written p), ?q\<lparr>subs := s # subs p, written := written p + n, curr := curr p + n\<rparr>)" for s
    using allocate_subs [of ?q "s # subs p" mem_always n] allocate_room [of ?q n mem_always] assms sp by simp
  show ?thesis
    using assms wpacket_invD(2) [OF inv] al
    by (auto simp: WPACKET_start_sub_packet_len_def Let_def wspace_def wdata_def)
qed

lemma close_room:
  assumes inv: "wpacket_inv p" and n: "0 < n"
    and st: "WPACKET_start_sub_packet_len ok n p = (True, p1)"
    and p2: "wpacket_inv p2" "wcontent p2 = wcontent p1 @ d" "subs p2 = subs p1" and d: "fits_prefix n d"
  shows "\<exists>p3. WPACKET_close ok p2 = (True, p3) \<and> wspace p3 = wspace p2"
proof -
  obtain r p3 where cl: "WPACKET_close ok p2 = (r, p3)" by fastforce
  note S = WPACKET_start_spec [OF inv st]
  have r: r using WPACKET_start_close(1) [OF inv n st p2 cl] d by simp
  let ?sub = "\<lparr>packet_len = written p, lenbytes = n, pwritten = written p + n, wflags = 0\<rparr>"
  have sub: "subs p2 = ?sub # subs p" "subs p \<noteq> []" "wflags ?sub = 0 \<or> written p2 \<noteq> pwritten ?sub" using S p2(3) n by simp_all
  note C = WPACKET_close_spec(2) [OF p2(1) sub(1,3) cl sub(2) r]
  have "packet_len ?sub + n \<le> length (wdata p2)"
    using wpacket_invD(7,8) [OF p2(1)] sub(1) n by (simp add: sub_ok_def)
  then have "length (wdata p3) = length (wdata p2)" using C n by simp
  then have "wspace p3 = wspace p2" using C by (simp add: wspace_def)
  then show ?thesis using cl r by simp
qed

interpretation wpt: total_writer wpacket_inv wcontent subs
  "WPACKET_start_sub_packet_len mem_always" "WPACKET_close mem_always" wspace
proof unfold_locales
  fix p n
  assume "wpacket_inv p" "subs p \<noteq> []" "0 < n" "n \<le> wspace p"
  then show "\<exists>p1. WPACKET_start_sub_packet_len mem_always n p = (True, p1) \<and> wspace p1 = wspace p - n \<and> subs p1 \<noteq> []"
    by (rule start_room)
next
  fix p n p1 p2 d
  assume "wpacket_inv p" "0 < n" "WPACKET_start_sub_packet_len mem_always n p = (True, p1)" "wpacket_inv p2"
    "wcontent p2 = wcontent p1 @ d" "subs p2 = subs p1" "fits_prefix n d"
  then show "\<exists>p3. WPACKET_close mem_always p2 = (True, p3) \<and> wspace p3 = wspace p2"
    by (rule close_room)
qed

lemma memcpy_succeeds: "wpt.succeeds (WPACKET_memcpy mem_always src) (length src)"
  unfolding wpt.succeeds_def
proof (intro allI impI)
  fix p
  assume inv: "wpacket_inv p" and "subs p \<noteq> []" "length src \<le> wspace p"
  show "\<exists>p1. WPACKET_memcpy mem_always src p = (True, p1) \<and> wspace p1 = wspace p - length src"
  proof (cases "src = []")
    case False
    let ?q = "p\<lparr>written := written p + length src, curr := curr p + length src\<rparr>"
    have al: "WPACKET_allocate_bytes mem_always (length src) p = (True, Some (written p), ?q)"
      using allocate_room [OF inv, of "length src"] False \<open>subs p \<noteq> []\<close> \<open>length src \<le> wspace p\<close> by simp
    have q: "wpacket_inv ?q" using WPACKET_allocate_bytes_spec [OF inv al] by simp
    have le: "written p + length src \<le> written ?q" "src \<noteq> []" using False by simp_all
    note W = wstore_spec [OF q le]
    note w = W [THEN conjunct1] W [THEN conjunct2, THEN conjunct2]
    have "length (wdata (wstore ?q (written p) src)) = length (wdata p)"
      using w wpacket_invD(8) [OF q] by (simp add: wdata_def)
    then show ?thesis
      using al False w(1) by (simp add: WPACKET_memcpy_def wspace_def)
  qed (simp add: WPACKET_memcpy_def)
qed

lemma put_bytes_succeeds:
  assumes "v < 256 ^ n" "0 < n" "n \<le> 8"
  shows "wpt.succeeds (WPACKET_put_bytes mem_always v n) n"
  unfolding wpt.succeeds_def
proof (intro allI impI)
  fix p
  assume inv: "wpacket_inv p" and "subs p \<noteq> []" "n \<le> wspace p"
  let ?q = "p\<lparr>written := written p + n, curr := curr p + n\<rparr>"
  have al: "WPACKET_allocate_bytes mem_always n p = (True, Some (written p), ?q)"
    using allocate_room [OF inv, of n] assms(2) \<open>subs p \<noteq> []\<close> \<open>n \<le> wspace p\<close> by simp
  have q: "wpacket_inv ?q" using WPACKET_allocate_bytes_spec [OF inv al] by simp
  obtain r p1 where pv: "put_value ?q (Some (written p)) v n = (r, p1)" by fastforce
  have le: "written p + n \<le> written ?q" by simp
  note P = put_value_spec [OF q le assms(2) pv]
  have "length (wdata p1) = length (wdata p)"
    using P(3) wpacket_invD(8) [OF q] by (simp add: wdata_def)
  then show "\<exists>p1. WPACKET_put_bytes mem_always v n p = (True, p1) \<and> wspace p1 = wspace p - n"
    using al pv P assms by (simp add: WPACKET_put_bytes_def wspace_def)
qed

lemma sub_memcpy_succeeds:
  "0 < lb \<Longrightarrow> length src < 256 ^ lb \<Longrightarrow> wpt.succeeds (WPACKET_sub_memcpy mem_always src lb) (lb + length src)"
  unfolding WPACKET_sub_memcpy_def
  by (rule wpt.succeeds_sub [OF _ memcpy_appends memcpy_succeeds]) (simp_all add: fits_prefix_def)

end
