(* ===== verification/Ssl_State.thy ===== *)
theory Ssl_State
  imports Process_World Wpacket
begin

text \<open>
  The connection object: the enumerations of \<^verbatim>\<open>ssl.h\<close>, \<^verbatim>\<open>statem.h\<close> and \<^verbatim>\<open>ssl_local.h\<close>, the part of
  \<open>struct ssl_st\<close> the handshake and the IEEE 1609.2 code read and write, the fatal error
  reporting of \<^verbatim>\<open>statem.c\<close> and its small accessors. The session pointer is taken to be set, as it
  is from the first hello on; flag words keep their width and their bits.
\<close>

section \<open>Enumerations\<close>

datatype OSSL_HANDSHAKE_STATE =
    TLS_ST_BEFORE | TLS_ST_OK | DTLS_ST_CR_HELLO_VERIFY_REQUEST | TLS_ST_CR_SRVR_HELLO
  | TLS_ST_CR_CERT | TLS_ST_CR_CERT_STATUS | TLS_ST_CR_KEY_EXCH | TLS_ST_CR_CERT_REQ
  | TLS_ST_CR_SRVR_DONE | TLS_ST_CR_SESSION_TICKET | TLS_ST_CR_CHANGE | TLS_ST_CR_FINISHED
  | TLS_ST_CW_CLNT_HELLO | TLS_ST_CW_CERT | TLS_ST_CW_KEY_EXCH | TLS_ST_CW_CERT_VRFY
  | TLS_ST_CW_CHANGE | TLS_ST_CW_NEXT_PROTO | TLS_ST_CW_FINISHED | TLS_ST_SW_HELLO_REQ
  | TLS_ST_SR_CLNT_HELLO | DTLS_ST_SW_HELLO_VERIFY_REQUEST | TLS_ST_SW_SRVR_HELLO
  | TLS_ST_SW_CERT | TLS_ST_SW_KEY_EXCH | TLS_ST_SW_CERT_REQ | TLS_ST_SW_SRVR_DONE
  | TLS_ST_SR_CERT | TLS_ST_SR_KEY_EXCH | TLS_ST_SR_CERT_VRFY | TLS_ST_SR_NEXT_PROTO
  | TLS_ST_SR_CHANGE | TLS_ST_SR_FINISHED | TLS_ST_SW_SESSION_TICKET | TLS_ST_SW_CERT_STATUS
  | TLS_ST_SW_CHANGE | TLS_ST_SW_FINISHED | TLS_ST_SW_ENCRYPTED_EXTENSIONS
  | TLS_ST_CR_ENCRYPTED_EXTENSIONS | TLS_ST_CR_CERT_VRFY | TLS_ST_SW_CERT_VRFY
  | TLS_ST_CR_HELLO_REQ | TLS_ST_SW_KEY_UPDATE | TLS_ST_CW_KEY_UPDATE | TLS_ST_SR_KEY_UPDATE
  | TLS_ST_CR_KEY_UPDATE | TLS_ST_EARLY_DATA | TLS_ST_PENDING_EARLY_DATA_END
  | TLS_ST_CW_END_OF_EARLY_DATA | TLS_ST_SR_END_OF_EARLY_DATA

datatype WORK_STATE = WORK_ERROR | WORK_FINISHED_STOP | WORK_FINISHED_CONTINUE
  | WORK_MORE_A | WORK_MORE_B | WORK_MORE_C

datatype WRITE_TRAN = WRITE_TRAN_ERROR | WRITE_TRAN_CONTINUE | WRITE_TRAN_FINISHED

datatype MSG_FLOW_STATE = MSG_FLOW_UNINITED | MSG_FLOW_ERROR | MSG_FLOW_READING
  | MSG_FLOW_WRITING | MSG_FLOW_FINISHED

datatype READ_STATE = READ_STATE_HEADER | READ_STATE_BODY | READ_STATE_POST_PROCESS

datatype WRITE_STATE = WRITE_STATE_TRANSITION | WRITE_STATE_PRE_WORK | WRITE_STATE_SEND
  | WRITE_STATE_POST_WORK

datatype ENC_WRITE_STATES = ENC_WRITE_STATE_VALID | ENC_WRITE_STATE_INVALID
  | ENC_WRITE_STATE_WRITE_PLAIN_ALERTS

datatype ENC_READ_STATES = ENC_READ_STATE_VALID | ENC_READ_STATE_ALLOW_PLAIN_ALERTS

datatype MSG_PROCESS_RETURN = MSG_PROCESS_ERROR | MSG_PROCESS_FINISHED_READING
  | MSG_PROCESS_CONTINUE_PROCESSING | MSG_PROCESS_CONTINUE_READING

datatype SSL_PHA_STATE = SSL_PHA_NONE | SSL_PHA_EXT_SENT | SSL_PHA_EXT_RECEIVED
  | SSL_PHA_REQUEST_PENDING | SSL_PHA_REQUESTED

datatype SSL_EARLY_DATA_STATE = SSL_EARLY_DATA_NONE | SSL_EARLY_DATA_CONNECT_RETRY
  | SSL_EARLY_DATA_CONNECTING | SSL_EARLY_DATA_WRITE_RETRY | SSL_EARLY_DATA_WRITING
  | SSL_EARLY_DATA_WRITE_FLUSH | SSL_EARLY_DATA_UNAUTH_WRITING | SSL_EARLY_DATA_FINISHED_WRITING
  | SSL_EARLY_DATA_ACCEPT_RETRY | SSL_EARLY_DATA_ACCEPTING | SSL_EARLY_DATA_READ_RETRY
  | SSL_EARLY_DATA_READING | SSL_EARLY_DATA_FINISHED_READING

datatype SSL_HRR_STATE = SSL_HRR_NONE | SSL_HRR_PENDING | SSL_HRR_COMPLETE

datatype EXT_EARLY_DATA = SSL_EARLY_DATA_NOT_SENT | SSL_EARLY_DATA_REJECTED | SSL_EARLY_DATA_ACCEPTED

datatype ALERT = SSL_AD_NO_ALERT | SSL_AD_UNEXPECTED_MESSAGE | SSL_AD_HANDSHAKE_FAILURE
  | SSL_AD_BAD_CERTIFICATE | SSL_AD_ILLEGAL_PARAMETER | SSL_AD_DECODE_ERROR | SSL_AD_DECRYPT_ERROR
  | SSL_AD_PROTOCOL_VERSION | SSL_AD_INSUFFICIENT_SECURITY | SSL_AD_INTERNAL_ERROR
  | SSL_AD_CERTIFICATE_REQUIRED | SSL_AD_UNSUPPORTED_EXTENSION | SSL_AD_UNKNOWN_CA
  | SSL_AD_CERTIFICATE_EXPIRED | SSL_AD_CERTIFICATE_REVOKED | SSL_AD_CERTIFICATE_UNKNOWN
  | SSL_AD_UNSUPPORTED_CERTIFICATE | SSL_AD_CODE int

datatype RWSTATE = SSL_NOTHING | SSL_WRITING | SSL_READING | SSL_RETRY_VERIFY

section \<open>Message types and flag bits\<close>

abbreviation (input) SSL3_MT_HELLO_REQUEST :: nat where "SSL3_MT_HELLO_REQUEST \<equiv> 0"
abbreviation (input) SSL3_MT_CLIENT_HELLO :: nat where "SSL3_MT_CLIENT_HELLO \<equiv> 1"
abbreviation (input) SSL3_MT_SERVER_HELLO :: nat where "SSL3_MT_SERVER_HELLO \<equiv> 2"
abbreviation (input) DTLS1_MT_HELLO_VERIFY_REQUEST :: nat where "DTLS1_MT_HELLO_VERIFY_REQUEST \<equiv> 3"
abbreviation (input) SSL3_MT_NEWSESSION_TICKET :: nat where "SSL3_MT_NEWSESSION_TICKET \<equiv> 4"
abbreviation (input) SSL3_MT_END_OF_EARLY_DATA :: nat where "SSL3_MT_END_OF_EARLY_DATA \<equiv> 5"
abbreviation (input) SSL3_MT_ENCRYPTED_EXTENSIONS :: nat where "SSL3_MT_ENCRYPTED_EXTENSIONS \<equiv> 8"
abbreviation (input) SSL3_MT_CERTIFICATE :: nat where "SSL3_MT_CERTIFICATE \<equiv> 11"
abbreviation (input) SSL3_MT_SERVER_KEY_EXCHANGE :: nat where "SSL3_MT_SERVER_KEY_EXCHANGE \<equiv> 12"
abbreviation (input) SSL3_MT_CERTIFICATE_REQUEST :: nat where "SSL3_MT_CERTIFICATE_REQUEST \<equiv> 13"
abbreviation (input) SSL3_MT_SERVER_DONE :: nat where "SSL3_MT_SERVER_DONE \<equiv> 14"
abbreviation (input) SSL3_MT_CERTIFICATE_VERIFY :: nat where "SSL3_MT_CERTIFICATE_VERIFY \<equiv> 15"
abbreviation (input) SSL3_MT_CLIENT_KEY_EXCHANGE :: nat where "SSL3_MT_CLIENT_KEY_EXCHANGE \<equiv> 16"
abbreviation (input) SSL3_MT_FINISHED :: nat where "SSL3_MT_FINISHED \<equiv> 20"
abbreviation (input) SSL3_MT_CERTIFICATE_STATUS :: nat where "SSL3_MT_CERTIFICATE_STATUS \<equiv> 22"
abbreviation (input) SSL3_MT_KEY_UPDATE :: nat where "SSL3_MT_KEY_UPDATE \<equiv> 24"
abbreviation (input) SSL3_MT_NEXT_PROTO :: nat where "SSL3_MT_NEXT_PROTO \<equiv> 67"
abbreviation (input) SSL3_MT_CHANGE_CIPHER_SPEC :: nat where "SSL3_MT_CHANGE_CIPHER_SPEC \<equiv> 0x101"

abbreviation (input) SSL3_VERSION :: nat where "SSL3_VERSION \<equiv> 0x300"
abbreviation (input) TLS1_VERSION :: nat where "TLS1_VERSION \<equiv> 0x301"
abbreviation (input) TLS1_3_VERSION :: nat where "TLS1_3_VERSION \<equiv> 0x304"
abbreviation (input) TLS_ANY_VERSION :: nat where "TLS_ANY_VERSION \<equiv> 0x10000"
abbreviation (input) DTLS1_BAD_VER :: nat where "DTLS1_BAD_VER \<equiv> 0x100"

abbreviation (input) SSL_kDHE :: u32 where "SSL_kDHE \<equiv> 0x2"
abbreviation (input) SSL_kECDHE :: u32 where "SSL_kECDHE \<equiv> 0x4"
abbreviation (input) SSL_kPSK :: u32 where "SSL_kPSK \<equiv> 0x8"
abbreviation (input) SSL_kSRP :: u32 where "SSL_kSRP \<equiv> 0x20"
abbreviation (input) SSL_kRSAPSK :: u32 where "SSL_kRSAPSK \<equiv> 0x40"
abbreviation (input) SSL_kECDHEPSK :: u32 where "SSL_kECDHEPSK \<equiv> 0x80"
abbreviation (input) SSL_kDHEPSK :: u32 where "SSL_kDHEPSK \<equiv> 0x100"
abbreviation (input) SSL_PSK :: u32 where
  "SSL_PSK \<equiv> SSL_kPSK OR SSL_kRSAPSK OR SSL_kECDHEPSK OR SSL_kDHEPSK"
abbreviation (input) SSL_aNULL :: u32 where "SSL_aNULL \<equiv> 0x4"
abbreviation (input) SSL_aPSK :: u32 where "SSL_aPSK \<equiv> 0x10"
abbreviation (input) SSL_aSRP :: u32 where "SSL_aSRP \<equiv> 0x40"

abbreviation (input) SSL_VERIFY_NONE :: u32 where "SSL_VERIFY_NONE \<equiv> 0"
abbreviation (input) SSL_VERIFY_PEER :: u32 where "SSL_VERIFY_PEER \<equiv> 1"
abbreviation (input) SSL_VERIFY_FAIL_IF_NO_PEER_CERT :: u32 where "SSL_VERIFY_FAIL_IF_NO_PEER_CERT \<equiv> 2"
abbreviation (input) SSL_VERIFY_CLIENT_ONCE :: u32 where "SSL_VERIFY_CLIENT_ONCE \<equiv> 4"
abbreviation (input) SSL_VERIFY_POST_HANDSHAKE :: u32 where "SSL_VERIFY_POST_HANDSHAKE \<equiv> 8"
abbreviation (input) SSL_OP_COOKIE_EXCHANGE :: u64 where "SSL_OP_COOKIE_EXCHANGE \<equiv> 0x2000"
abbreviation (input) SSL_OP_ENABLE_MIDDLEBOX_COMPAT :: u64 where "SSL_OP_ENABLE_MIDDLEBOX_COMPAT \<equiv> 0x100000"
abbreviation (input) SSL_SENT_SHUTDOWN :: u32 where "SSL_SENT_SHUTDOWN \<equiv> 1"
abbreviation (input) TLS1_FLAGS_SKIP_CERT_VERIFY :: u32 where "TLS1_FLAGS_SKIP_CERT_VERIFY \<equiv> 0x10"
abbreviation (input) TLS1_FLAGS_STATELESS :: u32 where "TLS1_FLAGS_STATELESS \<equiv> 0x800"
abbreviation (input) SSL3_CC_EARLY :: nat where "SSL3_CC_EARLY \<equiv> 0x40"
abbreviation (input) SSL3_CC_HANDSHAKE :: nat where "SSL3_CC_HANDSHAKE \<equiv> 0x80"
abbreviation (input) SSL3_CC_APPLICATION :: nat where "SSL3_CC_APPLICATION \<equiv> 0x100"
abbreviation (input) SSL3_CHANGE_CIPHER_CLIENT_WRITE :: nat where "SSL3_CHANGE_CIPHER_CLIENT_WRITE \<equiv> 0x12"
abbreviation (input) SSL3_CHANGE_CIPHER_CLIENT_READ :: nat where "SSL3_CHANGE_CIPHER_CLIENT_READ \<equiv> 0x11"
abbreviation (input) SSL3_CHANGE_CIPHER_SERVER_WRITE :: nat where "SSL3_CHANGE_CIPHER_SERVER_WRITE \<equiv> 0x22"
abbreviation (input) SSL3_CHANGE_CIPHER_SERVER_READ :: nat where "SSL3_CHANGE_CIPHER_SERVER_READ \<equiv> 0x21"
abbreviation (input) TLSEXT_IDX_num_builtins :: nat where "TLSEXT_IDX_num_builtins \<equiv> 28"
abbreviation (input) SSL_KEY_UPDATE_NONE :: int where "SSL_KEY_UPDATE_NONE \<equiv> -1"

text \<open>A C test \<open>word & mask\<close>.\<close>

definition has :: "'w::len word \<Rightarrow> 'w word \<Rightarrow> bool" where
  "has v m \<longleftrightarrow> v AND m \<noteq> 0"

section \<open>The connection object\<close>

record OSSL_STATEM =
  state :: MSG_FLOW_STATE
  write_state :: WRITE_STATE
  write_state_work :: WORK_STATE
  read_state :: READ_STATE
  read_state_work :: WORK_STATE
  hand_state :: OSSL_HANDSHAKE_STATE
  request_state :: OSSL_HANDSHAKE_STATE
  in_init :: bool
  read_state_first_init :: bool
  in_handshake :: int
  cleanuphand :: bool
  no_cert_verify :: bool
  use_timer :: bool
  enc_write_state :: ENC_WRITE_STATES
  enc_read_state :: ENC_READ_STATES

record SSL_CIPHER =
  cipher_id :: u32                 \<comment> \<open>the table's entry, compared by address in the code\<close>
  algorithm_mkey :: u32
  algorithm_auth :: u32

record SSL_EXT =
  ticket_expected :: bool
  status_expected :: bool
  early_data :: EXT_EARLY_DATA
  extra_tickets_expected :: nat
  session_secret_cb :: bool
  extflags :: "u8 list"            \<comment> \<open>one byte for each built-in extension\<close>

text \<open>
  A registered custom extension. The callbacks are named by numbers, which stand for the function
  pointers with their arguments.
\<close>

datatype ENDPOINT = ENDPOINT_CLIENT | ENDPOINT_SERVER | ENDPOINT_BOTH

record custom_ext_method =
  cx_type :: nat
  cx_role :: ENDPOINT
  cx_context :: u32
  cx_flags :: u32
  cx_add_cb :: "nat option"
  cx_free_cb :: "nat option"
  cx_parse_cb :: "nat option"

record SSL3_STATE =
  cert_req :: int
  cert_request :: bool
  new_cipher :: "SSL_CIPHER option"
  npn_seen :: bool
  s3_flags :: u32
  change_cipher_spec :: bool
  message_size :: nat
  message_type :: nat
  finish_md_len :: nat
  peer_finish_md_len :: nat
  peer_finish_md :: bytes
  s3_renegotiate :: bool
  total_renegotiations :: nat
  num_renegotiations :: nat
  in_read_app_data :: nat
  previous_client_finished :: bytes
  previous_server_finished :: bytes
  tmp_cert :: "nat option"         \<comment> \<open>\<open>s3.tmp.cert\<close>, a slot of the certificate store\<close>
  tmp_sigalg :: bool               \<comment> \<open>\<open>s3.tmp.sigalg\<close> is set\<close>
  handshake_buffer :: "bytes option"
  handshake_dgst :: "bytes option" \<comment> \<open>the octets given to the digest, when it is set\<close>
  server_random :: bytes

record SSL_SESSION =
  peer :: "x509_ptr option"
  peer_chain :: "x509_ptr list option"
  sess_verify_result :: int
  tick :: bool                     \<comment> \<open>\<open>session->ext.tick\<close> is set\<close>
  sess_cipher :: "SSL_CIPHER option"

record CERT_PKEY =
  pk_x509 :: "x509_ptr option"
  pk_privatekey :: bool
  pk_chain :: "x509_ptr list option"

record RFC8902_CERT_TYPE =
  support :: u32
  type_decided :: int

record SSL_IEEE1609 =
  RFC8902_support :: bool
  srv :: RFC8902_CERT_TYPE
  clnt :: RFC8902_CERT_TYPE
  psid_this_side :: u64
  psid_other_side :: u64
  ssp_other_side_len :: nat
  ssp_other_side :: bytes
  sec_ent_addr :: bytes
  sec_ent_port :: int

record SSL =
  version :: nat
  client_version :: nat
  method_version :: nat            \<comment> \<open>\<open>method->version\<close>\<close>
  ctx_method_version :: nat        \<comment> \<open>\<open>ctx->method->version\<close>\<close>
  min_proto_version :: nat
  max_proto_version :: nat
  ssl_mode :: u32
  dtls :: bool
  server :: bool
  hit :: bool
  options :: u64
  verify_mode :: u32
  verify_result :: int
  hello_retry_request :: SSL_HRR_STATE
  early_data_state :: SSL_EARLY_DATA_STATE
  post_handshake_auth :: SSL_PHA_STATE
  renegotiate :: bool
  new_session :: bool
  key_update :: int
  shutdown :: u32
  num_tickets :: nat
  sent_tickets :: nat
  certreqs_sent :: nat
  init_num :: nat
  init_buf :: "BUF_MEM option"
  init_off :: nat
  init_msg :: nat                  \<comment> \<open>an offset into \<open>init_buf\<close>\<close>
  rwstate :: RWSTATE
  first_packet :: bool
  max_cert_list :: nat
  max_early_data :: nat
  cookie_verified :: bool
  cert_verify_hash :: bytes
  pha_context :: "bytes option"
  statem :: OSSL_STATEM
  ext :: SSL_EXT
  s3 :: SSL3_STATE
  session :: SSL_SESSION
  pkeys :: "CERT_PKEY list"        \<comment> \<open>\<open>cert->pkeys\<close>\<close>
  custext :: "custom_ext_method list" \<comment> \<open>\<open>cert->custext\<close>\<close>
  cert_key :: nat                  \<comment> \<open>the slot \<open>cert->key\<close> points to\<close>
  ieee1609 :: SSL_IEEE1609
  alerts :: "ALERT list"           \<comment> \<open>the fatal alerts handed to \<open>ssl3_send_alert\<close>, newest first\<close>
  os :: os

section \<open>Updates of nested fields\<close>

definition upd_st :: "(OSSL_STATEM \<Rightarrow> OSSL_STATEM) \<Rightarrow> SSL \<Rightarrow> SSL" where
  "upd_st f s = s\<lparr>statem := f (statem s)\<rparr>"

definition upd_s3 :: "(SSL3_STATE \<Rightarrow> SSL3_STATE) \<Rightarrow> SSL \<Rightarrow> SSL" where
  "upd_s3 f s = s\<lparr>s3 := f (s3 s)\<rparr>"

definition upd_ext :: "(SSL_EXT \<Rightarrow> SSL_EXT) \<Rightarrow> SSL \<Rightarrow> SSL" where
  "upd_ext f s = s\<lparr>ext := f (ext s)\<rparr>"

definition upd_sess :: "(SSL_SESSION \<Rightarrow> SSL_SESSION) \<Rightarrow> SSL \<Rightarrow> SSL" where
  "upd_sess f s = s\<lparr>session := f (session s)\<rparr>"

definition upd_1609 :: "(SSL_IEEE1609 \<Rightarrow> SSL_IEEE1609) \<Rightarrow> SSL \<Rightarrow> SSL" where
  "upd_1609 f s = s\<lparr>ieee1609 := f (ieee1609 s)\<rparr>"

definition upd_os :: "(os \<Rightarrow> os) \<Rightarrow> SSL \<Rightarrow> SSL" where
  "upd_os f s = s\<lparr>os := f (os s)\<rparr>"

abbreviation set_hand :: "OSSL_HANDSHAKE_STATE \<Rightarrow> SSL \<Rightarrow> SSL" where
  "set_hand h s \<equiv> upd_st (\<lambda>st. st\<lparr>hand_state := h\<rparr>) s"

abbreviation hand :: "SSL \<Rightarrow> OSSL_HANDSHAKE_STATE" where
  "hand s \<equiv> hand_state (statem s)"

lemmas upd_defs = upd_st_def upd_s3_def upd_ext_def upd_sess_def upd_1609_def upd_os_def

declare upd_defs [simp]

section \<open>Tests of \<^verbatim>\<open>ssl_local.h\<close>\<close>

definition SSL_IS_DTLS :: "SSL \<Rightarrow> bool" where
  "SSL_IS_DTLS s = dtls s"

definition SSL_IS_TLS13 :: "SSL \<Rightarrow> bool" where
  "SSL_IS_TLS13 s \<longleftrightarrow> \<not> SSL_IS_DTLS s \<and> TLS1_3_VERSION \<le> method_version s \<and> method_version s \<noteq> TLS_ANY_VERSION"

definition SSL_IS_FIRST_HANDSHAKE :: "SSL \<Rightarrow> bool" where
  "SSL_IS_FIRST_HANDSHAKE s \<longleftrightarrow> finish_md_len (s3 s) = 0 \<or> peer_finish_md_len (s3 s) = 0"

section \<open>Fatal errors and accessors of \<^verbatim>\<open>statem.c\<close>\<close>

definition SSL_get_state :: "SSL \<Rightarrow> OSSL_HANDSHAKE_STATE" where
  "SSL_get_state s = hand s"

definition SSL_in_init :: "SSL \<Rightarrow> bool" where
  "SSL_in_init s = in_init (statem s)"

definition SSL_is_init_finished :: "SSL \<Rightarrow> bool" where
  "SSL_is_init_finished s \<longleftrightarrow> \<not> in_init (statem s) \<and> hand s = TLS_ST_OK"

definition SSL_in_before :: "SSL \<Rightarrow> bool" where
  "SSL_in_before s \<longleftrightarrow> hand s = TLS_ST_BEFORE \<and> state (statem s) = MSG_FLOW_UNINITED"

definition ossl_statem_clear :: "SSL \<Rightarrow> SSL" where
  "ossl_statem_clear s = upd_st (\<lambda>st. st\<lparr>state := MSG_FLOW_UNINITED, hand_state := TLS_ST_BEFORE,
     in_init := True, no_cert_verify := False\<rparr>) s"

definition ossl_statem_set_renegotiate :: "SSL \<Rightarrow> SSL" where
  "ossl_statem_set_renegotiate s = upd_st (\<lambda>st. st\<lparr>in_init := True, request_state := TLS_ST_SW_HELLO_REQ\<rparr>) s"

text \<open>\<open>ssl3_send_alert\<close> up to the record layer: nothing goes out after a close notify was sent.\<close>

definition ssl3_send_alert :: "ALERT \<Rightarrow> SSL \<Rightarrow> SSL" where
  "ssl3_send_alert al s = (if has (shutdown s) SSL_SENT_SHUTDOWN then s else s\<lparr>alerts := al # alerts s\<rparr>)"

definition ossl_statem_send_fatal :: "ALERT \<Rightarrow> SSL \<Rightarrow> SSL" where
  "ossl_statem_send_fatal al s =
     (if in_init (statem s) \<and> state (statem s) = MSG_FLOW_ERROR then s
      else let s1 = upd_st (\<lambda>st. st\<lparr>in_init := True, state := MSG_FLOW_ERROR\<rparr>) s
           in if al \<noteq> SSL_AD_NO_ALERT \<and> enc_write_state (statem s1) \<noteq> ENC_WRITE_STATE_INVALID
              then ssl3_send_alert al s1 else s1)"

definition SSLfatal :: "ALERT \<Rightarrow> err_reason \<Rightarrow> SSL \<Rightarrow> SSL" where
  "SSLfatal al r s = ossl_statem_send_fatal al (upd_os (ERR_raise r) s)"

definition ossl_statem_in_error :: "SSL \<Rightarrow> bool" where
  "ossl_statem_in_error s \<longleftrightarrow> state (statem s) = MSG_FLOW_ERROR"

definition check_fatal :: "SSL \<Rightarrow> SSL" where
  "check_fatal s = (if in_init (statem s) \<and> state (statem s) = MSG_FLOW_ERROR then s
     else SSLfatal SSL_AD_INTERNAL_ERROR SSL_R_MISSING_FATAL s)"

definition ossl_statem_set_in_init :: "bool \<Rightarrow> SSL \<Rightarrow> SSL" where
  "ossl_statem_set_in_init b s = upd_st (\<lambda>st. st\<lparr>in_init := b\<rparr>) s"

definition ossl_statem_get_in_handshake :: "SSL \<Rightarrow> int" where
  "ossl_statem_get_in_handshake s = in_handshake (statem s)"

definition ossl_statem_set_in_handshake :: "bool \<Rightarrow> SSL \<Rightarrow> SSL" where
  "ossl_statem_set_in_handshake inhand s =
     upd_st (\<lambda>st. st\<lparr>in_handshake := in_handshake st + (if inhand then 1 else -1)\<rparr>) s"

definition ossl_statem_skip_early_data :: "SSL \<Rightarrow> bool" where
  "ossl_statem_skip_early_data s \<longleftrightarrow>
     (if early_data (ext s) \<noteq> SSL_EARLY_DATA_REJECTED then False
      else if \<not> server s \<or> hand s \<noteq> TLS_ST_EARLY_DATA \<or> hello_retry_request s = SSL_HRR_COMPLETE then False
      else True)"

text \<open>\<open>sending\<close> is 1, 0 or -1.\<close>

definition ossl_statem_check_finish_init :: "int \<Rightarrow> SSL \<Rightarrow> SSL" where
  "ossl_statem_check_finish_init sending s =
     (if sending = -1 then
        if hand s = TLS_ST_PENDING_EARLY_DATA_END \<or> hand s = TLS_ST_EARLY_DATA then
          let s1 = ossl_statem_set_in_init True s
          in if early_data_state s1 = SSL_EARLY_DATA_WRITE_RETRY
             then s1\<lparr>early_data_state := SSL_EARLY_DATA_FINISHED_WRITING\<rparr> else s1
        else s
      else if \<not> server s then
        if sending \<noteq> 0 \<and> (hand s = TLS_ST_PENDING_EARLY_DATA_END \<or> hand s = TLS_ST_EARLY_DATA)
             \<and> early_data_state s \<noteq> SSL_EARLY_DATA_WRITING
           \<or> sending = 0 \<and> hand s = TLS_ST_EARLY_DATA then
          let s1 = ossl_statem_set_in_init True s
          in if sending \<noteq> 0 \<and> early_data_state s1 = SSL_EARLY_DATA_WRITE_RETRY
             then s1\<lparr>early_data_state := SSL_EARLY_DATA_FINISHED_WRITING\<rparr> else s1
        else s
      else if early_data_state s = SSL_EARLY_DATA_FINISHED_READING \<and> hand s = TLS_ST_EARLY_DATA
        then ossl_statem_set_in_init True s else s)"

definition ossl_statem_set_hello_verify_done :: "SSL \<Rightarrow> SSL" where
  "ossl_statem_set_hello_verify_done s = upd_st (\<lambda>st. st\<lparr>state := MSG_FLOW_UNINITED, in_init := True,
     hand_state := TLS_ST_SR_CLNT_HELLO\<rparr>) s"

definition ossl_statem_app_data_allowed :: "SSL \<Rightarrow> bool" where
  "ossl_statem_app_data_allowed s \<longleftrightarrow>
     (if state (statem s) = MSG_FLOW_UNINITED then False
      else if in_read_app_data (s3 s) = 0 \<or> total_renegotiations (s3 s) = 0 then False
      else if server s then hand s = TLS_ST_BEFORE \<or> hand s = TLS_ST_SR_CLNT_HELLO
      else hand s = TLS_ST_CW_CLNT_HELLO)"

definition ossl_statem_export_allowed :: "SSL \<Rightarrow> bool" where
  "ossl_statem_export_allowed s \<longleftrightarrow>
     length (previous_server_finished (s3 s)) \<noteq> 0 \<and> hand s \<noteq> TLS_ST_SW_FINISHED"

definition ossl_statem_export_early_allowed :: "SSL \<Rightarrow> bool" where
  "ossl_statem_export_early_allowed s \<longleftrightarrow> early_data (ext s) = SSL_EARLY_DATA_ACCEPTED \<or>
     \<not> server s \<and> early_data (ext s) \<noteq> SSL_EARLY_DATA_NOT_SENT"

section \<open>The error state\<close>

lemma fatal_in_error [simp]: "ossl_statem_in_error (SSLfatal al r s)"
  by (simp add: SSLfatal_def ossl_statem_send_fatal_def ossl_statem_in_error_def ssl3_send_alert_def Let_def)

lemma check_fatal_in_error [simp]: "ossl_statem_in_error (check_fatal s)"
  using fatal_in_error by (auto simp: check_fatal_def ossl_statem_in_error_def)

text \<open>A fatal error changes the message flow state, the error queue and the alerts, nothing else.\<close>

lemma fatal_frame [simp]:
  "hand (SSLfatal al r s) = hand s" "ieee1609 (SSLfatal al r s) = ieee1609 s"
  "server (SSLfatal al r s) = server s" "session (SSLfatal al r s) = session s"
  "verify_mode (SSLfatal al r s) = verify_mode s" "os (SSLfatal al r s) = ERR_raise r (os s)"
  "in_init (statem (SSLfatal al r s))" "SSL_IS_TLS13 (SSLfatal al r s) = SSL_IS_TLS13 s"
  "s3 (SSLfatal al r s) = s3 s" "ext (SSLfatal al r s) = ext s" "pkeys (SSLfatal al r s) = pkeys s"
  "hit (SSLfatal al r s) = hit s" "post_handshake_auth (SSLfatal al r s) = post_handshake_auth s"
  by (simp_all add: SSLfatal_def ossl_statem_send_fatal_def ssl3_send_alert_def Let_def SSL_IS_TLS13_def
      SSL_IS_DTLS_def)

lemma fatal_state [simp]: "state (statem (SSLfatal al r s)) = MSG_FLOW_ERROR"
  using fatal_in_error [of al r s] by (simp add: ossl_statem_in_error_def)

text \<open>Once in the error state with a handshake in progress, no further alert goes out.\<close>

lemma fatal_once:
  "alerts (SSLfatal al2 r2 (SSLfatal al1 r1 s)) = alerts (SSLfatal al1 r1 s)"
  by (simp add: SSLfatal_def [of al2] ossl_statem_send_fatal_def)

end
