(* ===== verification/Statem_Common.thy ===== *)
theory Statem_Common
  imports Ssl_State
begin

text \<open>
  What the client and the server side of the handshake share (\<^verbatim>\<open>statem_lib.c\<close>, \<^verbatim>\<open>statem.c\<close>,
  \<^verbatim>\<open>s3_lib.c\<close>): setting up and finishing a handshake, flushing, the renegotiation check. The key
  schedule, the record layer and the version and cipher tables are not modelled; the record
  \<open>hooks\<close> says of each call into them whether it succeeds. Where the code says that the callee
  has called \<open>SSLfatal\<close>, the model calls it with an internal error. The transitions read the
  cipher only after it was chosen.
\<close>

record hooks =
  hk_init_mac :: "SSL \<Rightarrow> bool"               \<comment> \<open>\<open>BIO_new\<close> in \<open>ssl3_init_finished_mac\<close>\<close>
  hk_ver_range :: "SSL \<Rightarrow> (nat \<times> nat) option" \<comment> \<open>\<open>ssl_get_min_max_version\<close>\<close>
  hk_md5sha1 :: bool                        \<comment> \<open>the MD5-SHA1 digest is loaded\<close>
  hk_set_min :: "SSL \<Rightarrow> nat \<Rightarrow> bool"         \<comment> \<open>\<open>SSL_set_min_proto_version\<close>\<close>
  hk_ciphers :: "(nat \<times> nat \<times> nat \<times> nat) list" \<comment> \<open>\<open>min_tls, max_tls, min_dtls, max_dtls\<close>\<close>
  hk_pending :: "SSL \<Rightarrow> bool"                \<comment> \<open>the record layer has reads or writes pending\<close>
  hk_pha_restore :: "SSL \<Rightarrow> bool"            \<comment> \<open>\<open>tls13_restore_handshake_digest_for_pha\<close>\<close>
  hk_pha_save :: "SSL \<Rightarrow> bool"               \<comment> \<open>\<open>tls13_save_handshake_digest_for_pha\<close>\<close>
  hk_change_cipher :: "nat \<Rightarrow> SSL \<Rightarrow> bool"   \<comment> \<open>\<open>change_cipher_state\<close>, with its \<open>which\<close>\<close>
  hk_setup_key_block :: "SSL \<Rightarrow> bool"
  hk_gen_master :: "SSL \<Rightarrow> bool"             \<comment> \<open>\<open>generate_master_secret\<close>\<close>
  hk_update_key :: "bool \<Rightarrow> SSL \<Rightarrow> bool"     \<comment> \<open>\<open>tls13_update_key\<close>, when sending or not\<close>
  hk_finish_mac :: "bool \<Rightarrow> SSL \<Rightarrow> bytes"    \<comment> \<open>\<open>final_finish_mac\<close> under the server's or the client's label\<close>
  hk_log_secret :: "SSL \<Rightarrow> bool"             \<comment> \<open>\<open>ssl_log_secret\<close>\<close>
  hk_read_pending :: "SSL \<Rightarrow> bool"           \<comment> \<open>\<open>RECORD_LAYER_processed_read_pending\<close>\<close>
  hk_key_block :: "SSL \<Rightarrow> bool"              \<comment> \<open>\<open>s3.tmp.key_block\<close> is set\<close>
  hk_master_key :: "SSL \<Rightarrow> bool"             \<comment> \<open>the session has a master key\<close>
  hk_initial_flight :: "SSL \<Rightarrow> bool"         \<comment> \<open>\<open>tls_process_initial_server_flight\<close>\<close>
  hk_flush :: "SSL \<Rightarrow> bool"                  \<comment> \<open>\<open>BIO_flush\<close> completes\<close>
  hk_ckx_post :: "SSL \<Rightarrow> bool"               \<comment> \<open>\<open>tls_client_key_exchange_post_work\<close>\<close>
  hk_free_wbio :: "SSL \<Rightarrow> bool"              \<comment> \<open>\<open>ssl_free_wbio_buffer\<close>\<close>
  hk_conn_closed :: "SSL \<Rightarrow> bool"            \<comment> \<open>a flush failed because the peer has gone\<close>

definition the_cipher :: "SSL \<Rightarrow> SSL_CIPHER" where
  "the_cipher s = (case new_cipher (s3 s) of Some c \<Rightarrow> c | None \<Rightarrow> \<lparr>cipher_id = 0, algorithm_mkey = 0, algorithm_auth = 0\<rparr>)"

definition fatal_internal :: "SSL \<Rightarrow> SSL" where
  "fatal_internal s = SSLfatal SSL_AD_INTERNAL_ERROR ERR_R_INTERNAL_ERROR s"

definition dtls_ver_ordinal :: "nat \<Rightarrow> nat" where
  "dtls_ver_ordinal v = (if v = DTLS1_BAD_VER then 0xff00 else v)"

definition ssl3_init_finished_mac :: "hooks \<Rightarrow> SSL \<Rightarrow> bool \<times> SSL" where
  "ssl3_init_finished_mac hk s =
     (if hk_init_mac hk s then (True, upd_s3 (\<lambda>t. t\<lparr>handshake_buffer := Some [], handshake_dgst := None\<rparr>) s)
      else (False, SSLfatal SSL_AD_INTERNAL_ERROR ERR_R_MALLOC_FAILURE s))"

text \<open>The check that a server has a cipher for its highest version.\<close>

fun cipher_for_version :: "bool \<Rightarrow> nat \<Rightarrow> (nat \<times> nat \<times> nat \<times> nat) list \<Rightarrow> bool" where
  "cipher_for_version d v [] = False"
| "cipher_for_version d v ((min_tls, max_tls, min_dtls, max_dtls) # cs) =
     ((if d then dtls_ver_ordinal v \<le> dtls_ver_ordinal min_dtls \<and> dtls_ver_ordinal max_dtls \<le> dtls_ver_ordinal v
       else min_tls \<le> v \<and> v \<le> max_tls)
      \<or> cipher_for_version d v cs)"

definition setup_digest_check :: "hooks \<Rightarrow> nat \<Rightarrow> nat \<Rightarrow> SSL \<Rightarrow> bool \<times> SSL" where
  "setup_digest_check hk ver_min ver_max s =
     (if hk_md5sha1 hk then (True, s)
      else if (if SSL_IS_DTLS s then dtls_ver_ordinal 0xFEFF \<le> dtls_ver_ordinal ver_max else ver_max \<le> 0x302)
      then (False, SSLfatal SSL_AD_HANDSHAKE_FAILURE SSL_R_NO_SUITABLE_DIGEST_ALGORITHM s)
      else if (if SSL_IS_DTLS s then dtls_ver_ordinal 0xFEFD < dtls_ver_ordinal ver_min \<and> \<not> hk_set_min hk s 0xFEFD
               else ver_min < 0x303 \<and> \<not> hk_set_min hk s 0x303)
      then (False, SSLfatal SSL_AD_HANDSHAKE_FAILURE ERR_R_INTERNAL_ERROR s)
      else (True, s))"

definition tls_setup_handshake :: "hooks \<Rightarrow> SSL \<Rightarrow> bool \<times> SSL" where
  "tls_setup_handshake hk s = (case ssl3_init_finished_mac hk s of
      (False, s1) \<Rightarrow> (False, s1)
    | (True, s0) \<Rightarrow> let s1 = upd_ext (\<lambda>x. x\<lparr>extflags := replicate TLSEXT_IDX_num_builtins 0\<rparr>) s0 in (case hk_ver_range hk s1 of
        None \<Rightarrow> (False, SSLfatal SSL_AD_PROTOCOL_VERSION SSL_R_NO_PROTOCOLS_AVAILABLE s1)
      | Some (ver_min, ver_max) \<Rightarrow> (case setup_digest_check hk ver_min ver_max s1 of
          (False, s2) \<Rightarrow> (False, s2)
        | (True, s2) \<Rightarrow>
            if server s2 then
              if \<not> cipher_for_version (SSL_IS_DTLS s2) ver_max (hk_ciphers hk)
              then (False, SSLfatal SSL_AD_HANDSHAKE_FAILURE SSL_R_NO_CIPHERS_AVAILABLE s2)
              else if SSL_IS_FIRST_HANDSHAKE s2 then (True, s2)
              else (True, upd_s3 (\<lambda>t. t\<lparr>cert_request := False\<rparr>) s2)
            else
              let s3 = upd_s3 (\<lambda>t. t\<lparr>cert_req := 0\<rparr>) (s2\<lparr>hit := False\<rparr>)
              in (True, if SSL_IS_DTLS s3 then upd_st (\<lambda>st. st\<lparr>use_timer := True\<rparr>) s3 else s3))))"

definition ssl3_renegotiate_check :: "hooks \<Rightarrow> bool \<Rightarrow> SSL \<Rightarrow> bool \<times> SSL" where
  "ssl3_renegotiate_check hk initok s =
     (if s3_renegotiate (s3 s) \<and> \<not> hk_pending hk s \<and> (initok \<or> \<not> SSL_in_init s)
      then (True, upd_s3 (\<lambda>t. t\<lparr>s3_renegotiate := False, num_renegotiations := num_renegotiations t + 1,
                        total_renegotiations := total_renegotiations t + 1\<rparr>) (ossl_statem_set_renegotiate s))
      else (False, s))"

definition statem_flush :: "hooks \<Rightarrow> SSL \<Rightarrow> bool \<times> SSL" where
  "statem_flush hk s =
     (let s1 = s\<lparr>rwstate := SSL_WRITING\<rparr>
      in if hk_flush hk s1 then (True, s1\<lparr>rwstate := SSL_NOTHING\<rparr>) else (False, s1))"

text \<open>
  The end of a handshake. The session cache, the statistics and the application's callbacks are
  left out; the DTLS sequence numbers and buffers belong to the record layer.
\<close>

definition tls_finish_handshake :: "hooks \<Rightarrow> bool \<Rightarrow> bool \<Rightarrow> SSL \<Rightarrow> WORK_STATE \<times> SSL" where
  "tls_finish_handshake hk clearbufs stop s =
     (let cleanup = cleanuphand (statem s);
          s1 = (if clearbufs \<and> \<not> SSL_IS_DTLS s then s\<lparr>init_buf := None\<rparr> else s)
      in if clearbufs \<and> \<not> hk_free_wbio hk s1 then (WORK_ERROR, fatal_internal s1)
         else let
           s2 = (if clearbufs then s1\<lparr>init_num := 0\<rparr> else s1);
           s3 = (if SSL_IS_TLS13 s2 \<and> \<not> server s2 \<and> post_handshake_auth s2 = SSL_PHA_REQUESTED
                 then s2\<lparr>post_handshake_auth := SSL_PHA_EXT_SENT\<rparr> else s2);
           s4 = (if cleanup
                 then upd_ext (\<lambda>x. x\<lparr>ticket_expected := False\<rparr>) (upd_st (\<lambda>st. st\<lparr>cleanuphand := False\<rparr>)
                        (s3\<lparr>renegotiate := False, new_session := False\<rparr>))
                 else s3);
           s5 = ossl_statem_set_in_init False s4
         in if \<not> stop then (WORK_FINISHED_CONTINUE, ossl_statem_set_in_init True s5)
            else (WORK_FINISHED_STOP, s5))"

text \<open>Both sides end a refused message the same way: a stray DTLS CCS is dropped, the rest is fatal.\<close>

definition no_transition :: "nat \<Rightarrow> SSL \<Rightarrow> bool \<times> SSL" where
  "no_transition mt s =
     (if SSL_IS_DTLS s \<and> mt = SSL3_MT_CHANGE_CIPHER_SPEC then (False, s\<lparr>init_num := 0, rwstate := SSL_READING\<rparr>)
      else (False, SSLfatal SSL_AD_UNEXPECTED_MESSAGE SSL_R_UNEXPECTED_MESSAGE s))"

abbreviation goto :: "OSSL_HANDSHAKE_STATE \<Rightarrow> SSL \<Rightarrow> bool \<times> SSL" where
  "goto h s \<equiv> (True, set_hand h s)"

abbreviation wgoto :: "OSSL_HANDSHAKE_STATE \<Rightarrow> SSL \<Rightarrow> WRITE_TRAN \<times> SSL" where
  "wgoto h s \<equiv> (WRITE_TRAN_CONTINUE, set_hand h s)"

section \<open>Effects\<close>

lemma no_transition_frame:
  assumes "no_transition mt s = (b, s1)"
  shows "\<not> b" "hand s1 = hand s" "\<not> dtls s \<Longrightarrow> ossl_statem_in_error s1"
  using assms by (auto simp: no_transition_def SSL_IS_DTLS_def split: if_splits)

lemma finish_handshake_states:
  assumes "tls_finish_handshake hk cb stop s = (r, s1)"
  shows "hand s1 = hand s" "r = WORK_FINISHED_STOP \<Longrightarrow> \<not> in_init (statem s1)" "r = WORK_ERROR \<Longrightarrow> ossl_statem_in_error s1"
    "r = WORK_FINISHED_STOP \<longrightarrow> stop" "r = WORK_FINISHED_CONTINUE \<longrightarrow> \<not> stop"
  using assms by (auto simp: tls_finish_handshake_def fatal_internal_def ossl_statem_set_in_init_def Let_def split: if_splits)

section \<open>Sequences of messages\<close>

text \<open>
  A connection reads messages: a transition allowed by \<open>tr\<close>, then the work of the message's
  handler, of which \<open>keep\<close> says what it keeps.
\<close>

inductive reads :: "(nat \<Rightarrow> SSL \<Rightarrow> bool \<times> SSL) \<Rightarrow> (SSL \<Rightarrow> SSL \<Rightarrow> bool) \<Rightarrow> SSL \<Rightarrow> nat list \<Rightarrow> SSL \<Rightarrow> bool"
  for tr keep where
  reads_Nil: "reads tr keep s [] s"
| reads_Cons: "tr mt s = (True, s1) \<Longrightarrow> keep s1 s2 \<Longrightarrow> reads tr keep s2 mts s'
     \<Longrightarrow> reads tr keep s (mt # mts) s'"

inductive_cases reads_ConsE: "reads tr keep s (mt # mts) s1"
inductive_simps reads_Nil_iff [simp]: "reads tr keep s [] s1"

text \<open>What a handler keeps: the place in the handshake, the version and the shape of the handshake.\<close>

definition handled :: "SSL \<Rightarrow> SSL \<Rightarrow> bool" where
  "handled s s1 \<longleftrightarrow> hand s1 = hand s \<and> SSL_IS_TLS13 s1 = SSL_IS_TLS13 s \<and> hit s1 = hit s
     \<and> cert_request (s3 s1) = cert_request (s3 s)
     \<and> (hand s \<noteq> TLS_ST_SR_CERT \<longrightarrow> hand s \<noteq> TLS_ST_CR_CERT \<longrightarrow> peer (session s1) = peer (session s))"

lemma handled_refl [simp]: "handled s s"
  by (simp add: handled_def)

text \<open>
  The contract of the two read transition functions, towards the message flow machine: a refused
  message ends the handshake (DTLS may drop it), an accepted one moves the handshake state only;
  neither touches the certificates, the negotiated types or the verification mode.
\<close>

locale read_transition =
  fixes tr :: "nat \<Rightarrow> SSL \<Rightarrow> bool \<times> SSL"
  assumes refused: "tr mt s = (False, s1) \<Longrightarrow> \<not> dtls s \<Longrightarrow> ossl_statem_in_error s1 \<and> hand s1 = hand s"
    and accepted: "tr mt s = (True, s1) \<Longrightarrow> statem s1 = (statem s)\<lparr>hand_state := hand s1\<rparr>"
    and keeps: "tr mt s = (b, s1) \<Longrightarrow> session s1 = session s \<and> ieee1609 s1 = ieee1609 s
      \<and> verify_mode s1 = verify_mode s \<and> server s1 = server s"
begin

text \<open>Either the message is accepted, or the connection is in the error state where it was.\<close>

lemma transition_cases:
  assumes "\<not> dtls s"
  obtains (accept) s1 where "tr mt s = (True, s1)" "state (statem s1) = state (statem s)" "session s1 = session s"
    | (refuse) s1 where "tr mt s = (False, s1)" "ossl_statem_in_error s1" "hand s1 = hand s" "session s1 = session s"
proof -
  obtain b s1 where t: "tr mt s = (b, s1)" by (cases "tr mt s")
  show thesis
  proof (cases b)
    case True
    then have "statem s1 = (statem s)\<lparr>hand_state := hand s1\<rparr>" using accepted t by simp
    from arg_cong [OF this, of state] have "state (statem s1) = state (statem s)" by simp
    then show ?thesis using accept t True keeps [OF t] by simp
  next
    case False
    then show ?thesis using refuse t refused [of mt s s1] assms keeps [OF t] by simp
  qed
qed

text \<open>Along a sequence of messages the session's peer changes at a Certificate message only.\<close>

lemma reads_peer:
  assumes "reads tr handled s mts s1" "\<And>s2. (\<exists>mt s0. tr mt s0 = (True, s2)) \<Longrightarrow> hand s2 \<noteq> TLS_ST_SR_CERT \<and> hand s2 \<noteq> TLS_ST_CR_CERT"
  shows "peer (session s1) = peer (session s)"
  using assms(1)
proof induction
  case (reads_Cons mt s s1 s2 mts s')
  then have "peer (session s2) = peer (session s1)" using assms(2) by (auto simp: handled_def)
  moreover have "session s1 = session s" using keeps [OF reads_Cons(1)] by simp
  ultimately show ?case using reads_Cons.IH by simp
qed simp

end

text \<open>The law of the contract on one result, closed under the constructs the transitions are made of.\<close>

definition step_ok :: "SSL \<Rightarrow> bool \<times> SSL \<Rightarrow> bool" where
  "step_ok s r \<longleftrightarrow> (case r of (b, s1) \<Rightarrow> session s1 = session s \<and> ieee1609 s1 = ieee1609 s
     \<and> verify_mode s1 = verify_mode s \<and> server s1 = server s
     \<and> (if b then statem s1 = (statem s)\<lparr>hand_state := hand s1\<rparr>
        else \<not> dtls s \<longrightarrow> ossl_statem_in_error s1 \<and> hand s1 = hand s))"

lemma step_ok_goto [simp]: "step_ok s (True, s\<lparr>statem := (statem s)\<lparr>hand_state := h\<rparr>\<rparr>)"
  by (simp add: step_ok_def)

lemma step_ok_no_transition [simp]: "step_ok s (no_transition mt s)"
  by (auto simp: step_ok_def no_transition_def SSL_IS_DTLS_def split: if_splits)

lemma step_ok_fatal [simp]: "step_ok s (False, SSLfatal al r s)"
  by (simp add: step_ok_def)

lemma step_ok_if [simp]: "step_ok s (if c then a else b) \<longleftrightarrow> (c \<longrightarrow> step_ok s a) \<and> (\<not> c \<longrightarrow> step_ok s b)"
  by simp

lemma read_transitionI:
  assumes "\<And>mt s. step_ok s (tr mt s)"
  shows "read_transition tr"
proof
  fix mt b s s1
  show "ossl_statem_in_error s1 \<and> hand s1 = hand s" if "tr mt s = (False, s1)" "\<not> dtls s"
    using assms [of s mt] that by (simp add: step_ok_def)
  show "statem s1 = (statem s)\<lparr>hand_state := hand s1\<rparr>" if "tr mt s = (True, s1)"
    using assms [of s mt] that by (simp add: step_ok_def)
  show "session s1 = session s \<and> ieee1609 s1 = ieee1609 s \<and> verify_mode s1 = verify_mode s \<and> server s1 = server s"
    if "tr mt s = (b, s1)"
    using assms [of s mt] that by (simp add: step_ok_def)
qed

end
