(* ===== verification/Statem_Client.thy ===== *)
theory Statem_Client
  imports Statem_Common
begin

text \<open>
  The client side of the handshake state machine (\<^verbatim>\<open>ssl/statem/statem_clnt.c\<close>): which message may
  come next, which message is sent next, and the work before and after sending. A transition
  returns what the C function returns and the connection it leaves behind. The cipher contexts
  of the record layer, which \<open>ossl_statem_client_post_work\<close> frees after the end of early data, are
  not part of the state.
\<close>

section \<open>Reading\<close>

definition cert_req_allowed :: "SSL \<Rightarrow> bool" where
  "cert_req_allowed s \<longleftrightarrow> \<not> (SSL3_VERSION < version s \<and> has (algorithm_auth (the_cipher s)) SSL_aNULL
     \<or> has (algorithm_auth (the_cipher s)) (SSL_aSRP OR SSL_aPSK))"

definition key_exchange_expected :: "SSL \<Rightarrow> bool" where
  "key_exchange_expected s \<longleftrightarrow>
     has (algorithm_mkey (the_cipher s)) (SSL_kDHE OR SSL_kECDHE OR SSL_kDHEPSK OR SSL_kECDHEPSK OR SSL_kSRP)"

definition ossl_statem_client13_read_transition :: "hooks \<Rightarrow> nat \<Rightarrow> SSL \<Rightarrow> bool \<times> SSL" where
  "ossl_statem_client13_read_transition hk mt s =
     (if hand s = TLS_ST_CW_CLNT_HELLO then
        if mt = SSL3_MT_SERVER_HELLO then goto TLS_ST_CR_SRVR_HELLO s else (False, s)
      else if hand s = TLS_ST_CR_SRVR_HELLO then
        if mt = SSL3_MT_ENCRYPTED_EXTENSIONS then goto TLS_ST_CR_ENCRYPTED_EXTENSIONS s else (False, s)
      else if hand s = TLS_ST_CR_ENCRYPTED_EXTENSIONS then
        if hit s then
          if mt = SSL3_MT_FINISHED then goto TLS_ST_CR_FINISHED s else (False, s)
        else if mt = SSL3_MT_CERTIFICATE_REQUEST then goto TLS_ST_CR_CERT_REQ s
        else if mt = SSL3_MT_CERTIFICATE then goto TLS_ST_CR_CERT s else (False, s)
      else if hand s = TLS_ST_CR_CERT_REQ then
        if mt = SSL3_MT_CERTIFICATE then goto TLS_ST_CR_CERT s else (False, s)
      else if hand s = TLS_ST_CR_CERT then
        if mt = SSL3_MT_CERTIFICATE_VERIFY then goto TLS_ST_CR_CERT_VRFY s else (False, s)
      else if hand s = TLS_ST_CR_CERT_VRFY then
        if mt = SSL3_MT_FINISHED then goto TLS_ST_CR_FINISHED s else (False, s)
      else if hand s = TLS_ST_OK then
        if mt = SSL3_MT_NEWSESSION_TICKET then goto TLS_ST_CR_SESSION_TICKET s
        else if mt = SSL3_MT_KEY_UPDATE then goto TLS_ST_CR_KEY_UPDATE s
        else if mt = SSL3_MT_CERTIFICATE_REQUEST \<and> \<not> SSL_IS_DTLS s \<and> post_handshake_auth s = SSL_PHA_EXT_SENT then
          let s1 = s\<lparr>post_handshake_auth := SSL_PHA_REQUESTED\<rparr>
          in if \<not> hk_pha_restore hk s1 then (False, fatal_internal s1) else goto TLS_ST_CR_CERT_REQ s1
        else (False, s)
      else (False, s))"

text \<open>The cases that fall through one into the next: certificate, status, key exchange, request.\<close>

definition client_read_cert_req :: "nat \<Rightarrow> SSL \<Rightarrow> bool \<times> SSL" where
  "client_read_cert_req mt s =
     (if mt = SSL3_MT_SERVER_DONE then goto TLS_ST_CR_SRVR_DONE s else no_transition mt s)"

definition client_read_key_exch :: "nat \<Rightarrow> SSL \<Rightarrow> bool \<times> SSL" where
  "client_read_key_exch mt s =
     (if mt = SSL3_MT_CERTIFICATE_REQUEST then
        if cert_req_allowed s then goto TLS_ST_CR_CERT_REQ s else no_transition mt s
      else client_read_cert_req mt s)"

definition client_read_cert_status :: "nat \<Rightarrow> SSL \<Rightarrow> bool \<times> SSL" where
  "client_read_cert_status mt s =
     (if key_exchange_expected s
         \<or> has (algorithm_mkey (the_cipher s)) SSL_PSK \<and> mt = SSL3_MT_SERVER_KEY_EXCHANGE then
        if mt = SSL3_MT_SERVER_KEY_EXCHANGE then goto TLS_ST_CR_KEY_EXCH s else no_transition mt s
      else client_read_key_exch mt s)"

definition client_read_srvr_hello :: "nat \<Rightarrow> SSL \<Rightarrow> bool \<times> SSL" where
  "client_read_srvr_hello mt s =
     (if hit s then
        if ticket_expected (ext s) then
          if mt = SSL3_MT_NEWSESSION_TICKET then goto TLS_ST_CR_SESSION_TICKET s else no_transition mt s
        else if mt = SSL3_MT_CHANGE_CIPHER_SPEC then goto TLS_ST_CR_CHANGE s else no_transition mt s
      else if SSL_IS_DTLS s \<and> mt = DTLS1_MT_HELLO_VERIFY_REQUEST then goto DTLS_ST_CR_HELLO_VERIFY_REQUEST s
      else if TLS1_VERSION \<le> version s \<and> session_secret_cb (ext s) \<and> tick (session s)
              \<and> mt = SSL3_MT_CHANGE_CIPHER_SPEC then goto TLS_ST_CR_CHANGE (s\<lparr>hit := True\<rparr>)
      else if \<not> has (algorithm_auth (the_cipher s)) (SSL_aNULL OR SSL_aSRP OR SSL_aPSK) then
        if mt = SSL3_MT_CERTIFICATE then goto TLS_ST_CR_CERT s else no_transition mt s
      else if key_exchange_expected s
              \<or> has (algorithm_mkey (the_cipher s)) SSL_PSK \<and> mt = SSL3_MT_SERVER_KEY_EXCHANGE then
        if mt = SSL3_MT_SERVER_KEY_EXCHANGE then goto TLS_ST_CR_KEY_EXCH s else no_transition mt s
      else if mt = SSL3_MT_CERTIFICATE_REQUEST \<and> cert_req_allowed s then goto TLS_ST_CR_CERT_REQ s
      else if mt = SSL3_MT_SERVER_DONE then goto TLS_ST_CR_SRVR_DONE s
      else no_transition mt s)"

definition ossl_statem_client_read_transition :: "hooks \<Rightarrow> nat \<Rightarrow> SSL \<Rightarrow> bool \<times> SSL" where
  "ossl_statem_client_read_transition hk mt s =
     (if SSL_IS_TLS13 s then (case ossl_statem_client13_read_transition hk mt s of
          (True, s1) \<Rightarrow> (True, s1)
        | (False, s1) \<Rightarrow> no_transition mt s1)
      else if hand s = TLS_ST_CW_CLNT_HELLO then
        if mt = SSL3_MT_SERVER_HELLO then goto TLS_ST_CR_SRVR_HELLO s
        else if SSL_IS_DTLS s \<and> mt = DTLS1_MT_HELLO_VERIFY_REQUEST
        then goto DTLS_ST_CR_HELLO_VERIFY_REQUEST s else no_transition mt s
      else if hand s = TLS_ST_EARLY_DATA then
        if mt = SSL3_MT_SERVER_HELLO then goto TLS_ST_CR_SRVR_HELLO s else no_transition mt s
      else if hand s = TLS_ST_CR_SRVR_HELLO then client_read_srvr_hello mt s
      else if hand s = TLS_ST_CR_CERT then
        if status_expected (ext s) \<and> mt = SSL3_MT_CERTIFICATE_STATUS
        then goto TLS_ST_CR_CERT_STATUS s else client_read_cert_status mt s
      else if hand s = TLS_ST_CR_CERT_STATUS then client_read_cert_status mt s
      else if hand s = TLS_ST_CR_KEY_EXCH then client_read_key_exch mt s
      else if hand s = TLS_ST_CR_CERT_REQ then client_read_cert_req mt s
      else if hand s = TLS_ST_CW_FINISHED then
        if ticket_expected (ext s) then
          if mt = SSL3_MT_NEWSESSION_TICKET then goto TLS_ST_CR_SESSION_TICKET s else no_transition mt s
        else if mt = SSL3_MT_CHANGE_CIPHER_SPEC then goto TLS_ST_CR_CHANGE s else no_transition mt s
      else if hand s = TLS_ST_CR_SESSION_TICKET then
        if mt = SSL3_MT_CHANGE_CIPHER_SPEC then goto TLS_ST_CR_CHANGE s else no_transition mt s
      else if hand s = TLS_ST_CR_CHANGE then
        if mt = SSL3_MT_FINISHED then goto TLS_ST_CR_FINISHED s else no_transition mt s
      else if hand s = TLS_ST_OK then
        if mt = SSL3_MT_HELLO_REQUEST then goto TLS_ST_CR_HELLO_REQ s else no_transition mt s
      else no_transition mt s)"

section \<open>Writing\<close>

definition cert_or_finished :: "SSL \<Rightarrow> OSSL_HANDSHAKE_STATE" where
  "cert_or_finished s = (if cert_req (s3 s) \<noteq> 0 then TLS_ST_CW_CERT else TLS_ST_CW_FINISHED)"

definition ossl_statem_client13_write_transition :: "SSL \<Rightarrow> WRITE_TRAN \<times> SSL" where
  "ossl_statem_client13_write_transition s =
     (if hand s = TLS_ST_CR_CERT_REQ then
        if post_handshake_auth s = SSL_PHA_REQUESTED then wgoto TLS_ST_CW_CERT s
        else if \<not> has (shutdown s) SSL_SENT_SHUTDOWN then (WRITE_TRAN_ERROR, fatal_internal s)
        else wgoto TLS_ST_OK s
      else if hand s = TLS_ST_CR_FINISHED then
        if early_data_state s = SSL_EARLY_DATA_WRITE_RETRY \<or> early_data_state s = SSL_EARLY_DATA_FINISHED_WRITING
        then wgoto TLS_ST_PENDING_EARLY_DATA_END s
        else if has (options s) SSL_OP_ENABLE_MIDDLEBOX_COMPAT \<and> hello_retry_request s = SSL_HRR_NONE
        then wgoto TLS_ST_CW_CHANGE s
        else wgoto (cert_or_finished s) s
      else if hand s = TLS_ST_PENDING_EARLY_DATA_END then
        if early_data (ext s) = SSL_EARLY_DATA_ACCEPTED then wgoto TLS_ST_CW_END_OF_EARLY_DATA s
        else wgoto (cert_or_finished s) s
      else if hand s = TLS_ST_CW_END_OF_EARLY_DATA \<or> hand s = TLS_ST_CW_CHANGE then
        wgoto (cert_or_finished s) s
      else if hand s = TLS_ST_CW_CERT then
        wgoto (if cert_req (s3 s) = 1 then TLS_ST_CW_CERT_VRFY else TLS_ST_CW_FINISHED) s
      else if hand s = TLS_ST_CW_CERT_VRFY then wgoto TLS_ST_CW_FINISHED s
      else if hand s = TLS_ST_CR_KEY_UPDATE \<or> hand s = TLS_ST_CW_KEY_UPDATE
           \<or> hand s = TLS_ST_CR_SESSION_TICKET \<or> hand s = TLS_ST_CW_FINISHED then wgoto TLS_ST_OK s
      else if hand s = TLS_ST_OK then
        if key_update s \<noteq> SSL_KEY_UPDATE_NONE then wgoto TLS_ST_CW_KEY_UPDATE s else (WRITE_TRAN_FINISHED, s)
      else (WRITE_TRAN_ERROR, fatal_internal s))"

definition ossl_statem_client_write_transition :: "hooks \<Rightarrow> SSL \<Rightarrow> WRITE_TRAN \<times> SSL" where
  "ossl_statem_client_write_transition hk s =
     (if SSL_IS_TLS13 s then ossl_statem_client13_write_transition s
      else if hand s = TLS_ST_OK \<and> \<not> renegotiate s then (WRITE_TRAN_FINISHED, s)
      else if hand s = TLS_ST_OK \<or> hand s = TLS_ST_BEFORE then wgoto TLS_ST_CW_CLNT_HELLO s
      else if hand s = TLS_ST_CW_CLNT_HELLO then
        if early_data_state s = SSL_EARLY_DATA_CONNECTING then
          wgoto (if has (options s) SSL_OP_ENABLE_MIDDLEBOX_COMPAT then TLS_ST_CW_CHANGE else TLS_ST_EARLY_DATA) s
        else (WRITE_TRAN_FINISHED, s)
      else if hand s = TLS_ST_CR_SRVR_HELLO then
        wgoto (if has (options s) SSL_OP_ENABLE_MIDDLEBOX_COMPAT
                  \<and> early_data_state s \<noteq> SSL_EARLY_DATA_FINISHED_WRITING
               then TLS_ST_CW_CHANGE else TLS_ST_CW_CLNT_HELLO) s
      else if hand s = TLS_ST_EARLY_DATA then (WRITE_TRAN_FINISHED, s)
      else if hand s = DTLS_ST_CR_HELLO_VERIFY_REQUEST then wgoto TLS_ST_CW_CLNT_HELLO s
      else if hand s = TLS_ST_CR_SRVR_DONE then
        wgoto (if cert_req (s3 s) \<noteq> 0 then TLS_ST_CW_CERT else TLS_ST_CW_KEY_EXCH) s
      else if hand s = TLS_ST_CW_CERT then wgoto TLS_ST_CW_KEY_EXCH s
      else if hand s = TLS_ST_CW_KEY_EXCH then
        let s1 = set_hand (if cert_req (s3 s) = 1 then TLS_ST_CW_CERT_VRFY else TLS_ST_CW_CHANGE) s
        in (WRITE_TRAN_CONTINUE,
            if has (s3_flags (s3 s1)) TLS1_FLAGS_SKIP_CERT_VERIFY then set_hand TLS_ST_CW_CHANGE s1 else s1)
      else if hand s = TLS_ST_CW_CERT_VRFY then wgoto TLS_ST_CW_CHANGE s
      else if hand s = TLS_ST_CW_CHANGE then
        if hello_retry_request s = SSL_HRR_PENDING then wgoto TLS_ST_CW_CLNT_HELLO s
        else if early_data_state s = SSL_EARLY_DATA_CONNECTING then wgoto TLS_ST_EARLY_DATA s
        else wgoto (if \<not> SSL_IS_DTLS s \<and> npn_seen (s3 s) then TLS_ST_CW_NEXT_PROTO else TLS_ST_CW_FINISHED) s
      else if hand s = TLS_ST_CW_NEXT_PROTO then wgoto TLS_ST_CW_FINISHED s
      else if hand s = TLS_ST_CW_FINISHED then
        if hit s then wgoto TLS_ST_OK s else (WRITE_TRAN_FINISHED, s)
      else if hand s = TLS_ST_CR_FINISHED then
        wgoto (if hit s then TLS_ST_CW_CHANGE else TLS_ST_OK) s
      else if hand s = TLS_ST_CR_HELLO_REQ then
        (case ssl3_renegotiate_check hk True s of
           (True, s1) \<Rightarrow> (case tls_setup_handshake hk s1 of
               (False, s2) \<Rightarrow> (WRITE_TRAN_ERROR, s2)
             | (True, s2) \<Rightarrow> wgoto TLS_ST_CW_CLNT_HELLO s2)
         | (False, s1) \<Rightarrow> wgoto TLS_ST_OK s1)
      else (WRITE_TRAN_ERROR, fatal_internal s))"

definition ossl_statem_client_pre_work :: "hooks \<Rightarrow> SSL \<Rightarrow> WORK_STATE \<times> SSL" where
  "ossl_statem_client_pre_work hk s =
     (if hand s = TLS_ST_CW_CLNT_HELLO then
        let s1 = s\<lparr>shutdown := 0\<rparr>
        in if SSL_IS_DTLS s1 then (case ssl3_init_finished_mac hk s1 of
              (True, s2) \<Rightarrow> (WORK_FINISHED_CONTINUE, s2) | (False, s2) \<Rightarrow> (WORK_ERROR, s2))
           else (WORK_FINISHED_CONTINUE, s1)
      else if hand s = TLS_ST_CW_CHANGE then
        (WORK_FINISHED_CONTINUE,
         if SSL_IS_DTLS s \<and> hit s then upd_st (\<lambda>st. st\<lparr>use_timer := False\<rparr>) s else s)
      else if hand s = TLS_ST_PENDING_EARLY_DATA_END then
        if early_data_state s = SSL_EARLY_DATA_FINISHED_WRITING \<or> early_data_state s = SSL_EARLY_DATA_NONE
        then (WORK_FINISHED_CONTINUE, s) else tls_finish_handshake hk False True s
      else if hand s = TLS_ST_EARLY_DATA then tls_finish_handshake hk False True s
      else if hand s = TLS_ST_OK then tls_finish_handshake hk True True s
      else (WORK_FINISHED_CONTINUE, s))"

definition ossl_statem_client_post_work :: "hooks \<Rightarrow> SSL \<Rightarrow> WORK_STATE \<times> SSL" where
  "ossl_statem_client_post_work hk s0 =
     (let s = s0\<lparr>init_num := 0\<rparr> in
      if hand s = TLS_ST_CW_CLNT_HELLO then
        let (r, s1) =
          (if early_data_state s = SSL_EARLY_DATA_CONNECTING \<and> 0 < max_early_data s then
             if \<not> has (options s) SSL_OP_ENABLE_MIDDLEBOX_COMPAT
                \<and> \<not> hk_change_cipher hk (SSL3_CC_EARLY + SSL3_CHANGE_CIPHER_CLIENT_WRITE) s
             then (WORK_ERROR, fatal_internal s) else (WORK_FINISHED_CONTINUE, s)
           else case statem_flush hk s of
             (True, s1) \<Rightarrow> (WORK_FINISHED_CONTINUE, s1) | (False, s1) \<Rightarrow> (WORK_MORE_A, s1))
        in (r, if r = WORK_FINISHED_CONTINUE \<and> SSL_IS_DTLS s1 then s1\<lparr>first_packet := True\<rparr> else s1)
      else if hand s = TLS_ST_CW_KEY_EXCH then
        if hk_ckx_post hk s then (WORK_FINISHED_CONTINUE, s) else (WORK_ERROR, fatal_internal s)
      else if hand s = TLS_ST_CW_CHANGE then
        if SSL_IS_TLS13 s \<or> hello_retry_request s = SSL_HRR_PENDING then (WORK_FINISHED_CONTINUE, s)
        else if early_data_state s = SSL_EARLY_DATA_CONNECTING \<and> 0 < max_early_data s then
          if hk_change_cipher hk (SSL3_CC_EARLY + SSL3_CHANGE_CIPHER_CLIENT_WRITE) s
          then (WORK_FINISHED_CONTINUE, s) else (WORK_ERROR, fatal_internal s)
        else
          let s1 = upd_sess (\<lambda>t. t\<lparr>sess_cipher := new_cipher (s3 s)\<rparr>) s
          in if \<not> hk_setup_key_block hk s1 \<or> \<not> hk_change_cipher hk SSL3_CHANGE_CIPHER_CLIENT_WRITE s1
             then (WORK_ERROR, fatal_internal s1) else (WORK_FINISHED_CONTINUE, s1)
      else if hand s = TLS_ST_CW_FINISHED then
        (case statem_flush hk s of
           (False, s1) \<Rightarrow> (WORK_MORE_B, s1)
         | (True, s1) \<Rightarrow>
             if SSL_IS_TLS13 s1 \<and> (\<not> hk_pha_save hk s1
                  \<or> post_handshake_auth s1 \<noteq> SSL_PHA_REQUESTED
                    \<and> \<not> hk_change_cipher hk (SSL3_CC_APPLICATION + SSL3_CHANGE_CIPHER_CLIENT_WRITE) s1)
             then (WORK_ERROR, fatal_internal s1) else (WORK_FINISHED_CONTINUE, s1))
      else if hand s = TLS_ST_CW_KEY_UPDATE then
        (case statem_flush hk s of
           (False, s1) \<Rightarrow> (WORK_MORE_A, s1)
         | (True, s1) \<Rightarrow> if hk_update_key hk True s1 then (WORK_FINISHED_CONTINUE, s1)
                        else (WORK_ERROR, fatal_internal s1))
      else (WORK_FINISHED_CONTINUE, s))"

text \<open>
  The type of the message to construct; \<open>Some None\<close> is \<open>SSL3_MT_DUMMY\<close>, no message, and \<open>None\<close>
  the error that ends in a fatal alert.
\<close>

definition client_message_type :: "OSSL_HANDSHAKE_STATE \<Rightarrow> nat option option" where
  "client_message_type h =
     (if h = TLS_ST_CW_CHANGE then Some (Some SSL3_MT_CHANGE_CIPHER_SPEC)
      else if h = TLS_ST_CW_CLNT_HELLO then Some (Some SSL3_MT_CLIENT_HELLO)
      else if h = TLS_ST_CW_END_OF_EARLY_DATA then Some (Some SSL3_MT_END_OF_EARLY_DATA)
      else if h = TLS_ST_PENDING_EARLY_DATA_END then Some None
      else if h = TLS_ST_CW_CERT then Some (Some SSL3_MT_CERTIFICATE)
      else if h = TLS_ST_CW_KEY_EXCH then Some (Some SSL3_MT_CLIENT_KEY_EXCHANGE)
      else if h = TLS_ST_CW_CERT_VRFY then Some (Some SSL3_MT_CERTIFICATE_VERIFY)
      else if h = TLS_ST_CW_NEXT_PROTO then Some (Some SSL3_MT_NEXT_PROTO)
      else if h = TLS_ST_CW_FINISHED then Some (Some SSL3_MT_FINISHED)
      else if h = TLS_ST_CW_KEY_UPDATE then Some (Some SSL3_MT_KEY_UPDATE)
      else None)"

definition ossl_statem_client_construct_message :: "SSL \<Rightarrow> nat option option \<times> SSL" where
  "ossl_statem_client_construct_message s = (case client_message_type (hand s) of
      None \<Rightarrow> (None, SSLfatal SSL_AD_INTERNAL_ERROR SSL_R_BAD_HANDSHAKE_STATE s)
    | Some mt \<Rightarrow> (Some mt, s))"

definition ossl_statem_client_max_message_size :: "SSL \<Rightarrow> nat" where
  "ossl_statem_client_max_message_size s =
     (if hand s = TLS_ST_CR_SRVR_HELLO then 65607
      else if hand s = DTLS_ST_CR_HELLO_VERIFY_REQUEST then 258
      else if hand s = TLS_ST_CR_CERT then max_cert_list s
      else if hand s = TLS_ST_CR_CERT_VRFY then 16384
      else if hand s = TLS_ST_CR_CERT_STATUS then 16384
      else if hand s = TLS_ST_CR_KEY_EXCH then 102400
      else if hand s = TLS_ST_CR_CERT_REQ then max_cert_list s
      else if hand s = TLS_ST_CR_SRVR_DONE then 0
      else if hand s = TLS_ST_CR_CHANGE then if version s = DTLS1_BAD_VER then 3 else 1
      else if hand s = TLS_ST_CR_SESSION_TICKET then if SSL_IS_TLS13 s then 131338 else 65541
      else if hand s = TLS_ST_CR_FINISHED then 64
      else if hand s = TLS_ST_CR_ENCRYPTED_EXTENSIONS then 20000
      else if hand s = TLS_ST_CR_KEY_UPDATE then 1
      else 0)"

section \<open>The contract of the read transition\<close>

lemma client13_step_ok:
  assumes "ossl_statem_client13_read_transition hk mt s = (True, s1)"
  shows "step_ok s (True, s1)"
  using assms unfolding ossl_statem_client13_read_transition_def
  by (auto simp: step_ok_def Let_def split: if_split_asm)

lemma client13_refused:
  assumes "ossl_statem_client13_read_transition hk mt s = (False, s1)"
  shows "step_ok s (no_transition mt s1)"
  using assms unfolding ossl_statem_client13_read_transition_def
  by (auto simp: step_ok_def Let_def no_transition_def SSL_IS_DTLS_def fatal_internal_def split: if_split_asm)

lemma client_read_parts_ok [simp]:
  "step_ok s (client_read_cert_req mt s)" "step_ok s (client_read_key_exch mt s)"
  "step_ok s (client_read_cert_status mt s)"
  by (simp_all add: client_read_cert_req_def client_read_key_exch_def client_read_cert_status_def)

lemma client_read_srvr_hello_ok [simp]: "step_ok s (client_read_srvr_hello mt s)"
  unfolding client_read_srvr_hello_def by (auto simp: step_ok_def [of _ "(True, _)"])

lemma client_step_ok: "step_ok s (ossl_statem_client_read_transition hk mt s)"
proof (cases "SSL_IS_TLS13 s")
  case True
  then show ?thesis
    using client13_step_ok [of hk mt s] client13_refused [of hk mt s]
    by (auto simp: ossl_statem_client_read_transition_def split: prod.split bool.split)
next
  case False
  then show ?thesis unfolding ossl_statem_client_read_transition_def by simp
qed

interpretation client_reads: read_transition "ossl_statem_client_read_transition hk" for hk
  by (rule read_transitionI) (rule client_step_ok)

section \<open>The server's messages in TLS 1.3\<close>

text \<open>The reading states of a TLS 1.3 client and the messages between them, in RFC 8446's order.\<close>

definition client13_edges :: "bool \<Rightarrow> (OSSL_HANDSHAKE_STATE \<times> nat \<times> OSSL_HANDSHAKE_STATE) set" where
  "client13_edges resumed =
     {(TLS_ST_CW_CLNT_HELLO, SSL3_MT_SERVER_HELLO, TLS_ST_CR_SRVR_HELLO),
      (TLS_ST_CR_SRVR_HELLO, SSL3_MT_ENCRYPTED_EXTENSIONS, TLS_ST_CR_ENCRYPTED_EXTENSIONS),
      (TLS_ST_OK, SSL3_MT_NEWSESSION_TICKET, TLS_ST_CR_SESSION_TICKET),
      (TLS_ST_OK, SSL3_MT_KEY_UPDATE, TLS_ST_CR_KEY_UPDATE),
      (TLS_ST_OK, SSL3_MT_CERTIFICATE_REQUEST, TLS_ST_CR_CERT_REQ),
      (TLS_ST_CR_CERT_REQ, SSL3_MT_CERTIFICATE, TLS_ST_CR_CERT),
      (TLS_ST_CR_CERT, SSL3_MT_CERTIFICATE_VERIFY, TLS_ST_CR_CERT_VRFY),
      (TLS_ST_CR_CERT_VRFY, SSL3_MT_FINISHED, TLS_ST_CR_FINISHED)}
     \<union> (if resumed then {(TLS_ST_CR_ENCRYPTED_EXTENSIONS, SSL3_MT_FINISHED, TLS_ST_CR_FINISHED)}
        else {(TLS_ST_CR_ENCRYPTED_EXTENSIONS, SSL3_MT_CERTIFICATE_REQUEST, TLS_ST_CR_CERT_REQ),
              (TLS_ST_CR_ENCRYPTED_EXTENSIONS, SSL3_MT_CERTIFICATE, TLS_ST_CR_CERT)})"

lemma client13_step:
  assumes "SSL_IS_TLS13 s" "ossl_statem_client_read_transition hk mt s = (True, s1)"
  shows "(hand s, mt, hand s1) \<in> client13_edges (hit s)" "SSL_IS_TLS13 s1" "hit s1 = hit s"
proof -
  have "ossl_statem_client13_read_transition hk mt s = (True, s1)"
    using assms no_transition_frame(1) by (fastforce simp: ossl_statem_client_read_transition_def split: prod.splits bool.splits)
  then show "(hand s, mt, hand s1) \<in> client13_edges (hit s)" "SSL_IS_TLS13 s1" "hit s1 = hit s"
    using assms(1) unfolding ossl_statem_client13_read_transition_def
    by (auto simp: client13_edges_def Let_def SSL_IS_TLS13_def SSL_IS_DTLS_def split: if_split_asm)
qed

lemma client13_reads_Cons:
  assumes "reads (ossl_statem_client_read_transition hk) handled s (mt # mts) s'" "SSL_IS_TLS13 s"
  obtains s1 where "(hand s, mt, hand s1) \<in> client13_edges (hit s)" "SSL_IS_TLS13 s1" "hit s1 = hit s"
    "reads (ossl_statem_client_read_transition hk) handled s1 mts s'"
  using assms by (elim reads_ConsE) (metis client13_step handled_def)

text \<open>
  The messages from a state to the server's Finished: each state has one way on, but for the
  optional certificate request; after Finished no message is accepted.
\<close>

definition client13_rest :: "bool \<Rightarrow> OSSL_HANDSHAKE_STATE \<Rightarrow> nat list set" where
  "client13_rest resumed h =
     (if h = TLS_ST_CR_FINISHED then {[]}
      else if h = TLS_ST_CR_CERT_VRFY then {[20]}
      else if h = TLS_ST_CR_CERT then {[15, 20]}
      else if h = TLS_ST_CR_CERT_REQ then {[11, 15, 20]}
      else if h = TLS_ST_CR_ENCRYPTED_EXTENSIONS then if resumed then {[20]} else {[11, 15, 20], [13, 11, 15, 20]}
      else if h = TLS_ST_CR_SRVR_HELLO then if resumed then {[8, 20]} else {[8, 11, 15, 20], [8, 13, 11, 15, 20]}
      else if h = TLS_ST_CW_CLNT_HELLO then if resumed then {[2, 8, 20]} else {[2, 8, 11, 15, 20], [2, 8, 13, 11, 15, 20]}
      else if h = TLS_ST_OK then {[13, 11, 15, 20]}
      else {})"

lemma client13_reads_finished:
  assumes "reads (ossl_statem_client_read_transition hk) handled s mts s'" "SSL_IS_TLS13 s" "hand s' = TLS_ST_CR_FINISHED"
  shows "mts \<in> client13_rest (hit s) (hand s)"
  using assms
proof (induction mts arbitrary: s)
  case Nil
  then show ?case by (simp add: client13_rest_def)
next
  case (Cons mt mts)
  obtain s1 where s1: "(hand s, mt, hand s1) \<in> client13_edges (hit s)" "SSL_IS_TLS13 s1" "hit s1 = hit s"
      "reads (ossl_statem_client_read_transition hk) handled s1 mts s'"
    using client13_reads_Cons [OF Cons.prems(1,2)] by blast
  have "mts \<in> client13_rest (hit s) (hand s1)" using Cons.IH [OF s1(4,2) Cons.prems(3)] s1(3) by simp
  then show ?case using s1(1) by (auto simp: client13_edges_def client13_rest_def split: if_splits)
qed

end
