(* ===== verification/Statem_Server.thy ===== *)
theory Statem_Server
  imports Statem_Common
begin

text \<open>
  The server side of the handshake state machine (\<^verbatim>\<open>ssl/statem/statem_srvr.c\<close>): which message may
  come next, which message is sent next, and the work before and after sending, for TLS 1.3 and
  for the versions before it. PSK and SRP are compiled out, so a server key exchange is sent for
  the ephemeral key exchanges only.
\<close>

section \<open>Reading\<close>

definition server13_read_flight :: "nat \<Rightarrow> SSL \<Rightarrow> bool \<times> SSL" where
  "server13_read_flight mt s =
     (if cert_request (s3 s) then
        if mt = SSL3_MT_CERTIFICATE then goto TLS_ST_SR_CERT s else (False, s)
      else if mt = SSL3_MT_FINISHED then goto TLS_ST_SR_FINISHED s else (False, s))"

definition ossl_statem_server13_read_transition :: "nat \<Rightarrow> SSL \<Rightarrow> bool \<times> SSL" where
  "ossl_statem_server13_read_transition mt s =
     (if hand s = TLS_ST_EARLY_DATA then
        if hello_retry_request s = SSL_HRR_PENDING then
          if mt = SSL3_MT_CLIENT_HELLO then goto TLS_ST_SR_CLNT_HELLO s else (False, s)
        else if early_data (ext s) = SSL_EARLY_DATA_ACCEPTED then
          if mt = SSL3_MT_END_OF_EARLY_DATA then goto TLS_ST_SR_END_OF_EARLY_DATA s else (False, s)
        else server13_read_flight mt s
      else if hand s = TLS_ST_SR_END_OF_EARLY_DATA \<or> hand s = TLS_ST_SW_FINISHED then
        server13_read_flight mt s
      else if hand s = TLS_ST_SR_CERT then
        if peer (session s) = None then
          if mt = SSL3_MT_FINISHED then goto TLS_ST_SR_FINISHED s else (False, s)
        else if mt = SSL3_MT_CERTIFICATE_VERIFY then goto TLS_ST_SR_CERT_VRFY s else (False, s)
      else if hand s = TLS_ST_SR_CERT_VRFY then
        if mt = SSL3_MT_FINISHED then goto TLS_ST_SR_FINISHED s else (False, s)
      else if hand s = TLS_ST_OK then
        if early_data_state s = SSL_EARLY_DATA_READING then (False, s)
        else if mt = SSL3_MT_CERTIFICATE \<and> post_handshake_auth s = SSL_PHA_REQUESTED then goto TLS_ST_SR_CERT s
        else if mt = SSL3_MT_KEY_UPDATE then goto TLS_ST_SR_KEY_UPDATE s
        else (False, s)
      else (False, s))"

definition ossl_statem_server_read_transition :: "nat \<Rightarrow> SSL \<Rightarrow> bool \<times> SSL" where
  "ossl_statem_server_read_transition mt s =
     (if SSL_IS_TLS13 s then (case ossl_statem_server13_read_transition mt s of
          (True, s1) \<Rightarrow> (True, s1)
        | (False, s1) \<Rightarrow> no_transition mt s1)
      else if hand s = TLS_ST_BEFORE \<or> hand s = TLS_ST_OK \<or> hand s = DTLS_ST_SW_HELLO_VERIFY_REQUEST then
        if mt = SSL3_MT_CLIENT_HELLO then goto TLS_ST_SR_CLNT_HELLO s else no_transition mt s
      else if hand s = TLS_ST_SW_SRVR_DONE then
        if mt = SSL3_MT_CLIENT_KEY_EXCHANGE then
          if cert_request (s3 s) then
            if version s = SSL3_VERSION then
              if has (verify_mode s) SSL_VERIFY_PEER \<and> has (verify_mode s) SSL_VERIFY_FAIL_IF_NO_PEER_CERT
              then (False, SSLfatal SSL_AD_HANDSHAKE_FAILURE SSL_R_PEER_DID_NOT_RETURN_A_CERTIFICATE s)
              else goto TLS_ST_SR_KEY_EXCH s
            else no_transition mt s
          else goto TLS_ST_SR_KEY_EXCH s
        else if cert_request (s3 s) \<and> mt = SSL3_MT_CERTIFICATE then goto TLS_ST_SR_CERT s
        else no_transition mt s
      else if hand s = TLS_ST_SR_CERT then
        if mt = SSL3_MT_CLIENT_KEY_EXCHANGE then goto TLS_ST_SR_KEY_EXCH s else no_transition mt s
      else if hand s = TLS_ST_SR_KEY_EXCH then
        if peer (session s) = None \<or> no_cert_verify (statem s) then
          if mt = SSL3_MT_CHANGE_CIPHER_SPEC then goto TLS_ST_SR_CHANGE s else no_transition mt s
        else if mt = SSL3_MT_CERTIFICATE_VERIFY then goto TLS_ST_SR_CERT_VRFY s else no_transition mt s
      else if hand s = TLS_ST_SR_CERT_VRFY then
        if mt = SSL3_MT_CHANGE_CIPHER_SPEC then goto TLS_ST_SR_CHANGE s else no_transition mt s
      else if hand s = TLS_ST_SR_CHANGE then
        if npn_seen (s3 s) then
          if mt = SSL3_MT_NEXT_PROTO then goto TLS_ST_SR_NEXT_PROTO s else no_transition mt s
        else if mt = SSL3_MT_FINISHED then goto TLS_ST_SR_FINISHED s else no_transition mt s
      else if hand s = TLS_ST_SR_NEXT_PROTO then
        if mt = SSL3_MT_FINISHED then goto TLS_ST_SR_FINISHED s else no_transition mt s
      else if hand s = TLS_ST_SW_FINISHED then
        if mt = SSL3_MT_CHANGE_CIPHER_SPEC then goto TLS_ST_SR_CHANGE s else no_transition mt s
      else no_transition mt s)"

section \<open>Writing\<close>

definition send_server_key_exchange :: "SSL \<Rightarrow> bool" where
  "send_server_key_exchange s \<longleftrightarrow> has (algorithm_mkey (the_cipher s)) (SSL_kDHE OR SSL_kECDHE)"

definition send_certificate_request :: "SSL \<Rightarrow> bool" where
  "send_certificate_request s \<longleftrightarrow>
     has (verify_mode s) SSL_VERIFY_PEER
     \<and> (\<not> SSL_IS_TLS13 s \<or> \<not> has (verify_mode s) SSL_VERIFY_POST_HANDSHAKE
        \<or> post_handshake_auth s = SSL_PHA_REQUEST_PENDING)
     \<and> (certreqs_sent s < 1 \<or> \<not> has (verify_mode s) SSL_VERIFY_CLIENT_ONCE)
     \<and> (\<not> has (algorithm_auth (the_cipher s)) SSL_aNULL
        \<or> has (verify_mode s) SSL_VERIFY_FAIL_IF_NO_PEER_CERT)
     \<and> \<not> has (algorithm_auth (the_cipher s)) SSL_aSRP
     \<and> \<not> has (algorithm_auth (the_cipher s)) SSL_aPSK"

definition ossl_statem_server13_write_transition :: "SSL \<Rightarrow> WRITE_TRAN \<times> SSL" where
  "ossl_statem_server13_write_transition s =
     (if hand s = TLS_ST_OK then
        if key_update s \<noteq> SSL_KEY_UPDATE_NONE then wgoto TLS_ST_SW_KEY_UPDATE s
        else if post_handshake_auth s = SSL_PHA_REQUEST_PENDING then wgoto TLS_ST_SW_CERT_REQ s
        else if 0 < extra_tickets_expected (ext s) then wgoto TLS_ST_SW_SESSION_TICKET s
        else (WRITE_TRAN_FINISHED, s)
      else if hand s = TLS_ST_SR_CLNT_HELLO then wgoto TLS_ST_SW_SRVR_HELLO s
      else if hand s = TLS_ST_SW_SRVR_HELLO then
        if has (options s) SSL_OP_ENABLE_MIDDLEBOX_COMPAT \<and> hello_retry_request s \<noteq> SSL_HRR_COMPLETE
        then wgoto TLS_ST_SW_CHANGE s
        else if hello_retry_request s = SSL_HRR_PENDING then wgoto TLS_ST_EARLY_DATA s
        else wgoto TLS_ST_SW_ENCRYPTED_EXTENSIONS s
      else if hand s = TLS_ST_SW_CHANGE then
        if hello_retry_request s = SSL_HRR_PENDING then wgoto TLS_ST_EARLY_DATA s
        else wgoto TLS_ST_SW_ENCRYPTED_EXTENSIONS s
      else if hand s = TLS_ST_SW_ENCRYPTED_EXTENSIONS then
        if hit s then wgoto TLS_ST_SW_FINISHED s
        else if send_certificate_request s then wgoto TLS_ST_SW_CERT_REQ s
        else wgoto TLS_ST_SW_CERT s
      else if hand s = TLS_ST_SW_CERT_REQ then
        if post_handshake_auth s = SSL_PHA_REQUEST_PENDING
        then wgoto TLS_ST_OK (s\<lparr>post_handshake_auth := SSL_PHA_REQUESTED\<rparr>)
        else wgoto TLS_ST_SW_CERT s
      else if hand s = TLS_ST_SW_CERT then wgoto TLS_ST_SW_CERT_VRFY s
      else if hand s = TLS_ST_SW_CERT_VRFY then wgoto TLS_ST_SW_FINISHED s
      else if hand s = TLS_ST_SW_FINISHED then wgoto TLS_ST_EARLY_DATA s
      else if hand s = TLS_ST_EARLY_DATA then (WRITE_TRAN_FINISHED, s)
      else if hand s = TLS_ST_SR_FINISHED then
        if post_handshake_auth s \<noteq> SSL_PHA_REQUESTED \<and> \<not> ticket_expected (ext s) then wgoto TLS_ST_OK s
        else
          let s1 = (if post_handshake_auth s = SSL_PHA_REQUESTED
                    then s\<lparr>post_handshake_auth := SSL_PHA_EXT_RECEIVED\<rparr> else s)
          in wgoto (if sent_tickets s1 < num_tickets s1 then TLS_ST_SW_SESSION_TICKET else TLS_ST_OK) s1
      else if hand s = TLS_ST_SR_KEY_UPDATE \<or> hand s = TLS_ST_SW_KEY_UPDATE then wgoto TLS_ST_OK s
      else if hand s = TLS_ST_SW_SESSION_TICKET then
        if \<not> SSL_IS_FIRST_HANDSHAKE s \<and> 0 < extra_tickets_expected (ext s) then (WRITE_TRAN_CONTINUE, s)
        else if hit s \<or> num_tickets s \<le> sent_tickets s then wgoto TLS_ST_OK s
        else (WRITE_TRAN_CONTINUE, s)
      else (WRITE_TRAN_ERROR, fatal_internal s))"

text \<open>The cases that fall through: certificate, status, key exchange, request.\<close>

definition server_write_key_exch :: "SSL \<Rightarrow> WRITE_TRAN \<times> SSL" where
  "server_write_key_exch s =
     wgoto (if send_certificate_request s then TLS_ST_SW_CERT_REQ else TLS_ST_SW_SRVR_DONE) s"

definition server_write_cert_status :: "SSL \<Rightarrow> WRITE_TRAN \<times> SSL" where
  "server_write_cert_status s =
     (if send_server_key_exchange s then wgoto TLS_ST_SW_KEY_EXCH s else server_write_key_exch s)"

definition ossl_statem_server_write_transition :: "hooks \<Rightarrow> SSL \<Rightarrow> WRITE_TRAN \<times> SSL" where
  "ossl_statem_server_write_transition hk s =
     (if SSL_IS_TLS13 s then ossl_statem_server13_write_transition s
      else if hand s = TLS_ST_OK then
        if request_state (statem s) = TLS_ST_SW_HELLO_REQ
        then (WRITE_TRAN_CONTINUE,
              upd_st (\<lambda>st. st\<lparr>hand_state := TLS_ST_SW_HELLO_REQ, request_state := TLS_ST_BEFORE\<rparr>) s)
        else (case tls_setup_handshake hk s of
            (False, s1) \<Rightarrow> (WRITE_TRAN_ERROR, s1)
          | (True, s1) \<Rightarrow> (WRITE_TRAN_FINISHED, s1))
      else if hand s = TLS_ST_BEFORE then (WRITE_TRAN_FINISHED, s)
      else if hand s = TLS_ST_SW_HELLO_REQ then wgoto TLS_ST_OK s
      else if hand s = TLS_ST_SR_CLNT_HELLO then
        if SSL_IS_DTLS s \<and> \<not> cookie_verified s \<and> has (options s) SSL_OP_COOKIE_EXCHANGE
        then wgoto DTLS_ST_SW_HELLO_VERIFY_REQUEST s
        else if \<not> renegotiate s \<and> \<not> SSL_IS_FIRST_HANDSHAKE s then wgoto TLS_ST_OK s
        else wgoto TLS_ST_SW_SRVR_HELLO s
      else if hand s = DTLS_ST_SW_HELLO_VERIFY_REQUEST then (WRITE_TRAN_FINISHED, s)
      else if hand s = TLS_ST_SW_SRVR_HELLO then
        if hit s then wgoto (if ticket_expected (ext s) then TLS_ST_SW_SESSION_TICKET else TLS_ST_SW_CHANGE) s
        else if \<not> has (algorithm_auth (the_cipher s)) (SSL_aNULL OR SSL_aSRP OR SSL_aPSK)
        then wgoto TLS_ST_SW_CERT s
        else if send_server_key_exchange s then wgoto TLS_ST_SW_KEY_EXCH s
        else if send_certificate_request s then wgoto TLS_ST_SW_CERT_REQ s
        else wgoto TLS_ST_SW_SRVR_DONE s
      else if hand s = TLS_ST_SW_CERT then
        if status_expected (ext s) then wgoto TLS_ST_SW_CERT_STATUS s else server_write_cert_status s
      else if hand s = TLS_ST_SW_CERT_STATUS then server_write_cert_status s
      else if hand s = TLS_ST_SW_KEY_EXCH then server_write_key_exch s
      else if hand s = TLS_ST_SW_CERT_REQ then wgoto TLS_ST_SW_SRVR_DONE s
      else if hand s = TLS_ST_SW_SRVR_DONE then (WRITE_TRAN_FINISHED, s)
      else if hand s = TLS_ST_SR_FINISHED then
        if hit s then wgoto TLS_ST_OK s
        else wgoto (if ticket_expected (ext s) then TLS_ST_SW_SESSION_TICKET else TLS_ST_SW_CHANGE) s
      else if hand s = TLS_ST_SW_SESSION_TICKET then wgoto TLS_ST_SW_CHANGE s
      else if hand s = TLS_ST_SW_CHANGE then wgoto TLS_ST_SW_FINISHED s
      else if hand s = TLS_ST_SW_FINISHED then
        if hit s then (WRITE_TRAN_FINISHED, s) else wgoto TLS_ST_OK s
      else (WRITE_TRAN_ERROR, fatal_internal s))"

text \<open>
  The DTLS message buffer, which the first two cases clear, belongs to the record layer.
\<close>

definition ossl_statem_server_pre_work :: "hooks \<Rightarrow> SSL \<Rightarrow> WORK_STATE \<times> SSL" where
  "ossl_statem_server_pre_work hk s =
     (if hand s = TLS_ST_SW_HELLO_REQ then (WORK_FINISHED_CONTINUE, s\<lparr>shutdown := 0\<rparr>)
      else if hand s = DTLS_ST_SW_HELLO_VERIFY_REQUEST then
        let s1 = s\<lparr>shutdown := 0\<rparr>
        in (WORK_FINISHED_CONTINUE, if SSL_IS_DTLS s1 then upd_st (\<lambda>st. st\<lparr>use_timer := False\<rparr>) s1 else s1)
      else if hand s = TLS_ST_SW_SRVR_HELLO then
        (WORK_FINISHED_CONTINUE, if SSL_IS_DTLS s then upd_st (\<lambda>st. st\<lparr>use_timer := True\<rparr>) s else s)
      else if hand s = TLS_ST_SW_SRVR_DONE then (WORK_FINISHED_CONTINUE, s)
      else if hand s = TLS_ST_SW_SESSION_TICKET then
        if SSL_IS_TLS13 s \<and> sent_tickets s = 0 \<and> extra_tickets_expected (ext s) = 0
        then tls_finish_handshake hk False False s
        else (WORK_FINISHED_CONTINUE, if SSL_IS_DTLS s then upd_st (\<lambda>st. st\<lparr>use_timer := False\<rparr>) s else s)
      else if hand s = TLS_ST_SW_CHANGE then
        if SSL_IS_TLS13 s then (WORK_FINISHED_CONTINUE, s)
        else if sess_cipher (session s) \<noteq> None \<and> sess_cipher (session s) \<noteq> new_cipher (s3 s)
        then (WORK_ERROR, fatal_internal s)
        else
          let s1 = (if sess_cipher (session s) = None
                    then upd_sess (\<lambda>t. t\<lparr>sess_cipher := new_cipher (s3 s)\<rparr>) s else s)
          in if \<not> hk_setup_key_block hk s1 then (WORK_ERROR, fatal_internal s1)
             else (WORK_FINISHED_CONTINUE, if SSL_IS_DTLS s1 then upd_st (\<lambda>st. st\<lparr>use_timer := False\<rparr>) s1 else s1)
      else if hand s = TLS_ST_EARLY_DATA then
        if early_data_state s \<noteq> SSL_EARLY_DATA_ACCEPTING \<and> \<not> has (s3_flags (s3 s)) TLS1_FLAGS_STATELESS
        then (WORK_FINISHED_CONTINUE, s) else tls_finish_handshake hk True True s
      else if hand s = TLS_ST_OK then tls_finish_handshake hk True True s
      else (WORK_FINISHED_CONTINUE, s))"

text \<open>A flush that must complete before the rest, and the change of keys after the server's CCS.\<close>

definition flush_then :: "hooks \<Rightarrow> (SSL \<Rightarrow> WORK_STATE \<times> SSL) \<Rightarrow> SSL \<Rightarrow> WORK_STATE \<times> SSL" where
  "flush_then hk k s = (case statem_flush hk s of (False, s1) \<Rightarrow> (WORK_MORE_A, s1) | (True, s1) \<Rightarrow> k s1)"

abbreviation work_done :: "SSL \<Rightarrow> WORK_STATE \<times> SSL" where
  "work_done s \<equiv> (WORK_FINISHED_CONTINUE, s)"

definition server_post_change :: "hooks \<Rightarrow> SSL \<Rightarrow> WORK_STATE \<times> SSL" where
  "server_post_change hk s =
     (if hello_retry_request s = SSL_HRR_PENDING then flush_then hk work_done s
      else if SSL_IS_TLS13 s then
        if \<not> hk_setup_key_block hk s
           \<or> \<not> hk_change_cipher hk (SSL3_CC_HANDSHAKE + SSL3_CHANGE_CIPHER_SERVER_WRITE) s
        then (WORK_ERROR, fatal_internal s)
        else if early_data (ext s) \<noteq> SSL_EARLY_DATA_ACCEPTED
             \<and> \<not> hk_change_cipher hk (SSL3_CC_HANDSHAKE + SSL3_CHANGE_CIPHER_SERVER_READ) s
        then (WORK_ERROR, fatal_internal s)
        else work_done (upd_st (\<lambda>st. st\<lparr>enc_read_state := ENC_READ_STATE_ALLOW_PLAIN_ALERTS\<rparr>) s)
      else if \<not> hk_change_cipher hk SSL3_CHANGE_CIPHER_SERVER_WRITE s then (WORK_ERROR, fatal_internal s)
      else work_done s)"

definition ossl_statem_server_post_work :: "hooks \<Rightarrow> SSL \<Rightarrow> WORK_STATE \<times> SSL" where
  "ossl_statem_server_post_work hk s0 =
     (let s = s0\<lparr>init_num := 0\<rparr> in
      if hand s = TLS_ST_SW_HELLO_REQ then
        flush_then hk (\<lambda>s1. case ssl3_init_finished_mac hk s1 of
          (True, s2) \<Rightarrow> work_done s2 | (False, s2) \<Rightarrow> (WORK_ERROR, s2)) s
      else if hand s = DTLS_ST_SW_HELLO_VERIFY_REQUEST then
        flush_then hk (\<lambda>s1.
          if version s1 \<noteq> DTLS1_BAD_VER then (case ssl3_init_finished_mac hk s1 of
             (True, s2) \<Rightarrow> work_done (s2\<lparr>first_packet := True\<rparr>) | (False, s2) \<Rightarrow> (WORK_ERROR, s2))
          else work_done (s1\<lparr>first_packet := True\<rparr>)) s
      else if hand s = TLS_ST_SW_SRVR_HELLO then
        if SSL_IS_TLS13 s \<and> hello_retry_request s = SSL_HRR_PENDING then
          if \<not> has (options s) SSL_OP_ENABLE_MIDDLEBOX_COMPAT then flush_then hk work_done s else work_done s
        else if \<not> SSL_IS_TLS13 s
             \<or> has (options s) SSL_OP_ENABLE_MIDDLEBOX_COMPAT \<and> hello_retry_request s \<noteq> SSL_HRR_COMPLETE
        then work_done s
        else server_post_change hk s
      else if hand s = TLS_ST_SW_CHANGE then server_post_change hk s
      else if hand s = TLS_ST_SW_SRVR_DONE then flush_then hk work_done s
      else if hand s = TLS_ST_SW_FINISHED then
        flush_then hk (\<lambda>s1.
          if SSL_IS_TLS13 s1 \<and> (\<not> hk_gen_master hk s1
               \<or> \<not> hk_change_cipher hk (SSL3_CC_APPLICATION + SSL3_CHANGE_CIPHER_SERVER_WRITE) s1)
          then (WORK_ERROR, fatal_internal s1) else work_done s1) s
      else if hand s = TLS_ST_SW_CERT_REQ then
        if post_handshake_auth s = SSL_PHA_REQUEST_PENDING then flush_then hk work_done s else work_done s
      else if hand s = TLS_ST_SW_KEY_UPDATE then
        flush_then hk (\<lambda>s1. if hk_update_key hk True s1 then work_done s1 else (WORK_ERROR, fatal_internal s1)) s
      else if hand s = TLS_ST_SW_SESSION_TICKET then
        if SSL_IS_TLS13 s then (case statem_flush hk s of
            (True, s1) \<Rightarrow> work_done s1
          | (False, s1) \<Rightarrow> if hk_conn_closed hk s1 then work_done (s1\<lparr>rwstate := SSL_NOTHING\<rparr>)
                          else (WORK_MORE_A, s1))
        else work_done s
      else work_done s)"

definition server_message_type :: "OSSL_HANDSHAKE_STATE \<Rightarrow> nat option option" where
  "server_message_type h =
     (if h = TLS_ST_SW_CHANGE then Some (Some SSL3_MT_CHANGE_CIPHER_SPEC)
      else if h = DTLS_ST_SW_HELLO_VERIFY_REQUEST then Some (Some DTLS1_MT_HELLO_VERIFY_REQUEST)
      else if h = TLS_ST_SW_HELLO_REQ then Some (Some SSL3_MT_HELLO_REQUEST)
      else if h = TLS_ST_SW_SRVR_HELLO then Some (Some SSL3_MT_SERVER_HELLO)
      else if h = TLS_ST_SW_CERT then Some (Some SSL3_MT_CERTIFICATE)
      else if h = TLS_ST_SW_CERT_VRFY then Some (Some SSL3_MT_CERTIFICATE_VERIFY)
      else if h = TLS_ST_SW_KEY_EXCH then Some (Some SSL3_MT_SERVER_KEY_EXCHANGE)
      else if h = TLS_ST_SW_CERT_REQ then Some (Some SSL3_MT_CERTIFICATE_REQUEST)
      else if h = TLS_ST_SW_SRVR_DONE then Some (Some SSL3_MT_SERVER_DONE)
      else if h = TLS_ST_SW_SESSION_TICKET then Some (Some SSL3_MT_NEWSESSION_TICKET)
      else if h = TLS_ST_SW_CERT_STATUS then Some (Some SSL3_MT_CERTIFICATE_STATUS)
      else if h = TLS_ST_SW_FINISHED then Some (Some SSL3_MT_FINISHED)
      else if h = TLS_ST_EARLY_DATA then Some None
      else if h = TLS_ST_SW_ENCRYPTED_EXTENSIONS then Some (Some SSL3_MT_ENCRYPTED_EXTENSIONS)
      else if h = TLS_ST_SW_KEY_UPDATE then Some (Some SSL3_MT_KEY_UPDATE)
      else None)"

definition ossl_statem_server_construct_message :: "SSL \<Rightarrow> nat option option \<times> SSL" where
  "ossl_statem_server_construct_message s = (case server_message_type (hand s) of
      None \<Rightarrow> (None, SSLfatal SSL_AD_INTERNAL_ERROR SSL_R_BAD_HANDSHAKE_STATE s)
    | Some mt \<Rightarrow> (Some mt, s))"

definition ossl_statem_server_max_message_size :: "SSL \<Rightarrow> nat" where
  "ossl_statem_server_max_message_size s =
     (if hand s = TLS_ST_SR_CLNT_HELLO then 131396
      else if hand s = TLS_ST_SR_END_OF_EARLY_DATA then 0
      else if hand s = TLS_ST_SR_CERT then max_cert_list s
      else if hand s = TLS_ST_SR_KEY_EXCH then 2048
      else if hand s = TLS_ST_SR_CERT_VRFY then 16384
      else if hand s = TLS_ST_SR_NEXT_PROTO then 514
      else if hand s = TLS_ST_SR_CHANGE then 1
      else if hand s = TLS_ST_SR_FINISHED then 64
      else if hand s = TLS_ST_SR_KEY_UPDATE then 1
      else 0)"

section \<open>The contract of the read transition\<close>

lemma server13_step_ok:
  assumes "ossl_statem_server13_read_transition mt s = (b, s1)"
  shows "b \<Longrightarrow> step_ok s (True, s1)" "\<not> b \<Longrightarrow> s1 = s"
  using assms unfolding ossl_statem_server13_read_transition_def server13_read_flight_def
  by (auto split: if_split_asm)

lemma server_step_ok: "step_ok s (ossl_statem_server_read_transition mt s)"
proof (cases "SSL_IS_TLS13 s")
  case True
  then show ?thesis
    using server13_step_ok [of mt s] by (auto simp: ossl_statem_server_read_transition_def split: prod.split bool.split)
next
  case False
  then show ?thesis unfolding ossl_statem_server_read_transition_def by simp
qed

interpretation server_reads: read_transition ossl_statem_server_read_transition
  by (rule read_transitionI) (rule server_step_ok)

section \<open>The client's messages in TLS 1.3\<close>

text \<open>
  The reading states of a TLS 1.3 server: whether it asked for a certificate and whether the
  session has a peer decide the way.
\<close>

definition server13_edges :: "bool \<Rightarrow> bool \<Rightarrow> (OSSL_HANDSHAKE_STATE \<times> nat \<times> OSSL_HANDSHAKE_STATE) set" where
  "server13_edges asked has_peer =
     {(h, mt, h1). h \<in> {TLS_ST_EARLY_DATA, TLS_ST_SR_END_OF_EARLY_DATA, TLS_ST_SW_FINISHED}
        \<and> (mt, h1) = (if asked then (SSL3_MT_CERTIFICATE, TLS_ST_SR_CERT) else (SSL3_MT_FINISHED, TLS_ST_SR_FINISHED))}
     \<union> {(TLS_ST_EARLY_DATA, SSL3_MT_CLIENT_HELLO, TLS_ST_SR_CLNT_HELLO),
        (TLS_ST_EARLY_DATA, SSL3_MT_END_OF_EARLY_DATA, TLS_ST_SR_END_OF_EARLY_DATA),
        (TLS_ST_SR_CERT_VRFY, SSL3_MT_FINISHED, TLS_ST_SR_FINISHED),
        (TLS_ST_OK, SSL3_MT_CERTIFICATE, TLS_ST_SR_CERT),
        (TLS_ST_OK, SSL3_MT_KEY_UPDATE, TLS_ST_SR_KEY_UPDATE)}
     \<union> (if has_peer then {(TLS_ST_SR_CERT, SSL3_MT_CERTIFICATE_VERIFY, TLS_ST_SR_CERT_VRFY)}
        else {(TLS_ST_SR_CERT, SSL3_MT_FINISHED, TLS_ST_SR_FINISHED)})"

abbreviation asked :: "SSL \<Rightarrow> bool" where
  "asked s \<equiv> cert_request (s3 s)"

abbreviation has_peer :: "SSL \<Rightarrow> bool" where
  "has_peer s \<equiv> peer (session s) \<noteq> None"

lemma server13_step:
  assumes "SSL_IS_TLS13 s" "ossl_statem_server_read_transition mt s = (True, s1)"
  shows "(hand s, mt, hand s1) \<in> server13_edges (asked s) (has_peer s)" "SSL_IS_TLS13 s1" "asked s1 = asked s" "has_peer s1 = has_peer s"
proof -
  have "ossl_statem_server13_read_transition mt s = (True, s1)"
    using assms no_transition_frame(1) by (fastforce simp: ossl_statem_server_read_transition_def split: prod.splits bool.splits)
  then show "(hand s, mt, hand s1) \<in> server13_edges (asked s) (has_peer s)" "SSL_IS_TLS13 s1" "asked s1 = asked s" "has_peer s1 = has_peer s"
    using assms(1) unfolding ossl_statem_server13_read_transition_def server13_read_flight_def
    by (auto simp: server13_edges_def SSL_IS_TLS13_def SSL_IS_DTLS_def split: if_split_asm)
qed

lemma server13_reads_Cons:
  assumes "reads ossl_statem_server_read_transition handled s (mt # mts) s'" "SSL_IS_TLS13 s"
  obtains s1 where "(hand s, mt, hand s1) \<in> server13_edges (asked s) (has_peer s)" "SSL_IS_TLS13 s1" "asked s1 = asked s"
    "hand s1 \<noteq> TLS_ST_SR_CERT \<longrightarrow> has_peer s1 = has_peer s" "reads ossl_statem_server_read_transition handled s1 mts s'"
proof -
  from assms(1) obtain s1 s2 where s: "ossl_statem_server_read_transition mt s = (True, s1)" "handled s1 s2"
    "reads ossl_statem_server_read_transition handled s2 mts s'" by (elim reads_ConsE)
  show thesis
    using that [of s2] server13_step [OF assms(2) s(1)] s(2,3)
    by (auto simp: handled_def server13_edges_def split: if_split_asm)
qed

text \<open>The messages from a state to the client's Finished, when the session then has a peer or not.\<close>

definition server13_rest :: "bool \<Rightarrow> bool \<Rightarrow> OSSL_HANDSHAKE_STATE \<Rightarrow> nat list set" where
  "server13_rest ask p h =
     (if h = TLS_ST_SR_FINISHED then {[]}
      else if h = TLS_ST_SR_CERT_VRFY then {[20]}
      else if h = TLS_ST_SR_CERT then {if p then [15, 20] else [20]}
      else if h = TLS_ST_OK then {11 # (if p then [15, 20] else [20])}
      else let flight = (if ask then 11 # (if p then [15, 20] else [20]) else [20])
           in if h = TLS_ST_SW_FINISHED \<or> h = TLS_ST_SR_END_OF_EARLY_DATA then {flight}
              else if h = TLS_ST_EARLY_DATA then {flight, 5 # flight}
              else {})"

lemma server13_rest_step:
  assumes "(h, mt, h1) \<in> server13_edges a p0" "mts \<in> server13_rest a p h1"
    "h1 \<in> {TLS_ST_SR_FINISHED, TLS_ST_SR_CERT_VRFY, TLS_ST_SR_CERT} \<longrightarrow> p = p1" "h1 \<noteq> TLS_ST_SR_CERT \<longrightarrow> p1 = p0"
  shows "mt # mts \<in> server13_rest a p h \<and>
    (h \<in> {TLS_ST_SR_FINISHED, TLS_ST_SR_CERT_VRFY, TLS_ST_SR_CERT} \<longrightarrow> p = p0)"
  using assms by (cases p; cases p0; cases a) (auto simp: server13_edges_def server13_rest_def Let_def)

lemma server13_reads_finished:
  assumes "reads ossl_statem_server_read_transition handled s mts s'" "SSL_IS_TLS13 s" "hand s' = TLS_ST_SR_FINISHED"
  shows "mts \<in> server13_rest (asked s) (has_peer s') (hand s) \<and>
    (hand s \<in> {TLS_ST_SR_FINISHED, TLS_ST_SR_CERT_VRFY, TLS_ST_SR_CERT} \<longrightarrow> has_peer s' = has_peer s)"
  using assms
proof (induction mts arbitrary: s)
  case Nil
  then show ?case by (simp add: server13_rest_def)
next
  case (Cons mt mts)
  obtain s1 where s1: "(hand s, mt, hand s1) \<in> server13_edges (asked s) (has_peer s)" "SSL_IS_TLS13 s1" "asked s1 = asked s"
      "hand s1 \<noteq> TLS_ST_SR_CERT \<longrightarrow> has_peer s1 = has_peer s" "reads ossl_statem_server_read_transition handled s1 mts s'"
    by (rule server13_reads_Cons [OF Cons.prems(1,2)])
  note IH = Cons.IH [OF s1(5,2) Cons.prems(3)]
  then have "mts \<in> server13_rest (asked s) (has_peer s') (hand s1)" unfolding s1(3) by (rule conjunct1)
  then show ?case by (rule server13_rest_step [OF s1(1) _ conjunct2 [OF IH] s1(4)])
qed

end
