(* ===== verification/Sec_Ent_Msg.thy ===== *)
theory Sec_Ent_Msg
  imports Process_World
begin

text \<open>
  The messages exchanged with the security entity (\<^verbatim>\<open>ssl/ieee1609dot2.c\<close>): a type byte, a
  four-byte length in network order and the payload. A \<open>SEC_ENT_MSG\<close> pointer is an option,
  \<open>None\<close> for NULL. The constructors allocate through the process, so every failure of an
  allocation is a branch.
\<close>

section \<open>Constants and byte order\<close>

abbreviation (input) HASHEDID8_LEN :: nat where "HASHEDID8_LEN \<equiv> 8"
abbreviation (input) MAX_SSP_LEN :: nat where "MAX_SSP_LEN \<equiv> 100"
abbreviation (input) SEC_ENT_MSG_HDR_LEN :: nat where "SEC_ENT_MSG_HDR_LEN \<equiv> 5"
abbreviation (input) SEC_ENT_MSG_TYPE_FAILURE :: u8 where "SEC_ENT_MSG_TYPE_FAILURE \<equiv> 3"
abbreviation (input) SEC_ENT_MSG_TYPE_GET_CERT :: u8 where "SEC_ENT_MSG_TYPE_GET_CERT \<equiv> 8"
abbreviation (input) SEC_ENT_MSG_TYPE_TLS_VERIFY_CERTS :: u8 where "SEC_ENT_MSG_TYPE_TLS_VERIFY_CERTS \<equiv> 18"
abbreviation (input) SEC_ENT_MSG_TYPE_TLS_SIGN_DATA :: u8 where "SEC_ENT_MSG_TYPE_TLS_SIGN_DATA \<equiv> 19"
abbreviation (input) SEC_ENT_MSG_TYPE_TLS_VERIFY_DATA :: u8 where "SEC_ENT_MSG_TYPE_TLS_VERIFY_DATA \<equiv> 20"
abbreviation (input) SEC_ENT_MSG_TYPE_GET_AT :: u8 where "SEC_ENT_MSG_TYPE_GET_AT \<equiv> 22"

text \<open>\<open>sizeof\<close> the structures allocated, on LP64.\<close>

abbreviation (input) sizeof_SEC_ENT_MSG :: nat where "sizeof_SEC_ENT_MSG \<equiv> 16"

text \<open>The integer whose memory image is the big-endian form of \<open>host\<close>, and its inverse.\<close>

definition be64 :: "bool \<Rightarrow> u64 \<Rightarrow> u64" where
  "be64 little host =
     (if \<not> little then host
      else word_of_nat (mem_value little (rev (mem_image little 8 (unat host)))))"

definition h64 :: "bool \<Rightarrow> u64 \<Rightarrow> u64" where
  "h64 little big = be64 little big"

text \<open>\<open>htonl\<close> and \<open>ntohl\<close> of the C library.\<close>

definition htonl :: "bool \<Rightarrow> u32 \<Rightarrow> u32" where
  "htonl little v =
     (if little then word_of_nat (mem_value little (rev (mem_image little 4 (unat v)))) else v)"

definition ntohl :: "bool \<Rightarrow> u32 \<Rightarrow> u32" where
  "ntohl little v = htonl little v"

section \<open>Messages\<close>

record SEC_ENT_MSG =
  msg_type :: u8
  msg_len :: u32
  msg_data :: "bytes option"

text \<open>
  The payload block is \<open>len\<close> bytes of unspecified content; they are zero here and the callers
  overwrite all of them. \<open>msg->len\<close> keeps the low 32 bits of \<open>len\<close>.
\<close>

definition SEC_ENT_MSG_new_from_type_allocate ::
    "env \<Rightarrow> u8 \<Rightarrow> nat \<Rightarrow> os \<Rightarrow> SEC_ENT_MSG option \<times> os" where
  "SEC_ENT_MSG_new_from_type_allocate e ty len w =
     (case OPENSSL_malloc e sizeof_SEC_ENT_MSG w of
        (False, w1) \<Rightarrow> (None, ERR_raise ERR_R_MALLOC_FAILURE w1)
      | (True, w1) \<Rightarrow>
          if (word_of_nat len :: u32) = 0
          then (Some \<lparr>msg_type = ty, msg_len = word_of_nat len, msg_data = None\<rparr>, w1)
          else case OPENSSL_malloc e len w1 of
            (False, w2) \<Rightarrow> (None, OPENSSL_free True (ERR_raise ERR_R_MALLOC_FAILURE w2))
          | (True, w2) \<Rightarrow>
              (Some \<lparr>msg_type = ty, msg_len = word_of_nat len, msg_data = Some (replicate len 0)\<rparr>, w2))"

text \<open>\<open>memcpy(msg->data + off, src, n)\<close>: undefined outside the block or on NULL.\<close>

definition msg_store :: "SEC_ENT_MSG \<Rightarrow> nat \<Rightarrow> bytes \<Rightarrow> SEC_ENT_MSG option" where
  "msg_store m off bs = (case msg_data m of
      None \<Rightarrow> None
    | Some d \<Rightarrow> if off + length bs \<le> length d then Some (m\<lparr>msg_data := Some (write_at d off bs)\<rparr>)
                else None)"

definition SEC_ENT_MSG_new_from_type_buffer ::
    "env \<Rightarrow> u8 \<Rightarrow> bytes \<Rightarrow> os \<Rightarrow> (SEC_ENT_MSG option \<times> os) option" where
  "SEC_ENT_MSG_new_from_type_buffer e ty data w =
     (case SEC_ENT_MSG_new_from_type_allocate e ty (length data) w of
        (None, w1) \<Rightarrow> Some (None, w1)
      | (Some m, w1) \<Rightarrow>
          if data = [] then Some (Some m, w1)
          else do { m1 \<leftarrow> msg_store m 0 data; Some (Some m1, w1) })"

definition SEC_ENT_MSG_free :: "SEC_ENT_MSG option \<Rightarrow> os \<Rightarrow> os" where
  "SEC_ENT_MSG_free m w = (case m of
      None \<Rightarrow> w
    | Some msg \<Rightarrow> OPENSSL_free True (OPENSSL_free (msg_data msg \<noteq> None) w))"

text \<open>\<open>memcpy(&msg.len, &data[1], 4)\<close> followed by \<open>ntohl\<close>.\<close>

definition hdr_len :: "bool \<Rightarrow> bytes \<Rightarrow> u32 option" where
  "hdr_len little data =
     map_option (\<lambda>bs. ntohl little (word_of_nat (mem_value little bs))) (read_at data 1 4)"

definition SEC_ENT_MSG_parse_len_from_hdr_buffer ::
    "env \<Rightarrow> bytes \<Rightarrow> nat \<Rightarrow> os \<Rightarrow> (int \<times> os) option" where
  "SEC_ENT_MSG_parse_len_from_hdr_buffer e data len w =
     (if len < SEC_ENT_MSG_HDR_LEN then Some (-1, ERR_raise SSL_R_BAD_DATA w)
      else do { l \<leftarrow> hdr_len (host_little e) data; Some (uint l, w) })"

definition SEC_ENT_MSG_new_from_recv_buffer ::
    "env \<Rightarrow> bytes \<Rightarrow> nat \<Rightarrow> os \<Rightarrow> (SEC_ENT_MSG option \<times> os) option" where
  "SEC_ENT_MSG_new_from_recv_buffer e data len w =
     (case OPENSSL_malloc e sizeof_SEC_ENT_MSG w of
        (False, w1) \<Rightarrow> Some (None, ERR_raise ERR_R_MALLOC_FAILURE w1)
      | (True, w1) \<Rightarrow>
          if len \<le> SEC_ENT_MSG_HDR_LEN
          then Some (None, OPENSSL_free True (ERR_raise SSL_R_BAD_DATA w1))
          else do {
            ty \<leftarrow> read_at data 0 1;
            l \<leftarrow> hdr_len (host_little e) data;
            if unat (l + of_nat SEC_ENT_MSG_HDR_LEN) \<noteq> len
            then Some (None, OPENSSL_free True (ERR_raise SSL_R_BAD_DATA w1))
            else if l = 0
            then Some (Some \<lparr>msg_type = hd ty, msg_len = l, msg_data = None\<rparr>, w1)
            else case OPENSSL_malloc e (unat l) w1 of
              (False, w2) \<Rightarrow> Some (None, OPENSSL_free True (ERR_raise ERR_R_MALLOC_FAILURE w2))
            | (True, w2) \<Rightarrow> do {
                d \<leftarrow> read_at data SEC_ENT_MSG_HDR_LEN (unat l);
                Some (Some \<lparr>msg_type = hd ty, msg_len = l, msg_data = Some d\<rparr>, w2) } })"

definition SEC_ENT_MSG_new_TYPE_TLS_VERIFY_CERTS ::
    "env \<Rightarrow> bytes \<Rightarrow> os \<Rightarrow> (SEC_ENT_MSG option \<times> os) option" where
  "SEC_ENT_MSG_new_TYPE_TLS_VERIFY_CERTS e data w =
     SEC_ENT_MSG_new_from_type_buffer e SEC_ENT_MSG_TYPE_TLS_VERIFY_CERTS data w"

definition SEC_ENT_MSG_new_TYPE_TLS_SIGN_DATA ::
    "env \<Rightarrow> u64 \<Rightarrow> bytes \<Rightarrow> bytes \<Rightarrow> os \<Rightarrow> (SEC_ENT_MSG option \<times> os) option" where
  "SEC_ENT_MSG_new_TYPE_TLS_SIGN_DATA e psid hid input w =
     (case SEC_ENT_MSG_new_from_type_allocate e SEC_ENT_MSG_TYPE_TLS_SIGN_DATA
             (8 + HASHEDID8_LEN + length input) w of
        (None, w1) \<Rightarrow> Some (None, ERR_raise ERR_R_MALLOC_FAILURE w1)
      | (Some m, w1) \<Rightarrow> do {
          let psid_tmp = be64 (host_little e) psid;
          m1 \<leftarrow> msg_store m 0 (mem_image (host_little e) 8 (unat psid_tmp));
          h \<leftarrow> read_at hid 0 HASHEDID8_LEN;
          m2 \<leftarrow> msg_store m1 8 h;
          m3 \<leftarrow> msg_store m2 (8 + HASHEDID8_LEN) input;
          Some (Some m3, w1) })"

definition SEC_ENT_MSG_new_TYPE_TLS_VERIFY_DATA ::
    "env \<Rightarrow> bytes \<Rightarrow> bytes \<Rightarrow> bytes \<Rightarrow> os \<Rightarrow> (SEC_ENT_MSG option \<times> os) option" where
  "SEC_ENT_MSG_new_TYPE_TLS_VERIFY_DATA e hid vdata vinput w =
     (case SEC_ENT_MSG_new_from_type_allocate e SEC_ENT_MSG_TYPE_TLS_VERIFY_DATA
             (HASHEDID8_LEN + length vdata + length vinput) w of
        (None, w1) \<Rightarrow> Some (None, ERR_raise ERR_R_MALLOC_FAILURE w1)
      | (Some m, w1) \<Rightarrow> do {
          h \<leftarrow> read_at hid 0 HASHEDID8_LEN;
          m1 \<leftarrow> msg_store m 0 h;
          m2 \<leftarrow> msg_store m1 HASHEDID8_LEN vdata;
          m3 \<leftarrow> msg_store m2 (HASHEDID8_LEN + length vdata) vinput;
          Some (Some m3, w1) })"

definition SEC_ENT_MSG_new_TYPE_GET_CERT ::
    "env \<Rightarrow> bytes \<Rightarrow> os \<Rightarrow> (SEC_ENT_MSG option \<times> os) option" where
  "SEC_ENT_MSG_new_TYPE_GET_CERT e hid w = do {
     h \<leftarrow> read_at hid 0 HASHEDID8_LEN;
     SEC_ENT_MSG_new_from_type_buffer e SEC_ENT_MSG_TYPE_GET_CERT (h @ [0]) w }"

definition SEC_ENT_MSG_new_TYPE_GET_AT_CERT ::
    "env \<Rightarrow> os \<Rightarrow> (SEC_ENT_MSG option \<times> os) option" where
  "SEC_ENT_MSG_new_TYPE_GET_AT_CERT e w =
     SEC_ENT_MSG_new_from_type_buffer e SEC_ENT_MSG_TYPE_GET_AT [] w"

text \<open>
  The frame to send. \<open>*data\<close> is NULL at the only call, so the first test is on the message
  alone. The size handed to the allocator is a 32-bit sum, so it wraps for a payload of
  \<open>2 ^ 32 - 5\<close> bytes or more, and the stores that follow fall outside the block.
\<close>

definition SEC_ENT_MSG_get_send_buffer ::
    "env \<Rightarrow> SEC_ENT_MSG option \<Rightarrow> os \<Rightarrow> (bytes option \<times> os) option" where
  "SEC_ENT_MSG_get_send_buffer e msg w = (case msg of
      None \<Rightarrow> Some (None, ERR_raise ERR_R_INTERNAL_ERROR w)
    | Some m \<Rightarrow>
        let total = unat (msg_len m + of_nat SEC_ENT_MSG_HDR_LEN) in
        (case OPENSSL_malloc e total w of
           (False, w1) \<Rightarrow> Some (None, ERR_raise ERR_R_MALLOC_FAILURE w1)
         | (True, w1) \<Rightarrow> do {
             guardb (SEC_ENT_MSG_HDR_LEN + unat (msg_len m) \<le> total);
             d \<leftarrow> (if msg_len m = 0 then Some []
                  else case msg_data m of None \<Rightarrow> None | Some d \<Rightarrow> read_at d 0 (unat (msg_len m)));
             Some (Some (msg_type m # mem_image (host_little e) 4 (unat (htonl (host_little e) (msg_len m))) @ d),
                   w1) }))"

section \<open>Byte order\<close>

lemma be64_image: "mem_image little 8 (unat (be64 little v)) = be_bytes 8 (unat v)"
proof -
  have "unat v < 256 ^ 8" using unsigned_less [of v, where ?'a = nat] by simp
  moreover have "be_val (be_bytes 8 (unat v)) = unat v" using calculation by simp
  moreover have "be_val (rev (be_bytes 8 (unat v))) < 2 ^ 64"
    using be_val_bound [of "rev (be_bytes 8 (unat v))"] by simp
  moreover have "rev (be_bytes 8 (be_val (rev (be_bytes 8 (unat v))))) = be_bytes 8 (unat v)"
    using be_bytes_be_val [of "rev (be_bytes 8 (unat v))"] by simp
  ultimately show ?thesis
    by (simp add: be64_def mem_image_def mem_value_def unat_u64_of_nat)
qed

lemma htonl_image: "mem_image little 4 (unat (htonl little v)) = be_bytes 4 (unat v)"
proof -
  have "be_val (rev (be_bytes 4 (unat v))) < 2 ^ 32"
    using be_val_bound [of "rev (be_bytes 4 (unat v))"] by simp
  moreover have "rev (be_bytes 4 (be_val (rev (be_bytes 4 (unat v))))) = be_bytes 4 (unat v)"
    using be_bytes_be_val [of "rev (be_bytes 4 (unat v))"] by simp
  ultimately show ?thesis
    by (simp add: htonl_def mem_image_def mem_value_def unat_u32_of_nat)
qed

lemma ntohl_value:
  assumes "length bs = 4"
  shows "ntohl little (word_of_nat (mem_value little bs)) = word_of_nat (be_val bs)"
proof -
  have "be_val (rev bs) < 2 ^ 32" using be_val_bound [of "rev bs"] assms by simp
  moreover have "be_bytes 4 (be_val (rev bs)) = rev bs"
    using be_bytes_be_val [of "rev bs"] assms by simp
  ultimately show ?thesis
    by (simp add: ntohl_def htonl_def mem_value_def mem_image_def unat_u32_of_nat)
qed

lemma h64_value:
  assumes "length bs = 8"
  shows "h64 little (word_of_nat (mem_value little bs)) = word_of_nat (be_val bs)"
proof -
  have "be_val (rev bs) < 2 ^ 64" using be_val_bound [of "rev bs"] assms by simp
  moreover have "be_bytes 8 (be_val (rev bs)) = rev bs"
    using be_bytes_be_val [of "rev bs"] assms by simp
  ultimately show ?thesis
    by (simp add: h64_def be64_def mem_value_def mem_image_def unat_u64_of_nat)
qed

lemma hdr_len_eq:
  "5 \<le> length data \<Longrightarrow> hdr_len little data = Some (word_of_nat (be_val (take 4 (drop 1 data))))"
  by (simp add: hdr_len_def read_at_def ntohl_value)

section \<open>The wire format\<close>

text \<open>The frame of a message, and well-formed messages with the payload they carry.\<close>

definition sec_ent_frame :: "u8 \<Rightarrow> bytes \<Rightarrow> bytes" where
  "sec_ent_frame ty d = ty # be_bytes 4 (length d) @ d"

definition payload :: "SEC_ENT_MSG \<Rightarrow> bytes" where
  "payload m = (case msg_data m of None \<Rightarrow> [] | Some d \<Rightarrow> d)"

definition msg_ok :: "SEC_ENT_MSG \<Rightarrow> bool" where
  "msg_ok m \<longleftrightarrow> (case msg_data m of None \<Rightarrow> msg_len m = 0
     | Some d \<Rightarrow> d \<noteq> [] \<and> length d < 2 ^ 32 \<and> msg_len m = word_of_nat (length d))"

definition msg_blocks :: "SEC_ENT_MSG option \<Rightarrow> int" where
  "msg_blocks m = (case m of None \<Rightarrow> 0 | Some m1 \<Rightarrow> if msg_data m1 = None then 1 else 2)"

lemma length_sec_ent_frame [simp]: "length (sec_ent_frame ty d) = 5 + length d"
  by (simp add: sec_ent_frame_def)

lemma payload_len: "msg_ok m \<Longrightarrow> unat (msg_len m) = length (payload m)"
  by (auto simp: msg_ok_def payload_def unat_u32_of_nat split: option.splits)

lemma msg_blocks_free [simp]:
  "live (SEC_ENT_MSG_free m w) = live w - msg_blocks m"
  "errs (SEC_ENT_MSG_free m w) = errs w" "same_io w1 (SEC_ENT_MSG_free m w) = same_io w1 w"
  by (auto simp: SEC_ENT_MSG_free_def msg_blocks_def split: option.splits)

text \<open>
  A message built from \<open>d\<close>: well formed, of type \<open>ty\<close> with payload \<open>d\<close>, the blocks it owns
  accounted for and nothing else of the process changed. \<open>None\<close> is a failed allocation.
\<close>

definition msg_built :: "u8 \<Rightarrow> bytes \<Rightarrow> os \<Rightarrow> SEC_ENT_MSG option \<Rightarrow> os \<Rightarrow> bool" where
  "msg_built ty d w r w1 \<longleftrightarrow> live w1 = live w + msg_blocks r \<and> same_io w w1 \<and>
     (case r of None \<Rightarrow> errs w1 \<noteq> [] \<and> hd (errs w1) = ERR_R_MALLOC_FAILURE
      | Some m \<Rightarrow> errs w1 = errs w \<and> msg_ok m \<and> msg_type m = ty \<and> payload m = d)"

definition raw_msg :: "u8 \<Rightarrow> bytes \<Rightarrow> SEC_ENT_MSG" where
  "raw_msg ty d = \<lparr>msg_type = ty, msg_len = word_of_nat (length d),
                   msg_data = (if d = [] then None else Some d)\<rparr>"

lemma raw_msg_ok [simp]:
  "length d < 2 ^ 32 \<Longrightarrow> msg_ok (raw_msg ty d)" "payload (raw_msg ty d) = d" "msg_type (raw_msg ty d) = ty"
  by (simp_all add: raw_msg_def msg_ok_def payload_def)

lemma word_of_nat_zero_iff:
  assumes "n < 2 ^ 32"
  shows "(word_of_nat n :: u32) = 0 \<longleftrightarrow> n = 0"
proof
  assume "(word_of_nat n :: u32) = 0"
  then have "unat (word_of_nat n :: u32) = 0" by simp
  then show "n = 0" using unat_u32_of_nat [OF assms] by simp
qed simp

lemma allocate_cases:
  assumes "n < 2 ^ 32" "SEC_ENT_MSG_new_from_type_allocate e ty n w = (r, w1)"
  obtains "r = None" "live w1 = live w" "same_io w w1" "errs w1 = ERR_R_MALLOC_FAILURE # errs w"
    | "r = Some (raw_msg ty (replicate n 0))" "live w1 = live w + msg_blocks r" "same_io w w1"
      "errs w1 = errs w"
proof -
  obtain b w2 where m1: "OPENSSL_malloc e 16 w = (b, w2)" by fastforce
  obtain b3 w3 where m2: "OPENSSL_malloc e n w2 = (b3, w3)" by fastforce
  note M = OPENSSL_malloc_fields [OF m1] OPENSSL_malloc_fields [OF m2]
  have io: "same_io w w2" "same_io w w3"
    using same_io_malloc [OF m1] same_io_malloc [OF m2] by (auto intro: same_io_trans)
  have "r = None \<and> live w1 = live w \<and> same_io w w1 \<and> errs w1 = ERR_R_MALLOC_FAILURE # errs w \<or>
    r = Some (raw_msg ty (replicate n 0)) \<and> live w1 = live w + msg_blocks r \<and> same_io w w1 \<and> errs w1 = errs w"
    using assms(2) m1 m2 M io word_of_nat_zero_iff [OF assms(1)]
    by (auto simp: SEC_ENT_MSG_new_from_type_allocate_def raw_msg_def msg_blocks_def split: if_splits bool.splits)
  then show ?thesis using that by blast
qed

lemma msg_store_raw:
  assumes "off + length bs \<le> length d" "d \<noteq> []"
  shows "msg_store (raw_msg ty d) off bs = Some (raw_msg ty (write_at d off bs))"
proof -
  have "length (write_at d off bs) = length d" using assms(1) by simp
  then have "write_at d off bs \<noteq> []" using assms(2) by (metis length_0_conv)
  then show ?thesis using assms by (simp add: msg_store_def raw_msg_def)
qed

lemma write_at_replicate:
  "write_at (xs @ replicate n z) (length xs) ys = xs @ ys @ replicate (n - length ys) z"
  by (simp add: write_at_def)

lemma write_at_zeros [simp]: "write_at (replicate n z) 0 ys = ys @ replicate (n - length ys) z"
  by (simp add: write_at_def)

lemma new_from_type_buffer_spec:
  assumes "length d < 2 ^ 32"
  shows "\<exists>r w1. SEC_ENT_MSG_new_from_type_buffer e ty d w = Some (r, w1) \<and> msg_built ty d w r w1"
proof -
  obtain r w1 where al: "SEC_ENT_MSG_new_from_type_allocate e ty (length d) w = (r, w1)" by fastforce
  have st: "msg_store (raw_msg ty (replicate (length d) 0)) 0 d = Some (raw_msg ty d)" if "d \<noteq> []"
    using that msg_store_raw [of 0 d "replicate (length d) 0" ty] by simp
  from assms al show ?thesis
  proof (cases rule: allocate_cases)
    case 1
    then show ?thesis using al by (simp add: SEC_ENT_MSG_new_from_type_buffer_def msg_built_def msg_blocks_def)
  next
    case 2
    then have "SEC_ENT_MSG_new_from_type_buffer e ty d w = Some (Some (raw_msg ty d), w1)"
      using al st by (simp add: SEC_ENT_MSG_new_from_type_buffer_def)
    moreover have "msg_blocks r = msg_blocks (Some (raw_msg ty d))"
      using 2 by (simp add: msg_blocks_def raw_msg_def)
    ultimately show ?thesis using 2 assms by (simp add: msg_built_def)
  qed
qed

lemma sign_data_spec:
  assumes "length hid = 8" "length input < 2 ^ 32 - 16"
  shows "\<exists>r w1. SEC_ENT_MSG_new_TYPE_TLS_SIGN_DATA e psid hid input w = Some (r, w1) \<and>
     msg_built SEC_ENT_MSG_TYPE_TLS_SIGN_DATA (be_bytes 8 (unat psid) @ hid @ input) w r w1"
proof -
  let ?ty = SEC_ENT_MSG_TYPE_TLS_SIGN_DATA and ?n = "16 + length input"
  obtain r w1 where al: "SEC_ENT_MSG_new_from_type_allocate e ?ty ?n w = (r, w1)" by fastforce
  let ?p = "be_bytes 8 (unat psid)"
  have n: "?n < 2 ^ 32" using assms(2) by simp
  have s1: "msg_store (raw_msg ?ty (replicate ?n 0)) 0 ?p = Some (raw_msg ?ty (?p @ replicate (8 + length input) 0))"
    using msg_store_raw [of 0 ?p "replicate ?n 0" ?ty] by simp
  have s2: "msg_store (raw_msg ?ty (?p @ replicate (8 + length input) 0)) 8 hid
      = Some (raw_msg ?ty ((?p @ hid) @ replicate (length input) 0))"
    using msg_store_raw [of 8 hid "?p @ replicate (8 + length input) 0" ?ty] assms(1)
      write_at_replicate [of ?p "8 + length input" 0 hid] by simp
  have s3: "msg_store (raw_msg ?ty ((?p @ hid) @ replicate (length input) 0)) 16 input
      = Some (raw_msg ?ty (?p @ hid @ input))"
    using msg_store_raw [of 16 input "(?p @ hid) @ replicate (length input) 0" ?ty] assms(1)
      write_at_replicate [of "?p @ hid" "length input" 0 input] by (cases hid) simp_all
  have h: "read_at hid 0 8 = Some hid" using assms(1) by (simp add: read_at_def)
  from n al show ?thesis
  proof (cases rule: allocate_cases)
    case 1
    then show ?thesis using al by (simp add: SEC_ENT_MSG_new_TYPE_TLS_SIGN_DATA_def msg_built_def msg_blocks_def)
  next
    case 2
    then have "SEC_ENT_MSG_new_TYPE_TLS_SIGN_DATA e psid hid input w
      = Some (Some (raw_msg ?ty (?p @ hid @ input)), w1)"
      using al s1 s2 s3 h by (simp add: SEC_ENT_MSG_new_TYPE_TLS_SIGN_DATA_def be64_image)
    moreover have "msg_blocks r = msg_blocks (Some (raw_msg ?ty (?p @ hid @ input)))"
      using 2 assms(1) by (cases hid) (simp_all add: msg_blocks_def raw_msg_def)
    ultimately show ?thesis using 2 n assms(1) by (simp add: msg_built_def)
  qed
qed

lemma verify_data_spec:
  assumes "length hid = 8" "length vdata + length vinput < 2 ^ 32 - 8"
  shows "\<exists>r w1. SEC_ENT_MSG_new_TYPE_TLS_VERIFY_DATA e hid vdata vinput w = Some (r, w1) \<and>
     msg_built SEC_ENT_MSG_TYPE_TLS_VERIFY_DATA (hid @ vdata @ vinput) w r w1"
proof -
  let ?ty = SEC_ENT_MSG_TYPE_TLS_VERIFY_DATA and ?n = "8 + length vdata + length vinput"
  obtain r w1 where al: "SEC_ENT_MSG_new_from_type_allocate e ?ty ?n w = (r, w1)" by fastforce
  have n: "?n < 2 ^ 32" using assms(2) by simp
  have s1: "msg_store (raw_msg ?ty (replicate ?n 0)) 0 hid
      = Some (raw_msg ?ty (hid @ replicate (length vdata + length vinput) 0))"
    using msg_store_raw [of 0 hid "replicate ?n 0" ?ty] assms(1) by (simp add: add.commute add.left_commute)
  have s2: "msg_store (raw_msg ?ty (hid @ replicate (length vdata + length vinput) 0)) 8 vdata
      = Some (raw_msg ?ty ((hid @ vdata) @ replicate (length vinput) 0))"
    using msg_store_raw [of 8 vdata "hid @ replicate (length vdata + length vinput) 0" ?ty] assms(1)
      write_at_replicate [of hid "length vdata + length vinput" 0 vdata] by (cases hid) simp_all
  have s3: "msg_store (raw_msg ?ty ((hid @ vdata) @ replicate (length vinput) 0)) (8 + length vdata) vinput
      = Some (raw_msg ?ty (hid @ vdata @ vinput))"
    using msg_store_raw [of "8 + length vdata" vinput "(hid @ vdata) @ replicate (length vinput) 0" ?ty]
      assms(1) write_at_replicate [of "hid @ vdata" "length vinput" 0 vinput] by (cases hid) simp_all
  have h: "read_at hid 0 8 = Some hid" using assms(1) by (simp add: read_at_def)
  from n al show ?thesis
  proof (cases rule: allocate_cases)
    case 1
    then show ?thesis using al by (simp add: SEC_ENT_MSG_new_TYPE_TLS_VERIFY_DATA_def msg_built_def msg_blocks_def)
  next
    case 2
    then have "SEC_ENT_MSG_new_TYPE_TLS_VERIFY_DATA e hid vdata vinput w
      = Some (Some (raw_msg ?ty (hid @ vdata @ vinput)), w1)"
      using al s1 s2 s3 h by (simp add: SEC_ENT_MSG_new_TYPE_TLS_VERIFY_DATA_def)
    moreover have "msg_blocks r = msg_blocks (Some (raw_msg ?ty (hid @ vdata @ vinput)))"
      using 2 assms(1) by (cases hid) (simp_all add: msg_blocks_def raw_msg_def)
    ultimately show ?thesis using 2 n assms(1) by (simp add: msg_built_def)
  qed
qed

lemma unat_plus5:
  fixes l :: u32
  shows "unat (l + 5) = (if unat l + 5 < 2 ^ 32 then unat l + 5 else unat l + 5 - 2 ^ 32)"
proof -
  have "unat l < 2 ^ 32" using unsigned_less [of l, where ?'a = nat] by simp
  then show ?thesis by (simp add: unat_word_ariths mod_if)
qed

lemma send_buffer_spec:
  assumes ok: "msg_ok m" and len: "length (payload m) < 2 ^ 32 - 5"
  shows "\<exists>r w1. SEC_ENT_MSG_get_send_buffer e (Some m) w = Some (r, w1) \<and> same_io w w1 \<and>
     live w1 = live w + (if r = None then 0 else 1) \<and>
     (case r of None \<Rightarrow> errs w1 = ERR_R_MALLOC_FAILURE # errs w
      | Some b \<Rightarrow> errs w1 = errs w \<and> b = sec_ent_frame (msg_type m) (payload m))"
proof -
  have u: "unat (msg_len m) = length (payload m)" using payload_len [OF ok] .
  have t: "unat (msg_len m + 5) = 5 + length (payload m)" using len u by (simp add: unat_plus5)
  obtain b w1 where al: "OPENSSL_malloc e (5 + length (payload m)) w = (b, w1)" by fastforce
  note M = OPENSSL_malloc_fields(1,2) [OF al] same_io_malloc [OF al]
  have d: "(if msg_len m = 0 then Some [] else case msg_data m of None \<Rightarrow> None
       | Some d \<Rightarrow> read_at d 0 (unat (msg_len m))) = Some (payload m)"
    using ok u by (auto simp: msg_ok_def payload_def read_at_def split: option.splits)
  have "SEC_ENT_MSG_get_send_buffer e (Some m) w = Some (if b
      then (Some (sec_ent_frame (msg_type m) (payload m)), w1) else (None, ERR_raise ERR_R_MALLOC_FAILURE w1))"
    using al d by (simp add: SEC_ENT_MSG_get_send_buffer_def t u Let_def htonl_image sec_ent_frame_def)
  then show ?thesis using M by (cases b) simp_all
qed

lemma recv_buffer_total:
  assumes "len \<le> length data" "len < 2 ^ 32"
  shows "\<exists>r w1. SEC_ENT_MSG_new_from_recv_buffer e data len w = Some (r, w1) \<and> same_io w w1 \<and>
     live w1 = live w + msg_blocks r \<and>
     (case r of None \<Rightarrow> errs w1 = ERR_R_MALLOC_FAILURE # errs w \<or> errs w1 = SSL_R_BAD_DATA # errs w
      | Some m \<Rightarrow> errs w1 = errs w \<and> msg_ok m \<and> payload m \<noteq> [] \<and>
                  take len data = sec_ent_frame (msg_type m) (payload m))"
proof -
  obtain b w1 where m1: "OPENSSL_malloc e 16 w = (b, w1)" by fastforce
  note M1 = OPENSSL_malloc_fields(1,2) [OF m1] same_io_malloc [OF m1]
  show ?thesis
  proof (cases "b \<and> 5 < len")
    case False
    then show ?thesis using m1 M1 by (cases b) (simp_all add: SEC_ENT_MSG_new_from_recv_buffer_def msg_blocks_def)
  next
    case True
    then have b: "b" "5 < len" by simp_all
    then obtain ty rest where data: "data = ty # rest" using assms(1) by (cases data) auto
    have rl: "4 < length rest" using data assms(1) b by simp
    define l :: u32 where "l = word_of_nat (be_val (take 4 rest))"
    have ul: "unat l = be_val (take 4 rest)"
      using be_val_bound [of "take 4 rest"] rl unat_u32_of_nat [of "be_val (take 4 rest)"] by (simp add: l_def min_def)
    have hl: "hdr_len (host_little e) data = Some l"
      using hdr_len_eq [of data "host_little e"] data rl by (simp add: l_def)
    have ty: "read_at data 0 1 = Some [ty]" using data by (simp add: read_at_def)
    obtain b2 w2 where m2: "OPENSSL_malloc e (unat l) w1 = (b2, w2)" by fastforce
    note M2 = OPENSSL_malloc_fields(1,2) [OF m2] same_io_malloc [OF m2]
    have io: "same_io w w2" using M1(3) M2(3) by (rule same_io_trans)
    show ?thesis
    proof (cases "unat (l + 5) = len")
      case False
      then show ?thesis using m1 M1 b ty hl by (simp add: SEC_ENT_MSG_new_from_recv_buffer_def msg_blocks_def)
    next
      case eq: True
      then have len: "len = unat l + 5"
        using b unsigned_less [of l, where ?'a = nat] by (auto simp: unat_plus5 split: if_splits)
      then have l0: "l \<noteq> 0" using b by auto
      have d: "read_at data 5 (unat l) = Some (take (unat l) (drop 4 rest))"
        using assms(1) len data by (simp add: read_at_def)
      let ?m = "\<lparr>msg_type = ty, msg_len = l, msg_data = Some (take (unat l) (drop 4 rest))\<rparr>"
      have dl: "length (take (unat l) (drop 4 rest)) = unat l" using assms(1) len data by simp
      have run: "SEC_ENT_MSG_new_from_recv_buffer e data len w = Some (if b2 then (Some ?m, w2)
          else (None, OPENSSL_free True (ERR_raise ERR_R_MALLOC_FAILURE w2)))"
        using m1 b ty hl eq l0 m2 d by (simp add: SEC_ENT_MSG_new_from_recv_buffer_def)
      have nz: "unat l \<noteq> 0" using len b by simp
      have hdr: "be_bytes 4 (unat l) = take 4 rest"
        using be_bytes_be_val [of "take 4 rest"] rl ul by (simp add: min_def)
      have "take len data = ty # take (4 + unat l) rest" 
        using take_Suc_Cons [of "4 + unat l" ty rest] data len by (simp add: add.commute)
      also have "\<dots> = sec_ent_frame ty (take (unat l) (drop 4 rest))"
        using hdr dl by (simp add: sec_ent_frame_def take_add)
      finally have "take len data = sec_ent_frame ty (take (unat l) (drop 4 rest))" .
      moreover have "msg_ok ?m"
        using dl nz rl unsigned_less [of l, where ?'a = nat] by (simp add: msg_ok_def del: length_take)
      moreover have "payload ?m \<noteq> []" using nz rl by (simp add: payload_def)
      ultimately show ?thesis using run M1 M2 b io
        by (cases b2) (simp_all add: msg_blocks_def payload_def)
    qed
  qed
qed

lemma recv_buffer_frame:
  assumes ok: "\<And>i n. malloc_ok e i n" and "d \<noteq> []" "length d < 2 ^ 32 - 5"
  shows "SEC_ENT_MSG_new_from_recv_buffer e (sec_ent_frame ty d @ rest) (5 + length d) w =
     Some (Some (raw_msg ty d), w\<lparr>mallocs := mallocs w + 2, live := 2 + live w\<rparr>)"
proof -
  have v: "be_val (be_bytes 4 (length d)) = length d" using assms(3) by simp
  have hl: "hdr_len little (sec_ent_frame ty d @ rest) = Some (word_of_nat (length d))" for little
    using hdr_len_eq [of "sec_ent_frame ty d @ rest" little] v by (simp add: sec_ent_frame_def)
  have u: "unat (word_of_nat (length d) :: u32) = length d"
    using assms(3) unat_u32_of_nat [of "length d"] by simp
  have t: "unat (word_of_nat (length d) + 5 :: u32) = 5 + length d"
    using u assms(3) by (simp add: unat_plus5)
  have z: "(word_of_nat (length d) :: u32) \<noteq> 0" using word_of_nat_zero_iff [of "length d"] assms(2,3) by simp
  have ty: "read_at (sec_ent_frame ty d @ rest) 0 (Suc 0) = Some [ty]" by (simp add: read_at_def sec_ent_frame_def)
  have d: "read_at (sec_ent_frame ty d @ rest) 5 (length d) = Some d"
    by (simp add: read_at_def sec_ent_frame_def)
  show ?thesis
    using assms(2) ok by (simp add: SEC_ENT_MSG_new_from_recv_buffer_def OPENSSL_malloc_ok hl t u z ty d
        raw_msg_def)
qed

end
