(* ===== verification/Sec_Ent_Client.thy ===== *)
theory Sec_Ent_Client
  imports Sec_Ent_Msg Ssl_State
begin

text \<open>
  The client of the security entity (\<^verbatim>\<open>ssl/ieee1609dot2.c\<close>, \<open>connect_server\<close> to
  \<open>sec_ent_process\<close>): one TCP connection per request, the request written in as many pieces as
  \<open>write\<close> takes, the five-byte header and then the payload read into a 2048-byte buffer on the
  stack. The connection object is only read, for the address and port; the rest is effects on
  the process.
\<close>

section \<open>Operations\<close>

text \<open>The C string in an array; reading past the array is undefined.\<close>

definition c_string :: "bytes \<Rightarrow> bytes option" where
  "c_string a = (if 0 \<in> set a then Some (takeWhile (\<lambda>b. b \<noteq> 0) a) else None)"

definition connect_server :: "env \<Rightarrow> SSL_IEEE1609 \<Rightarrow> os \<Rightarrow> (int \<times> os) option" where
  "connect_server e st w = (case sock_socket e w of (fd, w1) \<Rightarrow>
     if fd = -1 then Some (-1, ERR_raise SSL_R_SOCKET_ALLOC_FAILED w1)
     else do {
       addr \<leftarrow> c_string (sec_ent_addr st);
       if \<not> sock_connect e addr (sec_ent_port st) w1
       then Some (-1, sock_close fd (ERR_raise SSL_R_SEC_ENT_CONNECT_FAILED w1))
       else Some (fd, w1) })"

text \<open>The loop keeps the bytes still to read, the bytes read, the buffer and the position in it.\<close>

function read_N_bytes :: "env \<Rightarrow> nat \<Rightarrow> nat \<Rightarrow> bytes \<Rightarrow> nat \<Rightarrow> os \<Rightarrow> (nat \<times> bytes \<times> nat \<times> os) option" where
  "read_N_bytes e n ret buf off w =
     (if n = 0 then Some (ret, buf, off, w)
      else let (bs, w1) = sock_read e n w
           in if bs = [] then Some (ret, buf, off, w1)
              else if length buf < off + length bs then None
              else read_N_bytes e (n - length bs) (ret + length bs) (write_at buf off bs) (off + length bs) w1)"
  by pat_completeness auto
termination
  by (relation "measure (\<lambda>(e, n, ret, buf, off, w). n)") auto

text \<open>\<open>int bytes_to_write = out_len\<close>.\<close>

definition c_int :: "nat \<Rightarrow> int" where
  "c_int n = sint (word_of_nat n :: u32)"

function write_loop :: "env \<Rightarrow> bytes \<Rightarrow> os \<Rightarrow> bool \<times> os" where
  "write_loop e out w =
     (if out = [] then (True, w)
      else let (r, w1) = sock_write e out w
           in if r \<le> 0 then (False, ERR_raise ERR_R_INTERNAL_ERROR w1)
              else write_loop e (drop (nat r) out) w1)"
  by pat_completeness auto
termination
  by (relation "measure (\<lambda>(e, out, w). length out)") auto

declare read_N_bytes.simps [simp del] write_loop.simps [simp del]

text \<open>
  The failure report of the entity: its text goes into the error queue, which the model does
  not keep; a trailing newline is overwritten, otherwise the text is copied to a block of its own.
\<close>

definition report_failure :: "env \<Rightarrow> SEC_ENT_MSG \<Rightarrow> os \<Rightarrow> (SEC_ENT_MSG option \<times> os) option" where
  "report_failure e reply w = (
     let w1 = ERR_raise SSL_R_UNEXPECTED_MESSAGE w in do {
       d \<leftarrow> msg_data reply;
       guardb (0 < unat (msg_len reply) \<and> unat (msg_len reply) \<le> length d);
       if d ! (unat (msg_len reply) - 1) = 10
       then Some (None, SEC_ENT_MSG_free (Some (reply\<lparr>msg_data := Some (d[unat (msg_len reply) - 1 := 0])\<rparr>)) w1)
       else case OPENSSL_malloc e (unat (msg_len reply + 1)) w1 of
         (False, w2) \<Rightarrow> Some (None, SEC_ENT_MSG_free (Some reply) w2)
       | (True, w2) \<Rightarrow> do {
           guardb (unat (msg_len reply) < unat (msg_len reply + 1));
           Some (None, SEC_ENT_MSG_free (Some reply) (OPENSSL_free True w2)) } })"

abbreviation (input) sizeof_buff :: nat where "sizeof_buff \<equiv> 2048"

text \<open>The part of \<open>send_recv_server\<close> after the header was read.\<close>

definition recv_body :: "env \<Rightarrow> bytes \<Rightarrow> nat \<Rightarrow> nat \<Rightarrow> os \<Rightarrow> (SEC_ENT_MSG option \<times> os) option" where
  "recv_body e buff pos len w = do {
     (n, buff1, _, w1) \<leftarrow> read_N_bytes e len 0 buff pos w;
     if n \<noteq> len then Some (None, ERR_raise ERR_R_INTERNAL_ERROR w1)
     else do {
       (reply, w2) \<leftarrow> SEC_ENT_MSG_new_from_recv_buffer e buff1 (n + SEC_ENT_MSG_HDR_LEN) w1;
       case reply of
         None \<Rightarrow> Some (None, ERR_raise ERR_R_INTERNAL_ERROR w2)
       | Some m \<Rightarrow> if msg_type m = SEC_ENT_MSG_TYPE_FAILURE then report_failure e m w2
                   else Some (Some m, w2) } }"

definition send_recv_server :: "env \<Rightarrow> bytes \<Rightarrow> os \<Rightarrow> (SEC_ENT_MSG option \<times> os) option" where
  "send_recv_server e out w =
     (case write_loop e (take (nat (c_int (length out))) out) w of
        (False, w1) \<Rightarrow> Some (None, w1)
      | (True, w1) \<Rightarrow> do {
          (n, buff, pos, w2) \<leftarrow> read_N_bytes e SEC_ENT_MSG_HDR_LEN 0 (replicate sizeof_buff 0) 0 w1;
          if n \<noteq> SEC_ENT_MSG_HDR_LEN then Some (None, ERR_raise ERR_R_INTERNAL_ERROR w2)
          else do {
            (len, w3) \<leftarrow> SEC_ENT_MSG_parse_len_from_hdr_buffer e buff n w2;
            if len < 0 then Some (None, ERR_raise ERR_R_INTERNAL_ERROR w3)
            else if sizeof_buff < nat len + SEC_ENT_MSG_HDR_LEN
            then Some (None, ERR_raise ERR_R_INTERNAL_ERROR w3)
            else recv_body e buff pos (nat len) w3 } })"

definition disconnect_server :: "int \<Rightarrow> os \<Rightarrow> os" where
  "disconnect_server fd w = (if 0 < fd then sock_close fd w else w)"

definition sec_ent_process ::
    "env \<Rightarrow> SSL_IEEE1609 \<Rightarrow> SEC_ENT_MSG option \<Rightarrow> os \<Rightarrow> (SEC_ENT_MSG option \<times> os) option" where
  "sec_ent_process e st msg w = do {
     (fd, w1) \<leftarrow> connect_server e st w;
     if fd < 0 then Some (None, w1)
     else do {
       (buff, w2) \<leftarrow> SEC_ENT_MSG_get_send_buffer e msg w1;
       case buff of
         None \<Rightarrow> Some (None, OPENSSL_free False (disconnect_server fd w2))
       | Some out \<Rightarrow> do {
           (ret, w3) \<leftarrow> send_recv_server e out w2;
           Some (ret, OPENSSL_free True (disconnect_server fd w3)) } } }"

section \<open>The read loop\<close>

text \<open>What is still to be read on the current connection.\<close>

definition pending :: "env \<Rightarrow> os \<Rightarrow> bytes list" where
  "pending e w = (case inbox w of None \<Rightarrow> env_peer e (conns w - 1) (wire w) | Some segs \<Rightarrow> segs)"

lemma sock_read_pending:
  "sock_read e n w = (case pending e w of [] \<Rightarrow> ([], w\<lparr>inbox := Some []\<rparr>)
     | seg # rest \<Rightarrow> (take n seg, w\<lparr>inbox := Some (if length seg \<le> n then rest else drop n seg # rest)\<rparr>))"
  by (simp add: sock_read_def pending_def)

lemma pending_inbox [simp]: "pending e (w\<lparr>inbox := Some segs\<rparr>) = segs"
  by (simp add: pending_def)

lemma ex_inbox: "\<exists>segs. w = w\<lparr>inbox := segs\<rparr>"
  by (rule exI [of _ "inbox w"]) simp

lemma sock_read_frame: "sock_read e n w = (bs, w1) \<Longrightarrow> \<exists>segs. w1 = w\<lparr>inbox := segs\<rparr> \<and> length bs \<le> n"
  by (auto simp: sock_read_pending split: list.splits)

text \<open>
  The loop stays inside the buffer, whatever the peer sends: it stores a prefix of what is to be
  read, of at most the bytes asked for, at its position, and changes nothing of the process but
  what is left to read.
\<close>

lemma read_N_bytes_total:
  "off + n \<le> length buf \<Longrightarrow> \<exists>k segs. read_N_bytes e n ret buf off w
       = Some (ret + k, write_at buf off (take k (concat (pending e w))), off + k, w\<lparr>inbox := segs\<rparr>)
     \<and> k \<le> n \<and> k \<le> length (concat (pending e w))
     \<and> concat (pending e (w\<lparr>inbox := segs\<rparr>)) = drop k (concat (pending e w))"
proof (induction e n ret buf off w rule: read_N_bytes.induct)
  case (1 e n ret buf off w)
  obtain bs w1 where rd: "sock_read e n w = (bs, w1)" by fastforce
  obtain segs where w1: "w1 = w\<lparr>inbox := segs\<rparr>" and bs: "length bs \<le> n"
    using sock_read_frame [OF rd] by blast
  have cc: "concat (pending e w) = bs @ concat (pending e w1)"
    using rd by (auto simp: sock_read_pending split: list.splits if_splits)
  show ?case
  proof (cases "n = 0 \<or> bs = []")
    case True
    then have "read_N_bytes e n ret buf off w = Some (ret, buf, off, if n = 0 then w else w1)"
      using rd read_N_bytes.simps [of e n ret buf off w] by auto
    moreover have "\<exists>segs. (if n = 0 then w else w1) = w\<lparr>inbox := segs\<rparr>" using ex_inbox w1 by auto
    moreover have "concat (pending e (if n = 0 then w else w1)) = concat (pending e w)" using True cc by auto
    ultimately obtain segs1 where
      "read_N_bytes e n ret buf off w = Some (ret + 0, write_at buf off (take 0 (concat (pending e w))), off + 0, w\<lparr>inbox := segs1\<rparr>)"
      "concat (pending e (w\<lparr>inbox := segs1\<rparr>)) = concat (pending e w)" by (auto simp: write_at_def)
    then show ?thesis by (intro exI [of _ 0] exI [of _ segs1]) simp
  next
    case False
    then have n: "n \<noteq> 0" and ne: "bs \<noteq> []" and fit: "\<not> length buf < off + length bs" using bs 1(2) by auto
    have le: "off + length bs + (n - length bs) \<le> length (write_at buf off bs)" using bs 1(2) by simp
    obtain k segs1 where ih: "read_N_bytes e (n - length bs) (ret + length bs) (write_at buf off bs) (off + length bs) w1
        = Some (ret + length bs + k, write_at (write_at buf off bs) (off + length bs) (take k (concat (pending e w1))),
            off + length bs + k, w1\<lparr>inbox := segs1\<rparr>)" "k \<le> n - length bs" "k \<le> length (concat (pending e w1))"
      "concat (pending e (w1\<lparr>inbox := segs1\<rparr>)) = drop k (concat (pending e w1))"
      using 1(1) [OF n refl rd [symmetric] ne fit le] by blast
    have "write_at (write_at buf off bs) (off + length bs) (take k (concat (pending e w1)))
        = write_at buf off (take (length bs + k) (concat (pending e w)))"
      using fit cc by (simp add: write_at_def ac_simps)
    then have "read_N_bytes e n ret buf off w = Some (ret + (length bs + k),
        write_at buf off (take (length bs + k) (concat (pending e w))), off + (length bs + k), w\<lparr>inbox := segs1\<rparr>)"
      using read_N_bytes.simps [of e n ret buf off w] n ne fit rd ih(1) w1 by (simp add: add.assoc)
    moreover have "length bs + k \<le> n" "length bs + k \<le> length (concat (pending e w))" using ih(2,3) bs cc by simp_all
    moreover have "concat (pending e (w\<lparr>inbox := segs1\<rparr>)) = drop (length bs + k) (concat (pending e w))"
      using ih(4) cc w1 by simp
    ultimately show ?thesis by blast
  qed
qed

text \<open>
  When the peer sends enough, in segments of any sizes, the loop reads exactly the bytes asked
  for and the rest stays to be read.
\<close>

lemma read_N_bytes_exact:
  "off + n \<le> length buf \<Longrightarrow> n \<le> length (concat (pending e w)) \<Longrightarrow> [] \<notin> set (pending e w) \<Longrightarrow>
   \<exists>w1. read_N_bytes e n ret buf off w = Some (ret + n, write_at buf off (take n (concat (pending e w))), off + n, w1)
     \<and> concat (pending e w1) = drop n (concat (pending e w)) \<and> [] \<notin> set (pending e w1) \<and> (\<exists>segs. w1 = w\<lparr>inbox := segs\<rparr>)"
proof (induction e n ret buf off w rule: read_N_bytes.induct)
  case (1 e n ret buf off w)
  show ?case
  proof (cases "n = 0")
    case True
    then show ?thesis using 1(4) read_N_bytes.simps [of e n ret buf off w] ex_inbox [of w] by (auto simp: write_at_def)
  next
    case n: False
    then obtain seg rest where pend: "pending e w = seg # rest" using 1(3) by (cases "pending e w") auto
    define bs where "bs = take n seg"
    define left where "left = (if length seg \<le> n then rest else drop n seg # rest)"
    define w1 where "w1 = w\<lparr>inbox := Some left\<rparr>"
    have ne: "bs \<noteq> []" using n 1(4) pend by (auto simp: bs_def)
    have rd: "sock_read e n w = (bs, w1)"
      by (simp add: sock_read_pending pend bs_def w1_def left_def)
    have bsn: "length bs \<le> n" by (simp add: bs_def)
    have cc: "concat (pending e w) = bs @ concat left" by (simp add: pend bs_def left_def)
    have fit: "\<not> length buf < off + length bs" using bsn 1(2) by simp
    have A: "off + length bs + (n - length bs) \<le> length (write_at buf off bs)" using bsn 1(2) by simp
    have B: "n - length bs \<le> length (concat (pending e w1))" using 1(3) cc by (simp add: w1_def)
    have C: "[] \<notin> set (pending e w1)" using 1(4) pend by (auto simp: w1_def left_def)
    obtain w2 where ih: "read_N_bytes e (n - length bs) (ret + length bs) (write_at buf off bs) (off + length bs) w1
        = Some (ret + length bs + (n - length bs), write_at (write_at buf off bs) (off + length bs)
            (take (n - length bs) (concat left)), off + length bs + (n - length bs), w2)"
      "concat (pending e w2) = drop (n - length bs) (concat left)" "[] \<notin> set (pending e w2)"
      "\<exists>segs. w2 = w1\<lparr>inbox := segs\<rparr>"
      using 1(1) [OF n refl rd [symmetric] ne fit A B C] by (auto simp: w1_def)
    have t: "take n (concat (pending e w)) = bs @ take (n - length bs) (concat left)" using cc bsn by simp
    have wr: "write_at (write_at buf off bs) (off + length bs) (take (n - length bs) (concat left))
        = write_at buf off (take n (concat (pending e w)))"
      unfolding t using 1(2) bsn by (simp add: write_at_def ac_simps)
    have "read_N_bytes e n ret buf off w = Some (ret + n, write_at buf off (take n (concat (pending e w))), off + n, w2)"
      using read_N_bytes.simps [of e n ret buf off w] n ne fit rd ih(1) wr bsn by simp
    moreover have "concat (pending e w2) = drop n (concat (pending e w))" using ih(2) cc bsn by simp
    moreover have "\<exists>segs. w2 = w\<lparr>inbox := segs\<rparr>" using ih(4) by (auto simp: w1_def)
    ultimately show ?thesis using ih(3) by blast
  qed
qed

section \<open>The write loop\<close>

lemma write_loop_cases:
  "write_loop e out w = (b, w1) \<Longrightarrow>
     b \<and> w1 = w\<lparr>wire := wire w @ out\<rparr> \<or> \<not> b \<and> (\<exists>x. w1 = ERR_raise ERR_R_INTERNAL_ERROR (w\<lparr>wire := x\<rparr>))"
proof (induction e out w arbitrary: b w1 rule: write_loop.induct)
  case (1 e out w)
  obtain r w2 where wr: "sock_write e out w = (r, w2)" by fastforce
  have self: "w = w\<lparr>wire := wire w\<rparr>" by simp
  consider "out = []" | "out \<noteq> []" "r \<le> 0" | "out \<noteq> []" "0 < r" by linarith
  then show ?case
  proof cases
    case 1
    then show ?thesis using "1.prems" write_loop.simps [of e out w] by simp
  next
    case 2
    then have "w2 = w" using wr by (auto simp: sock_write_def Let_def split: if_splits)
    then have "\<not> b \<and> w1 = ERR_raise ERR_R_INTERNAL_ERROR (w\<lparr>wire := wire w\<rparr>)"
      using 2 "1.prems" write_loop.simps [of e out w] wr by simp
    then show ?thesis by blast
  next
    case 3
    then have run: "write_loop e (drop (nat r) out) w2 = (b, w1)"
      using "1.prems" write_loop.simps [of e out w] wr by simp
    have w2: "w2 = w\<lparr>wire := wire w @ take (nat r) out\<rparr>"
      using wr 3 by (auto simp: sock_write_def Let_def min_def split: if_splits)
    have pos: "\<not> r \<le> 0" using 3 by simp
    show ?thesis
      using "1.IH" [OF 3(1) refl wr [symmetric] pos run] w2 by auto
  qed
qed

lemma write_loop_ok:
  assumes "\<And>i k n. 0 < n \<Longrightarrow> 0 < env_write e i k n"
  shows "write_loop e out w = (True, w\<lparr>wire := wire w @ out\<rparr>)"
proof -
  have "fst (write_loop e out w)"
    using assms
  proof (induction e out w rule: write_loop.induct)
    case (1 e out w)
    obtain r w1 where wr: "sock_write e out w = (r, w1)" by fastforce
    show ?case
    proof (cases "out = []")
      case True
      then show ?thesis by (simp add: write_loop.simps)
    next
      case False
      then have "0 < env_write e (conns w - 1) (length (wire w)) (length out)" by (intro 1(2)) simp
      then have pos: "\<not> r \<le> 0"
        using wr False by (auto simp: sock_write_def Let_def min_def not_le split: if_splits)
      then show ?thesis using 1(1) [OF False refl wr [symmetric] pos 1(2)] write_loop.simps [of e out w] wr False by simp
    qed
  qed
  then show ?thesis using write_loop_cases [of e out w] by (cases "write_loop e out w") auto
qed

lemma c_int_id: "n < 2 ^ 31 \<Longrightarrow> c_int n = int n"
  by (simp add: c_int_def signed_of_nat signed_take_bit_int_eq_self_iff)

section \<open>A request and its reply\<close>

text \<open>The connection table, the closed requests and the X509 objects are as they were.\<close>

definition same_conn :: "os \<Rightarrow> os \<Rightarrow> bool" where
  "same_conn w w1 \<longleftrightarrow> conns w1 = conns w \<and> open_fds w1 = open_fds w \<and> requests w1 = requests w \<and>
     x509s w1 = x509s w \<and> x_next w1 = x_next w"

lemma same_conn_simps [simp]:
  "same_conn w w" "same_conn w (ERR_raise r w1) = same_conn w w1"
  "same_conn w (w1\<lparr>inbox := i\<rparr>) = same_conn w w1" "same_conn w (w1\<lparr>wire := x\<rparr>) = same_conn w w1"
  "same_conn w (OPENSSL_free p w1) = same_conn w w1"
  by (simp_all add: same_conn_def)

lemma same_conn_io: "same_io w w1 \<Longrightarrow> same_conn w w1"
  by (simp add: same_io_def same_conn_def)

lemma same_conn_trans: "same_conn w w1 \<Longrightarrow> same_conn w1 w2 \<Longrightarrow> same_conn w w2"
  by (simp add: same_conn_def)

text \<open>What the callers of the client get: a message that is well formed, not empty, no failure
  report and no longer than the buffer, or nothing and an error on the queue.\<close>

definition reply_ok :: "SEC_ENT_MSG option \<Rightarrow> os \<Rightarrow> bool" where
  "reply_ok r w \<longleftrightarrow> (case r of None \<Rightarrow> errs w \<noteq> []
     | Some m \<Rightarrow> msg_ok m \<and> payload m \<noteq> [] \<and> length (payload m) \<le> 2043 \<and> msg_type m \<noteq> SEC_ENT_MSG_TYPE_FAILURE)"

lemma reply_ok_None [simp]: "reply_ok None w \<longleftrightarrow> errs w \<noteq> []"
  by (simp add: reply_ok_def)

lemma same_conn_msg_free [simp]: "same_conn w (SEC_ENT_MSG_free m w1) = same_conn w w1"
  by (simp add: SEC_ENT_MSG_free_def split: option.splits)

lemma report_failure_spec:
  assumes "msg_ok m" "payload m \<noteq> []" "length (payload m) \<le> 2043"
  shows "\<exists>w1. report_failure e m w = Some (None, w1) \<and> same_io w w1 \<and>
     live w1 = live w - msg_blocks (Some m) \<and> errs w1 = SSL_R_UNEXPECTED_MESSAGE # errs w"
proof -
  obtain d where d: "msg_data m = Some d" "d \<noteq> []" using assms(2) by (auto simp: payload_def split: option.splits)
  have l: "unat (msg_len m) = length d" using payload_len [OF assms(1)] d by (simp add: payload_def)
  have l1: "unat (msg_len m + 1) = length d + 1"
    using l assms(3) d by (simp add: unat_word_ariths payload_def)
  obtain b w2 where al: "OPENSSL_malloc e (length d + 1) (ERR_raise SSL_R_UNEXPECTED_MESSAGE w) = (b, w2)" by fastforce
  note M = OPENSSL_malloc_fields(1,2) [OF al] same_io_malloc [OF al]
  have c: "same_io w w2" using M(3) by (simp add: same_io_def)
  show ?thesis
    using d l l1 al M c by (cases b) (auto simp: report_failure_def Let_def msg_blocks_def)
qed

lemma recv_body_total:
  assumes h: "length h = 5" and len: "len + 5 \<le> 2048"
  shows "\<exists>r w1. recv_body e (h @ replicate 2043 0) 5 len w = Some (r, w1) \<and> same_conn w w1 \<and> wire w1 = wire w \<and>
     live w1 = live w + msg_blocks r \<and> reply_ok r w1 \<and>
     (\<forall>m. r = Some m \<longrightarrow> (\<exists>rest. h @ concat (pending e w) = sec_ent_frame (msg_type m) (payload m) @ rest))"
proof -
  let ?buff = "h @ replicate 2043 0"
  obtain k segs where rd: "read_N_bytes e len 0 ?buff 5 w
      = Some (k, write_at ?buff 5 (take k (concat (pending e w))), 5 + k, w\<lparr>inbox := segs\<rparr>)"
    and k: "k \<le> len" "k \<le> length (concat (pending e w))"
    using read_N_bytes_total [of 5 len ?buff e 0 w] h len by auto
  let ?w1 = "w\<lparr>inbox := segs\<rparr>" and ?buff1 = "write_at ?buff 5 (take k (concat (pending e w)))"
  have le: "len + 5 \<le> length ?buff1" "len + 5 < 2 ^ 32" using h len k by simp_all
  obtain r w2 where nb: "SEC_ENT_MSG_new_from_recv_buffer e ?buff1 (len + 5) ?w1 = Some (r, w2)"
    and io: "same_io ?w1 w2" and lv: "live w2 = live ?w1 + msg_blocks r"
    and m: "case r of None \<Rightarrow> True | Some m \<Rightarrow> msg_ok m \<and> payload m \<noteq> [] \<and>
        take (len + 5) ?buff1 = sec_ent_frame (msg_type m) (payload m)"
    using recv_buffer_total [OF le, of e ?w1] by (fastforce split: option.splits)
  have c: "same_conn w w2" "wire w2 = wire w" using same_conn_io [OF io] io by (simp_all add: same_conn_def same_io_def)
  consider "k \<noteq> len" | "k = len" "r = None" | m where "k = len" "r = Some m" by (cases r) auto
  then show ?thesis
  proof cases
    case 1
    then show ?thesis using rd by (simp add: recv_body_def msg_blocks_def)
  next
    case 2
    then show ?thesis using rd nb c lv by (simp add: recv_body_def msg_blocks_def)
  next
    case (3 m1)
    have ok: "msg_ok m1" "payload m1 \<noteq> []" using m 3 by simp_all
    have fr: "take (len + 5) ?buff1 = sec_ent_frame (msg_type m1) (payload m1)" using m 3 by simp
    then have "length (take (len + 5) ?buff1) = 5 + length (payload m1)" by simp
    then have "length (payload m1) = len" using le(1) by (simp only: length_take min_absorb2)
    then have short: "length (payload m1) \<le> 2043" using len by simp
    have "?buff1 = h @ take len (concat (pending e w)) @ replicate (2043 - len) 0"
      using write_at_replicate [of h 2043 0 "take len (concat (pending e w))"] h k 3 by (simp add: min_def)
    then have "take (len + 5) ?buff1 = h @ take len (concat (pending e w))" using h k 3 by simp
    then have ans: "\<exists>rest. h @ concat (pending e w) = sec_ent_frame (msg_type m1) (payload m1) @ rest"
      using fr by (intro exI [of _ "drop len (concat (pending e w))"]) (metis append.assoc append_take_drop_id)
    show ?thesis
    proof (cases "msg_type m1 = 3")
      case True
      then show ?thesis
        using rd nb 3 c lv report_failure_spec [OF ok short, of e w2]
        by (auto simp: recv_body_def msg_blocks_def same_conn_def same_io_def)
    next
      case False
      then show ?thesis using rd nb 3 c lv ok short ans by (simp add: recv_body_def reply_ok_def)
    qed
  qed
qed

lemma send_recv_total:
  assumes "length out < 2 ^ 31" "wire w = []" "inbox w = None"
  shows "\<exists>r w1. send_recv_server e out w = Some (r, w1) \<and> same_conn w w1 \<and>
     live w1 = live w + msg_blocks r \<and> reply_ok r w1 \<and>
     (\<forall>m. r = Some m \<longrightarrow> wire w1 = out \<and> (\<exists>rest.
        concat (env_peer e (conns w - 1) out) = sec_ent_frame (msg_type m) (payload m) @ rest))"
proof -
  let ?z = "replicate 2048 (0 :: u8)"
  have out: "take (nat (c_int (length out))) out = out" using assms(1) by (simp add: c_int_id)
  obtain b w1 where wl: "write_loop e out w = (b, w1)" by fastforce
  define C where "C = concat (pending e w1)"
  obtain k segs where rd: "read_N_bytes e 5 0 ?z 0 w1 = Some (k, write_at ?z 0 (take k C), k, w1\<lparr>inbox := segs\<rparr>)"
    and k: "k \<le> 5" "k \<le> length C" and p: "concat (pending e (w1\<lparr>inbox := segs\<rparr>)) = drop k C"
    using read_N_bytes_total [of 0 5 ?z e 0 w1] by (auto simp: C_def)
  let ?w2 = "w1\<lparr>inbox := segs\<rparr>" and ?buff = "write_at ?z 0 (take k C)"
  define l :: u32 where "l = word_of_nat (be_val (take 4 (drop 1 ?buff)))"
  have pl: "SEC_ENT_MSG_parse_len_from_hdr_buffer e ?buff 5 ?w2 = Some (uint l, ?w2)"
    using hdr_len_eq [of ?buff "host_little e"] k by (simp add: SEC_ENT_MSG_parse_len_from_hdr_buffer_def l_def)
  have nl: "nat (uint l) = unat l" "\<not> uint l < 0" by simp_all
  consider "\<not> b" | "b" "k \<noteq> 5" | "b" "k = 5" "2048 < unat l + 5" | "b" "k = 5" "unat l + 5 \<le> 2048"
    by linarith
  then show ?thesis
  proof cases
    case 1
    then obtain x where "w1 = ERR_raise ERR_R_INTERNAL_ERROR (w\<lparr>wire := x\<rparr>)" using write_loop_cases [OF wl] by blast
    then show ?thesis using 1 wl out by (simp add: send_recv_server_def msg_blocks_def)
  next
    case 2
    then have "w1 = w\<lparr>wire := wire w @ out\<rparr>" using write_loop_cases [OF wl] by simp
    then show ?thesis using 2 wl out rd by (simp add: send_recv_server_def msg_blocks_def)
  next
    case 3
    then have "w1 = w\<lparr>wire := wire w @ out\<rparr>" using write_loop_cases [OF wl] by simp
    moreover have "send_recv_server e out w = Some (None, ERR_raise ERR_R_INTERNAL_ERROR ?w2)"
      using 3 wl out rd pl nl by (simp add: send_recv_server_def)
    ultimately show ?thesis by (simp add: msg_blocks_def)
  next
    case 4
    then have w1: "w1 = w\<lparr>wire := out\<rparr>" using write_loop_cases [OF wl] assms(2) by simp
    have C: "C = concat (env_peer e (conns w - 1) out)" using w1 assms(3) by (simp add: C_def pending_def)
    have h: "length (take 5 C) = 5" "?buff = take 5 C @ replicate 2043 0" using 4 k by simp_all
    obtain r w3 where B: "recv_body e ?buff 5 (unat l) ?w2 = Some (r, w3)" "same_conn ?w2 w3" "wire w3 = wire ?w2"
      "live w3 = live ?w2 + msg_blocks r" "reply_ok r w3"
      "\<And>m. r = Some m \<Longrightarrow> \<exists>rest. take 5 C @ drop 5 C = sec_ent_frame (msg_type m) (payload m) @ rest"
      using recv_body_total [OF h(1) 4(3), of e ?w2] h(2) p 4(2) by auto
    have "send_recv_server e out w = recv_body e ?buff 5 (unat l) ?w2"
      using 4 wl out rd pl nl by (simp add: send_recv_server_def)
    moreover have "same_conn w w3" using B(2) w1 by (simp add: same_conn_def)
    ultimately show ?thesis using B w1 C by simp
  qed
qed

text \<open>
  A request leaves no block behind but its reply's, touches no X509 object and, when the
  descriptor it got is not 0, leaves no descriptor open. A reply is returned only when the frame
  of the request went out whole and the entity's answer to it begins with the frame of the reply.
\<close>

definition request_done :: "env \<Rightarrow> SEC_ENT_MSG \<Rightarrow> os \<Rightarrow> SEC_ENT_MSG option \<Rightarrow> os \<Rightarrow> bool" where
  "request_done e m w r w1 \<longleftrightarrow> live w1 = live w + msg_blocks r \<and> reply_ok r w1 \<and> x509s w1 = x509s w \<and>
     x_next w1 = x_next w \<and> (env_socket e (conns w) \<noteq> 0 \<longrightarrow> open_fds w1 = open_fds w) \<and>
     (\<forall>m1. r = Some m1 \<longrightarrow> (env_socket e (conns w) \<noteq> 0 \<longrightarrow> requests w1 = requests w @ [sec_ent_frame (msg_type m) (payload m)])
        \<and> (\<exists>rest. concat (env_peer e (conns w) (sec_ent_frame (msg_type m) (payload m)))
              = sec_ent_frame (msg_type m1) (payload m1) @ rest))"

lemma connect_server_cases:
  assumes "0 \<in> set (sec_ent_addr st)"
  obtains (fail) w1 where "connect_server e st w = Some (-1, w1)" "live w1 = live w" "errs w1 \<noteq> []"
      "x509s w1 = x509s w" "x_next w1 = x_next w" "open_fds w1 = open_fds w"
    | (conn) fd where "connect_server e st w = Some (fd, w\<lparr>conns := Suc (conns w), wire := [], inbox := None, open_fds := fd # open_fds w\<rparr>)"
      "0 \<le> fd" "fd = env_socket e (conns w)"
proof (cases "env_socket e (conns w) < 0")
  case True
  let ?w1 = "ERR_raise SSL_R_SOCKET_ALLOC_FAILED (w\<lparr>conns := Suc (conns w), wire := [], inbox := None\<rparr>)"
  from True show ?thesis by (intro fail [of ?w1]) (auto simp: connect_server_def sock_socket_def Let_def)
next
  case False
  let ?w1 = "w\<lparr>conns := Suc (conns w), wire := [], inbox := None, open_fds := env_socket e (conns w) # open_fds w\<rparr>"
  obtain a where a: "c_string (sec_ent_addr st) = Some a" using assms by (simp add: c_string_def)
  show ?thesis
  proof (cases "sock_connect e a (sec_ent_port st) ?w1")
    case True
    then show ?thesis using False a by (intro conn) (auto simp: connect_server_def sock_socket_def Let_def)
  next
    case noconn: False
    let ?w2 = "sock_close (env_socket e (conns w)) (ERR_raise SSL_R_SEC_ENT_CONNECT_FAILED ?w1)"
    from noconn show ?thesis using False a
      by (intro fail [of ?w2]) (auto simp: connect_server_def sock_socket_def sock_close_def Let_def)
  qed
qed

lemma sec_ent_process_total:
  assumes ok: "msg_ok m" and len: "length (payload m) < 2 ^ 31 - 5" and addr: "0 \<in> set (sec_ent_addr st)"
  shows "\<exists>r w1. sec_ent_process e st (Some m) w = Some (r, w1) \<and> request_done e m w r w1"
  using addr
proof (cases rule: connect_server_cases [of st e w])
  case (fail w1)
  then show ?thesis by (simp add: sec_ent_process_def request_done_def msg_blocks_def)
next
  case (conn fd)
  define w1 where "w1 = w\<lparr>conns := Suc (conns w), wire := [], inbox := None, open_fds := fd # open_fds w\<rparr>"
  have l32: "length (payload m) < 2 ^ 32 - 5" using len by simp
  obtain b w2 where sb: "SEC_ENT_MSG_get_send_buffer e (Some m) w1 = Some (b, w2)" "same_io w1 w2"
    "live w2 = live w1 + (if b = None then 0 else 1)"
    "b = None \<Longrightarrow> errs w2 \<noteq> []" "\<And>out. b = Some out \<Longrightarrow> out = sec_ent_frame (msg_type m) (payload m)"
    using send_buffer_spec [OF ok l32, of e w1] by (fastforce split: option.splits)
  have cs: "connect_server e st w = Some (fd, w1)" "0 \<le> fd" using conn by (simp_all add: w1_def)
  show ?thesis
  proof (cases b)
    case None
    then have "sec_ent_process e st (Some m) w = Some (None, disconnect_server fd w2)"
      using cs sb(1) by (simp add: sec_ent_process_def OPENSSL_free_def)
    then show ?thesis using sb None cs(2) conn(3)
      by (auto simp: request_done_def disconnect_server_def sock_close_def w1_def msg_blocks_def same_io_def)
  next
    case (Some out)
    have out: "out = sec_ent_frame (msg_type m) (payload m)" using sb(5) [OF Some] .
    have w2: "wire w2 = []" "inbox w2 = None" "conns w2 = Suc (conns w)" "requests w2 = requests w"
      "open_fds w2 = fd # open_fds w" "x509s w2 = x509s w" "x_next w2 = x_next w" "live w2 = live w + 1"
      using sb(2,3) Some by (simp_all add: same_io_def w1_def)
    have "length out < 2 ^ 31" using out len by simp
    from send_recv_total [OF this w2(1,2), of e] obtain r w3 where sr: "send_recv_server e out w2 = Some (r, w3)"
      "same_conn w2 w3" "live w3 = live w2 + msg_blocks r" "reply_ok r w3"
      "\<And>m1. r = Some m1 \<Longrightarrow> wire w3 = out \<and> (\<exists>rest. concat (env_peer e (conns w2 - 1) out) = sec_ent_frame (msg_type m1) (payload m1) @ rest)"
      by blast
    let ?w4 = "OPENSSL_free True (disconnect_server fd w3)"
    have "sec_ent_process e st (Some m) w = Some (r, ?w4)"
      using cs sb(1) Some sr(1) by (simp add: sec_ent_process_def)
    moreover have "reply_ok r ?w4"
      using sr(4) by (auto simp: reply_ok_def disconnect_server_def sock_close_def split: option.splits)
    moreover have "live ?w4 = live w + msg_blocks r" "x509s ?w4 = x509s w" "x_next ?w4 = x_next w"
      "fd \<noteq> 0 \<longrightarrow> open_fds ?w4 = open_fds w"
      using sr(2,3) w2 cs(2) by (auto simp: disconnect_server_def sock_close_def same_conn_def)
    moreover have "fd \<noteq> 0 \<longrightarrow> requests ?w4 = requests w @ [out]" if "r = Some m1" for m1
      using sr(5) [OF that] sr(2) w2 cs(2) by (auto simp: disconnect_server_def sock_close_def same_conn_def)
    ultimately show ?thesis using sr(5) w2(3) out conn(3) by (simp add: request_done_def)
  qed
qed

section \<open>The exchange\<close>

text \<open>The entity answers the request on connection \<open>i\<close> with a frame, cut into segments anyhow.\<close>

definition entity_replies :: "env \<Rightarrow> nat \<Rightarrow> bytes \<Rightarrow> u8 \<Rightarrow> bytes \<Rightarrow> bool" where
  "entity_replies e i req ty d \<longleftrightarrow> [] \<notin> set (env_peer e i req) \<and>
     concat (env_peer e i req) = sec_ent_frame ty d"

text \<open>Memory is available, the connection is made and \<open>write\<close> makes progress.\<close>

definition entity_up :: "env \<Rightarrow> bool" where
  "entity_up e \<longleftrightarrow> (\<forall>i n. malloc_ok e i n) \<and> (\<forall>i. 0 < env_socket e i) \<and>
     (\<forall>i a p. env_connect e i a p) \<and> (\<forall>i k n. 0 < n \<longrightarrow> 0 < env_write e i k n)"

lemma recv_exchange:
  assumes ok: "\<And>i n. malloc_ok e i n" and d: "d \<noteq> []" "length d \<le> 2043"
    and pend: "[] \<notin> set (pending e w)" "concat (pending e w) = sec_ent_frame ty d"
  shows "\<exists>buff w1. read_N_bytes e 5 0 (replicate 2048 0) 0 w = Some (5, buff, 5, w1) \<and> length buff = 2048 \<and>
     hdr_len (host_little e) buff = Some (word_of_nat (length d)) \<and>
     (\<exists>i. recv_body e buff 5 (length d) w1 =
        (if ty = 3 then report_failure e (raw_msg ty d) (w\<lparr>inbox := i, mallocs := mallocs w + 2, live := 2 + live w\<rparr>)
         else Some (Some (raw_msg ty d), w\<lparr>inbox := i, mallocs := mallocs w + 2, live := 2 + live w\<rparr>)))"
proof -
  let ?z = "replicate 2048 (0 :: u8)" and ?h = "ty # be_bytes 4 (length d)"
  have t5: "take 5 (concat (pending e w)) = ?h" "drop 5 (concat (pending e w)) = d"
    using pend(2) by (simp_all add: sec_ent_frame_def)
  have a: "0 + 5 \<le> length ?z" "5 \<le> length (concat (pending e w))" using pend(2) by simp_all
  obtain w1 segs where r1: "read_N_bytes e 5 0 ?z 0 w = Some (0 + 5, write_at ?z 0 ?h, 0 + 5, w1)"
    and p1: "concat (pending e w1) = d" "[] \<notin> set (pending e w1)" and w1: "w1 = w\<lparr>inbox := segs\<rparr>"
    using read_N_bytes_exact [OF a pend(1), of 0] t5 by fastforce
  define buff where "buff = write_at ?z 0 ?h"
  have b: "buff = ?h @ replicate 2043 0" by (simp add: buff_def)
  have lb: "length buff = 2048" by (simp add: b)
  have hl: "hdr_len (host_little e) buff = Some (word_of_nat (length d))"
    using hdr_len_eq [of buff "host_little e"] d by (simp add: b)
  have c: "5 + length d \<le> length buff" "length d \<le> length (concat (pending e w1))" using lb d p1 by simp_all
  obtain w2 segs2 where r2: "read_N_bytes e (length d) 0 buff 5 w1 = Some (0 + length d, write_at buff 5 d, 5 + length d, w2)"
    and w2: "w2 = w1\<lparr>inbox := segs2\<rparr>"
    using read_N_bytes_exact [OF c p1(2), of 0] p1 by fastforce
  have fr: "write_at buff 5 d = sec_ent_frame ty d @ replicate (2043 - length d) 0"
    using write_at_replicate [of ?h 2043 0 d] by (simp add: b sec_ent_frame_def)
  have d5: "length d < 2 ^ 32 - 5" using d by simp
  have nb: "SEC_ENT_MSG_new_from_recv_buffer e (write_at buff 5 d) (length d + 5) w2
      = Some (Some (raw_msg ty d), w2\<lparr>mallocs := mallocs w2 + 2, live := 2 + live w2\<rparr>)"
    using recv_buffer_frame [OF ok d(1) d5, of ty "replicate (2043 - length d) 0" w2] fr by (simp add: add.commute)
  have "recv_body e buff 5 (length d) w1 =
      (if ty = 3 then report_failure e (raw_msg ty d) (w\<lparr>inbox := segs2, mallocs := mallocs w + 2, live := 2 + live w\<rparr>)
       else Some (Some (raw_msg ty d), w\<lparr>inbox := segs2, mallocs := mallocs w + 2, live := 2 + live w\<rparr>))"
    using r2 nb w1 w2 by (simp add: recv_body_def)
  then show ?thesis using r1 lb hl buff_def by auto
qed

lemma send_recv_exchange:
  assumes up: "entity_up e" and out: "length out < 2 ^ 31" and d: "d \<noteq> []" "length d \<le> 2043"
    and w: "wire w = []" "inbox w = None" and rep: "entity_replies e (conns w - 1) out ty d"
  shows "\<exists>i. send_recv_server e out w =
     (let w1 = w\<lparr>wire := out, inbox := i, mallocs := mallocs w + 2, live := 2 + live w\<rparr>
      in if ty = 3 then report_failure e (raw_msg ty d) w1 else Some (Some (raw_msg ty d), w1))"
proof -
  let ?w1 = "w\<lparr>wire := out\<rparr>"
  have ok: "\<And>i n. malloc_ok e i n" "\<And>i k n. 0 < n \<Longrightarrow> 0 < env_write e i k n" using up by (simp_all add: entity_up_def)
  have tk: "take (nat (c_int (length out))) out = out" using out by (simp add: c_int_id)
  have wl: "write_loop e out w = (True, ?w1)" using write_loop_ok [OF ok(2), of out w] w by simp
  have pend: "[] \<notin> set (pending e ?w1)" "concat (pending e ?w1) = sec_ent_frame ty d"
    using rep w by (simp_all add: entity_replies_def pending_def)
  obtain buff w2 i where R: "read_N_bytes e 5 0 (replicate 2048 0) 0 ?w1 = Some (5, buff, 5, w2)"
    "length buff = 2048" "hdr_len (host_little e) buff = Some (word_of_nat (length d))"
    "recv_body e buff 5 (length d) w2 =
        (if ty = 3 then report_failure e (raw_msg ty d) (?w1\<lparr>inbox := i, mallocs := mallocs ?w1 + 2, live := 2 + live ?w1\<rparr>)
         else Some (Some (raw_msg ty d), ?w1\<lparr>inbox := i, mallocs := mallocs ?w1 + 2, live := 2 + live ?w1\<rparr>))"
    using recv_exchange [OF ok(1) d pend] by blast
  have u: "uint (word_of_nat (length d) :: u32) = int (length d)"
    using d by (simp add: unsigned_of_nat take_bit_int_eq_self_iff take_bit_nat_eq_self_iff)
  have "send_recv_server e out w = recv_body e buff 5 (length d) w2"
    using wl tk R(1,3) d u unat_u32_of_nat [of "length d"] by (simp add: send_recv_server_def SEC_ENT_MSG_parse_len_from_hdr_buffer_def)
  then show ?thesis using R(4) by (auto simp: Let_def)
qed

lemma sec_ent_process_exchange:
  assumes up: "entity_up e" and ok: "msg_ok m" and len: "length (payload m) < 2 ^ 31 - 5"
    and addr: "0 \<in> set (sec_ent_addr st)" and d: "d \<noteq> []" "length d \<le> 2043"
    and rep: "entity_replies e (conns w) (sec_ent_frame (msg_type m) (payload m)) ty d"
  shows "\<exists>w1. sec_ent_process e st (Some m) w = Some (if ty = 3 then None else Some (raw_msg ty d), w1) \<and>
     requests w1 = requests w @ [sec_ent_frame (msg_type m) (payload m)] \<and>
     errs w1 = (if ty = 3 then SSL_R_UNEXPECTED_MESSAGE # errs w else errs w) \<and> conns w1 = Suc (conns w)"
proof -
  let ?out = "sec_ent_frame (msg_type m) (payload m)" and ?fd = "env_socket e (conns w)"
  define w1 where "w1 = w\<lparr>conns := Suc (conns w), wire := [], inbox := None, open_fds := ?fd # open_fds w\<rparr>"
  obtain a where a: "c_string (sec_ent_addr st) = Some a" using addr by (simp add: c_string_def)
  have E: "0 < ?fd" "env_connect e i p q" "malloc_ok e j n" for i p q j n using up by (simp_all add: entity_up_def)
  have cs: "connect_server e st w = Some (?fd, w1)"
    using a E(1,2) by (simp add: connect_server_def sock_socket_def sock_connect_def w1_def Let_def)
  have l32: "length (payload m) < 2 ^ 32 - 5" using len by simp
  define w2 where "w2 = w1\<lparr>mallocs := Suc (mallocs w1), live := live w1 + 1\<rparr>"
  have t: "unat (msg_len m + 5) = 5 + length (payload m)" using l32 payload_len [OF ok] by (simp add: unat_plus5)
  have al: "OPENSSL_malloc e (unat (msg_len m + 5)) w1 = (True, w2)"
    using OPENSSL_malloc_ok [OF E(3), of "5 + length (payload m)" w1] by (simp add: t w2_def)
  obtain b w2' where sb: "SEC_ENT_MSG_get_send_buffer e (Some m) w1 = Some (b, w2')"
    "case b of None \<Rightarrow> errs w2' = ERR_R_MALLOC_FAILURE # errs w1 | Some x \<Rightarrow> x = ?out"
    using send_buffer_spec [OF ok l32, of e w1] by (fastforce split: option.splits)
  have sb2: "w2' = w2" "b = Some ?out" using sb al
    by (auto simp: SEC_ENT_MSG_get_send_buffer_def Let_def bind_eq_Some_conv split: if_splits option.splits)
  have w2: "wire w2 = []" "inbox w2 = None" "entity_replies e (conns w2 - 1) ?out ty d"
    using rep by (simp_all add: w2_def w1_def)
  have out: "length ?out < 2 ^ 31" using len by simp
  obtain i where sr: "send_recv_server e ?out w2 =
     (let w3 = w2\<lparr>wire := ?out, inbox := i, mallocs := mallocs w2 + 2, live := 2 + live w2\<rparr>
      in if ty = 3 then report_failure e (raw_msg ty d) w3 else Some (Some (raw_msg ty d), w3))"
    using send_recv_exchange [OF up out d w2] by blast
  let ?w3 = "w2\<lparr>wire := ?out, inbox := i, mallocs := mallocs w2 + 2, live := 2 + live w2\<rparr>"
  show ?thesis
  proof (cases "ty = 3")
    case True
    have "msg_ok (raw_msg ty d)" "payload (raw_msg ty d) \<noteq> []" "length (payload (raw_msg ty d)) \<le> 2043" using d by simp_all
    from report_failure_spec [OF this, of e ?w3] obtain w4 where
      rf: "report_failure e (raw_msg ty d) ?w3 = Some (None, w4)" "same_io ?w3 w4"
      "errs w4 = SSL_R_UNEXPECTED_MESSAGE # errs ?w3" by blast
    then show ?thesis using cs sb(1) sb2 sr E(1) True
      by (simp add: sec_ent_process_def Let_def disconnect_server_def sock_close_def same_io_def w2_def w1_def)
  next
    case False
    then show ?thesis using cs sb(1) sb2 sr E(1)
      by (simp add: sec_ent_process_def Let_def disconnect_server_def sock_close_def w2_def w1_def)
  qed
qed

section \<open>Requests as an interface\<close>

text \<open>
  Every caller builds one message, sends it and looks at the reply. What it relies on is the
  contract of the builder: for arguments \<open>x\<close> that are \<open>ok\<close> the message is of type \<open>ty\<close> with
  payload \<open>body x\<close>, or an allocation failed. The two lemmas are what the exchange then gives.
\<close>

locale sec_ent_request =
  fixes build :: "'a \<Rightarrow> env \<Rightarrow> os \<Rightarrow> (SEC_ENT_MSG option \<times> os) option"
    and ty :: u8
    and body :: "'a \<Rightarrow> bytes"
    and ok :: "'a \<Rightarrow> bool"
  assumes build_spec: "ok x \<Longrightarrow> \<exists>r w1. build x e w = Some (r, w1) \<and> msg_built ty (body x) w r w1"
    and build_up: "ok x \<Longrightarrow> (\<And>i n. malloc_ok e i n) \<Longrightarrow> \<exists>m w1. build x e w = Some (Some m, w1)"
    and body_len: "ok x \<Longrightarrow> length (body x) < 2 ^ 31 - 5"
begin

abbreviation req :: "'a \<Rightarrow> bytes" where
  "req x \<equiv> sec_ent_frame ty (body x)"

lemma ask_total:
  assumes "ok x" "0 \<in> set (sec_ent_addr st)"
  obtains (nomem) w1 where "build x e w = Some (None, w1)" "live w1 = live w" "same_io w w1" "errs w1 \<noteq> []"
    | (asked) m w1 r w2 where "build x e w = Some (Some m, w1)" "sec_ent_process e st (Some m) w1 = Some (r, w2)"
      "live w2 - msg_blocks (Some m) = live w + msg_blocks r" "reply_ok r w2" "x509s w2 = x509s w" "x_next w2 = x_next w"
      "env_socket e (conns w) \<noteq> 0 \<longrightarrow> open_fds w2 = open_fds w"
      "\<And>m1. r = Some m1 \<Longrightarrow> \<exists>rest. concat (env_peer e (conns w) (req x)) = sec_ent_frame (msg_type m1) (payload m1) @ rest"
      "\<And>m1. r = Some m1 \<Longrightarrow> env_socket e (conns w) \<noteq> 0 \<Longrightarrow> requests w2 = requests w @ [req x]"
proof -
  obtain r0 w1 where b: "build x e w = Some (r0, w1)" "msg_built ty (body x) w r0 w1"
    using build_spec [OF assms(1)] by blast
  show ?thesis
  proof (cases r0)
    case None
    then show ?thesis using b by (intro nomem [of w1]) (simp_all add: msg_built_def msg_blocks_def)
  next
    case (Some m)
    then have m: "msg_ok m" "msg_type m = ty" "payload m = body x" "same_io w w1" "live w1 = live w + msg_blocks (Some m)"
      using b by (simp_all add: msg_built_def)
    have "length (payload m) < 2 ^ 31 - 5" using m body_len [OF assms(1)] by simp
    from sec_ent_process_total [OF m(1) this assms(2), of e w1] obtain r w2
      where P: "sec_ent_process e st (Some m) w1 = Some (r, w2)" "request_done e m w1 r w2" by blast
    show ?thesis
      using b(1) Some P(1) P(2) m by (intro asked [of m w1 r w2]) (auto simp: request_done_def same_io_def)
  qed
qed

lemma ask_up:
  assumes "entity_up e" "ok x" "0 \<in> set (sec_ent_addr st)" "entity_replies e (conns w) (req x) ty1 d"
    "d \<noteq> []" "length d \<le> 2043"
  obtains m w1 w2 where "build x e w = Some (Some m, w1)"
    "sec_ent_process e st (Some m) w1 = Some (if ty1 = 3 then None else Some (raw_msg ty1 d), w2)"
    "requests w2 = requests w @ [req x]" "errs w2 = (if ty1 = 3 then SSL_R_UNEXPECTED_MESSAGE # errs w else errs w)"
    "x509s w2 = x509s w" "conns w2 = Suc (conns w)"
proof -
  have "\<And>i n. malloc_ok e i n" using assms(1) by (simp add: entity_up_def)
  then obtain m w1 where b: "build x e w = Some (Some m, w1)" using build_up [OF assms(2)] by blast
  then have m: "msg_ok m" "msg_type m = ty" "payload m = body x" "same_io w w1" "errs w1 = errs w"
    using build_spec [OF assms(2), of e w] by (auto simp: msg_built_def)
  have len: "length (payload m) < 2 ^ 31 - 5" using m body_len [OF assms(2)] by simp
  have rep: "entity_replies e (conns w1) (sec_ent_frame (msg_type m) (payload m)) ty1 d"
    using assms(4) m by (simp add: same_io_def)
  from sec_ent_process_exchange [OF assms(1) m(1) len assms(3,5,6) rep] obtain w2 where
    P: "sec_ent_process e st (Some m) w1 = Some (if ty1 = 3 then None else Some (raw_msg ty1 d), w2)"
    "requests w2 = requests w1 @ [req x]" "errs w2 = (if ty1 = 3 then SSL_R_UNEXPECTED_MESSAGE # errs w1 else errs w1)"
    "conns w2 = Suc (conns w1)"
    using m by auto
  have "x509s w2 = x509s w1"
    using sec_ent_process_total [OF m(1) len assms(3), of e w1] P(1) by (auto simp: request_done_def)
  then show ?thesis using that [OF b P(1)] P m by (simp add: same_io_def)
qed

end

lemma allocate_up:
  assumes "\<And>i n. malloc_ok e i n" "n < 2 ^ 32"
  shows "\<exists>w1. SEC_ENT_MSG_new_from_type_allocate e ty n w = (Some (raw_msg ty (replicate n 0)), w1)"
  using assms(1) word_of_nat_zero_iff [OF assms(2)]
  by (cases "n = 0") (simp_all add: SEC_ENT_MSG_new_from_type_allocate_def OPENSSL_malloc_ok raw_msg_def)

text \<open>A builder that succeeds and was handed a message by the allocator returns one.\<close>

lemma buffer_up:
  assumes "\<And>i n. malloc_ok e i n" "length d < 2 ^ 32"
  shows "\<exists>m w1. SEC_ENT_MSG_new_from_type_buffer e ty d w = Some (Some m, w1)"
proof -
  obtain r w1 where "SEC_ENT_MSG_new_from_type_buffer e ty d w = Some (r, w1)"
    using new_from_type_buffer_spec [OF assms(2)] by blast
  moreover have "r \<noteq> None" using allocate_up [OF assms, of ty w] calculation
    by (auto simp: SEC_ENT_MSG_new_from_type_buffer_def bind_eq_Some_conv split: if_splits)
  ultimately show ?thesis by blast
qed

interpretation verify_certs: sec_ent_request "\<lambda>d e w. SEC_ENT_MSG_new_TYPE_TLS_VERIFY_CERTS e d w"
  SEC_ENT_MSG_TYPE_TLS_VERIFY_CERTS "\<lambda>d. d" "\<lambda>d. length d < 2 ^ 31 - 5"
proof unfold_locales
  show "\<exists>r w1. SEC_ENT_MSG_new_TYPE_TLS_VERIFY_CERTS e d w = Some (r, w1) \<and> msg_built 18 d w r w1"
    if "length d < 2 ^ 31 - 5" for d e w
    using new_from_type_buffer_spec [of d e 18 w] that by (simp add: SEC_ENT_MSG_new_TYPE_TLS_VERIFY_CERTS_def)
  show "\<exists>m w1. SEC_ENT_MSG_new_TYPE_TLS_VERIFY_CERTS e d w = Some (Some m, w1)"
    if "length d < 2 ^ 31 - 5" "\<And>i n. malloc_ok e i n" for d e w
    using buffer_up [of e d 18 w] that by (simp add: SEC_ENT_MSG_new_TYPE_TLS_VERIFY_CERTS_def)
qed

interpretation sign_data: sec_ent_request "\<lambda>(psid, hid, input) e w. SEC_ENT_MSG_new_TYPE_TLS_SIGN_DATA e psid hid input w"
  SEC_ENT_MSG_TYPE_TLS_SIGN_DATA "\<lambda>(psid, hid, input). be_bytes 8 (unat psid) @ hid @ input"
  "\<lambda>(psid, hid, input). length hid = 8 \<and> length input < 2 ^ 31 - 21"
proof (unfold_locales; clarify)
  show "\<exists>r w1. SEC_ENT_MSG_new_TYPE_TLS_SIGN_DATA e psid hid input w = Some (r, w1) \<and>
      msg_built 19 (be_bytes 8 (unat psid) @ hid @ input) w r w1"
    if "length hid = 8" "length input < 2 ^ 31 - 21" for e w psid hid input
    using sign_data_spec [of hid input e psid w] that by simp
  show "\<exists>m w1. SEC_ENT_MSG_new_TYPE_TLS_SIGN_DATA e psid hid input w = Some (Some m, w1)"
    if "length hid = 8" "length input < 2 ^ 31 - 21" "\<And>i n. malloc_ok e i n" for e w psid hid input
  proof -
    note T = that
    obtain r w1 where r: "SEC_ENT_MSG_new_TYPE_TLS_SIGN_DATA e psid hid input w = Some (r, w1)"
      using sign_data_spec [of hid input e psid w] T by auto
    moreover have "r \<noteq> None" using allocate_up [OF T(3), of "16 + length input" 19 w] T(2) r
      by (auto simp: SEC_ENT_MSG_new_TYPE_TLS_SIGN_DATA_def bind_eq_Some_conv)
    ultimately show ?thesis by blast
  qed
qed simp

interpretation verify_data: sec_ent_request
  "\<lambda>(hid, vdata, vinput) e w. SEC_ENT_MSG_new_TYPE_TLS_VERIFY_DATA e hid vdata vinput w"
  SEC_ENT_MSG_TYPE_TLS_VERIFY_DATA "\<lambda>(hid, vdata, vinput). hid @ vdata @ vinput"
  "\<lambda>(hid, vdata, vinput). length hid = 8 \<and> length vdata + length vinput < 2 ^ 31 - 13"
proof (unfold_locales; clarify)
  show "\<exists>r w1. SEC_ENT_MSG_new_TYPE_TLS_VERIFY_DATA e hid vdata vinput w = Some (r, w1) \<and>
      msg_built 20 (hid @ vdata @ vinput) w r w1"
    if "length hid = 8" "length vdata + length vinput < 2 ^ 31 - 13" for e w hid vdata vinput
    using verify_data_spec [of hid vdata vinput e w] that by simp
  show "\<exists>m w1. SEC_ENT_MSG_new_TYPE_TLS_VERIFY_DATA e hid vdata vinput w = Some (Some m, w1)"
    if "length hid = 8" "length vdata + length vinput < 2 ^ 31 - 13" "\<And>i n. malloc_ok e i n" for e w hid vdata vinput
  proof -
    note T = that
    obtain r w1 where r: "SEC_ENT_MSG_new_TYPE_TLS_VERIFY_DATA e hid vdata vinput w = Some (r, w1)"
      using verify_data_spec [of hid vdata vinput e w] T by auto
    moreover have "r \<noteq> None" using allocate_up [OF T(3), of "8 + length vdata + length vinput" 20 w] T(2) r
      by (auto simp: SEC_ENT_MSG_new_TYPE_TLS_VERIFY_DATA_def bind_eq_Some_conv)
    ultimately show ?thesis by blast
  qed
qed simp

interpretation get_cert: sec_ent_request "\<lambda>hid e w. SEC_ENT_MSG_new_TYPE_GET_CERT e hid w"
  SEC_ENT_MSG_TYPE_GET_CERT "\<lambda>hid. hid @ [0]" "\<lambda>hid. length hid = 8"
proof unfold_locales
  show "\<exists>r w1. SEC_ENT_MSG_new_TYPE_GET_CERT e hid w = Some (r, w1) \<and> msg_built 8 (hid @ [0]) w r w1"
    if "length hid = 8" for hid e w
    using new_from_type_buffer_spec [of "hid @ [0]" e 8 w] that
    by (simp add: SEC_ENT_MSG_new_TYPE_GET_CERT_def read_at_def)
  show "\<exists>m w1. SEC_ENT_MSG_new_TYPE_GET_CERT e hid w = Some (Some m, w1)"
    if "length hid = 8" "\<And>i n. malloc_ok e i n" for hid e w
    using buffer_up [of e "hid @ [0]" 8 w] that by (simp add: SEC_ENT_MSG_new_TYPE_GET_CERT_def read_at_def)
qed simp

interpretation get_at: sec_ent_request "\<lambda>_::unit. SEC_ENT_MSG_new_TYPE_GET_AT_CERT"
  SEC_ENT_MSG_TYPE_GET_AT "\<lambda>_. []" "\<lambda>_. True"
proof unfold_locales
  show "\<exists>r w1. SEC_ENT_MSG_new_TYPE_GET_AT_CERT e w = Some (r, w1) \<and> msg_built 22 [] w r w1" for e w
    using new_from_type_buffer_spec [of "[]" e 22 w] by (simp add: SEC_ENT_MSG_new_TYPE_GET_AT_CERT_def)
  show "\<exists>m w1. SEC_ENT_MSG_new_TYPE_GET_AT_CERT e w = Some (Some m, w1)" if "\<And>i n. malloc_ok e i n" for e w
    using buffer_up [of e "[]" 22 w] that by (simp add: SEC_ENT_MSG_new_TYPE_GET_AT_CERT_def)
qed simp

end
