(* ===== verification/Ieee1609_Tables.thy ===== *)
theory Ieee1609_Tables
  imports Iso_Prelude
begin

text \<open>
  The byte tables of \<^verbatim>\<open>ssl/ieee1609dot2.c\<close>: the RSA key and the X.509 certificate that stand in
  for an IEEE 1609.2 certificate inside the X.509 machinery, and the test certificate with its
  HashedId8; the lengths declared next to them are those of the tables, so the decoders that get
  table and length never read past a table.
\<close>

definition key_der_0 :: bytes where
  "key_der_0 = [
     0x30, 0x82, 0x09, 0x2b, 0x02, 0x01, 0x00, 0x02, 0x82, 0x02, 0x01, 0x00, 0xc2, 0x68, 0xbc, 0x46,
     0xa0, 0x21, 0xb6, 0x44, 0xd0, 0x52, 0x2b, 0xa4, 0xb4, 0x40, 0xc2, 0xd9, 0x0e, 0xf6, 0xfa, 0x89,
     0x32, 0x47, 0x2e, 0x85, 0xd4, 0x8c, 0x49, 0x40, 0xd9, 0x2c, 0x06, 0x7a, 0xf3, 0x8b, 0x35, 0x9b,
     0x70, 0x8d, 0xd1, 0xf7, 0x89, 0x28, 0x9b, 0xb1, 0x71, 0x63, 0xe3, 0x21, 0xae, 0x3c, 0x3b, 0xef,
     0x17, 0xb8, 0x7e, 0x73, 0x76, 0x8c, 0xf0, 0x20, 0x23, 0xb4, 0x2b, 0x96, 0x09, 0xda, 0x9f, 0xec,
     0xaf, 0x56, 0x79, 0x29, 0x49, 0xe6, 0xed, 0x2f, 0x95, 0x18, 0xc5, 0xfe, 0x01, 0xef, 0xa7, 0x36,
     0x8e, 0xda, 0x13, 0xe2, 0x60, 0x14, 0x5d, 0x25, 0xff, 0x86, 0x0e, 0x59, 0x17, 0x42, 0xd2, 0x9f,
     0xcc, 0x6d, 0xc6, 0xb0, 0x03, 0xb7, 0xc7, 0x78, 0x1d, 0x5b, 0x94, 0x5d, 0x94, 0xd5, 0xa8, 0x02,
     0x6b, 0x25, 0x7d, 0xd5, 0xc6, 0x92, 0x78, 0x49, 0xe6, 0xaa, 0x6d, 0x84, 0xf7, 0xbe, 0xca, 0x1f,
     0x1b, 0x57, 0x75, 0x32, 0x8b, 0x3c, 0x17, 0xb8, 0xc9, 0x72, 0x59, 0x17, 0xa5, 0x1d, 0x29, 0x53,
     0xdf, 0x9e, 0x82, 0xc7, 0xbc, 0x3a, 0x17, 0x74, 0x26, 0x35, 0xc2, 0x52, 0x92, 0x11, 0x41, 0x25,
     0x65, 0xe6, 0x86, 0x53, 0x2a, 0xbe, 0x6c, 0x5c, 0xa9, 0xa6, 0x98, 0xfc, 0xc9, 0xdf, 0x03, 0xb1]"

definition key_der_1 :: bytes where
  "key_der_1 = [
     0x53, 0xc4, 0x02, 0x44, 0xf3, 0x65, 0x6b, 0xa0, 0x07, 0x9b, 0x31, 0x31, 0x14, 0xf6, 0x59, 0x80,
     0x1f, 0xa6, 0x4f, 0xf6, 0x2e, 0x0a, 0x08, 0xbd, 0x39, 0x5b, 0xb4, 0xcb, 0xee, 0x6a, 0x45, 0xe8,
     0x09, 0x01, 0x10, 0xcc, 0x35, 0xdc, 0x87, 0xaf, 0x15, 0xf2, 0xd8, 0x59, 0xee, 0x9c, 0x39, 0x13,
     0x72, 0xed, 0x5b, 0xcd, 0xc8, 0xb0, 0xd7, 0x42, 0x7e, 0xc2, 0x57, 0x31, 0x42, 0xba, 0xe9, 0x57,
     0x40, 0x43, 0x1a, 0x7e, 0x6b, 0x74, 0x22, 0x9b, 0xf3, 0x04, 0xe2, 0xdb, 0xe7, 0xcb, 0x7c, 0x3d,
     0x9a, 0x3a, 0x90, 0x9c, 0x58, 0x81, 0xc9, 0x2f, 0xbe, 0x3a, 0xea, 0x24, 0x70, 0x29, 0x8f, 0xff,
     0x97, 0x0f, 0x89, 0xd0, 0x9e, 0x8f, 0xc9, 0x5e, 0xd7, 0x2f, 0x0a, 0x8d, 0x67, 0x38, 0xf4, 0x93,
     0xac, 0xe2, 0x2d, 0xcc, 0xf9, 0x6f, 0x15, 0x37, 0xcf, 0xa2, 0xe5, 0x23, 0x24, 0x7d, 0xcc, 0xf0,
     0x42, 0x34, 0xa0, 0xcd, 0x4f, 0xdd, 0x6b, 0xd8, 0x83, 0xd3, 0xb1, 0xe3, 0xf0, 0xe5, 0xcd, 0x29,
     0x95, 0x71, 0x08, 0x46, 0x49, 0x9e, 0x22, 0x11, 0x76, 0xe4, 0xa3, 0x0e, 0x50, 0x13, 0x50, 0x64,
     0xc7, 0xd8, 0xdd, 0x2c, 0x7c, 0xc6, 0x6b, 0x94, 0x5b, 0x36, 0x0a, 0xac, 0xb1, 0x65, 0x77, 0x93,
     0x0a, 0x09, 0x44, 0x92, 0x94, 0x6c, 0x4d, 0x8d, 0xa9, 0x18, 0x70, 0x0f, 0xfc, 0x5a, 0x3b, 0x63]"

definition key_der_2 :: bytes where
  "key_der_2 = [
     0x2d, 0xcd, 0xf4, 0xc8, 0x07, 0x89, 0x87, 0x5e, 0x3e, 0x68, 0x7a, 0x59, 0xf6, 0xfc, 0x7e, 0xf7,
     0xa5, 0x3c, 0x02, 0xd7, 0xc8, 0xa4, 0xb6, 0x76, 0x55, 0xa5, 0xc6, 0x18, 0x6b, 0xc0, 0xa6, 0x25,
     0x90, 0xb4, 0xa0, 0x9d, 0x1a, 0x54, 0xa4, 0x1a, 0xab, 0x26, 0xad, 0x1b, 0x9e, 0x9a, 0x34, 0xc8,
     0x1a, 0xe6, 0x2e, 0x4b, 0x46, 0x28, 0x28, 0x4c, 0x60, 0xe5, 0x9b, 0x02, 0xa1, 0x3c, 0x21, 0xd2,
     0x81, 0x12, 0x3e, 0xd8, 0xf5, 0x27, 0xfb, 0x5b, 0x03, 0x67, 0x4c, 0xa6, 0x33, 0xc8, 0x63, 0x5f,
     0x8b, 0x60, 0x31, 0xaf, 0x4b, 0x49, 0x7e, 0x66, 0x0d, 0xfa, 0x7c, 0xe6, 0xfa, 0xf5, 0x9a, 0xf0,
     0x13, 0x5a, 0x7a, 0x22, 0xb7, 0xa7, 0x71, 0x84, 0x96, 0xf4, 0x90, 0x9a, 0x6d, 0x7d, 0xf8, 0xe6,
     0xc3, 0x64, 0xee, 0x93, 0x8f, 0x06, 0x8e, 0x5a, 0x0a, 0x03, 0xa5, 0xd7, 0x3f, 0xe4, 0x6b, 0x93,
     0x0d, 0xa0, 0x82, 0xbd, 0x9b, 0x67, 0x70, 0xf1, 0x3d, 0xa1, 0x41, 0x8b, 0x02, 0x03, 0x01, 0x00,
     0x01, 0x02, 0x82, 0x02, 0x01, 0x00, 0xaa, 0x9f, 0x1d, 0x4e, 0xa6, 0xcf, 0xaf, 0x96, 0x69, 0x77,
     0x14, 0x92, 0xb3, 0x18, 0x7b, 0x69, 0xe1, 0x36, 0x65, 0xdf, 0xef, 0x5e, 0x85, 0xb8, 0x33, 0x39,
     0x04, 0x39, 0x83, 0xe0, 0x9d, 0xb7, 0x5e, 0xf3, 0xf8, 0x92, 0x79, 0x90, 0x1e, 0x8d, 0x2f, 0xb5]"

definition key_der_3 :: bytes where
  "key_der_3 = [
     0x92, 0x1f, 0x83, 0xb2, 0xf4, 0xee, 0xe4, 0x6a, 0x3c, 0xf7, 0xb4, 0x4b, 0xd9, 0xbf, 0x20, 0x76,
     0xc5, 0x70, 0x8f, 0xa5, 0x5a, 0xf3, 0x8d, 0xa6, 0x70, 0xe1, 0x5b, 0x69, 0x7b, 0x60, 0xff, 0x59,
     0x4b, 0x25, 0x8d, 0xa7, 0x76, 0x6d, 0x5d, 0xe9, 0xa5, 0x49, 0xbe, 0xca, 0x2a, 0xd5, 0x6d, 0x19,
     0xb2, 0x3e, 0xdd, 0x2a, 0x1c, 0x81, 0x98, 0x66, 0xaf, 0x50, 0x4c, 0x2c, 0xb4, 0x4a, 0x5a, 0x98,
     0xfa, 0xd9, 0xb2, 0x7a, 0x63, 0x96, 0x56, 0x3f, 0xc5, 0xfa, 0x89, 0x6b, 0x18, 0x2b, 0x7c, 0xe1,
     0xa3, 0xec, 0xc8, 0x23, 0x1f, 0x87, 0xa9, 0x9f, 0xaa, 0xe8, 0xee, 0x28, 0x2d, 0xd5, 0xb4, 0x59,
     0x83, 0x40, 0x4c, 0x9c, 0xad, 0x10, 0x91, 0x7b, 0x2c, 0x80, 0x4e, 0x2c, 0x61, 0xff, 0x46, 0x75,
     0x7d, 0x8c, 0x14, 0xd4, 0xed, 0xbd, 0x66, 0x30, 0xfa, 0x8a, 0x06, 0x0a, 0xf2, 0x2d, 0x1f, 0xc0,
     0x8c, 0x7e, 0x2e, 0xee, 0xe6, 0x2a, 0x46, 0x4a, 0x12, 0x85, 0x99, 0x4c, 0xd7, 0xe9, 0x07, 0xed,
     0x25, 0x2e, 0x08, 0x3e, 0xee, 0x47, 0x73, 0x6c, 0x5a, 0x54, 0x96, 0x72, 0x72, 0x8f, 0x4f, 0x0c,
     0xc3, 0x6a, 0xbf, 0x62, 0x7b, 0x24, 0xd8, 0x14, 0x31, 0x52, 0x5a, 0x44, 0xb3, 0x27, 0x66, 0xc6,
     0x2b, 0xd7, 0x40, 0x5e, 0x27, 0xff, 0x95, 0xe9, 0x4a, 0x36, 0x85, 0x91, 0x48, 0x17, 0x2d, 0x61]"

definition key_der_4 :: bytes where
  "key_der_4 = [
     0xf7, 0x2a, 0x86, 0xf1, 0xad, 0x70, 0xb0, 0x6e, 0x36, 0xc8, 0xba, 0xbf, 0xaa, 0x0a, 0xf5, 0xe7,
     0xb1, 0x50, 0x49, 0x53, 0x2a, 0x7d, 0xe9, 0xf7, 0x5f, 0x3a, 0x93, 0xbf, 0x7a, 0xdf, 0x04, 0xf7,
     0x27, 0xa0, 0xbe, 0x80, 0x3d, 0x04, 0x4c, 0xc2, 0x28, 0xa4, 0x83, 0x23, 0x10, 0x56, 0x9a, 0x1e,
     0xb6, 0x58, 0xe7, 0x02, 0xe3, 0x36, 0xf2, 0xd3, 0xd2, 0x08, 0x31, 0x37, 0x32, 0x48, 0x90, 0xc9,
     0x1f, 0xb2, 0x68, 0xad, 0xbb, 0x59, 0xb1, 0x43, 0x80, 0x94, 0x3d, 0xfa, 0x46, 0x10, 0xcd, 0x7e,
     0xbe, 0xc8, 0x6c, 0x99, 0xd8, 0x86, 0xff, 0x61, 0x9b, 0x27, 0xaf, 0x96, 0x1f, 0x1f, 0x28, 0xdb,
     0xeb, 0xfa, 0xf6, 0x89, 0x90, 0x09, 0x96, 0xcb, 0xbc, 0xc2, 0x4f, 0x95, 0xf9, 0xb8, 0x23, 0xdf,
     0xb7, 0x3d, 0x5b, 0xdb, 0x6d, 0xb4, 0x67, 0x74, 0x9c, 0x7e, 0xaf, 0x1b, 0x8c, 0xe5, 0x10, 0x4a,
     0xf1, 0xa2, 0xcb, 0x5e, 0x59, 0xef, 0x45, 0xd2, 0x27, 0xdd, 0x54, 0x92, 0x85, 0x99, 0xe1, 0xd6,
     0x04, 0x0f, 0xe0, 0xde, 0x1c, 0xb9, 0x3e, 0x49, 0xea, 0x5c, 0xda, 0x09, 0x2b, 0x70, 0x1f, 0x2f,
     0xec, 0x40, 0x6a, 0xd4, 0x98, 0x21, 0x8b, 0x18, 0xa4, 0x37, 0x1f, 0x6a, 0xa3, 0x42, 0x92, 0x79,
     0x19, 0x23, 0x03, 0x63, 0xee, 0x25, 0x69, 0x7c, 0x2f, 0xe4, 0xda, 0xc7, 0xd5, 0x14, 0x1e, 0x39]"

definition key_der_5 :: bytes where
  "key_der_5 = [
     0x51, 0x25, 0xea, 0x1a, 0x22, 0xd6, 0x88, 0xb9, 0xc3, 0x0c, 0xe4, 0x44, 0x70, 0x5f, 0x6f, 0xe5,
     0x20, 0xb5, 0xc3, 0x3a, 0x74, 0x70, 0xe2, 0x9a, 0x4e, 0xa0, 0x31, 0x75, 0x5e, 0x23, 0xe4, 0xdf,
     0xe4, 0xce, 0xae, 0x24, 0xc9, 0x11, 0x51, 0x81, 0xcc, 0x2f, 0x80, 0x9b, 0x90, 0x9e, 0x38, 0x86,
     0xed, 0xc5, 0xeb, 0x90, 0x2d, 0x50, 0xf0, 0x71, 0x72, 0xa1, 0xaf, 0x29, 0x42, 0xab, 0xcf, 0x33,
     0xd5, 0x7d, 0x71, 0x05, 0x86, 0x80, 0x6d, 0x6b, 0x40, 0xa7, 0x38, 0x73, 0xc1, 0x09, 0x75, 0x16,
     0x01, 0x14, 0xf1, 0x8f, 0x45, 0x71, 0x02, 0x82, 0x01, 0x01, 0x00, 0xe7, 0x04, 0xa1, 0xe5, 0x4c,
     0x99, 0xb2, 0xb6, 0xaa, 0xbf, 0xb1, 0x57, 0x5b, 0x20, 0xe3, 0xa4, 0xa7, 0x60, 0x7a, 0xd8, 0x5d,
     0xa8, 0x93, 0xa3, 0xd2, 0xaa, 0x24, 0xa7, 0x2a, 0x31, 0x4f, 0x58, 0xea, 0xe3, 0x22, 0x5e, 0x66,
     0xf2, 0xfe, 0x80, 0xa5, 0x3c, 0x24, 0xd6, 0x0b, 0x11, 0x12, 0x02, 0x41, 0x46, 0x0e, 0x1a, 0x84,
     0x85, 0x06, 0xe6, 0x89, 0x14, 0xaa, 0xff, 0xbe, 0x34, 0x4e, 0x30, 0x34, 0x2d, 0xc9, 0x92, 0x19,
     0x19, 0x7f, 0xc5, 0x75, 0xbf, 0xb5, 0x1d, 0x40, 0x5e, 0x2b, 0x89, 0xe9, 0x73, 0x3f, 0x9f, 0x88,
     0xf0, 0x97, 0x64, 0xfb, 0xdb, 0x84, 0xdf, 0x18, 0xc2, 0xad, 0x61, 0x07, 0xa0, 0xa0, 0x32, 0x70]"

definition key_der_6 :: bytes where
  "key_der_6 = [
     0x1d, 0x91, 0xa0, 0xc7, 0xd9, 0xd7, 0xc9, 0xcc, 0x90, 0x2f, 0xbd, 0x0f, 0x1f, 0x2d, 0x62, 0x9b,
     0x2c, 0x37, 0x4b, 0xe1, 0x3b, 0x4a, 0xe6, 0x27, 0xc0, 0x7d, 0x2e, 0x60, 0x78, 0x43, 0xbb, 0x20,
     0x72, 0x5b, 0x3b, 0xc9, 0x7b, 0x3f, 0x38, 0x15, 0x80, 0xec, 0x1b, 0xf7, 0x40, 0x22, 0x00, 0x48,
     0xfe, 0x34, 0x9e, 0x71, 0x57, 0x24, 0xba, 0xec, 0x58, 0xad, 0xb0, 0x9a, 0xd4, 0x5a, 0x2f, 0x89,
     0x47, 0x19, 0x6a, 0x6d, 0x0d, 0x1e, 0x30, 0x5f, 0x74, 0x03, 0xee, 0x38, 0xfe, 0x7d, 0x12, 0x77,
     0xd9, 0x54, 0x80, 0x60, 0x82, 0x63, 0xcf, 0x77, 0x46, 0x77, 0x30, 0xa6, 0x7c, 0xe9, 0x8b, 0x80,
     0x46, 0xe7, 0xdc, 0xfa, 0x75, 0x5f, 0xa7, 0xac, 0x00, 0x18, 0xba, 0xed, 0xe9, 0xb4, 0xa3, 0xf5,
     0x48, 0x4a, 0x77, 0x61, 0x1d, 0xa3, 0x27, 0x29, 0x42, 0x56, 0xb3, 0xf7, 0xf1, 0x68, 0x5f, 0x9d,
     0x9b, 0x74, 0x73, 0xce, 0x4d, 0x17, 0x30, 0x11, 0xff, 0x55, 0x97, 0x29, 0x23, 0x69, 0x9f, 0x27,
     0x89, 0xd9, 0x4e, 0x78, 0xc0, 0xe9, 0x9b, 0x3d, 0x07, 0x7a, 0x4d, 0x02, 0x82, 0x01, 0x01, 0x00,
     0xd7, 0x6e, 0xa4, 0x5b, 0x70, 0xee, 0x85, 0x70, 0xad, 0x66, 0xbe, 0x20, 0x7a, 0xf4, 0x16, 0xcd,
     0xee, 0x9f, 0xbc, 0xcf, 0xa6, 0xd2, 0x73, 0x47, 0x6d, 0x8b, 0x25, 0xe8, 0x55, 0xa4, 0x1b, 0xfe]"

definition key_der_7 :: bytes where
  "key_der_7 = [
     0x0f, 0xb4, 0xc0, 0xa0, 0xa1, 0x1d, 0xa0, 0x5d, 0xe9, 0xe3, 0x96, 0x9c, 0x9b, 0x01, 0xf2, 0xdb,
     0x2f, 0x84, 0x41, 0x4c, 0x1e, 0xce, 0xff, 0x2d, 0xbb, 0x98, 0xd1, 0x31, 0x98, 0x30, 0x16, 0x95,
     0x88, 0xdb, 0x0a, 0x0e, 0xb3, 0x76, 0x14, 0x89, 0x71, 0xc4, 0xd2, 0x2b, 0x6f, 0x9b, 0xcf, 0x6c,
     0x83, 0xa7, 0xff, 0xb0, 0x2c, 0x98, 0x74, 0x93, 0x05, 0x94, 0x04, 0x5a, 0xb7, 0x87, 0x84, 0xff,
     0x4c, 0xe7, 0x3e, 0xfe, 0xa1, 0xe7, 0x83, 0xe7, 0xec, 0x07, 0xba, 0xc0, 0xdb, 0x6e, 0xa7, 0x4a,
     0x3b, 0x1f, 0x33, 0xff, 0x13, 0x4b, 0xad, 0xda, 0x1d, 0xf4, 0xd6, 0x99, 0xa0, 0x1d, 0x39, 0x6d,
     0x84, 0x6e, 0xab, 0x3d, 0xc7, 0xec, 0x56, 0x69, 0x97, 0xe2, 0xc7, 0xef, 0x2e, 0x9c, 0xbe, 0x0b,
     0x25, 0x66, 0xe4, 0x44, 0x07, 0x1b, 0x2a, 0xad, 0xba, 0x72, 0x99, 0x6d, 0xaa, 0x3f, 0x2c, 0x9a,
     0xf3, 0x87, 0x80, 0x4f, 0xcb, 0xaa, 0x59, 0xff, 0xc8, 0xba, 0xb1, 0x18, 0xe2, 0x70, 0x79, 0x28,
     0x99, 0x0e, 0x3e, 0x65, 0xa7, 0x11, 0x5a, 0xa1, 0x80, 0x44, 0xc6, 0xa1, 0x62, 0x18, 0x18, 0x0e,
     0x01, 0x1b, 0x94, 0x7c, 0x7a, 0x73, 0x4b, 0x38, 0xed, 0xac, 0xcf, 0xed, 0x3c, 0x7e, 0xf9, 0x83,
     0x5a, 0xdb, 0xe5, 0x14, 0xb8, 0x32, 0x62, 0xf8, 0x4e, 0x03, 0xaf, 0x59, 0x1f, 0x83, 0x6a, 0xf8]"

definition key_der_8 :: bytes where
  "key_der_8 = [
     0x35, 0xbf, 0xf7, 0x5f, 0x1b, 0xfb, 0x71, 0x37, 0xbb, 0xf4, 0x6f, 0x6c, 0x3d, 0x18, 0xf9, 0xe3,
     0x3a, 0x67, 0xf7, 0x09, 0x8d, 0x26, 0x10, 0x56, 0xf5, 0x4a, 0x61, 0x02, 0xb0, 0x95, 0x67, 0x37,
     0x02, 0x82, 0x01, 0x01, 0x00, 0x9c, 0x15, 0x66, 0x28, 0xdd, 0x8b, 0x4e, 0xd2, 0xda, 0x24, 0xaf,
     0xf6, 0x1c, 0x8c, 0xe9, 0x21, 0x5b, 0x30, 0xf5, 0x6e, 0xf0, 0x40, 0xb0, 0x97, 0xd4, 0x02, 0xbe,
     0xc6, 0xee, 0xdb, 0xe8, 0x07, 0x64, 0x93, 0xd7, 0xa9, 0xbe, 0x96, 0xd8, 0xdb, 0x24, 0x48, 0xb1,
     0x7e, 0xa8, 0x75, 0x7d, 0x1c, 0x66, 0xeb, 0xa5, 0x25, 0xc7, 0x79, 0x75, 0x83, 0x17, 0x05, 0x0e,
     0xcf, 0xc1, 0xbb, 0xe7, 0x43, 0xec, 0x4d, 0x2f, 0x4e, 0x75, 0x84, 0xe3, 0xee, 0x0e, 0xb3, 0x5a,
     0xf4, 0x0b, 0x84, 0x54, 0x98, 0x56, 0x51, 0x56, 0xa0, 0x3c, 0x4e, 0x89, 0x8b, 0x62, 0x1b, 0x1b,
     0xf7, 0xfb, 0xeb, 0xb4, 0x66, 0xc5, 0x57, 0x82, 0x44, 0xf1, 0xb9, 0x18, 0xa6, 0x6f, 0xc0, 0xc0,
     0x6a, 0x08, 0xbb, 0x36, 0x75, 0xdf, 0x1c, 0xaa, 0x76, 0x5f, 0xef, 0x0c, 0xe1, 0x48, 0xa8, 0xdd,
     0xdf, 0x08, 0xe6, 0xa5, 0xed, 0x4a, 0xa2, 0x96, 0xe8, 0x7c, 0x70, 0xa7, 0x31, 0x8a, 0xdc, 0xa9,
     0x87, 0x04, 0x08, 0x59, 0xfe, 0x3f, 0x1c, 0x66, 0x9c, 0x98, 0xb4, 0x9f, 0xea, 0x99, 0x1b, 0x4e]"

definition key_der_9 :: bytes where
  "key_der_9 = [
     0xa6, 0xb8, 0x7e, 0xe5, 0xc3, 0x57, 0xa8, 0xb7, 0xd2, 0x3c, 0x46, 0xfc, 0x66, 0x0a, 0x8d, 0xfd,
     0x62, 0xa3, 0x6b, 0x68, 0x28, 0x70, 0xfb, 0x88, 0x97, 0x8c, 0xc0, 0x1a, 0xb6, 0xad, 0xfe, 0x0a,
     0xdf, 0xa6, 0x6f, 0xc6, 0xa1, 0xe9, 0x2a, 0xa6, 0x44, 0x69, 0x83, 0xfe, 0xae, 0x2f, 0xce, 0x53,
     0xb5, 0x9e, 0xa1, 0x66, 0x14, 0x0e, 0x20, 0x83, 0xba, 0xef, 0x43, 0x4b, 0x84, 0xc2, 0xe9, 0xda,
     0x4c, 0xe0, 0x34, 0x81, 0x0e, 0x11, 0x2c, 0x5a, 0xdf, 0x97, 0x45, 0xeb, 0xf5, 0x3e, 0x62, 0x99,
     0x93, 0x11, 0xe5, 0xd8, 0xf7, 0x4b, 0x85, 0x30, 0x9c, 0xa6, 0x83, 0x1d, 0x7e, 0x46, 0x59, 0xd8,
     0xbb, 0xd9, 0x0d, 0x0f, 0x55, 0x02, 0x82, 0x01, 0x01, 0x00, 0x88, 0x2b, 0xee, 0x85, 0xc2, 0x27,
     0x72, 0x7f, 0x5b, 0x8b, 0xd2, 0xe7, 0xd2, 0xf0, 0x10, 0xae, 0x10, 0x84, 0x35, 0xa3, 0x87, 0xce,
     0x04, 0x82, 0x04, 0xb2, 0xec, 0xbe, 0x23, 0xcb, 0xfc, 0xc9, 0xa5, 0x81, 0xda, 0x34, 0x6e, 0x42,
     0xbc, 0xc8, 0x3f, 0xfb, 0xd4, 0x8a, 0x9e, 0xcc, 0x27, 0x86, 0xf6, 0x4d, 0x01, 0xbd, 0x2c, 0xc8,
     0x28, 0xb1, 0xee, 0x9f, 0x54, 0xb3, 0xa5, 0x7f, 0xd7, 0xf6, 0xa3, 0x2f, 0xd8, 0xf6, 0x9b, 0xe7,
     0x2a, 0x6a, 0x0a, 0x58, 0x9f, 0x84, 0x47, 0x22, 0xd4, 0x84, 0xc1, 0xdf, 0x62, 0x16, 0x28, 0xca]"

definition key_der_10 :: bytes where
  "key_der_10 = [
     0x20, 0xfd, 0x81, 0x8c, 0x23, 0x08, 0x78, 0x73, 0x97, 0xd4, 0x8b, 0xf6, 0xab, 0x71, 0xe6, 0x42,
     0xe1, 0xb4, 0xaa, 0x13, 0xe4, 0xae, 0xdc, 0xc4, 0xdf, 0xc7, 0x63, 0x01, 0x81, 0x2b, 0x5d, 0x35,
     0xfb, 0xe9, 0x20, 0x00, 0x4f, 0xd9, 0x81, 0x44, 0x97, 0xb5, 0x2a, 0xfd, 0x8d, 0x0e, 0x1b, 0x1d,
     0xbf, 0x2d, 0x35, 0x8d, 0x6a, 0x55, 0x3c, 0x40, 0x65, 0x3b, 0xc4, 0x63, 0x7a, 0x2b, 0xa9, 0xd6,
     0x39, 0x2e, 0xe0, 0xe8, 0x69, 0x24, 0xd1, 0x74, 0xe7, 0x2b, 0xf6, 0x7d, 0x12, 0xd4, 0xdd, 0x66,
     0x8b, 0x46, 0xcb, 0xc9, 0x7e, 0x01, 0xbd, 0xb7, 0xdc, 0x4d, 0x96, 0x19, 0x53, 0xc5, 0x8b, 0x49,
     0xc3, 0xe0, 0xcb, 0xa4, 0x2d, 0x6d, 0x7b, 0x04, 0xc1, 0xc7, 0xb0, 0x59, 0x8f, 0x8c, 0xf3, 0x15,
     0x87, 0x59, 0xaf, 0x9a, 0x09, 0x3f, 0xea, 0x7a, 0x54, 0x1a, 0xfc, 0x46, 0x7c, 0x51, 0x91, 0x70,
     0x7f, 0xf0, 0x75, 0xd7, 0x8c, 0x71, 0xa8, 0x22, 0xb8, 0x6d, 0xb6, 0x03, 0xe6, 0x47, 0xde, 0xf7,
     0x1b, 0x84, 0x60, 0x30, 0xcc, 0x71, 0x3d, 0x59, 0x59, 0x32, 0x91, 0x0b, 0x80, 0x32, 0x30, 0x5e,
     0xfb, 0xfb, 0x0b, 0x46, 0xfd, 0x74, 0xe6, 0xcb, 0x39, 0x17, 0x02, 0x82, 0x01, 0x01, 0x00, 0xd0,
     0x32, 0xf9, 0x50, 0x96, 0x7a, 0x6a, 0x1d, 0x89, 0xf7, 0x27, 0x34, 0x41, 0xe7, 0x62, 0x7b, 0x38]"

definition key_der_11 :: bytes where
  "key_der_11 = [
     0x3f, 0xf1, 0x9d, 0x40, 0x9f, 0xab, 0x4e, 0xf5, 0x18, 0x05, 0x91, 0x9f, 0x7a, 0x82, 0xca, 0xcb,
     0x8a, 0xe8, 0xfd, 0xa7, 0xbc, 0xee, 0x25, 0xce, 0x7b, 0xd8, 0xad, 0xac, 0x6f, 0x92, 0xa2, 0x1e,
     0x81, 0x42, 0x1f, 0xea, 0xe8, 0x15, 0x3f, 0x1f, 0xed, 0xc1, 0x6e, 0x31, 0xec, 0xd4, 0xce, 0x55,
     0x1a, 0x5f, 0x75, 0xcf, 0x7b, 0x31, 0xde, 0x3d, 0x12, 0x85, 0x76, 0x7f, 0x45, 0x98, 0x3e, 0x12,
     0x92, 0xd6, 0x11, 0x49, 0x0f, 0x0b, 0x87, 0x52, 0xaa, 0x53, 0xd9, 0x04, 0x8c, 0xda, 0x22, 0xdd,
     0x31, 0xed, 0xc8, 0x6b, 0x45, 0xc9, 0xa4, 0x06, 0x4d, 0xc5, 0x7c, 0x85, 0x73, 0x61, 0x7b, 0xec,
     0x58, 0x80, 0x59, 0x71, 0xed, 0x7b, 0xff, 0x43, 0x2c, 0xa3, 0x38, 0x8d, 0x8e, 0x18, 0x67, 0x3f,
     0x1f, 0x01, 0x40, 0x9d, 0xe4, 0xcb, 0x22, 0xa4, 0x07, 0x1f, 0x76, 0x26, 0x6e, 0xad, 0x27, 0x37,
     0x33, 0xce, 0xf9, 0xe2, 0x82, 0x14, 0xbf, 0x7d, 0xc1, 0xd9, 0xa5, 0xb4, 0xef, 0x8e, 0x51, 0x48,
     0x93, 0x7c, 0x9e, 0x18, 0xed, 0x2a, 0xc8, 0x50, 0xdd, 0x9c, 0x4a, 0x16, 0xb1, 0xd0, 0x62, 0xd0,
     0xe7, 0xcd, 0xc9, 0x43, 0x18, 0x84, 0xdf, 0x65, 0xaf, 0x88, 0xe8, 0x97, 0xec, 0xcc, 0x21, 0x45,
     0x23, 0x92, 0x7a, 0x8e, 0xf4, 0x58, 0x1c, 0xbd, 0x43, 0xf9, 0xbe, 0x16, 0x0f, 0xb3, 0x38, 0x94]"

definition key_der_12 :: bytes where
  "key_der_12 = [
     0x91, 0x03, 0x21, 0xab, 0x71, 0x2c, 0xf6, 0xdf, 0x89, 0xd8, 0x5a, 0xef, 0xea, 0x8a, 0x6f, 0x4a,
     0xe9, 0x59, 0x9b, 0x53, 0x70, 0xa8, 0x3e, 0x88, 0x3e, 0x78, 0x4d, 0x6d, 0x2b, 0x28, 0x48, 0x4c,
     0xa2, 0x7b, 0xf9, 0x52, 0x66, 0x3e, 0x51, 0x40, 0xbe, 0x70, 0xfd, 0xe1, 0x43, 0xf6, 0x3c]"

definition key_der :: bytes where
  "key_der = concat [key_der_0, key_der_1, key_der_2, key_der_3, key_der_4, key_der_5, key_der_6, key_der_7, key_der_8, key_der_9, key_der_10, key_der_11, key_der_12]"

definition X509_cert_der_0 :: bytes where
  "X509_cert_der_0 = [
     0x30, 0x82, 0x05, 0x67, 0x30, 0x82, 0x03, 0x4f, 0x02, 0x14, 0x51, 0x36, 0xa8, 0xca, 0xae, 0xd8,
     0xf6, 0x9d, 0x20, 0x3b, 0xd7, 0x64, 0xb8, 0xcb, 0xd6, 0x91, 0x63, 0x0a, 0x1c, 0x5b, 0x30, 0x0d,
     0x06, 0x09, 0x2a, 0x86, 0x48, 0x86, 0xf7, 0x0d, 0x01, 0x01, 0x0b, 0x05, 0x00, 0x30, 0x70, 0x31,
     0x0b, 0x30, 0x09, 0x06, 0x03, 0x55, 0x04, 0x06, 0x13, 0x02, 0x55, 0x53, 0x31, 0x0b, 0x30, 0x09,
     0x06, 0x03, 0x55, 0x04, 0x08, 0x0c, 0x02, 0x56, 0x41, 0x31, 0x11, 0x30, 0x0f, 0x06, 0x03, 0x55,
     0x04, 0x07, 0x0c, 0x08, 0x53, 0x6f, 0x6d, 0x65, 0x43, 0x69, 0x74, 0x79, 0x31, 0x12, 0x30, 0x10,
     0x06, 0x03, 0x55, 0x04, 0x0a, 0x0c, 0x09, 0x4d, 0x79, 0x43, 0x6f, 0x6d, 0x70, 0x61, 0x6e, 0x79,
     0x31, 0x13, 0x30, 0x11, 0x06, 0x03, 0x55, 0x04, 0x0b, 0x0c, 0x0a, 0x4d, 0x79, 0x44, 0x69, 0x76,
     0x69, 0x73, 0x69, 0x6f, 0x6e, 0x31, 0x18, 0x30, 0x16, 0x06, 0x03, 0x55, 0x04, 0x03, 0x0c, 0x0f,
     0x77, 0x77, 0x77, 0x2e, 0x63, 0x6f, 0x6d, 0x70, 0x61, 0x6e, 0x79, 0x2e, 0x63, 0x6f, 0x6d, 0x30,
     0x1e, 0x17, 0x0d, 0x32, 0x30, 0x31, 0x31, 0x32, 0x34, 0x30, 0x37, 0x34, 0x30, 0x32, 0x32, 0x5a,
     0x17, 0x0d, 0x32, 0x31, 0x31, 0x31, 0x32, 0x34, 0x30, 0x37, 0x34, 0x30, 0x32, 0x32, 0x5a, 0x30]"

definition X509_cert_der_1 :: bytes where
  "X509_cert_der_1 = [
     0x70, 0x31, 0x0b, 0x30, 0x09, 0x06, 0x03, 0x55, 0x04, 0x06, 0x13, 0x02, 0x55, 0x53, 0x31, 0x0b,
     0x30, 0x09, 0x06, 0x03, 0x55, 0x04, 0x08, 0x0c, 0x02, 0x56, 0x41, 0x31, 0x11, 0x30, 0x0f, 0x06,
     0x03, 0x55, 0x04, 0x07, 0x0c, 0x08, 0x53, 0x6f, 0x6d, 0x65, 0x43, 0x69, 0x74, 0x79, 0x31, 0x12,
     0x30, 0x10, 0x06, 0x03, 0x55, 0x04, 0x0a, 0x0c, 0x09, 0x4d, 0x79, 0x43, 0x6f, 0x6d, 0x70, 0x61,
     0x6e, 0x79, 0x31, 0x13, 0x30, 0x11, 0x06, 0x03, 0x55, 0x04, 0x0b, 0x0c, 0x0a, 0x4d, 0x79, 0x44,
     0x69, 0x76, 0x69, 0x73, 0x69, 0x6f, 0x6e, 0x31, 0x18, 0x30, 0x16, 0x06, 0x03, 0x55, 0x04, 0x03,
     0x0c, 0x0f, 0x77, 0x77, 0x77, 0x2e, 0x63, 0x6f, 0x6d, 0x70, 0x61, 0x6e, 0x79, 0x2e, 0x63, 0x6f,
     0x6d, 0x30, 0x82, 0x02, 0x22, 0x30, 0x0d, 0x06, 0x09, 0x2a, 0x86, 0x48, 0x86, 0xf7, 0x0d, 0x01,
     0x01, 0x01, 0x05, 0x00, 0x03, 0x82, 0x02, 0x0f, 0x00, 0x30, 0x82, 0x02, 0x0a, 0x02, 0x82, 0x02,
     0x01, 0x00, 0xc2, 0x68, 0xbc, 0x46, 0xa0, 0x21, 0xb6, 0x44, 0xd0, 0x52, 0x2b, 0xa4, 0xb4, 0x40,
     0xc2, 0xd9, 0x0e, 0xf6, 0xfa, 0x89, 0x32, 0x47, 0x2e, 0x85, 0xd4, 0x8c, 0x49, 0x40, 0xd9, 0x2c,
     0x06, 0x7a, 0xf3, 0x8b, 0x35, 0x9b, 0x70, 0x8d, 0xd1, 0xf7, 0x89, 0x28, 0x9b, 0xb1, 0x71, 0x63]"

definition X509_cert_der_2 :: bytes where
  "X509_cert_der_2 = [
     0xe3, 0x21, 0xae, 0x3c, 0x3b, 0xef, 0x17, 0xb8, 0x7e, 0x73, 0x76, 0x8c, 0xf0, 0x20, 0x23, 0xb4,
     0x2b, 0x96, 0x09, 0xda, 0x9f, 0xec, 0xaf, 0x56, 0x79, 0x29, 0x49, 0xe6, 0xed, 0x2f, 0x95, 0x18,
     0xc5, 0xfe, 0x01, 0xef, 0xa7, 0x36, 0x8e, 0xda, 0x13, 0xe2, 0x60, 0x14, 0x5d, 0x25, 0xff, 0x86,
     0x0e, 0x59, 0x17, 0x42, 0xd2, 0x9f, 0xcc, 0x6d, 0xc6, 0xb0, 0x03, 0xb7, 0xc7, 0x78, 0x1d, 0x5b,
     0x94, 0x5d, 0x94, 0xd5, 0xa8, 0x02, 0x6b, 0x25, 0x7d, 0xd5, 0xc6, 0x92, 0x78, 0x49, 0xe6, 0xaa,
     0x6d, 0x84, 0xf7, 0xbe, 0xca, 0x1f, 0x1b, 0x57, 0x75, 0x32, 0x8b, 0x3c, 0x17, 0xb8, 0xc9, 0x72,
     0x59, 0x17, 0xa5, 0x1d, 0x29, 0x53, 0xdf, 0x9e, 0x82, 0xc7, 0xbc, 0x3a, 0x17, 0x74, 0x26, 0x35,
     0xc2, 0x52, 0x92, 0x11, 0x41, 0x25, 0x65, 0xe6, 0x86, 0x53, 0x2a, 0xbe, 0x6c, 0x5c, 0xa9, 0xa6,
     0x98, 0xfc, 0xc9, 0xdf, 0x03, 0xb1, 0x53, 0xc4, 0x02, 0x44, 0xf3, 0x65, 0x6b, 0xa0, 0x07, 0x9b,
     0x31, 0x31, 0x14, 0xf6, 0x59, 0x80, 0x1f, 0xa6, 0x4f, 0xf6, 0x2e, 0x0a, 0x08, 0xbd, 0x39, 0x5b,
     0xb4, 0xcb, 0xee, 0x6a, 0x45, 0xe8, 0x09, 0x01, 0x10, 0xcc, 0x35, 0xdc, 0x87, 0xaf, 0x15, 0xf2,
     0xd8, 0x59, 0xee, 0x9c, 0x39, 0x13, 0x72, 0xed, 0x5b, 0xcd, 0xc8, 0xb0, 0xd7, 0x42, 0x7e, 0xc2]"

definition X509_cert_der_3 :: bytes where
  "X509_cert_der_3 = [
     0x57, 0x31, 0x42, 0xba, 0xe9, 0x57, 0x40, 0x43, 0x1a, 0x7e, 0x6b, 0x74, 0x22, 0x9b, 0xf3, 0x04,
     0xe2, 0xdb, 0xe7, 0xcb, 0x7c, 0x3d, 0x9a, 0x3a, 0x90, 0x9c, 0x58, 0x81, 0xc9, 0x2f, 0xbe, 0x3a,
     0xea, 0x24, 0x70, 0x29, 0x8f, 0xff, 0x97, 0x0f, 0x89, 0xd0, 0x9e, 0x8f, 0xc9, 0x5e, 0xd7, 0x2f,
     0x0a, 0x8d, 0x67, 0x38, 0xf4, 0x93, 0xac, 0xe2, 0x2d, 0xcc, 0xf9, 0x6f, 0x15, 0x37, 0xcf, 0xa2,
     0xe5, 0x23, 0x24, 0x7d, 0xcc, 0xf0, 0x42, 0x34, 0xa0, 0xcd, 0x4f, 0xdd, 0x6b, 0xd8, 0x83, 0xd3,
     0xb1, 0xe3, 0xf0, 0xe5, 0xcd, 0x29, 0x95, 0x71, 0x08, 0x46, 0x49, 0x9e, 0x22, 0x11, 0x76, 0xe4,
     0xa3, 0x0e, 0x50, 0x13, 0x50, 0x64, 0xc7, 0xd8, 0xdd, 0x2c, 0x7c, 0xc6, 0x6b, 0x94, 0x5b, 0x36,
     0x0a, 0xac, 0xb1, 0x65, 0x77, 0x93, 0x0a, 0x09, 0x44, 0x92, 0x94, 0x6c, 0x4d, 0x8d, 0xa9, 0x18,
     0x70, 0x0f, 0xfc, 0x5a, 0x3b, 0x63, 0x2d, 0xcd, 0xf4, 0xc8, 0x07, 0x89, 0x87, 0x5e, 0x3e, 0x68,
     0x7a, 0x59, 0xf6, 0xfc, 0x7e, 0xf7, 0xa5, 0x3c, 0x02, 0xd7, 0xc8, 0xa4, 0xb6, 0x76, 0x55, 0xa5,
     0xc6, 0x18, 0x6b, 0xc0, 0xa6, 0x25, 0x90, 0xb4, 0xa0, 0x9d, 0x1a, 0x54, 0xa4, 0x1a, 0xab, 0x26,
     0xad, 0x1b, 0x9e, 0x9a, 0x34, 0xc8, 0x1a, 0xe6, 0x2e, 0x4b, 0x46, 0x28, 0x28, 0x4c, 0x60, 0xe5]"

definition X509_cert_der_4 :: bytes where
  "X509_cert_der_4 = [
     0x9b, 0x02, 0xa1, 0x3c, 0x21, 0xd2, 0x81, 0x12, 0x3e, 0xd8, 0xf5, 0x27, 0xfb, 0x5b, 0x03, 0x67,
     0x4c, 0xa6, 0x33, 0xc8, 0x63, 0x5f, 0x8b, 0x60, 0x31, 0xaf, 0x4b, 0x49, 0x7e, 0x66, 0x0d, 0xfa,
     0x7c, 0xe6, 0xfa, 0xf5, 0x9a, 0xf0, 0x13, 0x5a, 0x7a, 0x22, 0xb7, 0xa7, 0x71, 0x84, 0x96, 0xf4,
     0x90, 0x9a, 0x6d, 0x7d, 0xf8, 0xe6, 0xc3, 0x64, 0xee, 0x93, 0x8f, 0x06, 0x8e, 0x5a, 0x0a, 0x03,
     0xa5, 0xd7, 0x3f, 0xe4, 0x6b, 0x93, 0x0d, 0xa0, 0x82, 0xbd, 0x9b, 0x67, 0x70, 0xf1, 0x3d, 0xa1,
     0x41, 0x8b, 0x02, 0x03, 0x01, 0x00, 0x01, 0x30, 0x0d, 0x06, 0x09, 0x2a, 0x86, 0x48, 0x86, 0xf7,
     0x0d, 0x01, 0x01, 0x0b, 0x05, 0x00, 0x03, 0x82, 0x02, 0x01, 0x00, 0x0b, 0x85, 0x86, 0x7a, 0xb7,
     0xaf, 0xc3, 0x77, 0xde, 0x90, 0x2c, 0x62, 0x62, 0xc3, 0x54, 0x71, 0xc7, 0x8d, 0x83, 0x6f, 0x9e,
     0x7b, 0x43, 0xc6, 0xdc, 0x15, 0xb6, 0x09, 0xe5, 0x6b, 0x5e, 0x3b, 0x52, 0x53, 0x61, 0x20, 0x56,
     0x26, 0x03, 0x41, 0x35, 0x79, 0xa9, 0xa6, 0x8b, 0xf1, 0xac, 0xfe, 0x72, 0xd3, 0x12, 0xab, 0x7c,
     0x05, 0x5e, 0xea, 0xb2, 0x50, 0x21, 0xf3, 0xdc, 0xae, 0xdf, 0x81, 0x07, 0x82, 0xa1, 0xcf, 0x00,
     0x2a, 0xcf, 0x58, 0xba, 0xd3, 0x7a, 0x02, 0x37, 0x56, 0x86, 0xee, 0x15, 0x8f, 0x35, 0xee, 0x44]"

definition X509_cert_der_5 :: bytes where
  "X509_cert_der_5 = [
     0x21, 0x70, 0xf9, 0x18, 0xde, 0xeb, 0xad, 0xe6, 0xa1, 0xb5, 0x5b, 0x3d, 0x18, 0x0e, 0x59, 0x73,
     0x8c, 0x35, 0x96, 0x40, 0xbb, 0xea, 0xcc, 0x70, 0x13, 0xad, 0xde, 0xf5, 0x53, 0xdc, 0x34, 0x2e,
     0x26, 0xfe, 0xa9, 0xa2, 0x44, 0x85, 0x26, 0x47, 0x14, 0xc5, 0xc0, 0x99, 0x01, 0x7d, 0xfd, 0x95,
     0x7f, 0x9e, 0x02, 0xe0, 0xad, 0x94, 0xc1, 0xb4, 0x3c, 0xa0, 0xb7, 0x4b, 0x14, 0xe8, 0x29, 0x26,
     0x42, 0xaf, 0x16, 0x3c, 0xf3, 0x9d, 0xa3, 0x5b, 0xe5, 0x6e, 0xf3, 0x73, 0x2f, 0x49, 0x3e, 0xe6,
     0x10, 0xc7, 0x64, 0xe8, 0xd7, 0xbc, 0xa3, 0x4d, 0xb8, 0x4c, 0x83, 0x1c, 0xf5, 0xcd, 0x2a, 0xd5,
     0x79, 0x44, 0x31, 0x0a, 0x39, 0x3c, 0xf5, 0xd9, 0xc7, 0xb8, 0x51, 0x0f, 0xc8, 0x22, 0xca, 0x81,
     0x0e, 0x8c, 0xcb, 0x8b, 0xf1, 0xd4, 0xcf, 0x70, 0xc0, 0x5c, 0x9c, 0x14, 0xcc, 0x23, 0xe6, 0x76,
     0xb6, 0xaa, 0xe0, 0x07, 0x86, 0x11, 0xcd, 0x1f, 0x71, 0xd3, 0xfc, 0x73, 0x3f, 0xf5, 0x52, 0x2c,
     0x28, 0xa8, 0xdd, 0xc6, 0xd1, 0x52, 0x73, 0x48, 0xf4, 0xe0, 0x21, 0xbc, 0xc5, 0xdd, 0x75, 0x69,
     0x5c, 0x76, 0xa5, 0x61, 0x60, 0x93, 0xc8, 0x99, 0xf0, 0x6c, 0x74, 0x07, 0x3a, 0xf3, 0x87, 0x03,
     0x37, 0x1d, 0x03, 0x1f, 0x9a, 0xb3, 0x61, 0xb4, 0x8d, 0x24, 0xe2, 0x2e, 0x48, 0xf5, 0xa1, 0x7d]"

definition X509_cert_der_6 :: bytes where
  "X509_cert_der_6 = [
     0x38, 0xc2, 0xe9, 0x0f, 0x66, 0xed, 0x94, 0xde, 0x15, 0x68, 0x26, 0x17, 0x43, 0xdd, 0x8a, 0xf6,
     0xc7, 0xbf, 0x7a, 0x1a, 0x18, 0xb3, 0x5a, 0x77, 0x68, 0x7d, 0x43, 0xf8, 0xf9, 0xee, 0x21, 0xfc,
     0x5a, 0x60, 0x2b, 0xdf, 0x2b, 0x51, 0x10, 0x89, 0xbd, 0xe0, 0x95, 0x08, 0x67, 0x0f, 0x73, 0xaf,
     0x65, 0x1d, 0x37, 0xdd, 0xe3, 0xcb, 0x09, 0x58, 0x93, 0xab, 0xb4, 0x55, 0x3f, 0x7f, 0x29, 0x9f,
     0x63, 0x5a, 0xc1, 0x3f, 0xd8, 0xc5, 0x46, 0x69, 0x29, 0x48, 0x25, 0x0d, 0x65, 0x92, 0x71, 0xce,
     0x7c, 0x00, 0xf8, 0x14, 0xfa, 0x07, 0xc8, 0xda, 0xf7, 0xce, 0x98, 0xde, 0xaa, 0x5b, 0x2f, 0x5b,
     0xc9, 0xac, 0xd2, 0x56, 0x12, 0xd4, 0xf1, 0x38, 0xdf, 0x0c, 0x2d, 0xf4, 0xff, 0xe9, 0xba, 0x22,
     0x2e, 0xee, 0xb1, 0xd6, 0x8d, 0x70, 0x8a, 0x9e, 0x58, 0x1f, 0x86, 0xf5, 0x39, 0x75, 0xe9, 0xa3,
     0xb6, 0x1e, 0xa5, 0xe2, 0x8a, 0x17, 0xf7, 0xaa, 0x69, 0xad, 0x83, 0x10, 0x36, 0x69, 0xc0, 0x72,
     0xa9, 0x81, 0xd6, 0x46, 0x0f, 0x55, 0x75, 0x1d, 0x57, 0xe7, 0x9e, 0x96, 0x93, 0xab, 0x46, 0xa6,
     0xec, 0xe8, 0x74, 0xf8, 0xa7, 0x6b, 0xed, 0xf0, 0xbc, 0xe6, 0xe1, 0x1b, 0x4f, 0xf4, 0x46, 0x54,
     0x43, 0x6b, 0x75, 0x42, 0x1b, 0xa3, 0x4d, 0xcd, 0x8e, 0x75, 0x72, 0x29, 0xd7, 0x51, 0x2c, 0xaa]"

definition X509_cert_der_7 :: bytes where
  "X509_cert_der_7 = [
     0x94, 0x1d, 0x88, 0x66, 0x49, 0x15, 0x4b, 0x20, 0x40, 0xcf, 0x80, 0xdd, 0xcc, 0xcd, 0x95, 0xea,
     0xd9, 0x59, 0xd5, 0xc9, 0x75, 0x42, 0x1d, 0xec, 0xdb, 0xd5, 0xce, 0x53, 0x4e, 0x18, 0x1f, 0x14,
     0xcf, 0x4f, 0xd7, 0xa4, 0x69, 0xab, 0x9d, 0x1c, 0xfc, 0xaa, 0x5f]"

definition X509_cert_der :: bytes where
  "X509_cert_der = concat [X509_cert_der_0, X509_cert_der_1, X509_cert_der_2, X509_cert_der_3, X509_cert_der_4, X509_cert_der_5, X509_cert_der_6, X509_cert_der_7]"

definition at_cert :: bytes where
  "at_cert = [
     0x80, 0x03, 0x00, 0x80, 0x91, 0x41, 0x1b, 0x36, 0x96, 0xf8, 0x6c, 0xc4, 0x30, 0x83, 0x00, 0x00,
     0x00, 0x00, 0x00, 0x1f, 0xcc, 0x60, 0x64, 0x84, 0x00, 0xc8, 0x00, 0x01, 0x08, 0x80, 0x01, 0x24,
     0x81, 0x04, 0x03, 0x01, 0xff, 0xfc, 0x80, 0x01, 0x25, 0x81, 0x05, 0x04, 0x01, 0xff, 0xff, 0xff,
     0x80, 0x01, 0x89, 0x81, 0x03, 0x02, 0x01, 0xe0, 0x80, 0x01, 0x8a, 0x81, 0x03, 0x02, 0x01, 0xc0,
     0x80, 0x01, 0x8b, 0x81, 0x07, 0x06, 0x01, 0xff, 0xff, 0xff, 0xff, 0xf8, 0x80, 0x01, 0x8c, 0x81,
     0x05, 0x04, 0x02, 0xff, 0xff, 0xe0, 0x00, 0x01, 0x8d, 0x80, 0x02, 0x02, 0x7d, 0x81, 0x02, 0x01,
     0x01, 0x80, 0x80, 0x82, 0x64, 0x2b, 0x3e, 0x4f, 0x08, 0xe9, 0x7c, 0x4d, 0x19, 0x22, 0x6b, 0x40,
     0x30, 0x44, 0x8b, 0x0a, 0x7b, 0xbd, 0xc2, 0xd2, 0x84, 0x20, 0x4c, 0xb6, 0x6b, 0xea, 0x21, 0xdd,
     0x1d, 0x0e, 0x0f, 0xe5, 0x80, 0x80, 0x35, 0x44, 0x83, 0xcb, 0xbe, 0x0f, 0x1c, 0x0c, 0xe0, 0x8d,
     0x82, 0x1f, 0xc6, 0x2a, 0xe9, 0x03, 0x4c, 0x82, 0xc7, 0xe8, 0x13, 0x69, 0x7b, 0x79, 0xb8, 0x11,
     0x18, 0x8a, 0x61, 0x2f, 0xa7, 0x24, 0x1f, 0x32, 0x0e, 0x2c, 0xaa, 0x1b, 0xb3, 0x26, 0x1d, 0x1c,
     0x6f, 0xed, 0x58, 0x5e, 0x73, 0x3f, 0x41, 0x23, 0x1f, 0x9f, 0xc9, 0x72, 0x94, 0x6d, 0x5a, 0x9f,
     0x74, 0xa0, 0xf4, 0x83, 0x40, 0xcb]"

definition at_cert_hash :: bytes where
  "at_cert_hash = [
     0xf3, 0xca, 0xff, 0x29, 0xd3, 0x5e, 0x0c, 0x1c]"

definition key_der_len :: nat where
  "key_der_len = 2351"

definition X509_cert_der_len :: nat where
  "X509_cert_der_len = 1387"

definition at_cert_len :: nat where
  "at_cert_len = 198"

lemmas key_der_parts = key_der_0_def key_der_1_def key_der_2_def key_der_3_def key_der_4_def key_der_5_def key_der_6_def key_der_7_def key_der_8_def key_der_9_def key_der_10_def key_der_11_def key_der_12_def

lemmas X509_cert_der_parts = X509_cert_der_0_def X509_cert_der_1_def X509_cert_der_2_def X509_cert_der_3_def X509_cert_der_4_def X509_cert_der_5_def X509_cert_der_6_def X509_cert_der_7_def

lemma table_lengths:
  "length key_der = key_der_len" "length X509_cert_der = X509_cert_der_len"
  "length at_cert = at_cert_len" "length at_cert_hash = 8"
  by (simp_all add: key_der_def key_der_len_def key_der_parts X509_cert_der_def X509_cert_der_len_def
      X509_cert_der_parts at_cert_def at_cert_len_def at_cert_hash_def)

end
