(* ===== verification/Ieee1609_Cert.thy ===== *)
theory Ieee1609_Cert
  imports Sec_Ent_Client Ieee1609_Tables Wpacket
begin

text \<open>
  The certificate side of \<^verbatim>\<open>ssl/ieee1609dot2.c\<close>: certificate objects, their place in the ex data of
  an X509 object, verification of a certificate and construction and check of the TLS
  CertificateVerify payload through the security entity.
\<close>

section \<open>Certificate objects\<close>

abbreviation (input) sizeof_IEEE1609_CERT :: nat where "sizeof_IEEE1609_CERT \<equiv> 40"

text \<open>The result: the object, what \<open>*data\<close> points to afterwards, and the process.\<close>

definition IEEE1609_CERT_new_from_buffer ::
    "env \<Rightarrow> bytes \<Rightarrow> nat \<Rightarrow> os \<Rightarrow> (IEEE1609_CERT option \<times> bytes \<times> os) option" where
  "IEEE1609_CERT_new_from_buffer e data len w =
     (case OPENSSL_malloc e sizeof_IEEE1609_CERT w of
        (False, w1) \<Rightarrow> Some (None, data, ERR_raise ERR_R_MALLOC_FAILURE w1)
      | (True, w1) \<Rightarrow> (case OPENSSL_malloc e len w1 of
          (False, w2) \<Rightarrow> Some (None, data, OPENSSL_free True (ERR_raise ERR_R_MALLOC_FAILURE w2))
        | (True, w2) \<Rightarrow> do {
            d \<leftarrow> read_at data 0 len;
            Some (Some \<lparr>cert_version = 0x1609, cert_data_len = int len, cert_data = Some d,
                        hashed_id_present = False, hashedid8 = replicate 8 0\<rparr>, drop len data, w2) }))"

text \<open>
  \<open>OPENSSL_memdup\<close> of the structure, then of the data. The second result is not tested (the code
  tests \<open>ret\<close> again), so a duplicate without data is possible.
\<close>

definition IEEE1609_CERT_dup ::
    "env \<Rightarrow> IEEE1609_CERT option \<Rightarrow> os \<Rightarrow> IEEE1609_CERT option \<times> os" where
  "IEEE1609_CERT_dup e cert w = (case cert of
      None \<Rightarrow> (None, w)
    | Some c \<Rightarrow> (case OPENSSL_malloc e sizeof_IEEE1609_CERT w of
        (False, w1) \<Rightarrow> (None, ERR_raise ERR_R_MALLOC_FAILURE (ERR_raise ERR_R_MALLOC_FAILURE w1))
      | (True, w1) \<Rightarrow> (case OPENSSL_memdup e (cert_data c) (nat (cert_data_len c)) w1 of
          (d, w2) \<Rightarrow> (Some (c\<lparr>cert_data := d\<rparr>), w2))))"

text \<open>\<open>CRYPTO_EX_IEEE1609_CERT_dup\<close>: the slot of the copy.\<close>

definition CRYPTO_EX_IEEE1609_CERT_dup ::
    "env \<Rightarrow> IEEE1609_CERT option \<Rightarrow> os \<Rightarrow> IEEE1609_CERT option \<times> os" where
  "CRYPTO_EX_IEEE1609_CERT_dup e from w = (if from \<noteq> None then IEEE1609_CERT_dup e from w else (from, w))"

section \<open>Certificates inside X509 objects\<close>

text \<open>
  \<open>d2i_X509\<close> of the built-in certificate: into the object \<open>*x\<close> or a new one. When decoding
  fails an object that was passed in is released and \<open>*x\<close> becomes NULL.
\<close>

definition X509_new_fake_cert ::
    "env \<Rightarrow> x509_ptr option \<Rightarrow> os \<Rightarrow> (x509_ptr option \<times> os) option" where
  "X509_new_fake_cert e x w =
     (if env_d2i_fake e (mallocs w) then
        (case x of
           None \<Rightarrow> (case X509_alloc \<lparr>x_refs = 1, x_der = Some X509_cert_der, x_1609 = None\<rparr> w of
                     (a, w1) \<Rightarrow> Some (Some a, w1))
         | Some a \<Rightarrow> (case x509s w a of
             None \<Rightarrow> None
           | Some ob \<Rightarrow> Some (Some a, w\<lparr>x509s := (x509s w)(a \<mapsto> ob\<lparr>x_der := Some X509_cert_der\<rparr>)\<rparr>)))
      else do {
        w1 \<leftarrow> X509_free x w;
        Some (None, ERR_raise ERR_R_INTERNAL_ERROR w1) })"

definition X509_set_1609 :: "x509_ptr \<Rightarrow> IEEE1609_CERT \<Rightarrow> os \<Rightarrow> os" where
  "X509_set_1609 a c w = w\<lparr>x509s := (x509s w)(a := map_option (\<lambda>ob. ob\<lparr>x_1609 := Some c\<rparr>) (x509s w a))\<rparr>"

text \<open>
  The result: the returned pointer, the value of \<open>*x\<close> afterwards, what \<open>*ppin\<close> points to and the
  process. On the error path the object is released but \<open>*x\<close> keeps its address.
\<close>

definition X509_set_IEEE1609_CERT ::
    "env \<Rightarrow> x509_ptr option \<Rightarrow> bytes \<Rightarrow> nat \<Rightarrow> os \<Rightarrow>
     (x509_ptr option \<times> x509_ptr option \<times> bytes \<times> os) option" where
  "X509_set_IEEE1609_CERT e x data len w =
     (if env_x509_idx e = -1 then Some (None, x, data, ERR_raise ERR_R_INTERNAL_ERROR w)
      else do {
        (x1, w1) \<leftarrow> X509_new_fake_cert e x w;
        case x1 of
          None \<Rightarrow> Some (None, None, data, ERR_raise ERR_R_INTERNAL_ERROR w1)
        | Some a \<Rightarrow> do {
            (cert, data1, w2) \<leftarrow> IEEE1609_CERT_new_from_buffer e data len w1;
            case cert of
              None \<Rightarrow> do {
                w3 \<leftarrow> X509_free x1 (ERR_raise ERR_R_INTERNAL_ERROR w2);
                Some (None, x1, data1, w3) }
            | Some c \<Rightarrow>
                if env_set_ex_data e (mallocs w2) then Some (x1, x1, data1, X509_set_1609 a c w2)
                else do {
                  w3 \<leftarrow> X509_free x1 (IEEE1609_CERT_free cert (ERR_raise ERR_R_INTERNAL_ERROR w2));
                  Some (None, x1, data1, w3) } } })"

definition X509_new_IEEE1609_CERT ::
    "env \<Rightarrow> bytes \<Rightarrow> nat \<Rightarrow> os \<Rightarrow> (x509_ptr option \<times> bytes \<times> os) option" where
  "X509_new_IEEE1609_CERT e data len w = do {
     (r, _, data1, w1) \<leftarrow> X509_set_IEEE1609_CERT e None data len w;
     Some (r, data1, w1) }"

definition X509_append_IEEE1609_CERT_test :: "env \<Rightarrow> x509_ptr \<Rightarrow> os \<Rightarrow> (bool \<times> os) option" where
  "X509_append_IEEE1609_CERT_test e a w =
     (if env_x509_idx e = -1 then Some (False, ERR_raise ERR_R_INTERNAL_ERROR w)
      else do {
        (cert, _, w1) \<leftarrow> IEEE1609_CERT_new_from_buffer e at_cert at_cert_len w;
        case cert of
          None \<Rightarrow> Some (False, ERR_raise ERR_R_INTERNAL_ERROR w1)
        | Some c \<Rightarrow>
            let c1 = c\<lparr>hashed_id_present := True, hashedid8 := at_cert_hash\<rparr>
            in if x509s w1 a = None then None
               else if env_set_ex_data e (mallocs w1) then Some (True, X509_set_1609 a c1 w1)
               else Some (False, IEEE1609_CERT_free (Some c1) (ERR_raise ERR_R_INTERNAL_ERROR w1)) })"

section \<open>The certificate type in use\<close>

abbreviation (input) CertificateTypeX509 :: int where "CertificateTypeX509 \<equiv> 0"
abbreviation (input) CertificateTypeRawPublicKey :: int where "CertificateTypeRawPublicKey \<equiv> 2"
abbreviation (input) CertificateType1609Dot2 :: int where "CertificateType1609Dot2 \<equiv> 3"
abbreviation (input) SSL_RFC8902_1609 :: u32 where "SSL_RFC8902_1609 \<equiv> 1"
abbreviation (input) SSL_RFC8902_X509 :: u32 where "SSL_RFC8902_X509 \<equiv> 2"
abbreviation (input) TLSEXT_TYPE_client_certificate_type :: nat where "TLSEXT_TYPE_client_certificate_type \<equiv> 19"
abbreviation (input) TLSEXT_TYPE_server_certificate_type :: nat where "TLSEXT_TYPE_server_certificate_type \<equiv> 20"

definition SSL_is_using_1609_client :: "SSL \<Rightarrow> bool" where
  "SSL_is_using_1609_client s \<longleftrightarrow> type_decided (clnt (ieee1609 s)) = CertificateType1609Dot2"

definition SSL_is_using_1609_server :: "SSL \<Rightarrow> bool" where
  "SSL_is_using_1609_server s \<longleftrightarrow> type_decided (srv (ieee1609 s)) = CertificateType1609Dot2"

definition SSL_is_using_1609_this_side :: "SSL \<Rightarrow> bool" where
  "SSL_is_using_1609_this_side s =
     (if server s then SSL_is_using_1609_server s else SSL_is_using_1609_client s)"

definition SSL_is_using_1609_other_side :: "SSL \<Rightarrow> bool" where
  "SSL_is_using_1609_other_side s =
     (if server s then SSL_is_using_1609_client s else SSL_is_using_1609_server s)"

section \<open>Verification through the security entity\<close>

text \<open>\<open>cert->cert_data\<close> of \<open>cert->cert_data_len\<close> bytes, as an argument of \<open>memcpy\<close>.\<close>

definition cert_bytes :: "IEEE1609_CERT \<Rightarrow> bytes option" where
  "cert_bytes c = (if cert_data_len c = 0 then Some [] else do {
     d \<leftarrow> cert_data c; read_at d 0 (nat (cert_data_len c)) })"

definition IEEE1609_CERT_verify :: "env \<Rightarrow> x509_ptr option \<Rightarrow> SSL \<Rightarrow> (bool \<times> SSL) option" where
  "IEEE1609_CERT_verify e x s = do {
     a \<leftarrow> x;
     cert \<leftarrow> IEEE1609_CERT_from_X509 a (os s);
     case cert of
       None \<Rightarrow> Some (False, upd_os (ERR_raise ERR_R_INTERNAL_ERROR) s)
     | Some c \<Rightarrow> do {
         cb \<leftarrow> cert_bytes c;
         (msg, w1) \<leftarrow> SEC_ENT_MSG_new_TYPE_TLS_VERIFY_CERTS e cb (os s);
         case msg of
           None \<Rightarrow> Some (False, s\<lparr>os := ERR_raise ERR_R_INTERNAL_ERROR w1\<rparr>)
         | Some m \<Rightarrow> do {
             (reply, w2) \<leftarrow> sec_ent_process e (ieee1609 s) msg w1;
             case reply of
               None \<Rightarrow> Some (False, s\<lparr>os := SEC_ENT_MSG_free msg (ERR_raise ERR_R_INTERNAL_ERROR w2)\<rparr>)
             | Some r \<Rightarrow>
                 if msg_type r \<noteq> SEC_ENT_MSG_TYPE_TLS_VERIFY_CERTS
                 then Some (False, s\<lparr>os := SEC_ENT_MSG_free reply (SEC_ENT_MSG_free msg (ERR_raise ERR_R_INTERNAL_ERROR w2))\<rparr>)
                 else do {
                   d \<leftarrow> msg_data r;
                   h \<leftarrow> read_at d 0 HASHEDID8_LEN;
                   Some (True, s\<lparr>os := SEC_ENT_MSG_free reply (SEC_ENT_MSG_free msg (set_cert_hash a h w2))\<rparr>) } } } }"

text \<open>
  The writer reports success or failure; the connection records a fatal error. The certificate
  extensions are written by the extension framework, the parameter \<open>cexts\<close>.
\<close>

type_synonym cert_exts = "SSL \<Rightarrow> WPACKET \<Rightarrow> x509_ptr \<Rightarrow> nat \<Rightarrow> bool \<times> WPACKET \<times> SSL"

definition ssl_add_IEEE1609_CERT_to_wpacket ::
    "env \<Rightarrow> cert_exts \<Rightarrow> x509_ptr \<Rightarrow> nat \<Rightarrow> WPACKET \<Rightarrow> SSL \<Rightarrow> (bool \<times> WPACKET \<times> SSL) option" where
  "ssl_add_IEEE1609_CERT_to_wpacket e cexts a chain pkt s = do {
     cert \<leftarrow> IEEE1609_CERT_from_X509 a (os s);
     case cert of
       None \<Rightarrow> Some (False, pkt, SSLfatal SSL_AD_INTERNAL_ERROR ERR_R_MALLOC_FAILURE s)
     | Some c \<Rightarrow>
         if sint (word_of_int (cert_data_len c) :: u32) < 0
         then Some (False, pkt, SSLfatal SSL_AD_INTERNAL_ERROR ERR_R_INTERNAL_ERROR s)
         else do {
           d \<leftarrow> cert_bytes c;
           case WPACKET_sub_memcpy (malloc_ok e) d 3 pkt of
             (False, pkt1) \<Rightarrow> Some (False, pkt1, SSLfatal SSL_AD_INTERNAL_ERROR ERR_R_INTERNAL_ERROR s)
           | (True, pkt1) \<Rightarrow>
               if SSL_IS_TLS13 s then Some (cexts s pkt1 a chain) else Some (True, pkt1, s) } }"

definition tls_construct_IEEE1609_CERT_cert_verify ::
    "env \<Rightarrow> x509_ptr option \<Rightarrow> bytes \<Rightarrow> WPACKET \<Rightarrow> SSL \<Rightarrow> (bool \<times> WPACKET \<times> SSL) option" where
  "tls_construct_IEEE1609_CERT_cert_verify e x input pkt s = do {
     a \<leftarrow> x;
     cert \<leftarrow> IEEE1609_CERT_from_X509 a (os s);
     case cert of
       None \<Rightarrow> Some (False, pkt, SSLfatal SSL_AD_INTERNAL_ERROR ERR_R_INTERNAL_ERROR s)
     | Some c \<Rightarrow> do {
         (msg, w1) \<leftarrow> SEC_ENT_MSG_new_TYPE_TLS_SIGN_DATA e (psid_this_side (ieee1609 s)) (hashedid8 c) input (os s);
         case msg of
           None \<Rightarrow> Some (False, pkt, SSLfatal SSL_AD_INTERNAL_ERROR ERR_R_INTERNAL_ERROR (s\<lparr>os := w1\<rparr>))
         | Some m \<Rightarrow> do {
             (reply, w2) \<leftarrow> sec_ent_process e (ieee1609 s) msg w1;
             case reply of
               None \<Rightarrow> Some (False, pkt, upd_os (SEC_ENT_MSG_free msg)
                         (SSLfatal SSL_AD_INTERNAL_ERROR ERR_R_INTERNAL_ERROR (s\<lparr>os := w2\<rparr>)))
             | Some r \<Rightarrow>
                 if msg_type r \<noteq> SEC_ENT_MSG_TYPE_TLS_SIGN_DATA
                 then Some (False, pkt, upd_os (\<lambda>w. SEC_ENT_MSG_free reply (SEC_ENT_MSG_free msg w))
                        (SSLfatal SSL_AD_INTERNAL_ERROR ERR_R_INTERNAL_ERROR (s\<lparr>os := w2\<rparr>)))
                 else Some (True, snd (WPACKET_memcpy (malloc_ok e) (payload r) pkt),
                        s\<lparr>os := SEC_ENT_MSG_free reply (SEC_ENT_MSG_free msg w2)\<rparr>) } } }"

text \<open>The stores into \<open>ssl_IEEE1609_st\<close> once the entity has accepted the signature.\<close>

definition set_peer_psid :: "bool \<Rightarrow> bytes \<Rightarrow> SSL_IEEE1609 \<Rightarrow> SSL_IEEE1609" where
  "set_peer_psid little d st =
     (let psid = h64 little (word_of_nat (mem_value little (take 8 d)));
          n = length d - 8;
          st1 = st\<lparr>psid_other_side := psid, ssp_other_side_len := n\<rparr>
      in if 0 < n \<and> n < MAX_SSP_LEN then st1\<lparr>ssp_other_side := write_at (ssp_other_side st1) 0 (drop 8 d)\<rparr>
         else st1)"

definition tls_process_IEEE1609_CERT_cert_verify ::
    "env \<Rightarrow> x509_ptr option \<Rightarrow> bytes \<Rightarrow> bytes \<Rightarrow> SSL \<Rightarrow> (bool \<times> SSL) option" where
  "tls_process_IEEE1609_CERT_cert_verify e x verify_input verify_data s = do {
     a \<leftarrow> x;
     cert \<leftarrow> IEEE1609_CERT_from_X509 a (os s);
     case cert of
       None \<Rightarrow> Some (False, SSLfatal SSL_AD_INTERNAL_ERROR ERR_R_INTERNAL_ERROR s)
     | Some c \<Rightarrow> do {
         (msg, w1) \<leftarrow> SEC_ENT_MSG_new_TYPE_TLS_VERIFY_DATA e (hashedid8 c) verify_data verify_input (os s);
         case msg of
           None \<Rightarrow> Some (False, SSLfatal SSL_AD_INTERNAL_ERROR ERR_R_INTERNAL_ERROR (s\<lparr>os := w1\<rparr>))
         | Some m \<Rightarrow> do {
             (reply, w2) \<leftarrow> sec_ent_process e (ieee1609 s) msg w1;
             case reply of
               None \<Rightarrow> Some (False, upd_os (SEC_ENT_MSG_free msg)
                 (if ERR_peek_last w2 = Some SSL_R_UNEXPECTED_MESSAGE
                  then SSLfatal SSL_AD_INSUFFICIENT_SECURITY SSL_R_CERTIFICATE_VERIFY_FAILED (s\<lparr>os := w2\<rparr>)
                  else SSLfatal SSL_AD_INTERNAL_ERROR ERR_R_INTERNAL_ERROR (s\<lparr>os := w2\<rparr>)))
             | Some r \<Rightarrow>
                 if msg_type r \<noteq> SEC_ENT_MSG_TYPE_TLS_VERIFY_DATA
                    \<or> unat (msg_len r) < 8 \<or> 8 + MAX_SSP_LEN < unat (msg_len r)
                 then Some (False, upd_os (\<lambda>w. SEC_ENT_MSG_free reply (SEC_ENT_MSG_free msg w))
                        (SSLfatal SSL_AD_INTERNAL_ERROR ERR_R_INTERNAL_ERROR (s\<lparr>os := w2\<rparr>)))
                 else do {
                   d \<leftarrow> msg_data r;
                   d1 \<leftarrow> read_at d 0 (unat (msg_len r));
                   guardb (length d1 - 8 < MAX_SSP_LEN \<longrightarrow> length d1 - 8 \<le> length (ssp_other_side (ieee1609 s)));
                   Some (True, upd_1609 (set_peer_psid (host_little e) d1)
                     (s\<lparr>os := SEC_ENT_MSG_free reply (SEC_ENT_MSG_free msg w2)\<rparr>)) } } } }"

section \<open>Well-formed certificates\<close>

definition cert_ok :: "IEEE1609_CERT \<Rightarrow> bool" where
  "cert_ok c \<longleftrightarrow> (case cert_data c of None \<Rightarrow> False
     | Some d \<Rightarrow> d \<noteq> [] \<and> length d < 2 ^ 24 \<and> cert_data_len c = int (length d)) \<and> length (hashedid8 c) = 8"

definition cert_octets :: "IEEE1609_CERT \<Rightarrow> bytes" where
  "cert_octets c = (case cert_data c of None \<Rightarrow> [] | Some d \<Rightarrow> d)"

text \<open>The object at \<open>a\<close> carries the certificate \<open>c\<close>.\<close>

definition x509_holds :: "os \<Rightarrow> x509_ptr \<Rightarrow> IEEE1609_CERT \<Rightarrow> bool" where
  "x509_holds w a c \<longleftrightarrow> IEEE1609_CERT_from_X509 a w = Some (Some c)"

definition addr_ok :: "SSL \<Rightarrow> bool" where
  "addr_ok s \<longleftrightarrow> 0 \<in> set (sec_ent_addr (ieee1609 s))"

lemma cert_bytes_ok [simp]: "cert_ok c \<Longrightarrow> cert_bytes c = Some (cert_octets c)"
  by (auto simp: cert_ok_def cert_bytes_def cert_octets_def read_at_def split: option.splits)

lemma cert_okD:
  "cert_ok c \<Longrightarrow> length (cert_octets c) < 2 ^ 24" "cert_ok c \<Longrightarrow> cert_octets c \<noteq> []" "cert_ok c \<Longrightarrow> length (hashedid8 c) = 8"
  by (auto simp: cert_ok_def cert_octets_def split: option.splits)

lemma holds_set_hash: "x509_holds w a c \<Longrightarrow> x509_holds (set_cert_hash a h w) a (c\<lparr>hashed_id_present := True, hashedid8 := h\<rparr>)"
  by (auto simp: x509_holds_def set_cert_hash_def IEEE1609_CERT_from_X509_def)

lemma set_cert_hash_fields [simp]:
  "live (set_cert_hash a h w) = live w" "errs (set_cert_hash a h w) = errs w"
  "open_fds (set_cert_hash a h w) = open_fds w" "requests (set_cert_hash a h w) = requests w"
  "conns (set_cert_hash a h w) = conns w" "x_next (set_cert_hash a h w) = x_next w"
  by (simp_all add: set_cert_hash_def)

lemma SEC_ENT_MSG_free_fields [simp]:
  "x509s (SEC_ENT_MSG_free m w) = x509s w" "x_next (SEC_ENT_MSG_free m w) = x_next w"
  "open_fds (SEC_ENT_MSG_free m w) = open_fds w" "requests (SEC_ENT_MSG_free m w) = requests w"
  "conns (SEC_ENT_MSG_free m w) = conns w"
  by (simp_all add: SEC_ENT_MSG_free_def split: option.splits)

lemma holds_free [simp]: "x509_holds (SEC_ENT_MSG_free m w) a c = x509_holds w a c"
  by (simp add: x509_holds_def IEEE1609_CERT_from_X509_def)

lemma holds_same: "x509s w1 = x509s w \<Longrightarrow> x509_holds w1 a c = x509_holds w a c"
  by (simp add: x509_holds_def IEEE1609_CERT_from_X509_def)

lemma msg_data_payload: "payload m \<noteq> [] \<Longrightarrow> msg_data m = Some (payload m)"
  by (auto simp: payload_def split: option.splits)

section \<open>Verification of a certificate\<close>

text \<open>
  One run of \<open>IEEE1609_CERT_verify\<close> on a well-formed certificate, whatever the entity does: it
  fails with an error queued and the objects untouched, or the entity's answer to the request
  for exactly this certificate begins with a frame of the right type, whose first eight bytes
  become the hash of the certificate; less than eight bytes are read past the end. No block and
  no descriptor (other than 0) is left over.
\<close>

lemma verify_cases:
  assumes c: "cert_ok c" "x509_holds (os s) a c" "addr_ok s"
  obtains (fail) s1 where "IEEE1609_CERT_verify e (Some a) s = Some (False, s1)" "errs (os s1) \<noteq> []" "s1 = s\<lparr>os := os s1\<rparr>"
      "x509s (os s1) = x509s (os s)" "live (os s1) = live (os s)"
      "env_socket e (conns (os s)) \<noteq> 0 \<longrightarrow> open_fds (os s1) = open_fds (os s)"
    | (pass) s1 d rest where "IEEE1609_CERT_verify e (Some a) s = Some (True, s1)" "s1 = s\<lparr>os := os s1\<rparr>"
      "concat (env_peer e (conns (os s)) (sec_ent_frame 18 (cert_octets c))) = sec_ent_frame 18 d @ rest" "8 \<le> length d"
      "x509_holds (os s1) a (c\<lparr>hashed_id_present := True, hashedid8 := take 8 d\<rparr>)" "live (os s1) = live (os s)"
      "env_socket e (conns (os s)) \<noteq> 0 \<longrightarrow> open_fds (os s1) = open_fds (os s)"
    | (short) d rest where "IEEE1609_CERT_verify e (Some a) s = None" "length d < 8"
      "concat (env_peer e (conns (os s)) (sec_ent_frame 18 (cert_octets c))) = sec_ent_frame 18 d @ rest"
proof -
  have ok: "length (cert_octets c) < 2 ^ 31 - 5" using cert_okD(1) [OF c(1)] by simp
  have ad: "0 \<in> set (sec_ent_addr (ieee1609 s))" using c(3) by (simp add: addr_ok_def)
  have fx: "IEEE1609_CERT_from_X509 a (os s) = Some (Some c)" using c(2) by (simp add: x509_holds_def)
  from ok ad show ?thesis
  proof (cases rule: verify_certs.ask_total [of "cert_octets c" "ieee1609 s" e "os s"])
    case (nomem w1)
    let ?s1 = "s\<lparr>os := ERR_raise ERR_R_INTERNAL_ERROR w1\<rparr>"
    show ?thesis using nomem fx c(1)
      by (intro fail [of ?s1]) (auto simp: IEEE1609_CERT_verify_def same_io_def)
  next
    case (asked m w1 r w2)
    note A = asked
    show ?thesis
    proof (cases r)
      case None
      let ?s1 = "s\<lparr>os := SEC_ENT_MSG_free (Some m) (ERR_raise ERR_R_INTERNAL_ERROR w2)\<rparr>"
      show ?thesis using A None fx c(1)
        by (intro fail [of ?s1]) (auto simp: IEEE1609_CERT_verify_def msg_blocks_def)
    next
      case (Some r1)
      have pay: "msg_data r1 = Some (payload r1)" using A(4) Some msg_data_payload by (simp add: reply_ok_def)
      obtain rest where ans: "concat (env_peer e (conns (os s)) (sec_ent_frame 18 (cert_octets c)))
          = sec_ent_frame (msg_type r1) (payload r1) @ rest" using A(8) [OF Some] by blast
      let ?w3 = "SEC_ENT_MSG_free r (SEC_ENT_MSG_free (Some m) (ERR_raise ERR_R_INTERNAL_ERROR w2))"
      let ?w4 = "SEC_ENT_MSG_free r (SEC_ENT_MSG_free (Some m) (set_cert_hash a (take 8 (payload r1)) w2))"
      consider "msg_type r1 \<noteq> 18" | "msg_type r1 = 18" "length (payload r1) < 8" | "msg_type r1 = 18" "8 \<le> length (payload r1)"
        by linarith
      then show ?thesis
      proof cases
        case 1
        then show ?thesis using A Some fx c(1) by (intro fail [of "s\<lparr>os := ?w3\<rparr>"]) (auto simp: IEEE1609_CERT_verify_def)
      next
        case 2
        then show ?thesis using A Some fx c(1) pay ans
          by (intro short [of "payload r1" rest]) (auto simp: IEEE1609_CERT_verify_def read_at_def)
      next
        case 3
        have "x509_holds ?w4 a (c\<lparr>hashed_id_present := True, hashedid8 := take 8 (payload r1)\<rparr>)"
          using holds_set_hash c(2) holds_same [OF A(5), of a c] by simp
        then show ?thesis using 3 A Some fx c(1) pay ans
          by (intro pass [of "s\<lparr>os := ?w4\<rparr>" "payload r1" rest]) (auto simp: IEEE1609_CERT_verify_def read_at_def)
      qed
    qed
  qed
qed

lemma verify_up:
  assumes "entity_up e" "cert_ok c" "x509_holds (os s) a c" "addr_ok s"
    and rep: "entity_replies e (conns (os s)) (sec_ent_frame 18 (cert_octets c)) ty d" "d \<noteq> []" "length d \<le> 2043"
  shows "ty = 18 \<Longrightarrow> 8 \<le> length d \<Longrightarrow> \<exists>s1. IEEE1609_CERT_verify e (Some a) s = Some (True, s1) \<and>
      x509_holds (os s1) a (c\<lparr>hashed_id_present := True, hashedid8 := take 8 d\<rparr>) \<and>
      requests (os s1) = requests (os s) @ [sec_ent_frame 18 (cert_octets c)]"
    and "ty = 18 \<Longrightarrow> length d < 8 \<Longrightarrow> IEEE1609_CERT_verify e (Some a) s = None"
    and "ty \<noteq> 18 \<Longrightarrow> \<exists>s1. IEEE1609_CERT_verify e (Some a) s = Some (False, s1)"
proof -
  have ok: "length (cert_octets c) < 2 ^ 31 - 5" using cert_okD(1) [OF assms(2)] by simp
  have ad: "0 \<in> set (sec_ent_addr (ieee1609 s))" using assms(4) by (simp add: addr_ok_def)
  have fx: "IEEE1609_CERT_from_X509 a (os s) = Some (Some c)" using assms(3) by (simp add: x509_holds_def)
  obtain m w1 w2 where A: "SEC_ENT_MSG_new_TYPE_TLS_VERIFY_CERTS e (cert_octets c) (os s) = Some (Some m, w1)"
    "sec_ent_process e (ieee1609 s) (Some m) w1 = Some (if ty = 3 then None else Some (raw_msg ty d), w2)"
    "requests w2 = requests (os s) @ [sec_ent_frame 18 (cert_octets c)]" "x509s w2 = x509s (os s)"
    by (rule verify_certs.ask_up [OF assms(1) ok ad rep])
  have md: "msg_data (raw_msg ty d) = Some d" using rep(2) by (simp add: raw_msg_def)
  { assume t: "ty = 18" "8 \<le> length d"
    let ?w4 = "SEC_ENT_MSG_free (Some (raw_msg ty d)) (SEC_ENT_MSG_free (Some m) (set_cert_hash a (take 8 d) w2))"
    have "x509_holds ?w4 a (c\<lparr>hashed_id_present := True, hashedid8 := take 8 d\<rparr>)"
      using holds_set_hash assms(3) holds_same [OF A(4), of a c] by simp
    moreover have "IEEE1609_CERT_verify e (Some a) s = Some (True, s\<lparr>os := ?w4\<rparr>)"
      using A t fx assms(2) md by (simp add: IEEE1609_CERT_verify_def read_at_def)
    ultimately show "\<exists>s1. IEEE1609_CERT_verify e (Some a) s = Some (True, s1) \<and>
      x509_holds (os s1) a (c\<lparr>hashed_id_present := True, hashedid8 := take 8 d\<rparr>) \<and>
      requests (os s1) = requests (os s) @ [sec_ent_frame 18 (cert_octets c)]" using A(3) by simp }
  show "IEEE1609_CERT_verify e (Some a) s = None" if "ty = 18" "length d < 8"
    using A that fx assms(2) md by (simp add: IEEE1609_CERT_verify_def read_at_def)
  show "\<exists>s1. IEEE1609_CERT_verify e (Some a) s = Some (False, s1)" if "ty \<noteq> 18"
    using A that fx assms(2) by (simp add: IEEE1609_CERT_verify_def)
qed

section \<open>The CertificateVerify payload\<close>

text \<open>
  A run of the construction: it fails with a fatal error and the packet as it was, or the
  payload of the entity's answer to the request to sign \<open>input\<close> with the certificate and the
  PSID of this side is handed to the packet writer.
\<close>

lemma construct_cases:
  assumes c: "cert_ok c" "x509_holds (os s) a c" "addr_ok s" and len: "length input < 2 ^ 31 - 21"
  obtains (fail) s1 where "tls_construct_IEEE1609_CERT_cert_verify e (Some a) input pkt s = Some (False, pkt, s1)"
      "ossl_statem_in_error s1" "x509s (os s1) = x509s (os s)" "live (os s1) = live (os s)"
    | (pass) s1 d rest where "tls_construct_IEEE1609_CERT_cert_verify e (Some a) input pkt s
        = Some (True, snd (WPACKET_memcpy (malloc_ok e) d pkt), s1)" "s1 = s\<lparr>os := os s1\<rparr>"
      "concat (env_peer e (conns (os s)) (sec_ent_frame 19
         (be_bytes 8 (unat (psid_this_side (ieee1609 s))) @ hashedid8 c @ input))) = sec_ent_frame 19 d @ rest"
      "x509s (os s1) = x509s (os s)" "live (os s1) = live (os s)"
proof -
  let ?arg = "(psid_this_side (ieee1609 s), hashedid8 c, input)"
  have ok: "case ?arg of (psid, hid, input) \<Rightarrow> length hid = 8 \<and> length input < 2 ^ 31 - 21"
    using cert_okD(3) [OF c(1)] len by simp
  have ad: "0 \<in> set (sec_ent_addr (ieee1609 s))" using c(3) by (simp add: addr_ok_def)
  have fx: "IEEE1609_CERT_from_X509 a (os s) = Some (Some c)" using c(2) by (simp add: x509_holds_def)
  from ok ad show ?thesis
  proof (cases rule: sign_data.ask_total [of ?arg "ieee1609 s" e "os s"])
    case (nomem w1)
    let ?s1 = "SSLfatal SSL_AD_INTERNAL_ERROR ERR_R_INTERNAL_ERROR (s\<lparr>os := w1\<rparr>)"
    show ?thesis using nomem fx
      by (intro fail [of ?s1]) (auto simp: tls_construct_IEEE1609_CERT_cert_verify_def same_io_def)
  next
    case (asked m w1 r w2)
    note A = asked
    let ?f = "SSLfatal SSL_AD_INTERNAL_ERROR ERR_R_INTERNAL_ERROR (s\<lparr>os := w2\<rparr>)"
    show ?thesis
    proof (cases r)
      case None
      let ?s1 = "upd_os (SEC_ENT_MSG_free (Some m)) ?f"
      have "ossl_statem_in_error ?s1" by (simp add: ossl_statem_in_error_def)
      then show ?thesis using A None fx
        by (intro fail [of ?s1]) (auto simp: tls_construct_IEEE1609_CERT_cert_verify_def msg_blocks_def)
    next
      case (Some r1)
      obtain rest where ans: "concat (env_peer e (conns (os s)) (sec_ent_frame 19
          (be_bytes 8 (unat (psid_this_side (ieee1609 s))) @ hashedid8 c @ input)))
          = sec_ent_frame (msg_type r1) (payload r1) @ rest" using A(8) [OF Some] by auto
      show ?thesis
      proof (cases "msg_type r1 = 19")
        case True
        let ?s1 = "s\<lparr>os := SEC_ENT_MSG_free r (SEC_ENT_MSG_free (Some m) w2)\<rparr>"
        show ?thesis using True A Some fx ans
          by (intro pass [of "payload r1" ?s1 rest]) (auto simp: tls_construct_IEEE1609_CERT_cert_verify_def)
      next
        case False
        let ?s1 = "upd_os (\<lambda>w. SEC_ENT_MSG_free r (SEC_ENT_MSG_free (Some m) w)) ?f"
        have "ossl_statem_in_error ?s1" by (simp add: ossl_statem_in_error_def)
        then show ?thesis using False A Some fx
          by (intro fail [of ?s1]) (auto simp: tls_construct_IEEE1609_CERT_cert_verify_def)
      qed
    qed
  qed
qed

text \<open>
  A run of the check: it fails with a fatal error and the PSID and SSP of the peer as they were,
  or the entity's answer to the request to verify this signature over this input begins with a
  frame of the right type and of 8 to 108 bytes, from which PSID and SSP are taken.
\<close>

lemma process_cases:
  assumes c: "cert_ok c" "x509_holds (os s) a c" "addr_ok s" and len: "length vdata + length vinput < 2 ^ 31 - 13"
    and ssp: "length (ssp_other_side (ieee1609 s)) = 100"
  obtains (fail) s1 where "tls_process_IEEE1609_CERT_cert_verify e (Some a) vinput vdata s = Some (False, s1)"
      "ossl_statem_in_error s1" "ieee1609 s1 = ieee1609 s" "x509s (os s1) = x509s (os s)" "live (os s1) = live (os s)"
    | (pass) s1 d rest where "tls_process_IEEE1609_CERT_cert_verify e (Some a) vinput vdata s = Some (True, s1)"
      "s1 = upd_1609 (set_peer_psid (host_little e) d) (s\<lparr>os := os s1\<rparr>)" "8 \<le> length d" "length d \<le> 108"
      "concat (env_peer e (conns (os s)) (sec_ent_frame 20 (hashedid8 c @ vdata @ vinput))) = sec_ent_frame 20 d @ rest"
      "x509s (os s1) = x509s (os s)" "live (os s1) = live (os s)"
proof -
  let ?arg = "(hashedid8 c, vdata, vinput)"
  have ok: "case ?arg of (hid, vdata, vinput) \<Rightarrow> length hid = 8 \<and> length vdata + length vinput < 2 ^ 31 - 13"
    using cert_okD(3) [OF c(1)] len by simp
  have ad: "0 \<in> set (sec_ent_addr (ieee1609 s))" using c(3) by (simp add: addr_ok_def)
  have fx: "IEEE1609_CERT_from_X509 a (os s) = Some (Some c)" using c(2) by (simp add: x509_holds_def)
  from ok ad show ?thesis
  proof (cases rule: verify_data.ask_total [of ?arg "ieee1609 s" e "os s"])
    case (nomem w1)
    let ?s1 = "SSLfatal SSL_AD_INTERNAL_ERROR ERR_R_INTERNAL_ERROR (s\<lparr>os := w1\<rparr>)"
    show ?thesis using nomem fx
      by (intro fail [of ?s1]) (auto simp: tls_process_IEEE1609_CERT_cert_verify_def same_io_def)
  next
    case (asked m w1 r w2)
    note A = asked
    show ?thesis
    proof (cases r)
      case None
      define f where "f = (if ERR_peek_last w2 = Some SSL_R_UNEXPECTED_MESSAGE
        then SSLfatal SSL_AD_INSUFFICIENT_SECURITY SSL_R_CERTIFICATE_VERIFY_FAILED (s\<lparr>os := w2\<rparr>)
        else SSLfatal SSL_AD_INTERNAL_ERROR ERR_R_INTERNAL_ERROR (s\<lparr>os := w2\<rparr>))"
      let ?s1 = "upd_os (SEC_ENT_MSG_free (Some m)) f"
      have F: "ossl_statem_in_error ?s1" "ieee1609 f = ieee1609 s" "x509s (os f) = x509s w2" "live (os f) = live w2"
        by (simp_all add: f_def ossl_statem_in_error_def)
      then show ?thesis using A None fx
        by (intro fail [of ?s1]) (auto simp: tls_process_IEEE1609_CERT_cert_verify_def msg_blocks_def f_def)
    next
      case (Some r1)
      have rk: "msg_ok r1" "payload r1 \<noteq> []" using A(4) Some by (simp_all add: reply_ok_def)
      have len1: "unat (msg_len r1) = length (payload r1)" using payload_len [OF rk(1)] .
      obtain rest where ans: "concat (env_peer e (conns (os s)) (sec_ent_frame 20 (hashedid8 c @ vdata @ vinput)))
          = sec_ent_frame (msg_type r1) (payload r1) @ rest" using A(8) [OF Some] by auto
      show ?thesis
      proof (cases "msg_type r1 = 20 \<and> 8 \<le> length (payload r1) \<and> length (payload r1) \<le> 108")
        case True
        let ?s1 = "upd_1609 (set_peer_psid (host_little e) (payload r1))
          (s\<lparr>os := SEC_ENT_MSG_free r (SEC_ENT_MSG_free (Some m) w2)\<rparr>)"
        show ?thesis using True A Some fx ans len1 msg_data_payload [OF rk(2)] ssp
          by (intro pass [of ?s1 "payload r1" rest]) (auto simp: tls_process_IEEE1609_CERT_cert_verify_def read_at_def)
      next
        case False
        let ?s1 = "upd_os (\<lambda>w. SEC_ENT_MSG_free r (SEC_ENT_MSG_free (Some m) w))
          (SSLfatal SSL_AD_INTERNAL_ERROR ERR_R_INTERNAL_ERROR (s\<lparr>os := w2\<rparr>))"
        have "ossl_statem_in_error ?s1" by (simp add: ossl_statem_in_error_def)
        then show ?thesis using False A Some fx len1
          by (intro fail [of ?s1]) (auto simp: tls_process_IEEE1609_CERT_cert_verify_def)
      qed
    qed
  qed
qed

lemma set_peer_psid_fields:
  assumes "8 \<le> length d" "length d \<le> 108" "length (ssp_other_side st) = 100"
  shows "psid_other_side (set_peer_psid little d st) = word_of_nat (be_val (take 8 d))"
    "ssp_other_side_len (set_peer_psid little d st) = length d - 8"
    "length (ssp_other_side (set_peer_psid little d st)) = 100"
    "length d < 108 \<Longrightarrow> take (length d - 8) (ssp_other_side (set_peer_psid little d st)) = drop 8 d"
    "length d = 108 \<Longrightarrow> ssp_other_side (set_peer_psid little d st) = ssp_other_side st"
  using assms h64_value [of "take 8 d" little] by (auto simp: set_peer_psid_def Let_def write_at_def)

end
