(* ===== verification/Cert_Messages.thy ===== *)
theory Cert_Messages
  imports Ieee1609_Cert Statem_Common Packet_Reader
begin

text \<open>
  The Certificate and CertificateVerify messages (\<^verbatim>\<open>statem_lib.c\<close>, \<^verbatim>\<open>statem_clnt.c\<close>,
  \<^verbatim>\<open>statem_srvr.c\<close>, \<^verbatim>\<open>ssl_cert.c\<close>) on both sides, with the branches for IEEE 1609.2 certificates and
  for X.509 certificates. What the code asks of the digest, signature and X.509 libraries and of
  the extension framework is a parameter, the record \<open>tlslib\<close>. Undefined behaviour (a pointer to
  a released X509 object, a NULL pointer passed on) is the result \<open>None\<close>.
\<close>

section \<open>Calls into the libraries\<close>

record tlslib =
  tl_md_ctx :: "SSL \<Rightarrow> bool"                    \<comment> \<open>\<open>EVP_MD_CTX_new\<close>\<close>
  tl_hash :: "SSL \<Rightarrow> bytes option"              \<comment> \<open>the digest of the handshake so far\<close>
  tl_handshake_md :: "SSL \<Rightarrow> bool"              \<comment> \<open>\<open>ssl_handshake_md\<close>\<close>
  tl_digest :: "SSL \<Rightarrow> bytes \<Rightarrow> bool"           \<comment> \<open>\<open>EVP_DigestInit_ex\<close> and \<open>EVP_DigestUpdate\<close>\<close>
  tl_use_sigalgs :: "SSL \<Rightarrow> bool"               \<comment> \<open>\<open>SSL_USE_SIGALGS\<close>\<close>
  tl_sigalg :: "SSL \<Rightarrow> nat"                     \<comment> \<open>\<open>lu->sigalg\<close>\<close>
  tl_lookup_md :: "SSL \<Rightarrow> bool"                 \<comment> \<open>\<open>tls1_lookup_md\<close>\<close>
  tl_sign :: "SSL \<Rightarrow> bytes \<Rightarrow> bytes option"     \<comment> \<open>\<open>EVP_DigestSign\<close> with its set-up\<close>
  tl_gost :: "SSL \<Rightarrow> bool"                      \<comment> \<open>the key is a GOST key\<close>
  tl_gost_raw :: "SSL \<Rightarrow> nat \<Rightarrow> bool"           \<comment> \<open>a GOST signature without a length field\<close>
  tl_sign_cert :: "X509 \<Rightarrow> bool"                \<comment> \<open>\<open>ssl_cert_lookup_by_pkey\<close> finds the key's type\<close>
  tl_check_sigalg :: "SSL \<Rightarrow> nat \<Rightarrow> bool \<times> SSL" \<comment> \<open>\<open>tls12_check_peer_sigalg\<close>\<close>
  tl_legacy_sigalg :: "SSL \<Rightarrow> bool"             \<comment> \<open>\<open>tls1_set_peer_legacy_sigalg\<close>\<close>
  tl_verify_init :: "SSL \<Rightarrow> bool"               \<comment> \<open>\<open>EVP_DigestVerifyInit_ex\<close>\<close>
  tl_verify_setup :: "SSL \<Rightarrow> bytes \<Rightarrow> bool"      \<comment> \<open>the padding and, in SSL 3, the digest of the data\<close>
  tl_verify :: "SSL \<Rightarrow> bytes \<Rightarrow> bytes \<Rightarrow> bool"  \<comment> \<open>\<open>EVP_DigestVerify\<close> of a signature on data\<close>
  tl_sk_new :: "SSL \<Rightarrow> bool"                    \<comment> \<open>\<open>sk_X509_new_null\<close>\<close>
  tl_sk_push :: "SSL \<Rightarrow> bool"                   \<comment> \<open>\<open>sk_X509_push\<close>\<close>
  tl_x509_new :: "SSL \<Rightarrow> bool"                  \<comment> \<open>\<open>X509_new_ex\<close>\<close>
  tl_d2i :: "bytes \<Rightarrow> nat option"               \<comment> \<open>\<open>d2i_X509\<close>: the bytes it uses\<close>
  tl_i2d :: "X509 \<Rightarrow> bytes option"              \<comment> \<open>\<open>i2d_X509\<close>\<close>
  tl_parse_exts :: "bytes \<Rightarrow> x509_ptr \<Rightarrow> nat \<Rightarrow> bool \<Rightarrow> SSL \<Rightarrow> bool \<times> SSL" \<comment> \<open>certificate extensions\<close>
  tl_cert_exts :: cert_exts                     \<comment> \<open>\<open>tls_construct_extensions\<close>\<close>
  tl_missing_params :: "X509 \<Rightarrow> bool"           \<comment> \<open>\<open>EVP_PKEY_missing_parameters\<close>\<close>
  tl_amask :: "nat \<Rightarrow> u32"                      \<comment> \<open>\<open>clu->amask\<close> of a slot\<close>
  tl_store_ctx :: "SSL \<Rightarrow> bool"                 \<comment> \<open>\<open>X509_STORE_CTX_new_ex\<close>\<close>
  tl_store_init :: "SSL \<Rightarrow> bool"                \<comment> \<open>\<open>X509_STORE_CTX_init\<close>\<close>
  tl_x509_verify :: "x509_ptr list \<Rightarrow> SSL \<Rightarrow> int \<times> SSL" \<comment> \<open>X.509 chain verification\<close>
  tl_sess_dup :: "SSL \<Rightarrow> bool"                  \<comment> \<open>\<open>ssl_session_dup\<close>\<close>
  tl_extra_certs :: "x509_ptr list option"      \<comment> \<open>\<open>ctx->extra_certs\<close>\<close>
  tl_no_auto_chain :: bool                      \<comment> \<open>\<open>SSL_MODE_NO_AUTO_CHAIN\<close>\<close>
  tl_has_store :: bool                          \<comment> \<open>\<open>cert->chain_store\<close> or \<open>ctx->cert_store\<close>\<close>
  tl_build_chain :: "x509_ptr \<Rightarrow> SSL \<Rightarrow> x509_ptr list" \<comment> \<open>what \<open>X509_verify_cert\<close> could build\<close>
  tl_security_chain :: "x509_ptr list option \<Rightarrow> x509_ptr option \<Rightarrow> SSL \<Rightarrow> int" \<comment> \<open>\<open>ssl_security_cert_chain\<close>\<close>

abbreviation (input) EVP_MAX_MD_SIZE :: nat where "EVP_MAX_MD_SIZE \<equiv> 64"
abbreviation (input) X509_V_OK :: int where "X509_V_OK \<equiv> 0"

section \<open>Alerts for X.509 errors\<close>

text \<open>The table of \<open>X509_V_ERR\<close> codes; its last entry, for \<open>X509_V_OK\<close>, ends every search.\<close>

definition x509table :: "(int \<times> ALERT) list" where
  "x509table = [
     (50, SSL_AD_HANDSHAKE_FAILURE), (67, SSL_AD_BAD_CERTIFICATE), (94, SSL_AD_BAD_CERTIFICATE), (68, SSL_AD_BAD_CERTIFICATE),
     (22, SSL_AD_UNKNOWN_CA), (10, SSL_AD_CERTIFICATE_EXPIRED), (9, SSL_AD_BAD_CERTIFICATE), (28, SSL_AD_BAD_CERTIFICATE),
     (23, SSL_AD_CERTIFICATE_REVOKED), (7, SSL_AD_DECRYPT_ERROR), (27, SSL_AD_BAD_CERTIFICATE), (12, SSL_AD_CERTIFICATE_EXPIRED),
     (11, SSL_AD_BAD_CERTIFICATE), (8, SSL_AD_DECRYPT_ERROR), (65, SSL_AD_BAD_CERTIFICATE), (18, SSL_AD_UNKNOWN_CA),
     (66, SSL_AD_BAD_CERTIFICATE), (63, SSL_AD_BAD_CERTIFICATE), (14, SSL_AD_BAD_CERTIFICATE), (13, SSL_AD_BAD_CERTIFICATE),
     (15, SSL_AD_BAD_CERTIFICATE), (16, SSL_AD_BAD_CERTIFICATE), (62, SSL_AD_BAD_CERTIFICATE), (79, SSL_AD_UNKNOWN_CA),
     (69, SSL_AD_INTERNAL_ERROR), (26, SSL_AD_UNSUPPORTED_CERTIFICATE), (64, SSL_AD_BAD_CERTIFICATE), (17, SSL_AD_INTERNAL_ERROR),
     (25, SSL_AD_UNKNOWN_CA), (19, SSL_AD_UNKNOWN_CA), (70, SSL_AD_INTERNAL_ERROR), (6, SSL_AD_BAD_CERTIFICATE),
     (4, SSL_AD_BAD_CERTIFICATE), (5, SSL_AD_BAD_CERTIFICATE), (3, SSL_AD_UNKNOWN_CA), (33, SSL_AD_UNKNOWN_CA),
     (2, SSL_AD_UNKNOWN_CA), (20, SSL_AD_UNKNOWN_CA), (21, SSL_AD_UNKNOWN_CA), (1, SSL_AD_INTERNAL_ERROR),
     (0, SSL_AD_CERTIFICATE_UNKNOWN)]"

fun x509table_search :: "(int \<times> ALERT) list \<Rightarrow> int \<Rightarrow> ALERT option" where
  "x509table_search [] err = None"
| "x509table_search ((c, al) # tp) err = (if c = X509_V_OK \<or> c = err then Some al else x509table_search tp err)"

definition ssl_x509err2alert :: "int \<Rightarrow> ALERT option" where
  "ssl_x509err2alert err = x509table_search x509table err"

text \<open>The search ends inside the table, and in particular at its end when no error was recorded.\<close>

lemma x509table_search_total: "X509_V_OK \<in> fst ` set tp \<Longrightarrow> \<exists>al. x509table_search tp err = Some al"
  by (induction tp err rule: x509table_search.induct) auto

lemma ssl_x509err2alert_total: "\<exists>al. ssl_x509err2alert err = Some al"
  unfolding ssl_x509err2alert_def by (rule x509table_search_total) (simp add: x509table_def)

lemma ssl_x509err2alert_none: "ssl_x509err2alert X509_V_OK = Some SSL_AD_CERTIFICATE_UNKNOWN"
  by (simp add: ssl_x509err2alert_def x509table_def)

section \<open>The handshake digest\<close>

definition ssl_handshake_hash :: "tlslib \<Rightarrow> nat \<Rightarrow> SSL \<Rightarrow> bytes option \<times> SSL" where
  "ssl_handshake_hash lb outlen s = (case tl_hash lb s of
      None \<Rightarrow> (None, fatal_internal s)
    | Some h \<Rightarrow> if outlen < length h then (None, fatal_internal s) else (Some h, s))"

definition ssl3_digest_cached_records :: "tlslib \<Rightarrow> bool \<Rightarrow> SSL \<Rightarrow> bool \<times> SSL" where
  "ssl3_digest_cached_records lb keep s =
     (let digested = (\<lambda>s1. (True, if keep then s1 else upd_s3 (\<lambda>t. t\<lparr>handshake_buffer := None\<rparr>) s1))
      in if handshake_dgst (s3 s) \<noteq> None then digested s
         else case handshake_buffer (s3 s) of
           None \<Rightarrow> (False, SSLfatal SSL_AD_INTERNAL_ERROR SSL_R_BAD_HANDSHAKE_LENGTH s)
         | Some hdata \<Rightarrow>
             if hdata = [] then (False, SSLfatal SSL_AD_INTERNAL_ERROR SSL_R_BAD_HANDSHAKE_LENGTH s)
             else if \<not> tl_md_ctx lb s then (False, SSLfatal SSL_AD_INTERNAL_ERROR ERR_R_MALLOC_FAILURE s)
             else
               let s1 = upd_s3 (\<lambda>t. t\<lparr>handshake_dgst := Some []\<rparr>) s
               in if \<not> tl_handshake_md lb s1
                  then (False, SSLfatal SSL_AD_INTERNAL_ERROR SSL_R_NO_SUITABLE_DIGEST_ALGORITHM s1)
                  else if \<not> tl_digest lb s1 hdata then (False, fatal_internal s1)
                  else digested (upd_s3 (\<lambda>t. t\<lparr>handshake_dgst := Some hdata\<rparr>) s1))"

section \<open>CertificateVerify\<close>

text \<open>\<open>TLS 1.3, server CertificateVerify\<close> and \<open>TLS 1.3, client CertificateVerify\<close>.\<close>

definition servercontext :: bytes where
  "servercontext = [0x54, 0x4c, 0x53, 0x20, 0x31, 0x2e, 0x33, 0x2c, 0x20, 0x73, 0x65, 0x72,
     0x76, 0x65, 0x72, 0x20, 0x43, 0x65, 0x72, 0x74, 0x69, 0x66, 0x69, 0x63, 0x61, 0x74, 0x65,
     0x56, 0x65, 0x72, 0x69, 0x66, 0x79]"

definition clientcontext :: bytes where
  "clientcontext = [0x54, 0x4c, 0x53, 0x20, 0x31, 0x2e, 0x33, 0x2c, 0x20, 0x63, 0x6c, 0x69,
     0x65, 0x6e, 0x74, 0x20, 0x43, 0x65, 0x72, 0x74, 0x69, 0x66, 0x69, 0x63, 0x61, 0x74, 0x65,
     0x56, 0x65, 0x72, 0x69, 0x66, 0x79]"

definition get_cert_verify_tbs_data :: "tlslib \<Rightarrow> SSL \<Rightarrow> bytes option \<times> SSL" where
  "get_cert_verify_tbs_data lb s =
     (if SSL_IS_TLS13 s then
        let tbs = replicate 64 32
              @ (if hand s = TLS_ST_CR_CERT_VRFY \<or> hand s = TLS_ST_SW_CERT_VRFY then servercontext else clientcontext)
              @ [0]
        in if hand s = TLS_ST_CR_CERT_VRFY \<or> hand s = TLS_ST_SR_CERT_VRFY
           then (Some (tbs @ cert_verify_hash s), s)
           else (case ssl_handshake_hash lb EVP_MAX_MD_SIZE s of
               (None, s1) \<Rightarrow> (None, s1)
             | (Some h, s1) \<Rightarrow> (Some (tbs @ h), s1))
      else case handshake_buffer (s3 s) of
          None \<Rightarrow> (None, fatal_internal s)
        | Some hdata \<Rightarrow> if hdata = [] then (None, fatal_internal s) else (Some hdata, s))"

text \<open>\<open>s3.tmp.cert\<close> is a slot of \<open>cert->pkeys\<close>.\<close>

definition slot :: "nat \<Rightarrow> SSL \<Rightarrow> CERT_PKEY option" where
  "slot i s = (if i < length (pkeys s) then Some (pkeys s ! i) else None)"

text \<open>The X.509 branch of \<open>tls_construct_cert_verify\<close>.\<close>

definition construct_x509_cert_verify ::
    "env \<Rightarrow> tlslib \<Rightarrow> CERT_PKEY \<Rightarrow> bytes \<Rightarrow> WPACKET \<Rightarrow> SSL \<Rightarrow> bool \<times> WPACKET \<times> SSL" where
  "construct_x509_cert_verify e lb cpk hdata pkt s =
     (if \<not> pk_privatekey cpk \<or> \<not> tl_lookup_md lb s then (False, pkt, fatal_internal s)
      else if \<not> tl_md_ctx lb s then (False, pkt, SSLfatal SSL_AD_INTERNAL_ERROR ERR_R_MALLOC_FAILURE s)
      else case (if tl_use_sigalgs lb s then WPACKET_put_bytes (malloc_ok e) (tl_sigalg lb s) 2 pkt else (True, pkt)) of
          (False, pkt1) \<Rightarrow> (False, pkt1, fatal_internal s)
        | (True, pkt1) \<Rightarrow> (case tl_sign lb s hdata of
            None \<Rightarrow> (False, pkt1, SSLfatal SSL_AD_INTERNAL_ERROR ERR_R_EVP_LIB s)
          | Some sig0 \<Rightarrow>
              let sig = (if tl_gost lb s then rev sig0 else sig0)
              in case WPACKET_sub_memcpy (malloc_ok e) sig 2 pkt1 of
                   (False, pkt2) \<Rightarrow> (False, pkt2, fatal_internal s)
                 | (True, pkt2) \<Rightarrow> (case ssl3_digest_cached_records lb False s of (b, s1) \<Rightarrow> (b, pkt2, s1))))"

definition tls_construct_cert_verify ::
    "env \<Rightarrow> tlslib \<Rightarrow> WPACKET \<Rightarrow> SSL \<Rightarrow> (bool \<times> WPACKET \<times> SSL) option" where
  "tls_construct_cert_verify e lb pkt s = (case tmp_cert (s3 s) of
      None \<Rightarrow> Some (False, pkt, fatal_internal s)
    | Some i \<Rightarrow>
        if \<not> tmp_sigalg (s3 s) then Some (False, pkt, fatal_internal s)
        else case get_cert_verify_tbs_data lb s of
            (None, s1) \<Rightarrow> Some (False, pkt, s1)
          | (Some hdata, s1) \<Rightarrow> do {
              cpk \<leftarrow> slot i s1;
              if SSL_is_using_1609_this_side s1
              then tls_construct_IEEE1609_CERT_cert_verify e (pk_x509 cpk) hdata pkt s1
              else Some (construct_x509_cert_verify e lb cpk hdata pkt s1) })"

text \<open>The length of the signature and its bytes, in the X.509 branch of \<open>tls_process_cert_verify\<close>.\<close>

definition read_signature :: "tlslib \<Rightarrow> PACKET \<Rightarrow> SSL \<Rightarrow> bytes option" where
  "read_signature lb pkt s =
     (if \<not> tl_use_sigalgs lb s \<and> tl_gost_raw lb s (PACKET_remaining pkt)
      then map_option fst (PACKET_get_bytes pkt (PACKET_remaining pkt))
      else do {
        (len, p1) \<leftarrow> PACKET_get_net_2 pkt;
        (data, _) \<leftarrow> PACKET_get_bytes p1 (unat len);
        Some data })"

definition process_x509_signature :: "env \<Rightarrow> tlslib \<Rightarrow> PACKET \<Rightarrow> SSL \<Rightarrow> bool \<times> SSL" where
  "process_x509_signature e lb pkt s =
     (if \<not> tl_lookup_md lb s then (False, fatal_internal s)
      else case read_signature lb pkt s of
          None \<Rightarrow> (False, SSLfatal SSL_AD_DECODE_ERROR SSL_R_LENGTH_MISMATCH s)
        | Some data \<Rightarrow> (case get_cert_verify_tbs_data lb s of
            (None, s1) \<Rightarrow> (False, s1)
          | (Some hdata, s1) \<Rightarrow>
              if \<not> tl_verify_init lb s1 then (False, SSLfatal SSL_AD_INTERNAL_ERROR ERR_R_EVP_LIB s1)
              else (case (if tl_gost lb s1 then OPENSSL_malloc e (length data) (os s1) else (True, os s1)) of
                  (False, w2) \<Rightarrow> (False, SSLfatal SSL_AD_INTERNAL_ERROR ERR_R_MALLOC_FAILURE (s1\<lparr>os := w2\<rparr>))
                | (True, w2) \<Rightarrow>
                    let s2 = s1\<lparr>os := w2\<rparr>; up = tl_verify_setup lb s2 hdata;
                        ok = (up \<and> tl_verify lb s2 (if tl_gost lb s2 then rev data else data) hdata)
                    in (ok, upd_os (OPENSSL_free (tl_gost lb s2))
                         (if ok then s2 else if \<not> up then SSLfatal SSL_AD_INTERNAL_ERROR ERR_R_EVP_LIB s2
                          else SSLfatal SSL_AD_DECRYPT_ERROR SSL_R_BAD_SIGNATURE s2)))))"

definition process_x509_cert_verify ::
    "env \<Rightarrow> tlslib \<Rightarrow> x509_ptr option \<Rightarrow> PACKET \<Rightarrow> SSL \<Rightarrow> (bool \<times> SSL) option" where
  "process_x509_cert_verify e lb x pkt s = (case x of
      None \<Rightarrow> Some (False, fatal_internal s)
    | Some a \<Rightarrow> do {
        ob \<leftarrow> x509s (os s) a;
        if env_pubkey e ob = None then Some (False, fatal_internal s)
        else if \<not> tl_sign_cert lb ob
        then Some (False, SSLfatal SSL_AD_ILLEGAL_PARAMETER SSL_R_SIGNATURE_FOR_NON_SIGNING_CERTIFICATE s)
        else if tl_use_sigalgs lb s then (case PACKET_get_net_2 pkt of
            None \<Rightarrow> Some (False, SSLfatal SSL_AD_DECODE_ERROR SSL_R_BAD_PACKET s)
          | Some (sigalg, p1) \<Rightarrow>
              Some (case tl_check_sigalg lb s (unat sigalg) of
                  (False, s1) \<Rightarrow> (False, s1)
                | (True, s1) \<Rightarrow> process_x509_signature e lb p1 s1))
        else if \<not> tl_legacy_sigalg lb s
        then Some (False, SSLfatal SSL_AD_INTERNAL_ERROR SSL_R_LEGACY_SIGALG_DISALLOWED_OR_UNSUPPORTED s)
        else Some (process_x509_signature e lb pkt s) })"

definition process_1609_cert_verify ::
    "env \<Rightarrow> tlslib \<Rightarrow> x509_ptr option \<Rightarrow> PACKET \<Rightarrow> SSL \<Rightarrow> (bool \<times> SSL) option" where
  "process_1609_cert_verify e lb x pkt s = do {
     (ok, s1) \<leftarrow> IEEE1609_CERT_verify e x s;
     if \<not> ok then Some (False, SSLfatal SSL_AD_INSUFFICIENT_SECURITY ERR_R_INTERNAL_ERROR s1)
     else case PACKET_get_bytes pkt (PACKET_remaining pkt) of
         None \<Rightarrow> Some (False, SSLfatal SSL_AD_DECODE_ERROR SSL_R_LENGTH_MISMATCH s1)
       | Some (data, _) \<Rightarrow> (case get_cert_verify_tbs_data lb s1 of
           (None, s2) \<Rightarrow> Some (False, s2)
         | (Some hdata, s2) \<Rightarrow> tls_process_IEEE1609_CERT_cert_verify e x hdata data s2) }"

definition tls_process_cert_verify ::
    "env \<Rightarrow> tlslib \<Rightarrow> PACKET \<Rightarrow> SSL \<Rightarrow> (MSG_PROCESS_RETURN \<times> SSL) option" where
  "tls_process_cert_verify e lb pkt s =
     (let drop_buffer = upd_s3 (\<lambda>t. t\<lparr>handshake_buffer := None\<rparr>)
      in if \<not> tl_md_ctx lb s
         then Some (MSG_PROCESS_ERROR, drop_buffer (SSLfatal SSL_AD_INTERNAL_ERROR ERR_R_MALLOC_FAILURE s))
         else do {
           (ok, s1) \<leftarrow> (if SSL_is_using_1609_other_side s
                        then process_1609_cert_verify e lb (peer (session s)) pkt s
                        else process_x509_cert_verify e lb (peer (session s)) pkt s);
           Some (if \<not> ok then MSG_PROCESS_ERROR
                 else if \<not> server s1 \<and> SSL_IS_TLS13 s1 \<and> cert_req (s3 s1) = 1
                 then MSG_PROCESS_CONTINUE_PROCESSING else MSG_PROCESS_CONTINUE_READING, drop_buffer s1) })"

section \<open>Sending the Certificate message\<close>

text \<open>
  In the X.509 branch \<open>i2d_X509\<close> writes into the bytes \<open>WPACKET_sub_allocate_bytes_u24\<close> hands out,
  which is what copying its encoding does.
\<close>

definition ssl_add_cert_to_wpacket ::
    "env \<Rightarrow> tlslib \<Rightarrow> x509_ptr option \<Rightarrow> nat \<Rightarrow> WPACKET \<Rightarrow> SSL \<Rightarrow> (bool \<times> WPACKET \<times> SSL) option" where
  "ssl_add_cert_to_wpacket e lb x chain pkt s = do {
     a \<leftarrow> x;
     if SSL_is_using_1609_this_side s then ssl_add_IEEE1609_CERT_to_wpacket e (tl_cert_exts lb) a chain pkt s
     else do {
       ob \<leftarrow> x509s (os s) a;
       Some (case tl_i2d lb ob of
           None \<Rightarrow> (False, pkt, SSLfatal SSL_AD_INTERNAL_ERROR ERR_R_BUF_LIB s)
         | Some der \<Rightarrow> (case WPACKET_sub_memcpy (malloc_ok e) der 3 pkt of
             (False, pkt1) \<Rightarrow> (False, pkt1, fatal_internal s)
           | (True, pkt1) \<Rightarrow> if SSL_IS_TLS13 s then tl_cert_exts lb s pkt1 a chain else (True, pkt1, s))) } }"

fun add_certs :: "env \<Rightarrow> tlslib \<Rightarrow> x509_ptr list \<Rightarrow> nat \<Rightarrow> WPACKET \<Rightarrow> SSL \<Rightarrow> (bool \<times> WPACKET \<times> SSL) option" where
  "add_certs e lb [] i pkt s = Some (True, pkt, s)"
| "add_certs e lb (a # as) i pkt s = do {
     (ok, pkt1, s1) \<leftarrow> ssl_add_cert_to_wpacket e lb (Some a) i pkt s;
     if ok then add_certs e lb as (Suc i) pkt1 s1 else Some (False, pkt1, s1) }"

definition SSL_get_certificate :: "SSL \<Rightarrow> x509_ptr option" where
  "SSL_get_certificate s = Option.bind (slot (cert_key s) s) pk_x509"

definition ssl_add_cert_chain ::
    "env \<Rightarrow> tlslib \<Rightarrow> CERT_PKEY option \<Rightarrow> WPACKET \<Rightarrow> SSL \<Rightarrow> (bool \<times> WPACKET \<times> SSL) option" where
  "ssl_add_cert_chain e lb cpk pkt s = (case Option.bind cpk pk_x509 of
      None \<Rightarrow> if SSL_is_using_1609_this_side s then ssl_add_cert_to_wpacket e lb (SSL_get_certificate s) 0 pkt s
              else Some (True, pkt, s)
    | Some x \<Rightarrow>
        let extra = (case Option.bind cpk pk_chain of Some c \<Rightarrow> Some c | None \<Rightarrow> tl_extra_certs lb)
        in if \<not> tl_no_auto_chain lb \<and> extra = None \<and> tl_has_store lb then
             if \<not> tl_store_ctx lb s then Some (False, pkt, SSLfatal SSL_AD_INTERNAL_ERROR ERR_R_MALLOC_FAILURE s)
             else if \<not> tl_store_init lb s then Some (False, pkt, SSLfatal SSL_AD_INTERNAL_ERROR ERR_R_X509_LIB s)
             else
               let chain = tl_build_chain lb x s;
                   s1 = upd_os ERR_clear_error s;
                   i = tl_security_chain lb (Some chain) None s1
               in if i \<noteq> 1 then Some (False, pkt, SSLfatal SSL_AD_INTERNAL_ERROR (ERR_CODE i) s1)
                  else add_certs e lb chain 0 pkt s1
           else
             let i = tl_security_chain lb extra (Some x) s
             in if i \<noteq> 1 then Some (False, pkt, SSLfatal SSL_AD_INTERNAL_ERROR (ERR_CODE i) s)
                else add_certs e lb (x # (case extra of None \<Rightarrow> [] | Some c \<Rightarrow> c)) 0 pkt s)"

definition ssl3_output_cert_chain ::
    "env \<Rightarrow> tlslib \<Rightarrow> CERT_PKEY option \<Rightarrow> WPACKET \<Rightarrow> SSL \<Rightarrow> (bool \<times> WPACKET \<times> SSL) option" where
  "ssl3_output_cert_chain e lb cpk pkt s = (case WPACKET_start_sub_packet_len (malloc_ok e) 3 pkt of
      (False, pkt1) \<Rightarrow> Some (False, pkt1, fatal_internal s)
    | (True, pkt1) \<Rightarrow> do {
        (ok, pkt2, s1) \<leftarrow> ssl_add_cert_chain e lb cpk pkt1 s;
        if \<not> ok then Some (False, pkt2, s1)
        else case WPACKET_close (malloc_ok e) pkt2 of
            (False, pkt3) \<Rightarrow> Some (False, pkt3, fatal_internal s1)
          | (True, pkt3) \<Rightarrow> Some (True, pkt3, s1) })"

definition tls_construct_server_certificate ::
    "env \<Rightarrow> tlslib \<Rightarrow> WPACKET \<Rightarrow> SSL \<Rightarrow> (bool \<times> WPACKET \<times> SSL) option" where
  "tls_construct_server_certificate e lb pkt s = (case tmp_cert (s3 s) of
      None \<Rightarrow> Some (False, pkt, fatal_internal s)
    | Some i \<Rightarrow> (case (if SSL_IS_TLS13 s then WPACKET_put_bytes (malloc_ok e) 0 1 pkt else (True, pkt)) of
        (False, pkt1) \<Rightarrow> Some (False, pkt1, fatal_internal s)
      | (True, pkt1) \<Rightarrow> do {
          cpk \<leftarrow> slot i s;
          ssl3_output_cert_chain e lb (Some cpk) pkt1 s }))"

definition tls_construct_client_certificate ::
    "env \<Rightarrow> hooks \<Rightarrow> tlslib \<Rightarrow> WPACKET \<Rightarrow> SSL \<Rightarrow> (bool \<times> WPACKET \<times> SSL) option" where
  "tls_construct_client_certificate e hk lb pkt s =
     (case (if SSL_IS_TLS13 s then
              (case pha_context s of
                 None \<Rightarrow> WPACKET_put_bytes (malloc_ok e) 0 1 pkt
               | Some ctx \<Rightarrow> WPACKET_sub_memcpy (malloc_ok e) ctx 1 pkt)
            else (True, pkt)) of
        (False, pkt1) \<Rightarrow> Some (False, pkt1, fatal_internal s)
      | (True, pkt1) \<Rightarrow> do {
          cpk \<leftarrow> (if cert_req (s3 s) = 2 then Some None else map_option Some (slot (cert_key s) s));
          (ok, pkt2, s1) \<leftarrow> ssl3_output_cert_chain e lb cpk pkt1 s;
          Some (if \<not> ok then (False, pkt2, s1)
                else if SSL_IS_TLS13 s1 \<and> SSL_IS_FIRST_HANDSHAKE s1
                     \<and> \<not> hk_change_cipher hk (SSL3_CC_HANDSHAKE + SSL3_CHANGE_CIPHER_CLIENT_WRITE) s1
                then (False, pkt2, SSLfatal SSL_AD_NO_ALERT SSL_R_CANNOT_CHANGE_CIPHER s1)
                else (True, pkt2, s1)) })"

section \<open>Receiving the Certificate message\<close>

definition d2i_X509 :: "tlslib \<Rightarrow> x509_ptr \<Rightarrow> bytes \<Rightarrow> os \<Rightarrow> (x509_ptr option \<times> bytes \<times> os) option" where
  "d2i_X509 lb a data w = (case tl_d2i lb data of
      None \<Rightarrow> do { w1 \<leftarrow> X509_free (Some a) w; Some (None, data, w1) }
    | Some n \<Rightarrow> do {
        ob \<leftarrow> x509s w a;
        Some (Some a, drop n data, w\<lparr>x509s := (x509s w)(a \<mapsto> ob\<lparr>x_der := Some (take n data)\<rparr>)\<rparr>) })"

fun X509_pop_free :: "x509_ptr list \<Rightarrow> os \<Rightarrow> os option" where
  "X509_pop_free [] w = Some w"
| "X509_pop_free (a # as) w = do { w1 \<leftarrow> X509_free (Some a) w; X509_pop_free as w1 }"

text \<open>The extensions of an entry and its place in the list; \<open>Inl b\<close> is the error exit.\<close>

definition cert_entry_exts ::
    "tlslib \<Rightarrow> nat \<Rightarrow> x509_ptr \<Rightarrow> PACKET \<Rightarrow> SSL \<Rightarrow> (x509_ptr option + x509_ptr) \<times> PACKET \<times> SSL" where
  "cert_entry_exts lb chainidx b pkt s =
     (case (if \<not> SSL_IS_TLS13 s then (True, pkt, s)
            else (case PACKET_get_length_prefixed_2 pkt of
                None \<Rightarrow> (False, pkt, SSLfatal SSL_AD_DECODE_ERROR SSL_R_BAD_LENGTH s)
              | Some (exts, p1) \<Rightarrow>
                  (case tl_parse_exts lb exts b chainidx (PACKET_remaining p1 = 0) s of (ok, s1) \<Rightarrow> (ok, p1, s1)))) of
        (False, p2, s2) \<Rightarrow> (Inl (Some b), p2, s2)
      | (True, p2, s2) \<Rightarrow>
          if tl_sk_push lb s2 then (Inr b, p2, s2)
          else (Inl (Some b), p2, SSLfatal SSL_AD_INTERNAL_ERROR ERR_R_MALLOC_FAILURE s2))"

text \<open>After decoding: \<open>x\<close> is the pointer and \<open>rest\<close> what was left of the entry.\<close>

definition cert_entry_decoded ::
    "tlslib \<Rightarrow> ALERT \<Rightarrow> nat \<Rightarrow> x509_ptr option \<Rightarrow> bytes \<Rightarrow> PACKET \<Rightarrow> SSL \<Rightarrow>
     (x509_ptr option + x509_ptr) \<times> PACKET \<times> SSL" where
  "cert_entry_decoded lb al chainidx x rest pkt s = (case x of
      None \<Rightarrow> (Inl None, pkt, SSLfatal al ERR_R_ASN1_LIB s)
    | Some b \<Rightarrow>
        if rest \<noteq> [] then (Inl x, pkt, SSLfatal SSL_AD_DECODE_ERROR SSL_R_CERT_LENGTH_MISMATCH s)
        else cert_entry_exts lb chainidx b pkt s)"

text \<open>
  One entry of the certificate list. \<open>Inl x\<close> is the error exit with the variable \<open>x\<close>, \<open>Inr a\<close> the
  object that was pushed. The two functions that read a list differ in the test for IEEE 1609.2,
  in one alert and in one extra error report.
\<close>

definition cert_entry ::
    "env \<Rightarrow> tlslib \<Rightarrow> (SSL \<Rightarrow> bool) \<Rightarrow> ALERT \<Rightarrow> bool \<Rightarrow> nat \<Rightarrow> PACKET \<Rightarrow> SSL \<Rightarrow>
     ((x509_ptr option + x509_ptr) \<times> PACKET \<times> SSL) option" where
  "cert_entry e lb u al report chainidx pkt s =
     (case do { (l, p1) \<leftarrow> PACKET_get_net_3 pkt; PACKET_get_bytes p1 (unat l) } of
        None \<Rightarrow> Some (Inl None, pkt, SSLfatal SSL_AD_DECODE_ERROR SSL_R_CERT_LENGTH_MISMATCH s)
      | Some (certbytes, p2) \<Rightarrow>
          if \<not> tl_x509_new lb s then
            let s1 = SSLfatal SSL_AD_DECODE_ERROR ERR_R_MALLOC_FAILURE s
            in Some (Inl None, p2, if report then upd_os (ERR_raise ERR_R_MALLOC_FAILURE) s1 else s1)
          else (case X509_alloc \<lparr>x_refs = 1, x_der = None, x_1609 = None\<rparr> (os s) of (a, w1) \<Rightarrow> do {
            (x, rest, w2) \<leftarrow>
              (if u s then map_option snd (X509_set_IEEE1609_CERT e (Some a) certbytes (length certbytes) w1)
               else d2i_X509 lb a certbytes w1);
            Some (cert_entry_decoded lb al chainidx x rest p2 (s\<lparr>os := w2\<rparr>)) }))"

lemma cert_entry_exts_progress:
  assumes "cert_entry_exts lb i b pkt s = (r, p, s1)"
  shows "length p \<le> length pkt"
  using assms prefix2.get_progress [of pkt] unfolding cert_entry_exts_def
  by (force split: option.splits if_splits prod.splits bool.splits)

lemma cert_entry_decoded_progress:
  assumes "cert_entry_decoded lb al i x rest pkt s = (r, p, s1)"
  shows "length p \<le> length pkt"
  using assms cert_entry_exts_progress unfolding cert_entry_decoded_def
  by (fastforce split: option.splits if_splits)

lemma cert_entry_progress:
  assumes "cert_entry e lb u al report i pkt s = Some (Inr b, p, s1)"
  shows "length p < length pkt"
proof -
  have p2: "length p2 < length pkt" if "PACKET_get_net_3 pkt = Some (l, p1)" "PACKET_get_bytes p1 n = Some (cb, p2)" for l p1 n cb p2
    using that by (auto simp: packet_simps split: if_splits)
  show ?thesis
    using assms unfolding cert_entry_def
    by (auto simp: Let_def bind_eq_Some_conv split: option.split_asm if_split_asm prod.split_asm
        dest!: p2 dest: cert_entry_decoded_progress le_less_trans)
qed

function cert_list_loop ::
    "env \<Rightarrow> tlslib \<Rightarrow> (SSL \<Rightarrow> bool) \<Rightarrow> ALERT \<Rightarrow> bool \<Rightarrow> nat \<Rightarrow> PACKET \<Rightarrow> x509_ptr list \<Rightarrow> SSL \<Rightarrow>
     (bool \<times> x509_ptr option \<times> x509_ptr list \<times> SSL) option" where
  "cert_list_loop e lb u al report chainidx pkt sk s =
     (if PACKET_remaining pkt = 0 then Some (True, None, sk, s)
      else (case cert_entry e lb u al report chainidx pkt s of
          None \<Rightarrow> None
        | Some (Inl x, p1, s1) \<Rightarrow> Some (False, x, sk, s1)
        | Some (Inr b, p1, s1) \<Rightarrow> cert_list_loop e lb u al report (Suc chainidx) p1 (sk @ [b]) s1))"
  by pat_completeness auto
termination
  by (relation "measure (\<lambda>(e, lb, u, al, report, i, pkt, sk, s). length pkt)") (auto dest: cert_entry_progress)

declare cert_list_loop.simps [simp del]

text \<open>
  The client. \<open>session->peer_chain\<close> is the list being built; the extension parsers do not read it.
\<close>

definition tls_process_server_certificate ::
    "env \<Rightarrow> tlslib \<Rightarrow> PACKET \<Rightarrow> SSL \<Rightarrow> (MSG_PROCESS_RETURN \<times> SSL) option" where
  "tls_process_server_certificate e lb pkt s =
     (let no_chain = upd_sess (\<lambda>t. t\<lparr>peer_chain := None\<rparr>)
      in if \<not> tl_sk_new lb s
         then Some (MSG_PROCESS_ERROR, no_chain (SSLfatal SSL_AD_INTERNAL_ERROR ERR_R_MALLOC_FAILURE s))
         else case do {
             (context, p1) \<leftarrow> (if SSL_IS_TLS13 s then PACKET_get_1 pkt else Some (0, pkt));
             guardb (context = 0);
             (cert_list_len, p2) \<leftarrow> PACKET_get_net_3 p1;
             guardb (PACKET_remaining p2 = unat cert_list_len \<and> PACKET_remaining p2 \<noteq> 0);
             Some p2 } of
           None \<Rightarrow> Some (MSG_PROCESS_ERROR, no_chain (SSLfatal SSL_AD_DECODE_ERROR SSL_R_LENGTH_MISMATCH s))
         | Some p2 \<Rightarrow> do {
             (ok, x, sk, s1) \<leftarrow> cert_list_loop e lb SSL_is_using_1609_server SSL_AD_BAD_CERTIFICATE True 0 p2 [] s;
             if ok then Some (MSG_PROCESS_CONTINUE_PROCESSING, upd_sess (\<lambda>t. t\<lparr>peer_chain := Some sk\<rparr>) s1)
             else do {
               w1 \<leftarrow> X509_free x (os s1);
               w2 \<leftarrow> X509_pop_free sk w1;
               Some (MSG_PROCESS_ERROR, no_chain (s1\<lparr>os := w2\<rparr>)) } })"

definition ssl_verify_cert_chain :: "env \<Rightarrow> tlslib \<Rightarrow> x509_ptr list option \<Rightarrow> SSL \<Rightarrow> (int \<times> SSL) option" where
  "ssl_verify_cert_chain e lb sk s = (case sk of
      None \<Rightarrow> Some (0, s)
    | Some [] \<Rightarrow> Some (0, s)
    | Some (x # xs) \<Rightarrow>
        if \<not> tl_store_ctx lb s then Some (0, upd_os (ERR_raise ERR_R_MALLOC_FAILURE) s)
        else do {
          is1609 \<leftarrow> X509_is_IEEE1609_CERT (Some x) (os s);
          if is1609 then do {
            (i, s1) \<leftarrow> IEEE1609_CERT_verify e (Some x) s;
            Some (if i then (1, s1) else (0, upd_os (ERR_raise ERR_R_INTERNAL_ERROR) s1)) }
          else if \<not> tl_store_init lb s then Some (0, upd_os (ERR_raise ERR_R_X509_LIB) s)
          else Some (tl_x509_verify lb (x # xs) s) })"

text \<open>The public key checks of the client on an X.509 certificate: the alert and reason of a failure.\<close>

definition server_key_check :: "env \<Rightarrow> tlslib \<Rightarrow> X509 \<Rightarrow> SSL \<Rightarrow> (ALERT \<times> err_reason) option" where
  "server_key_check e lb ob s = (case env_pubkey e ob of
      None \<Rightarrow> Some (SSL_AD_INTERNAL_ERROR, SSL_R_UNABLE_TO_FIND_PUBLIC_KEY_PARAMETERS)
    | Some ty \<Rightarrow>
        if tl_missing_params lb ob
        then Some (SSL_AD_INTERNAL_ERROR, SSL_R_UNABLE_TO_FIND_PUBLIC_KEY_PARAMETERS)
        else (case ty of
            None \<Rightarrow> Some (SSL_AD_ILLEGAL_PARAMETER, SSL_R_UNKNOWN_CERTIFICATE_TYPE)
          | Some i \<Rightarrow>
              if \<not> SSL_IS_TLS13 s \<and> tl_amask lb i AND algorithm_auth (the_cipher s) = 0
              then Some (SSL_AD_ILLEGAL_PARAMETER, SSL_R_WRONG_CERTIFICATE_TYPE) else None))"

definition tls_post_process_server_certificate :: "env \<Rightarrow> tlslib \<Rightarrow> SSL \<Rightarrow> (WORK_STATE \<times> SSL) option" where
  "tls_post_process_server_certificate e lb s = do {
     (i, s1) \<leftarrow> ssl_verify_cert_chain e lb (peer_chain (session s))
                 (if rwstate s = SSL_RETRY_VERIFY then s\<lparr>rwstate := SSL_NOTHING\<rparr> else s);
     if 0 < i \<and> rwstate s1 = SSL_RETRY_VERIFY then Some (WORK_MORE_A, s1)
     else if verify_mode s1 \<noteq> SSL_VERIFY_NONE \<and> i \<le> 0
     then Some (WORK_ERROR, SSLfatal (the (ssl_x509err2alert (verify_result s1))) SSL_R_CERTIFICATE_VERIFY_FAILED s1)
     else do {
       s2 \<leftarrow> Some (upd_os ERR_clear_error s1);
       x \<leftarrow> Some (case peer_chain (session s2) of Some (a # _) \<Rightarrow> Some a | _ \<Rightarrow> None);
       is1609 \<leftarrow> X509_is_IEEE1609_CERT x (os s2);
       bad \<leftarrow> (if is1609 then Some None else (case x of
            None \<Rightarrow> Some (Some (SSL_AD_INTERNAL_ERROR, SSL_R_UNABLE_TO_FIND_PUBLIC_KEY_PARAMETERS))
          | Some a \<Rightarrow> do { ob \<leftarrow> x509s (os s2) a; Some (server_key_check e lb ob s2) }));
       case bad of
         Some (al, r) \<Rightarrow> Some (WORK_ERROR, SSLfatal al r s2)
       | None \<Rightarrow> do {
           w3 \<leftarrow> X509_free (peer (session s2)) (os s2);
           a \<leftarrow> x;
           w4 \<leftarrow> X509_up_ref a w3;
           t3 \<leftarrow> Some (upd_sess (\<lambda>t. t\<lparr>peer := x, sess_verify_result := verify_result s2\<rparr>) (s2\<lparr>os := w4\<rparr>));
           Some (if \<not> SSL_IS_TLS13 t3 then (WORK_FINISHED_CONTINUE, t3)
                 else case ssl_handshake_hash lb EVP_MAX_MD_SIZE t3 of
                     (None, s4) \<Rightarrow> (WORK_ERROR, s4)
                   | (Some h, s4) \<Rightarrow> (WORK_FINISHED_CONTINUE, s4\<lparr>cert_verify_hash := h\<rparr>)) } } }"

text \<open>The server: the list, then the checks on it, then the new session and its peer.\<close>

definition client_cert_list :: "env \<Rightarrow> tlslib \<Rightarrow> PACKET \<Rightarrow> SSL \<Rightarrow> (bool \<times> x509_ptr option \<times> x509_ptr list \<times> SSL) option" where
  "client_cert_list e lb pkt s =
     (case (if SSL_IS_TLS13 s then do {
              (context, p1) \<leftarrow> PACKET_get_length_prefixed_1 pkt;
              guardb (case pha_context s of
                  None \<Rightarrow> PACKET_remaining context = 0
                | Some c \<Rightarrow> PACKET_equal context c (length c));
              Some p1 } else Some pkt) of
        None \<Rightarrow> Some (False, None, [], SSLfatal SSL_AD_DECODE_ERROR SSL_R_INVALID_CONTEXT s)
      | Some p1 \<Rightarrow> (case do {
            (spkt, p2) \<leftarrow> PACKET_get_length_prefixed_3 p1;
            guardb (PACKET_remaining p2 = 0);
            Some spkt } of
          None \<Rightarrow> Some (False, None, [], SSLfatal SSL_AD_DECODE_ERROR SSL_R_LENGTH_MISMATCH s)
        | Some spkt \<Rightarrow> cert_list_loop e lb SSL_is_using_1609_client SSL_AD_DECODE_ERROR False 0 spkt [] s))"

definition client_cert_check :: "env \<Rightarrow> tlslib \<Rightarrow> x509_ptr list \<Rightarrow> SSL \<Rightarrow> (bool \<times> SSL) option" where
  "client_cert_check e lb sk s =
     (if sk = [] then
        if version s = SSL3_VERSION
        then Some (False, SSLfatal SSL_AD_HANDSHAKE_FAILURE SSL_R_NO_CERTIFICATES_RETURNED s)
        else if has (verify_mode s) SSL_VERIFY_PEER \<and> has (verify_mode s) SSL_VERIFY_FAIL_IF_NO_PEER_CERT
        then Some (False, SSLfatal SSL_AD_CERTIFICATE_REQUIRED SSL_R_PEER_DID_NOT_RETURN_A_CERTIFICATE s)
        else if handshake_buffer (s3 s) \<noteq> None then Some (ssl3_digest_cached_records lb False s)
        else Some (True, s)
      else do {
        (i, s1) \<leftarrow> ssl_verify_cert_chain e lb (Some sk) s;
        if i \<le> 0
        then Some (False, SSLfatal (the (ssl_x509err2alert (verify_result s1))) SSL_R_CERTIFICATE_VERIFY_FAILED s1)
        else do {
          is1609 \<leftarrow> X509_is_IEEE1609_CERT (Some (hd sk)) (os s1);
          if is1609 then Some (True, s1)
          else do {
            ob \<leftarrow> x509s (os s1) (hd sk);
            Some (if env_pubkey e ob = None
                  then (False, SSLfatal SSL_AD_HANDSHAKE_FAILURE SSL_R_UNKNOWN_CERTIFICATE_TYPE s1)
                  else (True, s1)) } } })"

text \<open>A session duplicate has the contents of the original.\<close>

definition client_cert_hash :: "tlslib \<Rightarrow> SSL \<Rightarrow> bool \<times> SSL" where
  "client_cert_hash lb s =
     (if \<not> SSL_IS_TLS13 s then (True, s)
      else (case ssl3_digest_cached_records lb True s of
          (False, s1) \<Rightarrow> (False, s1)
        | (True, s1) \<Rightarrow> (case ssl_handshake_hash lb EVP_MAX_MD_SIZE s1 of
            (None, s2) \<Rightarrow> (False, s2)
          | (Some h, s2) \<Rightarrow> (True, s2\<lparr>cert_verify_hash := h, sent_tickets := 0\<rparr>))))"

definition client_cert_install :: "tlslib \<Rightarrow> x509_ptr list \<Rightarrow> SSL \<Rightarrow> (bool \<times> SSL) option" where
  "client_cert_install lb sk s = do {
     w1 \<leftarrow> X509_free (peer (session s)) (os s);
     w2 \<leftarrow> X509_pop_free (case peer_chain (session s) of None \<Rightarrow> [] | Some c \<Rightarrow> c) w1;
     Some (client_cert_hash lb (upd_sess (\<lambda>t. t\<lparr>peer := (case sk of [] \<Rightarrow> None | a # _ \<Rightarrow> Some a),
       peer_chain := Some (drop 1 sk), sess_verify_result := verify_result s\<rparr>) (s\<lparr>os := w2\<rparr>))) }"

definition tls_process_client_certificate ::
    "env \<Rightarrow> tlslib \<Rightarrow> PACKET \<Rightarrow> SSL \<Rightarrow> (MSG_PROCESS_RETURN \<times> SSL) option" where
  "tls_process_client_certificate e lb pkt s0 =
     (let s = upd_st (\<lambda>st. st\<lparr>enc_read_state := ENC_READ_STATE_VALID\<rparr>) s0;
          fail = (\<lambda>x sk t. do {
            w1 \<leftarrow> X509_free x (os t);
            w2 \<leftarrow> X509_pop_free sk w1;
            Some (MSG_PROCESS_ERROR, t\<lparr>os := w2\<rparr>) })
      in if \<not> tl_sk_new lb s then fail None [] (SSLfatal SSL_AD_INTERNAL_ERROR ERR_R_MALLOC_FAILURE s)
         else do {
           (ok, x, sk, s1) \<leftarrow> client_cert_list e lb pkt s;
           if \<not> ok then fail x sk s1
           else do {
             (ok2, s2) \<leftarrow> client_cert_check e lb sk s1;
             if \<not> ok2 then fail None sk s2
             else if post_handshake_auth s2 = SSL_PHA_REQUESTED \<and> \<not> tl_sess_dup lb s2
             then fail None sk (SSLfatal SSL_AD_INTERNAL_ERROR ERR_R_MALLOC_FAILURE s2)
             else do {
               (ok3, t3) \<leftarrow> client_cert_install lb sk s2;
               Some (if ok3 then MSG_PROCESS_CONTINUE_READING else MSG_PROCESS_ERROR, t3) } } })"

end
