(* ===== verification/Statem_Messages.thy ===== *)
theory Statem_Messages
  imports Statem_Common Wpacket Packet_Reader
begin

text \<open>
  The messages both sides construct and process the same way (\<^verbatim>\<open>statem_lib.c\<close>, \<^verbatim>\<open>s3_msg.c\<close>): Finished,
  KeyUpdate and ChangeCipherSpec. The Finished MAC itself is the parameter \<open>hk_finish_mac\<close>.
\<close>

abbreviation (input) SSL_KEY_UPDATE_NOT_REQUESTED :: int where "SSL_KEY_UPDATE_NOT_REQUESTED \<equiv> 0"
abbreviation (input) SSL_KEY_UPDATE_REQUESTED :: int where "SSL_KEY_UPDATE_REQUESTED \<equiv> 1"
abbreviation (input) DTLS1_CCS_HEADER_LENGTH :: nat where "DTLS1_CCS_HEADER_LENGTH \<equiv> 1"
abbreviation (input) SSL3_MT_CCS :: nat where "SSL3_MT_CCS \<equiv> 1"

section \<open>Finished\<close>

definition tls_construct_finished :: "mem_ok \<Rightarrow> hooks \<Rightarrow> WPACKET \<Rightarrow> SSL \<Rightarrow> bool \<times> WPACKET \<times> SSL" where
  "tls_construct_finished ok hk pkt s0 =
     (let s = (if \<not> server s0 \<and> post_handshake_auth s0 \<noteq> SSL_PHA_REQUESTED
               then upd_st (\<lambda>st. st\<lparr>cleanuphand := True\<rparr>) s0 else s0)
      in if SSL_IS_TLS13 s \<and> \<not> server s \<and> cert_req (s3 s) = 0
            \<and> \<not> hk_change_cipher hk (SSL3_CC_HANDSHAKE + SSL3_CHANGE_CIPHER_CLIENT_WRITE) s
         then (False, pkt, fatal_internal s)
         else
           let md = hk_finish_mac hk (server s) s
           in if md = [] then (False, pkt, fatal_internal s)
              else
                let s1 = upd_s3 (\<lambda>t. t\<lparr>finish_md_len := length md\<rparr>) s
                in case WPACKET_memcpy ok md pkt of
                     (False, pkt1) \<Rightarrow> (False, pkt1, fatal_internal s1)
                   | (True, pkt1) \<Rightarrow>
                       if \<not> SSL_IS_TLS13 s1 \<and> \<not> hk_log_secret hk s1 then (False, pkt1, fatal_internal s1)
                       else if 64 < length md then (False, pkt1, fatal_internal s1)
                       else (True, pkt1, if \<not> server s1 then upd_s3 (\<lambda>t. t\<lparr>previous_client_finished := md\<rparr>) s1
                                         else upd_s3 (\<lambda>t. t\<lparr>previous_server_finished := md\<rparr>) s1))"

definition ssl3_take_mac :: "hooks \<Rightarrow> SSL \<Rightarrow> bool \<times> SSL" where
  "ssl3_take_mac hk s =
     (let md = hk_finish_mac hk (\<not> server s) s;
          s1 = upd_s3 (\<lambda>t. t\<lparr>peer_finish_md := md, peer_finish_md_len := length md\<rparr>) s
      in if md = [] then (False, fatal_internal s1) else (True, s1))"

text \<open>The change of keys in TLS 1.3 once the peer's Finished was checked.\<close>

definition finished13_keys :: "hooks \<Rightarrow> SSL \<Rightarrow> bool" where
  "finished13_keys hk s \<longleftrightarrow>
     (if server s then post_handshake_auth s = SSL_PHA_REQUESTED
        \<or> hk_change_cipher hk (SSL3_CC_APPLICATION + SSL3_CHANGE_CIPHER_SERVER_READ) s
      else hk_gen_master hk s \<and> hk_change_cipher hk (SSL3_CC_APPLICATION + SSL3_CHANGE_CIPHER_CLIENT_READ) s
        \<and> hk_initial_flight hk s)"

definition tls_process_finished :: "hooks \<Rightarrow> PACKET \<Rightarrow> SSL \<Rightarrow> MSG_PROCESS_RETURN \<times> SSL" where
  "tls_process_finished hk pkt s0 =
     (let s = (if server s0 then upd_st (\<lambda>st. st\<lparr>enc_read_state := ENC_READ_STATE_VALID,
                 cleanuphand := (post_handshake_auth s0 \<noteq> SSL_PHA_REQUESTED \<or> cleanuphand st)\<rparr>) s0 else s0)
      in if server s \<and> SSL_IS_TLS13 s \<and> \<not> hk_pha_save hk s then (MSG_PROCESS_ERROR, fatal_internal s)
         else if SSL_IS_TLS13 s \<and> hk_read_pending hk s
         then (MSG_PROCESS_ERROR, SSLfatal SSL_AD_UNEXPECTED_MESSAGE SSL_R_NOT_ON_RECORD_BOUNDARY s)
         else if \<not> SSL_IS_TLS13 s \<and> \<not> change_cipher_spec (s3 s)
         then (MSG_PROCESS_ERROR, SSLfatal SSL_AD_UNEXPECTED_MESSAGE SSL_R_GOT_A_FIN_BEFORE_A_CCS s)
         else
           let s1 = upd_s3 (\<lambda>t. t\<lparr>change_cipher_spec := False\<rparr>) s;
               md_len = peer_finish_md_len (s3 s1);
               md = take md_len (peer_finish_md (s3 s1))
           in if md_len \<noteq> PACKET_remaining pkt
              then (MSG_PROCESS_ERROR, SSLfatal SSL_AD_DECODE_ERROR SSL_R_BAD_DIGEST_LENGTH s1)
              else if take md_len pkt \<noteq> md
              then (MSG_PROCESS_ERROR, SSLfatal SSL_AD_DECRYPT_ERROR SSL_R_DIGEST_CHECK_FAILED s1)
              else if 64 < md_len then (MSG_PROCESS_ERROR, fatal_internal s1)
              else
                let s2 = (if server s1 then upd_s3 (\<lambda>t. t\<lparr>previous_client_finished := md\<rparr>) s1
                          else upd_s3 (\<lambda>t. t\<lparr>previous_server_finished := md\<rparr>) s1)
                in if SSL_IS_TLS13 s2 \<and> \<not> finished13_keys hk s2 then (MSG_PROCESS_ERROR, fatal_internal s2)
                   else (MSG_PROCESS_FINISHED_READING, s2))"

section \<open>KeyUpdate\<close>

definition tls_construct_key_update :: "mem_ok \<Rightarrow> WPACKET \<Rightarrow> SSL \<Rightarrow> bool \<times> WPACKET \<times> SSL" where
  "tls_construct_key_update ok pkt s =
     (case WPACKET_put_bytes ok (unat (word_of_int (key_update s) :: u64)) 1 pkt of
        (False, pkt1) \<Rightarrow> (False, pkt1, fatal_internal s)
      | (True, pkt1) \<Rightarrow> (True, pkt1, s\<lparr>key_update := SSL_KEY_UPDATE_NONE\<rparr>))"

definition tls_process_key_update :: "hooks \<Rightarrow> PACKET \<Rightarrow> SSL \<Rightarrow> MSG_PROCESS_RETURN \<times> SSL" where
  "tls_process_key_update hk pkt s =
     (if hk_read_pending hk s
      then (MSG_PROCESS_ERROR, SSLfatal SSL_AD_UNEXPECTED_MESSAGE SSL_R_NOT_ON_RECORD_BOUNDARY s)
      else case PACKET_get_1 pkt of
          None \<Rightarrow> (MSG_PROCESS_ERROR, SSLfatal SSL_AD_DECODE_ERROR SSL_R_BAD_KEY_UPDATE s)
        | Some (updatetype, p1) \<Rightarrow>
            if PACKET_remaining p1 \<noteq> 0
            then (MSG_PROCESS_ERROR, SSLfatal SSL_AD_DECODE_ERROR SSL_R_BAD_KEY_UPDATE s)
            else if uint updatetype \<noteq> SSL_KEY_UPDATE_NOT_REQUESTED \<and> uint updatetype \<noteq> SSL_KEY_UPDATE_REQUESTED
            then (MSG_PROCESS_ERROR, SSLfatal SSL_AD_ILLEGAL_PARAMETER SSL_R_BAD_KEY_UPDATE s)
            else
              let s1 = (if uint updatetype = SSL_KEY_UPDATE_REQUESTED
                        then s\<lparr>key_update := SSL_KEY_UPDATE_NOT_REQUESTED\<rparr> else s)
              in if \<not> hk_update_key hk False s1 then (MSG_PROCESS_ERROR, fatal_internal s1)
                 else (MSG_PROCESS_FINISHED_READING, s1))"

section \<open>ChangeCipherSpec\<close>

definition tls_construct_change_cipher_spec :: "mem_ok \<Rightarrow> WPACKET \<Rightarrow> SSL \<Rightarrow> bool \<times> WPACKET \<times> SSL" where
  "tls_construct_change_cipher_spec ok pkt s = (case WPACKET_put_bytes ok SSL3_MT_CCS 1 pkt of
      (False, pkt1) \<Rightarrow> (False, pkt1, fatal_internal s)
    | (True, pkt1) \<Rightarrow> (True, pkt1, s))"

definition ssl3_do_change_cipher_spec :: "hooks \<Rightarrow> SSL \<Rightarrow> bool \<times> SSL" where
  "ssl3_do_change_cipher_spec hk s =
     (let i = (if server s then SSL3_CHANGE_CIPHER_SERVER_READ else SSL3_CHANGE_CIPHER_CLIENT_READ)
      in if \<not> hk_key_block hk s \<and> \<not> hk_master_key hk s then (False, upd_os (ERR_raise SSL_R_CCS_RECEIVED_EARLY) s)
         else
           let s1 = (if hk_key_block hk s then s else upd_sess (\<lambda>t. t\<lparr>sess_cipher := new_cipher (s3 s)\<rparr>) s)
           in if \<not> hk_key_block hk s \<and> \<not> hk_setup_key_block hk s1 then (False, fatal_internal s1)
              else if \<not> hk_change_cipher hk i s1 then (False, fatal_internal s1)
              else (True, s1))"

definition tls_process_change_cipher_spec :: "hooks \<Rightarrow> PACKET \<Rightarrow> SSL \<Rightarrow> MSG_PROCESS_RETURN \<times> SSL" where
  "tls_process_change_cipher_spec hk pkt s =
     (let remain = PACKET_remaining pkt
      in if (if SSL_IS_DTLS s
             then version s = DTLS1_BAD_VER \<and> remain \<noteq> DTLS1_CCS_HEADER_LENGTH + 1
                  \<or> version s \<noteq> DTLS1_BAD_VER \<and> remain \<noteq> DTLS1_CCS_HEADER_LENGTH - 1
             else remain \<noteq> 0)
         then (MSG_PROCESS_ERROR, SSLfatal SSL_AD_DECODE_ERROR SSL_R_BAD_CHANGE_CIPHER_SPEC s)
         else if new_cipher (s3 s) = None
         then (MSG_PROCESS_ERROR, SSLfatal SSL_AD_UNEXPECTED_MESSAGE SSL_R_CCS_RECEIVED_EARLY s)
         else (case ssl3_do_change_cipher_spec hk (upd_s3 (\<lambda>t. t\<lparr>change_cipher_spec := True\<rparr>) s) of
             (False, s1) \<Rightarrow> (MSG_PROCESS_ERROR, fatal_internal s1)
           | (True, s1) \<Rightarrow> (MSG_PROCESS_CONTINUE_READING, s1)))"

end
