(* ===== verification/Statem_Flow.thy ===== *)
theory Statem_Flow
  imports Statem_Client Statem_Server Cert_Messages Statem_Messages
begin

text \<open>
  The message flow state machine (\<^verbatim>\<open>ssl/statem/statem.c\<close>): \<open>state_machine\<close> and its two sub-machines,
  on top of the transitions and handlers of both sides. The record layer and the handlers of the
  messages that are not modelled are the record \<open>machine\<close>. One pass of a \<open>while\<close> loop is a function;
  the loops, which may run for as long as the peer sends messages, are partial functions. \<open>None\<close>
  stands for a run that does not end or has undefined behaviour.
\<close>

datatype SUB_STATE_RETURN = SUB_STATE_ERROR | SUB_STATE_FINISHED | SUB_STATE_END_HANDSHAKE

record machine =
  mc_env :: env
  mc_hooks :: hooks
  mc_lib :: tlslib
  mc_process :: "PACKET \<Rightarrow> SSL \<Rightarrow> MSG_PROCESS_RETURN \<times> SSL" \<comment> \<open>the other handlers, by handshake state\<close>
  mc_post :: "WORK_STATE \<Rightarrow> SSL \<Rightarrow> WORK_STATE \<times> SSL"
  mc_construct :: "WPACKET \<Rightarrow> SSL \<Rightarrow> int \<times> WPACKET \<times> SSL"
  mc_header :: "SSL \<Rightarrow> nat option \<times> SSL"  \<comment> \<open>\<open>tls_get_message_header\<close>: a message type or nothing yet\<close>
  mc_body :: "SSL \<Rightarrow> bytes option \<times> SSL"  \<comment> \<open>\<open>tls_get_message_body\<close>\<close>
  mc_grow :: "nat \<Rightarrow> SSL \<Rightarrow> bool"         \<comment> \<open>\<open>grow_init_buf\<close>\<close>
  mc_do_write :: "SSL \<Rightarrow> int \<times> SSL"       \<comment> \<open>\<open>statem_do_write\<close>\<close>
  mc_clear :: "SSL \<Rightarrow> bool \<times> SSL"         \<comment> \<open>\<open>SSL_clear\<close>\<close>
  mc_security :: "SSL \<Rightarrow> bool"            \<comment> \<open>\<open>ssl_security\<close> of the version\<close>
  mc_new_buf :: "SSL \<Rightarrow> BUF_MEM option"   \<comment> \<open>\<open>BUF_MEM_new\<close> and \<open>BUF_MEM_grow\<close>\<close>
  mc_buffers :: "SSL \<Rightarrow> bool"             \<comment> \<open>\<open>ssl3_setup_buffers\<close>\<close>
  mc_init_wbio :: "SSL \<Rightarrow> bool"           \<comment> \<open>\<open>ssl_init_wbio_buffer\<close>\<close>

section \<open>Dispatch on the handshake state\<close>

definition ossl_statem_client_process_message ::
    "machine \<Rightarrow> PACKET \<Rightarrow> SSL \<Rightarrow> (MSG_PROCESS_RETURN \<times> SSL) option" where
  "ossl_statem_client_process_message m pkt s =
     (if hand s = TLS_ST_CR_CERT then tls_process_server_certificate (mc_env m) (mc_lib m) pkt s
      else if hand s = TLS_ST_CR_CERT_VRFY then tls_process_cert_verify (mc_env m) (mc_lib m) pkt s
      else if hand s = TLS_ST_CR_CHANGE then Some (tls_process_change_cipher_spec (mc_hooks m) pkt s)
      else if hand s = TLS_ST_CR_FINISHED then Some (tls_process_finished (mc_hooks m) pkt s)
      else if hand s = TLS_ST_CR_KEY_UPDATE then Some (tls_process_key_update (mc_hooks m) pkt s)
      else if hand s \<in> {TLS_ST_CR_SRVR_HELLO, DTLS_ST_CR_HELLO_VERIFY_REQUEST, TLS_ST_CR_CERT_STATUS,
                TLS_ST_CR_KEY_EXCH, TLS_ST_CR_CERT_REQ, TLS_ST_CR_SRVR_DONE, TLS_ST_CR_SESSION_TICKET,
                TLS_ST_CR_HELLO_REQ, TLS_ST_CR_ENCRYPTED_EXTENSIONS} then Some (mc_process m pkt s)
      else Some (MSG_PROCESS_ERROR, fatal_internal s))"

definition ossl_statem_client_post_process_message ::
    "machine \<Rightarrow> WORK_STATE \<Rightarrow> SSL \<Rightarrow> (WORK_STATE \<times> SSL) option" where
  "ossl_statem_client_post_process_message m wst s =
     (if hand s = TLS_ST_CR_CERT then tls_post_process_server_certificate (mc_env m) (mc_lib m) s
      else if hand s = TLS_ST_CR_CERT_VRFY \<or> hand s = TLS_ST_CR_CERT_REQ then Some (mc_post m wst s)
      else Some (WORK_ERROR, fatal_internal s))"

definition ossl_statem_server_process_message ::
    "machine \<Rightarrow> PACKET \<Rightarrow> SSL \<Rightarrow> (MSG_PROCESS_RETURN \<times> SSL) option" where
  "ossl_statem_server_process_message m pkt s =
     (if hand s = TLS_ST_SR_CERT then tls_process_client_certificate (mc_env m) (mc_lib m) pkt s
      else if hand s = TLS_ST_SR_CERT_VRFY then tls_process_cert_verify (mc_env m) (mc_lib m) pkt s
      else if hand s = TLS_ST_SR_CHANGE then Some (tls_process_change_cipher_spec (mc_hooks m) pkt s)
      else if hand s = TLS_ST_SR_FINISHED then Some (tls_process_finished (mc_hooks m) pkt s)
      else if hand s = TLS_ST_SR_KEY_UPDATE then Some (tls_process_key_update (mc_hooks m) pkt s)
      else if hand s \<in> {TLS_ST_SR_CLNT_HELLO, TLS_ST_SR_END_OF_EARLY_DATA, TLS_ST_SR_KEY_EXCH,
                TLS_ST_SR_NEXT_PROTO} then Some (mc_process m pkt s)
      else Some (MSG_PROCESS_ERROR, fatal_internal s))"

definition ossl_statem_server_post_process_message ::
    "machine \<Rightarrow> WORK_STATE \<Rightarrow> SSL \<Rightarrow> (WORK_STATE \<times> SSL) option" where
  "ossl_statem_server_post_process_message m wst s =
     (if hand s = TLS_ST_SR_CLNT_HELLO \<or> hand s = TLS_ST_SR_KEY_EXCH then Some (mc_post m wst s)
      else Some (WORK_ERROR, fatal_internal s))"

text \<open>The construction functions \<open>confunc\<close>; a hello request has none.\<close>

definition as_int :: "bool \<times> WPACKET \<times> SSL \<Rightarrow> int \<times> WPACKET \<times> SSL" where
  "as_int r = (case r of (b, p, s) \<Rightarrow> (if b then 1 else 0, p, s))"

definition confunc :: "machine \<Rightarrow> WPACKET \<Rightarrow> SSL \<Rightarrow> (int \<times> WPACKET \<times> SSL) option" where
  "confunc m pkt s =
     (let ok = malloc_ok (mc_env m)
      in if hand s = TLS_ST_SW_HELLO_REQ then Some (1, pkt, s)
         else if hand s = TLS_ST_SW_CERT
         then map_option as_int (tls_construct_server_certificate (mc_env m) (mc_lib m) pkt s)
         else if hand s = TLS_ST_CW_CERT
         then map_option as_int (tls_construct_client_certificate (mc_env m) (mc_hooks m) (mc_lib m) pkt s)
         else if hand s = TLS_ST_SW_CERT_VRFY \<or> hand s = TLS_ST_CW_CERT_VRFY
         then map_option as_int (tls_construct_cert_verify (mc_env m) (mc_lib m) pkt s)
         else if hand s = TLS_ST_SW_FINISHED \<or> hand s = TLS_ST_CW_FINISHED
         then Some (as_int (tls_construct_finished ok (mc_hooks m) pkt s))
         else if hand s = TLS_ST_SW_KEY_UPDATE \<or> hand s = TLS_ST_CW_KEY_UPDATE
         then Some (as_int (tls_construct_key_update ok pkt s))
         else if (hand s = TLS_ST_SW_CHANGE \<or> hand s = TLS_ST_CW_CHANGE) \<and> \<not> SSL_IS_DTLS s
         then Some (as_int (tls_construct_change_cipher_spec ok pkt s))
         else Some (mc_construct m pkt s))"

definition ssl3_set_handshake_header :: "mem_ok \<Rightarrow> nat \<Rightarrow> WPACKET \<Rightarrow> bool \<times> WPACKET" where
  "ssl3_set_handshake_header ok htype pkt =
     (if htype = SSL3_MT_CHANGE_CIPHER_SPEC then (True, pkt)
      else wseq (WPACKET_put_bytes ok htype 1) (WPACKET_start_sub_packet_len ok 3) pkt)"

definition tls_close_construct_packet :: "mem_ok \<Rightarrow> nat \<Rightarrow> WPACKET \<Rightarrow> SSL \<Rightarrow> bool \<times> WPACKET \<times> SSL" where
  "tls_close_construct_packet ok htype pkt s =
     (case (if htype = SSL3_MT_CHANGE_CIPHER_SPEC then (True, pkt) else WPACKET_close ok pkt) of
        (False, pkt1) \<Rightarrow> (False, pkt1, s)
      | (True, pkt1) \<Rightarrow> (case WPACKET_get_length pkt1 of
          None \<Rightarrow> (False, pkt1, s)
        | Some msglen \<Rightarrow>
            if INT_MAX < msglen then (False, pkt1, s) else (True, pkt1, s\<lparr>init_num := msglen, init_off := 0\<rparr>)))"

section \<open>Writing\<close>

definition write_transition :: "machine \<Rightarrow> SSL \<Rightarrow> WRITE_TRAN \<times> SSL" where
  "write_transition m s = (if server s then ossl_statem_server_write_transition (mc_hooks m) s
     else ossl_statem_client_write_transition (mc_hooks m) s)"

definition pre_work :: "machine \<Rightarrow> SSL \<Rightarrow> WORK_STATE \<times> SSL" where
  "pre_work m s = (if server s then ossl_statem_server_pre_work (mc_hooks m) s
     else ossl_statem_client_pre_work (mc_hooks m) s)"

definition post_work :: "machine \<Rightarrow> SSL \<Rightarrow> WORK_STATE \<times> SSL" where
  "post_work m s = (if server s then ossl_statem_server_post_work (mc_hooks m) s
     else ossl_statem_client_post_work (mc_hooks m) s)"

definition get_construct_message :: "SSL \<Rightarrow> nat option option \<times> SSL" where
  "get_construct_message s = (if server s then ossl_statem_server_construct_message s
     else ossl_statem_client_construct_message s)"

definition set_write :: "WRITE_STATE \<Rightarrow> WORK_STATE \<Rightarrow> SSL \<Rightarrow> SSL" where
  "set_write ws wst s = upd_st (\<lambda>st. st\<lparr>write_state := ws, write_state_work := wst\<rparr>) s"

definition init_write_state_machine :: "SSL \<Rightarrow> SSL" where
  "init_write_state_machine s = upd_st (\<lambda>st. st\<lparr>write_state := WRITE_STATE_TRANSITION\<rparr>) s"

text \<open>The buffer of a packet goes back to \<open>init_buf\<close>, which it is.\<close>

definition keep_buf :: "WPACKET \<Rightarrow> SSL \<Rightarrow> SSL" where
  "keep_buf pkt s = (case wbuf pkt of WMem b \<Rightarrow> s\<lparr>init_buf := Some b\<rparr> | _ \<Rightarrow> s)"

datatype built = Refused | Skipped | Built

text \<open>From the message type to the finished packet in \<open>init_buf\<close>.\<close>

definition build_message :: "machine \<Rightarrow> nat \<Rightarrow> BUF_MEM \<Rightarrow> SSL \<Rightarrow> (built \<times> SSL) option" where
  "build_message m mt buf s =
     (let ok = malloc_ok (mc_env m)
      in case wseq (WPACKET_init ok buf) (ssl3_set_handshake_header ok mt) (raw_packet 0) of
           (False, pkt) \<Rightarrow> Some (Refused, fatal_internal (keep_buf pkt s))
         | (True, pkt) \<Rightarrow> do {
             (tmpret, pkt1, s1) \<leftarrow> confunc m pkt s;
             if tmpret \<le> 0 then Some (Refused, check_fatal (keep_buf pkt1 s1))
             else if tmpret = 2 then Some (Skipped, keep_buf pkt1 s1)
             else (case tls_close_construct_packet ok mt pkt1 s1 of
                 (False, pkt2, s2) \<Rightarrow> Some (Refused, fatal_internal (keep_buf pkt2 s2))
               | (True, pkt2, s2) \<Rightarrow> (case WPACKET_finish ok pkt2 of
                   (False, pkt3) \<Rightarrow> Some (Refused, fatal_internal (keep_buf pkt3 s2))
                 | (True, pkt3) \<Rightarrow> Some (Built, keep_buf pkt3 s2))) })"

definition write_construct :: "machine \<Rightarrow> SSL \<Rightarrow> (built \<times> SSL) option" where
  "write_construct m s = (case get_construct_message s of
      (None, s1) \<Rightarrow> Some (Refused, s1)
    | (Some None, s1) \<Rightarrow> Some (Skipped, s1)
    | (Some (Some mt), s1) \<Rightarrow> (case init_buf s1 of
        None \<Rightarrow> Some (Refused, fatal_internal s1)
      | Some buf \<Rightarrow> build_message m mt buf s1))"

text \<open>The result of pre and post work: \<open>Inl\<close> ends the sub-machine, \<open>Inr\<close> goes on.\<close>

definition work_result :: "WORK_STATE \<times> SSL \<Rightarrow> SUB_STATE_RETURN option \<times> SSL" where
  "work_result r = (case r of (wst, s) \<Rightarrow>
     let s1 = upd_st (\<lambda>st. st\<lparr>write_state_work := wst\<rparr>) s
     in case wst of
          WORK_ERROR \<Rightarrow> (Some SUB_STATE_ERROR, check_fatal s1)
        | WORK_FINISHED_STOP \<Rightarrow> (Some SUB_STATE_END_HANDSHAKE, s1)
        | WORK_FINISHED_CONTINUE \<Rightarrow> (None, s1)
        | _ \<Rightarrow> (Some SUB_STATE_ERROR, s1))"

definition write_post :: "machine \<Rightarrow> SSL \<Rightarrow> SUB_STATE_RETURN option \<times> SSL" where
  "write_post m s = (case work_result (post_work m s) of
      (Some r, s1) \<Rightarrow> (Some r, s1)
    | (None, s1) \<Rightarrow> (None, upd_st (\<lambda>st. st\<lparr>write_state := WRITE_STATE_TRANSITION\<rparr>) s1))"

definition write_send :: "machine \<Rightarrow> SSL \<Rightarrow> SUB_STATE_RETURN option \<times> SSL" where
  "write_send m s = (case mc_do_write m s of (ret, s1) \<Rightarrow>
     if ret \<le> 0 then (Some SUB_STATE_ERROR, s1)
     else write_post m (set_write WRITE_STATE_POST_WORK WORK_MORE_A s1))"

definition write_step :: "machine \<Rightarrow> SSL \<Rightarrow> (SUB_STATE_RETURN option \<times> SSL) option" where
  "write_step m s = (case write_state (statem s) of
      WRITE_STATE_TRANSITION \<Rightarrow> Some (case write_transition m s of
          (WRITE_TRAN_CONTINUE, s1) \<Rightarrow> (None, set_write WRITE_STATE_PRE_WORK WORK_MORE_A s1)
        | (WRITE_TRAN_FINISHED, s1) \<Rightarrow> (Some SUB_STATE_FINISHED, s1)
        | (WRITE_TRAN_ERROR, s1) \<Rightarrow> (Some SUB_STATE_ERROR, check_fatal s1))
    | WRITE_STATE_PRE_WORK \<Rightarrow> (case work_result (pre_work m s) of
          (Some r, s1) \<Rightarrow> Some (Some r, s1)
        | (None, s1) \<Rightarrow> do {
            (b, s2) \<leftarrow> write_construct m (upd_st (\<lambda>st. st\<lparr>write_state := WRITE_STATE_SEND\<rparr>) s1);
            Some (case b of
                Refused \<Rightarrow> (Some SUB_STATE_ERROR, s2)
              | Skipped \<Rightarrow> (None, set_write WRITE_STATE_POST_WORK WORK_MORE_A s2)
              | Built \<Rightarrow> write_send m s2) })
    | WRITE_STATE_SEND \<Rightarrow> Some (write_send m s)
    | WRITE_STATE_POST_WORK \<Rightarrow> Some (write_post m s))"

partial_function (option) write_state_machine :: "machine \<Rightarrow> SSL \<Rightarrow> (SUB_STATE_RETURN \<times> SSL) option" where
  "write_state_machine m s = do {
     (r, s1) \<leftarrow> write_step m s;
     case r of None \<Rightarrow> write_state_machine m s1 | Some ret \<Rightarrow> Some (ret, s1) }"

section \<open>Reading\<close>

definition read_tran :: "machine \<Rightarrow> nat \<Rightarrow> SSL \<Rightarrow> bool \<times> SSL" where
  "read_tran m mt s = (if server s then ossl_statem_server_read_transition mt s
     else ossl_statem_client_read_transition (mc_hooks m) mt s)"

definition max_message_size :: "SSL \<Rightarrow> nat" where
  "max_message_size s = (if server s then ossl_statem_server_max_message_size s
     else ossl_statem_client_max_message_size s)"

definition process_message :: "machine \<Rightarrow> PACKET \<Rightarrow> SSL \<Rightarrow> (MSG_PROCESS_RETURN \<times> SSL) option" where
  "process_message m pkt s = (if server s then ossl_statem_server_process_message m pkt s
     else ossl_statem_client_process_message m pkt s)"

definition post_process_message :: "machine \<Rightarrow> WORK_STATE \<Rightarrow> SSL \<Rightarrow> (WORK_STATE \<times> SSL) option" where
  "post_process_message m wst s = (if server s then ossl_statem_server_post_process_message m wst s
     else ossl_statem_client_post_process_message m wst s)"

definition set_read :: "READ_STATE \<Rightarrow> SSL \<Rightarrow> SSL" where
  "set_read rs s = upd_st (\<lambda>st. st\<lparr>read_state := rs\<rparr>) s"

definition init_read_state_machine :: "SSL \<Rightarrow> SSL" where
  "init_read_state_machine s = set_read READ_STATE_HEADER s"

definition read_body :: "machine \<Rightarrow> SSL \<Rightarrow> (SUB_STATE_RETURN option \<times> SSL) option" where
  "read_body m s = (case mc_body m s of
      (None, s1) \<Rightarrow> Some (Some SUB_STATE_ERROR, s1)
    | (Some msg, s1) \<Rightarrow> (case PACKET_buf_init msg (length msg) of
        None \<Rightarrow> Some (Some SUB_STATE_ERROR, fatal_internal (s1\<lparr>first_packet := False\<rparr>))
      | Some pkt \<Rightarrow> do {
          (ret, s2) \<leftarrow> process_message m pkt (s1\<lparr>first_packet := False\<rparr>);
          t3 \<leftarrow> Some (s2\<lparr>init_num := 0\<rparr>);
          Some (case ret of
              MSG_PROCESS_ERROR \<Rightarrow> (Some SUB_STATE_ERROR, check_fatal t3)
            | MSG_PROCESS_FINISHED_READING \<Rightarrow> (Some SUB_STATE_FINISHED, t3)
            | MSG_PROCESS_CONTINUE_PROCESSING \<Rightarrow>
                (None, upd_st (\<lambda>st. st\<lparr>read_state := READ_STATE_POST_PROCESS, read_state_work := WORK_MORE_A\<rparr>) t3)
            | MSG_PROCESS_CONTINUE_READING \<Rightarrow> (None, set_read READ_STATE_HEADER t3)) }))"

definition read_header :: "machine \<Rightarrow> SSL \<Rightarrow> (SUB_STATE_RETURN option \<times> SSL) option" where
  "read_header m s = (case mc_header m s of
      (None, s1) \<Rightarrow> Some (Some SUB_STATE_ERROR, s1)
    | (Some mt, s1) \<Rightarrow> (case read_tran m mt s1 of
        (False, s2) \<Rightarrow> Some (Some SUB_STATE_ERROR, s2)
      | (True, s2) \<Rightarrow>
          if max_message_size s2 < message_size (s3 s2)
          then Some (Some SUB_STATE_ERROR, SSLfatal SSL_AD_ILLEGAL_PARAMETER SSL_R_EXCESSIVE_MESSAGE_SIZE s2)
          else if \<not> SSL_IS_DTLS s2 \<and> 0 < message_size (s3 s2) \<and> \<not> mc_grow m (message_size (s3 s2) + 4) s2
          then Some (Some SUB_STATE_ERROR, SSLfatal SSL_AD_INTERNAL_ERROR ERR_R_BUF_LIB s2)
          else read_body m (set_read READ_STATE_BODY s2)))"

definition read_step :: "machine \<Rightarrow> SSL \<Rightarrow> (SUB_STATE_RETURN option \<times> SSL) option" where
  "read_step m s = (case read_state (statem s) of
      READ_STATE_HEADER \<Rightarrow> read_header m s
    | READ_STATE_BODY \<Rightarrow> read_body m s
    | READ_STATE_POST_PROCESS \<Rightarrow> do {
        (wst, s1) \<leftarrow> post_process_message m (read_state_work (statem s)) s;
        s2 \<leftarrow> Some (upd_st (\<lambda>st. st\<lparr>read_state_work := wst\<rparr>) s1);
        Some (case wst of
            WORK_ERROR \<Rightarrow> (Some SUB_STATE_ERROR, check_fatal s2)
          | WORK_FINISHED_CONTINUE \<Rightarrow> (None, set_read READ_STATE_HEADER s2)
          | WORK_FINISHED_STOP \<Rightarrow> (Some SUB_STATE_FINISHED, s2)
          | _ \<Rightarrow> (Some SUB_STATE_ERROR, s2)) })"

partial_function (option) read_loop :: "machine \<Rightarrow> SSL \<Rightarrow> (SUB_STATE_RETURN \<times> SSL) option" where
  "read_loop m s = do {
     (r, s1) \<leftarrow> read_step m s;
     case r of None \<Rightarrow> read_loop m s1 | Some ret \<Rightarrow> Some (ret, s1) }"

definition read_state_machine :: "machine \<Rightarrow> SSL \<Rightarrow> (SUB_STATE_RETURN \<times> SSL) option" where
  "read_state_machine m s = read_loop m
     (if read_state_first_init (statem s)
      then upd_st (\<lambda>st. st\<lparr>read_state_first_init := False\<rparr>) (s\<lparr>first_packet := True\<rparr>) else s)"

section \<open>The message flow\<close>

definition set_flow :: "MSG_FLOW_STATE \<Rightarrow> SSL \<Rightarrow> SSL" where
  "set_flow f s = upd_st (\<lambda>st. st\<lparr>state := f\<rparr>) s"

partial_function (option) flow_loop :: "machine \<Rightarrow> SSL \<Rightarrow> (bool \<times> SSL) option" where
  "flow_loop m s =
     (if state (statem s) = MSG_FLOW_FINISHED then Some (True, s)
      else if state (statem s) = MSG_FLOW_READING then do {
        (ret, s1) \<leftarrow> read_state_machine m s;
        if ret = SUB_STATE_FINISHED
        then flow_loop m (init_write_state_machine (set_flow MSG_FLOW_WRITING s1))
        else Some (False, s1) }
      else if state (statem s) = MSG_FLOW_WRITING then do {
        (ret, s1) \<leftarrow> write_state_machine m s;
        if ret = SUB_STATE_FINISHED
        then flow_loop m (init_read_state_machine (set_flow MSG_FLOW_READING s1))
        else if ret = SUB_STATE_END_HANDSHAKE then flow_loop m (set_flow MSG_FLOW_FINISHED s1)
        else Some (False, s1) }
      else Some (False, upd_os (ERR_raise ERR_R_SHOULD_NOT_HAVE_BEEN_CALLED) (check_fatal s)))"

abbreviation no_alert :: "SSL \<Rightarrow> bool \<times> SSL" where
  "no_alert s \<equiv> (False, SSLfatal SSL_AD_NO_ALERT ERR_R_INTERNAL_ERROR s)"

text \<open>\<open>version & 0xff00\<close> and \<open>version >> 8\<close>.\<close>

definition version_ok :: "bool \<Rightarrow> SSL \<Rightarrow> bool" where
  "version_ok is_srv s =
     (if SSL_IS_DTLS s then version s div 256 mod 256 = 0xFE \<or> \<not> is_srv \<and> version s div 256 mod 256 = 1
      else version s div 256 = 3)"

definition flow_init :: "machine \<Rightarrow> bool \<Rightarrow> SSL \<Rightarrow> bool \<times> SSL" where
  "flow_init m is_srv s0 =
     (let s = (if state (statem s0) = MSG_FLOW_UNINITED
               then upd_st (\<lambda>st. st\<lparr>hand_state := TLS_ST_BEFORE, request_state := TLS_ST_BEFORE\<rparr>) s0 else s0)\<lparr>server := is_srv\<rparr>
      in if \<not> version_ok is_srv s \<or> \<not> mc_security m s then no_alert s
         else if init_buf s = None \<and> mc_new_buf m s = None then no_alert s
         else
           let s1 = (if init_buf s = None then s\<lparr>init_buf := mc_new_buf m s\<rparr> else s)
           in if \<not> mc_buffers m s1 then no_alert s1
              else
                let s2 = upd_s3 (\<lambda>t. t\<lparr>change_cipher_spec := False\<rparr>) (s1\<lparr>init_num := 0\<rparr>)
                in if \<not> mc_init_wbio m s2 then no_alert s2
                   else if SSL_in_before s2 \<or> renegotiate s2 then (case tls_setup_handshake (mc_hooks m) s2 of
                       (False, t3) \<Rightarrow> (False, t3)
                     | (True, t3) \<Rightarrow>
                         (True, init_write_state_machine (set_flow MSG_FLOW_WRITING
                           (if SSL_IS_FIRST_HANDSHAKE t3 then upd_st (\<lambda>st. st\<lparr>read_state_first_init := True\<rparr>) t3 else t3))))
                   else (True, init_write_state_machine (set_flow MSG_FLOW_WRITING s2)))"

text \<open>Entering: the error queue is emptied, the nesting counted, a fresh connection cleared.\<close>

definition flow_enter :: "machine \<Rightarrow> SSL \<Rightarrow> bool \<times> SSL" where
  "flow_enter m s =
     (let s1 = ossl_statem_set_in_handshake True (upd_os ERR_clear_error s)
      in if (\<not> SSL_in_init s1 \<or> SSL_in_before s1) \<and> \<not> has (s3_flags (s3 s1)) TLS1_FLAGS_STATELESS
         then mc_clear m s1 else (True, s1))"

definition flow_start :: "machine \<Rightarrow> bool \<Rightarrow> SSL \<Rightarrow> bool \<times> SSL" where
  "flow_start m is_srv s =
     (if state (statem s) = MSG_FLOW_UNINITED \<or> state (statem s) = MSG_FLOW_FINISHED
      then flow_init m is_srv s else (True, s))"

definition state_machine :: "machine \<Rightarrow> bool \<Rightarrow> SSL \<Rightarrow> (int \<times> SSL) option" where
  "state_machine m is_srv s =
     (if state (statem s) = MSG_FLOW_ERROR then Some (-1, s)
      else (case flow_enter m s of
          (False, s1) \<Rightarrow> Some (-1, s1)
        | (True, s1) \<Rightarrow> (case flow_start m is_srv s1 of
            (False, s2) \<Rightarrow> Some (-1, ossl_statem_set_in_handshake False s2)
          | (True, s2) \<Rightarrow> do {
              (ok, t3) \<leftarrow> flow_loop m s2;
              Some (if ok then 1 else -1, ossl_statem_set_in_handshake False t3) })))"

definition ossl_statem_connect :: "machine \<Rightarrow> SSL \<Rightarrow> (int \<times> SSL) option" where
  "ossl_statem_connect m s = state_machine m False s"

definition ossl_statem_accept :: "machine \<Rightarrow> SSL \<Rightarrow> (int \<times> SSL) option" where
  "ossl_statem_accept m s = state_machine m True s"

section \<open>How the machine ends\<close>

definition stop_states :: "OSSL_HANDSHAKE_STATE set" where
  "stop_states = {TLS_ST_OK, TLS_ST_EARLY_DATA, TLS_ST_PENDING_EARLY_DATA_END}"

lemma pre_work_stop:
  assumes "pre_work m s = (WORK_FINISHED_STOP, s1)"
  shows "\<not> in_init (statem s1)" "hand s1 \<in> stop_states"
  using assms finish_handshake_states(1,2,4) [where r = WORK_FINISHED_STOP]
  unfolding pre_work_def ossl_statem_server_pre_work_def ossl_statem_client_pre_work_def
  by (auto simp: Let_def stop_states_def split: if_split_asm prod.split_asm bool.split_asm)

definition no_stop :: "WORK_STATE \<times> SSL \<Rightarrow> bool" where
  "no_stop r \<longleftrightarrow> fst r \<noteq> WORK_FINISHED_STOP"

lemma no_stop_rules [simp]:
  "no_stop (if c then a else b) \<longleftrightarrow> (c \<longrightarrow> no_stop a) \<and> (\<not> c \<longrightarrow> no_stop b)"
  "no_stop (r, s) \<longleftrightarrow> r \<noteq> WORK_FINISHED_STOP"
  "(\<And>s1. no_stop (k s1)) \<Longrightarrow> no_stop (flush_then hk k s)"
  "no_stop (case f of (True, s1) \<Rightarrow> g s1 | (False, s1) \<Rightarrow> h s1) \<longleftrightarrow>
     (case f of (True, s1) \<Rightarrow> no_stop (g s1) | (False, s1) \<Rightarrow> no_stop (h s1))"
  by (auto simp: no_stop_def flush_then_def split: prod.split bool.split)

lemma post_work_no_stop: "no_stop (post_work m s)"
proof -
  have "no_stop (server_post_change hk s)" for hk s
    unfolding server_post_change_def by simp
  then have "no_stop (ossl_statem_server_post_work hk s)" for hk s
    unfolding ossl_statem_server_post_work_def by (simp add: Let_def split: prod.split bool.split)
  moreover have "no_stop (ossl_statem_client_post_work hk s)" for hk s
    unfolding ossl_statem_client_post_work_def by (simp add: Let_def split: prod.split bool.split)
  ultimately show ?thesis by (simp add: post_work_def)
qed

lemma work_result_stop:
  assumes "work_result r = (Some SUB_STATE_END_HANDSHAKE, s1)"
  obtains s where "r = (WORK_FINISHED_STOP, s)" "in_init (statem s1) = in_init (statem s)" "hand s1 = hand s"
  using assms by (cases r) (auto simp: work_result_def Let_def split: WORK_STATE.splits)

lemma write_post_no_end: "write_post m s \<noteq> (Some SUB_STATE_END_HANDSHAKE, s1)"
  using post_work_no_stop [of m s]
  by (auto simp: write_post_def no_stop_def split: prod.split_asm option.split_asm elim!: work_result_stop)

lemma write_step_end:
  assumes "write_step m s = Some (Some SUB_STATE_END_HANDSHAKE, s1)"
  shows "\<not> in_init (statem s1)" "hand s1 \<in> stop_states"
proof -
  have send: "write_send m s2 \<noteq> (Some SUB_STATE_END_HANDSHAKE, s3)" for s2 s3
    using write_post_no_end by (auto simp: write_send_def split: prod.splits)
  have "work_result (pre_work m s) = (Some SUB_STATE_END_HANDSHAKE, s1)"
    using assms send write_post_no_end unfolding write_step_def
    by (auto simp: bind_eq_Some_conv split: WRITE_STATE.split_asm WRITE_TRAN.split_asm prod.split_asm option.split_asm built.split_asm)
      (metis built.exhaust)
  then obtain s2 where "pre_work m s = (WORK_FINISHED_STOP, s2)" "in_init (statem s1) = in_init (statem s2)" "hand s1 = hand s2"
    by (rule work_result_stop)
  then show "\<not> in_init (statem s1)" "hand s1 \<in> stop_states" using pre_work_stop by simp_all
qed

text \<open>
  The two sub-machines as loops: the result is that of a last step, reached through steps that
  keep what every step keeps.
\<close>

locale machine_loop =
  fixes step :: "SSL \<Rightarrow> (SUB_STATE_RETURN option \<times> SSL) option"
    and loop :: "SSL \<Rightarrow> (SUB_STATE_RETURN \<times> SSL) option"
  assumes unfold_loop: "loop s = do { (r, s1) \<leftarrow> step s; case r of None \<Rightarrow> loop s1 | Some ret \<Rightarrow> Some (ret, s1) }"
    and last_step: "loop s = Some (r, s1) \<Longrightarrow> I s \<Longrightarrow> (\<And>s s1. I s \<Longrightarrow> step s = Some (None, s1) \<Longrightarrow> I s1)
      \<Longrightarrow> \<exists>s0. I s0 \<and> step s0 = Some (Some r, s1)"
begin

lemma result_of_step:
  assumes "loop s = Some (r, s1)" "\<And>s0. step s0 = Some (Some r, s1) \<Longrightarrow> Q"
  shows Q
  using last_step [OF assms(1), of "\<lambda>_. True"] assms(2) by auto

lemma stops_at_once: "step s = Some (Some r, s1) \<Longrightarrow> loop s = Some (r, s1)"
  by (subst unfold_loop) simp

lemma goes_on: "step s = Some (None, s1) \<Longrightarrow> loop s = loop s1"
  by (subst unfold_loop) simp

lemma invariant_kept:
  assumes "loop s = Some (r, s1)" "I s" "\<And>s ret s1. I s \<Longrightarrow> step s = Some (ret, s1) \<Longrightarrow> I s1"
  shows "I s1"
  using last_step [of s r s1 I, OF assms(1,2)] assms(3) by blast

end

interpretation writing: machine_loop "write_step m" "write_state_machine m" for m
proof
  show "write_state_machine m s = do { (r, s1) \<leftarrow> write_step m s;
      case r of None \<Rightarrow> write_state_machine m s1 | Some ret \<Rightarrow> Some (ret, s1) }" for s
    by (rule write_state_machine.simps)
next
  fix s r s1 and I :: "SSL \<Rightarrow> bool"
  assume run: "write_state_machine m s = Some (r, s1)" and I: "I s"
    and keep: "\<And>s s1. I s \<Longrightarrow> write_step m s = Some (None, s1) \<Longrightarrow> I s1"
  show "\<exists>s0. I s0 \<and> write_step m s0 = Some (Some r, s1)"
    using write_state_machine.raw_induct [where P = "\<lambda>m' s y. m' = m \<longrightarrow> I s \<longrightarrow>
        (\<exists>s0. I s0 \<and> write_step m s0 = Some (Some (fst y), snd y))", OF _ run] I keep
    by (fastforce simp: bind_eq_Some_conv split: option.split_asm)
qed

interpretation reading: machine_loop "read_step m" "read_loop m" for m
proof
  show "read_loop m s = do { (r, s1) \<leftarrow> read_step m s;
      case r of None \<Rightarrow> read_loop m s1 | Some ret \<Rightarrow> Some (ret, s1) }" for s
    by (rule read_loop.simps)
next
  fix s r s1 and I :: "SSL \<Rightarrow> bool"
  assume run: "read_loop m s = Some (r, s1)" and I: "I s"
    and keep: "\<And>s s1. I s \<Longrightarrow> read_step m s = Some (None, s1) \<Longrightarrow> I s1"
  show "\<exists>s0. I s0 \<and> read_step m s0 = Some (Some r, s1)"
    using read_loop.raw_induct [where P = "\<lambda>m' s y. m' = m \<longrightarrow> I s \<longrightarrow>
        (\<exists>s0. I s0 \<and> read_step m s0 = Some (Some (fst y), snd y))", OF _ run] I keep
    by (fastforce simp: bind_eq_Some_conv split: option.split_asm)
qed

lemma write_machine_end:
  assumes "write_state_machine m s = Some (SUB_STATE_END_HANDSHAKE, s1)"
  shows "\<not> in_init (statem s1) \<and> hand s1 \<in> stop_states"
  by (rule writing.result_of_step [OF assms]) (use write_step_end in blast)

definition flow_done :: "SSL \<Rightarrow> bool" where
  "flow_done s \<longleftrightarrow> state (statem s) = MSG_FLOW_FINISHED \<and> \<not> in_init (statem s) \<and> hand s \<in> stop_states"

definition flow_ok :: "SSL \<Rightarrow> bool" where
  "flow_ok s \<longleftrightarrow> state (statem s) = MSG_FLOW_FINISHED \<longrightarrow> flow_done s"

lemma flow_ok_set:
  "flow_ok (init_write_state_machine (set_flow MSG_FLOW_WRITING s))"
  "flow_ok (init_read_state_machine (set_flow MSG_FLOW_READING s))"
  "\<not> in_init (statem s) \<Longrightarrow> hand s \<in> stop_states \<Longrightarrow> flow_ok (set_flow MSG_FLOW_FINISHED s)"
  by (simp_all add: flow_ok_def flow_done_def set_flow_def init_write_state_machine_def
      init_read_state_machine_def set_read_def)

lemma flow_loop_finished:
  assumes "flow_loop m s = Some (b, s1)" "flow_ok s" b
  shows "flow_done s1"
proof -
  have "flow_ok s \<longrightarrow> fst (b, s1) \<longrightarrow> flow_done (snd (b, s1))"
  proof (rule flow_loop.raw_induct [where P = "\<lambda>m s y. flow_ok s \<longrightarrow> fst y \<longrightarrow> flow_done (snd y)", OF _ assms(1)])
    fix loop :: "machine \<Rightarrow> SSL \<Rightarrow> (bool \<times> SSL) option" and m s y
    assume IH: "\<And>m s y. loop m s = Some y \<Longrightarrow> flow_ok s \<longrightarrow> fst y \<longrightarrow> flow_done (snd y)"
    assume run: "(if state (statem s) = MSG_FLOW_FINISHED then Some (True, s)
      else if state (statem s) = MSG_FLOW_READING then do {
        (ret, s1) \<leftarrow> read_state_machine m s;
        if ret = SUB_STATE_FINISHED
        then loop m (init_write_state_machine (set_flow MSG_FLOW_WRITING s1))
        else Some (False, s1) }
      else if state (statem s) = MSG_FLOW_WRITING then do {
        (ret, s1) \<leftarrow> write_state_machine m s;
        if ret = SUB_STATE_FINISHED
        then loop m (init_read_state_machine (set_flow MSG_FLOW_READING s1))
        else if ret = SUB_STATE_END_HANDSHAKE then loop m (set_flow MSG_FLOW_FINISHED s1)
        else Some (False, s1) }
      else Some (False, upd_os (ERR_raise ERR_R_SHOULD_NOT_HAVE_BEEN_CALLED) (check_fatal s))) = Some y"
    show "flow_ok s \<longrightarrow> fst y \<longrightarrow> flow_done (snd y)"
    proof (cases "state (statem s)")
      case MSG_FLOW_FINISHED
      then show ?thesis using run by (auto simp: flow_ok_def)
    next
      case MSG_FLOW_READING
      then obtain ret s2 where r: "read_state_machine m s = Some (ret, s2)" using run by (auto simp: bind_eq_Some_conv)
      show ?thesis
        using run MSG_FLOW_READING r IH [of m _ y] flow_ok_set(1) by (auto split: if_split_asm simp del: upd_defs)
    next
      case MSG_FLOW_WRITING
      then obtain ret s2 where w: "write_state_machine m s = Some (ret, s2)" using run by (auto simp: bind_eq_Some_conv)
      have "ret = SUB_STATE_END_HANDSHAKE \<Longrightarrow> flow_ok (set_flow MSG_FLOW_FINISHED s2)"
        using write_machine_end flow_ok_set(3) w by blast
      then show ?thesis
        using run MSG_FLOW_WRITING w IH [of m _ y] flow_ok_set(2) by (auto split: if_split_asm simp del: upd_defs)
    qed (use run in auto)
  qed
  then show ?thesis using assms(2,3) by simp
qed

lemma flow_init_ok:
  assumes "flow_init m is_srv s = (True, s1)"
  shows "state (statem s1) = MSG_FLOW_WRITING"
  using assms unfolding flow_init_def
  by (auto simp: Let_def set_flow_def init_write_state_machine_def split: if_split_asm prod.split_asm bool.split_asm)

lemma flow_done_leave [simp]: "flow_done (ossl_statem_set_in_handshake b s) = flow_done s"
  by (simp add: flow_done_def ossl_statem_set_in_handshake_def)

lemma flow_start_ok: "flow_start m is_srv s = (True, s1) \<Longrightarrow> flow_ok s1"
  using flow_init_ok [of m is_srv s s1] by (auto simp: flow_start_def flow_ok_def split: if_split_asm)

lemma state_machine_success:
  assumes "state_machine m is_srv s = Some (1, s1)"
  shows "flow_done s1"
  using assms flow_loop_finished flow_start_ok unfolding state_machine_def
  by (fastforce simp: bind_eq_Some_conv split: if_split_asm prod.split_asm bool.split_asm)

section \<open>Refused messages\<close>

interpretation side_reads: read_transition "read_tran m" for m
  by (rule read_transitionI) (simp add: read_tran_def client_step_ok server_step_ok)

lemma error_absorbs: "ossl_statem_in_error s \<Longrightarrow> state_machine m is_srv s = Some (-1, s)"
  by (simp add: state_machine_def ossl_statem_in_error_def)

lemma refused_read:
  assumes "mc_header m s = (Some mt, s1)" "read_tran m mt s1 = (False, s2)" "read_state (statem s) = READ_STATE_HEADER" "\<not> dtls s1"
  shows "read_loop m s = Some (SUB_STATE_ERROR, s2) \<and> ossl_statem_in_error s2 \<and> hand s2 = hand s1 \<and> session s2 = session s1"
proof -
  have "read_step m s = Some (Some SUB_STATE_ERROR, s2)" using assms by (simp add: read_step_def read_header_def)
  then show ?thesis using reading.stops_at_once side_reads.refused assms(2,4) side_reads.keeps by blast
qed

end
