(* ===== verification/Cert_Type_Ext.thy ===== *)
theory Cert_Type_Ext
  imports Ieee1609_Cert
begin

text \<open>
  The certificate type extensions of RFC 7250 and RFC 8902 (\<^verbatim>\<open>ssl/statem/extensions_ieee1609dot2.c\<close>):
  the client offers the types it supports for each direction, the server picks one and the
  client checks the choice. The packet readers consume the extension data the extension
  framework hands over, the constructors append type, length and data.
\<close>

section \<open>Operations\<close>

datatype EXT_RETURN = EXT_RETURN_FAIL | EXT_RETURN_SENT | EXT_RETURN_NOT_SENT

definition SSL_is_RFC8902_supported :: "SSL \<Rightarrow> bool" where
  "SSL_is_RFC8902_supported s = RFC8902_support (ieee1609 s)"

text \<open>The structure the returned pointer points to, and a store through it.\<close>

definition SSL_get_RFC8902_CERT_TYPE :: "nat \<Rightarrow> SSL \<Rightarrow> RFC8902_CERT_TYPE option" where
  "SSL_get_RFC8902_CERT_TYPE ext_idx s =
     (if ext_idx = TLSEXT_TYPE_server_certificate_type then Some (srv (ieee1609 s))
      else if ext_idx = TLSEXT_TYPE_client_certificate_type then Some (clnt (ieee1609 s))
      else None)"

definition set_type_decided :: "nat \<Rightarrow> int \<Rightarrow> SSL \<Rightarrow> SSL" where
  "set_type_decided ext_idx t s = upd_1609 (\<lambda>st.
     if ext_idx = TLSEXT_TYPE_server_certificate_type then st\<lparr>srv := (srv st)\<lparr>type_decided := t\<rparr>\<rparr>
     else st\<lparr>clnt := (clnt st)\<lparr>type_decided := t\<rparr>\<rparr>) s"

text \<open>The loop over the list: which of the two types were seen; \<open>None\<close> when a byte is missing.\<close>

fun cert_type_loop :: "nat \<Rightarrow> PACKET \<Rightarrow> bool \<Rightarrow> bool \<Rightarrow> (bool \<times> bool) option" where
  "cert_type_loop 0 pkt x509 ieee = Some (x509, ieee)"
| "cert_type_loop (Suc n) pkt x509 ieee = (case PACKET_get_1 pkt of
     None \<Rightarrow> None
   | Some (t, pkt1) \<Rightarrow> cert_type_loop n pkt1 (x509 \<or> t = 0) (ieee \<or> t = 3))"

definition tls_parse_ctos_cert_type_ext :: "nat \<Rightarrow> PACKET \<Rightarrow> SSL \<Rightarrow> (bool \<times> SSL) option" where
  "tls_parse_ctos_cert_type_ext ext_idx pkt s =
     (if \<not> SSL_is_RFC8902_supported s then Some (False, s)
      else do {
        ct \<leftarrow> SSL_get_RFC8902_CERT_TYPE ext_idx s;
        case PACKET_get_1_len pkt of
          None \<Rightarrow> Some (False, SSLfatal SSL_AD_DECODE_ERROR ERR_R_INTERNAL_ERROR s)
        | Some (list_len, pkt1) \<Rightarrow>
            if PACKET_remaining pkt1 \<noteq> list_len
            then Some (False, SSLfatal SSL_AD_DECODE_ERROR ERR_R_INTERNAL_ERROR s)
            else (case cert_type_loop list_len pkt1 False False of
              None \<Rightarrow> Some (False, SSLfatal SSL_AD_DECODE_ERROR ERR_R_INTERNAL_ERROR s)
            | Some (client_allows_x509, client_allows_1609) \<Rightarrow>
                if has (support ct) SSL_RFC8902_1609 \<and> client_allows_1609
                then Some (True, set_type_decided ext_idx CertificateType1609Dot2 s)
                else if has (support ct) SSL_RFC8902_X509 \<and> client_allows_x509
                then Some (True, set_type_decided ext_idx CertificateTypeX509 s)
                else Some (False, SSLfatal SSL_AD_DECODE_ERROR SSL_R_UNSUPPORTED_CERT_TYPE s)) })"

definition tls_parse_stoc_cert_type_ext :: "nat \<Rightarrow> PACKET \<Rightarrow> SSL \<Rightarrow> (bool \<times> SSL) option" where
  "tls_parse_stoc_cert_type_ext ext_idx pkt s =
     (if \<not> SSL_is_RFC8902_supported s then Some (False, s)
      else do {
        ct \<leftarrow> SSL_get_RFC8902_CERT_TYPE ext_idx s;
        if PACKET_remaining pkt \<noteq> 1
        then Some (False, SSLfatal SSL_AD_DECODE_ERROR ERR_R_INTERNAL_ERROR s)
        else (case PACKET_get_1 pkt of
          None \<Rightarrow> Some (False, SSLfatal SSL_AD_DECODE_ERROR ERR_R_INTERNAL_ERROR s)
        | Some (cert_type, pkt1) \<Rightarrow>
            if has (support ct) SSL_RFC8902_1609 \<and> uint cert_type = CertificateType1609Dot2
            then Some (True, set_type_decided ext_idx (uint cert_type) s)
            else if has (support ct) SSL_RFC8902_X509 \<and> uint cert_type = CertificateTypeX509
            then Some (True, set_type_decided ext_idx (uint cert_type) s)
            else Some (False, SSLfatal SSL_AD_DECODE_ERROR SSL_R_UNSUPPORTED_CERT_TYPE s)) })"

text \<open>The writes of the two constructors, in order; the first that fails stops them.\<close>

definition stoc_writes :: "mem_ok \<Rightarrow> nat \<Rightarrow> nat \<Rightarrow> WPACKET \<Rightarrow> bool \<times> WPACKET" where
  "stoc_writes ok ext_idx t = wseq (WPACKET_put_bytes ok ext_idx 2)
     (wseq (WPACKET_start_sub_packet_len ok 2) (wseq (WPACKET_put_bytes ok t 1) (WPACKET_close ok)))"

definition ctos_writes :: "mem_ok \<Rightarrow> nat \<Rightarrow> u32 \<Rightarrow> WPACKET \<Rightarrow> bool \<times> WPACKET" where
  "ctos_writes ok ext_idx spp = wseq (WPACKET_put_bytes ok ext_idx 2)
     (wseq (WPACKET_start_sub_packet_len ok 2)
     (wseq (wseq (WPACKET_start_sub_packet_len ok 1)
        (wseq (wseq (if has spp SSL_RFC8902_X509 then WPACKET_put_bytes ok 0 1 else Pair True)
                    (if has spp SSL_RFC8902_1609 then WPACKET_put_bytes ok 3 1 else Pair True))
          (WPACKET_close ok)))
       (WPACKET_close ok)))"

definition tls_construct_stoc_cert_type_ext ::
    "env \<Rightarrow> nat \<Rightarrow> WPACKET \<Rightarrow> SSL \<Rightarrow> (EXT_RETURN \<times> WPACKET \<times> SSL) option" where
  "tls_construct_stoc_cert_type_ext e ext_idx pkt s =
     (if \<not> SSL_is_RFC8902_supported s then Some (EXT_RETURN_NOT_SENT, pkt, s)
      else do {
        ct \<leftarrow> SSL_get_RFC8902_CERT_TYPE ext_idx s;
        if type_decided ct = -1
        then Some (EXT_RETURN_FAIL, pkt, SSLfatal SSL_AD_INTERNAL_ERROR ERR_R_INTERNAL_ERROR s)
        else (case stoc_writes (malloc_ok e) ext_idx (unat (word_of_int (type_decided ct) :: u64)) pkt of
            (True, pkt1) \<Rightarrow> Some (EXT_RETURN_SENT, pkt1, s)
          | (False, pkt1) \<Rightarrow>
              Some (EXT_RETURN_FAIL, pkt1, SSLfatal SSL_AD_INTERNAL_ERROR ERR_R_INTERNAL_ERROR s)) })"

definition tls_construct_ctos_cert_type_ext ::
    "env \<Rightarrow> nat \<Rightarrow> WPACKET \<Rightarrow> SSL \<Rightarrow> (EXT_RETURN \<times> WPACKET \<times> SSL) option" where
  "tls_construct_ctos_cert_type_ext e ext_idx pkt s =
     (if \<not> SSL_is_RFC8902_supported s then Some (EXT_RETURN_NOT_SENT, pkt, s)
      else do {
        ct \<leftarrow> SSL_get_RFC8902_CERT_TYPE ext_idx s;
        (case ctos_writes (malloc_ok e) ext_idx (support ct) pkt of
            (True, pkt1) \<Rightarrow> Some (EXT_RETURN_SENT, pkt1, s)
          | (False, pkt1) \<Rightarrow>
              Some (EXT_RETURN_FAIL, pkt1, SSLfatal SSL_AD_INTERNAL_ERROR ERR_R_INTERNAL_ERROR s)) })"

definition SSL_set_verify :: "u32 \<Rightarrow> SSL \<Rightarrow> SSL" where
  "SSL_set_verify mode s = s\<lparr>verify_mode := mode\<rparr>"

definition tls_parse_ctos_srv_type_ext :: "PACKET \<Rightarrow> SSL \<Rightarrow> (bool \<times> SSL) option" where
  "tls_parse_ctos_srv_type_ext pkt s = tls_parse_ctos_cert_type_ext TLSEXT_TYPE_server_certificate_type pkt s"

definition tls_parse_stoc_srv_type_ext :: "PACKET \<Rightarrow> SSL \<Rightarrow> (bool \<times> SSL) option" where
  "tls_parse_stoc_srv_type_ext pkt s = tls_parse_stoc_cert_type_ext TLSEXT_TYPE_server_certificate_type pkt s"

definition tls_construct_stoc_srv_type_ext ::
    "env \<Rightarrow> WPACKET \<Rightarrow> SSL \<Rightarrow> (EXT_RETURN \<times> WPACKET \<times> SSL) option" where
  "tls_construct_stoc_srv_type_ext e pkt s =
     tls_construct_stoc_cert_type_ext e TLSEXT_TYPE_server_certificate_type pkt s"

definition tls_construct_ctos_srv_type_ext ::
    "env \<Rightarrow> WPACKET \<Rightarrow> SSL \<Rightarrow> (EXT_RETURN \<times> WPACKET \<times> SSL) option" where
  "tls_construct_ctos_srv_type_ext e pkt s =
     tls_construct_ctos_cert_type_ext e TLSEXT_TYPE_server_certificate_type pkt s"

definition tls_parse_ctos_clnt_type_ext :: "PACKET \<Rightarrow> SSL \<Rightarrow> (bool \<times> SSL) option" where
  "tls_parse_ctos_clnt_type_ext pkt s =
     tls_parse_ctos_cert_type_ext TLSEXT_TYPE_client_certificate_type pkt (SSL_set_verify SSL_VERIFY_PEER s)"

definition tls_parse_stoc_clnt_type_ext :: "PACKET \<Rightarrow> SSL \<Rightarrow> (bool \<times> SSL) option" where
  "tls_parse_stoc_clnt_type_ext pkt s = tls_parse_stoc_cert_type_ext TLSEXT_TYPE_client_certificate_type pkt s"

definition tls_construct_stoc_clnt_type_ext ::
    "env \<Rightarrow> WPACKET \<Rightarrow> SSL \<Rightarrow> (EXT_RETURN \<times> WPACKET \<times> SSL) option" where
  "tls_construct_stoc_clnt_type_ext e pkt s =
     tls_construct_stoc_cert_type_ext e TLSEXT_TYPE_client_certificate_type pkt s"

definition tls_construct_ctos_clnt_type_ext ::
    "env \<Rightarrow> WPACKET \<Rightarrow> SSL \<Rightarrow> (EXT_RETURN \<times> WPACKET \<times> SSL) option" where
  "tls_construct_ctos_clnt_type_ext e pkt s =
     tls_construct_ctos_cert_type_ext e TLSEXT_TYPE_client_certificate_type pkt s"

section \<open>The negotiation as a function of the support words\<close>

text \<open>The list a client with support word \<open>cs\<close> sends, and the type a server with \<open>ss\<close> picks.\<close>

definition offer :: "u32 \<Rightarrow> bytes" where
  "offer cs = (if has cs SSL_RFC8902_X509 then [0] else []) @ (if has cs SSL_RFC8902_1609 then [3] else [])"

definition decide :: "u32 \<Rightarrow> bytes \<Rightarrow> int option" where
  "decide ss types =
     (if has ss SSL_RFC8902_1609 \<and> 3 \<in> set types then Some CertificateType1609Dot2
      else if has ss SSL_RFC8902_X509 \<and> 0 \<in> set types then Some CertificateTypeX509 else None)"

definition ct_idx :: "nat \<Rightarrow> bool" where
  "ct_idx i \<longleftrightarrow> i = TLSEXT_TYPE_server_certificate_type \<or> i = TLSEXT_TYPE_client_certificate_type"

definition ct_of :: "nat \<Rightarrow> SSL \<Rightarrow> RFC8902_CERT_TYPE" where
  "ct_of i s = (if i = TLSEXT_TYPE_server_certificate_type then srv (ieee1609 s) else clnt (ieee1609 s))"

lemma get_ct [simp]: "ct_idx i \<Longrightarrow> SSL_get_RFC8902_CERT_TYPE i s = Some (ct_of i s)"
  by (auto simp: ct_idx_def SSL_get_RFC8902_CERT_TYPE_def ct_of_def)

lemma set_type_decided_ct [simp]:
  "ct_of i (set_type_decided i t s) = (ct_of i s)\<lparr>type_decided := t\<rparr>"
  by (simp add: ct_of_def set_type_decided_def)

lemma set_type_decided_supported [simp]:
  "SSL_is_RFC8902_supported (set_type_decided i t s) = SSL_is_RFC8902_supported s"
  by (simp add: SSL_is_RFC8902_supported_def set_type_decided_def)

lemma get_1_Cons: "PACKET_get_1 (b # rest) = Some (ucast b, rest)"
  by (simp add: PACKET_get_1_def PACKET_peek_1_def PACKET_remaining_def packet_forward_def)

lemma ucast_byte_eq: "(ucast (b :: u8) :: u32) = 0 \<longleftrightarrow> b = 0" "(ucast (b :: u8) :: u32) = 3 \<longleftrightarrow> b = 3"
  using unat_ucast_byte [of b] by (auto simp: word_unat_eq_iff)

lemma cert_type_loop_eq:
  "cert_type_loop (length pkt) pkt x y = Some (x \<or> 0 \<in> set pkt, y \<or> 3 \<in> set pkt)"
  by (induction pkt arbitrary: x y) (auto simp: get_1_Cons ucast_byte_eq)

lemma get_1_len_prefixed:
  "length d < 256 \<Longrightarrow> PACKET_get_1_len (put_prefixed 1 d) = Some (length d, d)"
  by (simp add: PACKET_get_1_len_def put_prefixed_def get_1_Cons)

section \<open>The server's choice\<close>

lemma parse_ctos_eq:
  assumes "ct_idx i" "SSL_is_RFC8902_supported s" "length types < 256"
  shows "tls_parse_ctos_cert_type_ext i (put_prefixed 1 types) s = Some (case decide (support (ct_of i s)) types of
     None \<Rightarrow> (False, SSLfatal SSL_AD_DECODE_ERROR SSL_R_UNSUPPORTED_CERT_TYPE s)
   | Some t \<Rightarrow> (True, set_type_decided i t s))"
  using assms get_1_len_prefixed [OF assms(3)]
  by (simp add: tls_parse_ctos_cert_type_ext_def cert_type_loop_eq PACKET_remaining_def decide_def)

text \<open>Whatever the extension data, the parser decides only on a list framed by its length byte.\<close>

lemma parse_ctos_accepts:
  assumes "tls_parse_ctos_cert_type_ext i pkt s = Some (True, s1)"
  shows "\<exists>types t. length types < 256 \<and> pkt = put_prefixed 1 types \<and> ct_idx i \<and>
     decide (support (ct_of i s)) types = Some t \<and> s1 = set_type_decided i t s"
proof -
  obtain ct where ct: "SSL_get_RFC8902_CERT_TYPE i s = Some ct" and sup: "SSL_is_RFC8902_supported s"
    using assms by (auto simp: tls_parse_ctos_cert_type_ext_def bind_eq_Some_conv split: if_splits)
  then have i: "ct_idx i" by (auto simp: SSL_get_RFC8902_CERT_TYPE_def ct_idx_def split: if_splits)
  obtain b types where pkt: "pkt = b # types"
    using assms i sup by (cases pkt) (auto simp: tls_parse_ctos_cert_type_ext_def PACKET_get_1_len_def
      PACKET_get_1_def PACKET_peek_1_def PACKET_remaining_def)
  have "length types = unat b"
    using assms i sup pkt by (auto simp: tls_parse_ctos_cert_type_ext_def PACKET_get_1_len_def get_1_Cons
        PACKET_remaining_def split: if_splits)
  then have len: "length types < 256" and fr: "pkt = put_prefixed 1 types"
    using pkt unat_u8_less [of b] by (simp_all add: put_prefixed_def)
  then show ?thesis using parse_ctos_eq [OF i sup len] assms i
    by (auto split: option.splits)
qed

section \<open>The bytes on the wire\<close>

lemma ctos_appends:
  "wp.appends (ctos_writes ok i cs) (be_bytes 2 i @ put_prefixed 2 (put_prefixed 1 (offer cs)))"
proof -
  have 1: "wp.appends (if has cs 2 then WPACKET_put_bytes ok 0 1 else Pair True) (if has cs 2 then [0] else [])"
    using put_bytes_appends [of ok 0 1] wp.appends_skip by simp
  have 2: "wp.appends (if has cs 1 then WPACKET_put_bytes ok 3 1 else Pair True) (if has cs 1 then [3] else [])"
    using put_bytes_appends [of ok 3 1] wp.appends_skip by simp
  show ?thesis
    unfolding offer_def ctos_writes_def
    by (intro wp.appends_seq wp.appends_sub put_bytes_appends 1 2) simp_all
qed

lemma stoc_appends: "wp.appends (stoc_writes ok i t) (be_bytes 2 i @ put_prefixed 2 (be_bytes 1 t))"
  unfolding stoc_writes_def
  by (intro wp.appends_seq wp.appends_sub put_bytes_appends) simp

text \<open>With seven bytes of room the client's extension is written, with five the server's.\<close>

lemma ctos_succeeds:
  assumes "i < 65536"
  shows "wpt.succeeds (ctos_writes mem_always i cs) (5 + length (offer cs))"
proof -
  let ?a = "if has cs 2 then WPACKET_put_bytes mem_always 0 1 else Pair True"
  let ?b = "if has cs 1 then WPACKET_put_bytes mem_always 3 1 else Pair True"
  have 1: "wp.appends ?a (if has cs 2 then [0] else [])" "wpt.succeeds ?a (if has cs 2 then 1 else 0)"
    using put_bytes_appends [of mem_always 0 1] wp.appends_skip put_bytes_succeeds [of 0 1] wpt.succeeds_skip by simp_all
  have 2: "wp.appends ?b (if has cs 1 then [3] else [])" "wpt.succeeds ?b (if has cs 1 then 1 else 0)"
    using put_bytes_appends [of mem_always 3 1] wp.appends_skip put_bytes_succeeds [of 3 1] wpt.succeeds_skip by simp_all
  have ab: "wp.appends (wseq ?a ?b) (offer cs)"
    using wp.appends_seq [OF 1(1) 2(1)] by (simp add: offer_def)
  have n: "length (offer cs) = (if has cs 2 then 1 else 0) + (if has cs 1 then 1 else 0)"
    by (simp add: offer_def)
  have sab: "wpt.succeeds (wseq ?a ?b) (length (offer cs))"
    unfolding n by (rule wpt.succeeds_seq [OF 1 2(2)])
  have fit: "fits_prefix 1 (offer cs)" "fits_prefix 2 (put_prefixed 1 (offer cs))"
    by (simp_all add: fits_prefix_def put_prefixed_def offer_def)
  let ?in = "wseq (WPACKET_start_sub_packet_len mem_always 1) (wseq (wseq ?a ?b) (WPACKET_close mem_always))"
  have s1: "wpt.succeeds ?in (1 + length (offer cs))"
    by (rule wpt.succeeds_sub [OF _ ab sab fit(1)]) simp
  have a1: "wp.appends ?in (put_prefixed 1 (offer cs))" by (rule wp.appends_sub [OF _ ab]) simp
  have s2: "wpt.succeeds (wseq (WPACKET_start_sub_packet_len mem_always 2) (wseq ?in (WPACKET_close mem_always)))
      (2 + (1 + length (offer cs)))"
    by (rule wpt.succeeds_sub [OF _ a1 s1 fit(2)]) simp
  have p: "wpt.succeeds (WPACKET_put_bytes mem_always i 2) 2" using assms put_bytes_succeeds [of i 2] by simp
  have k: "5 + length (offer cs) = 2 + (2 + (1 + length (offer cs)))" by simp
  show ?thesis unfolding k ctos_writes_def by (rule wpt.succeeds_seq [OF put_bytes_appends p s2])
qed

lemma stoc_succeeds:
  assumes "i < 65536" "t < 256"
  shows "wpt.succeeds (stoc_writes mem_always i t) 5"
proof -
  have p: "wpt.succeeds (WPACKET_put_bytes mem_always i 2) 2" "wpt.succeeds (WPACKET_put_bytes mem_always t 1) 1"
    using assms put_bytes_succeeds [of i 2] put_bytes_succeeds [of t 1] by simp_all
  have s: "wpt.succeeds (wseq (WPACKET_start_sub_packet_len mem_always 2)
     (wseq (WPACKET_put_bytes mem_always t 1) (WPACKET_close mem_always))) (2 + 1)"
    by (rule wpt.succeeds_sub [OF _ put_bytes_appends p(2)]) (simp_all add: fits_prefix_def)
  have k: "(5 :: nat) = 2 + (2 + 1)" by simp
  show ?thesis unfolding k stoc_writes_def by (rule wpt.succeeds_seq [OF put_bytes_appends p(1) s])
qed

section \<open>One negotiation\<close>

text \<open>What the extension framework does with a written extension: it reads type and data back.\<close>

definition ext_body :: "nat \<Rightarrow> bytes \<Rightarrow> bytes option" where
  "ext_body i wired = do {
     (ty, rest) \<leftarrow> PACKET_get_net_2 wired;
     (data, rest1) \<leftarrow> PACKET_get_length_prefixed_2 rest;
     if unat ty = i \<and> rest1 = [] then Some data else None }"

lemma ext_body_put: "i < 65536 \<Longrightarrow> length d < 65536 \<Longrightarrow> ext_body i (be_bytes 2 i @ put_prefixed 2 d) = Some d"
proof -
  assume i: "i < 65536" and d: "length d < 65536"
  have "PACKET_get_net_2 (be_bytes 2 i @ put_prefixed 2 d) = Some (word_of_nat i, put_prefixed 2 d)"
    using i by (simp add: get_net_2_eq)
  moreover have "PACKET_get_length_prefixed_2 (put_prefixed 2 d) = Some (d, [])"
    using prefix2.get_put [of d "[]"] d by (simp add: fits_prefix_def)
  moreover have "unat (word_of_nat i :: u32) = i" using i unat_u32_of_nat [of i] by simp
  ultimately show ?thesis by (simp add: ext_body_def)
qed

text \<open>The bytes an operation added to a packet.\<close>

definition added :: "WPACKET \<Rightarrow> WPACKET \<Rightarrow> bytes" where
  "added p p1 = drop (length (wcontent p)) (wcontent p1)"

lemma construct_ctos_sent:
  assumes "ct_idx i" "tls_construct_ctos_cert_type_ext e i pkt c = Some (EXT_RETURN_SENT, pkt1, c1)" "wpacket_inv pkt"
  shows "added pkt pkt1 = be_bytes 2 i @ put_prefixed 2 (put_prefixed 1 (offer (support (ct_of i c))))" "c1 = c"
    "wpacket_inv pkt1" "SSL_is_RFC8902_supported c"
  using assms wp.appendsD [OF ctos_appends [of "malloc_ok e" i "support (ct_of i c)"] assms(3)]
  by (auto simp: tls_construct_ctos_cert_type_ext_def added_def split: if_splits prod.splits bool.splits)

lemma construct_stoc_sent:
  assumes "ct_idx i" "tls_construct_stoc_cert_type_ext e i pkt v = Some (EXT_RETURN_SENT, pkt1, v1)" "wpacket_inv pkt"
  shows "added pkt pkt1 = be_bytes 2 i @ put_prefixed 2 (be_bytes 1 (unat (word_of_int (type_decided (ct_of i v)) :: u64)))"
    "v1 = v" "wpacket_inv pkt1"
  using assms wp.appendsD [OF stoc_appends [of "malloc_ok e" i "unat (word_of_int (type_decided (ct_of i v)) :: u64)"] assms(3)]
  by (auto simp: tls_construct_stoc_cert_type_ext_def added_def split: if_splits prod.splits bool.splits)

lemma construct_ctos_room:
  assumes "ct_idx i" "SSL_is_RFC8902_supported c" "wpacket_inv pkt" "subs pkt \<noteq> []" "7 \<le> wspace pkt"
    "malloc_ok e = mem_always"
  shows "\<exists>pkt1. tls_construct_ctos_cert_type_ext e i pkt c = Some (EXT_RETURN_SENT, pkt1, c)"
proof -
  have i: "i < 65536" using assms(1) by (auto simp: ct_idx_def)
  have k: "5 + length (offer (support (ct_of i c))) \<le> wspace pkt" using assms(5) by (simp add: offer_def)
  obtain pkt1 where "ctos_writes mem_always i (support (ct_of i c)) pkt = (True, pkt1)"
    by (rule wpt.succeedsD [OF ctos_succeeds [OF i] assms(3,4) k])
  then show ?thesis using assms(1,2,6) by (simp add: tls_construct_ctos_cert_type_ext_def)
qed

lemma construct_stoc_room:
  assumes "ct_idx i" "SSL_is_RFC8902_supported v" "type_decided (ct_of i v) \<in> {0, 3}" "wpacket_inv pkt"
    "subs pkt \<noteq> []" "5 \<le> wspace pkt" "malloc_ok e = mem_always"
  shows "\<exists>pkt1. tls_construct_stoc_cert_type_ext e i pkt v = Some (EXT_RETURN_SENT, pkt1, v)"
proof -
  let ?t = "unat (word_of_int (type_decided (ct_of i v)) :: u64)"
  have i: "i < 65536" and t: "?t < 256" using assms(1,3) by (auto simp: ct_idx_def)
  obtain pkt1 where "stoc_writes mem_always i ?t pkt = (True, pkt1)"
    by (rule wpt.succeedsD [OF stoc_succeeds [OF i t] assms(4-6)])
  then show ?thesis using assms(1-3,7) by (auto simp: tls_construct_stoc_cert_type_ext_def)
qed

lemma decide_offer:
  "decide ss (offer cs) = Some t \<longleftrightarrow> t = 3 \<and> has ss 1 \<and> has cs 1
     \<or> t = 0 \<and> \<not> (has ss 1 \<and> has cs 1) \<and> has ss 2 \<and> has cs 2"
  by (auto simp: decide_def offer_def)

lemma parse_stoc_offer:
  assumes "ct_idx i" "SSL_is_RFC8902_supported c" "decide ss (offer (support (ct_of i c))) = Some t"
  shows "tls_parse_stoc_cert_type_ext i (be_bytes 1 (unat (word_of_int t :: u64))) c = Some (True, set_type_decided i t c)"
  using assms by (auto simp: decide_offer tls_parse_stoc_cert_type_ext_def PACKET_remaining_def get_1_Cons)

end
