(* ===== verification/Sample_Data.thy ===== *)
theory Sample_Data
  imports Statem_Flow Cert_Type_Ext
begin

text \<open>
  One concrete instance of every parameter of the model and one connection, on which the
  properties are evaluated: a process with memory, a security entity that answers every request,
  library calls that succeed, and a fresh TLS 1.3 connection that supports both certificate types.
\<close>

section \<open>The process and the security entity\<close>

text \<open>A root certificate: its name is of two bytes and it is valid for two years.\<close>

definition root0 :: bytes where
  "root0 = [0x80, 3, 0, 0x81, 1, 0, 0, 2, 0x43, 0x41, 0, 0, 0, 0, 0, 0x1e, 0, 0, 0, 0x86, 0, 2]"

definition answer0 :: "bytes \<Rightarrow> bytes list" where
  "answer0 req = (case req of
      [] \<Rightarrow> []
    | t # _ \<Rightarrow>
        if t = 18 then [sec_ent_frame 18 [1, 2, 3, 4, 5, 6, 7, 8]]
        else if t = 19 then [sec_ent_frame 19 [9, 9]]
        else if t = 20 then [sec_ent_frame 20 [0, 0, 0, 0, 0, 0, 0, 0x87, 0xAA]]
        else if t = 8 then [sec_ent_frame 8 (root0 @ [0])]
        else if t = 22 then [sec_ent_frame 22 [1, 2, 3, 4, 5, 6, 7, 8]]
        else [sec_ent_frame 3 [1]])"

definition env0 :: env where
  "env0 = \<lparr>malloc_ok = mem_always, host_little = True, env_socket = (\<lambda>_. 5), env_connect = (\<lambda>_ _ _. True),
     env_write = (\<lambda>_ _ n. int n), env_peer = (\<lambda>_. answer0), env_d2i_fake = (\<lambda>_. True),
     env_set_ex_data = (\<lambda>_. True), env_x509_idx = 0, env_security_cert = (\<lambda>_. 1),
     env_pubkey = (\<lambda>_. Some (Some 3)), env_can_sign = (\<lambda>_. True), env_check_private = (\<lambda>_. True),
     env_key_slot = (\<lambda>_. Some (Some 3))\<rparr>"

definition cert0 :: IEEE1609_CERT where
  "cert0 = \<lparr>cert_version = 0x1609, cert_data_len = 3, cert_data = Some [0x80, 3, 0],
     hashed_id_present = False, hashedid8 = replicate 8 0\<rparr>"

text \<open>A process whose X509 object at address 0 carries \<open>cert0\<close>.\<close>

definition os0 :: os where
  "os0 = \<lparr>mallocs = 0, live = 0, errs = [], conns = 0, open_fds = [], wire = [], inbox = None, requests = [],
     x509s = (\<lambda>a. if a = 0 then Some \<lparr>x_refs = 1, x_der = None, x_1609 = Some cert0\<rparr> else None), x_next = 1\<rparr>"

section \<open>A connection\<close>

definition statem0 :: OSSL_STATEM where
  "statem0 = \<lparr>state = MSG_FLOW_UNINITED, write_state = WRITE_STATE_TRANSITION, write_state_work = WORK_MORE_A,
     read_state = READ_STATE_HEADER, read_state_work = WORK_MORE_A, hand_state = TLS_ST_BEFORE,
     request_state = TLS_ST_BEFORE, in_init = True, read_state_first_init = False, in_handshake = 0,
     cleanuphand = False, no_cert_verify = False, use_timer = False,
     enc_write_state = ENC_WRITE_STATE_VALID, enc_read_state = ENC_READ_STATE_VALID\<rparr>"

definition s30 :: SSL3_STATE where
  "s30 = \<lparr>cert_req = 0, cert_request = False, new_cipher = Some \<lparr>cipher_id = 0x1301, algorithm_mkey = 0, algorithm_auth = 0\<rparr>,
     npn_seen = False, s3_flags = 0, change_cipher_spec = False, message_size = 0, message_type = 0, finish_md_len = 0,
     peer_finish_md_len = 0, peer_finish_md = [], s3_renegotiate = False, total_renegotiations = 0,
     num_renegotiations = 0, in_read_app_data = 0, previous_client_finished = [], previous_server_finished = [],
     tmp_cert = Some 0, tmp_sigalg = True, handshake_buffer = Some [1, 2], handshake_dgst = Some [1, 2], server_random = replicate 32 0\<rparr>"

definition rfc0 :: RFC8902_CERT_TYPE where
  "rfc0 = \<lparr>support = 3, type_decided = -1\<rparr>"

definition ieee0 :: SSL_IEEE1609 where
  "ieee0 = \<lparr>RFC8902_support = True, srv = rfc0, clnt = rfc0, psid_this_side = 0x87, psid_other_side = 0,
     ssp_other_side_len = 0, ssp_other_side = replicate 100 0, sec_ent_addr = [0x31, 0], sec_ent_port = 3999\<rparr>"

definition ssl0 :: SSL where
  "ssl0 = \<lparr>version = 0x304, client_version = 0x303, method_version = 0x304, ctx_method_version = 0x10000, min_proto_version = 0,
     max_proto_version = 0, ssl_mode = 0, dtls = False, server = False, hit = False, options = 0,
     verify_mode = 1, verify_result = 0, hello_retry_request = SSL_HRR_NONE, early_data_state = SSL_EARLY_DATA_NONE,
     post_handshake_auth = SSL_PHA_NONE, renegotiate = False, new_session = False, key_update = -1, shutdown = 0,
     num_tickets = 0, sent_tickets = 0, certreqs_sent = 0, init_num = 0, init_buf = None, init_off = 0, init_msg = 0,
     rwstate = SSL_NOTHING, first_packet = False, max_cert_list = 102400, max_early_data = 0,
     cookie_verified = False, cert_verify_hash = [7, 7], pha_context = None, statem = statem0,
     ext = \<lparr>ticket_expected = False, status_expected = False, early_data = SSL_EARLY_DATA_NOT_SENT,
            extra_tickets_expected = 0, session_secret_cb = False, extflags = replicate 28 0\<rparr>,
     s3 = s30, session = \<lparr>peer = None, peer_chain = None, sess_verify_result = 0, tick = False, sess_cipher = None\<rparr>,
     pkeys = [\<lparr>pk_x509 = Some 0, pk_privatekey = True, pk_chain = None\<rparr>], custext = [], cert_key = 0, ieee1609 = ieee0,
     alerts = [], os = os0\<rparr>"

text \<open>The same connection in a given handshake state, and one whose two certificate types are decided.\<close>

definition at :: "OSSL_HANDSHAKE_STATE \<Rightarrow> SSL" where
  "at h = set_hand h ssl0"

definition both1609 :: "SSL \<Rightarrow> SSL" where
  "both1609 s = upd_1609 (\<lambda>t. t\<lparr>srv := (srv t)\<lparr>type_decided := 3\<rparr>, clnt := (clnt t)\<lparr>type_decided := 3\<rparr>\<rparr>) s"

section \<open>Library calls\<close>

definition hooks0 :: hooks where
  "hooks0 = \<lparr>hk_init_mac = (\<lambda>_. True), hk_ver_range = (\<lambda>_. Some (0x304, 0x304)), hk_md5sha1 = True,
     hk_set_min = (\<lambda>_ _. True), hk_ciphers = [(0x304, 0x304, 0, 0)], hk_pending = (\<lambda>_. False),
     hk_pha_restore = (\<lambda>_. True), hk_pha_save = (\<lambda>_. True), hk_change_cipher = (\<lambda>_ _. True),
     hk_setup_key_block = (\<lambda>_. True), hk_gen_master = (\<lambda>_. True), hk_update_key = (\<lambda>_ _. True),
     hk_finish_mac = (\<lambda>b _. if b then [1, 1] else [2, 2]), hk_log_secret = (\<lambda>_. True), hk_read_pending = (\<lambda>_. False),
     hk_key_block = (\<lambda>_. True), hk_master_key = (\<lambda>_. True), hk_initial_flight = (\<lambda>_. True), hk_flush = (\<lambda>_. True),
     hk_ckx_post = (\<lambda>_. True), hk_free_wbio = (\<lambda>_. True), hk_conn_closed = (\<lambda>_. False)\<rparr>"

text \<open>The extension framework writes and accepts an empty block of certificate extensions.\<close>

definition no_cert_exts :: "mem_ok \<Rightarrow> cert_exts" where
  "no_cert_exts ok s pkt a chain = (case WPACKET_put_bytes ok 0 2 pkt of (b, p) \<Rightarrow> (b, p, s))"

definition lib0 :: tlslib where
  "lib0 = \<lparr>tl_md_ctx = (\<lambda>_. True), tl_hash = (\<lambda>_. Some [7, 7]), tl_handshake_md = (\<lambda>_. True), tl_digest = (\<lambda>_ _. True),
     tl_use_sigalgs = (\<lambda>_. True), tl_sigalg = (\<lambda>_. 0x403), tl_lookup_md = (\<lambda>_. True), tl_sign = (\<lambda>_ d. Some (take 2 d)),
     tl_gost = (\<lambda>_. False), tl_gost_raw = (\<lambda>_ _. False), tl_sign_cert = (\<lambda>_. True), tl_check_sigalg = (\<lambda>s _. (True, s)),
     tl_legacy_sigalg = (\<lambda>_. True), tl_verify_init = (\<lambda>_. True), tl_verify_setup = (\<lambda>_ _. True), tl_verify = (\<lambda>_ sig d. sig = take 2 d),
     tl_sk_new = (\<lambda>_. True), tl_sk_push = (\<lambda>_. True), tl_x509_new = (\<lambda>_. True), tl_d2i = (\<lambda>d. Some (length d)),
     tl_i2d = x_der, tl_parse_exts = (\<lambda>d _ _ _ s. (d = [], s)), tl_cert_exts = no_cert_exts mem_always,
     tl_missing_params = (\<lambda>_. False), tl_amask = (\<lambda>_. 1), tl_store_ctx = (\<lambda>_. True), tl_store_init = (\<lambda>_. True),
     tl_x509_verify = (\<lambda>_ s. (1, s)), tl_sess_dup = (\<lambda>_. True),
     tl_extra_certs = None, tl_no_auto_chain = True, tl_has_store = False, tl_build_chain = (\<lambda>x _. [x]),
     tl_security_chain = (\<lambda>_ _ _. 1)\<rparr>"

text \<open>The record layer delivers a message of a given type and body.\<close>

definition machine0 :: "nat \<Rightarrow> bytes \<Rightarrow> machine" where
  "machine0 mt body = \<lparr>mc_env = env0, mc_hooks = hooks0, mc_lib = lib0,
     mc_process = (\<lambda>_ s. (MSG_PROCESS_CONTINUE_READING, s)), mc_post = (\<lambda>_ s. (WORK_FINISHED_CONTINUE, s)),
     mc_construct = (\<lambda>p s. (1, p, s)), mc_header = (\<lambda>s. (Some mt, upd_s3 (\<lambda>t. t\<lparr>message_size := length body\<rparr>) s)),
     mc_body = (\<lambda>s. (Some body, s)), mc_grow = (\<lambda>_ _. True), mc_do_write = (\<lambda>s. (1, s)), mc_clear = (\<lambda>s. (True, s)),
     mc_security = (\<lambda>_. True), mc_new_buf = (\<lambda>_. Some \<lparr>bm_data = replicate 64 0, bm_max = 88\<rparr>), mc_buffers = (\<lambda>_. True),
     mc_init_wbio = (\<lambda>_. True)\<rparr>"

section \<open>Their contents\<close>

lemma sample_malloc [simp]: "malloc_ok env0 = mem_always"
  by (simp add: env0_def)

lemma sample_entity_up: "entity_up env0"
  by (simp add: entity_up_def env0_def)

lemma sample_cert_ok: "cert_ok cert0"
  by (simp add: cert_ok_def cert0_def)

lemma sample_holds: "x509_holds os0 0 cert0"
  by (simp add: x509_holds_def IEEE1609_CERT_from_X509_def os0_def)

lemma sample_addr: "addr_ok ssl0"
  by (simp add: addr_ok_def ssl0_def ieee0_def)

lemma sample_os [simp]: "os ssl0 = os0" "ieee1609 ssl0 = ieee0" "conns os0 = 0" "statem ssl0 = statem0" "s3 ssl0 = s30"
  by (simp_all add: ssl0_def os0_def)

lemma sample_replies:
  "entity_replies env0 i (sec_ent_frame 18 d) 18 [1, 2, 3, 4, 5, 6, 7, 8]"
  "entity_replies env0 i (sec_ent_frame 19 d) 19 [9, 9]"
  "entity_replies env0 i (sec_ent_frame 20 d) 20 [0, 0, 0, 0, 0, 0, 0, 0x87, 0xAA]"
  "entity_replies env0 i (sec_ent_frame 8 d) 8 (root0 @ [0])"
  "entity_replies env0 i (sec_ent_frame 22 d) 22 [1, 2, 3, 4, 5, 6, 7, 8]"
  by (simp_all add: entity_replies_def env0_def answer0_def sec_ent_frame_def)

end
