(* ===== verification/Wire_Properties.thy ===== *)
theory Wire_Properties
  imports Sample_Data
begin

text \<open>
  The properties of the byte level: what the readers of \<^verbatim>\<open>packet.h\<close> accept, what the writers of
  \<^verbatim>\<open>packet.c\<close> append, and that the two fit together.
\<close>

section \<open>Readers\<close>

text \<open>
  The three readers of length-prefixed vectors accept exactly the packets that begin with
  the big-endian length, of one, two or three bytes, of a vector and the vector itself; they
  return the vector and leave what follows, and never read past the end of the packet.
\<close>

theorem length_prefixed_exact:
  "(PACKET_get_length_prefixed_1 p = Some (d, q) \<longleftrightarrow> length d < 256 \<and> p = be_bytes 1 (length d) @ d @ q) \<and>
   (PACKET_get_length_prefixed_2 p = Some (d, q) \<longleftrightarrow> length d < 65536 \<and> p = be_bytes 2 (length d) @ d @ q) \<and>
   (PACKET_get_length_prefixed_3 p = Some (d, q) \<longleftrightarrow> length d < 16777216 \<and> p = be_bytes 3 (length d) @ d @ q)"
  by (simp add: prefix1.get_iff prefix2.get_iff prefix3.get_iff put_prefixed_def fits_prefix_def)

section \<open>Writers\<close>

text \<open>A packet writer on a fresh 64 byte buffer.\<close>

definition wpacket0 :: WPACKET where
  "wpacket0 = \<lparr>wbuf = WMem \<lparr>bm_data = replicate 64 0, bm_max = 88\<rparr>, curr = 0, written = 0, maxsize = SIZE_MAX,
     subs = [\<lparr>packet_len = 0, lenbytes = 0, pwritten = 0, wflags = 0\<rparr>], endfirst = False, wtick = 0, corrupt = False\<rparr>"

lemma wpacket0_ok [simp]:
  "wpacket_inv wpacket0" "subs wpacket0 \<noteq> []" "wspace wpacket0 = 64" "wcontent wpacket0 = []" "written wpacket0 = 0"
  by (simp_all add: wpacket0_def wpacket_inv_def buf_inv_def wf_buf_def sub_ok_def wspace_def wdata_def wcontent_def
      SIZE_MAX_def INT_MAX_def)

text \<open>
  Writing an integer of \<open>n\<close> bytes where there is room for it: the call returns 1 exactly when
  the value fits, and then the packet has grown by its big-endian encoding, its open sub-packets
  and the invariant of the writer unchanged.
\<close>

theorem put_bytes_exact:
  assumes "wpacket_inv p" "subs p \<noteq> []" "0 < n" "n \<le> 8" "n \<le> wspace p"
  shows "\<exists>p1. WPACKET_put_bytes mem_always v n p = (v < 256 ^ n, p1) \<and>
    (v < 256 ^ n \<longrightarrow> wpacket_inv p1 \<and> wcontent p1 = wcontent p @ be_bytes n v \<and> subs p1 = subs p)"
proof (cases "v < 256 ^ n")
  case True
  obtain p1 where "WPACKET_put_bytes mem_always v n p = (True, p1)"
    by (rule wpt.succeedsD [OF put_bytes_succeeds [OF True assms(3,4)] assms(1,2,5)])
  then show ?thesis using WPACKET_put_bytes_spec [OF assms(1)] True by auto
next
  case False
  then show ?thesis using WPACKET_put_bytes_spec [OF assms(1), of mem_always v n]
    by (cases "WPACKET_put_bytes mem_always v n p") auto
qed

lemma put_bytes_exact_witness:
  "(\<exists>p1. WPACKET_put_bytes mem_always 0x1609 2 wpacket0 = (True, p1) \<and> wcontent p1 = [0x16, 0x09]) \<and>
   (\<exists>p1. WPACKET_put_bytes mem_always 256 1 wpacket0 = (False, p1))"
proof -
  have "be_bytes 2 0x1609 = [0x16, 0x09]" by code_simp
  then have "\<exists>p1. WPACKET_put_bytes mem_always 0x1609 2 wpacket0 = (True, p1) \<and> wcontent p1 = [0x16, 0x09]"
    using put_bytes_exact [of wpacket0 2 "0x1609"] by auto
  then show ?thesis using put_bytes_exact [of wpacket0 1 256] by simp
qed

text \<open>
  What a length-prefixed vector writer put into a packet, whatever the allocator did, is read
  back by the reader of the same width: the data, and nothing left over. The content before it,
  the open sub-packets and the invariant are kept.
\<close>

theorem sub_memcpy_roundtrip:
  assumes "wpacket_inv p" "WPACKET_sub_memcpy ok src 3 p = (True, p1)"
  shows "PACKET_get_length_prefixed_3 (drop (written p) (wcontent p1)) = Some (src, []) \<and>
    take (written p) (wcontent p1) = wcontent p \<and> wpacket_inv p1 \<and> subs p1 = subs p"
proof -
  have p1: "wcontent p1 = wcontent p @ put_prefixed 3 src" "wpacket_inv p1 \<and> subs p1 = subs p"
    using wp.appendsD [OF sub_memcpy_appends [of 3 ok src] assms] by simp_all
  have fit: "fits_prefix 3 src" by (rule sub_memcpy_fits [OF _ assms]) simp
  have w: "written p = length (wcontent p)" using length_wcontent [OF assms(1)] by simp
  show ?thesis using prefix3.get_put [OF fit, of "[]"] p1 by (simp add: w)
qed

lemma sub_memcpy_roundtrip_witness:
  "\<exists>p1. WPACKET_sub_memcpy mem_always [1, 2] 3 wpacket0 = (True, p1) \<and>
     PACKET_get_length_prefixed_3 (wcontent p1) = Some ([1, 2], [])"
proof -
  have k: "3 + length [1, 2 :: u8] \<le> wspace wpacket0" and n: "length [1, 2 :: u8] < 256 ^ 3" by simp_all
  obtain p1 where p1: "WPACKET_sub_memcpy mem_always [1, 2] 3 wpacket0 = (True, p1)"
    by (rule wpt.succeedsD [OF sub_memcpy_succeeds [OF _ n] wpacket0_ok(1,2) k]) simp
  then show ?thesis using sub_memcpy_roundtrip [OF wpacket0_ok(1) p1] by simp
qed

end
