(* ===== verification/Entity_Properties.thy ===== *)
theory Entity_Properties
  imports Wire_Properties
begin

text \<open>
  The properties of the security entity client and of the IEEE 1609.2 certificate operations
  that go through it (\<^verbatim>\<open>ssl/ieee1609dot2.c\<close>).
\<close>

section \<open>Messages\<close>

text \<open>
  C33. The request to sign goes out as type, big-endian length, big-endian PSID, certificate hash
  and input, on hosts of either byte order; when an allocation fails nothing is sent, an error is
  queued and no block is leaked.
\<close>

theorem sign_request_on_the_wire:
  assumes "length hid = 8" "length input < 2 ^ 31 - 21"
  shows "\<exists>r w1. SEC_ENT_MSG_new_TYPE_TLS_SIGN_DATA e psid hid input w = Some (r, w1) \<and>
     (case r of
        None \<Rightarrow> live w1 = live w \<and> errs w1 \<noteq> []
      | Some m \<Rightarrow> (\<exists>b w2. SEC_ENT_MSG_get_send_buffer e r w1 = Some (b, w2) \<and>
          live w2 = live w1 + (if b = None then 0 else 1) \<and>
          (case b of
             None \<Rightarrow> errs w2 \<noteq> []
           | Some frame \<Rightarrow> frame = 19 # be_bytes 4 (16 + length input) @ be_bytes 8 (unat psid) @ hid @ input)))"
proof -
  obtain r w1 where r: "SEC_ENT_MSG_new_TYPE_TLS_SIGN_DATA e psid hid input w = Some (r, w1)"
    "msg_built SEC_ENT_MSG_TYPE_TLS_SIGN_DATA (be_bytes 8 (unat psid) @ hid @ input) w r w1"
    using sign_data_spec [of hid input e psid w] assms by auto
  show ?thesis
  proof (cases r)
    case None
    then show ?thesis using r by (auto simp: msg_built_def msg_blocks_def)
  next
    case (Some m)
    then have m: "msg_ok m" "msg_type m = 19" "payload m = be_bytes 8 (unat psid) @ hid @ input"
      using r(2) by (simp_all add: msg_built_def)
    then have "length (payload m) < 2 ^ 32 - 5" using assms by simp
    from send_buffer_spec [OF m(1) this, of e w1] show ?thesis
      using r(1) Some m assms(1) by (fastforce simp: sec_ent_frame_def split: option.splits)
  qed
qed

lemma sign_request_on_the_wire_witness:
  "\<exists>r w1. SEC_ENT_MSG_new_TYPE_TLS_SIGN_DATA env0 0x87 [1, 2, 3, 4, 5, 6, 7, 8] [9] os0 = Some (r, w1) \<and>
     (case r of
        None \<Rightarrow> live w1 = live os0 \<and> errs w1 \<noteq> []
      | Some m \<Rightarrow> (\<exists>b w2. SEC_ENT_MSG_get_send_buffer env0 r w1 = Some (b, w2) \<and>
          live w2 = live w1 + (if b = None then 0 else 1) \<and>
          (case b of
             None \<Rightarrow> errs w2 \<noteq> []
           | Some frame \<Rightarrow> frame = 19 # be_bytes 4 (16 + length [9 :: u8]) @ be_bytes 8 (unat (0x87 :: u64)) @ [1, 2, 3, 4, 5, 6, 7, 8] @ [9])))"
  by (rule sign_request_on_the_wire) simp_all

text \<open>
  What the receiver makes of \<open>len\<close> bytes it got: it never reads outside them, and it returns a
  message exactly of the form type, length, payload that fills these bytes completely, or it
  queues an error and owns no block.
\<close>

theorem recv_buffer_exact:
  assumes "len \<le> length data" "len < 2 ^ 32"
  shows "\<exists>r w1. SEC_ENT_MSG_new_from_recv_buffer e data len w = Some (r, w1) \<and>
     live w1 = live w + msg_blocks r \<and> x509s w1 = x509s w \<and>
     (case r of
        None \<Rightarrow> errs w1 \<noteq> []
      | Some m \<Rightarrow> msg_ok m \<and> payload m \<noteq> [] \<and>
          take len data = msg_type m # be_bytes 4 (length (payload m)) @ payload m)"
  using recv_buffer_total [OF assms, of e w]
  by (fastforce simp: same_io_def sec_ent_frame_def split: option.splits)

lemma recv_buffer_exact_witness:
  "\<exists>r w1. SEC_ENT_MSG_new_from_recv_buffer env0 [18, 0, 0, 0, 1, 7] 6 os0 = Some (r, w1) \<and>
     (case r of None \<Rightarrow> errs w1 \<noteq> [] | Some m \<Rightarrow> [18, 0, 0, 0, 1, 7] = msg_type m # be_bytes 4 (length (payload m)) @ payload m)"
  using recv_buffer_exact [of 6 "[18, 0, 0, 0, 1, 7]" env0 os0] by (fastforce split: option.splits)

text \<open>
  Round trip of a frame: a well-formed message with a payload, made into a send buffer and
  parsed again from exactly these bytes, comes back as the same message, when memory lasts.
\<close>

theorem frame_roundtrip:
  assumes "msg_ok m" "payload m \<noteq> []" "length (payload m) < 2 ^ 32 - 5" "malloc_ok e = mem_always"
  shows "\<exists>frame w1 w2. SEC_ENT_MSG_get_send_buffer e (Some m) w = Some (Some frame, w1) \<and>
     SEC_ENT_MSG_new_from_recv_buffer e frame (length frame) w1 = Some (Some m, w2)"
proof -
  let ?f = "sec_ent_frame (msg_type m) (payload m)"
  have "unat (msg_len m + 5) = 5 + length (payload m)"
    using assms(3) payload_len [OF assms(1)] by (simp add: unat_plus5)
  then obtain w1 where sb: "SEC_ENT_MSG_get_send_buffer e (Some m) w = Some (Some ?f, w1)"
    using send_buffer_spec [OF assms(1,3), of e w] assms(4)
    by (fastforce simp: SEC_ENT_MSG_get_send_buffer_def OPENSSL_malloc_def Let_def bind_eq_Some_conv split: option.splits)
  have m: "raw_msg (msg_type m) (payload m) = m"
    using assms(1,2) by (cases m) (auto simp: raw_msg_def msg_ok_def payload_def split: option.splits)
  show ?thesis
    using sb recv_buffer_frame [of e "payload m" "msg_type m" "[]" w1] assms m by simp
qed

lemma frame_roundtrip_witness:
  "\<exists>frame w1 w2. SEC_ENT_MSG_get_send_buffer env0 (Some (raw_msg 18 [7])) os0 = Some (Some frame, w1) \<and>
     SEC_ENT_MSG_new_from_recv_buffer env0 frame (length frame) w1 = Some (Some (raw_msg 18 [7]), w2)"
  using frame_roundtrip [of "raw_msg 18 [7]" env0 os0] by simp

section \<open>The connection to the entity\<close>

text \<open>
  Reading \<open>n\<close> bytes into a buffer that has room for them ends whatever the socket delivers and
  in whatever pieces: the bytes stored are those that arrived, in order, at most \<open>n\<close>, nothing
  outside the \<open>n\<close> bytes is written and the rest stays readable.
\<close>

theorem read_N_bytes_terminates:
  assumes "off + n \<le> length buf"
  shows "\<exists>k segs. read_N_bytes e n ret buf off w
       = Some (ret + k, write_at buf off (take k (concat (pending e w))), off + k, w\<lparr>inbox := segs\<rparr>)
     \<and> k \<le> n \<and> k \<le> length (concat (pending e w))
     \<and> concat (pending e (w\<lparr>inbox := segs\<rparr>)) = drop k (concat (pending e w))"
  using assms by (rule read_N_bytes_total)

lemma read_N_bytes_terminates_witness:
  "\<exists>k segs. read_N_bytes env0 4 0 (replicate 8 0) 2 (os0\<lparr>inbox := Some [[1, 2], [3, 4, 5]]\<rparr>)
     = Some (k, write_at (replicate 8 0) 2 (take k [1, 2, 3, 4, 5]), 2 + k, os0\<lparr>inbox := segs\<rparr>) \<and> k \<le> 4"
  using read_N_bytes_terminates [of 2 4 "replicate 8 0" env0 0 "os0\<lparr>inbox := Some [[1, 2], [3, 4, 5]]\<rparr>"] by auto



text \<open>
  C31. With memory and a connection, an exchange delivers: when the entity answers the request with
  one frame, in any segmentation, the request is on the wire once and the caller gets type and
  payload of that frame; a failure frame gives no message and the error code the callers test for.
\<close>

theorem sec_ent_process_delivers:
  assumes "entity_up e" "msg_ok m" "length (payload m) < 2 ^ 31 - 5" "0 \<in> set (sec_ent_addr st)"
    "d \<noteq> []" "length d \<le> 2043" "entity_replies e (conns w) (sec_ent_frame (msg_type m) (payload m)) ty d"
  shows "\<exists>w1. sec_ent_process e st (Some m) w
       = Some (if ty = SEC_ENT_MSG_TYPE_FAILURE then None else Some (raw_msg ty d), w1) \<and>
     requests w1 = requests w @ [sec_ent_frame (msg_type m) (payload m)] \<and>
     errs w1 = (if ty = SEC_ENT_MSG_TYPE_FAILURE then SSL_R_UNEXPECTED_MESSAGE # errs w else errs w)"
  using sec_ent_process_exchange [OF assms] by blast

lemma sec_ent_process_delivers_witness:
  "\<exists>w1. sec_ent_process env0 ieee0 (Some (raw_msg 18 [7])) os0 = Some (Some (raw_msg 18 [1, 2, 3, 4, 5, 6, 7, 8]), w1) \<and>
     requests w1 = requests os0 @ [sec_ent_frame 18 [7]]"
proof -
  have "length (payload (raw_msg 18 [7])) < 2 ^ 31 - 5" "0 \<in> set (sec_ent_addr ieee0)"
    "[1, 2, 3, 4, 5, 6, 7, 8 :: u8] \<noteq> []" "length [1, 2, 3, 4, 5, 6, 7, 8 :: u8] \<le> 2043"
    "entity_replies env0 (conns os0) (sec_ent_frame (msg_type (raw_msg 18 [7])) (payload (raw_msg 18 [7]))) 18 [1, 2, 3, 4, 5, 6, 7, 8]"
    using sample_replies(1) by (simp_all add: ieee0_def)
  from sec_ent_process_delivers [OF sample_entity_up _ this] show ?thesis by auto
qed

section \<open>Certificates\<close>

text \<open>
  Verification of a certificate accepts only what the entity approved: when
  \<open>IEEE1609_CERT_verify\<close> returns 1 the entity answered the request for exactly these certificate
  octets with a frame of the verification type, and the certificate now carries the first eight
  bytes of the answer as its hash. When it returns 0 an error is queued and no object changed.
\<close>

theorem cert_verify_sound:
  assumes "cert_ok c" "x509_holds (os s) a c" "addr_ok s" "IEEE1609_CERT_verify e (Some a) s = Some (r, s1)"
  shows "live (os s1) = live (os s) \<and>
    (if r then \<exists>d rest. concat (env_peer e (conns (os s)) (sec_ent_frame 18 (cert_octets c))) = sec_ent_frame 18 d @ rest
         \<and> 8 \<le> length d \<and> x509_holds (os s1) a (c\<lparr>hashed_id_present := True, hashedid8 := take 8 d\<rparr>)
     else errs (os s1) \<noteq> [] \<and> x509s (os s1) = x509s (os s))"
  using assms(1-3) by (cases rule: verify_cases [where e = e]) (use assms(4) in auto)

text \<open>
  C23. Verification is complete when the entity answers, but it trusts the length of the answer:
  a frame of the right type with at least eight bytes is accepted, one of another type is not,
  and one of the right type with fewer than eight bytes is read past its end.
\<close>

theorem cert_verify_complete:
  assumes "entity_up e" "cert_ok c" "x509_holds (os s) a c" "addr_ok s"
    "entity_replies e (conns (os s)) (sec_ent_frame 18 (cert_octets c)) ty d" "d \<noteq> []" "length d \<le> 2043"
  shows "case IEEE1609_CERT_verify e (Some a) s of
      None \<Rightarrow> ty = 18 \<and> length d < 8
    | Some (r, s1) \<Rightarrow> (r \<longleftrightarrow> ty = 18) \<and>
        (r \<longrightarrow> 8 \<le> length d \<and> x509_holds (os s1) a (c\<lparr>hashed_id_present := True, hashedid8 := take 8 d\<rparr>) \<and>
               requests (os s1) = requests (os s) @ [sec_ent_frame 18 (cert_octets c)])"
proof -
  note V = verify_up [OF assms]
  consider "ty \<noteq> 18" | "ty = 18" "length d < 8" | "ty = 18" "8 \<le> length d" by linarith
  then show ?thesis using V by cases auto
qed

lemma cert_verify_sound_witness:
  "\<exists>s1. IEEE1609_CERT_verify env0 (Some 0) ssl0 = Some (True, s1) \<and> live (os s1) = live os0"
proof -
  have h: "x509_holds (os ssl0) 0 cert0" using sample_holds by simp
  have rep: "entity_replies env0 (conns (os ssl0)) (sec_ent_frame 18 (cert_octets cert0)) 18 [1, 2, 3, 4, 5, 6, 7, 8]"
    by (rule sample_replies)
  obtain s1 where s1: "IEEE1609_CERT_verify env0 (Some 0) ssl0 = Some (True, s1)"
    using verify_up(1) [OF sample_entity_up sample_cert_ok h sample_addr rep] by auto
  then show ?thesis using cert_verify_sound [OF sample_cert_ok h sample_addr s1] by simp
qed

lemma cert_verify_complete_witness:
  "case IEEE1609_CERT_verify env0 (Some 0) ssl0 of None \<Rightarrow> False
   | Some (r, s1) \<Rightarrow> r \<and> x509_holds (os s1) 0 (cert0\<lparr>hashed_id_present := True, hashedid8 := [1, 2, 3, 4, 5, 6, 7, 8]\<rparr>)"
proof -
  have "x509_holds (os ssl0) 0 cert0" using sample_holds by simp
  from cert_verify_complete [OF sample_entity_up sample_cert_ok this sample_addr, of 18 "[1, 2, 3, 4, 5, 6, 7, 8]"]
  show ?thesis using sample_replies(1) by (auto split: option.splits)
qed





end
