(* ===== verification/Negotiation_Properties.thy ===== *)
theory Negotiation_Properties
  imports Wire_Properties
begin

text \<open>
  The properties of the certificate type negotiation (\<^verbatim>\<open>ssl/statem/extensions_ieee1609dot2.c\<close>).
\<close>

text \<open>
  C5. A complete negotiation of one certificate type, client and server both with RFC 8902 support
  and with a type in common: the client's extension is sent, the server decides on it, sends its
  decision, and the client takes it over. Both sides end with the same type, IEEE 1609.2 exactly
  when both support it and X.509 otherwise, and the client has not been offered anything else.
\<close>

theorem negotiation_agrees:
  assumes "ct_idx i" "SSL_is_RFC8902_supported c" "SSL_is_RFC8902_supported v"
    "has (support (ct_of i v)) 1 \<and> has (support (ct_of i c)) 1 \<or> has (support (ct_of i v)) 2 \<and> has (support (ct_of i c)) 2"
    "wpacket_inv pc" "subs pc \<noteq> []" "7 \<le> wspace pc" "malloc_ok e = mem_always"
    "wpacket_inv pv" "subs pv \<noteq> []" "5 \<le> wspace pv" "malloc_ok e1 = mem_always"
  shows "\<exists>pc1 d v1 pv1 d1 c1. tls_construct_ctos_cert_type_ext e i pc c = Some (EXT_RETURN_SENT, pc1, c) \<and>
     ext_body i (added pc pc1) = Some d \<and> tls_parse_ctos_cert_type_ext i d v = Some (True, v1) \<and>
     tls_construct_stoc_cert_type_ext e1 i pv v1 = Some (EXT_RETURN_SENT, pv1, v1) \<and>
     ext_body i (added pv pv1) = Some d1 \<and> tls_parse_stoc_cert_type_ext i d1 c = Some (True, c1) \<and>
     type_decided (ct_of i c1) = type_decided (ct_of i v1) \<and>
     type_decided (ct_of i v1) = (if has (support (ct_of i v)) 1 \<and> has (support (ct_of i c)) 1
        then CertificateType1609Dot2 else CertificateTypeX509)"
proof -
  define t where "t = (if has (support (ct_of i v)) 1 \<and> has (support (ct_of i c)) 1
    then CertificateType1609Dot2 else CertificateTypeX509)"
  let ?off = "offer (support (ct_of i c))"
  have dec: "decide (support (ct_of i v)) ?off = Some t" using assms(4) by (auto simp: decide_offer t_def)
  have i: "i < 65536" using assms(1) by (auto simp: ct_idx_def)
  have len: "length ?off < 256" "length (put_prefixed 1 ?off) < 65536" by (simp_all add: offer_def put_prefixed_def)
  obtain pc1 where pc1: "tls_construct_ctos_cert_type_ext e i pc c = Some (EXT_RETURN_SENT, pc1, c)"
    using construct_ctos_room [OF assms(1,2,5-8)] by blast
  have d: "ext_body i (added pc pc1) = Some (put_prefixed 1 ?off)"
    using construct_ctos_sent(1) [OF assms(1) pc1 assms(5)] ext_body_put [OF i len(2)] by simp
  let ?v1 = "set_type_decided i t v"
  have v1: "tls_parse_ctos_cert_type_ext i (put_prefixed 1 ?off) v = Some (True, ?v1)"
    using parse_ctos_eq [OF assms(1,3) len(1)] dec by simp
  have t: "type_decided (ct_of i ?v1) = t" "t \<in> {0, 3}" by (simp_all add: t_def)
  obtain pv1 where pv1: "tls_construct_stoc_cert_type_ext e1 i pv ?v1 = Some (EXT_RETURN_SENT, pv1, ?v1)"
    using construct_stoc_room [OF assms(1) _ _ assms(9-12), of ?v1] assms(3) t by auto
  let ?d1 = "be_bytes 1 (unat (word_of_int t :: u64))"
  have d1: "ext_body i (added pv pv1) = Some ?d1"
    using construct_stoc_sent(1) [OF assms(1) pv1 assms(9)] ext_body_put [OF i, of ?d1] t(1) by simp
  have c1: "tls_parse_stoc_cert_type_ext i ?d1 c = Some (True, set_type_decided i t c)"
    by (rule parse_stoc_offer [OF assms(1,2) dec])
  show ?thesis
    unfolding t_def [symmetric] using pc1 d v1 pv1 d1 c1 t(1)
    by (intro exI [of _ pc1] exI [of _ "put_prefixed 1 ?off"] exI [of _ ?v1] exI [of _ pv1] exI [of _ ?d1]
        exI [of _ "set_type_decided i t c"]) simp
qed

lemma negotiation_agrees_witness:
  "\<exists>pc1 d v1 pv1 d1 c1. tls_construct_ctos_cert_type_ext env0 20 wpacket0 ssl0 = Some (EXT_RETURN_SENT, pc1, ssl0) \<and>
     ext_body 20 (added wpacket0 pc1) = Some d \<and> tls_parse_ctos_cert_type_ext 20 d ssl0 = Some (True, v1) \<and>
     tls_construct_stoc_cert_type_ext env0 20 wpacket0 v1 = Some (EXT_RETURN_SENT, pv1, v1) \<and>
     ext_body 20 (added wpacket0 pv1) = Some d1 \<and> tls_parse_stoc_cert_type_ext 20 d1 ssl0 = Some (True, c1) \<and>
     type_decided (ct_of 20 c1) = 3"
proof -
  have "ct_idx 20" "SSL_is_RFC8902_supported ssl0" "has (support (ct_of 20 ssl0)) 1"
    by (simp_all add: ct_idx_def SSL_is_RFC8902_supported_def ieee0_def ct_of_def rfc0_def has_def)
  then show ?thesis
    using negotiation_agrees [of 20 ssl0 ssl0 wpacket0 env0 wpacket0 env0] by auto
qed

text \<open>
  C32. The server accepts a client's extension data exactly when it supports RFC 8902 and the data
  is one length byte followed by that many type bytes, among them IEEE 1609.2 or X.509 as the
  server's support word allows; in every other case nothing of the negotiated types changes.
\<close>

theorem parse_ctos_exact:
  assumes "ct_idx i"
  shows "\<exists>r s1. tls_parse_ctos_cert_type_ext i pkt s = Some (r, s1) \<and>
     (r \<longleftrightarrow> SSL_is_RFC8902_supported s \<and> (\<exists>types. length types < 256 \<and> pkt = word_of_nat (length types) # types \<and>
        (has (support (ct_of i s)) 1 \<and> 3 \<in> set types \<or> has (support (ct_of i s)) 2 \<and> 0 \<in> set types))) \<and>
     (\<not> r \<longrightarrow> ieee1609 s1 = ieee1609 s)"
proof -
  have fr: "put_prefixed 1 types = word_of_nat (length types) # types" for types
    by (simp add: put_prefixed_def)
  have "tls_parse_ctos_cert_type_ext i pkt s \<noteq> None"
    using assms by (auto simp: tls_parse_ctos_cert_type_ext_def split: option.split if_splits)
  then obtain r s1 where run: "tls_parse_ctos_cert_type_ext i pkt s = Some (r, s1)" by auto
  have keep: "ieee1609 s1 = ieee1609 s" if "\<not> r"
    using run that assms by (auto simp: tls_parse_ctos_cert_type_ext_def split: option.splits prod.splits if_splits)
  have "r" if "SSL_is_RFC8902_supported s" "length types < 256" "pkt = word_of_nat (length types) # types"
    "has (support (ct_of i s)) 1 \<and> 3 \<in> set types \<or> has (support (ct_of i s)) 2 \<and> 0 \<in> set types" for types
    using parse_ctos_eq [OF assms that(1,2)] run that(3,4) fr by (auto simp: decide_def split: if_splits)
  moreover have "SSL_is_RFC8902_supported s \<and> (\<exists>types. length types < 256 \<and> pkt = word_of_nat (length types) # types \<and>
        (has (support (ct_of i s)) 1 \<and> 3 \<in> set types \<or> has (support (ct_of i s)) 2 \<and> 0 \<in> set types))" if r
  proof -
    have "SSL_is_RFC8902_supported s"
      using run that by (auto simp: tls_parse_ctos_cert_type_ext_def split: if_splits)
    moreover from run that have "tls_parse_ctos_cert_type_ext i pkt s = Some (True, s1)" by simp
    then obtain types t where "length types < 256" "pkt = put_prefixed 1 types" "decide (support (ct_of i s)) types = Some t"
      using parse_ctos_accepts by blast
    ultimately show ?thesis unfolding fr by (auto simp: decide_def split: if_splits)
  qed
  ultimately show ?thesis using run keep by blast
qed

lemma parse_ctos_exact_witness:
  "\<exists>r s1. tls_parse_ctos_cert_type_ext 19 [1, 3] ssl0 = Some (r, s1) \<and> (\<not> r \<longrightarrow> ieee1609 s1 = ieee0)"
proof -
  have "ct_idx 19" by (simp add: ct_idx_def)
  from parse_ctos_exact [OF this, of "[1, 3]" ssl0] show ?thesis by auto
qed

end
