(* ===== verification/Cert_Exchange.thy ===== *)
theory Cert_Exchange
  imports Cert_Messages Cert_Type_Ext
begin

text \<open>
  What the Certificate and CertificateVerify messages of the two sides have to do with each other:
  the data that is signed and checked, the encoding of a certificate list and its decoding, and
  the certificates an accepted message stands for.
\<close>

section \<open>The data to be signed\<close>

definition tbs :: "bytes \<Rightarrow> bytes \<Rightarrow> bytes" where
  "tbs context h = replicate 64 32 @ context @ [0] @ h"

lemma tbs_signer:
  assumes "SSL_IS_TLS13 s" "hand s = TLS_ST_SW_CERT_VRFY \<or> hand s = TLS_ST_CW_CERT_VRFY" "tl_hash lb s = Some h" "length h \<le> 64"
  shows "get_cert_verify_tbs_data lb s = (Some (tbs (if hand s = TLS_ST_SW_CERT_VRFY then servercontext else clientcontext) h), s)"
  using assms by (auto simp: get_cert_verify_tbs_data_def ssl_handshake_hash_def tbs_def Let_def)

lemma tbs_verifier:
  assumes "SSL_IS_TLS13 s" "hand s = TLS_ST_CR_CERT_VRFY \<or> hand s = TLS_ST_SR_CERT_VRFY"
  shows "get_cert_verify_tbs_data lb s =
    (Some (tbs (if hand s = TLS_ST_CR_CERT_VRFY then servercontext else clientcontext) (cert_verify_hash s)), s)"
  using assms by (auto simp: get_cert_verify_tbs_data_def tbs_def Let_def)

lemma context_facts: "length servercontext = 33" "length clientcontext = 33" "servercontext \<noteq> clientcontext"
  by (simp_all add: servercontext_def clientcontext_def)

lemma tbs_inject:
  assumes "length c1 = 33" "length c2 = 33"
  shows "tbs c1 h1 = tbs c2 h2 \<longleftrightarrow> c1 = c2 \<and> h1 = h2"
  using assms by (auto simp: tbs_def)

section \<open>One entry of a certificate list\<close>

text \<open>An entry as TLS 1.3 has it: the certificate and its extensions, each with its length.\<close>

definition cert_entry_bytes :: "bytes \<Rightarrow> bytes \<Rightarrow> bytes" where
  "cert_entry_bytes xb d = put_prefixed 3 d @ put_prefixed 2 xb"

text \<open>
  What the extension framework does here: it appends the two length bytes and the extensions
  \<open>xb\<close>, and the parser on the other side accepts them. This is RFC 8446's format of the field.
\<close>

definition writes_exts :: "tlslib \<Rightarrow> bytes \<Rightarrow> bool" where
  "writes_exts lb xb \<longleftrightarrow> (\<forall>s pkt a n p s1. wpacket_inv pkt \<longrightarrow> tl_cert_exts lb s pkt a n = (True, p, s1) \<longrightarrow>
     s1 = s \<and> wpacket_inv p \<and> wcontent p = wcontent pkt @ put_prefixed 2 xb \<and> subs p = subs pkt)"

definition accepts_exts :: "tlslib \<Rightarrow> bytes \<Rightarrow> bool" where
  "accepts_exts lb xb \<longleftrightarrow> length xb < 65536 \<and> (\<forall>a i last s. tl_parse_exts lb xb a i last s = (True, s))"

lemma sint_word_of_int_nonneg: "0 \<le> n \<Longrightarrow> n < 2 ^ 31 \<Longrightarrow> \<not> sint (word_of_int n :: u32) < 0"
  by (simp add: signed_of_int signed_take_bit_int_eq_self)

lemma add_1609_cert:
  assumes "cert_ok c" "x509_holds (os s) a c" "SSL_IS_TLS13 s" "SSL_is_using_1609_this_side s" "writes_exts lb xb"
    "wpacket_inv pkt" "ssl_add_cert_to_wpacket e lb (Some a) n pkt s = Some (True, pkt1, s1)"
  shows "s1 = s \<and> wpacket_inv pkt1 \<and> wcontent pkt1 = wcontent pkt @ cert_entry_bytes xb (cert_octets c) \<and> subs pkt1 = subs pkt"
proof -
  have fx: "IEEE1609_CERT_from_X509 a (os s) = Some (Some c)" using assms(2) by (simp add: x509_holds_def)
  have nn: "\<not> sint (word_of_int (cert_data_len c) :: u32) < 0"
    by (rule sint_word_of_int_nonneg) (use assms(1) in \<open>auto simp: cert_ok_def split: option.splits\<close>)
  obtain pkt2 where sub: "WPACKET_sub_memcpy (malloc_ok e) (cert_octets c) 3 pkt = (True, pkt2)"
    and ex: "tl_cert_exts lb s pkt2 a n = (True, pkt1, s1)"
    using assms(7) fx nn assms(1,3,4)
    by (auto simp: ssl_add_cert_to_wpacket_def ssl_add_IEEE1609_CERT_to_wpacket_def split: prod.splits bool.splits)
  have p2: "wpacket_inv pkt2 \<and> wcontent pkt2 = wcontent pkt @ put_prefixed 3 (cert_octets c) \<and> subs pkt2 = subs pkt"
    by (rule wp.appendsD [OF sub_memcpy_appends assms(6) sub]) simp
  have "s1 = s \<and> wpacket_inv pkt1 \<and> wcontent pkt1 = wcontent pkt2 @ put_prefixed 2 xb \<and> subs pkt1 = subs pkt2"
    using assms(5) ex p2 unfolding writes_exts_def by blast
  then show ?thesis using p2 by (simp add: cert_entry_bytes_def)
qed

text \<open>A list of certificates held by X509 objects, written one after the other.\<close>

definition holds_all :: "os \<Rightarrow> x509_ptr list \<Rightarrow> IEEE1609_CERT list \<Rightarrow> bool" where
  "holds_all w = list_all2 (\<lambda>a c. cert_ok c \<and> x509_holds w a c)"

lemma add_1609_certs:
  assumes "SSL_IS_TLS13 s" "SSL_is_using_1609_this_side s" "writes_exts lb xb"
  shows "holds_all (os s) as cs \<Longrightarrow> wpacket_inv pkt \<Longrightarrow> add_certs e lb as n pkt s = Some (True, pkt1, s1) \<Longrightarrow>
    s1 = s \<and> wpacket_inv pkt1 \<and> subs pkt1 = subs pkt \<and>
    wcontent pkt1 = wcontent pkt @ concat (map (\<lambda>c. cert_entry_bytes xb (cert_octets c)) cs)"
proof (induction as arbitrary: cs n pkt)
  case Nil
  then show ?case by (simp add: holds_all_def)
next
  case (Cons a as)
  obtain c cs' where cs: "cs = c # cs'" "cert_ok c" "x509_holds (os s) a c" "holds_all (os s) as cs'"
    using Cons.prems(1) by (auto simp: holds_all_def list_all2_Cons1)
  obtain pkt2 s2 where ad: "ssl_add_cert_to_wpacket e lb (Some a) n pkt s = Some (True, pkt2, s2)"
    and rest: "add_certs e lb as (Suc n) pkt2 s2 = Some (True, pkt1, s1)"
    using Cons.prems(3) by (auto simp: bind_eq_Some_conv split: if_splits)
  note A = add_1609_cert [OF cs(2,3) assms Cons.prems(2) ad]
  have "s1 = s \<and> wpacket_inv pkt1 \<and> subs pkt1 = subs pkt2 \<and>
      wcontent pkt1 = wcontent pkt2 @ concat (map (\<lambda>c. cert_entry_bytes xb (cert_octets c)) cs')"
    using Cons.IH [OF cs(4), of pkt2 "Suc n"] A rest by simp
  then show ?case using A cs(1) by simp
qed

section \<open>Decoding a certificate list\<close>

definition new_cert :: "bytes \<Rightarrow> IEEE1609_CERT" where
  "new_cert d = \<lparr>cert_version = 0x1609, cert_data_len = int (length d), cert_data = Some d,
     hashed_id_present = False, hashedid8 = replicate 8 0\<rparr>"

text \<open>The process can decode certificates: memory, the built-in certificate and the ex data index.\<close>

definition decodes :: "env \<Rightarrow> bool" where
  "decodes e \<longleftrightarrow> malloc_ok e = mem_always \<and> (\<forall>i. env_d2i_fake e i \<and> env_set_ex_data e i) \<and> env_x509_idx e \<noteq> -1"

definition lists_up :: "tlslib \<Rightarrow> bool" where
  "lists_up lb \<longleftrightarrow> (\<forall>s. tl_sk_new lb s \<and> tl_sk_push lb s \<and> tl_x509_new lb s)"

lemma malloc_always: "malloc_ok e = mem_always \<Longrightarrow> 0 < n \<Longrightarrow>
  OPENSSL_malloc e n w = (True, w\<lparr>mallocs := Suc (mallocs w), live := live w + 1\<rparr>)"
  by (rule OPENSSL_malloc_ok) simp_all

lemma set_1609_up:
  assumes "decodes e" "d \<noteq> []" "x509s w a = Some ob"
  shows "\<exists>w1. X509_set_IEEE1609_CERT e (Some a) d (length d) w = Some (Some a, Some a, [], w1) \<and>
    x509_holds w1 a (new_cert d) \<and> (\<forall>b. b \<noteq> a \<longrightarrow> x509s w1 b = x509s w b) \<and> x_next w1 = x_next w"
  using assms
  by (simp add: X509_set_IEEE1609_CERT_def X509_new_fake_cert_def IEEE1609_CERT_new_from_buffer_def malloc_always
      decodes_def read_at_def X509_set_1609_def x509_holds_def IEEE1609_CERT_from_X509_def new_cert_def)

lemma entry_header:
  assumes "length d < 2 ^ 24"
  shows "PACKET_get_net_3 (put_prefixed 3 d @ q) = Some (word_of_nat (length d), d @ q)"
    "unat (word_of_nat (length d) :: u64) = length d" "PACKET_get_bytes (d @ q) (length d) = Some (d, q)"
  using assms by (simp_all add: put_prefixed_def get_net_3_eq get_bytes_eq unat_u64_of_nat)

lemma cert_entry_bytes_decoded:
  assumes "accepts_exts lb xb" "lists_up lb" "SSL_IS_TLS13 s"
  shows "cert_entry_decoded lb al i (Some b) [] (put_prefixed 2 xb @ q) s = (Inr b, q, s)"
proof -
  have "PACKET_get_length_prefixed_2 (put_prefixed 2 xb @ q) = Some (xb, q)"
    using assms(1) by (intro prefix2.get_put) (simp add: accepts_exts_def fits_prefix_def)
  then show ?thesis using assms by (simp add: cert_entry_decoded_def cert_entry_exts_def accepts_exts_def lists_up_def)
qed

lemma cert_entry_bytes_nonempty [simp]: "cert_entry_bytes xb d \<noteq> []"
  by (simp add: cert_entry_bytes_def put_prefixed_nonempty)

lemma cert_entry_1609:
  assumes "decodes e" "lists_up lb" "accepts_exts lb xb" "SSL_IS_TLS13 s" "u s" "d \<noteq> []" "length d < 2 ^ 24"
  shows "\<exists>w1. cert_entry e lb u al rp i (cert_entry_bytes xb d @ q) s = Some (Inr (x_next (os s)), q, s\<lparr>os := w1\<rparr>) \<and>
    x509_holds w1 (x_next (os s)) (new_cert d) \<and> (\<forall>b. b \<noteq> x_next (os s) \<longrightarrow> x509s w1 b = x509s (os s) b) \<and>
    x_next w1 = Suc (x_next (os s))"
proof -
  let ?a = "x_next (os s)" and ?ob = "\<lparr>x_refs = 1, x_der = None, x_1609 = None\<rparr>"
  let ?w = "(os s)\<lparr>x509s := (x509s (os s))(?a \<mapsto> ?ob), x_next := Suc ?a\<rparr>"
  have h: "do { (l, p1) \<leftarrow> PACKET_get_net_3 (cert_entry_bytes xb d @ q); PACKET_get_bytes p1 (unat l) }
      = Some (d, put_prefixed 2 xb @ q)"
    using entry_header [OF assms(7)] by (simp add: cert_entry_bytes_def)
  obtain w1 where S: "X509_set_IEEE1609_CERT e (Some ?a) d (length d) ?w = Some (Some ?a, Some ?a, [], w1)"
    "x509_holds w1 ?a (new_cert d)" "\<forall>b. b \<noteq> ?a \<longrightarrow> x509s w1 b = x509s ?w b" "x_next w1 = x_next ?w"
    using set_1609_up [OF assms(1,6), of ?w ?a ?ob] by auto
  have t: "SSL_IS_TLS13 (s\<lparr>os := w1\<rparr>)" using assms(4) by (simp add: SSL_IS_TLS13_def SSL_IS_DTLS_def)
  have "cert_entry e lb u al rp i (cert_entry_bytes xb d @ q) s = Some (Inr ?a, q, s\<lparr>os := w1\<rparr>)"
    unfolding cert_entry_def h using S(1) assms(2,5) cert_entry_bytes_decoded [OF assms(3,2) t]
    by (simp add: X509_alloc_def lists_up_def)
  then show ?thesis using S(2-4) by auto
qed

lemma cert_list_1609:
  assumes "decodes e" "lists_up lb" "accepts_exts lb xb" "\<And>s w. u (s\<lparr>os := w\<rparr>) = u s"
  shows "list_all (\<lambda>d. d \<noteq> [] \<and> length d < 2 ^ 24) ds \<Longrightarrow> SSL_IS_TLS13 s \<Longrightarrow> u s \<Longrightarrow>
    \<exists>w1. cert_list_loop e lb u al rp i (concat (map (cert_entry_bytes xb) ds)) sk s
      = Some (True, None, sk @ [x_next (os s)..<x_next (os s) + length ds], s\<lparr>os := w1\<rparr>) \<and>
    list_all2 (\<lambda>a d. x509_holds w1 a (new_cert d)) [x_next (os s)..<x_next (os s) + length ds] ds \<and>
    (\<forall>b < x_next (os s). x509s w1 b = x509s (os s) b) \<and> x_next w1 = x_next (os s) + length ds"
proof (induction ds arbitrary: s i sk)
  case Nil
  have "s\<lparr>os := os s\<rparr> = s" by simp
  then show ?case by (intro exI [of _ "os s"]) (simp add: cert_list_loop.simps PACKET_remaining_def)
next
  case (Cons d ds)
  let ?k = "x_next (os s)" and ?q = "concat (map (cert_entry_bytes xb) ds)"
  have d: "d \<noteq> []" "length d < 2 ^ 24" using Cons.prems(1) by simp_all
  obtain w1 where E: "cert_entry e lb u al rp i (cert_entry_bytes xb d @ ?q) s = Some (Inr ?k, ?q, s\<lparr>os := w1\<rparr>)"
    "x509_holds w1 ?k (new_cert d)" "\<forall>b. b \<noteq> ?k \<longrightarrow> x509s w1 b = x509s (os s) b" "x_next w1 = Suc ?k"
    using cert_entry_1609 [where u = u, OF assms(1-3) Cons.prems(2,3) d] by blast
  let ?s1 = "s\<lparr>os := w1\<rparr>"
  have s1: "SSL_IS_TLS13 ?s1" "u ?s1" using Cons.prems(2,3) assms(4) by (simp_all add: SSL_IS_TLS13_def SSL_IS_DTLS_def)
  obtain w2 where R: "cert_list_loop e lb u al rp (Suc i) ?q (sk @ [?k]) ?s1
      = Some (True, None, (sk @ [?k]) @ [Suc ?k..<Suc ?k + length ds], s\<lparr>os := w2\<rparr>)"
    "list_all2 (\<lambda>a d. x509_holds w2 a (new_cert d)) [Suc ?k..<Suc ?k + length ds] ds"
    "\<forall>b < Suc ?k. x509s w2 b = x509s w1 b" "x_next w2 = Suc ?k + length ds"
    using Cons.IH [OF _ s1, of "Suc i" "sk @ [?k]"] Cons.prems(1) E(4) by auto
  have ne: "PACKET_remaining (cert_entry_bytes xb d @ ?q) \<noteq> 0"
    by (simp add: PACKET_remaining_def cert_entry_bytes_def put_prefixed_def)
  have up: "[?k..<?k + length (d # ds)] = ?k # [Suc ?k..<Suc ?k + length ds]" by (subst upt_conv_Cons) simp_all
  have "x509_holds w2 ?k (new_cert d)" using E(2) R(3) by (simp add: x509_holds_def IEEE1609_CERT_from_X509_def)
  moreover have "cert_list_loop e lb u al rp i (concat (map (cert_entry_bytes xb) (d # ds))) sk s
      = Some (True, None, sk @ ?k # [Suc ?k..<Suc ?k + length ds], s\<lparr>os := w2\<rparr>)"
    using E(1) R(1) ne by (subst cert_list_loop.simps) (simp del: upt_Suc)
  moreover have "\<forall>b < ?k. x509s w2 b = x509s (os s) b" using R(3) E(3) by auto
  ultimately show ?case using R(2,4) unfolding up by (intro exI [of _ w2]) (simp del: upt_Suc)
qed

section \<open>The server's Certificate message\<close>

text \<open>The body of a Certificate message of TLS 1.3 with an empty context.\<close>

definition cert_message :: "bytes \<Rightarrow> bytes list \<Rightarrow> bytes" where
  "cert_message xb ds = 0 # put_prefixed 3 (concat (map (cert_entry_bytes xb) ds))"

text \<open>The server has a chain of IEEE 1609.2 certificates in the slot it uses, and builds no other.\<close>

definition sends_chain :: "tlslib \<Rightarrow> SSL \<Rightarrow> x509_ptr list \<Rightarrow> bool" where
  "sends_chain lb s as \<longleftrightarrow> SSL_IS_TLS13 s \<and> server s \<and> SSL_is_using_1609_server s \<and>
     (tl_no_auto_chain lb \<or> \<not> tl_has_store lb) \<and> tl_extra_certs lb = None \<and>
     (\<exists>i cpk a. tmp_cert (s3 s) = Some i \<and> slot i s = Some cpk \<and> pk_x509 cpk = Some a \<and>
        as = a # (case pk_chain cpk of None \<Rightarrow> [] | Some c \<Rightarrow> c))"

lemma output_chain:
  assumes "SSL_IS_TLS13 s" "SSL_is_using_1609_this_side s" "writes_exts lb xb" "holds_all (os s) as cs" "wpacket_inv pkt"
    "\<And>p. ssl_add_cert_chain e lb cpk p s = add_certs e lb as 0 p s \<or> (\<exists>p1 s1. ssl_add_cert_chain e lb cpk p s = Some (False, p1, s1))"
    "ssl3_output_cert_chain e lb cpk pkt s = Some (True, pkt1, s1)"
  shows "s1 = s \<and> wpacket_inv pkt1 \<and> subs pkt1 = subs pkt \<and> fits_prefix 3 (concat (map (cert_entry_bytes xb) (map cert_octets cs))) \<and>
    wcontent pkt1 = wcontent pkt @ put_prefixed 3 (concat (map (cert_entry_bytes xb) (map cert_octets cs)))"
proof -
  obtain b p1 where st0: "WPACKET_start_sub_packet_len (malloc_ok e) 3 pkt = (b, p1)" by fastforce
  with assms(7) have st: "WPACKET_start_sub_packet_len (malloc_ok e) 3 pkt = (True, p1)"
    by (cases b) (simp_all add: ssl3_output_cert_chain_def)
  then obtain ok p2 s2 where ch0: "ssl_add_cert_chain e lb cpk p1 s = Some (ok, p2, s2)"
    using assms(7) by (auto simp: ssl3_output_cert_chain_def bind_eq_Some_conv)
  obtain c p3 where cl0: "WPACKET_close (malloc_ok e) p2 = (c, p3)" by fastforce
  have "ok \<and> c \<and> p3 = pkt1 \<and> s2 = s1"
    using assms(7) st ch0 cl0 by (cases ok; cases c) (simp_all add: ssl3_output_cert_chain_def)
  with ch0 cl0 have ch: "ssl_add_cert_chain e lb cpk p1 s = Some (True, p2, s1)"
    and cl: "WPACKET_close (malloc_ok e) p2 = (True, pkt1)" by simp_all
  have inv: "wpacket_inv p1" by (rule wp.start_inv [OF assms(5) st])
  have ad: "add_certs e lb as 0 p1 s = Some (True, p2, s1)" using assms(6) [of p1] ch by auto
  note A = add_1609_certs [OF assms(1-3,4) inv ad]
  have f: "(\<lambda>c. cert_entry_bytes xb (cert_octets c)) = cert_entry_bytes xb \<circ> cert_octets" by auto
  have "wpacket_inv pkt1 \<and> wcontent pkt1 = wcontent pkt @ put_prefixed 3 (concat (map (\<lambda>c. cert_entry_bytes xb (cert_octets c)) cs))
      \<and> subs pkt1 = subs pkt \<and> fits_prefix 3 (concat (map (\<lambda>c. cert_entry_bytes xb (cert_octets c)) cs))"
    by (rule wp.start_close [OF assms(5) _ st _ _ _ cl]) (use A in simp_all)
  then show ?thesis using A by (simp add: f)
qed

lemma server_certificate_sent:
  assumes "sends_chain lb s as" "writes_exts lb xb" "holds_all (os s) as cs" "wpacket_inv pkt"
    "tls_construct_server_certificate e lb pkt s = Some (True, pkt1, s1)"
  shows "s1 = s \<and> wpacket_inv pkt1 \<and> subs pkt1 = subs pkt \<and> wcontent pkt1 = wcontent pkt @ cert_message xb (map cert_octets cs) \<and>
    fits_prefix 3 (concat (map (cert_entry_bytes xb) (map cert_octets cs)))"
proof -
  obtain i cpk a where i: "tmp_cert (s3 s) = Some i" "slot i s = Some cpk" "pk_x509 cpk = Some a"
    "as = a # (case pk_chain cpk of None \<Rightarrow> [] | Some c \<Rightarrow> c)" using assms(1) by (auto simp: sends_chain_def)
  have s: "SSL_IS_TLS13 s" "SSL_is_using_1609_this_side s" "tl_no_auto_chain lb \<or> \<not> tl_has_store lb" "tl_extra_certs lb = None"
    using assms(1) by (auto simp: sends_chain_def SSL_is_using_1609_this_side_def)
  obtain p0 where p0: "WPACKET_put_bytes (malloc_ok e) 0 1 pkt = (True, p0)"
    and out: "ssl3_output_cert_chain e lb (Some cpk) p0 s = Some (True, pkt1, s1)"
    using assms(5) i s(1) by (auto simp: tls_construct_server_certificate_def split: prod.splits bool.splits)
  have inv0: "wpacket_inv p0" "wcontent p0 = wcontent pkt @ [0]" "subs p0 = subs pkt"
    using WPACKET_put_bytes_spec [OF assms(4) p0] by simp_all
  have chain: "ssl_add_cert_chain e lb (Some cpk) p s = add_certs e lb as 0 p s
      \<or> (\<exists>p1 s1. ssl_add_cert_chain e lb (Some cpk) p s = Some (False, p1, s1))" for p
    using i(3,4) s(3,4) by (auto simp: ssl_add_cert_chain_def Let_def split: option.splits)
  from output_chain [OF s(1,2) assms(2,3) inv0(1) chain out] inv0 show ?thesis by (simp add: cert_message_def)
qed

section \<open>The client reads it\<close>

lemma read_cert_message:
  assumes "SSL_IS_TLS13 s" "tl_sk_new lb s" "fits_prefix 3 l" "l \<noteq> []"
  shows "tls_process_server_certificate e lb (0 # put_prefixed 3 l) s = do {
      (ok, x, sk, s1) \<leftarrow> cert_list_loop e lb SSL_is_using_1609_server SSL_AD_BAD_CERTIFICATE True 0 l [] s;
      if ok then Some (MSG_PROCESS_CONTINUE_PROCESSING, upd_sess (\<lambda>t. t\<lparr>peer_chain := Some sk\<rparr>) s1)
      else do {
        w1 \<leftarrow> X509_free x (os s1);
        w2 \<leftarrow> X509_pop_free sk w1;
        Some (MSG_PROCESS_ERROR, upd_sess (\<lambda>t. t\<lparr>peer_chain := None\<rparr>) (s1\<lparr>os := w2\<rparr>)) } }"
proof -
  have "length l < 2 ^ 24" using assms(3) by (simp add: fits_prefix_def)
  note H = entry_header [OF this]
  have n3: "PACKET_get_net_3 (put_prefixed 3 l) = Some (word_of_nat (length l), l)" using H(1) [of "[]"] by simp
  have "do { (context, p1) \<leftarrow> (if SSL_IS_TLS13 s then PACKET_get_1 (0 # put_prefixed 3 l) else Some (0, 0 # put_prefixed 3 l));
      guardb (context = 0); (cert_list_len, p2) \<leftarrow> PACKET_get_net_3 p1;
      guardb (PACKET_remaining p2 = unat cert_list_len \<and> PACKET_remaining p2 \<noteq> 0); Some p2 } = Some l"
    using assms(1,4) n3 H(2) by (simp add: get_1_Cons PACKET_remaining_def)
  then show ?thesis using assms(2) unfolding tls_process_server_certificate_def by simp
qed

lemma client_reads_cert_message:
  assumes "decodes e" "lists_up lb" "accepts_exts lb xb" "SSL_IS_TLS13 s" "SSL_is_using_1609_server s"
    "ds \<noteq> []" "list_all (\<lambda>d. d \<noteq> []) ds" "fits_prefix 3 (concat (map (cert_entry_bytes xb) ds))"
  shows "\<exists>s1 as. tls_process_server_certificate e lb (cert_message xb ds) s = Some (MSG_PROCESS_CONTINUE_PROCESSING, s1) \<and>
    peer_chain (session s1) = Some as \<and> list_all2 (\<lambda>a d. x509_holds (os s1) a (new_cert d)) as ds \<and> hand s1 = hand s"
proof -
  let ?l = "concat (map (cert_entry_bytes xb) ds)" and ?k = "x_next (os s)"
  have len: "length ?l < 2 ^ 24" using assms(8) by (simp add: fits_prefix_def)
  have "length d < 2 ^ 24" if "d \<in> set ds" for d
  proof -
    have "length (cert_entry_bytes xb d) \<le> length ?l" using that
      by (induction ds) auto
    then show ?thesis using len by (simp add: cert_entry_bytes_def put_prefixed_def)
  qed
  then have ds: "list_all (\<lambda>d. d \<noteq> [] \<and> length d < 2 ^ 24) ds" using assms(7) by (simp add: list_all_iff)
  have u: "SSL_is_using_1609_server (s\<lparr>os := w\<rparr>) = SSL_is_using_1609_server s" for s w
    by (simp add: SSL_is_using_1609_server_def)
  obtain w1 where L: "cert_list_loop e lb SSL_is_using_1609_server SSL_AD_BAD_CERTIFICATE True 0 ?l [] s
      = Some (True, None, [] @ [?k..<?k + length ds], s\<lparr>os := w1\<rparr>)"
    "list_all2 (\<lambda>a d. x509_holds w1 a (new_cert d)) [?k..<?k + length ds] ds"
    using cert_list_1609 [OF assms(1-3) u ds assms(4,5)] by blast
  have ne: "?l \<noteq> []" using assms(6) by (cases ds) simp_all
  have sk: "tl_sk_new lb s" using assms(2) by (simp add: lists_up_def)
  show ?thesis
    unfolding cert_message_def read_cert_message [OF assms(4) sk assms(8) ne] L(1) using L(2) by simp
qed

section \<open>An entry without a certificate\<close>

text \<open>
  For an entry of length 0 the allocation of the certificate data fails, the X509 object is
  released, and its address stays in the variable the caller looks at.
\<close>

lemma cert_entry_empty:
  assumes "decodes e" "lists_up lb" "accepts_exts lb xb" "SSL_IS_TLS13 s" "u s"
  shows "\<exists>w1. cert_entry e lb u al rp i (cert_entry_bytes xb [] @ q) s = Some (Inr (x_next (os s)), q, s\<lparr>os := w1\<rparr>) \<and>
    x509s w1 (x_next (os s)) = None"
proof -
  let ?a = "x_next (os s)" and ?ob = "\<lparr>x_refs = 1, x_der = None, x_1609 = None\<rparr>"
  let ?w = "(os s)\<lparr>x509s := (x509s (os s))(?a \<mapsto> ?ob), x_next := Suc ?a\<rparr>"
  have h: "do { (l, p1) \<leftarrow> PACKET_get_net_3 (cert_entry_bytes xb [] @ q); PACKET_get_bytes p1 (unat l) }
      = Some ([], put_prefixed 2 xb @ q)"
    using entry_header(1) [of "[]" "put_prefixed 2 xb @ q"] by (simp add: cert_entry_bytes_def get_bytes_eq)
  have "\<exists>w1. X509_set_IEEE1609_CERT e (Some ?a) [] (length ([] :: bytes)) ?w = Some (None, Some ?a, [], w1) \<and> x509s w1 ?a = None"
    using assms(1)
    by (simp add: X509_set_IEEE1609_CERT_def X509_new_fake_cert_def IEEE1609_CERT_new_from_buffer_def decodes_def
        malloc_always OPENSSL_malloc_def X509_free_def)
  then obtain w1 where S: "X509_set_IEEE1609_CERT e (Some ?a) [] (length ([] :: bytes)) ?w = Some (None, Some ?a, [], w1)"
    "x509s w1 ?a = None" by blast
  have t: "SSL_IS_TLS13 (s\<lparr>os := w1\<rparr>)" using assms(4) by (simp add: SSL_IS_TLS13_def SSL_IS_DTLS_def)
  have "cert_entry e lb u al rp i (cert_entry_bytes xb [] @ q) s = Some (Inr ?a, q, s\<lparr>os := w1\<rparr>)"
    unfolding cert_entry_def h using S(1) assms(2,5) cert_entry_bytes_decoded [OF assms(3,2) t]
    by (simp add: X509_alloc_def lists_up_def)
  then show ?thesis using S(2) by blast
qed

lemma client_reads_empty_entry:
  assumes "decodes e" "lists_up lb" "accepts_exts lb xb" "SSL_IS_TLS13 s" "SSL_is_using_1609_server s"
  shows "\<exists>s1. tls_process_server_certificate e lb (cert_message xb [[]]) s = Some (MSG_PROCESS_CONTINUE_PROCESSING, s1) \<and>
    peer_chain (session s1) = Some [x_next (os s)] \<and> x509s (os s1) (x_next (os s)) = None"
proof -
  obtain w1 where E: "cert_entry e lb SSL_is_using_1609_server SSL_AD_BAD_CERTIFICATE True 0 (cert_entry_bytes xb []) s
      = Some (Inr (x_next (os s)), [], s\<lparr>os := w1\<rparr>)" "x509s w1 (x_next (os s)) = None"
    using cert_entry_empty [where u = SSL_is_using_1609_server and q = "[]" and al = SSL_AD_BAD_CERTIFICATE and rp = True and i = 0,
        OF assms] by auto
  have L: "cert_list_loop e lb SSL_is_using_1609_server SSL_AD_BAD_CERTIFICATE True 0 (cert_entry_bytes xb []) [] s
      = Some (True, None, [x_next (os s)], s\<lparr>os := w1\<rparr>)"
    using E(1) by (subst cert_list_loop.simps) (simp add: cert_list_loop.simps PACKET_remaining_def)
  have f: "fits_prefix 3 (cert_entry_bytes xb [])" "tl_sk_new lb s"
    using assms(2,3) by (simp_all add: fits_prefix_def cert_entry_bytes_def put_prefixed_def accepts_exts_def lists_up_def)
  show ?thesis
    using read_cert_message [OF assms(4) f(2,1) cert_entry_bytes_nonempty] L E(2) by (simp add: cert_message_def)
qed

section \<open>CertificateVerify\<close>

lemma using_1609_os [simp]: "SSL_is_using_1609_other_side (s\<lparr>os := w\<rparr>) = SSL_is_using_1609_other_side s"
  by (simp add: SSL_is_using_1609_other_side_def SSL_is_using_1609_client_def SSL_is_using_1609_server_def)

text \<open>
  A run of the check of a CertificateVerify on a connection whose peer uses IEEE 1609.2: an error,
  undefined behaviour for an approval that is too short, or the two answers of the entity that
  make it succeed.
\<close>

lemma process_1609_cases:
  assumes c: "cert_ok c" "x509_holds (os s) a c" "addr_ok s" and ssp: "length (ssp_other_side (ieee1609 s)) = 100"
    and t: "SSL_IS_TLS13 s" "hand s = TLS_ST_CR_CERT_VRFY \<or> hand s = TLS_ST_SR_CERT_VRFY"
    and len: "length pkt + length (cert_verify_hash s) < 2 ^ 31 - 113"
    and run: "process_1609_cert_verify e lb (Some a) pkt s = Some (r, s1)"
  defines "T \<equiv> tbs (if hand s = TLS_ST_CR_CERT_VRFY then servercontext else clientcontext) (cert_verify_hash s)"
  obtains (fail) "\<not> r" "ossl_statem_in_error s1" "ieee1609 s1 = ieee1609 s"
    | (pass) d rest k d1 rest1 where r "server s1 = server s"
      "concat (env_peer e (conns (os s)) (sec_ent_frame 18 (cert_octets c))) = sec_ent_frame 18 d @ rest" "8 \<le> length d"
      "concat (env_peer e k (sec_ent_frame 20 (take 8 d @ pkt @ T))) = sec_ent_frame 20 d1 @ rest1" "8 \<le> length d1"
      "length d1 \<le> 108" "ieee1609 s1 = set_peer_psid (host_little e) d1 (ieee1609 s)"
  using c
proof (cases rule: verify_cases [where e = e])
  case (fail s2)
  have "\<not> r \<and> s1 = SSLfatal SSL_AD_INSUFFICIENT_SECURITY ERR_R_INTERNAL_ERROR s2"
    using run fail(1) by (simp add: process_1609_cert_verify_def)
  moreover have "ieee1609 s2 = ieee1609 s" using arg_cong [OF fail(3), of ieee1609] by simp
  ultimately show ?thesis using that(1) by simp
next
  case (short d rest)
  then show ?thesis using run by (simp add: process_1609_cert_verify_def)
next
  case (pass s2 d rest)
  note A = pass
  let ?c = "c\<lparr>hashed_id_present := True, hashedid8 := take 8 d\<rparr>"
  have s2: "SSL_IS_TLS13 s2" "hand s2 = hand s" "cert_verify_hash s2 = cert_verify_hash s" "ieee1609 s2 = ieee1609 s" "server s2 = server s"
    using t(1) by (subst A(2), simp add: SSL_IS_TLS13_def SSL_IS_DTLS_def)+
  have tb: "get_cert_verify_tbs_data lb s2 = (Some T, s2)"
    using tbs_verifier [of s2 lb] s2 t(2) by (simp add: T_def)
  have run2: "tls_process_IEEE1609_CERT_cert_verify e (Some a) T pkt s2 = Some (r, s1)"
    using run A(1) tb by (simp add: process_1609_cert_verify_def PACKET_remaining_def get_bytes_eq)
  have ok: "cert_ok ?c" "addr_ok s2" using c A(4) s2(4) by (auto simp: cert_ok_def addr_ok_def split: option.splits)
  have "length T \<le> 98 + length (cert_verify_hash s)" by (simp add: T_def tbs_def context_facts)
  then have l2: "length pkt + length T < 2 ^ 31 - 13" and ssp2: "length (ssp_other_side (ieee1609 s2)) = 100"
    using len ssp s2(4) by simp_all
  note T = that
  from ok(1) A(5) ok(2) l2 ssp2 show ?thesis
  proof (cases rule: process_cases [where e = e])
    case (fail s3)
    then show ?thesis using run2 T(1) s2(4) by simp
  next
    case (pass s3 d1 rest1)
    have i: "ieee1609 s1 = set_peer_psid (host_little e) d1 (ieee1609 s)" "server s1 = server s" "r"
      using run2 pass(1) arg_cong [OF pass(2), of ieee1609] arg_cong [OF pass(2), of server] s2(4,5) by simp_all
    show ?thesis
      by (rule T(2) [OF i(3,2) A(3,4) _ pass(3,4) i(1)]) (use pass(5) in simp)
  qed
qed

text \<open>With the entity up and both answers positive the check succeeds.\<close>

lemma process_up:
  assumes "entity_up e" "cert_ok c" "x509_holds (os s) a c" "addr_ok s" "length vdata + length vinput < 2 ^ 31 - 13"
    "length (ssp_other_side (ieee1609 s)) = 100" "8 \<le> length d" "length d \<le> 108"
    and rep: "entity_replies e (conns (os s)) (sec_ent_frame 20 (hashedid8 c @ vdata @ vinput)) 20 d"
  shows "\<exists>s1. tls_process_IEEE1609_CERT_cert_verify e (Some a) vinput vdata s = Some (True, s1) \<and>
    ieee1609 s1 = set_peer_psid (host_little e) d (ieee1609 s)"
proof -
  let ?arg = "(hashedid8 c, vdata, vinput)"
  have ok: "case ?arg of (hid, vdata, vinput) \<Rightarrow> length hid = 8 \<and> length vdata + length vinput < 2 ^ 31 - 13"
    using cert_okD(3) [OF assms(2)] assms(5) by simp
  have ad: "0 \<in> set (sec_ent_addr (ieee1609 s))" using assms(4) by (simp add: addr_ok_def)
  have fx: "IEEE1609_CERT_from_X509 a (os s) = Some (Some c)" using assms(3) by (simp add: x509_holds_def)
  have r: "entity_replies e (conns (os s)) (sec_ent_frame 20 (case ?arg of (hid, vdata, vinput) \<Rightarrow> hid @ vdata @ vinput)) 20 d"
    "d \<noteq> []" "length d \<le> 2043" using rep assms(7,8) by auto
  have "\<exists>m w1 w2. SEC_ENT_MSG_new_TYPE_TLS_VERIFY_DATA e (hashedid8 c) vdata vinput (os s) = Some (Some m, w1) \<and>
    sec_ent_process e (ieee1609 s) (Some m) w1 = Some (Some (raw_msg 20 d), w2)"
    by (rule verify_data.ask_up [OF assms(1) ok ad r]) auto
  then obtain m w1 w2 where A: "SEC_ENT_MSG_new_TYPE_TLS_VERIFY_DATA e (hashedid8 c) vdata vinput (os s) = Some (Some m, w1)"
    "sec_ent_process e (ieee1609 s) (Some m) w1 = Some (Some (raw_msg 20 d), w2)" by blast
  have "msg_data (raw_msg 20 d) = Some d" "unat (msg_len (raw_msg 20 d)) = length d"
    using r(2,3) payload_len [of "raw_msg 20 d"] by (simp_all add: raw_msg_def unat_u32_of_nat)
  then show ?thesis using A fx assms(6-8) by (simp add: tls_process_IEEE1609_CERT_cert_verify_def read_at_def)
qed

lemma process_1609_up:
  assumes "entity_up e" "cert_ok c" "x509_holds (os s) a c" "addr_ok s" "length (ssp_other_side (ieee1609 s)) = 100"
    "SSL_IS_TLS13 s" "hand s = TLS_ST_CR_CERT_VRFY \<or> hand s = TLS_ST_SR_CERT_VRFY"
    "length pkt + length (cert_verify_hash s) < 2 ^ 31 - 113" "8 \<le> length d" "length d \<le> 2043" "8 \<le> length d1" "length d1 \<le> 108"
    "entity_replies e (conns (os s)) (sec_ent_frame 18 (cert_octets c)) 18 d"
    "\<And>k. entity_replies e k (sec_ent_frame 20 (take 8 d @ pkt @
       tbs (if hand s = TLS_ST_CR_CERT_VRFY then servercontext else clientcontext) (cert_verify_hash s))) 20 d1"
  shows "\<exists>s1. process_1609_cert_verify e lb (Some a) pkt s = Some (True, s1) \<and>
    ieee1609 s1 = set_peer_psid (host_little e) d1 (ieee1609 s)"
proof -
  let ?T = "tbs (if hand s = TLS_ST_CR_CERT_VRFY then servercontext else clientcontext) (cert_verify_hash s)"
  let ?c = "c\<lparr>hashed_id_present := True, hashedid8 := take 8 d\<rparr>"
  have dn: "d \<noteq> []" using assms(9) by auto
  obtain s2 where v: "IEEE1609_CERT_verify e (Some a) s = Some (True, s2)" "x509_holds (os s2) a ?c"
    using verify_up(1) [OF assms(1-4,13) dn assms(10) _ assms(9)] by blast
  have s2: "s2 = s\<lparr>os := os s2\<rparr>"
    using assms(2-4) by (cases rule: verify_cases [where e = e]) (use v(1) in auto)
  have f: "SSL_IS_TLS13 s2" "hand s2 = hand s" "cert_verify_hash s2 = cert_verify_hash s" "ieee1609 s2 = ieee1609 s"
    using assms(6) by (subst s2, simp add: SSL_IS_TLS13_def SSL_IS_DTLS_def)+
  have tb: "get_cert_verify_tbs_data lb s2 = (Some ?T, s2)" using tbs_verifier [of s2 lb] f assms(7) by simp
  have ok: "cert_ok ?c" "addr_ok s2" "length (ssp_other_side (ieee1609 s2)) = 100"
    using assms(2,4,5,9) f(4) by (auto simp: cert_ok_def addr_ok_def split: option.splits)
  have "length ?T \<le> 98 + length (cert_verify_hash s)" by (simp add: tbs_def context_facts)
  then have l: "length pkt + length ?T < 2 ^ 31 - 13" using assms(8) by simp
  have rep: "entity_replies e (conns (os s2)) (sec_ent_frame 20 (hashedid8 ?c @ pkt @ ?T)) 20 d1" using assms(14) by simp
  from process_up [OF assms(1) ok(1) v(2) ok(2) l ok(3) assms(11,12) rep] show ?thesis
    using v(1) tb f(4) by (auto simp: process_1609_cert_verify_def PACKET_remaining_def get_bytes_eq)
qed

section \<open>A client without a certificate\<close>

text \<open>The message of a client that has none: empty context, empty list.\<close>

lemma empty_client_list:
  assumes "SSL_IS_TLS13 s" "pha_context s = None"
  shows "client_cert_list e lb (cert_message xb []) s = Some (True, None, [], s)"
proof -
  have 1: "PACKET_get_length_prefixed_1 (0 # put_prefixed 3 []) = Some ([], put_prefixed 3 [])"
    using prefix1.get_put [of "[]" "put_prefixed 3 []"] by (simp add: fits_prefix_def put_prefixed_def)
  have 3: "PACKET_get_length_prefixed_3 (put_prefixed 3 []) = Some ([], [])"
    using prefix3.get_put [of "[]" "[]"] by (simp add: fits_prefix_def)
  show ?thesis
    using assms 1 3 by (simp add: client_cert_list_def cert_message_def PACKET_remaining_def cert_list_loop.simps)
qed

lemma digest_session: "ssl3_digest_cached_records lb keep s = (b, s1) \<Longrightarrow> session s1 = session s"
  unfolding ssl3_digest_cached_records_def Let_def fatal_internal_def
  by (auto split: if_split_asm option.split_asm)

lemma hash_session: "ssl_handshake_hash lb n s = (h, s1) \<Longrightarrow> session s1 = session s"
  unfolding ssl_handshake_hash_def fatal_internal_def by (auto split: if_split_asm option.split_asm)

text \<open>After a certificate list was taken over, the session's peer is its first certificate.\<close>

lemma client_hash_session: "client_cert_hash lb s = (b, s1) \<Longrightarrow> session s1 = session s"
  unfolding client_cert_hash_def
  by (auto split: if_split_asm prod.split_asm bool.split_asm option.split_asm dest!: digest_session hash_session)

lemma install_peer:
  assumes "client_cert_install lb sk s = Some (b, s1)"
  shows "peer (session s1) = (case sk of [] \<Rightarrow> None | a # _ \<Rightarrow> Some a) \<and> peer_chain (session s1) = Some (drop 1 sk)"
  using assms by (auto simp: client_cert_install_def bind_eq_Some_conv dest!: client_hash_session)

end
