(* ===== verification/Certificate_Properties.thy ===== *)
theory Certificate_Properties
  imports Wire_Properties Cert_Exchange
begin

text \<open>
  The properties of the Certificate and CertificateVerify messages (\<^verbatim>\<open>statem_lib.c\<close>,
  \<^verbatim>\<open>statem_clnt.c\<close>, \<^verbatim>\<open>statem_srvr.c\<close>), on connections that use IEEE 1609.2 certificates.
\<close>

section \<open>What is signed\<close>

text \<open>
  C22. In TLS 1.3 the data a side signs and the data the other side checks the signature against are
  equal exactly when the two are the two ends of the same direction and have the same handshake
  hash: a client's CertificateVerify can never pass for a server's, nor one handshake's for
  another's with a different transcript hash.
\<close>

theorem signed_data_agrees:
  assumes "SSL_IS_TLS13 s" "hand s = TLS_ST_SW_CERT_VRFY \<or> hand s = TLS_ST_CW_CERT_VRFY"
    "tl_hash lb s = Some h" "length h \<le> 64"
    "SSL_IS_TLS13 v" "hand v = TLS_ST_CR_CERT_VRFY \<or> hand v = TLS_ST_SR_CERT_VRFY"
  shows "fst (get_cert_verify_tbs_data lb s) = fst (get_cert_verify_tbs_data lb1 v) \<longleftrightarrow>
    (hand s = TLS_ST_SW_CERT_VRFY \<longleftrightarrow> hand v = TLS_ST_CR_CERT_VRFY) \<and> h = cert_verify_hash v"
  using tbs_signer [OF assms(1-4)] tbs_verifier [OF assms(5,6), of lb1] context_facts tbs_inject [of servercontext clientcontext]
    tbs_inject [of clientcontext servercontext] by (auto simp: tbs_inject)

lemma signed_data_agrees_witness:
  "fst (get_cert_verify_tbs_data lib0 (at TLS_ST_SW_CERT_VRFY)) = fst (get_cert_verify_tbs_data lib0 (at TLS_ST_CR_CERT_VRFY)) \<and>
   fst (get_cert_verify_tbs_data lib0 (at TLS_ST_CW_CERT_VRFY)) \<noteq> fst (get_cert_verify_tbs_data lib0 (at TLS_ST_CR_CERT_VRFY))"
  using signed_data_agrees [of "at TLS_ST_SW_CERT_VRFY" lib0 "[7, 7]" "at TLS_ST_CR_CERT_VRFY" lib0]
    signed_data_agrees [of "at TLS_ST_CW_CERT_VRFY" lib0 "[7, 7]" "at TLS_ST_CR_CERT_VRFY" lib0]
  by (simp add: at_def ssl0_def lib0_def SSL_IS_TLS13_def SSL_IS_DTLS_def)

section \<open>The Certificate message\<close>

text \<open>
  C16. A server's Certificate message with a chain of IEEE 1609.2 certificates, once it was written,
  is read by a client that expects them as exactly this chain: one new X509 object for each
  certificate, in order, holding its octets. The hypotheses on the extension framework are the
  format of the extensions field and that its contents are accepted.
\<close>

theorem certificate_message_roundtrip:
  assumes "sends_chain lb s as" "writes_exts lb xb" "holds_all (os s) as cs" "wpacket_inv pkt"
    "tls_construct_server_certificate e lb pkt s = Some (True, pkt1, s1)"
    "decodes e1" "lists_up lb1" "accepts_exts lb1 xb" "SSL_IS_TLS13 v" "SSL_is_using_1609_server v"
  shows "\<exists>v1 bs. tls_process_server_certificate e1 lb1 (added pkt pkt1) v = Some (MSG_PROCESS_CONTINUE_PROCESSING, v1) \<and>
    peer_chain (session v1) = Some bs \<and> list_all2 (\<lambda>b c. x509_holds (os v1) b (new_cert (cert_octets c))) bs cs"
proof -
  note S = server_certificate_sent [OF assms(1-5)]
  have add: "added pkt pkt1 = cert_message xb (map cert_octets cs)" using S by (simp add: added_def)
  have "as \<noteq> []" using assms(1) by (auto simp: sends_chain_def)
  then have cs: "map cert_octets cs \<noteq> []" "list_all (\<lambda>d. d \<noteq> []) (map cert_octets cs)"
    using assms(3) cert_okD(2) by (auto simp: holds_all_def list_all2_conv_all_nth list_all_iff in_set_conv_nth)
  from client_reads_cert_message [OF assms(6-10) cs] S show ?thesis
    by (auto simp: add list_all2_map2)
qed

lemma sample_chain:
  "sends_chain lib0 (both1609 (at TLS_ST_SW_CERT)\<lparr>server := True\<rparr>) [0]" "holds_all os0 [0] [cert0]"
  using sample_cert_ok sample_holds
  by (simp_all add: sends_chain_def both1609_def at_def ssl0_def lib0_def s30_def slot_def SSL_IS_TLS13_def SSL_IS_DTLS_def
      SSL_is_using_1609_server_def holds_all_def)

text \<open>
  C25. An entry of length zero in a list of IEEE 1609.2 certificates is not refused: the message
  handler of the client succeeds and leaves in the session a chain whose element is the address
  of an X509 object that was released, and the post processing then uses it.
\<close>

theorem empty_certificate_use_after_free:
  assumes "decodes e" "lists_up lb" "accepts_exts lb xb" "SSL_IS_TLS13 s" "SSL_is_using_1609_server s" "\<And>t. tl_store_ctx lb t"
  shows "\<exists>s1 a. tls_process_server_certificate e lb (cert_message xb [[]]) s = Some (MSG_PROCESS_CONTINUE_PROCESSING, s1) \<and>
    peer_chain (session s1) = Some [a] \<and> x509s (os s1) a = None \<and> tls_post_process_server_certificate e lb s1 = None"
proof -
  obtain s1 where s1: "tls_process_server_certificate e lb (cert_message xb [[]]) s = Some (MSG_PROCESS_CONTINUE_PROCESSING, s1)"
    "peer_chain (session s1) = Some [x_next (os s)]" "x509s (os s1) (x_next (os s)) = None"
    using client_reads_empty_entry [OF assms(1-5)] by blast
  then have "tls_post_process_server_certificate e lb s1 = None"
    using assms(6) by (simp add: tls_post_process_server_certificate_def ssl_verify_cert_chain_def X509_is_IEEE1609_CERT_def
        IEEE1609_CERT_from_X509_def)
  then show ?thesis using s1 by blast
qed

lemma sample_decodes: "decodes env0" "lists_up lib0" "accepts_exts lib0 []" "writes_exts lib0 []"
proof -
  show "decodes env0" "lists_up lib0" "accepts_exts lib0 []"
    by (simp_all add: decodes_def env0_def lists_up_def lib0_def accepts_exts_def)
  show "writes_exts lib0 []"
    using WPACKET_put_bytes_spec
    by (fastforce simp: writes_exts_def lib0_def no_cert_exts_def put_prefixed_def split: prod.splits)
qed

lemma sample_both: "SSL_IS_TLS13 (both1609 (at h))" "SSL_is_using_1609_server (both1609 (at h))" "hand (both1609 (at h)) = h"
  by (simp_all add: both1609_def at_def ssl0_def SSL_IS_TLS13_def SSL_IS_DTLS_def SSL_is_using_1609_server_def)

lemma empty_certificate_use_after_free_witness:
  "\<exists>s1 a. tls_process_server_certificate env0 lib0 (cert_message [] [[]]) (both1609 (at TLS_ST_CR_CERT))
       = Some (MSG_PROCESS_CONTINUE_PROCESSING, s1) \<and>
    peer_chain (session s1) = Some [a] \<and> x509s (os s1) a = None \<and> tls_post_process_server_certificate env0 lib0 s1 = None"
  by (rule empty_certificate_use_after_free [OF sample_decodes(1-3) sample_both(1,2)]) (simp add: lib0_def)

section \<open>CertificateVerify\<close>

text \<open>
  C1. When a TLS 1.3 peer that uses an IEEE 1609.2 certificate has its CertificateVerify accepted,
  the security entity has approved exactly the octets of the certificate in the session and has
  then verified exactly the signature of the message over the data to be signed of this
  handshake, under the hash it gave for the certificate; PSID and SSP of the peer are taken from
  that second answer. Otherwise the connection is in the error state, with PSID and SSP as before.
\<close>

theorem peer_cert_verify_sound:
  assumes "SSL_is_using_1609_other_side s" "peer (session s) = Some a" "cert_ok c" "x509_holds (os s) a c" "addr_ok s"
    "length (ssp_other_side (ieee1609 s)) = 100" "SSL_IS_TLS13 s" "hand s = TLS_ST_CR_CERT_VRFY \<or> hand s = TLS_ST_SR_CERT_VRFY"
    "length pkt + length (cert_verify_hash s) < 2 ^ 31 - 113" "tls_process_cert_verify e lb pkt s = Some (r, s1)"
  shows "if r = MSG_PROCESS_ERROR then ossl_statem_in_error s1 \<and> ieee1609 s1 = ieee1609 s
    else \<exists>d rest k d1 rest1. concat (env_peer e (conns (os s)) (sec_ent_frame 18 (cert_octets c))) = sec_ent_frame 18 d @ rest \<and>
      concat (env_peer e k (sec_ent_frame 20 (take 8 d @ pkt @
        tbs (if hand s = TLS_ST_CR_CERT_VRFY then servercontext else clientcontext) (cert_verify_hash s))))
        = sec_ent_frame 20 d1 @ rest1 \<and>
      8 \<le> length d \<and> 8 \<le> length d1 \<and> psid_other_side (ieee1609 s1) = word_of_nat (be_val (take 8 d1)) \<and>
      ssp_other_side_len (ieee1609 s1) = length d1 - 8"
proof (cases "tl_md_ctx lb s")
  case False
  then show ?thesis using assms(10) by (auto simp: tls_process_cert_verify_def Let_def ossl_statem_in_error_def)
next
  case True
  then obtain ok s2 where p: "process_1609_cert_verify e lb (Some a) pkt s = Some (ok, s2)"
    and r: "r = (if \<not> ok then MSG_PROCESS_ERROR else if \<not> server s2 \<and> SSL_IS_TLS13 s2 \<and> cert_req (s3 s2) = 1
                 then MSG_PROCESS_CONTINUE_PROCESSING else MSG_PROCESS_CONTINUE_READING)"
    and s1: "s1 = upd_s3 (\<lambda>t. t\<lparr>handshake_buffer := None\<rparr>) s2"
    using assms(1,2,10) by (auto simp: tls_process_cert_verify_def Let_def bind_eq_Some_conv)
  have s1f: "ossl_statem_in_error s1 = ossl_statem_in_error s2" "ieee1609 s1 = ieee1609 s2"
    by (simp_all add: s1 ossl_statem_in_error_def)
  from assms(3-9) p show ?thesis
  proof (cases rule: process_1609_cases)
    case fail
    then show ?thesis using r s1f by simp
  next
    case (pass d rest k d1 rest1)
    note F = set_peer_psid_fields(1,2) [OF pass(6,7) assms(6), of "host_little e"]
    have "r \<noteq> MSG_PROCESS_ERROR" using r pass(1) by simp
    then show ?thesis unfolding s1f pass(8) F using pass(3-6) by (auto simp only: if_False simp_thms) blast
  qed
qed

text \<open>
  C21. Completeness of the same check: with the security entity up, approving the certificate and
  confirming the signature over this handshake's data, a CertificateVerify is accepted, and PSID
  and SSP length are those of the entity's answer.
\<close>

theorem peer_cert_verify_complete:
  assumes "SSL_is_using_1609_other_side s" "peer (session s) = Some a" "entity_up e" "cert_ok c" "x509_holds (os s) a c"
    "addr_ok s" "length (ssp_other_side (ieee1609 s)) = 100" "SSL_IS_TLS13 s"
    "hand s = TLS_ST_CR_CERT_VRFY \<or> hand s = TLS_ST_SR_CERT_VRFY"
    "length pkt + length (cert_verify_hash s) < 2 ^ 31 - 113" "8 \<le> length d" "length d \<le> 2043" "8 \<le> length d1" "length d1 \<le> 108"
    "entity_replies e (conns (os s)) (sec_ent_frame 18 (cert_octets c)) 18 d"
    "\<And>k. entity_replies e k (sec_ent_frame 20 (take 8 d @ pkt @
       tbs (if hand s = TLS_ST_CR_CERT_VRFY then servercontext else clientcontext) (cert_verify_hash s))) 20 d1"
    "tl_md_ctx lb s"
  shows "\<exists>r s1. tls_process_cert_verify e lb pkt s = Some (r, s1) \<and> r \<noteq> MSG_PROCESS_ERROR \<and>
    psid_other_side (ieee1609 s1) = word_of_nat (be_val (take 8 d1)) \<and> ssp_other_side_len (ieee1609 s1) = length d1 - 8"
proof -
  obtain s2 where "process_1609_cert_verify e lb (Some a) pkt s = Some (True, s2)"
    "ieee1609 s2 = set_peer_psid (host_little e) d1 (ieee1609 s)"
    using process_1609_up [OF assms(3-16)] by blast
  then show ?thesis
    using assms(1,2,17) set_peer_psid_fields(1,2) [OF assms(13,14,7), of "host_little e"]
    by (simp add: tls_process_cert_verify_def Let_def)
qed

text \<open>A client in the state after a server's CertificateVerify header, with the sample certificate as peer.\<close>

definition verifying0 :: SSL where
  "verifying0 = upd_sess (\<lambda>t. t\<lparr>peer := Some 0\<rparr>) (both1609 (at TLS_ST_CR_CERT_VRFY))"

lemma sample_verifying:
  "SSL_is_using_1609_other_side verifying0" "peer (session verifying0) = Some 0" "x509_holds (os verifying0) 0 cert0"
  "addr_ok verifying0" "length (ssp_other_side (ieee1609 verifying0)) = 100" "SSL_IS_TLS13 verifying0"
  "hand verifying0 = TLS_ST_CR_CERT_VRFY" "length (cert_verify_hash verifying0) = 2"
  using sample_holds
  by (simp_all add: verifying0_def both1609_def at_def ssl0_def ieee0_def SSL_IS_TLS13_def SSL_IS_DTLS_def addr_ok_def
      SSL_is_using_1609_other_side_def SSL_is_using_1609_server_def)

lemma peer_cert_verify_complete_witness:
  "\<exists>r s1. tls_process_cert_verify env0 lib0 [9, 9] verifying0 = Some (r, s1) \<and> r \<noteq> MSG_PROCESS_ERROR \<and>
    ssp_other_side_len (ieee1609 s1) = 1"
  using peer_cert_verify_complete [OF sample_verifying(1,2) sample_entity_up sample_cert_ok sample_verifying(3-6)
      disjI1 [OF sample_verifying(7)] _ _ _ _ _ sample_replies(1) sample_replies(3), of "[9, 9]" lib0]
    sample_verifying(8) by (auto simp: lib0_def)

lemma peer_cert_verify_sound_witness:
  "\<exists>r s1. tls_process_cert_verify env0 lib0 [9, 9] verifying0 = Some (r, s1) \<and>
    (if r = MSG_PROCESS_ERROR then ossl_statem_in_error s1 \<and> ieee1609 s1 = ieee1609 verifying0
     else \<exists>d1. 8 \<le> length d1 \<and> psid_other_side (ieee1609 s1) = word_of_nat (be_val (take 8 d1)))"
proof -
  obtain s2 where p: "process_1609_cert_verify env0 lib0 (Some 0) [9, 9] verifying0 = Some (True, s2)"
    using process_1609_up [OF sample_entity_up sample_cert_ok sample_verifying(3-6) disjI1 [OF sample_verifying(7)]
        _ _ _ _ _ sample_replies(1) sample_replies(3), of "[9, 9]" lib0] sample_verifying(8) by auto
  then obtain r s1 where run: "tls_process_cert_verify env0 lib0 [9, 9] verifying0 = Some (r, s1)"
    using sample_verifying(1,2) by (simp add: tls_process_cert_verify_def lib0_def Let_def)
  have "length [9, 9 :: u8] + length (cert_verify_hash verifying0) < 2 ^ 31 - 113" using sample_verifying(8) by simp
  from peer_cert_verify_sound [OF sample_verifying(1,2) sample_cert_ok sample_verifying(3-6) disjI1 [OF sample_verifying(7)] this run]
  show ?thesis using run by (auto split: if_splits)
qed

text \<open>The sample server writes its one certificate.\<close>

lemma sample_lib_chain: "tl_extra_certs lib0 = None" "tl_no_auto_chain lib0" "tl_security_chain lib0 a b c = 1"
  by (simp_all add: lib0_def)

definition sending0 :: SSL where
  "sending0 = both1609 (at TLS_ST_SW_CERT)\<lparr>server := True\<rparr>"

lemma sample_adds:
  assumes "wpacket_inv p" "subs p \<noteq> []" "8 \<le> wspace p"
  shows "\<exists>p1. ssl_add_cert_chain env0 lib0 (Some \<lparr>pk_x509 = Some 0, pk_privatekey = True, pk_chain = None\<rparr>) p sending0
    = Some (True, p1, sending0)"
proof -
  have n: "length (cert_octets cert0) < 256 ^ 3" "3 + length (cert_octets cert0) \<le> wspace p" "length (cert_octets cert0) = 3"
    using assms(3) by (simp_all add: cert_octets_def cert0_def)
  obtain p1 where p1: "WPACKET_sub_memcpy mem_always (cert_octets cert0) 3 p = (True, p1)"
    "wspace p1 = wspace p - (3 + length (cert_octets cert0))"
    by (rule wpt.succeedsD [OF sub_memcpy_succeeds [OF _ n(1)] assms(1,2) n(2)]) simp
  have i1: "wpacket_inv p1 \<and> wcontent p1 = wcontent p @ put_prefixed 3 (cert_octets cert0) \<and> subs p1 = subs p"
    by (rule wp.appendsD [OF sub_memcpy_appends assms(1) p1(1)]) simp
  have r: "2 \<le> wspace p1" "subs p1 \<noteq> []" "(0 :: nat) < 256 ^ 2" using assms(2,3) p1(2) n(3) i1 by simp_all
  obtain p2 where p2: "WPACKET_put_bytes mem_always 0 2 p1 = (True, p2)"
    by (rule wpt.succeedsD [OF put_bytes_succeeds [OF r(3)] conjunct1 [OF i1] r(2,1)]) simp_all
  have nn: "\<not> sint (word_of_int (cert_data_len cert0) :: u32) < 0" by (rule sint_word_of_int_nonneg) (simp_all add: cert0_def)
  have fx: "IEEE1609_CERT_from_X509 0 (os sending0) = Some (Some cert0)"
    using sample_holds by (simp add: x509_holds_def sending0_def both1609_def at_def)
  have s: "SSL_is_using_1609_this_side sending0" "SSL_IS_TLS13 sending0"
    by (simp_all add: sending0_def both1609_def at_def ssl0_def SSL_is_using_1609_this_side_def SSL_is_using_1609_server_def
        SSL_IS_TLS13_def SSL_IS_DTLS_def)
  have ex: "tl_cert_exts lib0 sending0 p1 0 0 = (True, p2, sending0)" using p2 by (simp add: lib0_def no_cert_exts_def)
  have "ssl_add_cert_to_wpacket env0 lib0 (Some 0) 0 p sending0 = Some (True, p2, sending0)"
    using p1(1) ex s fx nn cert_bytes_ok [OF sample_cert_ok]
    by (simp add: ssl_add_cert_to_wpacket_def ssl_add_IEEE1609_CERT_to_wpacket_def)
  then show ?thesis by (simp add: ssl_add_cert_chain_def sample_lib_chain Let_def cong: if_cong)
qed

lemma certificate_message_roundtrip_witness:
  "\<exists>pkt1 s1 v1 b. tls_construct_server_certificate env0 lib0 wpacket0 sending0 = Some (True, pkt1, s1) \<and>
    tls_process_server_certificate env0 lib0 (added wpacket0 pkt1) (both1609 (at TLS_ST_CR_CERT))
      = Some (MSG_PROCESS_CONTINUE_PROCESSING, v1) \<and>
    peer_chain (session v1) = Some [b] \<and> x509_holds (os v1) b (new_cert [0x80, 3, 0])"
proof -
  let ?cpk = "\<lparr>pk_x509 = Some 0, pk_privatekey = True, pk_chain = None\<rparr>"
  have k: "(1 :: nat) \<le> wspace wpacket0" by simp
  obtain p0 where p0: "WPACKET_put_bytes mem_always 0 1 wpacket0 = (True, p0)" "wspace p0 = wspace wpacket0 - 1"
    by (rule wpt.succeedsD [OF put_bytes_succeeds [of 0 1] wpacket0_ok(1,2) k]) simp_all
  have i0: "wpacket_inv p0" "subs p0 \<noteq> []" "3 \<le> wspace p0"
    using WPACKET_put_bytes_spec [OF wpacket0_ok(1) p0(1)] p0(2) by simp_all
  obtain p1 where p1: "WPACKET_start_sub_packet_len mem_always 3 p0 = (True, p1)" "wspace p1 = wspace p0 - 3" "subs p1 \<noteq> []"
    using start_room [OF i0(1,2) _ i0(3)] by auto
  have i1: "wpacket_inv p1" "8 \<le> wspace p1" using wp.start_inv [OF i0(1) p1(1)] p1(2) p0(2) by simp_all
  obtain p2 where p2: "ssl_add_cert_chain env0 lib0 (Some ?cpk) p1 sending0 = Some (True, p2, sending0)"
    using sample_adds [OF i1(1) p1(3) i1(2)] by blast
  have s: "SSL_IS_TLS13 sending0" "SSL_is_using_1609_this_side sending0" "tmp_cert (s3 sending0) = Some 0"
    "slot 0 sending0 = Some ?cpk" "os sending0 = os0"
    by (simp_all add: sending0_def both1609_def at_def ssl0_def SSL_is_using_1609_this_side_def SSL_is_using_1609_server_def
        SSL_IS_TLS13_def SSL_IS_DTLS_def s30_def slot_def)
  have ad: "add_certs env0 lib0 [0] 0 p1 sending0 = Some (True, p2, sending0)"
    using p2 by (simp add: ssl_add_cert_chain_def sample_lib_chain Let_def cong: if_cong)
  have H: "holds_all (os sending0) [0] [cert0]" using sample_chain(2) s(5) by simp
  note A = add_1609_certs [OF s(1,2) sample_decodes(4) H i1(1) ad]
  have fit: "fits_prefix 3 (concat (map (\<lambda>c. cert_entry_bytes [] (cert_octets c)) [cert0]))"
    by (simp add: fits_prefix_def cert_entry_bytes_def put_prefixed_def cert_octets_def cert0_def)
  obtain p3 where p3: "WPACKET_close mem_always p2 = (True, p3)"
    using close_room [OF i0(1) _ p1(1) _ _ _ fit, of p2] A by auto
  have run: "tls_construct_server_certificate env0 lib0 wpacket0 sending0 = Some (True, p3, sending0)"
    using p0(1) p1(1) p2 p3 s(1,3,4) by (simp add: tls_construct_server_certificate_def ssl3_output_cert_chain_def)
  have ch: "sends_chain lib0 sending0 [0]" using sample_chain(1) by (simp add: sending0_def)
  from certificate_message_roundtrip [OF ch sample_decodes(4) H wpacket0_ok(1) run sample_decodes(1-3) sample_both(1,2)]
  show ?thesis using run by (fastforce simp: list_all2_Cons2 cert_octets_def cert0_def)
qed

section \<open>A client without a certificate\<close>

text \<open>The handshake digest is running and gives a hash that fits; the library calls succeed.\<close>

definition hashing :: "tlslib \<Rightarrow> SSL \<Rightarrow> bool" where
  "hashing lb s \<longleftrightarrow> handshake_dgst (s3 s) \<noteq> None \<and> (\<forall>t. tl_sk_new lb t \<and> (\<exists>h. tl_hash lb t = Some h \<and> length h \<le> 64))"

lemma client_hash_up:
  assumes "hashing lb s" "handshake_dgst (s3 t) \<noteq> None"
  shows "\<exists>t1. client_cert_hash lb t = (True, t1)"
proof -
  obtain h where "tl_hash lb t = Some h" "length h \<le> 64" using assms(1) by (auto simp: hashing_def)
  then show ?thesis using assms(2)
    by (auto simp: client_cert_hash_def ssl3_digest_cached_records_def ssl_handshake_hash_def Let_def)
qed

lemma empty_client_refused:
  assumes "SSL_IS_TLS13 s" "pha_context s = None" "hashing lb s" "version s \<noteq> SSL3_VERSION"
    "has (verify_mode s) SSL_VERIFY_PEER \<and> has (verify_mode s) SSL_VERIFY_FAIL_IF_NO_PEER_CERT"
  shows "\<exists>s1. tls_process_client_certificate e lb (cert_message xb []) s = Some (MSG_PROCESS_ERROR, s1) \<and>
    ossl_statem_in_error s1 \<and> session s1 = session s \<and> errs (os s1) = SSL_R_PEER_DID_NOT_RETURN_A_CERTIFICATE # errs (os s)"
proof -
  let ?s = "upd_st (\<lambda>st. st\<lparr>enc_read_state := ENC_READ_STATE_VALID\<rparr>) s"
  have L: "client_cert_list e lb (cert_message xb []) ?s = Some (True, None, [], ?s)"
    using assms(1,2) by (intro empty_client_list) (simp_all add: SSL_IS_TLS13_def SSL_IS_DTLS_def)
  have n: "tl_sk_new lb t" for t using assms(3) by (auto simp: hashing_def)
  have "client_cert_check e lb [] ?s =
      Some (False, SSLfatal SSL_AD_CERTIFICATE_REQUIRED SSL_R_PEER_DID_NOT_RETURN_A_CERTIFICATE ?s)"
    using assms(4,5) by (simp add: client_cert_check_def)
  then have "tls_process_client_certificate e lb (cert_message xb []) s = Some (MSG_PROCESS_ERROR,
      SSLfatal SSL_AD_CERTIFICATE_REQUIRED SSL_R_PEER_DID_NOT_RETURN_A_CERTIFICATE ?s)"
    using n L by (simp add: tls_process_client_certificate_def Let_def X509_free_def del: upd_defs)
  then show ?thesis by (simp add: ERR_raise_def)
qed

lemma empty_client_accepted:
  assumes "SSL_IS_TLS13 s" "pha_context s = None" "post_handshake_auth s = SSL_PHA_NONE" "hashing lb s"
    "peer (session s) = None" "peer_chain (session s) = None" "version s \<noteq> SSL3_VERSION"
    "\<not> (has (verify_mode s) SSL_VERIFY_PEER \<and> has (verify_mode s) SSL_VERIFY_FAIL_IF_NO_PEER_CERT)"
  shows "\<exists>s1. tls_process_client_certificate e lb (cert_message xb []) s = Some (MSG_PROCESS_CONTINUE_READING, s1) \<and>
    peer (session s1) = None"
proof -
  let ?s = "upd_st (\<lambda>st. st\<lparr>enc_read_state := ENC_READ_STATE_VALID\<rparr>) s"
  have L: "client_cert_list e lb (cert_message xb []) ?s = Some (True, None, [], ?s)"
    using assms(1,2) by (intro empty_client_list) (simp_all add: SSL_IS_TLS13_def SSL_IS_DTLS_def)
  have n: "tl_sk_new lb t" for t using assms(4) by (auto simp: hashing_def)
  obtain t where t: "client_cert_check e lb [] ?s = Some (True, t)" "t = ?s \<or> t = upd_s3 (\<lambda>t. t\<lparr>handshake_buffer := None\<rparr>) ?s"
    using assms(4,7,8)
    by (cases "handshake_buffer (s3 s)") (auto simp: client_cert_check_def ssl3_digest_cached_records_def hashing_def Let_def)
  have f: "peer (session t) = None" "peer_chain (session t) = None" "handshake_dgst (s3 t) \<noteq> None" "post_handshake_auth t = SSL_PHA_NONE"
    using t(2) assms(3-6) by (auto simp: hashing_def)
  obtain t1 where i: "client_cert_install lb [] t = Some (True, t1)"
    using client_hash_up [OF assms(4), of "upd_sess (\<lambda>u. u\<lparr>peer := None, peer_chain := Some [], sess_verify_result := verify_result t\<rparr>) t"] f
    by (auto simp: client_cert_install_def X509_free_def)
  have "tls_process_client_certificate e lb (cert_message xb []) s = Some (MSG_PROCESS_CONTINUE_READING, t1)"
    using n L t(1) i f(4) by (simp add: tls_process_client_certificate_def Let_def del: upd_defs)
  then show ?thesis using install_peer [OF i] by simp
qed

text \<open>
  A TLS 1.3 server that demands a client certificate refuses a client that sends an empty list,
  with the error for it and the session as it was; a server that does not demand one goes on
  without a peer, for which it expects Finished next.
\<close>

theorem empty_client_certificate:
  assumes "SSL_IS_TLS13 s" "pha_context s = None" "post_handshake_auth s = SSL_PHA_NONE" "hashing lb s"
    "peer (session s) = None" "peer_chain (session s) = None" "version s \<noteq> SSL3_VERSION"
  shows "\<exists>r s1. tls_process_client_certificate e lb (cert_message xb []) s = Some (r, s1) \<and>
   (if has (verify_mode s) SSL_VERIFY_PEER \<and> has (verify_mode s) SSL_VERIFY_FAIL_IF_NO_PEER_CERT
    then r = MSG_PROCESS_ERROR \<and> ossl_statem_in_error s1 \<and> session s1 = session s \<and>
      errs (os s1) = SSL_R_PEER_DID_NOT_RETURN_A_CERTIFICATE # errs (os s)
    else r = MSG_PROCESS_CONTINUE_READING \<and> peer (session s1) = None)"
  using empty_client_refused [OF assms(1,2,4,7)] empty_client_accepted [OF assms]
  by (cases "has (verify_mode s) SSL_VERIFY_PEER \<and> has (verify_mode s) SSL_VERIFY_FAIL_IF_NO_PEER_CERT") auto

lemma sample_hashing:
  "SSL_IS_TLS13 (at h\<lparr>verify_mode := v\<rparr>)" "pha_context (at h\<lparr>verify_mode := v\<rparr>) = None"
  "post_handshake_auth (at h\<lparr>verify_mode := v\<rparr>) = SSL_PHA_NONE" "hashing lib0 (at h\<lparr>verify_mode := v\<rparr>)"
  "peer (session (at h\<lparr>verify_mode := v\<rparr>)) = None" "peer_chain (session (at h\<lparr>verify_mode := v\<rparr>)) = None"
  "version (at h\<lparr>verify_mode := v\<rparr>) \<noteq> SSL3_VERSION"
  by (simp_all add: at_def ssl0_def SSL_IS_TLS13_def SSL_IS_DTLS_def hashing_def lib0_def s30_def)

lemma empty_client_certificate_witness:
  "(\<exists>s1. tls_process_client_certificate env0 lib0 (cert_message [] []) (at TLS_ST_SR_CERT\<lparr>verify_mode := 3\<rparr>) = Some (MSG_PROCESS_ERROR, s1)) \<and>
   (\<exists>s1. tls_process_client_certificate env0 lib0 (cert_message [] []) (at TLS_ST_SR_CERT\<lparr>verify_mode := 1\<rparr>)
      = Some (MSG_PROCESS_CONTINUE_READING, s1) \<and> peer (session s1) = None)"
  using empty_client_certificate [OF sample_hashing [of 3 TLS_ST_SR_CERT], of env0 "[]"]
    empty_client_certificate [OF sample_hashing [of 1 TLS_ST_SR_CERT], of env0 "[]"]
  by (auto simp: has_def)

end
