(* ===== verification/Flights.thy ===== *)
theory Flights
  imports Statem_Flow
begin

text \<open>
  The flights of a TLS 1.3 handshake: the messages one side writes, as its write transitions and
  message types give them, against the messages the other side is ready to read. Change cipher
  spec records, which the record layer of the other side drops in TLS 1.3, are left out.
\<close>

section \<open>Sequences of written messages\<close>

definition flight_msg :: "nat option option \<Rightarrow> nat list" where
  "flight_msg mt = (case mt of Some (Some t) \<Rightarrow> if t = SSL3_MT_CHANGE_CIPHER_SPEC then [] else [t] | _ \<Rightarrow> [])"

text \<open>A write transition, the message of the new state, then the work around sending it.\<close>

inductive writes :: "(SSL \<Rightarrow> WRITE_TRAN \<times> SSL) \<Rightarrow> (OSSL_HANDSHAKE_STATE \<Rightarrow> nat option option) \<Rightarrow>
    (SSL \<Rightarrow> SSL \<Rightarrow> bool) \<Rightarrow> SSL \<Rightarrow> nat list \<Rightarrow> SSL \<Rightarrow> bool"
  for wt ty keep where
  writes_Nil: "writes wt ty keep s [] s"
| writes_Cons: "wt s = (WRITE_TRAN_CONTINUE, s1) \<Longrightarrow> keep s1 s2 \<Longrightarrow> writes wt ty keep s2 ms s'
     \<Longrightarrow> writes wt ty keep s (flight_msg (ty (hand s1)) @ ms) s'"

text \<open>
  What pre work, construction and post work keep: the handshake state, the version, and what the
  transitions branch on. A certificate request sets \<open>cert_request\<close>.
\<close>

definition sent :: "SSL \<Rightarrow> SSL \<Rightarrow> bool" where
  "sent s s1 \<longleftrightarrow> hand s1 = hand s \<and> SSL_IS_TLS13 s1 = SSL_IS_TLS13 s \<and> hit s1 = hit s \<and>
     hello_retry_request s1 = hello_retry_request s \<and> post_handshake_auth s1 = post_handshake_auth s \<and>
     cert_req (s3 s1) = cert_req (s3 s) \<and> early_data (ext s1) = early_data (ext s) \<and>
     cert_request (s3 s1) = (cert_request (s3 s) \<or> hand s = TLS_ST_SW_CERT_REQ)"

lemma sent_refl: "hand s \<noteq> TLS_ST_SW_CERT_REQ \<Longrightarrow> sent s s"
  by (simp add: sent_def)

lemma sent_fields:
  assumes "sent s s1"
  shows "hand s1 = hand s" "SSL_IS_TLS13 s1 = SSL_IS_TLS13 s" "hit s1 = hit s" "hello_retry_request s1 = hello_retry_request s"
    "post_handshake_auth s1 = post_handshake_auth s" "cert_req (s3 s1) = cert_req (s3 s)" "early_data (ext s1) = early_data (ext s)"
    "cert_request (s3 s1) = (cert_request (s3 s) \<or> hand s = TLS_ST_SW_CERT_REQ)"
  using assms by (simp_all add: sent_def)

section \<open>The server's flight\<close>

text \<open>The write transitions of a full TLS 1.3 handshake up to the server's Finished, with what each sends.\<close>

definition server13_wedges :: "(OSSL_HANDSHAKE_STATE \<times> nat list \<times> OSSL_HANDSHAKE_STATE) set" where
  "server13_wedges =
     {(TLS_ST_SR_CLNT_HELLO, [2], TLS_ST_SW_SRVR_HELLO), (TLS_ST_SW_SRVR_HELLO, [], TLS_ST_SW_CHANGE),
      (TLS_ST_SW_SRVR_HELLO, [8], TLS_ST_SW_ENCRYPTED_EXTENSIONS), (TLS_ST_SW_CHANGE, [8], TLS_ST_SW_ENCRYPTED_EXTENSIONS),
      (TLS_ST_SW_ENCRYPTED_EXTENSIONS, [13], TLS_ST_SW_CERT_REQ), (TLS_ST_SW_ENCRYPTED_EXTENSIONS, [11], TLS_ST_SW_CERT),
      (TLS_ST_SW_CERT_REQ, [11], TLS_ST_SW_CERT), (TLS_ST_SW_CERT, [15], TLS_ST_SW_CERT_VRFY),
      (TLS_ST_SW_CERT_VRFY, [20], TLS_ST_SW_FINISHED)}"

text \<open>What is still to be written up to the server's Finished.\<close>

definition server13_flight :: "OSSL_HANDSHAKE_STATE \<Rightarrow> nat list set" where
  "server13_flight h =
     (if h = TLS_ST_SW_FINISHED then {[]}
      else if h = TLS_ST_SW_CERT_VRFY then {[20]}
      else if h = TLS_ST_SW_CERT then {[15, 20]}
      else if h = TLS_ST_SW_CERT_REQ then {[11, 15, 20]}
      else if h = TLS_ST_SW_ENCRYPTED_EXTENSIONS then {[11, 15, 20], [13, 11, 15, 20]}
      else if h = TLS_ST_SW_CHANGE \<or> h = TLS_ST_SW_SRVR_HELLO then {[8, 11, 15, 20], [8, 13, 11, 15, 20]}
      else if h = TLS_ST_SR_CLNT_HELLO then {[2, 8, 11, 15, 20], [2, 8, 13, 11, 15, 20]}
      else {})"

abbreviation full13 :: "SSL \<Rightarrow> bool" where
  "full13 s \<equiv> SSL_IS_TLS13 s \<and> \<not> hit s \<and> hello_retry_request s \<noteq> SSL_HRR_PENDING \<and> post_handshake_auth s \<noteq> SSL_PHA_REQUEST_PENDING"

lemma server13_write_step:
  assumes "full13 s" "ossl_statem_server_write_transition hk s = (WRITE_TRAN_CONTINUE, s1)"
  shows "(hand s, flight_msg (server_message_type (hand s1)), hand s1) \<in> server13_wedges \<or> server13_flight (hand s1) = {}"
    "full13 s1" "cert_request (s3 s1) = cert_request (s3 s)"
proof -
  have t: "ossl_statem_server13_write_transition s = (WRITE_TRAN_CONTINUE, s1)"
    using assms by (simp add: ossl_statem_server_write_transition_def)
  show "(hand s, flight_msg (server_message_type (hand s1)), hand s1) \<in> server13_wedges \<or> server13_flight (hand s1) = {}"
    using t assms(1) unfolding ossl_statem_server13_write_transition_def
    by (auto simp: server13_wedges_def server13_flight_def flight_msg_def server_message_type_def Let_def split: if_split_asm)
  show "full13 s1" "cert_request (s3 s1) = cert_request (s3 s)"
    using t assms(1) unfolding ossl_statem_server13_write_transition_def
    by (auto simp: Let_def SSL_IS_TLS13_def SSL_IS_DTLS_def split: if_split_asm)
qed

lemma server13_wedge_flight:
  "(h, m, h1) \<in> server13_wedges \<Longrightarrow> ms \<in> server13_flight h1 \<Longrightarrow>
     m @ ms \<in> server13_flight h \<and> (13 \<in> set m \<longleftrightarrow> h1 = TLS_ST_SW_CERT_REQ)"
  by (auto simp: server13_wedges_def server13_flight_def)

lemma server13_writes_finished:
  assumes "writes (ossl_statem_server_write_transition hk) server_message_type sent s ms s'" "full13 s" "hand s' = TLS_ST_SW_FINISHED"
  shows "ms \<in> server13_flight (hand s) \<and> cert_request (s3 s') = (cert_request (s3 s) \<or> 13 \<in> set ms)"
  using assms
proof induction
  case (writes_Nil s)
  then show ?case by (simp add: server13_flight_def)
next
  case (writes_Cons s s1 s2 ms s')
  note S = server13_write_step [OF writes_Cons.prems(1) writes_Cons.hyps(1)]
  note K = sent_fields [OF writes_Cons.hyps(2)]
  have IH: "ms \<in> server13_flight (hand s1)" "cert_request (s3 s') = (cert_request (s3 s2) \<or> 13 \<in> set ms)"
    using writes_Cons.IH writes_Cons.prems(2) S(2) K by simp_all
  then have "(hand s, flight_msg (server_message_type (hand s1)), hand s1) \<in> server13_wedges" using S(1) by auto
  from server13_wedge_flight [OF this IH(1)] show ?case using IH(2) K(8) S(3) by auto
qed

section \<open>The client's flight\<close>

definition client13_wedges :: "int \<Rightarrow> (OSSL_HANDSHAKE_STATE \<times> nat list \<times> OSSL_HANDSHAKE_STATE) set" where
  "client13_wedges req =
     {(TLS_ST_CR_FINISHED, [], TLS_ST_PENDING_EARLY_DATA_END), (TLS_ST_CR_FINISHED, [], TLS_ST_CW_CHANGE),
      (TLS_ST_PENDING_EARLY_DATA_END, [5], TLS_ST_CW_END_OF_EARLY_DATA), (TLS_ST_CW_CERT_VRFY, [20], TLS_ST_CW_FINISHED)}
     \<union> {(h, m, h1). h \<in> {TLS_ST_CR_FINISHED, TLS_ST_PENDING_EARLY_DATA_END, TLS_ST_CW_END_OF_EARLY_DATA, TLS_ST_CW_CHANGE}
        \<and> (m, h1) = (if req \<noteq> 0 then ([11], TLS_ST_CW_CERT) else ([20], TLS_ST_CW_FINISHED))}
     \<union> {(TLS_ST_CW_CERT, if req = 1 then [15] else [20], if req = 1 then TLS_ST_CW_CERT_VRFY else TLS_ST_CW_FINISHED)}"

text \<open>With \<open>req\<close> the client's \<open>cert_req\<close>: 0 no request, 1 a certificate, 2 an empty list.\<close>

definition client13_flight :: "int \<Rightarrow> OSSL_HANDSHAKE_STATE \<Rightarrow> nat list set" where
  "client13_flight req h =
     (let rest = (if req = 0 then [20] else if req = 1 then [11, 15, 20] else [11, 20])
      in if h = TLS_ST_CW_FINISHED then {[]}
         else if h = TLS_ST_CW_CERT_VRFY then {[20]}
         else if h = TLS_ST_CW_CERT then {if req = 1 then [15, 20] else [20]}
         else if h = TLS_ST_CW_END_OF_EARLY_DATA \<or> h = TLS_ST_CW_CHANGE then {rest}
         else if h = TLS_ST_PENDING_EARLY_DATA_END \<or> h = TLS_ST_CR_FINISHED then {rest, 5 # rest}
         else {})"

lemma client13_write_step:
  assumes "SSL_IS_TLS13 s" "ossl_statem_client_write_transition hk s = (WRITE_TRAN_CONTINUE, s1)" "hand s \<noteq> TLS_ST_CR_CERT_REQ"
  shows "(hand s, flight_msg (client_message_type (hand s1)), hand s1) \<in> client13_wedges (cert_req (s3 s)) \<or> client13_flight r (hand s1) = {}"
    "SSL_IS_TLS13 s1" "cert_req (s3 s1) = cert_req (s3 s)" "hand s1 \<noteq> TLS_ST_CR_CERT_REQ"
proof -
  have t: "ossl_statem_client13_write_transition s = (WRITE_TRAN_CONTINUE, s1)"
    using assms by (simp add: ossl_statem_client_write_transition_def)
  show "(hand s, flight_msg (client_message_type (hand s1)), hand s1) \<in> client13_wedges (cert_req (s3 s)) \<or> client13_flight r (hand s1) = {}"
    using t assms(3) unfolding ossl_statem_client13_write_transition_def
    by (auto simp: client13_wedges_def client13_flight_def flight_msg_def client_message_type_def cert_or_finished_def Let_def
        split: if_split_asm)
  show "SSL_IS_TLS13 s1" "cert_req (s3 s1) = cert_req (s3 s)" "hand s1 \<noteq> TLS_ST_CR_CERT_REQ"
    using t assms(1,3) unfolding ossl_statem_client13_write_transition_def
    by (auto simp: cert_or_finished_def SSL_IS_TLS13_def SSL_IS_DTLS_def split: if_split_asm)
qed

lemma client13_wedge_flight:
  "(h, m, h1) \<in> client13_wedges req \<Longrightarrow> ms \<in> client13_flight req h1 \<Longrightarrow> m @ ms \<in> client13_flight req h"
  by (cases "req = 0"; cases "req = 1") (auto simp: client13_wedges_def client13_flight_def Let_def)

lemma client13_writes_finished:
  assumes "writes (ossl_statem_client_write_transition hk) client_message_type sent s ms s'" "SSL_IS_TLS13 s"
    "hand s \<noteq> TLS_ST_CR_CERT_REQ" "hand s' = TLS_ST_CW_FINISHED"
  shows "ms \<in> client13_flight (cert_req (s3 s)) (hand s)"
  using assms
proof induction
  case (writes_Nil s)
  then show ?case by (simp add: client13_flight_def)
next
  case (writes_Cons s s1 s2 ms s')
  note S = client13_write_step [OF writes_Cons.prems(1) writes_Cons.hyps(1) writes_Cons.prems(2)]
  note K = sent_fields [OF writes_Cons.hyps(2)]
  have IH: "ms \<in> client13_flight (cert_req (s3 s)) (hand s1)"
    using writes_Cons.IH writes_Cons.prems(3) S(2-4) K by simp
  then have "(hand s, flight_msg (client_message_type (hand s1)), hand s1) \<in> client13_wedges (cert_req (s3 s))"
    using S(1) by auto
  from client13_wedge_flight [OF this IH] show ?case .
qed

section \<open>The other side reads it\<close>

lemma reads_handled_step:
  "tr mt s = (True, s1) \<Longrightarrow> handled s1 s2 \<Longrightarrow> reads tr handled s2 mts s' \<Longrightarrow> reads tr handled s (mt # mts) s'"
  by (rule reads_Cons [where tr = tr and keep = handled])

lemmas client_reads_step = reads_handled_step [where tr = "ossl_statem_client_read_transition hk" for hk]
lemmas server_reads_step = reads_handled_step [where tr = ossl_statem_server_read_transition]

lemma set_hand_fields [simp]:
  "SSL_IS_TLS13 (set_hand h s) = SSL_IS_TLS13 s" "hand (set_hand h s) = h" "hit (set_hand h s) = hit s"
  "set_hand h1 (set_hand h s) = set_hand h1 s"
  by (simp_all add: SSL_IS_TLS13_def SSL_IS_DTLS_def)

lemma client13_accepts:
  assumes "SSL_IS_TLS13 v" "\<not> hit v"
  shows "hand v = TLS_ST_CR_SRVR_HELLO \<Longrightarrow> ossl_statem_client_read_transition hk 8 v = goto TLS_ST_CR_ENCRYPTED_EXTENSIONS v"
    "hand v = TLS_ST_CR_ENCRYPTED_EXTENSIONS \<Longrightarrow> ossl_statem_client_read_transition hk 13 v = goto TLS_ST_CR_CERT_REQ v"
    "hand v = TLS_ST_CR_ENCRYPTED_EXTENSIONS \<or> hand v = TLS_ST_CR_CERT_REQ \<Longrightarrow>
       ossl_statem_client_read_transition hk 11 v = goto TLS_ST_CR_CERT v"
    "hand v = TLS_ST_CR_CERT \<Longrightarrow> ossl_statem_client_read_transition hk 15 v = goto TLS_ST_CR_CERT_VRFY v"
    "hand v = TLS_ST_CR_CERT_VRFY \<Longrightarrow> ossl_statem_client_read_transition hk 20 v = goto TLS_ST_CR_FINISHED v"
  using assms by (auto simp: ossl_statem_client_read_transition_def ossl_statem_client13_read_transition_def)

lemma client13_reads_flight:
  assumes "SSL_IS_TLS13 v" "\<not> hit v" "hand v = TLS_ST_CR_SRVR_HELLO" "ms \<in> server13_flight TLS_ST_SW_SRVR_HELLO"
  shows "reads (ossl_statem_client_read_transition hk) handled v ms (set_hand TLS_ST_CR_FINISHED v)"
proof -
  let ?R = "reads (ossl_statem_client_read_transition hk) handled" and ?fin = "set_hand TLS_ST_CR_FINISHED v"
  have v: "SSL_IS_TLS13 (set_hand h v)" "\<not> hit (set_hand h v)" for h
    using assms(1,2) by (simp_all del: upd_defs)
  note A = client13_accepts [OF v, unfolded set_hand_fields] and B = client_reads_step [OF _ handled_refl]
  have c: "?R (set_hand TLS_ST_CR_CERT v) [15, 20] ?fin"
    using B [OF A(4) B [OF A(5) reads_Nil]] by (simp del: upd_defs)
  have e: "?R (set_hand TLS_ST_CR_ENCRYPTED_EXTENSIONS v) [11, 15, 20] ?fin" "?R (set_hand TLS_ST_CR_CERT_REQ v) [11, 15, 20] ?fin"
    using B [OF A(3) c] by (simp_all del: upd_defs)
  have e2: "?R (set_hand TLS_ST_CR_ENCRYPTED_EXTENSIONS v) [13, 11, 15, 20] ?fin"
    using B [OF A(2) e(2)] by (simp del: upd_defs)
  from assms(4) have "ms = [8, 11, 15, 20] \<or> ms = [8, 13, 11, 15, 20]" by (simp add: server13_flight_def)
  then show ?thesis using B [OF client13_accepts(1) [OF assms(1-3)]] e(1) e2 by blast
qed

lemma server13_accepts:
  assumes "SSL_IS_TLS13 v"
  shows "hand v = TLS_ST_EARLY_DATA \<Longrightarrow> hello_retry_request v \<noteq> SSL_HRR_PENDING \<Longrightarrow> early_data (ext v) = SSL_EARLY_DATA_ACCEPTED \<Longrightarrow>
       ossl_statem_server_read_transition 5 v = goto TLS_ST_SR_END_OF_EARLY_DATA v"
    "hand v = TLS_ST_SR_END_OF_EARLY_DATA \<or> hand v = TLS_ST_EARLY_DATA \<and> hello_retry_request v \<noteq> SSL_HRR_PENDING
         \<and> early_data (ext v) \<noteq> SSL_EARLY_DATA_ACCEPTED \<Longrightarrow>
       ossl_statem_server_read_transition (if asked v then 11 else 20) v
         = goto (if asked v then TLS_ST_SR_CERT else TLS_ST_SR_FINISHED) v"
    "hand v = TLS_ST_SR_CERT \<Longrightarrow> ossl_statem_server_read_transition (if has_peer v then 15 else 20) v
         = goto (if has_peer v then TLS_ST_SR_CERT_VRFY else TLS_ST_SR_FINISHED) v"
    "hand v = TLS_ST_SR_CERT_VRFY \<Longrightarrow> ossl_statem_server_read_transition 20 v = goto TLS_ST_SR_FINISHED v"
  using assms by (auto simp: ossl_statem_server_read_transition_def ossl_statem_server13_read_transition_def server13_read_flight_def)

definition with_peer :: "x509_ptr option \<Rightarrow> SSL \<Rightarrow> SSL" where
  "with_peer p s = upd_sess (\<lambda>t. t\<lparr>peer := p\<rparr>) s"

lemma with_peer_fields [simp]:
  "SSL_IS_TLS13 (with_peer p s) = SSL_IS_TLS13 s" "hand (with_peer p s) = hand s" "peer (session (with_peer p s)) = p"
  "hand s = TLS_ST_SR_CERT \<Longrightarrow> handled s (with_peer p s)"
  by (simp_all add: with_peer_def SSL_IS_TLS13_def SSL_IS_DTLS_def handled_def)

text \<open>After the client's Certificate, of which the handler takes the peer \<open>p\<close>.\<close>

lemma server13_reads_after_cert:
  assumes "SSL_IS_TLS13 v" "hand v = TLS_ST_SR_CERT"
  shows "\<exists>v1. reads ossl_statem_server_read_transition handled (with_peer p v) (if p \<noteq> None then [15, 20] else [20]) v1 \<and>
    hand v1 = TLS_ST_SR_FINISHED \<and> peer (session v1) = p"
proof (cases p)
  case None
  let ?v = "with_peer p v"
  have "ossl_statem_server_read_transition 20 ?v = goto TLS_ST_SR_FINISHED ?v"
    using server13_accepts(3) [of ?v] assms None by (simp del: upd_defs)
  from server_reads_step [OF this handled_refl reads_Nil] show ?thesis using None
    by (intro exI [of _ "set_hand TLS_ST_SR_FINISHED ?v"]) (simp_all add: with_peer_def)
next
  case (Some a)
  let ?v = "with_peer p v"
  have 1: "ossl_statem_server_read_transition 15 ?v = goto TLS_ST_SR_CERT_VRFY ?v"
    using server13_accepts(3) [of ?v] assms Some by (simp del: upd_defs)
  have 2: "ossl_statem_server_read_transition 20 (set_hand TLS_ST_SR_CERT_VRFY ?v) = goto TLS_ST_SR_FINISHED ?v"
    using server13_accepts(4) [of "set_hand TLS_ST_SR_CERT_VRFY ?v"] assms by (simp del: upd_defs)
  from server_reads_step [OF 1 handled_refl server_reads_step [OF 2 handled_refl reads_Nil]] show ?thesis using Some
    by (intro exI [of _ "set_hand TLS_ST_SR_FINISHED ?v"]) (simp_all add: with_peer_def)
qed

lemma server13_reads_flight:
  assumes v: "SSL_IS_TLS13 v" "hand v = TLS_ST_EARLY_DATA" "hello_retry_request v \<noteq> SSL_HRR_PENDING"
    and ms: "ms \<in> client13_flight req TLS_ST_CR_FINISHED" "5 \<in> set ms \<longleftrightarrow> early_data (ext v) = SSL_EARLY_DATA_ACCEPTED"
    and req: "asked v \<longleftrightarrow> req \<noteq> 0" "p \<noteq> None \<longleftrightarrow> req = 1"
  shows "\<exists>v1. reads ossl_statem_server_read_transition handled v ms v1 \<and> hand v1 = TLS_ST_SR_FINISHED \<and>
    (req \<noteq> 0 \<longrightarrow> peer (session v1) = p)"
proof -
  define rest where "rest = (if req = 0 then [20] else if req = 1 then [11, 15, 20] else [11, 20 :: nat])"
  have flight: "\<exists>v1. reads ossl_statem_server_read_transition handled t rest v1 \<and> hand v1 = TLS_ST_SR_FINISHED \<and>
      (req \<noteq> 0 \<longrightarrow> peer (session v1) = p)"
    if t: "SSL_IS_TLS13 t" "asked t = asked v" "hand t = TLS_ST_SR_END_OF_EARLY_DATA \<or> hand t = TLS_ST_EARLY_DATA
        \<and> hello_retry_request t \<noteq> SSL_HRR_PENDING \<and> early_data (ext t) \<noteq> SSL_EARLY_DATA_ACCEPTED" for t
  proof (cases "req = 0")
    case True
    then have "ossl_statem_server_read_transition 20 t = goto TLS_ST_SR_FINISHED t"
      using server13_accepts(2) [OF t(1,3)] t(2) req(1) by (simp del: upd_defs)
    from server_reads_step [OF this handled_refl reads_Nil] show ?thesis using True
      by (intro exI [of _ "set_hand TLS_ST_SR_FINISHED t"]) (simp add: rest_def)
  next
    case False
    then have 1: "ossl_statem_server_read_transition 11 t = goto TLS_ST_SR_CERT t"
      using server13_accepts(2) [OF t(1,3)] t(2) req(1) by (simp del: upd_defs)
    have "SSL_IS_TLS13 (set_hand TLS_ST_SR_CERT t)" "hand (set_hand TLS_ST_SR_CERT t) = TLS_ST_SR_CERT"
      using t(1) by (simp_all del: upd_defs)
    from server13_reads_after_cert [OF this, of p] obtain v1 where v1:
      "reads ossl_statem_server_read_transition handled (with_peer p (set_hand TLS_ST_SR_CERT t)) (if p \<noteq> None then [15, 20] else [20]) v1"
      "hand v1 = TLS_ST_SR_FINISHED" "peer (session v1) = p" by blast
    have "reads ossl_statem_server_read_transition handled t (11 # (if p \<noteq> None then [15, 20] else [20])) v1"
      by (rule server_reads_step [OF 1 _ v1(1)]) (rule with_peer_fields, simp)
    then show ?thesis using v1(2,3) False req(2) by (auto simp: rest_def)
  qed
  have "ms = rest \<and> early_data (ext v) \<noteq> SSL_EARLY_DATA_ACCEPTED \<or> ms = 5 # rest \<and> early_data (ext v) = SSL_EARLY_DATA_ACCEPTED"
    using ms by (auto simp: client13_flight_def rest_def Let_def split: if_splits)
  then show ?thesis
  proof
    assume a: "ms = rest \<and> early_data (ext v) \<noteq> SSL_EARLY_DATA_ACCEPTED"
    then show ?thesis using flight [OF v(1) refl] v(2,3) by simp
  next
    assume a: "ms = 5 # rest \<and> early_data (ext v) = SSL_EARLY_DATA_ACCEPTED"
    let ?t = "set_hand TLS_ST_SR_END_OF_EARLY_DATA v"
    have 5: "ossl_statem_server_read_transition 5 v = (True, ?t)" using server13_accepts(1) [OF v] a by simp
    have "SSL_IS_TLS13 ?t" "asked ?t = asked v" "hand ?t = TLS_ST_SR_END_OF_EARLY_DATA"
      using v(1) by (simp_all add: SSL_IS_TLS13_def SSL_IS_DTLS_def)
    from flight [OF this(1,2) disjI1 [OF this(3)]] show ?thesis using server_reads_step [OF 5 handled_refl] a by blast
  qed
qed

end
