(* ===== verification/Handshake_Properties.thy ===== *)
theory Handshake_Properties
  imports Wire_Properties Flights
begin

text \<open>
  The properties of the handshake state machines (\<^verbatim>\<open>statem.c\<close>, \<^verbatim>\<open>statem_clnt.c\<close>, \<^verbatim>\<open>statem_srvr.c\<close>).
\<close>

section \<open>The order of messages\<close>


lemma sample_tls13 [simp]: "SSL_IS_TLS13 (at h)" "hand (at h) = h" "server (at h) = False" "hit (at h) = False"
  "set_hand h1 (at h) = at h1"
  by (simp_all add: at_def ssl0_def statem0_def SSL_IS_TLS13_def SSL_IS_DTLS_def)

lemma sample_client_steps:
  "ossl_statem_client_read_transition hooks0 8 (at TLS_ST_CR_SRVR_HELLO) = (True, at TLS_ST_CR_ENCRYPTED_EXTENSIONS)"
  "ossl_statem_client_read_transition hooks0 11 (at TLS_ST_CR_ENCRYPTED_EXTENSIONS) = (True, at TLS_ST_CR_CERT)"
  "ossl_statem_client_read_transition hooks0 15 (at TLS_ST_CR_CERT) = (True, at TLS_ST_CR_CERT_VRFY)"
  "ossl_statem_client_read_transition hooks0 20 (at TLS_ST_CR_CERT_VRFY) = (True, at TLS_ST_CR_FINISHED)"
  by (simp_all add: ossl_statem_client_read_transition_def ossl_statem_client13_read_transition_def at_def ssl0_def
      statem0_def SSL_IS_TLS13_def SSL_IS_DTLS_def Let_def)


text \<open>
  C4. A TLS 1.3 server whose own flight is out (it is then in the early data state) gets to the
  client's Finished only along the client's flight, after EndOfEarlyData if early data was
  accepted: Finished alone when it did not ask for a certificate; when it did, Certificate
  first, and CertificateVerify after it whenever the session then has a peer certificate. A
  client certificate is never used without its proof of possession.
\<close>

theorem server13_message_order:
  assumes "reads ossl_statem_server_read_transition handled s mts s'" "SSL_IS_TLS13 s"
    "hand s = TLS_ST_EARLY_DATA" "hand s' = TLS_ST_SR_FINISHED"
  defines "flight \<equiv> (if \<not> cert_request (s3 s) then [SSL3_MT_FINISHED]
    else if peer (session s') \<noteq> None then [SSL3_MT_CERTIFICATE, SSL3_MT_CERTIFICATE_VERIFY, SSL3_MT_FINISHED]
    else [SSL3_MT_CERTIFICATE, SSL3_MT_FINISHED])"
  shows "mts = flight \<or> mts = SSL3_MT_END_OF_EARLY_DATA # flight"
  using server13_reads_finished [OF assms(1,2,4)] assms(3)
  by (auto simp: server13_rest_def Let_def flight_def split: if_splits)

lemma server13_message_order_witness:
  "reads ossl_statem_server_read_transition handled (at TLS_ST_EARLY_DATA\<lparr>server := True\<rparr>) [20] (at TLS_ST_SR_FINISHED\<lparr>server := True\<rparr>)
   \<and> ([20] = [20 :: nat] \<or> [20] = [5, 20 :: nat])"
proof -
  let ?s = "at TLS_ST_EARLY_DATA\<lparr>server := True\<rparr>" and ?t = "at TLS_ST_SR_FINISHED\<lparr>server := True\<rparr>"
  have t: "ossl_statem_server_read_transition 20 ?s = (True, ?t)"
    by (simp add: ossl_statem_server_read_transition_def ossl_statem_server13_read_transition_def server13_read_flight_def
        at_def ssl0_def statem0_def s30_def SSL_IS_TLS13_def SSL_IS_DTLS_def)
  have r: "reads ossl_statem_server_read_transition handled ?s [20] ?t"
    by (rule server_reads_step [OF t handled_refl reads_Nil])
  have "SSL_IS_TLS13 ?s" "hand ?s = TLS_ST_EARLY_DATA" "hand ?t = TLS_ST_SR_FINISHED" "\<not> cert_request (s3 ?s)"
    by (simp_all add: SSL_IS_TLS13_def SSL_IS_DTLS_def at_def ssl0_def s30_def)
  from server13_message_order [OF r this(1-3)] r this(4) show ?thesis by simp
qed

section \<open>The two sides fit\<close>


text \<open>A server that does not ask for a certificate.\<close>

definition plain_server0 :: "OSSL_HANDSHAKE_STATE \<Rightarrow> SSL" where
  "plain_server0 h = at h\<lparr>server := True, verify_mode := 0\<rparr>"

lemma sample_server_steps:
  "ossl_statem_server_write_transition hooks0 (plain_server0 TLS_ST_SW_SRVR_HELLO) = (WRITE_TRAN_CONTINUE, plain_server0 TLS_ST_SW_ENCRYPTED_EXTENSIONS)"
  "ossl_statem_server_write_transition hooks0 (plain_server0 TLS_ST_SW_ENCRYPTED_EXTENSIONS) = (WRITE_TRAN_CONTINUE, plain_server0 TLS_ST_SW_CERT)"
  "ossl_statem_server_write_transition hooks0 (plain_server0 TLS_ST_SW_CERT) = (WRITE_TRAN_CONTINUE, plain_server0 TLS_ST_SW_CERT_VRFY)"
  "ossl_statem_server_write_transition hooks0 (plain_server0 TLS_ST_SW_CERT_VRFY) = (WRITE_TRAN_CONTINUE, plain_server0 TLS_ST_SW_FINISHED)"
  by (simp_all add: plain_server0_def ossl_statem_server_write_transition_def ossl_statem_server13_write_transition_def
      send_certificate_request_def has_def at_def ssl0_def SSL_IS_TLS13_def SSL_IS_DTLS_def)

lemma sample_writes:
  "wt s = (WRITE_TRAN_CONTINUE, s1) \<Longrightarrow> hand s1 \<noteq> TLS_ST_SW_CERT_REQ \<Longrightarrow> writes wt ty sent s1 ms s' \<Longrightarrow>
     writes wt ty sent s (flight_msg (ty (hand s1)) @ ms) s'"
  by (rule writes_Cons [where wt = wt and ty = ty, OF _ sent_refl])


text \<open>
  C18. Whatever a TLS 1.3 client writes after the server's Finished up to its own is a sequence of
  messages the server accepts, from the state its own flight ends in to the client's Finished,
  when the two agree on the request, on early data, and on whether the Certificate message
  carried a certificate.
\<close>

theorem client_flight_accepted:
  assumes "writes (ossl_statem_client_write_transition hk) client_message_type sent c ms c'" "SSL_IS_TLS13 c"
    "hand c = TLS_ST_CR_FINISHED" "hand c' = TLS_ST_CW_FINISHED"
    "SSL_IS_TLS13 v" "hand v = TLS_ST_EARLY_DATA" "hello_retry_request v \<noteq> SSL_HRR_PENDING"
    "SSL3_MT_END_OF_EARLY_DATA \<in> set ms \<longleftrightarrow> early_data (ext v) = SSL_EARLY_DATA_ACCEPTED"
    "cert_request (s3 v) \<longleftrightarrow> cert_req (s3 c) \<noteq> 0" "p \<noteq> None \<longleftrightarrow> cert_req (s3 c) = 1"
  shows "\<exists>v'. reads ossl_statem_server_read_transition handled v ms v' \<and> hand v' = TLS_ST_SR_FINISHED \<and>
    (cert_req (s3 c) \<noteq> 0 \<longrightarrow> peer (session v') = p)"
proof -
  have "ms \<in> client13_flight (cert_req (s3 c)) TLS_ST_CR_FINISHED"
    using client13_writes_finished [OF assms(1,2) _ assms(4)] assms(3) by simp
  from server13_reads_flight [OF assms(5-7) this assms(8-10)] show ?thesis .
qed

lemma client_flight_accepted_witness:
  "writes (ossl_statem_client_write_transition hooks0) client_message_type sent (at TLS_ST_CR_FINISHED) [20] (at TLS_ST_CW_FINISHED) \<and>
   (\<exists>v'. reads ossl_statem_server_read_transition handled (at TLS_ST_EARLY_DATA) [20] v' \<and> hand v' = TLS_ST_SR_FINISHED)"
proof -
  note W = sample_writes [where wt = "ossl_statem_client_write_transition hooks0" and ty = client_message_type]
  have t: "ossl_statem_client_write_transition hooks0 (at TLS_ST_CR_FINISHED) = (WRITE_TRAN_CONTINUE, at TLS_ST_CW_FINISHED)"
    by (simp add: ossl_statem_client_write_transition_def ossl_statem_client13_write_transition_def cert_or_finished_def
        has_def at_def ssl0_def s30_def SSL_IS_TLS13_def SSL_IS_DTLS_def)
  have w: "writes (ossl_statem_client_write_transition hooks0) client_message_type sent (at TLS_ST_CR_FINISHED) [20] (at TLS_ST_CW_FINISHED)"
    using W [OF t _ writes_Nil] by (simp add: flight_msg_def client_message_type_def)
  have "hello_retry_request (at TLS_ST_EARLY_DATA) \<noteq> SSL_HRR_PENDING"
    "(5 \<in> set [20 :: nat]) = (early_data (ext (at TLS_ST_EARLY_DATA)) = SSL_EARLY_DATA_ACCEPTED)"
    "cert_request (s3 (at TLS_ST_EARLY_DATA)) = (cert_req (s3 (at TLS_ST_CR_FINISHED)) \<noteq> 0)"
    "(None \<noteq> (None :: x509_ptr option)) = (cert_req (s3 (at TLS_ST_CR_FINISHED)) = 1)"
    by (simp_all add: at_def ssl0_def s30_def)
  from client_flight_accepted [OF w sample_tls13(1) sample_tls13(2) sample_tls13(2) sample_tls13(1) sample_tls13(2) this] w
  show ?thesis by blast
qed

section \<open>Errors\<close>

text \<open>
  C28. A message that is not expected in the current state ends a TLS connection for good: the read
  machine stops with an error before looking at the body, the session and the negotiated
  certificate types are as they were, and every later call of the state machine returns -1
  without changing anything.
\<close>

theorem unexpected_message_is_final:
  assumes "read_state (statem s) = READ_STATE_HEADER" "mc_header m s = (Some mt, s1)"
    "read_tran m mt s1 = (False, s2)" "\<not> dtls s1"
  shows "read_loop m s = Some (SUB_STATE_ERROR, s2) \<and> session s2 = session s1 \<and> ieee1609 s2 = ieee1609 s1 \<and>
    hand s2 = hand s1 \<and> (\<forall>m1 is_srv. state_machine m1 is_srv s2 = Some (-1, s2))"
  using refused_read [OF assms(2,3,1,4)] side_reads.keeps [OF assms(3)] error_absorbs by auto

lemma unexpected_message_is_final_witness:
  "\<exists>s2. read_loop (machine0 20 []) (at TLS_ST_CR_SRVR_HELLO) = Some (SUB_STATE_ERROR, s2) \<and>
     state_machine (machine0 20 []) False s2 = Some (-1, s2)"
proof -
  let ?m = "machine0 20 []" and ?s = "at TLS_ST_CR_SRVR_HELLO"
  let ?s1 = "upd_s3 (\<lambda>t. t\<lparr>message_size := 0\<rparr>) ?s"
  have h: "mc_header ?m ?s = (Some 20, ?s1)" by (simp add: machine0_def)
  obtain s2 where t: "read_tran ?m 20 ?s1 = (False, s2)"
    by (simp add: read_tran_def ossl_statem_client_read_transition_def ossl_statem_client13_read_transition_def
        no_transition_def at_def ssl0_def statem0_def s30_def SSL_IS_TLS13_def SSL_IS_DTLS_def Let_def)
  have "read_state (statem ?s) = READ_STATE_HEADER" "\<not> dtls ?s1" by (simp_all add: at_def ssl0_def statem0_def)
  from unexpected_message_is_final [OF this(1) h t this(2)] show ?thesis by blast
qed

text \<open>
  C34. A message longer than the limit of its state is refused before its body is read, with an
  illegal parameter alert; the limit of a server's or client's Certificate message is the
  configured maximum of the certificate list.
\<close>

theorem oversize_message_refused:
  assumes "read_state (statem s) = READ_STATE_HEADER" "mc_header m s = (Some mt, s1)" "read_tran m mt s1 = (True, s2)"
    "max_message_size s2 < message_size (s3 s2)"
  shows "read_loop m s = Some (SUB_STATE_ERROR, SSLfatal SSL_AD_ILLEGAL_PARAMETER SSL_R_EXCESSIVE_MESSAGE_SIZE s2) \<and>
    (hand s2 = (if server s2 then TLS_ST_SR_CERT else TLS_ST_CR_CERT) \<longrightarrow> max_message_size s2 = max_cert_list s2)"
proof -
  have "read_step m s = Some (Some SUB_STATE_ERROR, SSLfatal SSL_AD_ILLEGAL_PARAMETER SSL_R_EXCESSIVE_MESSAGE_SIZE s2)"
    using assms by (simp add: read_step_def read_header_def)
  then have "read_loop m s = Some (SUB_STATE_ERROR, SSLfatal SSL_AD_ILLEGAL_PARAMETER SSL_R_EXCESSIVE_MESSAGE_SIZE s2)"
    by (rule reading.stops_at_once)
  then show ?thesis
    by (auto simp: max_message_size_def ossl_statem_server_max_message_size_def ossl_statem_client_max_message_size_def)
qed

lemma oversize_message_refused_witness:
  "read_loop (machine0 11 (replicate 102401 0)) (at TLS_ST_CR_ENCRYPTED_EXTENSIONS) =
     Some (SUB_STATE_ERROR, SSLfatal SSL_AD_ILLEGAL_PARAMETER SSL_R_EXCESSIVE_MESSAGE_SIZE
       (upd_s3 (\<lambda>t. t\<lparr>message_size := 102401\<rparr>) (at TLS_ST_CR_CERT)))"
proof -
  let ?m = "machine0 11 (replicate 102401 0)" and ?s = "at TLS_ST_CR_ENCRYPTED_EXTENSIONS"
  let ?s1 = "upd_s3 (\<lambda>t. t\<lparr>message_size := 102401\<rparr>) ?s" and ?s2 = "upd_s3 (\<lambda>t. t\<lparr>message_size := 102401\<rparr>) (at TLS_ST_CR_CERT)"
  have h: "mc_header ?m ?s = (Some 11, ?s1)" by (simp add: machine0_def)
  have t: "read_tran ?m 11 ?s1 = (True, ?s2)"
    by (simp add: read_tran_def ossl_statem_client_read_transition_def ossl_statem_client13_read_transition_def
        at_def ssl0_def statem0_def s30_def SSL_IS_TLS13_def SSL_IS_DTLS_def Let_def)
  have "read_state (statem ?s) = READ_STATE_HEADER" by (simp add: at_def ssl0_def statem0_def)
  moreover have "max_message_size ?s2 < message_size (s3 ?s2)"
    by (simp add: max_message_size_def ossl_statem_client_max_message_size_def at_def ssl0_def)
  ultimately show ?thesis using oversize_message_refused [OF _ h t] by blast
qed


section \<open>Success\<close>

text \<open>
  C29. When \<open>SSL_connect\<close> or \<open>SSL_accept\<close> reports success the message flow is finished, the
  connection is out of the handshake and in the final state (or in one of the two states from
  which early data is exchanged): success is never reported in the middle of a handshake.
\<close>

theorem success_means_finished:
  assumes "state_machine m is_srv s = Some (1, s1)"
  shows "state (statem s1) = MSG_FLOW_FINISHED \<and> \<not> in_init (statem s1) \<and>
    hand s1 \<in> {TLS_ST_OK, TLS_ST_EARLY_DATA, TLS_ST_PENDING_EARLY_DATA_END}"
  using state_machine_success [OF assms] by (simp add: flow_done_def stop_states_def)

text \<open>A client that has just sent its Finished, entering the state machine once more.\<close>

lemma sample_final_steps:
  defines "s \<equiv> set_flow MSG_FLOW_WRITING (ossl_statem_set_in_handshake True (at TLS_ST_CW_FINISHED))"
  defines "s1 \<equiv> set_write WRITE_STATE_PRE_WORK WORK_MORE_A (set_hand TLS_ST_OK s)"
  shows "write_step (machine0 0 []) s = Some (None, s1)"
    "\<exists>s2. write_step (machine0 0 []) s1 = Some (Some SUB_STATE_END_HANDSHAKE, s2)"
   apply (simp add: write_step_def write_transition_def ossl_statem_client_write_transition_def
      ossl_statem_client13_write_transition_def machine0_def s_def s1_def set_flow_def set_write_def at_def ssl0_def
      statem0_def ossl_statem_set_in_handshake_def SSL_IS_TLS13_def SSL_IS_DTLS_def)
  apply (simp add: write_step_def pre_work_def ossl_statem_client_pre_work_def tls_finish_handshake_def work_result_def
      machine0_def hooks0_def s_def s1_def set_flow_def set_write_def at_def ssl0_def statem0_def s30_def
      ossl_statem_set_in_handshake_def SSL_IS_TLS13_def SSL_IS_DTLS_def SSL_IS_FIRST_HANDSHAKE_def Let_def)
  done

lemma sample_enter:
  "flow_enter (machine0 0 []) (set_flow MSG_FLOW_WRITING (at TLS_ST_CW_FINISHED)) =
     (True, set_flow MSG_FLOW_WRITING (ossl_statem_set_in_handshake True (at TLS_ST_CW_FINISHED)))"
  apply (simp add: flow_enter_def SSL_in_init_def SSL_in_before_def set_flow_def at_def ossl_statem_set_in_handshake_def)
  apply (simp add: statem0_def ssl0_def os0_def ERR_clear_error_def)
  done

lemma success_means_finished_witness:
  "\<exists>s1. state_machine (machine0 0 []) False (set_flow MSG_FLOW_WRITING (at TLS_ST_CW_FINISHED)) = Some (1, s1) \<and>
     state (statem s1) = MSG_FLOW_FINISHED"
proof -
  let ?m = "machine0 0 []" and ?pre = "set_flow MSG_FLOW_WRITING (at TLS_ST_CW_FINISHED)"
  let ?s = "set_flow MSG_FLOW_WRITING (ossl_statem_set_in_handshake True (at TLS_ST_CW_FINISHED))"
  obtain s2 where w: "write_state_machine ?m ?s = Some (SUB_STATE_END_HANDSHAKE, s2)"
    using writing.goes_on [OF sample_final_steps(1)] writing.stops_at_once sample_final_steps(2) by metis
  have "flow_loop ?m (set_flow MSG_FLOW_FINISHED s2) = Some (True, set_flow MSG_FLOW_FINISHED s2)"
    by (subst flow_loop.simps) (simp add: set_flow_def)
  then have f: "flow_loop ?m ?s = Some (True, set_flow MSG_FLOW_FINISHED s2)"
    using w by (subst flow_loop.simps) (simp add: set_flow_def)
  have e: "flow_enter ?m ?pre = (True, ?s)" by (rule sample_enter)
  have "flow_start ?m False ?s = (True, ?s)" "state (statem ?pre) = MSG_FLOW_WRITING"
    by (simp_all add: flow_start_def set_flow_def)
  then obtain s1 where r: "state_machine ?m False ?pre = Some (1, s1)"
    using e f by (simp add: state_machine_def)
  then show ?thesis using success_means_finished [OF r] by blast
qed

section \<open>Finished and KeyUpdate\<close>

text \<open>The key schedule and the record layer raise no objection to a Finished message.\<close>

definition keys_ready :: "hooks \<Rightarrow> bool" where
  "keys_ready hk \<longleftrightarrow> (\<forall>t. hk_pha_save hk t \<and> \<not> hk_read_pending hk t \<and> (\<forall>w. hk_change_cipher hk w t) \<and> hk_gen_master hk t
     \<and> hk_initial_flight hk t)"

text \<open>
  C26. A TLS 1.3 Finished message is accepted exactly when its bytes are the MAC this side computed
  beforehand for the other side, of at most 64 bytes; otherwise the connection is in the error
  state. An accepted one is remembered as the other side's Finished.
\<close>

theorem finished_accepted_iff:
  assumes "SSL_IS_TLS13 s" "keys_ready hk" "length (peer_finish_md (s3 s)) = peer_finish_md_len (s3 s)"
    "tls_process_finished hk pkt s = (r, s1)"
  shows "(r = MSG_PROCESS_FINISHED_READING \<longleftrightarrow> pkt = peer_finish_md (s3 s) \<and> length pkt \<le> 64) \<and>
    (r \<noteq> MSG_PROCESS_FINISHED_READING \<longrightarrow> r = MSG_PROCESS_ERROR \<and> ossl_statem_in_error s1) \<and>
    (r = MSG_PROCESS_FINISHED_READING \<longrightarrow>
       (if server s then previous_client_finished (s3 s1) else previous_server_finished (s3 s1)) = pkt)"
proof -
  have t: "SSL_IS_TLS13 (upd_st f s)" "SSL_IS_TLS13 (upd_s3 g s)" "SSL_IS_TLS13 (upd_s3 g (upd_st f s))" for f g
    using assms(1) by (simp_all add: SSL_IS_TLS13_def SSL_IS_DTLS_def)
  have k: "finished13_keys hk t" "hk_pha_save hk t" "\<not> hk_read_pending hk t" for t
    using assms(2) by (simp_all add: keys_ready_def finished13_keys_def)
  show ?thesis
    using assms(1,3,4) k unfolding tls_process_finished_def Let_def
    by (auto simp: PACKET_remaining_def fatal_internal_def SSL_IS_TLS13_def SSL_IS_DTLS_def split: if_split_asm)
qed

lemma finished_accepted_iff_witness:
  "fst (tls_process_finished hooks0 [1, 1] (upd_s3 (\<lambda>t. t\<lparr>peer_finish_md := [1, 1], peer_finish_md_len := 2\<rparr>) (at TLS_ST_CR_FINISHED)))
     = MSG_PROCESS_FINISHED_READING \<and>
   fst (tls_process_finished hooks0 [1, 2] (upd_s3 (\<lambda>t. t\<lparr>peer_finish_md := [1, 1], peer_finish_md_len := 2\<rparr>) (at TLS_ST_CR_FINISHED)))
     = MSG_PROCESS_ERROR"
proof -
  let ?s = "upd_s3 (\<lambda>t. t\<lparr>peer_finish_md := [1, 1], peer_finish_md_len := 2\<rparr>) (at TLS_ST_CR_FINISHED)"
  have s: "SSL_IS_TLS13 ?s" "keys_ready hooks0" "length (peer_finish_md (s3 ?s)) = peer_finish_md_len (s3 ?s)" "peer_finish_md (s3 ?s) = [1, 1]"
    by (simp_all add: at_def ssl0_def SSL_IS_TLS13_def SSL_IS_DTLS_def keys_ready_def hooks0_def)
  show ?thesis
    using finished_accepted_iff [OF s(1-3) prod.collapse [symmetric], of "[1, 1]"]
      finished_accepted_iff [OF s(1-3) prod.collapse [symmetric], of "[1, 2]"] s(4) by simp
qed

text \<open>
  C27. The two ends of a Finished message: when the sender and the receiver compute the same MAC for
  the sender's side, of 1 to 64 bytes, the bytes the sender writes are those the receiver, having
  taken its MAC, accepts.
\<close>

theorem finished_roundtrip:
  assumes "wpacket_inv pkt" "tls_construct_finished ok hk pkt s = (True, pkt1, s1)"
    "SSL_IS_TLS13 v" "server v \<noteq> server s" "keys_ready hk1"
    "\<And>t. server t = server s \<Longrightarrow> hk_finish_mac hk (server s) t = md" "hk_finish_mac hk1 (server s) v = md" "length md \<le> 64"
  shows "\<exists>v1 v2. wcontent pkt1 = wcontent pkt @ md \<and> ssl3_take_mac hk1 v = (True, v1) \<and>
    tls_process_finished hk1 md v1 = (MSG_PROCESS_FINISHED_READING, v2)"
proof -
  have md: "md \<noteq> []" and w: "WPACKET_memcpy ok md pkt = (True, pkt1)"
    using assms(2,6) unfolding tls_construct_finished_def Let_def by (auto split: if_split_asm prod.split_asm bool.split_asm)
  have c: "wcontent pkt1 = wcontent pkt @ md" using WPACKET_memcpy_spec [OF assms(1) w] by simp
  let ?v = "upd_s3 (\<lambda>t. t\<lparr>peer_finish_md := md, peer_finish_md_len := length md\<rparr>) v"
  have v: "ssl3_take_mac hk1 v = (True, ?v)" using assms(4,7) md by (auto simp: ssl3_take_mac_def Let_def)
  have t: "SSL_IS_TLS13 ?v" using assms(3) by (simp add: SSL_IS_TLS13_def SSL_IS_DTLS_def)
  obtain r v2 where r: "tls_process_finished hk1 md ?v = (r, v2)" by fastforce
  have k: "finished13_keys hk1 t" "hk_pha_save hk1 t" "\<not> hk_read_pending hk1 t" for t
    using assms(5) by (simp_all add: keys_ready_def finished13_keys_def)
  have "r = MSG_PROCESS_FINISHED_READING"
    using r t assms(8) k unfolding tls_process_finished_def Let_def
    by (auto simp: PACKET_remaining_def SSL_IS_TLS13_def SSL_IS_DTLS_def split: if_split_asm)
  then show ?thesis using c v r by blast
qed

lemma finished_roundtrip_witness:
  "\<exists>pkt1 s1 v1 v2. tls_construct_finished mem_always hooks0 wpacket0 (at TLS_ST_CW_FINISHED) = (True, pkt1, s1) \<and>
     ssl3_take_mac hooks0 (at TLS_ST_SR_FINISHED\<lparr>server := True\<rparr>) = (True, v1) \<and>
     tls_process_finished hooks0 [2, 2] v1 = (MSG_PROCESS_FINISHED_READING, v2)"
proof -
  have r: "length [2, 2 :: u8] \<le> wspace wpacket0" by simp
  obtain p1 where p1: "WPACKET_memcpy mem_always [2, 2] wpacket0 = (True, p1)"
    by (rule wpt.succeedsD [OF memcpy_succeeds wpacket0_ok(1,2) r]) simp
  then obtain s1 where c: "tls_construct_finished mem_always hooks0 wpacket0 (at TLS_ST_CW_FINISHED) = (True, p1, s1)"
    by (simp add: tls_construct_finished_def hooks0_def at_def ssl0_def SSL_IS_TLS13_def SSL_IS_DTLS_def Let_def)
  have h: "SSL_IS_TLS13 (at TLS_ST_SR_FINISHED\<lparr>server := True\<rparr>)" "keys_ready hooks0"
    by (simp_all add: at_def ssl0_def SSL_IS_TLS13_def SSL_IS_DTLS_def keys_ready_def hooks0_def)
  show ?thesis
    using finished_roundtrip [OF wpacket0_ok(1) c h(1) _ h(2), of "[2, 2]"] c by (auto simp: hooks0_def)
qed

text \<open>
  KeyUpdate: the message a side writes, for a pending update that does or does not request one
  in return, is accepted by the other side; a request makes that side schedule an update which
  requests nothing, and nothing else does, so two sides never keep each other updating.
\<close>

theorem key_update_settles:
  assumes "wpacket_inv pkt" "key_update s \<in> {SSL_KEY_UPDATE_NOT_REQUESTED, SSL_KEY_UPDATE_REQUESTED}"
    "tls_construct_key_update ok pkt s = (True, pkt1, s1)" "\<And>t. \<not> hk_read_pending hk t" "\<And>t. hk_update_key hk False t"
  shows "\<exists>body v1. wcontent pkt1 = wcontent pkt @ body \<and> key_update s1 = SSL_KEY_UPDATE_NONE \<and>
    tls_process_key_update hk body v = (MSG_PROCESS_FINISHED_READING, v1) \<and>
    key_update v1 = (if key_update s = SSL_KEY_UPDATE_REQUESTED then SSL_KEY_UPDATE_NOT_REQUESTED else key_update v)"
proof -
  let ?k = "unat (word_of_int (key_update s) :: u64)"
  have w: "WPACKET_put_bytes ok ?k 1 pkt = (True, pkt1)" and s1: "key_update s1 = SSL_KEY_UPDATE_NONE"
    using assms(3) unfolding tls_construct_key_update_def by (auto split: prod.split_asm bool.split_asm)
  have c: "wcontent pkt1 = wcontent pkt @ be_bytes 1 ?k" using WPACKET_put_bytes_spec [OF assms(1) w] by simp
  have b: "be_bytes 1 ?k = [if key_update s = 1 then 1 else 0]" using assms(2) by auto
  have "\<exists>v1. tls_process_key_update hk (be_bytes 1 ?k) v = (MSG_PROCESS_FINISHED_READING, v1) \<and>
      key_update v1 = (if key_update s = SSL_KEY_UPDATE_REQUESTED then SSL_KEY_UPDATE_NOT_REQUESTED else key_update v)"
    unfolding b using assms(2,4,5) by (auto simp: tls_process_key_update_def get_1_Cons PACKET_remaining_def Let_def)
  then show ?thesis using c s1 by blast
qed

lemma key_update_settles_witness:
  "\<exists>pkt1 s1 v1. tls_construct_key_update mem_always wpacket0 (ssl0\<lparr>key_update := 1\<rparr>) = (True, pkt1, s1) \<and> key_update s1 = -1 \<and>
     tls_process_key_update hooks0 [1] ssl0 = (MSG_PROCESS_FINISHED_READING, v1) \<and> key_update v1 = 0"
proof -
  have r: "(1 :: nat) \<le> wspace wpacket0" by simp
  obtain p1 where p1: "WPACKET_put_bytes mem_always 1 1 wpacket0 = (True, p1)"
    by (rule wpt.succeedsD [OF put_bytes_succeeds [of 1 1] wpacket0_ok(1,2) r]) simp_all
  then obtain s1 where c: "tls_construct_key_update mem_always wpacket0 (ssl0\<lparr>key_update := 1\<rparr>) = (True, p1, s1)"
    by (simp add: tls_construct_key_update_def)
  have b: "wcontent p1 = wcontent wpacket0 @ [1]" using WPACKET_put_bytes_spec [OF wpacket0_ok(1) p1] by simp
  from key_update_settles [OF wpacket0_ok(1) _ c, of hooks0 ssl0] show ?thesis
    using c b by (auto simp: hooks0_def)
qed

end
