(* ===== verification/Ieee1609_Config.thy ===== *)
theory Ieee1609_Config
  imports Ieee1609_Cert
begin

text \<open>
  The configuration interface of \<^verbatim>\<open>ssl/ieee1609dot2.c\<close>: the per-connection state in the ex data of an
  SSL object, the choice of this side's certificate (through \<^verbatim>\<open>ssl/ssl_rsa.c\<close>), its PSID, the
  certificate types it supports and the address of the security entity, and the question for the
  PSID and SSP of the peer.
\<close>

abbreviation (input) sizeof_SSL_IEEE1609 :: nat where "sizeof_SSL_IEEE1609 \<equiv> 168"
abbreviation (input) INET_ADDRSTRLEN :: nat where "INET_ADDRSTRLEN \<equiv> 16"
abbreviation (input) PSID_DEFAULT :: u64 where "PSID_DEFAULT \<equiv> 36"
abbreviation (input) SEC_ENT_PORT_DEFAULT :: int where "SEC_ENT_PORT_DEFAULT \<equiv> 3999"
abbreviation (input) SSL_PKEY_ECC :: nat where "SSL_PKEY_ECC \<equiv> 3"
abbreviation (input) X509_R_KEY_VALUES_MISMATCH :: err_reason where "X509_R_KEY_VALUES_MISMATCH \<equiv> ERR_CODE 116"

text \<open>\<open>127.0.0.1\<close>, with its terminating zero.\<close>

definition SEC_ENT_ADDR_DEFAULT :: bytes where
  "SEC_ENT_ADDR_DEFAULT = [0x31, 0x32, 0x37, 0x2e, 0x30, 0x2e, 0x30, 0x2e, 0x31, 0]"

text \<open>
  The \<open>n\<close> bytes \<open>strncpy\<close> stores: the string up to its zero, then zeros, or the first \<open>n\<close> bytes of a
  longer one. \<open>None\<close> is a read past the end of the source.
\<close>

definition strncpy :: "bytes \<Rightarrow> nat \<Rightarrow> bytes option" where
  "strncpy src n =
     (if 0 \<in> set (take n src)
      then let t = takeWhile (\<lambda>b. b \<noteq> 0) src in Some (t @ replicate (n - length t) 0)
      else if n \<le> length src then Some (take n src) else None)"

section \<open>The state of a connection\<close>

text \<open>
  \<open>junk\<close> is what the new block holds. The result of the allocation is not tested. The last
  component is the ex data slot.
\<close>

definition CRYPTO_EX_SSL_IEEE1609_new :: "env \<Rightarrow> SSL_IEEE1609 \<Rightarrow> os \<Rightarrow> (SSL_IEEE1609 \<times> os) option" where
  "CRYPTO_EX_SSL_IEEE1609_new e junk w = (case OPENSSL_malloc e sizeof_SSL_IEEE1609 w of
      (False, w1) \<Rightarrow> None
    | (True, w1) \<Rightarrow> do {
        a \<leftarrow> strncpy SEC_ENT_ADDR_DEFAULT INET_ADDRSTRLEN;
        Some (junk\<lparr>RFC8902_support := False,
           srv := \<lparr>support = SSL_RFC8902_X509, type_decided = -1\<rparr>,
           clnt := \<lparr>support = SSL_RFC8902_X509, type_decided = -1\<rparr>,
           psid_this_side := PSID_DEFAULT, psid_other_side := 0, ssp_other_side_len := 0,
           sec_ent_addr := a, sec_ent_port := SEC_ENT_PORT_DEFAULT\<rparr>, w1) })"

definition CRYPTO_EX_SSL_IEEE1609_free :: "SSL_IEEE1609 option \<Rightarrow> os \<Rightarrow> os" where
  "CRYPTO_EX_SSL_IEEE1609_free ptr w = (if ptr \<noteq> None then OPENSSL_free True w else w)"

definition CRYPTO_EX_SSL_IEEE1609_dup :: "env \<Rightarrow> SSL_IEEE1609 option \<Rightarrow> os \<Rightarrow> SSL_IEEE1609 option \<times> os" where
  "CRYPTO_EX_SSL_IEEE1609_dup e from w = (case from of
      None \<Rightarrow> (None, w)
    | Some d \<Rightarrow> (case OPENSSL_malloc e sizeof_SSL_IEEE1609 w of
        (False, w1) \<Rightarrow> (None, ERR_raise ERR_R_MALLOC_FAILURE w1)
      | (True, w1) \<Rightarrow> (Some d, w1)))"

section \<open>The certificate and key of this side\<close>

definition pkey_slot :: "nat \<Rightarrow> SSL \<Rightarrow> CERT_PKEY option" where
  "pkey_slot i s = (if i < length (pkeys s) then Some (pkeys s ! i) else None)"

text \<open>The argument is the slot of the key's type.\<close>

definition ssl_set_pkey :: "env \<Rightarrow> nat option \<Rightarrow> SSL \<Rightarrow> (bool \<times> SSL) option" where
  "ssl_set_pkey e key s = (case key of
      None \<Rightarrow> Some (False, upd_os (ERR_raise SSL_R_UNKNOWN_CERTIFICATE_TYPE) s)
    | Some i \<Rightarrow> do {
        k \<leftarrow> pkey_slot i s;
        matches \<leftarrow> (case pk_x509 k of None \<Rightarrow> Some True | Some a \<Rightarrow> map_option (env_check_private e) (x509s (os s) a));
        Some (if matches then (True, s\<lparr>pkeys := (pkeys s)[i := k\<lparr>pk_privatekey := True\<rparr>], cert_key := i\<rparr>)
              else (False, upd_os (ERR_raise X509_R_KEY_VALUES_MISMATCH) s)) })"

text \<open>The argument is the encoding of the key.\<close>

definition SSL_use_PrivateKey_ASN1 :: "env \<Rightarrow> bytes \<Rightarrow> SSL \<Rightarrow> (bool \<times> SSL) option" where
  "SSL_use_PrivateKey_ASN1 e d s = (case env_key_slot e d of
      None \<Rightarrow> Some (False, upd_os (ERR_raise ERR_R_ASN1_LIB) s)
    | Some key \<Rightarrow> ssl_set_pkey e key s)"

definition ssl_set_cert :: "env \<Rightarrow> x509_ptr \<Rightarrow> SSL \<Rightarrow> (bool \<times> SSL) option" where
  "ssl_set_cert e a s = do {
     ob \<leftarrow> x509s (os s) a;
     case env_pubkey e ob of
       None \<Rightarrow> Some (False, upd_os (ERR_raise SSL_R_X509_LIB) s)
     | Some None \<Rightarrow> Some (False, upd_os (ERR_raise SSL_R_UNKNOWN_CERTIFICATE_TYPE) s)
     | Some (Some i) \<Rightarrow>
         if i = SSL_PKEY_ECC \<and> \<not> env_can_sign e ob
         then Some (False, upd_os (ERR_raise SSL_R_ECC_CERT_NOT_FOR_SIGNING) s)
         else do {
           k \<leftarrow> pkey_slot i s;
           w1 \<leftarrow> X509_free (pk_x509 k) (if pk_privatekey k then ERR_clear_error (os s) else os s);
           w2 \<leftarrow> X509_up_ref a w1;
           Some (True, s\<lparr>os := w2, cert_key := i, pkeys := (pkeys s)[i := k\<lparr>pk_x509 := Some a,
             pk_privatekey := pk_privatekey k \<and> env_check_private e ob\<rparr>]\<rparr>) } }"

definition SSL_use_certificate :: "env \<Rightarrow> x509_ptr option \<Rightarrow> SSL \<Rightarrow> (bool \<times> SSL) option" where
  "SSL_use_certificate e x s = (case x of
      None \<Rightarrow> Some (False, upd_os (ERR_raise ERR_R_PASSED_NULL_PARAMETER) s)
    | Some a \<Rightarrow> do {
        ob \<leftarrow> x509s (os s) a;
        if env_security_cert e ob \<noteq> 1 then Some (False, upd_os (ERR_raise (ERR_CODE (env_security_cert e ob))) s)
        else ssl_set_cert e a s })"

definition SSL_use_1609_cert :: "env \<Rightarrow> bytes \<Rightarrow> nat \<Rightarrow> SSL \<Rightarrow> (bool \<times> SSL) option" where
  "SSL_use_1609_cert e data len s = do {
     (cert, _, w1) \<leftarrow> X509_new_IEEE1609_CERT e data len (os s);
     case cert of
       None \<Rightarrow> Some (False, s\<lparr>os := ERR_raise ERR_R_INTERNAL_ERROR w1\<rparr>)
     | Some a \<Rightarrow> do {
         (ok, s1) \<leftarrow> IEEE1609_CERT_verify e cert (s\<lparr>os := w1\<rparr>);
         (ret, s2) \<leftarrow> (if ok then SSL_use_certificate e cert s1
                      else Some (False, upd_os (ERR_raise ERR_R_INTERNAL_ERROR) s1));
         w3 \<leftarrow> X509_free cert (os s2);
         Some (ret, s2\<lparr>os := w3\<rparr>) } }"

definition SSL_use_1609_PSID :: "u64 \<Rightarrow> SSL \<Rightarrow> SSL" where
  "SSL_use_1609_PSID psid s = upd_1609 (\<lambda>t. t\<lparr>psid_this_side := psid\<rparr>) s"

text \<open>The part of \<open>SSL_use_1609_cert_by_hash\<close> from the reply on, up to the release of the messages.\<close>

definition use_cert_reply :: "env \<Rightarrow> bytes \<Rightarrow> SEC_ENT_MSG \<Rightarrow> SSL \<Rightarrow> (bool \<times> SSL) option" where
  "use_cert_reply e hashedid r s =
     (if msg_type r \<noteq> SEC_ENT_MSG_TYPE_GET_CERT then Some (False, upd_os (ERR_raise ERR_R_INTERNAL_ERROR) s)
      else do {
        p \<leftarrow> msg_data r;
        (cert_x, _, w1) \<leftarrow> X509_new_IEEE1609_CERT e p (unat (msg_len r - 1)) (os s);
        case cert_x of
          None \<Rightarrow> Some (False, s\<lparr>os := ERR_raise ERR_R_INTERNAL_ERROR w1\<rparr>)
        | Some a \<Rightarrow> do {
            cert_1609 \<leftarrow> IEEE1609_CERT_from_X509 a w1;
            (ret, s2) \<leftarrow> (case cert_1609 of
                None \<Rightarrow> Some (False, s\<lparr>os := ERR_raise ERR_R_INTERNAL_ERROR w1\<rparr>)
              | Some c \<Rightarrow> do {
                  h \<leftarrow> read_at hashedid 0 HASHEDID8_LEN;
                  (ok, s1) \<leftarrow> SSL_use_PrivateKey_ASN1 e key_der (s\<lparr>os := set_cert_hash a h w1\<rparr>);
                  if ok then SSL_use_certificate e cert_x s1
                  else Some (False, upd_os (ERR_raise ERR_R_INTERNAL_ERROR) s1) });
            w3 \<leftarrow> X509_free cert_x (os s2);
            Some (ret, s2\<lparr>os := w3\<rparr>) } })"

definition SSL_use_1609_cert_by_hash :: "env \<Rightarrow> bytes \<Rightarrow> SSL \<Rightarrow> (bool \<times> SSL) option" where
  "SSL_use_1609_cert_by_hash e hashedid s = do {
     (msg, w1) \<leftarrow> SEC_ENT_MSG_new_TYPE_GET_CERT e hashedid (os s);
     case msg of
       None \<Rightarrow> Some (False, s\<lparr>os := ERR_raise ERR_R_INTERNAL_ERROR w1\<rparr>)
     | Some m \<Rightarrow> do {
         (reply, w2) \<leftarrow> sec_ent_process e (ieee1609 s) msg w1;
         (ret, s1) \<leftarrow> (case reply of
             None \<Rightarrow> Some (False, s\<lparr>os := ERR_raise ERR_R_INTERNAL_ERROR w2\<rparr>)
           | Some r \<Rightarrow> use_cert_reply e hashedid r (s\<lparr>os := w2\<rparr>));
         Some (ret, upd_os (\<lambda>w. SEC_ENT_MSG_free reply (SEC_ENT_MSG_free msg w)) s1) } }"

section \<open>The security entity and the supported types\<close>

text \<open>The part of \<open>sec_ent_initial_connection\<close> from the reply on.\<close>

definition initial_reply :: "env \<Rightarrow> bool \<Rightarrow> SEC_ENT_MSG \<Rightarrow> SSL \<Rightarrow> (bool \<times> SSL) option" where
  "initial_reply e use_AT r s =
     (if msg_type r \<noteq> SEC_ENT_MSG_TYPE_GET_AT then Some (False, upd_os (ERR_raise ERR_R_INTERNAL_ERROR) s)
      else if \<not> use_AT then Some (True, s)
      else if unat (msg_len r) < HASHEDID8_LEN then Some (False, upd_os (ERR_raise ERR_R_INTERNAL_ERROR) s)
      else do {
        p \<leftarrow> msg_data r;
        h \<leftarrow> read_at p 0 HASHEDID8_LEN;
        (ok, s1) \<leftarrow> SSL_use_1609_cert_by_hash e h s;
        Some (ok, if ok then s1 else upd_os (ERR_raise ERR_R_INTERNAL_ERROR) s1) })"

definition sec_ent_initial_connection :: "env \<Rightarrow> bool \<Rightarrow> SSL \<Rightarrow> (bool \<times> SSL) option" where
  "sec_ent_initial_connection e use_AT s = do {
     (msg, w1) \<leftarrow> SEC_ENT_MSG_new_TYPE_GET_AT_CERT e (os s);
     case msg of
       None \<Rightarrow> Some (False, s\<lparr>os := ERR_raise ERR_R_INTERNAL_ERROR w1\<rparr>)
     | Some m \<Rightarrow> do {
         (reply, w2) \<leftarrow> sec_ent_process e (ieee1609 s) msg w1;
         (ret, s1) \<leftarrow> (case reply of
             None \<Rightarrow> Some (False, s\<lparr>os := ERR_raise ERR_R_INTERNAL_ERROR w2\<rparr>)
           | Some r \<Rightarrow> initial_reply e use_AT r (s\<lparr>os := w2\<rparr>));
         Some (ret, upd_os (\<lambda>w. SEC_ENT_MSG_free reply (SEC_ENT_MSG_free msg w)) s1) } }"

definition SSL_enable_RFC8902_support :: "env \<Rightarrow> u32 \<Rightarrow> u32 \<Rightarrow> bool \<Rightarrow> SSL \<Rightarrow> (bool \<times> SSL) option" where
  "SSL_enable_RFC8902_support e server_support client_support use_AT s =
     (let s1 = upd_1609 (\<lambda>t. t\<lparr>RFC8902_support := True, srv := (srv t)\<lparr>support := server_support\<rparr>,
                 clnt := (clnt t)\<lparr>support := client_support\<rparr>\<rparr>) s
      in if has server_support SSL_RFC8902_1609 \<or> has client_support SSL_RFC8902_1609
         then sec_ent_initial_connection e use_AT s1
         else Some (True, s1))"

text \<open>
  \<open>addr\<close> is the block the caller's string is in. The first statement formats a log line with it into
  an array of 200 bytes: 39 characters of text, the string, the digits of the port and a zero.
\<close>

fun dec_digits :: "nat \<Rightarrow> bytes" where
  "dec_digits n = (if n < 10 then [word_of_nat (48 + n)] else dec_digits (n div 10) @ [word_of_nat (48 + n mod 10)])"

declare dec_digits.simps [simp del]

definition dec_int :: "int \<Rightarrow> bytes" where
  "dec_int n = (if n < 0 then 45 # dec_digits (nat (- n)) else dec_digits (nat n))"

definition SSL_set_1609_sec_ent_addr :: "env \<Rightarrow> int \<Rightarrow> bytes \<Rightarrow> SSL \<Rightarrow> (bool \<times> SSL) option" where
  "SSL_set_1609_sec_ent_addr e port addr s = do {
     str \<leftarrow> c_string addr;
     guardb (39 + length str + length (dec_int port) + 1 \<le> 200);
     a \<leftarrow> strncpy addr (INET_ADDRSTRLEN - 1);
     sec_ent_initial_connection e False
       (upd_1609 (\<lambda>t. t\<lparr>sec_ent_addr := write_at (sec_ent_addr t) 0 a, sec_ent_port := port\<rparr>) s) }"

section \<open>The PSID and SSP of the peer\<close>

text \<open>
  \<open>ssp\<close> is what the caller's pointer \<open>*ssp\<close> is on entry; \<open>want_hash\<close> that \<open>hashedid\<close> is not NULL. The
  result of a call that succeeds has \<open>*psid\<close>, the bytes \<open>*ssp\<close> points to, and the hash. The error path after the allocation
  passes the address of the caller's variable to \<open>free\<close>, which is undefined.
\<close>

definition SSL_get_1609_psid_received ::
    "env \<Rightarrow> bytes option \<Rightarrow> bool \<Rightarrow> SSL \<Rightarrow> ((u64 \<times> bytes option \<times> bytes option) option \<times> SSL) option" where
  "SSL_get_1609_psid_received e ssp want_hash s =
     (let st = ieee1609 s
      in if psid_other_side st = 0 then Some (None, upd_os (ERR_raise SSL_R_NOT_1609_CERT) s)
         else if ssp \<noteq> None then Some (None, upd_os (ERR_raise ERR_R_INTERNAL_ERROR) s)
         else (case (if ssp_other_side_len st \<noteq> 0 then OPENSSL_malloc e (ssp_other_side_len st) (os s) else (True, os s)) of
             (False, w1) \<Rightarrow> Some (None, s\<lparr>os := ERR_raise ERR_R_INTERNAL_ERROR w1\<rparr>)
           | (True, w1) \<Rightarrow> do {
               d \<leftarrow> read_at (ssp_other_side st) 0 (ssp_other_side_len st);
               ssp1 \<leftarrow> Some (if ssp_other_side_len st \<noteq> 0 then Some d else None);
               if \<not> want_hash then Some (Some (psid_other_side st, ssp1, None), s\<lparr>os := w1\<rparr>)
               else do {
                 peer_x \<leftarrow> peer (session s);
                 cert \<leftarrow> IEEE1609_CERT_from_X509 peer_x w1;
                 c \<leftarrow> cert;
                 Some (Some (psid_other_side st, ssp1, Some (hashedid8 c)), s\<lparr>os := w1\<rparr>) } }))"

text \<open>\<open>strncpy\<close> fills its destination.\<close>

lemma length_takeWhile_less: "0 \<in> set (take n src) \<Longrightarrow> length (takeWhile (\<lambda>b. b \<noteq> (0 :: u8)) src) < n"
proof (induction src arbitrary: n)
  case (Cons b src)
  then show ?case by (cases n) auto
qed simp

lemma length_strncpy: "strncpy src n = Some a \<Longrightarrow> length a = n"
  using length_takeWhile_less [of n src] by (auto simp: strncpy_def Let_def split: if_split_asm)

end
