(* ===== verification/Ieee1609_Chain.thy ===== *)
theory Ieee1609_Chain
  imports Ieee1609_Config
begin

text \<open>
  \<open>SSL_get_1609_cert_chain\<close> of \<^verbatim>\<open>ssl/ieee1609dot2.c\<close>: it asks the security entity for a certificate by
  its hash, decodes name and validity into the caller's array of \<open>ssl_1609_cert_info_t\<close> and goes on
  with the issuer. The array is memory: the bytes of a block and an offset into it.
\<close>

section \<open>Dates\<close>

abbreviation (input) EPOCH_TO_TAI_EPOCH_SEC :: int where "EPOCH_TO_TAI_EPOCH_SEC \<equiv> 1072915232"

text \<open>\<open>None\<close> is an overflow of \<open>int\<close>, in the product for \<open>sixty_hours\<close>; \<open>long\<close> has 64 bits.\<close>

definition ssl_time32_to_time_t :: "int \<Rightarrow> nat \<Rightarrow> nat \<Rightarrow> int option" where
  "ssl_time32_to_time_t start0 dur_type dur_cnt =
     (let start = start0 + EPOCH_TO_TAI_EPOCH_SEC
      in if dur_type = 2 then Some (start + int dur_cnt)
         else if dur_type = 3 then Some (start + int (dur_cnt * 60))
         else if dur_type = 4 then Some (start + int (dur_cnt * 60 * 60))
         else if dur_type = 5 then
           if INT_MAX < dur_cnt * 60 * 60 * 60 then None else Some (start + int (dur_cnt * 60 * 60 * 60))
         else if dur_type = 6 then Some (start + int dur_cnt * 31556952)
         else Some (start + 1))"

text \<open>\<open>gmtime\<close>: year, month and day of a time after 1970, counting off the years and then the months.\<close>

definition leap_year :: "nat \<Rightarrow> bool" where
  "leap_year y \<longleftrightarrow> y mod 4 = 0 \<and> (y mod 100 \<noteq> 0 \<or> y mod 400 = 0)"

definition year_days :: "nat \<Rightarrow> nat" where
  "year_days y = (if leap_year y then 366 else 365)"

definition month_days :: "nat \<Rightarrow> nat \<Rightarrow> nat" where
  "month_days y m = (if m = 2 then if leap_year y then 29 else 28 else if m \<in> {4, 6, 9, 11} then 30 else 31)"

function gm_year :: "nat \<Rightarrow> nat \<Rightarrow> nat \<times> nat" where
  "gm_year y d = (if d < year_days y then (y, d) else gm_year (y + 1) (d - year_days y))"
  by pat_completeness auto
termination
  by (relation "measure (\<lambda>(y, d). d)") (auto simp: year_days_def)

function gm_month :: "nat \<Rightarrow> nat \<Rightarrow> nat \<Rightarrow> nat \<times> nat" where
  "gm_month y m d = (if d < month_days y m then (m, d) else gm_month y (m + 1) (d - month_days y m))"
  by pat_completeness auto
termination
  by (relation "measure (\<lambda>(y, m, d). d)") (auto simp: month_days_def)

declare gm_year.simps [simp del] gm_month.simps [simp del]

definition gmtime :: "nat \<Rightarrow> nat \<times> nat \<times> nat" where
  "gmtime t = (case gm_year 1970 (t div 86400) of (y, d) \<Rightarrow> case gm_month y 1 d of (m, d1) \<Rightarrow> (y, m, d1 + 1))"

definition pad_digits :: "nat \<Rightarrow> nat \<Rightarrow> bytes" where
  "pad_digits w n = replicate (w - length (dec_digits n)) 48 @ dec_digits n"

text \<open>The string with its zero; \<open>start\<close> is never negative where it is called.\<close>

definition ssl_time32_to_string :: "int \<Rightarrow> nat \<Rightarrow> nat \<Rightarrow> bytes option" where
  "ssl_time32_to_string start dur_type dur_cnt = do {
     t \<leftarrow> ssl_time32_to_time_t start dur_type dur_cnt;
     Some (case gmtime (nat t) of (y, m, d) \<Rightarrow> pad_digits 4 y @ [45] @ pad_digits 2 m @ [45] @ pad_digits 2 d @ [0]) }"

section \<open>Decoding a certificate\<close>

abbreviation (input) sizeof_info :: nat where "sizeof_info \<equiv> 204"
abbreviation (input) sizeof_id_name :: nat where "sizeof_id_name \<equiv> 64"
abbreviation (input) off_hashedid :: nat where "off_hashedid \<equiv> 4"
abbreviation (input) off_id_name :: nat where "off_id_name \<equiv> 12"
abbreviation (input) off_valid_from :: nat where "off_valid_from \<equiv> 76"
abbreviation (input) off_valid_to :: nat where "off_valid_to \<equiv> 140"

text \<open>A comparison of the first bytes that stops at the first difference; a byte of the block.\<close>

fun begins :: "bytes \<Rightarrow> bytes \<Rightarrow> bool option" where
  "begins p [] = Some True"
| "begins [] (b # bs) = None"
| "begins (c # p) (b # bs) = (if c = b then begins p bs else Some False)"

definition byte_at :: "bytes \<Rightarrow> nat \<Rightarrow> nat option" where
  "byte_at p i = (if i < length p then Some (unat (p ! i)) else None)"

definition store :: "bytes \<Rightarrow> nat \<Rightarrow> bytes \<Rightarrow> bytes option" where
  "store mem off d = (if off + length d \<le> length mem then Some (write_at mem off d) else None)"

text \<open>The validity period, the start of which is at \<open>k\<close>.\<close>

definition cert_validity :: "bytes \<Rightarrow> nat \<Rightarrow> bytes \<Rightarrow> nat \<Rightarrow> bytes option" where
  "cert_validity p k mem o1 = do {
     t \<leftarrow> byte_at p (k + 4);
     if t < 0x81 \<or> 0x86 < t then Some mem
     else do {
       c1 \<leftarrow> byte_at p (k + 5);
       c0 \<leftarrow> byte_at p (k + 6);
       b3 \<leftarrow> byte_at p k;
       b2 \<leftarrow> byte_at p (k + 1);
       b1 \<leftarrow> byte_at p (k + 2);
       b0 \<leftarrow> byte_at p (k + 3);
       start \<leftarrow> Some (int (b3 * 256 * 256 * 256 + b2 * 256 * 256 + b1 * 256 + b0));
       szStart \<leftarrow> ssl_time32_to_string start 0 0;
       szEnd \<leftarrow> ssl_time32_to_string start (t mod 16) (c1 * 256 + c0);
       guardb (length szStart \<le> 50 \<and> length szEnd \<le> 50);
       from \<leftarrow> strncpy szStart 64;
       to \<leftarrow> strncpy szEnd 64;
       mem1 \<leftarrow> store mem (o1 + off_valid_from) from;
       store mem1 (o1 + off_valid_to) to } }"

text \<open>The name, of which the length byte is at \<open>k\<close>; the result has the length used from then on.\<close>

definition cert_name :: "bytes \<Rightarrow> nat \<Rightarrow> bytes \<Rightarrow> nat \<Rightarrow> (nat \<times> bytes) option" where
  "cert_name p k mem o1 = do {
     n0 \<leftarrow> byte_at p k;
     n \<leftarrow> Some (min n0 (sizeof_id_name - 1));
     nm \<leftarrow> strncpy (drop (k + 1) p) n;
     mem1 \<leftarrow> store mem (o1 + off_id_name) nm;
     Some (n, mem1) }"

datatype cert_kind = AT | AA | ROOT | Unknown

definition cert_kind_of :: "bytes \<Rightarrow> cert_kind option" where
  "cert_kind_of p = do {
     at \<leftarrow> begins p [0x80, 3, 0, 0x80];
     if at then Some AT
     else do {
       aa \<leftarrow> begins p [0x80, 3, 0, 0x82, 8];
       if aa then Some AA
       else do {
         ro \<leftarrow> begins p [0x80, 3, 0, 0x81, 1];
         Some (if ro then ROOT else Unknown) } } }"

text \<open>What the memory is after decoding, and where to go on: the issuer's hash, or the result.\<close>

definition cert_decode :: "bytes \<Rightarrow> bytes \<Rightarrow> nat \<Rightarrow> (bytes \<times> (bytes + bool)) option" where
  "cert_decode p mem o1 = do {
     kind \<leftarrow> cert_kind_of p;
     case kind of
       AT \<Rightarrow> do { mem1 \<leftarrow> cert_validity p 19 mem o1; Some (mem1, Inl (drop 4 p)) }
     | AA \<Rightarrow> do {
         (n, mem1) \<leftarrow> cert_name p 15 mem o1;
         mem2 \<leftarrow> cert_validity p (21 + n) mem1 o1;
         Some (mem2, Inl (drop 5 p)) }
     | ROOT \<Rightarrow> do {
         (n, mem1) \<leftarrow> cert_name p 7 mem o1;
         mem2 \<leftarrow> cert_validity p (13 + n) mem1 o1;
         Some (mem2, Inr True) }
     | Unknown \<Rightarrow> Some (mem, Inr False) }"

section \<open>The chain\<close>

text \<open>
  The request for one certificate: the object, its octets when all went well, and the two messages;
  object and messages are released at the end.
\<close>

definition fetch_cert ::
    "env \<Rightarrow> bytes \<Rightarrow> SSL \<Rightarrow> (x509_ptr option \<times> bytes option \<times> SEC_ENT_MSG option \<times> SEC_ENT_MSG option \<times> SSL) option" where
  "fetch_cert e hashedid s = do {
     (msg, w1) \<leftarrow> SEC_ENT_MSG_new_TYPE_GET_CERT e hashedid (os s);
     case msg of
       None \<Rightarrow> Some (None, None, None, None, s\<lparr>os := ERR_raise ERR_R_INTERNAL_ERROR w1\<rparr>)
     | Some m \<Rightarrow> do {
         (reply, w2) \<leftarrow> sec_ent_process e (ieee1609 s) msg w1;
         case reply of
           None \<Rightarrow> Some (None, None, msg, None, s\<lparr>os := ERR_raise ERR_R_INTERNAL_ERROR w2\<rparr>)
         | Some r \<Rightarrow>
             if msg_type r \<noteq> SEC_ENT_MSG_TYPE_GET_CERT
             then Some (None, None, msg, reply, s\<lparr>os := ERR_raise ERR_R_INTERNAL_ERROR w2\<rparr>)
             else do {
               p \<leftarrow> msg_data r;
               (cert_x, _, w3) \<leftarrow> X509_new_IEEE1609_CERT e p (unat (msg_len r - 1)) w2;
               case cert_x of
                 None \<Rightarrow> Some (None, None, msg, reply, s\<lparr>os := ERR_raise ERR_R_INTERNAL_ERROR w3\<rparr>)
               | Some a \<Rightarrow> do {
                   cert_1609 \<leftarrow> IEEE1609_CERT_from_X509 a w3;
                   case cert_1609 of
                     None \<Rightarrow> Some (cert_x, None, msg, reply, s\<lparr>os := ERR_raise ERR_R_INTERNAL_ERROR w3\<rparr>)
                   | Some c \<Rightarrow> do {
                       h \<leftarrow> read_at hashedid 0 HASHEDID8_LEN;
                       d \<leftarrow> cert_data c;
                       Some (cert_x, Some d, msg, reply, s\<lparr>os := set_cert_hash a h w3\<rparr>) } } } } }"

text \<open>
  \<open>info\<close> is at offset \<open>o1\<close> of \<open>mem\<close>. The size is an \<open>int\<close> that is compared as a \<open>size_t\<close>: a negative one
  passes the test and reaches \<open>memset\<close>, which no block is large enough for.
\<close>

function SSL_get_1609_cert_chain ::
    "env \<Rightarrow> bytes \<Rightarrow> bytes \<Rightarrow> nat \<Rightarrow> int \<Rightarrow> SSL \<Rightarrow> (bool \<times> bytes \<times> SSL) option" where
  "SSL_get_1609_cert_chain e hashedid mem o1 sz s =
     (if 0 \<le> sz \<and> sz < int sizeof_info then Some (False, mem, upd_os (ERR_raise ERR_R_INTERNAL_ERROR) s)
      else if sz < 0 then None
      else do {
        mem1 \<leftarrow> store mem o1 (replicate (nat sz) 0);
        h \<leftarrow> read_at hashedid 0 HASHEDID8_LEN;
        mem2 \<leftarrow> store mem1 (o1 + off_hashedid) h;
        (cert_x, cert, msg, reply, s1) \<leftarrow> fetch_cert e hashedid s;
        (ret, mem5, s2) \<leftarrow> (case cert of
            None \<Rightarrow> Some (False, mem2, s1)
          | Some d \<Rightarrow> do {
              mem3 \<leftarrow> store mem2 o1 (mem_image (host_little e) 4 1);
              (mem4, next) \<leftarrow> cert_decode d mem3 o1;
              case next of
                Inr r \<Rightarrow> Some (r, mem4, s1)
              | Inl issuer_hash \<Rightarrow>
                  SSL_get_1609_cert_chain e issuer_hash mem4 (o1 + sizeof_info) (sz - int sizeof_info) s1 });
        w3 \<leftarrow> X509_free cert_x (os s2);
        Some (ret, mem5, s2\<lparr>os := SEC_ENT_MSG_free reply (SEC_ENT_MSG_free msg w3)\<rparr>) })"
  by pat_completeness auto
termination
  by (relation "measure (\<lambda>(e, hashedid, mem, o1, sz, s). nat sz)") auto

declare SSL_get_1609_cert_chain.simps [simp del]

end
