(* ===== verification/Outcomes.thy ===== *)
theory Outcomes
  imports Iso_Prelude
begin

text \<open>
  Facts about the result of a function that may run into undefined behaviour: \<open>outcome P m\<close> holds
  when every defined result of \<open>m\<close> satisfies \<open>P\<close>. The rules follow the constructs the functions are
  made of, so that frame conditions are proved along the text of a function.
\<close>

named_theorems outcome_rules

definition outcome :: "('a \<Rightarrow> bool) \<Rightarrow> 'a option \<Rightarrow> bool" where
  "outcome P m \<longleftrightarrow> (\<forall>x. m = Some x \<longrightarrow> P x)"

lemma outcomeD: "outcome P m \<Longrightarrow> m = Some x \<Longrightarrow> P x"
  by (simp add: outcome_def)

lemma outcome_simps [simp]: "outcome P None" "outcome P (Some x) \<longleftrightarrow> P x"
  "outcome P (if c then m else n) \<longleftrightarrow> (c \<longrightarrow> outcome P m) \<and> (\<not> c \<longrightarrow> outcome P n)"
  by (simp_all add: outcome_def)

lemma outcome_any: "(\<And>x. P x) \<Longrightarrow> outcome P m"
  by (simp add: outcome_def)

lemma outcome_mono: "outcome Q m \<Longrightarrow> (\<And>x. Q x \<Longrightarrow> P x) \<Longrightarrow> outcome P m"
  by (simp add: outcome_def)

text \<open>A step and its result, and one for which a fact is known.\<close>

lemma outcome_bind [outcome_rules]: "(\<And>x. m = Some x \<Longrightarrow> outcome P (f x)) \<Longrightarrow> outcome P (Option.bind m f)"
  by (cases m) simp_all

lemma outcome_step: "outcome Q m \<Longrightarrow> (\<And>x. Q x \<Longrightarrow> outcome P (f x)) \<Longrightarrow> outcome P (Option.bind m f)"
  by (cases m) simp_all

lemma outcome_if [outcome_rules]: "(c \<Longrightarrow> outcome P m) \<Longrightarrow> (\<not> c \<Longrightarrow> outcome P n) \<Longrightarrow> outcome P (if c then m else n)"
  by simp

lemma outcome_case_option [outcome_rules]:
  "outcome P a \<Longrightarrow> (\<And>x. outcome P (f x)) \<Longrightarrow> outcome P (case y of None \<Rightarrow> a | Some x \<Rightarrow> f x)"
  by (cases y) simp_all

lemma outcome_case_prod [outcome_rules]: "(\<And>a b. y = (a, b) \<Longrightarrow> outcome P (f a b)) \<Longrightarrow> outcome P (case y of (a, b) \<Rightarrow> f a b)"
  by (cases y) simp

lemma outcome_case_bool [outcome_rules]: "outcome P a \<Longrightarrow> outcome P b \<Longrightarrow> outcome P (case y of True \<Rightarrow> a | False \<Rightarrow> b)"
  by (cases y) simp_all

end
