(* ===== verification/Config_Properties.thy ===== *)
theory Config_Properties
  imports Outcomes Ieee1609_Config Cert_Exchange Wire_Properties
begin

text \<open>
  The properties of the configuration interface (\<^verbatim>\<open>ssl/ieee1609dot2.c\<close>): what every configured
  connection satisfies, and what installing a certificate by its hash achieves.
\<close>

section \<open>What the calls leave alone\<close>

named_theorems keeps_rules

abbreviation keeps1609 :: "SSL \<Rightarrow> (bool \<times> SSL) option \<Rightarrow> bool" where
  "keeps1609 s m \<equiv> outcome (\<lambda>(r, s1). ieee1609 s1 = ieee1609 s) m"

lemma keeps_bind [keeps_rules]:
  "keeps1609 s m \<Longrightarrow> (\<And>r s1. ieee1609 s1 = ieee1609 s \<Longrightarrow> keeps1609 s (f (r, s1))) \<Longrightarrow> keeps1609 s (Option.bind m f)"
  by (cases m) auto

lemma use_key_frame [keeps_rules]: "ieee1609 t = ieee1609 s \<Longrightarrow> keeps1609 s (SSL_use_PrivateKey_ASN1 e d t)"
  unfolding SSL_use_PrivateKey_ASN1_def ssl_set_pkey_def by (rule keeps_rules outcome_rules | simp)+

lemma use_cert_frame [keeps_rules]: "ieee1609 t = ieee1609 s \<Longrightarrow> keeps1609 s (SSL_use_certificate e x t)"
  unfolding SSL_use_certificate_def ssl_set_cert_def by (rule keeps_rules outcome_rules | simp)+

lemma verify_frame [keeps_rules]: "ieee1609 t = ieee1609 s \<Longrightarrow> keeps1609 s (IEEE1609_CERT_verify e x t)"
  unfolding IEEE1609_CERT_verify_def by (rule keeps_rules outcome_rules | simp)+

lemma use_1609_cert_frame [keeps_rules]: "ieee1609 t = ieee1609 s \<Longrightarrow> keeps1609 s (SSL_use_1609_cert e data len t)"
  unfolding SSL_use_1609_cert_def by (rule keeps_rules outcome_rules | simp)+

lemma cert_reply_frame [keeps_rules]: "ieee1609 t = ieee1609 s \<Longrightarrow> keeps1609 s (use_cert_reply e hid m t)"
  unfolding use_cert_reply_def by (rule keeps_rules outcome_rules | simp)+

lemma cert_by_hash_frame [keeps_rules]: "ieee1609 t = ieee1609 s \<Longrightarrow> keeps1609 s (SSL_use_1609_cert_by_hash e hid t)"
  unfolding SSL_use_1609_cert_by_hash_def by (rule keeps_rules outcome_rules | simp)+

lemma initial_frame [keeps_rules]: "ieee1609 t = ieee1609 s \<Longrightarrow> keeps1609 s (sec_ent_initial_connection e u t)"
  unfolding sec_ent_initial_connection_def initial_reply_def by (rule keeps_rules outcome_rules | simp)+

lemma keepsD: "m = Some (r, s1) \<Longrightarrow> keeps1609 s m \<Longrightarrow> ieee1609 s1 = ieee1609 s"
  by simp

lemmas call_frames = keepsD [OF _ use_1609_cert_frame [OF refl]] keepsD [OF _ cert_by_hash_frame [OF refl]]
  keepsD [OF _ initial_frame [OF refl]]

section \<open>Configured connections\<close>

text \<open>The address is a terminated string in its 16 bytes and the SSP buffer has its 100.\<close>

definition config_ok :: "SSL_IEEE1609 \<Rightarrow> bool" where
  "config_ok st \<longleftrightarrow> length (sec_ent_addr st) = 16 \<and> sec_ent_addr st ! 15 = 0 \<and>
     length (ssp_other_side st) = 100 \<and> ssp_other_side_len st \<le> 100"

text \<open>
  The connections an application can have: created, then put through any calls of the interface and
  any of the functions of the handshake that touch the state, in any order and with any arguments.
\<close>

inductive configured :: "env \<Rightarrow> SSL \<Rightarrow> bool" for e where
  created: "CRYPTO_EX_SSL_IEEE1609_new e junk (os s) = Some (st, w1) \<Longrightarrow> length (ssp_other_side junk) = 100 \<Longrightarrow>
    configured e (s\<lparr>ieee1609 := st, os := w1\<rparr>)"
| duplicated: "configured e s \<Longrightarrow> CRYPTO_EX_SSL_IEEE1609_dup e (Some (ieee1609 s)) (os s) = (Some st, w1) \<Longrightarrow>
    configured e (t\<lparr>ieee1609 := st, os := w1\<rparr>)"
| psid: "configured e s \<Longrightarrow> configured e (SSL_use_1609_PSID p s)"
| cert: "configured e s \<Longrightarrow> SSL_use_1609_cert e data len s = Some (r, s1) \<Longrightarrow> configured e s1"
| by_hash: "configured e s \<Longrightarrow> SSL_use_1609_cert_by_hash e hid s = Some (r, s1) \<Longrightarrow> configured e s1"
| enabled: "configured e s \<Longrightarrow> SSL_enable_RFC8902_support e ss cs u s = Some (r, s1) \<Longrightarrow> configured e s1"
| addr: "configured e s \<Longrightarrow> SSL_set_1609_sec_ent_addr e port a s = Some (r, s1) \<Longrightarrow> configured e s1"
| parse_ctos: "configured e s \<Longrightarrow> ct_idx i \<Longrightarrow> tls_parse_ctos_cert_type_ext i pkt s = Some (r, s1) \<Longrightarrow> configured e s1"
| parse_stoc: "configured e s \<Longrightarrow> ct_idx i \<Longrightarrow> tls_parse_stoc_cert_type_ext i pkt s = Some (r, s1) \<Longrightarrow> configured e s1"
| verified: "configured e s \<Longrightarrow> tls_process_IEEE1609_CERT_cert_verify e x vi vd s = Some (r, s1) \<Longrightarrow> configured e s1"
| other: "configured e s \<Longrightarrow> ieee1609 s1 = ieee1609 s \<Longrightarrow> configured e s1"

lemma set_peer_psid_addr: "sec_ent_addr (set_peer_psid little d st) = sec_ent_addr st"
  by (simp add: set_peer_psid_def Let_def)

lemma verify_data_config:
  assumes "config_ok (ieee1609 s)"
  shows "outcome (\<lambda>(r, s1). config_ok (ieee1609 s1)) (tls_process_IEEE1609_CERT_cert_verify e x vi vd s)"
proof -
  have P: "config_ok (set_peer_psid little d (ieee1609 s))" if "8 \<le> length d" "length d \<le> 108" for little d
    using set_peer_psid_fields(2,3) [OF that] assms that by (simp add: config_ok_def set_peer_psid_addr)
  show ?thesis unfolding tls_process_IEEE1609_CERT_cert_verify_def
    by (rule outcome_rules | simp add: assms P read_at_Some_iff)+
qed

lemma new_config:
  assumes "length (ssp_other_side junk) = 100"
  shows "outcome (\<lambda>(st, w1). config_ok st) (CRYPTO_EX_SSL_IEEE1609_new e junk w)"
proof -
  have C: "config_ok (junk\<lparr>RFC8902_support := b, srv := t, clnt := t, psid_this_side := p, psid_other_side := 0,
      ssp_other_side_len := 0, sec_ent_addr := a, sec_ent_port := n\<rparr>)"
    if "strncpy SEC_ENT_ADDR_DEFAULT 16 = Some a" for b t p a n
    using that assms by (auto simp: strncpy_def SEC_ENT_ADDR_DEFAULT_def Let_def config_ok_def nth_Cons')
  show ?thesis unfolding CRYPTO_EX_SSL_IEEE1609_new_def by (rule outcome_rules | simp add: C)+
qed

lemma addr_config:
  assumes "strncpy addr 15 = Some a" "config_ok st"
  shows "config_ok (st\<lparr>sec_ent_addr := write_at (sec_ent_addr st) 0 a, sec_ent_port := port\<rparr>)"
  using length_strncpy [OF assms(1)] assms(2) write_at_nth_out [of 0 a "sec_ent_addr st" 15] by (simp add: config_ok_def)

lemma ext_config:
  assumes "ct_idx i" "config_ok (ieee1609 s)"
  shows "tls_parse_ctos_cert_type_ext i pkt s = Some (r, s1) \<Longrightarrow> config_ok (ieee1609 s1)"
    "tls_parse_stoc_cert_type_ext i pkt s = Some (r, s1) \<Longrightarrow> config_ok (ieee1609 s1)"
  using assms
  by (auto simp: tls_parse_ctos_cert_type_ext_def tls_parse_stoc_cert_type_ext_def set_type_decided_def config_ok_def
      split: option.splits prod.splits if_splits)

text \<open>
  C36. The 1609.2 state of every connection, after any sequence of configuration calls and of the
  handshake functions that change it, has a terminated address in its buffer of 16 bytes, an SSP
  buffer of 100 bytes and an SSP length that fits it: the assumptions on which no exchange with the
  security entity and no copy of an SSP leaves its memory.
\<close>

theorem configured_ok:
  assumes "configured e s"
  shows "config_ok (ieee1609 s) \<and> addr_ok s"
proof -
  from assms have "config_ok (ieee1609 s)"
  proof induction
    case (created junk s st w1)
    then show ?case using outcomeD [OF new_config] by fastforce
  next
    case (duplicated s st w1 t)
    then show ?case by (auto simp: CRYPTO_EX_SSL_IEEE1609_dup_def split: prod.split_asm bool.split_asm)
  next
    case (enabled s ss cs u r s1)
    then show ?case
      by (auto simp: SSL_enable_RFC8902_support_def Let_def config_ok_def split: if_split_asm dest!: call_frames(3))
  next
    case (addr s port a r s1)
    then show ?case
      by (auto simp: SSL_set_1609_sec_ent_addr_def bind_eq_Some_conv addr_config dest!: call_frames(3))
  next
    case (psid s p)
    then show ?case by (simp add: SSL_use_1609_PSID_def config_ok_def)
  next
    case (verified s x vi vd r s1)
    then show ?case using outcomeD [OF verify_data_config] by fastforce
  qed (auto dest: call_frames(1,2) ext_config)
  then show ?thesis by (auto simp: config_ok_def addr_ok_def in_set_conv_nth intro!: exI [of _ 15])
qed

lemma configured_ok_witness:
  "\<exists>st w1. CRYPTO_EX_SSL_IEEE1609_new env0 ieee0 os0 = Some (st, w1) \<and> config_ok st \<and> addr_ok (ssl0\<lparr>ieee1609 := st, os := w1\<rparr>)"
proof -
  obtain w1 where "OPENSSL_malloc env0 168 os0 = (True, w1)" by (simp add: malloc_always [OF sample_malloc])
  moreover obtain a where "strncpy SEC_ENT_ADDR_DEFAULT 16 = Some a"
    by (simp add: strncpy_def SEC_ENT_ADDR_DEFAULT_def Let_def)
  ultimately obtain st where n: "CRYPTO_EX_SSL_IEEE1609_new env0 ieee0 (os ssl0) = Some (st, w1)"
    by (simp add: CRYPTO_EX_SSL_IEEE1609_new_def)
  have "length (ssp_other_side ieee0) = 100" by (simp add: ieee0_def)
  from configured_ok [OF configured.created [OF n this]] n show ?thesis by simp
qed

section \<open>Installing a certificate\<close>

text \<open>The library accepts the built-in X509 object and the built-in key, for slot \<open>i\<close>.\<close>

definition key_accepted :: "env \<Rightarrow> nat \<Rightarrow> bool" where
  "key_accepted e i \<longleftrightarrow> env_key_slot e key_der = Some (Some i) \<and>
     (\<forall>ob. env_security_cert e ob = 1 \<and> env_pubkey e ob = Some (Some i) \<and> env_can_sign e ob \<and> env_check_private e ob)"

lemma new_1609_up:
  assumes "decodes e" "n \<le> length data" "0 < n"
  shows "\<exists>w1. X509_new_IEEE1609_CERT e data n w = Some (Some (x_next w), drop n data, w1) \<and>
    x509s w1 = (x509s w)(x_next w \<mapsto> \<lparr>x_refs = 1, x_der = Some X509_cert_der, x_1609 = Some (new_cert (take n data))\<rparr>)"
  using assms
  by (simp add: X509_new_IEEE1609_CERT_def X509_set_IEEE1609_CERT_def X509_new_fake_cert_def IEEE1609_CERT_new_from_buffer_def
      malloc_always decodes_def read_at_def X509_set_1609_def new_cert_def X509_alloc_def min_def fun_eq_iff)

text \<open>The request for the certificate of a hash, and the reply.\<close>

lemma get_cert_up:
  assumes "entity_up e" "length hid = 8" "addr_ok s" "length d \<le> 2042"
    "entity_replies e (conns (os s)) (sec_ent_frame 8 (hid @ [0])) 8 (d @ [f])"
  shows "\<exists>m w1 w2. SEC_ENT_MSG_new_TYPE_GET_CERT e hid (os s) = Some (Some m, w1) \<and>
    sec_ent_process e (ieee1609 s) (Some m) w1 = Some (Some (raw_msg 8 (d @ [f])), w2)"
proof -
  have r: "d @ [f] \<noteq> []" "length (d @ [f]) \<le> 2043" "0 \<in> set (sec_ent_addr (ieee1609 s))"
    using assms(3,4) by (auto simp: addr_ok_def)
  show ?thesis by (rule get_cert.ask_up [OF assms(1,2) r(3) assms(5) r(1,2)]) auto
qed

lemma cert_raw_msg:
  assumes "length d \<le> 2042"
  shows "msg_type (raw_msg 8 (d @ [f])) = 8" "msg_data (raw_msg 8 (d @ [f])) = Some (d @ [f])"
    "unat (msg_len (raw_msg 8 (d @ [f])) - 1) = length d"
  using assms by (simp_all add: raw_msg_def unat_u32_of_nat)

lemma use_certificate_up:
  assumes "key_accepted e i" "i < length (pkeys s)" "pk_x509 (pkeys s ! i) = None" "x509s (os s) a = Some ob"
  shows "\<exists>s1. SSL_use_certificate e (Some a) s = Some (True, s1) \<and> cert_key s1 = i \<and>
    pkeys s1 = (pkeys s)[i := (pkeys s ! i)\<lparr>pk_x509 := Some a\<rparr>] \<and>
    x509s (os s1) = (x509s (os s))(a \<mapsto> ob\<lparr>x_refs := x_refs ob + 1\<rparr>)"
  using assms
  by (simp add: SSL_use_certificate_def ssl_set_cert_def key_accepted_def pkey_slot_def X509_free_def X509_up_ref_def
      ERR_clear_error_def)

lemma use_key_up:
  assumes "key_accepted e i" "i < length (pkeys s)" "pk_x509 (pkeys s ! i) = None"
  shows "SSL_use_PrivateKey_ASN1 e key_der s = Some (True, s\<lparr>pkeys := (pkeys s)[i := (pkeys s ! i)\<lparr>pk_privatekey := True\<rparr>], cert_key := i\<rparr>)"
  using assms by (simp add: SSL_use_PrivateKey_ASN1_def ssl_set_pkey_def key_accepted_def pkey_slot_def)

lemma cert_reply_up:
  assumes "decodes e" "key_accepted e i" "i < length (pkeys s)" "pk_x509 (pkeys s ! i) = None" "length hid = 8"
    "d \<noteq> []" "length d \<le> 2042"
  shows "\<exists>s1. use_cert_reply e hid (raw_msg 8 (d @ [f])) s = Some (True, s1) \<and> cert_key s1 = i \<and>
    pkeys s1 = (pkeys s)[i := (pkeys s ! i)\<lparr>pk_privatekey := True, pk_x509 := Some (x_next (os s))\<rparr>] \<and>
    x509_holds (os s1) (x_next (os s)) ((new_cert d)\<lparr>hashed_id_present := True, hashedid8 := hid\<rparr>)"
proof -
  let ?r = "raw_msg 8 (d @ [f])" and ?a = "x_next (os s)"
  let ?c = "(new_cert d)\<lparr>hashed_id_present := True, hashedid8 := hid\<rparr>"
  note r = cert_raw_msg [OF assms(7), of f]
  obtain w1 where w1: "X509_new_IEEE1609_CERT e (d @ [f]) (length d) (os s) = Some (Some ?a, [f], w1)"
    "x509s w1 = (x509s (os s))(?a \<mapsto> \<lparr>x_refs = 1, x_der = Some X509_cert_der, x_1609 = Some (new_cert d)\<rparr>)"
    using new_1609_up [OF assms(1), of "length d" "d @ [f]" "os s"] assms(6) by auto
  let ?ob = "\<lparr>x_refs = 1, x_der = Some X509_cert_der, x_1609 = Some ?c\<rparr>"
  let ?k = "(pkeys s)[i := (pkeys s ! i)\<lparr>pk_privatekey := True\<rparr>]"
  let ?s2 = "s\<lparr>os := set_cert_hash ?a hid w1, pkeys := ?k, cert_key := i\<rparr>"
  have k: "SSL_use_PrivateKey_ASN1 e key_der (s\<lparr>os := set_cert_hash ?a hid w1\<rparr>) = Some (True, ?s2)"
    using use_key_up [OF assms(2), of "s\<lparr>os := set_cert_hash ?a hid w1\<rparr>"] assms(3,4) by simp
  have h: "x509s (os ?s2) ?a = Some ?ob" by (simp add: set_cert_hash_def w1(2) new_cert_def)
  obtain t3 where t3: "SSL_use_certificate e (Some ?a) ?s2 = Some (True, t3)" "cert_key t3 = i"
    "pkeys t3 = ?k[i := (?k ! i)\<lparr>pk_x509 := Some ?a\<rparr>]" "x509s (os t3) ?a = Some (?ob\<lparr>x_refs := 2\<rparr>)"
    using use_certificate_up [OF assms(2) _ _ h] assms(3,4) by auto
  obtain w3 where w3: "X509_free (Some ?a) (os t3) = Some w3" "x509s w3 ?a = Some ?ob"
    using t3(4) by (simp add: X509_free_def)
  have "use_cert_reply e hid ?r s = Some (True, t3\<lparr>os := w3\<rparr>)"
    using r w1 k t3(1) w3(1) assms(5) by (simp add: use_cert_reply_def IEEE1609_CERT_from_X509_def read_at_def)
  then show ?thesis using t3(2,3) w3(2) assms(3)
    by (intro exI [of _ "t3\<lparr>os := w3\<rparr>"]) (simp add: x509_holds_def IEEE1609_CERT_from_X509_def)
qed

text \<open>
  C37. Installing this side's certificate by its hash: with the security entity up and answering
  the request for this hash with the certificate and one more byte, the call succeeds, the slot of
  the built-in key becomes the current one and holds an X509 object that carries exactly these
  certificate octets under this hash, with a private key, so that a CertificateVerify will be made for it.
\<close>

theorem cert_by_hash_installed:
  assumes "entity_up e" "decodes e" "key_accepted e i" "i < length (pkeys s)" "pk_x509 (pkeys s ! i) = None" "length hid = 8"
    "addr_ok s" "d \<noteq> []" "length d \<le> 2042" "entity_replies e (conns (os s)) (sec_ent_frame 8 (hid @ [0])) 8 (d @ [f])"
  shows "\<exists>s1 a. SSL_use_1609_cert_by_hash e hid s = Some (True, s1) \<and> cert_key s1 = i \<and>
    pk_x509 (pkeys s1 ! i) = Some a \<and> pk_privatekey (pkeys s1 ! i) \<and> ieee1609 s1 = ieee1609 s \<and>
    x509_holds (os s1) a ((new_cert d)\<lparr>hashed_id_present := True, hashedid8 := hid\<rparr>)"
proof -
  obtain m w1 w2 where A: "SEC_ENT_MSG_new_TYPE_GET_CERT e hid (os s) = Some (Some m, w1)"
    "sec_ent_process e (ieee1609 s) (Some m) w1 = Some (Some (raw_msg 8 (d @ [f])), w2)"
    using get_cert_up [OF assms(1,6,7,9,10)] by blast
  obtain s1 where s1: "use_cert_reply e hid (raw_msg 8 (d @ [f])) (s\<lparr>os := w2\<rparr>) = Some (True, s1)" "cert_key s1 = i"
    "pkeys s1 = (pkeys s)[i := (pkeys s ! i)\<lparr>pk_privatekey := True, pk_x509 := Some (x_next w2)\<rparr>]"
    "x509_holds (os s1) (x_next w2) ((new_cert d)\<lparr>hashed_id_present := True, hashedid8 := hid\<rparr>)"
    using cert_reply_up [OF assms(2,3) _ _ assms(6,8,9), of "s\<lparr>os := w2\<rparr>" f] assms(4,5) by auto
  let ?t = "upd_os (\<lambda>w. SEC_ENT_MSG_free (Some (raw_msg 8 (d @ [f]))) (SEC_ENT_MSG_free (Some m) w)) s1"
  have run: "SSL_use_1609_cert_by_hash e hid s = Some (True, ?t)"
    using A s1(1) by (simp add: SSL_use_1609_cert_by_hash_def)
  then show ?thesis using s1(2-4) assms(4) call_frames(2) [OF run]
    by (intro exI [of _ ?t] exI [of _ "x_next w2"]) simp
qed

text \<open>A connection without any certificate yet.\<close>

definition bare0 :: SSL where
  "bare0 = ssl0\<lparr>pkeys := replicate 9 \<lparr>pk_x509 = None, pk_privatekey = False, pk_chain = None\<rparr>\<rparr>"

lemma cert_by_hash_installed_witness:
  "\<exists>s1 a. SSL_use_1609_cert_by_hash env0 [1, 2, 3, 4, 5, 6, 7, 8] bare0 = Some (True, s1) \<and> cert_key s1 = 3 \<and>
    x509_holds (os s1) a ((new_cert root0)\<lparr>hashed_id_present := True, hashedid8 := [1, 2, 3, 4, 5, 6, 7, 8]\<rparr>)"
proof -
  have "decodes env0" "key_accepted env0 3" by (simp_all add: decodes_def key_accepted_def env0_def)
  moreover have "3 < length (pkeys bare0)" "pk_x509 (pkeys bare0 ! 3) = None" "addr_ok bare0" "conns (os bare0) = 0"
    by (simp_all add: bare0_def addr_ok_def ieee0_def)
  moreover have "root0 \<noteq> []" "length root0 \<le> 2042" by (simp_all add: root0_def)
  ultimately show ?thesis
    using cert_by_hash_installed [OF sample_entity_up _ _ _ _ _ _ _ _ sample_replies(4), of 3 bare0 "[1, 2, 3, 4, 5, 6, 7, 8]"]
    by fastforce
qed

end
