(* ===== verification/Chain_Properties.thy ===== *)
theory Chain_Properties
  imports Ieee1609_Chain Config_Properties
begin

text \<open>
  The properties of \<open>SSL_get_1609_cert_chain\<close>: it stays inside the caller's array, and it trusts the
  length of the certificates it is given.
\<close>

section \<open>Writes inside a range\<close>

definition within :: "nat \<Rightarrow> nat \<Rightarrow> bytes \<Rightarrow> bytes \<Rightarrow> bool" where
  "within lo hi mem mem1 \<longleftrightarrow> length mem1 = length mem \<and> (\<forall>i < length mem. i < lo \<or> hi \<le> i \<longrightarrow> mem1 ! i = mem ! i)"

lemma within_refl [simp]: "within lo hi mem mem"
  by (simp add: within_def)

lemma within_trans: "within lo hi m m1 \<Longrightarrow> within lo hi m1 m2 \<Longrightarrow> within lo hi m m2"
  by (simp add: within_def)

lemma within_mono: "within lo hi m m1 \<Longrightarrow> lo1 \<le> lo \<Longrightarrow> hi \<le> hi1 \<Longrightarrow> within lo1 hi1 m m1"
  by (auto simp: within_def)

lemma store_within: "store mem off d = Some mem1 \<Longrightarrow> lo \<le> off \<Longrightarrow> off + length d \<le> hi \<Longrightarrow> within lo hi mem mem1"
  by (auto simp: store_def within_def write_at_nth_out split: if_split_asm)

lemma validity_within: "outcome (within o1 (o1 + 204) mem) (cert_validity p k mem o1)"
  unfolding cert_validity_def
  by (rule outcome_rules | simp)+
    (auto simp: outcome_def dest!: length_strncpy intro: within_trans [OF store_within store_within])

lemma name_within: "outcome (\<lambda>(n, mem1). within o1 (o1 + 204) mem mem1) (cert_name p k mem o1)"
  unfolding cert_name_def
  by (rule outcome_rules | simp)+ (auto dest!: length_strncpy intro!: store_within)

lemma decode_within: "outcome (\<lambda>(mem1, next). within o1 (o1 + 204) mem mem1) (cert_decode p mem o1)"
proof -
  have V: "within o1 (o1 + 204) m m1" if "cert_validity p k m o1 = Some m1" for k m m1
    using outcomeD [OF validity_within that] .
  have N: "within o1 (o1 + 204) m m1" if "cert_name p k m o1 = Some (n, m1)" for k m m1 n
    using outcomeD [OF name_within that] by simp
  show ?thesis unfolding cert_decode_def
    by (auto simp: outcome_def bind_eq_Some_conv split: cert_kind.split_asm intro: V within_trans [OF N V])
qed

text \<open>One element: the first stores, and the decoding.\<close>

lemma head_within:
  assumes "204 \<le> sz" "store mem o1 (replicate (nat sz) 0) = Some m1" "read_at hid 0 8 = Some h" "store m1 (o1 + 4) h = Some m2"
  shows "within o1 (o1 + nat sz) mem m2"
  using store_within [OF assms(2), of o1 "o1 + nat sz"] store_within [OF assms(4), of o1 "o1 + nat sz"] assms(1,3)
  by (auto simp: read_at_Some_iff intro: within_trans)

lemma element_within:
  assumes "204 \<le> sz" "store m2 o1 (mem_image little 4 1) = Some m3" "cert_decode d m3 o1 = Some (m4, nxt)"
  shows "within o1 (o1 + nat sz) m2 m4"
proof -
  have "within o1 (o1 + 204) m2 m3" using store_within [OF assms(2), of o1 "o1 + 204"] by (simp add: mem_image_def)
  moreover have "within o1 (o1 + 204) m3 m4" using outcomeD [OF decode_within assms(3)] by simp
  ultimately have "within o1 (o1 + 204) m2 m4" by (rule within_trans)
  then show ?thesis using assms(1) by (auto elim!: within_mono)
qed


section \<open>One certificate from the security entity\<close>

lemma fetch_up:
  assumes "entity_up e" "decodes e" "length hid = 8" "addr_ok s" "d \<noteq> []" "length d \<le> 2042"
    "entity_replies e (conns (os s)) (sec_ent_frame 8 (hid @ [0])) 8 (d @ [f])"
  shows "\<exists>a m r s1. fetch_cert e hid s = Some (Some a, Some d, Some m, Some r, s1) \<and>
    x509_holds (os s1) a ((new_cert d)\<lparr>hashed_id_present := True, hashedid8 := hid\<rparr>)"
proof -
  obtain m w1 w2 where A: "SEC_ENT_MSG_new_TYPE_GET_CERT e hid (os s) = Some (Some m, w1)"
    "sec_ent_process e (ieee1609 s) (Some m) w1 = Some (Some (raw_msg 8 (d @ [f])), w2)"
    using get_cert_up [OF assms(1,3,4,6,7)] by blast
  note q = cert_raw_msg [OF assms(6), of f]
  obtain w3 where w3: "X509_new_IEEE1609_CERT e (d @ [f]) (length d) w2 = Some (Some (x_next w2), [f], w3)"
    "x509s w3 = (x509s w2)(x_next w2 \<mapsto> \<lparr>x_refs = 1, x_der = Some X509_cert_der, x_1609 = Some (new_cert d)\<rparr>)"
    using new_1609_up [OF assms(2), of "length d" "d @ [f]" w2] assms(5) by auto
  show ?thesis using A q w3 assms(3)
    by (simp add: fetch_cert_def IEEE1609_CERT_from_X509_def read_at_def set_cert_hash_def x509_holds_def new_cert_def)
qed

section \<open>Dates\<close>

text \<open>The civil calendar: the days from the beginning of 1970 to the first of a month, and valid dates.\<close>

definition days_before :: "nat \<Rightarrow> nat \<Rightarrow> nat" where
  "days_before y m = sum year_days {1970..<y} + sum (month_days y) {1..<m}"

definition valid_date :: "nat \<Rightarrow> nat \<Rightarrow> nat \<Rightarrow> bool" where
  "valid_date y m d \<longleftrightarrow> 1970 \<le> y \<and> m \<in> {1..12} \<and> d \<in> {1..month_days y m}"

definition date_bytes :: "nat \<Rightarrow> nat \<Rightarrow> nat \<Rightarrow> bytes" where
  "date_bytes y m d = pad_digits 4 y @ [45] @ pad_digits 2 m @ [45] @ pad_digits 2 d"

lemma gm_year_spec: "gm_year y d = (y1, d1) \<Longrightarrow> y \<le> y1 \<and> d1 < year_days y1 \<and> d = sum year_days {y..<y1} + d1"
proof (induction y d rule: gm_year.induct)
  case (1 y d)
  show ?case
  proof (cases "d < year_days y")
    case True
    then show ?thesis using 1(2) by (subst (asm) gm_year.simps) simp
  next
    case False
    then have "gm_year (y + 1) (d - year_days y) = (y1, d1)" using 1(2) by (subst (asm) gm_year.simps) simp
    from 1(1) [OF False this] False show ?thesis by (auto simp: sum.atLeast_Suc_lessThan)
  qed
qed

lemma gm_month_spec: "gm_month y m d = (m1, d1) \<Longrightarrow> m \<le> m1 \<and> d1 < month_days y m1 \<and> d = sum (month_days y) {m..<m1} + d1"
proof (induction y m d rule: gm_month.induct)
  case (1 y m d)
  show ?case
  proof (cases "d < month_days y m")
    case True
    then show ?thesis using 1(2) by (subst (asm) gm_month.simps) simp
  next
    case False
    then have "gm_month y (m + 1) (d - month_days y m) = (m1, d1)" using 1(2) by (subst (asm) gm_month.simps) simp
    from 1(1) [OF False this] False show ?thesis by (auto simp: sum.atLeast_Suc_lessThan)
  qed
qed

lemma months_of_year: "sum (month_days y) {1..<13} = year_days y"
  by (simp add: month_days_def year_days_def numeral_eq_Suc sum.atLeast_Suc_lessThan)

lemma gmtime_spec:
  assumes "gmtime t = (y, m, d)"
  shows "valid_date y m d" "days_before y m + (d - 1) = t div 86400"
proof -
  obtain d0 d1 where g: "gm_year 1970 (t div 86400) = (y, d0)" "gm_month y 1 d0 = (m, d1)" "d = d1 + 1"
    using assms by (auto simp: gmtime_def split: prod.split_asm)
  note Y = gm_year_spec [OF g(1)] and M = gm_month_spec [OF g(2)]
  have "m < 13"
  proof (rule ccontr)
    assume "\<not> m < 13"
    then have "year_days y \<le> sum (month_days y) {1..<m}"
      unfolding months_of_year [symmetric] by (intro sum_mono2) auto
    with Y M show False by simp
  qed
  with Y M g(3) show "valid_date y m d" "days_before y m + (d - 1) = t div 86400"
    by (auto simp: valid_date_def days_before_def)
qed

lemma time32_nonneg: "0 \<le> start \<Longrightarrow> ssl_time32_to_time_t start dt c = Some t \<Longrightarrow> 0 \<le> t"
  by (auto simp: ssl_time32_to_time_t_def Let_def split: if_split_asm)

lemma time_string_fields:
  assumes "0 \<le> start" "ssl_time32_to_string start dt c = Some str"
  shows "\<exists>t y m d. ssl_time32_to_time_t start dt c = Some t \<and> 0 \<le> t \<and> gmtime (nat t) = (y, m, d) \<and>
    str = date_bytes y m d @ [0]"
proof -
  obtain t where t: "ssl_time32_to_time_t start dt c = Some t"
    and s: "str = (case gmtime (nat t) of (y, m, d) \<Rightarrow> date_bytes y m d @ [0])"
    using assms(2) by (auto simp: ssl_time32_to_string_def bind_eq_Some_conv date_bytes_def case_prod_beta)
  obtain y m d where "gmtime (nat t) = (y, m, d)" by (cases "gmtime (nat t)")
  with t s time32_nonneg [OF assms(1) t] show ?thesis by auto
qed



section \<open>A root certificate\<close>

text \<open>The layout of a root certificate as the decoder takes it, and the element it makes of it.\<close>

definition root_cert :: "bytes \<Rightarrow> bytes \<Rightarrow> bytes \<Rightarrow> bytes \<Rightarrow> u8 \<Rightarrow> bytes \<Rightarrow> bytes \<Rightarrow> bytes" where
  "root_cert xs name ys from dt cnt rest =
     [0x80, 3, 0, 0x81, 1] @ xs @ [word_of_nat (length name)] @ name @ ys @ from @ [dt] @ cnt @ rest"

definition padded :: "nat \<Rightarrow> bytes \<Rightarrow> bytes" where
  "padded n bs = bs @ replicate (n - length bs) 0"

definition info_bytes :: "bool \<Rightarrow> bytes \<Rightarrow> bytes \<Rightarrow> bytes \<Rightarrow> bytes \<Rightarrow> bytes" where
  "info_bytes little hid name from to = mem_image little 4 1 @ hid @ padded 64 name @ padded 64 from @ padded 64 to"

lemma store_mid: "off = length a \<Longrightarrow> length b = length d \<Longrightarrow> store (a @ b @ c) off d = Some (a @ d @ c)"
  by (simp add: store_def write_at_def)

lemma strncpy_padded: "0 \<notin> set bs \<Longrightarrow> length bs < n \<Longrightarrow> strncpy (bs @ 0 # r) n = Some (padded n bs)"
proof -
  assume *: "0 \<notin> set bs" "length bs < n"
  then obtain j where "n - length bs = Suc j" by (cases "n - length bs") auto
  moreover have "takeWhile (\<lambda>b. b \<noteq> 0) (bs @ 0 # r) = bs" using *(1) by (subst takeWhile_append2) auto
  ultimately show ?thesis by (simp add: strncpy_def padded_def)
qed

lemma strncpy_take: "0 \<notin> set bs \<Longrightarrow> strncpy (bs @ r) (length bs) = Some bs"
  by (simp add: strncpy_def)

lemma length_dec_digits: "n < 10 ^ k \<Longrightarrow> 0 < k \<Longrightarrow> length (dec_digits n) \<le> k"
proof (induction n arbitrary: k rule: dec_digits.induct)
  case (1 n)
  show ?case
  proof (cases "n < 10")
    case True
    then show ?thesis using 1(3) by (subst dec_digits.simps) simp
  next
    case False
    then obtain j where k: "k = Suc j" "0 < j" using 1(2,3) by (cases k; cases "k - 1") auto
    then have "n div 10 < 10 ^ j" using 1(2) by (simp add: less_mult_imp_div_less mult.commute)
    from 1(1) [OF False this k(2)] k(1) False show ?thesis by (subst dec_digits.simps) simp
  qed
qed

lemma dec_digits_nonzero: "0 \<notin> set (dec_digits n)"
proof (induction n rule: dec_digits.induct)
  case (1 n)
  have z: "word_of_nat (48 + k) \<noteq> (0 :: u8)" if "k < 10" for k
  proof -
    have "unat (word_of_nat (48 + k) :: u8) = 48 + k" using that by (subst unat_of_nat) simp
    then show ?thesis by (metis add_is_0 unat_0 zero_neq_numeral)
  qed
  show ?case using 1 z [of n] z [of "n mod 10"] by (subst dec_digits.simps) auto
qed

lemma gmtime_year_le: "gmtime t = (y, m, d) \<Longrightarrow> y \<le> 1970 + t div 86400"
proof -
  assume g: "gmtime t = (y, m, d)"
  have "y - 1970 = (\<Sum>i\<in>{1970..<y}. 1)" by simp
  also have "\<dots> \<le> sum year_days {1970..<y}" by (rule sum_mono) (simp add: year_days_def)
  finally show ?thesis using gmtime_spec(2) [OF g] by (simp add: days_before_def)
qed

lemma pad_digits_nonzero: "0 \<notin> set (pad_digits w n)"
  by (simp add: pad_digits_def dec_digits_nonzero)

lemma length_pad_digits: "n < 10 ^ k \<Longrightarrow> w \<le> k \<Longrightarrow> 0 < k \<Longrightarrow> length (pad_digits w n) \<le> k"
  using length_dec_digits [of n k] by (simp add: pad_digits_def)

lemma time32_bounded:
  "start < 2 ^ 32 \<Longrightarrow> c < 65536 \<Longrightarrow> ssl_time32_to_time_t start dt c = Some t \<Longrightarrow> t < 10 ^ 13"
  by (auto simp: ssl_time32_to_time_t_def Let_def split: if_split_asm)

lemma date_string:
  assumes "0 \<le> start" "start < 2 ^ 32" "c < 65536" "ssl_time32_to_string start dt c = Some str"
  shows "\<exists>date. str = date @ [0] \<and> 0 \<notin> set date \<and> length date < 50 \<and> strncpy str 64 = Some (padded 64 date)"
proof -
  obtain t y m d where t: "ssl_time32_to_time_t start dt c = Some t" "gmtime (nat t) = (y, m, d)" "str = date_bytes y m d @ [0]"
    "0 \<le> t" using time_string_fields [OF assms(1,4)] by blast
  have "t < 10 ^ 13" by (rule time32_bounded [OF assms(2,3) t(1)])
  then have "y < 10 ^ 9" using gmtime_year_le [OF t(2)] t(4) by simp
  moreover have "m < 10 ^ 2" "d < 10 ^ 2"
    using gmtime_spec(1) [OF t(2)] by (auto simp: valid_date_def month_days_def split: if_split_asm)
  ultimately have "length (date_bytes y m d) < 50" "0 \<notin> set (date_bytes y m d)"
    using length_pad_digits [of y 9 4] length_pad_digits [of m 2 2] length_pad_digits [of d 2 2]
    by (auto simp: date_bytes_def pad_digits_nonzero)
  then show ?thesis using t(3) strncpy_padded [of "date_bytes y m d" 64 "[]"] by auto
qed

lemma byte_at_drop: "byte_at p (k + i) = byte_at (drop k p) i"
  by (auto simp: byte_at_def)

lemma validity_up:
  assumes "drop k p = from @ [dt] @ cnt @ rest" "length from = 4" "length cnt = 2" "unat dt \<in> {0x81..0x86}"
    "ssl_time32_to_string (int (be_val from)) 0 0 = Some (d1 @ [0])"
    "ssl_time32_to_string (int (be_val from)) (unat dt mod 16) (be_val cnt) = Some (d2 @ [0])"
  shows "cert_validity p k mem o1 =
    Option.bind (store mem (o1 + 76) (padded 64 d1)) (\<lambda>m. store m (o1 + 140) (padded 64 d2))"
proof -
  obtain b3 b2 b1 b0 c1 c0 where bs: "from = [b3, b2, b1, b0]" "cnt = [c1, c0]"
    using assms(2,3) by (auto simp: length_Suc_conv numeral_eq_Suc)
  have b: "byte_at p k = Some (unat b3)" using assms(1) byte_at_drop [of p k 0] by (simp add: bs byte_at_def)
  have bs7: "byte_at p (k + 1) = Some (unat b2)" "byte_at p (k + 2) = Some (unat b1)"
    "byte_at p (k + 3) = Some (unat b0)" "byte_at p (k + 4) = Some (unat dt)" "byte_at p (k + 5) = Some (unat c1)"
    "byte_at p (k + 6) = Some (unat c0)"
    using assms(1) unfolding bs byte_at_drop by (simp_all add: byte_at_def)
  have v: "unat b3 * 256 * 256 * 256 + unat b2 * 256 * 256 + unat b1 * 256 + unat b0 = be_val from" "unat c1 * 256 + unat c0 = be_val cnt"
    by (simp_all add: bs be_val_def)
  have lt: "be_val from < 2 ^ 32" "be_val cnt < 65536"
    using be_val_bound [of "from"] be_val_bound [of cnt] assms(2,3) by simp_all
  obtain x1 where x1: "d1 = x1" "length x1 < 50" "strncpy (d1 @ [0]) 64 = Some (padded 64 x1)"
    using date_string [OF _ _ _ assms(5)] lt(1) by auto
  obtain x2 where x2: "d2 = x2" "length x2 < 50" "strncpy (d2 @ [0]) 64 = Some (padded 64 x2)"
    using date_string [OF _ _ lt(2) assms(6)] lt(1) by auto
  have "\<not> (unat dt < 0x81 \<or> 0x86 < unat dt)" using assms(4) by simp
  then show ?thesis unfolding cert_validity_def b bs7 v bind.bind_lunit if_not_P assms(5,6)
    using x1 x2 by (simp add: guardb_def)
qed

lemma root_decode:
  assumes "p = root_cert xs name ys from dt cnt rest" "length xs = 2" "length name \<le> 63" "0 \<notin> set name" "length ys = 5"
    "length from = 4" "length cnt = 2" "unat dt \<in> {0x81..0x86}"
    "ssl_time32_to_string (int (be_val from)) 0 0 = Some (d1 @ [0])"
    "ssl_time32_to_string (int (be_val from)) (unat dt mod 16) (be_val cnt) = Some (d2 @ [0])"
  shows "cert_decode p mem o1 = do {
    m1 \<leftarrow> store mem (o1 + 12) name;
    m2 \<leftarrow> store m1 (o1 + 76) (padded 64 d1);
    m3 \<leftarrow> store m2 (o1 + 140) (padded 64 d2);
    Some (m3, Inr True) }"
proof -
  obtain x0 x1 where xs: "xs = [x0, x1]" using assms(2) by (auto simp: length_Suc_conv numeral_eq_Suc)
  have p: "p = [0x80, 3, 0, 0x81, 1, x0, x1, word_of_nat (length name)] @ name @ ys @ from @ [dt] @ cnt @ rest"
    by (simp add: assms(1) xs root_cert_def)
  have k: "cert_kind_of p = Some ROOT" by (simp add: cert_kind_of_def p)
  have "byte_at p 7 = Some (length name)"
    using assms(3) by (simp add: byte_at_def p unat_of_nat)
  moreover have d8: "drop (7 + 1) p = name @ ys @ from @ [dt] @ cnt @ rest" by (simp add: p)
  ultimately have n: "cert_name p 7 mem o1 = map_option (Pair (length name)) (store mem (o1 + 12) name)"
    using assms(3,4) strncpy_take [of name] by (cases "store mem (o1 + 12) name") (simp_all add: cert_name_def)
  have "drop (13 + length name) p = drop (5 + length name) (drop (7 + 1) p)" by (simp add: add.commute)
  then have "drop (13 + length name) p = from @ [dt] @ cnt @ rest" unfolding d8 using assms(5) by simp
  note v = validity_up [OF this assms(6-10)]
  show ?thesis by (cases "store mem (o1 + 12) name") (simp_all add: cert_decode_def k n v)
qed

lemma zeros_split:
  assumes "204 \<le> n" "l \<le> 64"
  shows "replicate n (0 :: u8) = replicate 4 0 @ replicate 8 0 @ replicate l 0 @ replicate (64 - l) 0 @ replicate 64 0 @
    replicate 64 0 @ replicate (n - 204) 0"
  using assms by (simp add: replicate_add [symmetric])

lemma length_padded: "length bs \<le> n \<Longrightarrow> length (padded n bs) = n"
  by (simp add: padded_def)

text \<open>The stores into one element of the array, in the order they are made.\<close>

lemma info_stores:
  assumes "204 \<le> n" "o1 + n \<le> length mem" "length hid = 8" "length name \<le> 64" "length d1 \<le> 64" "length d2 \<le> 64"
  shows "do {
      m1 \<leftarrow> store mem o1 (replicate n 0);
      m2 \<leftarrow> store m1 (o1 + 4) hid;
      m3 \<leftarrow> store m2 o1 (mem_image little 4 1);
      m4 \<leftarrow> store m3 (o1 + 12) name;
      m5 \<leftarrow> store m4 (o1 + 76) (padded 64 d1);
      store m5 (o1 + 140) (padded 64 d2) } =
    Some (take o1 mem @ info_bytes little hid name d1 d2 @ replicate (n - 204) 0 @ drop (o1 + n) mem)"
proof -
  let ?A = "take o1 mem" and ?C = "drop (o1 + n) mem" and ?l = "length name" and ?i = "mem_image little 4 1"
  let ?z = "\<lambda>k. replicate k (0 :: u8)"
  let ?R = "?z (64 - ?l) @ ?z 64 @ ?z 64 @ ?z (n - 204) @ ?C"
  have A: "length ?A = o1" and i: "length ?i = 4" using assms(2) by (simp_all add: mem_image_def)
  have "store mem o1 (?z n) = Some (?A @ ?z n @ ?C)" using assms(2) by (simp add: store_def write_at_def)
  then have "store mem o1 (?z n) = Some (?A @ ?z 4 @ ?z 8 @ ?z ?l @ ?R)"
    unfolding zeros_split [OF assms(1,4)] by (simp only: append_assoc)
  moreover have "store (?A @ ?z 4 @ ?z 8 @ ?z ?l @ ?R) (o1 + 4) hid = Some (?A @ ?z 4 @ hid @ ?z ?l @ ?R)"
    using store_mid [of "o1 + 4" "?A @ ?z 4" "?z 8" hid] A assms(3) by simp
  moreover have "store (?A @ ?z 4 @ hid @ ?z ?l @ ?R) o1 ?i = Some (?A @ ?i @ hid @ ?z ?l @ ?R)"
    using store_mid [of o1 ?A "?z 4" ?i] A i by simp
  moreover have "store (?A @ ?i @ hid @ ?z ?l @ ?R) (o1 + 12) name = Some (?A @ ?i @ hid @ name @ ?R)"
    using store_mid [of "o1 + 12" "?A @ ?i @ hid" "?z ?l" name] A i assms(3) by simp
  moreover have "store (?A @ ?i @ hid @ name @ ?R) (o1 + 76) (padded 64 d1) =
      Some (?A @ ?i @ hid @ padded 64 name @ padded 64 d1 @ ?z 64 @ ?z (n - 204) @ ?C)"
    using store_mid [of "o1 + 76" "?A @ ?i @ hid @ padded 64 name" "?z 64" "padded 64 d1"] A i assms(3-5)
    by (simp add: length_padded padded_def)
  moreover have "store (?A @ ?i @ hid @ padded 64 name @ padded 64 d1 @ ?z 64 @ ?z (n - 204) @ ?C) (o1 + 140) (padded 64 d2) =
      Some (?A @ ?i @ hid @ padded 64 name @ padded 64 d1 @ padded 64 d2 @ ?z (n - 204) @ ?C)"
    using store_mid [of "o1 + 140" "?A @ ?i @ hid @ padded 64 name @ padded 64 d1" "?z 64" "padded 64 d2"] A i assms(3-6)
    by (simp add: length_padded)
  ultimately show ?thesis by (simp add: info_bytes_def)
qed

lemma held_freed: "x509_holds w a c \<Longrightarrow> \<exists>w1. X509_free (Some a) w = Some w1"
  by (auto simp: X509_free_def x509_holds_def IEEE1609_CERT_from_X509_def)

text \<open>A call whose first certificate is a root certificate.\<close>

lemma root_chain_run:
  assumes "fetch_cert e hid s = Some (Some a, Some p, Some m, Some r, s1)" "x509_holds (os s1) a c" "length hid = 8"
    "204 \<le> sz" "o1 + nat sz \<le> length mem"
    "p = root_cert xs name ys from dt cnt rest" "length xs = 2" "length name \<le> 63" "0 \<notin> set name" "length ys = 5"
    "length from = 4" "length cnt = 2" "unat dt \<in> {0x81..0x86}"
    "ssl_time32_to_string (int (be_val from)) 0 0 = Some (d1 @ [0])"
    "ssl_time32_to_string (int (be_val from)) (unat dt mod 16) (be_val cnt) = Some (d2 @ [0])"
  shows "\<exists>s1. SSL_get_1609_cert_chain e hid mem o1 sz s = Some (True,
    take o1 mem @ info_bytes (host_little e) hid name d1 d2 @ replicate (nat sz - 204) 0 @ drop (o1 + nat sz) mem, s1)"
proof -
  have lt: "int (be_val from) < 2 ^ 32" "be_val cnt < 65536"
    using be_val_bound [of "from"] be_val_bound [of cnt] assms(11,12) by simp_all
  have l: "length d1 \<le> 64" "length d2 \<le> 64"
    using date_string [OF _ lt(1) _ assms(14)] date_string [OF _ lt assms(15)] by auto
  have n: "204 \<le> nat sz" "length name \<le> 64" using assms(4,8) by simp_all
  let ?m = "take o1 mem @ info_bytes (host_little e) hid name d1 d2 @ replicate (nat sz - 204) 0 @ drop (o1 + nat sz) mem"
  obtain m1 m2 m3 where st: "store mem o1 (replicate (nat sz) 0) = Some m1" "store m1 (o1 + 4) hid = Some m2"
    "store m2 o1 (mem_image (host_little e) 4 1) = Some m3" "cert_decode p m3 o1 = Some (?m, Inr True)"
    using info_stores [OF n(1) assms(5,3) n(2) l, of "host_little e"]
    unfolding root_decode [OF assms(6-15)] by (auto simp: bind_eq_Some_conv)
  obtain w3 where "X509_free (Some a) (os s1) = Some w3" using held_freed [OF assms(2)] by blast
  then show ?thesis
    using assms(1,3,4) st by (subst SSL_get_1609_cert_chain.simps) (simp add: read_at_def)
qed


lemma root0_shape: "root0 = root_cert [0, 0] [0x43, 0x41] [0, 0, 0, 0, 0] [0x1e, 0, 0, 0] 0x86 [0, 2] []"
  by (simp add: root0_def root_cert_def)

lemma gmtime_samples: "gmtime 1576231713 = (2019, 12, 13)" "gmtime 1639345616 = (2021, 12, 12)"
  by (simp_all add: gmtime_def gm_year.simps gm_month.simps year_days_def month_days_def leap_year_def)

lemma dec_digits_samples: "dec_digits 2019 = [0x32, 0x30, 0x31, 0x39]" "dec_digits 2021 = [0x32, 0x30, 0x32, 0x31]"
  "dec_digits 12 = [0x31, 0x32]" "dec_digits 13 = [0x31, 0x33]"
  by (simp_all add: dec_digits.simps)

text \<open>2019-12-13 and 2021-12-12.\<close>

lemma root0_dates:
  "ssl_time32_to_string (int (be_val [0x1e, 0, 0, 0])) 0 0 =
    Some ([0x32, 0x30, 0x31, 0x39, 0x2d, 0x31, 0x32, 0x2d, 0x31, 0x33] @ [0])"
  "ssl_time32_to_string (int (be_val [0x1e, 0, 0, 0])) (unat (0x86 :: u8) mod 16) (be_val [0, 2]) =
    Some ([0x32, 0x30, 0x32, 0x31, 0x2d, 0x31, 0x32, 0x2d, 0x31, 0x32] @ [0])"
  by (simp_all add: ssl_time32_to_string_def ssl_time32_to_time_t_def be_val_def gmtime_samples dec_digits_samples pad_digits_def)

lemma sample_built_in: "decodes env0"
  by (simp add: decodes_def env0_def)



end

