(* ===== verification/Ext_Framework.thy ===== *)
theory Ext_Framework
  imports Cert_Type_Ext Statem_Common
begin

text \<open>
  The extension framework (\<^verbatim>\<open>ssl/statem/extensions.c\<close>) and the custom extensions of the application
  (\<^verbatim>\<open>ssl/statem/extensions_cust.c\<close>): which extension may stand in which message, how the extensions of a
  message are collected, parsed and finalised, and how those of a message are constructed. The table
  has all built-in extensions; the functions of the two certificate type extensions are the
  modelled ones, those of the others are parameters.
\<close>

section \<open>Message contexts and types\<close>

abbreviation (input) SSL_EXT_TLS_ONLY :: u32 where "SSL_EXT_TLS_ONLY \<equiv> 0x0001"
abbreviation (input) SSL_EXT_DTLS_ONLY :: u32 where "SSL_EXT_DTLS_ONLY \<equiv> 0x0002"
abbreviation (input) SSL_EXT_TLS_IMPLEMENTATION_ONLY :: u32 where "SSL_EXT_TLS_IMPLEMENTATION_ONLY \<equiv> 0x0004"
abbreviation (input) SSL_EXT_SSL3_ALLOWED :: u32 where "SSL_EXT_SSL3_ALLOWED \<equiv> 0x0008"
abbreviation (input) SSL_EXT_TLS1_2_AND_BELOW_ONLY :: u32 where "SSL_EXT_TLS1_2_AND_BELOW_ONLY \<equiv> 0x0010"
abbreviation (input) SSL_EXT_TLS1_3_ONLY :: u32 where "SSL_EXT_TLS1_3_ONLY \<equiv> 0x0020"
abbreviation (input) SSL_EXT_IGNORE_ON_RESUMPTION :: u32 where "SSL_EXT_IGNORE_ON_RESUMPTION \<equiv> 0x0040"
abbreviation (input) SSL_EXT_CLIENT_HELLO :: u32 where "SSL_EXT_CLIENT_HELLO \<equiv> 0x0080"
abbreviation (input) SSL_EXT_TLS1_2_SERVER_HELLO :: u32 where "SSL_EXT_TLS1_2_SERVER_HELLO \<equiv> 0x0100"
abbreviation (input) SSL_EXT_TLS1_3_SERVER_HELLO :: u32 where "SSL_EXT_TLS1_3_SERVER_HELLO \<equiv> 0x0200"
abbreviation (input) SSL_EXT_TLS1_3_ENCRYPTED_EXTENSIONS :: u32 where "SSL_EXT_TLS1_3_ENCRYPTED_EXTENSIONS \<equiv> 0x0400"
abbreviation (input) SSL_EXT_TLS1_3_HELLO_RETRY_REQUEST :: u32 where "SSL_EXT_TLS1_3_HELLO_RETRY_REQUEST \<equiv> 0x0800"
abbreviation (input) SSL_EXT_TLS1_3_CERTIFICATE :: u32 where "SSL_EXT_TLS1_3_CERTIFICATE \<equiv> 0x1000"
abbreviation (input) SSL_EXT_TLS1_3_NEW_SESSION_TICKET :: u32 where "SSL_EXT_TLS1_3_NEW_SESSION_TICKET \<equiv> 0x2000"
abbreviation (input) SSL_EXT_TLS1_3_CERTIFICATE_REQUEST :: u32 where "SSL_EXT_TLS1_3_CERTIFICATE_REQUEST \<equiv> 0x4000"

abbreviation (input) SSL_EXT_FLAG_RECEIVED :: "'a::len word" where "SSL_EXT_FLAG_RECEIVED \<equiv> 1"
abbreviation (input) SSL_EXT_FLAG_SENT :: "'a::len word" where "SSL_EXT_FLAG_SENT \<equiv> 2"

abbreviation (input) TLSEXT_TYPE_server_name :: nat where "TLSEXT_TYPE_server_name \<equiv> 0"
abbreviation (input) TLSEXT_TYPE_max_fragment_length :: nat where "TLSEXT_TYPE_max_fragment_length \<equiv> 1"
abbreviation (input) TLSEXT_TYPE_status_request :: nat where "TLSEXT_TYPE_status_request \<equiv> 5"
abbreviation (input) TLSEXT_TYPE_supported_groups :: nat where "TLSEXT_TYPE_supported_groups \<equiv> 10"
abbreviation (input) TLSEXT_TYPE_ec_point_formats :: nat where "TLSEXT_TYPE_ec_point_formats \<equiv> 11"
abbreviation (input) TLSEXT_TYPE_signature_algorithms :: nat where "TLSEXT_TYPE_signature_algorithms \<equiv> 13"
abbreviation (input) TLSEXT_TYPE_use_srtp :: nat where "TLSEXT_TYPE_use_srtp \<equiv> 14"
abbreviation (input) TLSEXT_TYPE_alpn :: nat where "TLSEXT_TYPE_alpn \<equiv> 16"
abbreviation (input) TLSEXT_TYPE_signed_certificate_timestamp :: nat where "TLSEXT_TYPE_signed_certificate_timestamp \<equiv> 18"
abbreviation (input) TLSEXT_TYPE_padding :: nat where "TLSEXT_TYPE_padding \<equiv> 21"
abbreviation (input) TLSEXT_TYPE_encrypt_then_mac :: nat where "TLSEXT_TYPE_encrypt_then_mac \<equiv> 22"
abbreviation (input) TLSEXT_TYPE_extended_master_secret :: nat where "TLSEXT_TYPE_extended_master_secret \<equiv> 23"
abbreviation (input) TLSEXT_TYPE_session_ticket :: nat where "TLSEXT_TYPE_session_ticket \<equiv> 35"
abbreviation (input) TLSEXT_TYPE_psk :: nat where "TLSEXT_TYPE_psk \<equiv> 41"
abbreviation (input) TLSEXT_TYPE_early_data :: nat where "TLSEXT_TYPE_early_data \<equiv> 42"
abbreviation (input) TLSEXT_TYPE_supported_versions :: nat where "TLSEXT_TYPE_supported_versions \<equiv> 43"
abbreviation (input) TLSEXT_TYPE_cookie :: nat where "TLSEXT_TYPE_cookie \<equiv> 44"
abbreviation (input) TLSEXT_TYPE_psk_kex_modes :: nat where "TLSEXT_TYPE_psk_kex_modes \<equiv> 45"
abbreviation (input) TLSEXT_TYPE_certificate_authorities :: nat where "TLSEXT_TYPE_certificate_authorities \<equiv> 47"
abbreviation (input) TLSEXT_TYPE_post_handshake_auth :: nat where "TLSEXT_TYPE_post_handshake_auth \<equiv> 49"
abbreviation (input) TLSEXT_TYPE_signature_algorithms_cert :: nat where "TLSEXT_TYPE_signature_algorithms_cert \<equiv> 50"
abbreviation (input) TLSEXT_TYPE_key_share :: nat where "TLSEXT_TYPE_key_share \<equiv> 51"
abbreviation (input) TLSEXT_TYPE_next_proto_neg :: nat where "TLSEXT_TYPE_next_proto_neg \<equiv> 13172"
abbreviation (input) TLSEXT_TYPE_renegotiate :: nat where "TLSEXT_TYPE_renegotiate \<equiv> 0xff01"
abbreviation (input) TLSEXT_TYPE_cryptopro_bug :: nat where "TLSEXT_TYPE_cryptopro_bug \<equiv> 0xfde8"
abbreviation (input) TLSEXT_TYPE_invalid :: nat where "TLSEXT_TYPE_invalid \<equiv> 0x10000"
abbreviation (input) TLSEXT_TYPE_out_of_range :: nat where "TLSEXT_TYPE_out_of_range \<equiv> 0x10001"

abbreviation (input) SSL_R_CALLBACK_FAILED :: err_reason where "SSL_R_CALLBACK_FAILED \<equiv> ERR_CODE 234"
abbreviation (input) SSL_R_UNSOLICITED_EXTENSION :: err_reason where "SSL_R_UNSOLICITED_EXTENSION \<equiv> ERR_CODE 217"

section \<open>Definitions of extensions\<close>

type_synonym ext_parser = "PACKET \<Rightarrow> u32 \<Rightarrow> x509_ptr option \<Rightarrow> nat \<Rightarrow> SSL \<Rightarrow> (bool \<times> SSL) option"
type_synonym ext_writer = "WPACKET \<Rightarrow> u32 \<Rightarrow> x509_ptr option \<Rightarrow> nat \<Rightarrow> SSL \<Rightarrow> (EXT_RETURN \<times> WPACKET \<times> SSL) option"

text \<open>
  The functions of the other built-in extensions, by their place in the table; the highest and
  lowest version; the callbacks of custom extensions, by their number. An alert the callbacks set is
  part of their result.
\<close>

record ext_lib =
  xl_init :: "nat \<Rightarrow> u32 \<Rightarrow> SSL \<Rightarrow> bool \<times> SSL"
  xl_parse_ctos :: "nat \<Rightarrow> ext_parser"
  xl_parse_stoc :: "nat \<Rightarrow> ext_parser"
  xl_construct_stoc :: "nat \<Rightarrow> ext_writer"
  xl_construct_ctos :: "nat \<Rightarrow> ext_writer"
  xl_final :: "nat \<Rightarrow> u32 \<Rightarrow> bool \<Rightarrow> SSL \<Rightarrow> bool \<times> SSL"
  xl_min_max :: "SSL \<Rightarrow> int \<times> int \<times> nat"  \<comment> \<open>\<open>ssl_get_min_max_version\<close>: its result, the lowest and the highest version\<close>
  xl_add_cb :: "nat \<Rightarrow> nat \<Rightarrow> u32 \<Rightarrow> x509_ptr option \<Rightarrow> nat \<Rightarrow> SSL \<Rightarrow> int \<times> bytes \<times> ALERT \<times> SSL"
  xl_free_cb :: "nat \<Rightarrow> nat \<Rightarrow> u32 \<Rightarrow> bytes \<Rightarrow> SSL \<Rightarrow> SSL"
  xl_parse_cb :: "nat \<Rightarrow> nat \<Rightarrow> u32 \<Rightarrow> bytes \<Rightarrow> x509_ptr option \<Rightarrow> nat \<Rightarrow> SSL \<Rightarrow> int \<times> ALERT \<times> SSL"

record EXTENSION_DEFINITION =
  xd_type :: nat
  xd_context :: u32
  xd_init :: "(u32 \<Rightarrow> SSL \<Rightarrow> bool \<times> SSL) option"
  xd_parse_ctos :: "ext_parser option"
  xd_parse_stoc :: "ext_parser option"
  xd_construct_stoc :: "ext_writer option"
  xd_construct_ctos :: "ext_writer option"
  xd_final :: "(u32 \<Rightarrow> bool \<Rightarrow> SSL \<Rightarrow> bool \<times> SSL) option"

definition INVALID_EXTENSION :: EXTENSION_DEFINITION where
  "INVALID_EXTENSION = \<lparr>xd_type = TLSEXT_TYPE_invalid, xd_context = 0, xd_init = None, xd_parse_ctos = None,
     xd_parse_stoc = None, xd_construct_stoc = None, xd_construct_ctos = None, xd_final = None\<rparr>"

text \<open>A line of the table: which of its functions are set, the place they have, type and context.\<close>

definition ext_def :: "ext_lib \<Rightarrow> nat \<Rightarrow> nat \<Rightarrow> u32 \<Rightarrow> bool \<Rightarrow> bool \<Rightarrow> bool \<Rightarrow> bool \<Rightarrow> bool \<Rightarrow> bool \<Rightarrow> EXTENSION_DEFINITION" where
  "ext_def xl i t c ini pc ps cs cc fin = \<lparr>xd_type = t, xd_context = c,
     xd_init = (if ini then Some (xl_init xl i) else None),
     xd_parse_ctos = (if pc then Some (xl_parse_ctos xl i) else None),
     xd_parse_stoc = (if ps then Some (xl_parse_stoc xl i) else None),
     xd_construct_stoc = (if cs then Some (xl_construct_stoc xl i) else None),
     xd_construct_ctos = (if cc then Some (xl_construct_ctos xl i) else None),
     xd_final = (if fin then Some (xl_final xl i) else None)\<rparr>"

definition ext_defs :: "env \<Rightarrow> ext_lib \<Rightarrow> EXTENSION_DEFINITION list" where
  "ext_defs e xl = [
     \<lparr>xd_type = TLSEXT_TYPE_server_certificate_type, xd_context = SSL_EXT_TLS1_3_SERVER_HELLO OR SSL_EXT_CLIENT_HELLO OR SSL_EXT_TLS1_3_ONLY,
       xd_init = None, xd_parse_ctos = Some (\<lambda>pkt _ _ _. tls_parse_ctos_srv_type_ext pkt),
       xd_parse_stoc = Some (\<lambda>pkt _ _ _. tls_parse_stoc_srv_type_ext pkt),
       xd_construct_stoc = Some (\<lambda>pkt _ _ _. tls_construct_stoc_srv_type_ext e pkt),
       xd_construct_ctos = Some (\<lambda>pkt _ _ _. tls_construct_ctos_srv_type_ext e pkt), xd_final = None\<rparr>,
     \<lparr>xd_type = TLSEXT_TYPE_client_certificate_type, xd_context = SSL_EXT_TLS1_3_SERVER_HELLO OR SSL_EXT_CLIENT_HELLO OR SSL_EXT_TLS1_3_ONLY,
       xd_init = None, xd_parse_ctos = Some (\<lambda>pkt _ _ _. tls_parse_ctos_clnt_type_ext pkt),
       xd_parse_stoc = Some (\<lambda>pkt _ _ _. tls_parse_stoc_clnt_type_ext pkt),
       xd_construct_stoc = Some (\<lambda>pkt _ _ _. tls_construct_stoc_clnt_type_ext e pkt),
       xd_construct_ctos = Some (\<lambda>pkt _ _ _. tls_construct_ctos_clnt_type_ext e pkt), xd_final = None\<rparr>,
     ext_def xl 2 TLSEXT_TYPE_renegotiate (SSL_EXT_CLIENT_HELLO OR SSL_EXT_TLS1_2_SERVER_HELLO OR SSL_EXT_SSL3_ALLOWED OR SSL_EXT_TLS1_2_AND_BELOW_ONLY)
       False True True True True True,
     ext_def xl 3 TLSEXT_TYPE_server_name (SSL_EXT_CLIENT_HELLO OR SSL_EXT_TLS1_2_SERVER_HELLO OR SSL_EXT_TLS1_3_ENCRYPTED_EXTENSIONS)
       True True True True True True,
     ext_def xl 4 TLSEXT_TYPE_max_fragment_length (SSL_EXT_CLIENT_HELLO OR SSL_EXT_TLS1_2_SERVER_HELLO OR SSL_EXT_TLS1_3_ENCRYPTED_EXTENSIONS)
       False True True True True True,
     INVALID_EXTENSION,
     ext_def xl 6 TLSEXT_TYPE_ec_point_formats (SSL_EXT_CLIENT_HELLO OR SSL_EXT_TLS1_2_SERVER_HELLO OR SSL_EXT_TLS1_2_AND_BELOW_ONLY)
       True True True True True True,
     ext_def xl 7 TLSEXT_TYPE_supported_groups (SSL_EXT_CLIENT_HELLO OR SSL_EXT_TLS1_3_ENCRYPTED_EXTENSIONS OR SSL_EXT_TLS1_2_SERVER_HELLO)
       False True False True True False,
     ext_def xl 8 TLSEXT_TYPE_session_ticket (SSL_EXT_CLIENT_HELLO OR SSL_EXT_TLS1_2_SERVER_HELLO OR SSL_EXT_TLS1_2_AND_BELOW_ONLY)
       True True True True True False,
     ext_def xl 9 TLSEXT_TYPE_status_request (SSL_EXT_CLIENT_HELLO OR SSL_EXT_TLS1_2_SERVER_HELLO OR SSL_EXT_TLS1_3_CERTIFICATE OR SSL_EXT_TLS1_3_CERTIFICATE_REQUEST)
       True True True True True False,
     ext_def xl 10 TLSEXT_TYPE_next_proto_neg (SSL_EXT_CLIENT_HELLO OR SSL_EXT_TLS1_2_SERVER_HELLO OR SSL_EXT_TLS1_2_AND_BELOW_ONLY)
       True True True True True False,
     ext_def xl 11 TLSEXT_TYPE_alpn (SSL_EXT_CLIENT_HELLO OR SSL_EXT_TLS1_2_SERVER_HELLO OR SSL_EXT_TLS1_3_ENCRYPTED_EXTENSIONS)
       True True True True True True,
     ext_def xl 12 TLSEXT_TYPE_use_srtp (SSL_EXT_CLIENT_HELLO OR SSL_EXT_TLS1_2_SERVER_HELLO OR SSL_EXT_TLS1_3_ENCRYPTED_EXTENSIONS OR SSL_EXT_DTLS_ONLY)
       True True True True True False,
     ext_def xl 13 TLSEXT_TYPE_encrypt_then_mac (SSL_EXT_CLIENT_HELLO OR SSL_EXT_TLS1_2_SERVER_HELLO OR SSL_EXT_TLS1_2_AND_BELOW_ONLY)
       True True True True True False,
     ext_def xl 14 TLSEXT_TYPE_signed_certificate_timestamp (SSL_EXT_CLIENT_HELLO OR SSL_EXT_TLS1_2_SERVER_HELLO OR SSL_EXT_TLS1_3_CERTIFICATE OR SSL_EXT_TLS1_3_CERTIFICATE_REQUEST)
       False False True False True False,
     ext_def xl 15 TLSEXT_TYPE_extended_master_secret (SSL_EXT_CLIENT_HELLO OR SSL_EXT_TLS1_2_SERVER_HELLO OR SSL_EXT_TLS1_2_AND_BELOW_ONLY)
       True True True True True True,
     ext_def xl 16 TLSEXT_TYPE_signature_algorithms_cert (SSL_EXT_CLIENT_HELLO OR SSL_EXT_TLS1_3_CERTIFICATE_REQUEST)
       True True True False False False,
     ext_def xl 17 TLSEXT_TYPE_post_handshake_auth (SSL_EXT_CLIENT_HELLO OR SSL_EXT_TLS1_3_ONLY)
       True True False False True False,
     ext_def xl 18 TLSEXT_TYPE_signature_algorithms (SSL_EXT_CLIENT_HELLO OR SSL_EXT_TLS1_3_CERTIFICATE_REQUEST)
       True True True True True True,
     ext_def xl 19 TLSEXT_TYPE_supported_versions (SSL_EXT_CLIENT_HELLO OR SSL_EXT_TLS1_3_SERVER_HELLO OR SSL_EXT_TLS1_3_HELLO_RETRY_REQUEST OR SSL_EXT_TLS_IMPLEMENTATION_ONLY)
       False False True True True False,
     ext_def xl 20 TLSEXT_TYPE_psk_kex_modes (SSL_EXT_CLIENT_HELLO OR SSL_EXT_TLS_IMPLEMENTATION_ONLY OR SSL_EXT_TLS1_3_ONLY)
       True True False False True False,
     ext_def xl 21 TLSEXT_TYPE_key_share (SSL_EXT_CLIENT_HELLO OR SSL_EXT_TLS1_3_SERVER_HELLO OR SSL_EXT_TLS1_3_HELLO_RETRY_REQUEST OR SSL_EXT_TLS_IMPLEMENTATION_ONLY OR SSL_EXT_TLS1_3_ONLY)
       False True True True True True,
     ext_def xl 22 TLSEXT_TYPE_cookie (SSL_EXT_CLIENT_HELLO OR SSL_EXT_TLS1_3_HELLO_RETRY_REQUEST OR SSL_EXT_TLS_IMPLEMENTATION_ONLY OR SSL_EXT_TLS1_3_ONLY)
       False True True True True False,
     ext_def xl 23 TLSEXT_TYPE_cryptopro_bug (SSL_EXT_CLIENT_HELLO OR SSL_EXT_TLS1_2_SERVER_HELLO OR SSL_EXT_TLS1_2_AND_BELOW_ONLY)
       False False False True False False,
     ext_def xl 24 TLSEXT_TYPE_early_data (SSL_EXT_CLIENT_HELLO OR SSL_EXT_TLS1_3_ENCRYPTED_EXTENSIONS OR SSL_EXT_TLS1_3_NEW_SESSION_TICKET OR SSL_EXT_TLS1_3_ONLY)
       False True True True True True,
     ext_def xl 25 TLSEXT_TYPE_certificate_authorities (SSL_EXT_CLIENT_HELLO OR SSL_EXT_TLS1_3_CERTIFICATE_REQUEST OR SSL_EXT_TLS1_3_ONLY)
       True True True True True False,
     ext_def xl 26 TLSEXT_TYPE_padding (SSL_EXT_CLIENT_HELLO)
       False False False False True False,
     ext_def xl 27 TLSEXT_TYPE_psk (SSL_EXT_CLIENT_HELLO OR SSL_EXT_TLS1_3_SERVER_HELLO OR SSL_EXT_TLS_IMPLEMENTATION_ONLY OR SSL_EXT_TLS1_3_ONLY)
       False True True True True True]"

definition ossl_get_extension_type :: "env \<Rightarrow> ext_lib \<Rightarrow> nat \<Rightarrow> nat" where
  "ossl_get_extension_type e xl idx =
     (if length (ext_defs e xl) \<le> idx then TLSEXT_TYPE_out_of_range else xd_type (ext_defs e xl ! idx))"

section \<open>Where an extension may stand\<close>

definition validate_context :: "SSL \<Rightarrow> u32 \<Rightarrow> u32 \<Rightarrow> bool" where
  "validate_context s extctx thisctx \<longleftrightarrow> has thisctx extctx \<and>
     (if SSL_IS_DTLS s then \<not> has extctx SSL_EXT_TLS_ONLY else \<not> has extctx SSL_EXT_DTLS_ONLY)"

definition extension_is_relevant :: "SSL \<Rightarrow> u32 \<Rightarrow> u32 \<Rightarrow> bool" where
  "extension_is_relevant s extctx thisctx =
     (let is_tls13 = (has thisctx SSL_EXT_TLS1_3_HELLO_RETRY_REQUEST \<or> SSL_IS_TLS13 s)
      in \<not> ((SSL_IS_DTLS s \<and> has extctx SSL_EXT_TLS_IMPLEMENTATION_ONLY)
          \<or> (version s = SSL3_VERSION \<and> \<not> has extctx SSL_EXT_SSL3_ALLOWED)
          \<or> (is_tls13 \<and> has extctx SSL_EXT_TLS1_2_AND_BELOW_ONLY)
          \<or> (\<not> is_tls13 \<and> has extctx SSL_EXT_TLS1_3_ONLY \<and> \<not> has thisctx SSL_EXT_CLIENT_HELLO)
          \<or> (server s \<and> \<not> is_tls13 \<and> has extctx SSL_EXT_TLS1_3_ONLY)
          \<or> (hit s \<and> has extctx SSL_EXT_IGNORE_ON_RESUMPTION)))"

definition should_add_extension :: "SSL \<Rightarrow> u32 \<Rightarrow> u32 \<Rightarrow> nat \<Rightarrow> bool" where
  "should_add_extension s extctx thisctx max_version \<longleftrightarrow> has extctx thisctx \<and> extension_is_relevant s extctx thisctx \<and>
     \<not> (has extctx SSL_EXT_TLS1_3_ONLY \<and> has thisctx SSL_EXT_CLIENT_HELLO \<and> (SSL_IS_DTLS s \<or> max_version < TLS1_3_VERSION))"

section \<open>Custom extensions\<close>

fun custom_ext_find_from :: "nat \<Rightarrow> custom_ext_method list \<Rightarrow> ENDPOINT \<Rightarrow> nat \<Rightarrow> (custom_ext_method \<times> nat) option" where
  "custom_ext_find_from i [] r ext_type = None"
| "custom_ext_find_from i (meth # ms) r ext_type =
     (if ext_type = cx_type meth \<and> (r = ENDPOINT_BOTH \<or> r = cx_role meth \<or> cx_role meth = ENDPOINT_BOTH)
      then Some (meth, i) else custom_ext_find_from (Suc i) ms r ext_type)"

definition custom_ext_find :: "custom_ext_method list \<Rightarrow> ENDPOINT \<Rightarrow> nat \<Rightarrow> (custom_ext_method \<times> nat) option" where
  "custom_ext_find exts r ext_type = custom_ext_find_from 0 exts r ext_type"

definition custom_ext_init :: "custom_ext_method list \<Rightarrow> custom_ext_method list" where
  "custom_ext_init exts = map (\<lambda>meth. meth\<lparr>cx_flags := 0\<rparr>) exts"

definition upd_meth :: "nat \<Rightarrow> (custom_ext_method \<Rightarrow> custom_ext_method) \<Rightarrow> SSL \<Rightarrow> SSL" where
  "upd_meth i f s = s\<lparr>custext := (custext s)[i := f (custext s ! i)]\<rparr>"

definition custom_ext_parse :: "ext_lib \<Rightarrow> u32 \<Rightarrow> nat \<Rightarrow> bytes \<Rightarrow> x509_ptr option \<Rightarrow> nat \<Rightarrow> SSL \<Rightarrow> bool \<times> SSL" where
  "custom_ext_parse xl ctx ext_type ext_data x chainidx s =
     (let r = (if has ctx (SSL_EXT_CLIENT_HELLO OR SSL_EXT_TLS1_2_SERVER_HELLO)
               then if server s then ENDPOINT_SERVER else ENDPOINT_CLIENT else ENDPOINT_BOTH)
      in case custom_ext_find (custext s) r ext_type of
        None \<Rightarrow> (True, s)
      | Some (meth, i) \<Rightarrow>
          if \<not> extension_is_relevant s (cx_context meth) ctx then (True, s)
          else if has ctx (SSL_EXT_TLS1_2_SERVER_HELLO OR SSL_EXT_TLS1_3_SERVER_HELLO OR SSL_EXT_TLS1_3_ENCRYPTED_EXTENSIONS)
                  \<and> \<not> has (cx_flags meth) SSL_EXT_FLAG_SENT
          then (False, SSLfatal SSL_AD_UNSUPPORTED_EXTENSION SSL_R_BAD_EXTENSION s)
          else let s1 = (if has ctx (SSL_EXT_CLIENT_HELLO OR SSL_EXT_TLS1_3_CERTIFICATE_REQUEST)
                         then upd_meth i (\<lambda>mt. mt\<lparr>cx_flags := cx_flags mt OR SSL_EXT_FLAG_RECEIVED\<rparr>) s else s)
          in (case cx_parse_cb meth of
              None \<Rightarrow> (True, s1)
            | Some cb \<Rightarrow> (case xl_parse_cb xl cb ext_type ctx ext_data x chainidx s1 of
                (rv, al, s2) \<Rightarrow> if rv \<le> 0 then (False, SSLfatal al SSL_R_BAD_EXTENSION s2) else (True, s2))))"

text \<open>One pass of the loop of \<open>custom_ext_add\<close>: whether to go on.\<close>

definition custom_ext_write :: "env \<Rightarrow> nat \<Rightarrow> bytes \<Rightarrow> WPACKET \<Rightarrow> bool \<times> WPACKET" where
  "custom_ext_write e t out = wseq (WPACKET_put_bytes (malloc_ok e) t 2) (wseq (WPACKET_start_sub_packet_len (malloc_ok e) 2)
     (wseq (if out = [] then Pair True else WPACKET_memcpy (malloc_ok e) out) (WPACKET_close (malloc_ok e))))"

definition custom_ext_emit :: "env \<Rightarrow> ext_lib \<Rightarrow> u32 \<Rightarrow> nat \<Rightarrow> custom_ext_method \<Rightarrow> bytes \<Rightarrow> WPACKET \<Rightarrow> SSL \<Rightarrow> bool \<times> WPACKET \<times> SSL" where
  "custom_ext_emit e xl ctx i meth out pkt s = (case custom_ext_write e (cx_type meth) out pkt of
      (False, pkt1) \<Rightarrow> (False, pkt1, fatal_internal s)
    | (True, pkt1) \<Rightarrow>
        if has ctx SSL_EXT_CLIENT_HELLO \<and> has (cx_flags (custext s ! i)) SSL_EXT_FLAG_SENT then (False, pkt1, fatal_internal s)
        else let s1 = (if has ctx SSL_EXT_CLIENT_HELLO
                       then upd_meth i (\<lambda>mt. mt\<lparr>cx_flags := cx_flags mt OR SSL_EXT_FLAG_SENT\<rparr>) s else s)
        in (True, pkt1, (case cx_free_cb meth of None \<Rightarrow> s1 | Some cb \<Rightarrow> xl_free_cb xl cb (cx_type meth) ctx out s1)))"

definition custom_ext_add_one ::
    "env \<Rightarrow> ext_lib \<Rightarrow> u32 \<Rightarrow> x509_ptr option \<Rightarrow> nat \<Rightarrow> nat \<Rightarrow> nat \<Rightarrow> WPACKET \<Rightarrow> SSL \<Rightarrow> bool \<times> WPACKET \<times> SSL" where
  "custom_ext_add_one e xl ctx x chainidx maxversion i pkt s =
     (let meth = custext s ! i
      in if \<not> should_add_extension s (cx_context meth) ctx maxversion then (True, pkt, s)
         else if has ctx (SSL_EXT_TLS1_2_SERVER_HELLO OR SSL_EXT_TLS1_3_SERVER_HELLO OR SSL_EXT_TLS1_3_ENCRYPTED_EXTENSIONS OR
                   SSL_EXT_TLS1_3_CERTIFICATE OR SSL_EXT_TLS1_3_HELLO_RETRY_REQUEST) \<and> \<not> has (cx_flags meth) SSL_EXT_FLAG_RECEIVED
         then (True, pkt, s)
         else (case cx_add_cb meth of
             None \<Rightarrow> if has ctx SSL_EXT_CLIENT_HELLO then custom_ext_emit e xl ctx i meth [] pkt s else (True, pkt, s)
           | Some cb \<Rightarrow> (case xl_add_cb xl cb (cx_type meth) ctx x chainidx s of
               (rv, out, al, s1) \<Rightarrow>
                 if rv < 0 then (False, pkt, SSLfatal al SSL_R_CALLBACK_FAILED s1)
                 else if rv = 0 then (True, pkt, s1)
                 else custom_ext_emit e xl ctx i meth out pkt s1)))"

fun custom_ext_add_from ::
    "nat \<Rightarrow> nat \<Rightarrow> env \<Rightarrow> ext_lib \<Rightarrow> u32 \<Rightarrow> x509_ptr option \<Rightarrow> nat \<Rightarrow> nat \<Rightarrow> WPACKET \<Rightarrow> SSL \<Rightarrow> bool \<times> WPACKET \<times> SSL" where
  "custom_ext_add_from 0 i e xl ctx x chainidx maxversion pkt s = (True, pkt, s)"
| "custom_ext_add_from (Suc n) i e xl ctx x chainidx maxversion pkt s =
     (case custom_ext_add_one e xl ctx x chainidx maxversion i pkt s of
        (False, pkt1, s1) \<Rightarrow> (False, pkt1, s1)
      | (True, pkt1, s1) \<Rightarrow> custom_ext_add_from n (Suc i) e xl ctx x chainidx maxversion pkt1 s1)"

definition custom_ext_add ::
    "env \<Rightarrow> ext_lib \<Rightarrow> u32 \<Rightarrow> WPACKET \<Rightarrow> x509_ptr option \<Rightarrow> nat \<Rightarrow> nat \<Rightarrow> SSL \<Rightarrow> bool \<times> WPACKET \<times> SSL" where
  "custom_ext_add e xl ctx pkt x chainidx maxversion s =
     custom_ext_add_from (length (custext s)) 0 e xl ctx x chainidx maxversion pkt s"

text \<open>Copying the flags of the extensions that exist in both tables.\<close>

fun custom_exts_copy_flags :: "custom_ext_method list \<Rightarrow> custom_ext_method list \<Rightarrow> custom_ext_method list" where
  "custom_exts_copy_flags dst [] = dst"
| "custom_exts_copy_flags dst (m # ms) = custom_exts_copy_flags
     (case custom_ext_find dst (cx_role m) (cx_type m) of
        None \<Rightarrow> dst
      | Some (d, i) \<Rightarrow> dst[i := d\<lparr>cx_flags := cx_flags m\<rparr>]) ms"

definition SSL_extension_supported :: "nat \<Rightarrow> bool" where
  "SSL_extension_supported ext_type \<longleftrightarrow> ext_type \<in> set [TLSEXT_TYPE_alpn, TLSEXT_TYPE_ec_point_formats,
     TLSEXT_TYPE_supported_groups, TLSEXT_TYPE_key_share, TLSEXT_TYPE_next_proto_neg, TLSEXT_TYPE_padding,
     TLSEXT_TYPE_renegotiate, TLSEXT_TYPE_max_fragment_length, TLSEXT_TYPE_server_name, TLSEXT_TYPE_session_ticket,
     TLSEXT_TYPE_signature_algorithms, TLSEXT_TYPE_status_request, TLSEXT_TYPE_signed_certificate_timestamp,
     TLSEXT_TYPE_use_srtp, TLSEXT_TYPE_encrypt_then_mac, TLSEXT_TYPE_supported_versions,
     TLSEXT_TYPE_extended_master_secret, TLSEXT_TYPE_psk_kex_modes, TLSEXT_TYPE_cookie, TLSEXT_TYPE_early_data,
     TLSEXT_TYPE_certificate_authorities, TLSEXT_TYPE_psk, TLSEXT_TYPE_post_handshake_auth]"

text \<open>
  The table of the context; \<open>ct_enabled\<close> is \<open>SSL_CTX_ct_is_enabled\<close> and \<open>realloc_ok\<close> the result of the allocation.
\<close>

definition add_custom_ext_intern ::
    "bool \<Rightarrow> bool \<Rightarrow> ENDPOINT \<Rightarrow> nat \<Rightarrow> u32 \<Rightarrow> nat option \<Rightarrow> nat option \<Rightarrow> nat option \<Rightarrow> custom_ext_method list
      \<Rightarrow> bool \<times> custom_ext_method list" where
  "add_custom_ext_intern ct_enabled realloc_ok r ext_type ctx add_cb free_cb parse_cb exts =
     (if add_cb = None \<and> free_cb \<noteq> None then (False, exts)
      else if ext_type = TLSEXT_TYPE_signed_certificate_timestamp \<and> has ctx SSL_EXT_CLIENT_HELLO \<and> ct_enabled then (False, exts)
      else if SSL_extension_supported ext_type \<and> ext_type \<noteq> TLSEXT_TYPE_signed_certificate_timestamp then (False, exts)
      else if 0xffff < ext_type then (False, exts)
      else if custom_ext_find exts r ext_type \<noteq> None then (False, exts)
      else if \<not> realloc_ok then (False, exts)
      else (True, exts @ [\<lparr>cx_type = ext_type, cx_role = r, cx_context = ctx, cx_flags = 0, cx_add_cb = add_cb,
              cx_free_cb = free_cb, cx_parse_cb = parse_cb\<rparr>]))"

section \<open>Collecting the extensions of a message\<close>

record RAW_EXTENSION =
  re_data :: PACKET
  re_present :: bool
  re_parsed :: bool
  re_type :: nat
  re_order :: nat

definition raw_none :: RAW_EXTENSION where
  "raw_none = \<lparr>re_data = [], re_present = False, re_parsed = False, re_type = 0, re_order = 0\<rparr>"

fun builtin_index :: "nat \<Rightarrow> EXTENSION_DEFINITION list \<Rightarrow> nat \<Rightarrow> (EXTENSION_DEFINITION \<times> nat) option" where
  "builtin_index i [] t = None"
| "builtin_index i (d # ds) t = (if t = xd_type d then Some (d, i) else builtin_index (Suc i) ds t)"

definition ext_role :: "u32 \<Rightarrow> ENDPOINT" where
  "ext_role ctx = (if has ctx SSL_EXT_CLIENT_HELLO then ENDPOINT_SERVER
     else if has ctx SSL_EXT_TLS1_2_SERVER_HELLO then ENDPOINT_CLIENT else ENDPOINT_BOTH)"

text \<open>
  The contexts of the collected extensions, once the version is known; an extension of the list that
  is missing from the table of custom extensions fails the assertion.
\<close>

fun validate_from :: "nat \<Rightarrow> env \<Rightarrow> ext_lib \<Rightarrow> u32 \<Rightarrow> RAW_EXTENSION list \<Rightarrow> SSL \<Rightarrow> bool" where
  "validate_from i e xl thisctx [] s = True"
| "validate_from i e xl thisctx (thisext # exts) s =
     (if \<not> re_present thisext then validate_from (Suc i) e xl thisctx exts s
      else (case (if i < length (ext_defs e xl) then Some (xd_context (ext_defs e xl ! i))
                  else map_option (\<lambda>(meth, _). cx_context meth) (custom_ext_find (custext s) (ext_role thisctx) (re_type thisext))) of
          None \<Rightarrow> False
        | Some ctx \<Rightarrow> validate_context s ctx thisctx \<and> validate_from (Suc i) e xl thisctx exts s))"

definition tls_validate_all_contexts :: "env \<Rightarrow> ext_lib \<Rightarrow> u32 \<Rightarrow> RAW_EXTENSION list \<Rightarrow> SSL \<Rightarrow> bool" where
  "tls_validate_all_contexts e xl thisctx exts s =
     validate_from 0 e xl thisctx (take (length (ext_defs e xl) + length (custext s)) exts) s"

text \<open>\<open>None\<close>: not allowed here. Otherwise the place in the list of raw extensions, or none when unknown.\<close>

definition verify_extension :: "env \<Rightarrow> ext_lib \<Rightarrow> u32 \<Rightarrow> nat \<Rightarrow> SSL \<Rightarrow> nat option option" where
  "verify_extension e xl ctx type s = (case builtin_index 0 (ext_defs e xl) type of
      Some (d, i) \<Rightarrow> if validate_context s (xd_context d) ctx then Some (Some i) else None
    | None \<Rightarrow> (case custom_ext_find (custext s) (ext_role ctx) type of
        Some (meth, offset) \<Rightarrow>
          if validate_context s (cx_context meth) ctx then Some (Some (offset + length (ext_defs e xl))) else None
      | None \<Rightarrow> Some None))"

definition extflag :: "SSL \<Rightarrow> nat \<Rightarrow> u8" where
  "extflag s i = (if i < length (extflags (ext s)) then extflags (ext s) ! i else 0)"

text \<open>The test for an extension that was not asked for.\<close>

definition unsolicited :: "u32 \<Rightarrow> nat \<Rightarrow> nat \<Rightarrow> SSL \<Rightarrow> bool" where
  "unsolicited ctx type idx s \<longleftrightarrow> idx < TLSEXT_IDX_num_builtins
     \<and> \<not> has ctx (SSL_EXT_CLIENT_HELLO OR SSL_EXT_TLS1_3_CERTIFICATE_REQUEST OR SSL_EXT_TLS1_3_NEW_SESSION_TICKET)
     \<and> type \<noteq> TLSEXT_TYPE_cookie \<and> type \<noteq> TLSEXT_TYPE_renegotiate \<and> type \<noteq> TLSEXT_TYPE_signed_certificate_timestamp
     \<and> \<not> has (extflag s idx) SSL_EXT_FLAG_SENT
     \<and> \<not> (has ctx SSL_EXT_TLS1_2_SERVER_HELLO \<and> type = TLSEXT_TYPE_cryptopro_bug)"

text \<open>
  The loop over the packet. An unknown extension has no place in the list: the subtraction of the null
  pointer is taken to give an index beyond the table. The debug callback is left out.
\<close>

function collect_loop ::
    "env \<Rightarrow> ext_lib \<Rightarrow> u32 \<Rightarrow> PACKET \<Rightarrow> RAW_EXTENSION list \<Rightarrow> nat \<Rightarrow> SSL \<Rightarrow> RAW_EXTENSION list option \<times> SSL" where
  "collect_loop e xl ctx extensions raw i s =
     (if PACKET_remaining extensions = 0 then (Some raw, s)
      else (case PACKET_get_net_2 extensions of
          None \<Rightarrow> (None, SSLfatal SSL_AD_DECODE_ERROR SSL_R_BAD_EXTENSION s)
        | Some (tw, p1) \<Rightarrow> (case PACKET_get_length_prefixed_2 p1 of
            None \<Rightarrow> (None, SSLfatal SSL_AD_DECODE_ERROR SSL_R_BAD_EXTENSION s)
          | Some (extension, p2) \<Rightarrow> (case verify_extension e xl ctx (unat tw) s of
              None \<Rightarrow> (None, SSLfatal SSL_AD_ILLEGAL_PARAMETER SSL_R_BAD_EXTENSION s)
            | Some thisex \<Rightarrow>
                if (case thisex of None \<Rightarrow> False | Some j \<Rightarrow> re_present (raw ! j))
                   \<or> (unat tw = TLSEXT_TYPE_psk \<and> has ctx SSL_EXT_CLIENT_HELLO \<and> PACKET_remaining p2 \<noteq> 0)
                then (None, SSLfatal SSL_AD_ILLEGAL_PARAMETER SSL_R_BAD_EXTENSION s)
                else (case thisex of
                    None \<Rightarrow> collect_loop e xl ctx p2 raw i s
                  | Some j \<Rightarrow>
                      if unsolicited ctx (unat tw) j s
                      then (None, SSLfatal SSL_AD_UNSUPPORTED_EXTENSION SSL_R_UNSOLICITED_EXTENSION s)
                      else collect_loop e xl ctx p2 (raw[j := (raw ! j)\<lparr>re_data := extension, re_present := True,
                             re_type := unat tw, re_order := i\<rparr>]) (Suc i) s)))))"
  by pat_completeness auto

termination
proof (relation "measure (\<lambda>(e, xl, ctx, extensions, raw, i, s). length extensions)")
  show "wf (measure (\<lambda>(e, xl, ctx, extensions, raw, i, s). length extensions))" by simp
next
  have len: "length p2 < length p" if "PACKET_get_net_2 p = Some (tw, p1)" "PACKET_get_length_prefixed_2 p1 = Some (d, p2)"
    for p tw p1 d p2
    using that by (auto simp: get_net_2_eq length_prefixed_2_iff split: if_split_asm dest!: arg_cong [where f = length])
  then show "((e, xl, ctx, p2, raw, i, s), e, xl, ctx, extensions, raw, i, s) \<in> measure (\<lambda>(e, xl, ctx, extensions, raw, i, s). length extensions)"
    if "PACKET_get_net_2 extensions = Some x2" "(tw, p1) = x2" "PACKET_get_length_prefixed_2 p1 = Some x3" "(d, p2) = x3"
    for e xl ctx extensions raw i s x2 tw p1 x3 d p2
    using that by (auto intro: len)
  show "((e, xl, ctx, p2, raw[j := z], Suc i, s), e, xl, ctx, extensions, raw, i, s) \<in> measure (\<lambda>(e, xl, ctx, extensions, raw, i, s). length extensions)"
    if "PACKET_get_net_2 extensions = Some x2" "(tw, p1) = x2" "PACKET_get_length_prefixed_2 p1 = Some x3" "(d, p2) = x3"
    for e xl ctx extensions raw i s x2 tw p1 x3 d p2 j z
    using that by (auto intro: len)
qed

declare collect_loop.simps [simp del]

text \<open>Running the initialisers.\<close>

fun run_inits :: "EXTENSION_DEFINITION list \<Rightarrow> u32 \<Rightarrow> SSL \<Rightarrow> bool \<times> SSL" where
  "run_inits [] ctx s = (True, s)"
| "run_inits (d # ds) ctx s = (case xd_init d of
      None \<Rightarrow> run_inits ds ctx s
    | Some ini \<Rightarrow>
        if has (xd_context d) ctx \<and> extension_is_relevant s (xd_context d) ctx
        then (case ini ctx s of (False, s1) \<Rightarrow> (False, s1) | (True, s1) \<Rightarrow> run_inits ds ctx s1)
        else run_inits ds ctx s)"

abbreviation (input) sizeof_RAW_EXTENSION :: nat where "sizeof_RAW_EXTENSION \<equiv> 40"

definition tls_collect_extensions ::
    "env \<Rightarrow> ext_lib \<Rightarrow> PACKET \<Rightarrow> u32 \<Rightarrow> bool \<Rightarrow> SSL \<Rightarrow> RAW_EXTENSION list option \<times> SSL" where
  "tls_collect_extensions e xl packet ctx init s0 =
     (let s = (if has ctx SSL_EXT_CLIENT_HELLO then s0\<lparr>custext := custom_ext_init (custext s0)\<rparr> else s0);
          num_exts = length (ext_defs e xl) + length (custext s)
      in case OPENSSL_malloc e (num_exts * sizeof_RAW_EXTENSION) (os s) of
          (False, w1) \<Rightarrow> (None, SSLfatal SSL_AD_INTERNAL_ERROR ERR_R_MALLOC_FAILURE (s\<lparr>os := w1\<rparr>))
        | (True, w1) \<Rightarrow> (case collect_loop e xl ctx packet (replicate num_exts raw_none) 0 (s\<lparr>os := w1\<rparr>) of
            (None, s1) \<Rightarrow> (None, upd_os (OPENSSL_free True) s1)
          | (Some raw, s1) \<Rightarrow>
              if \<not> init then (Some raw, s1)
              else (case run_inits (ext_defs e xl) ctx s1 of
                  (False, s2) \<Rightarrow> (None, upd_os (OPENSSL_free True) s2)
                | (True, s2) \<Rightarrow> (Some raw, s2))))"

section \<open>Parsing\<close>

text \<open>\<open>None\<close>: an index outside the list, or undefined behaviour of a parser.\<close>

definition tls_parse_extension ::
    "env \<Rightarrow> ext_lib \<Rightarrow> nat \<Rightarrow> u32 \<Rightarrow> RAW_EXTENSION list \<Rightarrow> x509_ptr option \<Rightarrow> nat \<Rightarrow> SSL
      \<Rightarrow> (bool \<times> RAW_EXTENSION list \<times> SSL) option" where
  "tls_parse_extension e xl idx ctx exts x chainidx s =
     (if length exts \<le> idx then None
      else let currext = exts ! idx; exts1 = exts[idx := currext\<lparr>re_parsed := True\<rparr>];
               custom = (case custom_ext_parse xl ctx (re_type currext) (re_data currext) x chainidx s of
                           (r, s1) \<Rightarrow> Some (r, exts1, s1))
      in if \<not> re_present currext \<or> re_parsed currext then Some (True, exts, s)
         else if idx < length (ext_defs e xl)
         then let extdef = ext_defs e xl ! idx
           in if \<not> extension_is_relevant s (xd_context extdef) ctx then Some (True, exts1, s)
              else (case (if server s then xd_parse_ctos extdef else xd_parse_stoc extdef) of
                  Some parser \<Rightarrow> do { (r, s1) \<leftarrow> parser (re_data currext) ctx x chainidx s; Some (r, exts1, s1) }
                | None \<Rightarrow> custom)
         else custom)"

fun parse_from ::
    "nat \<Rightarrow> nat \<Rightarrow> env \<Rightarrow> ext_lib \<Rightarrow> u32 \<Rightarrow> RAW_EXTENSION list \<Rightarrow> x509_ptr option \<Rightarrow> nat \<Rightarrow> SSL
      \<Rightarrow> (bool \<times> RAW_EXTENSION list \<times> SSL) option" where
  "parse_from 0 i e xl ctx exts x chainidx s = Some (True, exts, s)"
| "parse_from (Suc n) i e xl ctx exts x chainidx s = do {
     (r, exts1, s1) \<leftarrow> tls_parse_extension e xl i ctx exts x chainidx s;
     if r then parse_from n (Suc i) e xl ctx exts1 x chainidx s1 else Some (False, exts1, s1) }"

fun run_finals :: "nat \<Rightarrow> EXTENSION_DEFINITION list \<Rightarrow> u32 \<Rightarrow> RAW_EXTENSION list \<Rightarrow> SSL \<Rightarrow> bool \<times> SSL" where
  "run_finals i [] ctx exts s = (True, s)"
| "run_finals i (d # ds) ctx exts s = (case xd_final d of
      None \<Rightarrow> run_finals (Suc i) ds ctx exts s
    | Some fin \<Rightarrow>
        if has (xd_context d) ctx
        then (case fin ctx (re_present (exts ! i)) s of (False, s1) \<Rightarrow> (False, s1) | (True, s1) \<Rightarrow> run_finals (Suc i) ds ctx exts s1)
        else run_finals (Suc i) ds ctx exts s)"

definition tls_parse_all_extensions ::
    "env \<Rightarrow> ext_lib \<Rightarrow> u32 \<Rightarrow> RAW_EXTENSION list \<Rightarrow> x509_ptr option \<Rightarrow> nat \<Rightarrow> bool \<Rightarrow> SSL
      \<Rightarrow> (bool \<times> RAW_EXTENSION list \<times> SSL) option" where
  "tls_parse_all_extensions e xl ctx exts x chainidx fin s = do {
     (r, exts1, s1) \<leftarrow> parse_from (length (ext_defs e xl) + length (custext s)) 0 e xl ctx exts x chainidx s;
     Some (if r \<and> fin then (case run_finals 0 (ext_defs e xl) ctx exts1 s1 of (r1, s2) \<Rightarrow> (r1, exts1, s2))
           else (r, exts1, s1)) }"

section \<open>Construction\<close>

definition mark_sent :: "nat \<Rightarrow> SSL \<Rightarrow> SSL" where
  "mark_sent i s = upd_ext (\<lambda>x. x\<lparr>extflags := (extflags x)[i := (extflags x ! i) OR SSL_EXT_FLAG_SENT]\<rparr>) s"

fun construct_from ::
    "nat \<Rightarrow> EXTENSION_DEFINITION list \<Rightarrow> u32 \<Rightarrow> x509_ptr option \<Rightarrow> nat \<Rightarrow> nat \<Rightarrow> WPACKET \<Rightarrow> SSL \<Rightarrow> (bool \<times> WPACKET \<times> SSL) option" where
  "construct_from i [] ctx x chainidx maxv pkt s = Some (True, pkt, s)"
| "construct_from i (d # ds) ctx x chainidx maxv pkt s =
     (if \<not> should_add_extension s (xd_context d) ctx maxv then construct_from (Suc i) ds ctx x chainidx maxv pkt s
      else (case (if server s then xd_construct_stoc d else xd_construct_ctos d) of
          None \<Rightarrow> construct_from (Suc i) ds ctx x chainidx maxv pkt s
        | Some construct \<Rightarrow> do {
            (ret, pkt1, s1) \<leftarrow> construct pkt ctx x chainidx s;
            if ret = EXT_RETURN_FAIL then Some (False, pkt1, s1)
            else construct_from (Suc i) ds ctx x chainidx maxv pkt1
              (if ret = EXT_RETURN_SENT \<and> has ctx (SSL_EXT_CLIENT_HELLO OR SSL_EXT_TLS1_3_CERTIFICATE_REQUEST OR
                    SSL_EXT_TLS1_3_NEW_SESSION_TICKET) then mark_sent i s1 else s1) }))"

definition tls_construct_extensions ::
    "env \<Rightarrow> ext_lib \<Rightarrow> WPACKET \<Rightarrow> u32 \<Rightarrow> x509_ptr option \<Rightarrow> nat \<Rightarrow> SSL \<Rightarrow> (bool \<times> WPACKET \<times> SSL) option" where
  "tls_construct_extensions e xl pkt ctx x chainidx s =
     (case wseq (WPACKET_start_sub_packet_len (malloc_ok e) 2)
             (if has ctx (SSL_EXT_CLIENT_HELLO OR SSL_EXT_TLS1_2_SERVER_HELLO)
              then WPACKET_set_flags WPACKET_FLAGS_ABANDON_ON_ZERO_LENGTH else Pair True) pkt of
        (False, p1) \<Rightarrow> Some (False, p1, fatal_internal s)
      | (True, p1) \<Rightarrow> (case (if has ctx SSL_EXT_CLIENT_HELLO then xl_min_max xl s else (0, 0, 0)) of
          (reason, min_version, max_version) \<Rightarrow>
            if reason \<noteq> 0 then Some (False, p1, SSLfatal SSL_AD_INTERNAL_ERROR (ERR_CODE reason) s)
            else (case custom_ext_add e xl ctx p1 x chainidx max_version
                         (if has ctx SSL_EXT_CLIENT_HELLO then s\<lparr>custext := custom_ext_init (custext s)\<rparr> else s) of
                (False, p2, s1) \<Rightarrow> Some (False, p2, s1)
              | (True, p2, s1) \<Rightarrow> do {
                  (ok, p3, s2) \<leftarrow> construct_from 0 (ext_defs e xl) ctx x chainidx max_version p2 s1;
                  if \<not> ok then Some (False, p3, s2)
                  else (case WPACKET_close (malloc_ok e) p3 of
                      (False, p4) \<Rightarrow> Some (False, p4, fatal_internal s2)
                    | (True, p4) \<Rightarrow> Some (True, p4, s2)) })))"

end
