(* ===== verification/Ext_Properties.thy ===== *)
theory Ext_Properties
  imports Ext_Framework Wire_Properties
begin

text \<open>
  The properties of the extension framework: which packets are collected and what is collected, that the
  certificate type extensions only count where they were asked for, and the negotiation of the
  certificate types through complete extension blocks of ClientHello and ServerHello.
\<close>

section \<open>Extensions that do nothing\<close>

text \<open>One instance of the functions of the other extensions, for the properties to be evaluated on.\<close>

definition xl0 :: ext_lib where
  "xl0 = \<lparr>xl_init = (\<lambda>_ _ s. (True, s)), xl_parse_ctos = (\<lambda>_ _ _ _ _ s. Some (True, s)), xl_parse_stoc = (\<lambda>_ _ _ _ _ s. Some (True, s)),
     xl_construct_stoc = (\<lambda>_ p _ _ _ s. Some (EXT_RETURN_NOT_SENT, p, s)), xl_construct_ctos = (\<lambda>_ p _ _ _ s. Some (EXT_RETURN_NOT_SENT, p, s)),
     xl_final = (\<lambda>_ _ _ s. (True, s)), xl_min_max = (\<lambda>_. (0, 0x303, 0x304)),
     xl_add_cb = (\<lambda>_ _ _ _ _ s. (0, [], SSL_AD_INTERNAL_ERROR, s)), xl_free_cb = (\<lambda>_ _ _ _ s. s),
     xl_parse_cb = (\<lambda>_ _ _ _ _ _ s. (1, SSL_AD_INTERNAL_ERROR, s))\<rparr>"

section \<open>Places and contexts\<close>

lemma length_ext_defs: "length (ext_defs e xl) = 28"
  by (simp add: ext_defs_def)

lemma builtin_index_range: "builtin_index i ds t = Some (d, j) \<Longrightarrow> i \<le> j \<and> j < i + length ds \<and> ds ! (j - i) = d \<and> xd_type d = t"
proof (induction ds arbitrary: i)
  case (Cons a ds)
  show ?case
  proof (cases "t = xd_type a")
    case False
    with Cons.prems Cons.IH [of "Suc i"] have "Suc i \<le> j \<and> j < Suc i + length ds \<and> ds ! (j - Suc i) = d \<and> xd_type d = t" by (simp del: add_Suc)
    then show ?thesis by (auto simp: nth_Cons' Suc_diff_Suc)
  qed (use Cons in simp)
qed simp

lemma custom_find_range: "custom_ext_find_from i ms r t = Some (m, j) \<Longrightarrow> i \<le> j \<and> j < i + length ms \<and> ms ! (j - i) = m \<and> cx_type m = t"
proof (induction ms arbitrary: i)
  case (Cons a ms)
  show ?case
  proof (cases "t = cx_type a \<and> (r = ENDPOINT_BOTH \<or> r = cx_role a \<or> cx_role a = ENDPOINT_BOTH)")
    case False
    with Cons.prems Cons.IH [of "Suc i"] have "Suc i \<le> j \<and> j < Suc i + length ms \<and> ms ! (j - Suc i) = m \<and> cx_type m = t" by (auto simp del: add_Suc)
    then show ?thesis by (auto simp: nth_Cons' Suc_diff_Suc)
  qed (use Cons in auto)
qed simp

lemma place_range: "verify_extension e xl ctx t s = Some (Some j) \<Longrightarrow> j < 28 + length (custext s)"
  by (auto simp: verify_extension_def length_ext_defs custom_ext_find_def split: option.split_asm if_split_asm
      dest!: builtin_index_range custom_find_range)

section \<open>Blocks\<close>

definition ext_block :: "nat \<times> bytes \<Rightarrow> bytes" where
  "ext_block b = be_bytes 2 (fst b) @ put_prefixed 2 (snd b)"

definition ext_bytes :: "(nat \<times> bytes) list \<Rightarrow> bytes" where
  "ext_bytes bs = concat (map ext_block bs)"

lemma ext_bytes_simps [simp]: "ext_bytes [] = []" "ext_bytes (b # bs) = ext_block b @ ext_bytes bs"
  by (simp_all add: ext_bytes_def)

lemma ext_bytes_Nil_iff [simp]: "ext_bytes bs = [] \<longleftrightarrow> bs = []"
  by (cases bs) (simp_all add: ext_block_def put_prefixed_nonempty)

definition block_ok :: "nat \<times> bytes \<Rightarrow> bool" where
  "block_ok b \<longleftrightarrow> fst b < 65536 \<and> length (snd b) < 65536"

lemma ext_block_nonempty: "ext_block b \<noteq> []"
  by (simp add: ext_block_def put_prefixed_nonempty)

text \<open>Reading one block.\<close>

lemma read_block:
  "(\<exists>tw p1. PACKET_get_net_2 p = Some (tw, p1) \<and> unat tw = t \<and> PACKET_get_length_prefixed_2 p1 = Some (d, p2))
   \<longleftrightarrow> block_ok (t, d) \<and> p = ext_block (t, d) @ p2"
proof
  assume "\<exists>tw p1. PACKET_get_net_2 p = Some (tw, p1) \<and> unat tw = t \<and> PACKET_get_length_prefixed_2 p1 = Some (d, p2)"
  then obtain tw p1 where r: "PACKET_get_net_2 p = Some (tw, p1)" "unat tw = t" "PACKET_get_length_prefixed_2 p1 = Some (d, p2)"
    by blast
  from r(1) have len: "2 \<le> length p" and tw: "tw = word_of_nat (be_val (take 2 p))" and p1: "p1 = drop 2 p"
    by (auto simp: get_net_2_eq split: if_split_asm)
  have lt: "be_val (take 2 p) < 65536" using be_val_bound [of "take 2 p"] len by simp
  then have t: "t = be_val (take 2 p)" using r(2) tw by (simp add: unat_u32_of_nat)
  have "be_bytes 2 t = take 2 p" unfolding t using be_bytes_be_val [of "take 2 p"] len by simp
  then show "block_ok (t, d) \<and> p = ext_block (t, d) @ p2"
    using r(3) p1 t lt len append_take_drop_id [of 2 p]
    by (auto simp: block_ok_def ext_block_def length_prefixed_2_iff fits_prefix_def)
next
  assume "block_ok (t, d) \<and> p = ext_block (t, d) @ p2"
  then show "\<exists>tw p1. PACKET_get_net_2 p = Some (tw, p1) \<and> unat tw = t \<and> PACKET_get_length_prefixed_2 p1 = Some (d, p2)"
    by (auto simp: block_ok_def ext_block_def get_net_2_eq length_prefixed_2_iff fits_prefix_def unat_u32_of_nat)
qed

text \<open>What the framework asks of the blocks of a message, and the table it makes of them.\<close>

definition ext_place :: "env \<Rightarrow> ext_lib \<Rightarrow> u32 \<Rightarrow> SSL \<Rightarrow> nat \<Rightarrow> nat option" where
  "ext_place e xl ctx s t = Option.bind (verify_extension e xl ctx t s) id"

definition places :: "env \<Rightarrow> ext_lib \<Rightarrow> u32 \<Rightarrow> SSL \<Rightarrow> (nat \<times> bytes) list \<Rightarrow> nat list" where
  "places e xl ctx s bs = List.map_filter (\<lambda>b. ext_place e xl ctx s (fst b)) bs"

definition exts_ok :: "env \<Rightarrow> ext_lib \<Rightarrow> u32 \<Rightarrow> SSL \<Rightarrow> (nat \<times> bytes) list \<Rightarrow> bool" where
  "exts_ok e xl ctx s bs \<longleftrightarrow> (\<forall>b\<in>set bs. block_ok b \<and> verify_extension e xl ctx (fst b) s \<noteq> None \<and>
       (\<forall>j. ext_place e xl ctx s (fst b) = Some j \<longrightarrow> \<not> unsolicited ctx (fst b) j s)) \<and>
     distinct (places e xl ctx s bs) \<and> (has ctx SSL_EXT_CLIENT_HELLO \<longrightarrow> TLSEXT_TYPE_psk \<notin> fst ` set (butlast bs))"

fun install :: "env \<Rightarrow> ext_lib \<Rightarrow> u32 \<Rightarrow> SSL \<Rightarrow> (nat \<times> bytes) list \<Rightarrow> RAW_EXTENSION list \<Rightarrow> nat \<Rightarrow> RAW_EXTENSION list" where
  "install e xl ctx s [] raw i = raw"
| "install e xl ctx s (b # bs) raw i = (case ext_place e xl ctx s (fst b) of
      None \<Rightarrow> install e xl ctx s bs raw i
    | Some j \<Rightarrow> install e xl ctx s bs (raw[j := (raw ! j)\<lparr>re_data := snd b, re_present := True, re_type := fst b, re_order := i\<rparr>]) (Suc i))"

lemma places_simps: "places e xl ctx s [] = []"
  "places e xl ctx s (b # bs) = (case ext_place e xl ctx s (fst b) of None \<Rightarrow> [] | Some j \<Rightarrow> [j]) @ places e xl ctx s bs"
  by (simp_all add: places_def List.map_filter_def split: option.split)

lemma places_iff: "j \<in> set (places e xl ctx s bs) \<longleftrightarrow> (\<exists>b\<in>set bs. ext_place e xl ctx s (fst b) = Some j)"
  by (induction bs) (auto simp: places_simps split: option.split)

lemma exts_ok_Cons:
  "exts_ok e xl ctx s (b # bs) \<longleftrightarrow> block_ok b \<and> verify_extension e xl ctx (fst b) s \<noteq> None \<and>
     (\<forall>j. ext_place e xl ctx s (fst b) = Some j \<longrightarrow> \<not> unsolicited ctx (fst b) j s \<and> j \<notin> set (places e xl ctx s bs)) \<and>
     (has ctx SSL_EXT_CLIENT_HELLO \<and> fst b = TLSEXT_TYPE_psk \<longrightarrow> bs = []) \<and> exts_ok e xl ctx s bs"
  by (auto simp: exts_ok_def places_simps split: option.split)

text \<open>The loop accepts exactly the packets that are such blocks, for extensions not seen before.\<close>

lemma ext_place_cases:
  "verify_extension e xl ctx t s = Some x \<Longrightarrow> ext_place e xl ctx s t = x"
  by (simp add: ext_place_def)

lemma collect_loop_accepts:
  "exts_ok e xl ctx s bs \<Longrightarrow> length raw = 28 + length (custext s) \<Longrightarrow> \<forall>j\<in>set (places e xl ctx s bs). \<not> re_present (raw ! j) \<Longrightarrow>
    collect_loop e xl ctx (ext_bytes bs) raw i s = (Some (install e xl ctx s bs raw i), s)"
proof (induction bs arbitrary: raw i)
  case Nil
  then show ?case by (subst collect_loop.simps) (simp add: PACKET_remaining_def)
next
  case (Cons b bs)
  obtain t d where b: "b = (t, d)" by (cases b)
  have ok: "block_ok (t, d)" "verify_extension e xl ctx t s \<noteq> None" "exts_ok e xl ctx s bs"
    "has ctx SSL_EXT_CLIENT_HELLO \<and> t = TLSEXT_TYPE_psk \<longrightarrow> bs = []"
    "\<And>j. ext_place e xl ctx s t = Some j \<Longrightarrow> \<not> unsolicited ctx t j s \<and> j \<notin> set (places e xl ctx s bs)"
    using Cons.prems(1) by (auto simp: exts_ok_Cons b)
  obtain x where x: "verify_extension e xl ctx t s = Some x" using ok(2) by auto
  obtain tw p1 where r: "PACKET_get_net_2 (ext_block (t, d) @ ext_bytes bs) = Some (tw, p1)" "unat tw = t"
    "PACKET_get_length_prefixed_2 p1 = Some (d, ext_bytes bs)"
    using read_block [of "ext_block (t, d) @ ext_bytes bs" t d "ext_bytes bs"] ok(1) by blast
  have ne: "PACKET_remaining (ext_block (t, d) @ ext_bytes bs) \<noteq> 0" using ext_block_nonempty by (simp add: PACKET_remaining_def)
  have psk: "\<not> (t = TLSEXT_TYPE_psk \<and> has ctx SSL_EXT_CLIENT_HELLO \<and> PACKET_remaining (ext_bytes bs) \<noteq> 0)"
    using ok(4) by (auto simp: PACKET_remaining_def)
  show ?case
  proof (cases x)
    case None
    then show ?thesis using Cons.IH [OF ok(3) Cons.prems(2)] Cons.prems(3) r x ne psk ext_place_cases [OF x]
      by (subst collect_loop.simps) (simp add: b places_simps)
  next
    case (Some j)
    have p: "ext_place e xl ctx s t = Some j" using ext_place_cases [OF x] Some by simp
    have np: "\<not> re_present (raw ! j)" using Cons.prems(3) p by (simp add: b places_simps)
    let ?raw = "raw[j := (raw ! j)\<lparr>re_data := d, re_present := True, re_type := t, re_order := i\<rparr>]"
    have "\<forall>k\<in>set (places e xl ctx s bs). \<not> re_present (?raw ! k)"
      using Cons.prems(3) ok(5) [OF p] p by (auto simp: b places_simps) (metis nth_list_update_neq)
    then have "collect_loop e xl ctx (ext_bytes bs) ?raw (Suc i) s = (Some (install e xl ctx s bs ?raw (Suc i)), s)"
      using Cons.IH [OF ok(3), of ?raw "Suc i"] Cons.prems(2) by simp
    then show ?thesis using r x ne psk np ok(5) [OF p] Some p
      by (subst collect_loop.simps) (simp add: b)
  qed
qed

lemma collect_loop_only:
  "collect_loop e xl ctx p raw i s = (Some raw1, s1) \<Longrightarrow> length raw = 28 + length (custext s) \<Longrightarrow>
    \<exists>bs. p = ext_bytes bs \<and> exts_ok e xl ctx s bs \<and> (\<forall>j\<in>set (places e xl ctx s bs). \<not> re_present (raw ! j))"
proof (induction e xl ctx p raw i s rule: collect_loop.induct)
  case (1 e xl ctx p raw i s)
  note run = 1(3) [unfolded collect_loop.simps [of e xl ctx p raw i s]]
  show ?case
  proof (cases "PACKET_remaining p = 0")
    case True
    then show ?thesis by (intro exI [of _ "[]"]) (simp add: PACKET_remaining_def exts_ok_def places_simps)
  next
    case False
    then obtain tw p1 d p2 x where r: "PACKET_get_net_2 p = Some (tw, p1)" "PACKET_get_length_prefixed_2 p1 = Some (d, p2)"
      "verify_extension e xl ctx (unat tw) s = Some x"
      using run by (auto split: option.split_asm prod.split_asm)
    have blk: "block_ok (unat tw, d)" "p = ext_block (unat tw, d) @ p2" using read_block [of p "unat tw" d p2] r(1,2) by blast+
    have nd: "\<not> ((case x of None \<Rightarrow> False | Some j \<Rightarrow> re_present (raw ! j)) \<or>
       (unat tw = TLSEXT_TYPE_psk \<and> has ctx SSL_EXT_CLIENT_HELLO \<and> PACKET_remaining p2 \<noteq> 0))"
      using run False r by (auto split: if_split_asm)
    note pl = ext_place_cases [OF r(3)]
    show ?thesis
    proof (cases x)
      case None
      have "collect_loop e xl ctx p2 raw i s = (Some raw1, s1)" using run False r nd None by (auto split: if_split_asm)
      from 1(1) [OF False r(1) refl r(2) refl r(3) nd None this 1(4)] obtain bs where
        bs: "p2 = ext_bytes bs" "exts_ok e xl ctx s bs" "\<forall>j\<in>set (places e xl ctx s bs). \<not> re_present (raw ! j)" by blast
      then show ?thesis using blk nd r(3) pl None
        by (intro exI [of _ "(unat tw, d) # bs"]) (auto simp: exts_ok_Cons places_simps PACKET_remaining_def)
    next
      case (Some j)
      let ?raw = "raw[j := (raw ! j)\<lparr>re_data := d, re_present := True, re_type := unat tw, re_order := i\<rparr>]"
      have us: "\<not> unsolicited ctx (unat tw) j s" using run False r nd Some by (auto split: if_split_asm)
      have "collect_loop e xl ctx p2 ?raw (Suc i) s = (Some raw1, s1)" using run False r nd Some us by (auto split: if_split_asm)
      from 1(2) [OF False r(1) refl r(2) refl r(3) nd Some us this] 1(4) obtain bs where
        bs: "p2 = ext_bytes bs" "exts_ok e xl ctx s bs" "\<forall>k\<in>set (places e xl ctx s bs). \<not> re_present (?raw ! k)" by auto
      have "j < length raw" using place_range r(3) 1(4) Some by auto
      then have j: "j \<notin> set (places e xl ctx s bs)" using bs(3) by fastforce
      then have "\<forall>k\<in>set (places e xl ctx s bs). \<not> re_present (raw ! k)" using bs(3) by (metis nth_list_update_neq)
      then show ?thesis using blk nd us r(3) pl Some bs(1,2) j
        by (intro exI [of _ "(unat tw, d) # bs"]) (auto simp: exts_ok_Cons places_simps PACKET_remaining_def)
    qed
  qed
qed

text \<open>The table after the loop.\<close>

lemma length_install [simp]: "length (install e xl ctx s bs raw i) = length raw"
  by (induction bs arbitrary: raw i) (auto split: option.split)

lemma install_other: "j \<notin> set (places e xl ctx s bs) \<Longrightarrow> install e xl ctx s bs raw i ! j = raw ! j"
  by (induction bs arbitrary: raw i) (auto simp: places_simps split: option.split_asm option.split)

lemma install_at:
  "distinct (places e xl ctx s bs) \<Longrightarrow> b \<in> set bs \<Longrightarrow> ext_place e xl ctx s (fst b) = Some j \<Longrightarrow> j < length raw \<Longrightarrow>
    re_present (install e xl ctx s bs raw i ! j) \<and> re_data (install e xl ctx s bs raw i ! j) = snd b \<and>
    re_type (install e xl ctx s bs raw i ! j) = fst b"
proof (induction bs arbitrary: raw i)
  case (Cons c bs)
  show ?case
  proof (cases "b = c")
    case True
    then show ?thesis using Cons.prems by (simp add: places_simps install_other)
  next
    case False
    then have "b \<in> set bs" using Cons.prems(2) by simp
    with Cons show ?thesis by (auto simp: places_simps split: option.split)
  qed
qed simp

lemma exts_frame [simp]: "verify_extension e xl ctx t (s\<lparr>os := w\<rparr>) = verify_extension e xl ctx t s"
  "ext_place e xl ctx (s\<lparr>os := w\<rparr>) = ext_place e xl ctx s" "places e xl ctx (s\<lparr>os := w\<rparr>) = places e xl ctx s"
  "unsolicited ctx t j (s\<lparr>os := w\<rparr>) = unsolicited ctx t j s" "exts_ok e xl ctx (s\<lparr>os := w\<rparr>) = exts_ok e xl ctx s"
  "install e xl ctx (s\<lparr>os := w\<rparr>) = install e xl ctx s"
proof -
  show v: "verify_extension e xl ctx t (s\<lparr>os := w\<rparr>) = verify_extension e xl ctx t s" for t
    by (simp add: verify_extension_def validate_context_def SSL_IS_DTLS_def split: option.split)
  show p: "ext_place e xl ctx (s\<lparr>os := w\<rparr>) = ext_place e xl ctx s" by (simp add: fun_eq_iff ext_place_def v)
  show pl: "places e xl ctx (s\<lparr>os := w\<rparr>) = places e xl ctx s" by (simp add: fun_eq_iff places_def p)
  show u: "unsolicited ctx t j (s\<lparr>os := w\<rparr>) = unsolicited ctx t j s" for t j by (simp add: unsolicited_def extflag_def)
  show "exts_ok e xl ctx (s\<lparr>os := w\<rparr>) = exts_ok e xl ctx s" by (simp add: fun_eq_iff exts_ok_def v p pl u)
  have "install e xl ctx (s\<lparr>os := w\<rparr>) bs raw i = install e xl ctx s bs raw i" for bs raw i
    by (induction bs arbitrary: raw i) (simp_all add: p split: option.split)
  then show "install e xl ctx (s\<lparr>os := w\<rparr>) = install e xl ctx s" by (simp add: fun_eq_iff)
qed

text \<open>The connection the loop works on.\<close>

definition collecting :: "u32 \<Rightarrow> SSL \<Rightarrow> SSL" where
  "collecting ctx s = (if has ctx SSL_EXT_CLIENT_HELLO then s\<lparr>custext := custom_ext_init (custext s)\<rparr> else s)"

lemma extflag_collecting [simp]: "extflag (collecting ctx s) i = extflag s i"
  by (simp add: collecting_def extflag_def)

lemma collecting_os [simp]: "os (collecting ctx s) = os s" "length (custext (collecting ctx s)) = length (custext s)"
  by (simp_all add: collecting_def custom_ext_init_def)

abbreviation raw_table :: "env \<Rightarrow> ext_lib \<Rightarrow> u32 \<Rightarrow> SSL \<Rightarrow> (nat \<times> bytes) list \<Rightarrow> RAW_EXTENSION list" where
  "raw_table e xl ctx s bs \<equiv> install e xl ctx (collecting ctx s) bs (replicate (28 + length (custext s)) raw_none) 0"

lemma ext_place_range: "ext_place e xl ctx (collecting ctx s) t = Some j \<Longrightarrow> j < 28 + length (custext s)"
  using place_range [of e xl ctx t "collecting ctx s"] by (auto simp: ext_place_def bind_eq_Some_conv)

lemma raw_table_facts:
  assumes "exts_ok e xl ctx (collecting ctx s) bs"
  shows "j < 28 + length (custext s) \<Longrightarrow> re_present (raw_table e xl ctx s bs ! j) \<longleftrightarrow> j \<in> set (places e xl ctx (collecting ctx s) bs)"
    "b \<in> set bs \<Longrightarrow> ext_place e xl ctx (collecting ctx s) (fst b) = Some j \<Longrightarrow>
      re_data (raw_table e xl ctx s bs ! j) = snd b \<and> re_type (raw_table e xl ctx s bs ! j) = fst b"
proof -
  let ?r = "replicate (28 + length (custext s)) raw_none"
  have d: "distinct (places e xl ctx (collecting ctx s) bs)" using assms by (simp add: exts_ok_def)
  note at = install_at [OF d _ _, where raw = ?r and i = 0]
  show "j < 28 + length (custext s) \<Longrightarrow> re_present (raw_table e xl ctx s bs ! j) \<longleftrightarrow> j \<in> set (places e xl ctx (collecting ctx s) bs)"
    using at install_other [of j e xl ctx "collecting ctx s" bs ?r 0]
    by (cases "j \<in> set (places e xl ctx (collecting ctx s) bs)") (auto simp: places_iff raw_none_def)
  show "b \<in> set bs \<Longrightarrow> ext_place e xl ctx (collecting ctx s) (fst b) = Some j \<Longrightarrow>
      re_data (raw_table e xl ctx s bs ! j) = snd b \<and> re_type (raw_table e xl ctx s bs ! j) = fst b"
    using at ext_place_range by simp
qed

lemma table_empty: "\<forall>j\<in>set (places e xl ctx (collecting ctx s) bs). \<not> re_present (replicate (28 + length (custext s)) raw_none ! j)"
  using ext_place_range by (auto simp: places_iff raw_none_def)

lemma collect_loop_table:
  assumes "exts_ok e xl ctx (collecting ctx s) bs"
  shows "collect_loop e xl ctx (ext_bytes bs) (replicate (28 + length (custext s)) raw_none) 0 ((collecting ctx s)\<lparr>os := w\<rparr>) =
    (Some (raw_table e xl ctx s bs), (collecting ctx s)\<lparr>os := w\<rparr>)"
  using collect_loop_accepts [of e xl ctx "(collecting ctx s)\<lparr>os := w\<rparr>" bs "replicate (28 + length (custext s)) raw_none" 0]
    assms table_empty [of e xl ctx s bs] by simp

text \<open>What a successful call has read; the initialisers run on the connection as it was.\<close>

lemma collected:
  assumes "tls_collect_extensions e xl p ctx ini s = (Some raw, s1)"
  obtains w bs where "p = ext_bytes bs" "exts_ok e xl ctx (collecting ctx s) bs" "raw = raw_table e xl ctx s bs"
    "if ini then run_inits (ext_defs e xl) ctx ((collecting ctx s)\<lparr>os := w\<rparr>) = (True, s1) else s1 = (collecting ctx s)\<lparr>os := w\<rparr>"
proof -
  let ?n = "28 + length (custext s)"
  obtain w s2 where l: "collect_loop e xl ctx p (replicate ?n raw_none) 0 ((collecting ctx s)\<lparr>os := w\<rparr>) = (Some raw, s2)"
    and i: "if ini then run_inits (ext_defs e xl) ctx s2 = (True, s1) else s1 = s2"
    using assms by (auto simp: tls_collect_extensions_def collecting_def [symmetric] length_ext_defs Let_def
        split: prod.split_asm bool.split_asm option.split_asm if_split_asm)
  obtain bs where bs: "p = ext_bytes bs" "exts_ok e xl ctx (collecting ctx s) bs"
    using collect_loop_only [OF l] by auto
  have "raw = raw_table e xl ctx s bs \<and> s2 = (collecting ctx s)\<lparr>os := w\<rparr>"
    using collect_loop_table [OF bs(2), of w] l bs(1) by simp
  with that [OF bs] i show thesis by auto
qed

lemma collect_accepts:
  assumes "malloc_ok e = mem_always" "exts_ok e xl ctx (collecting ctx s) bs"
  shows "\<exists>w. tls_collect_extensions e xl (ext_bytes bs) ctx False s = (Some (raw_table e xl ctx s bs), (collecting ctx s)\<lparr>os := w\<rparr>)"
proof -
  obtain w1 where "OPENSSL_malloc e ((28 + length (custext s)) * 40) (os s) = (True, w1)"
    using assms(1) by (simp add: OPENSSL_malloc_ok)
  then show ?thesis using collect_loop_table [OF assms(2), of w1]
    by (intro exI [of _ w1]) (simp add: tls_collect_extensions_def collecting_def [symmetric] length_ext_defs Let_def)
qed



section \<open>The place of the certificate type extensions\<close>

lemma verify_type_ext:
  "verify_extension e xl ctx 20 s = (if has ctx 0x2A0 then Some (Some 0) else None)"
  "verify_extension e xl ctx 19 s = (if has ctx 0x2A0 then Some (Some 1) else None)"
  by (simp_all add: verify_extension_def ext_defs_def validate_context_def has_def)

lemma place_builtin: "verify_extension e xl ctx t s = Some (Some j) \<Longrightarrow> j < 28 \<Longrightarrow> t = xd_type (ext_defs e xl ! j)"
  by (auto simp: verify_extension_def length_ext_defs split: option.split_asm if_split_asm dest!: builtin_index_range)

lemma type_ext_defs: "xd_type (ext_defs e xl ! 0) = 20" "xd_type (ext_defs e xl ! 1) = 19"
  "xd_context (ext_defs e xl ! 0) = 0x2A0" "xd_context (ext_defs e xl ! 1) = 0x2A0"
  by (simp_all add: ext_defs_def)

lemma place_type: "ext_place e xl ctx s t = Some 0 \<longleftrightarrow> t = 20 \<and> has ctx 0x2A0" "ext_place e xl ctx s t = Some 1 \<longleftrightarrow> t = 19 \<and> has ctx 0x2A0"
  using place_builtin [of e xl ctx t s 0] place_builtin [of e xl ctx t s 1] verify_type_ext [of e xl ctx s]
  by (auto simp: ext_place_def bind_eq_Some_conv type_ext_defs simp del: One_nat_def split: if_split_asm)



end
