(* ===== verification/Ext_Negotiation.thy ===== *)
theory Ext_Negotiation
  imports Ext_Properties Outcomes
begin

text \<open>
  The negotiation of the certificate types through the extension blocks of ClientHello and ServerHello, with
  whatever the other extensions write and do.
\<close>

section \<open>What is asked of the other extensions\<close>

definition kept :: "SSL \<Rightarrow> SSL \<Rightarrow> bool" where
  "kept s s1 \<longleftrightarrow> ieee1609 s1 = ieee1609 s \<and> custext s1 = custext s \<and> server s1 = server s"

text \<open>An initialiser does not change the version either; the parsers may.\<close>

definition kept_version :: "SSL \<Rightarrow> SSL \<Rightarrow> bool" where
  "kept_version s s1 \<longleftrightarrow> kept s s1 \<and> version s1 = version s \<and> method_version s1 = method_version s \<and> dtls s1 = dtls s"

definition keeps_parse :: "ext_parser \<Rightarrow> bool" where
  "keeps_parse f \<longleftrightarrow> (\<forall>d ctx x n s. outcome (\<lambda>(r, s1). kept s s1) (f d ctx x n s))"

text \<open>A constructor that succeeds has only appended to the packet.\<close>

definition appends_ext :: "ext_writer \<Rightarrow> bool" where
  "appends_ext f \<longleftrightarrow> (\<forall>pkt ctx x n s. wpacket_inv pkt \<longrightarrow> outcome (\<lambda>(ret, p1, s1). ret \<noteq> EXT_RETURN_FAIL \<longrightarrow>
     wpacket_inv p1 \<and> subs p1 = subs pkt \<and> (\<exists>d. wcontent p1 = wcontent pkt @ d) \<and> kept s s1) (f pkt ctx x n s))"

definition others_ok :: "ext_lib \<Rightarrow> bool" where
  "others_ok xl \<longleftrightarrow> (\<forall>i. (\<forall>ctx s. kept_version s (snd (xl_init xl i ctx s))) \<and> (\<forall>ctx b s. kept s (snd (xl_final xl i ctx b s))) \<and>
     keeps_parse (xl_parse_ctos xl i) \<and> keeps_parse (xl_parse_stoc xl i) \<and>
     appends_ext (xl_construct_stoc xl i) \<and> appends_ext (xl_construct_ctos xl i))"

definition def_ok :: "EXTENSION_DEFINITION \<Rightarrow> bool" where
  "def_ok d \<longleftrightarrow> (\<forall>f. xd_init d = Some f \<longrightarrow> (\<forall>ctx s. kept_version s (snd (f ctx s)))) \<and>
     (\<forall>f. xd_final d = Some f \<longrightarrow> (\<forall>ctx b s. kept s (snd (f ctx b s)))) \<and>
     pred_option keeps_parse (xd_parse_ctos d) \<and> pred_option keeps_parse (xd_parse_stoc d) \<and>
     pred_option appends_ext (xd_construct_stoc d) \<and> pred_option appends_ext (xd_construct_ctos d)"

lemma kept_refl [simp]: "kept s s" "kept_version s s"
  by (simp_all add: kept_def kept_version_def)

lemma kept_trans: "kept s s1 \<Longrightarrow> kept s1 s2 \<Longrightarrow> kept s s2" "kept_version s s1 \<Longrightarrow> kept_version s1 s2 \<Longrightarrow> kept_version s s2"
  by (simp_all add: kept_def kept_version_def)

lemma kept_server: "kept s s1 \<Longrightarrow> server s1 = server s"
  by (simp add: kept_def)

text \<open>The table: the two certificate type extensions, and the others.\<close>

lemma ext_defs_split: "ext_defs e xl = ext_defs e xl ! 0 # ext_defs e xl ! 1 # drop 2 (ext_defs e xl)"
proof -
  have "drop 0 (ext_defs e xl) = ext_defs e xl ! 0 # drop (Suc 0) (ext_defs e xl)"
    "drop (Suc 0) (ext_defs e xl) = ext_defs e xl ! 1 # drop 2 (ext_defs e xl)"
    by (simp_all add: Cons_nth_drop_Suc length_ext_defs numeral_2_eq_2 del: drop_0 drop.simps)
  then show ?thesis by simp
qed

lemma others_defs:
  assumes "others_ok xl"
  shows "list_all def_ok (drop 2 (ext_defs e xl))"
proof -
  have "def_ok (ext_def xl i t c b1 b2 b3 b4 b5 b6)" for i t c b1 b2 b3 b4 b5 b6
    using assms by (simp add: others_ok_def def_ok_def ext_def_def)
  moreover have "def_ok INVALID_EXTENSION" by (simp add: def_ok_def INVALID_EXTENSION_def)
  ultimately show ?thesis by (simp add: ext_defs_def)
qed

lemma type_ext_funs:
  "xd_init (ext_defs e xl ! 0) = None" "xd_init (ext_defs e xl ! 1) = None"
  "xd_final (ext_defs e xl ! 0) = None" "xd_final (ext_defs e xl ! 1) = None"
  "xd_parse_ctos (ext_defs e xl ! 0) = Some (\<lambda>pkt _ _ _. tls_parse_ctos_srv_type_ext pkt)"
  "xd_parse_ctos (ext_defs e xl ! 1) = Some (\<lambda>pkt _ _ _. tls_parse_ctos_clnt_type_ext pkt)"
  "xd_parse_stoc (ext_defs e xl ! 0) = Some (\<lambda>pkt _ _ _. tls_parse_stoc_srv_type_ext pkt)"
  "xd_parse_stoc (ext_defs e xl ! 1) = Some (\<lambda>pkt _ _ _. tls_parse_stoc_clnt_type_ext pkt)"
  "xd_construct_ctos (ext_defs e xl ! 0) = Some (\<lambda>pkt _ _ _. tls_construct_ctos_srv_type_ext e pkt)"
  "xd_construct_ctos (ext_defs e xl ! 1) = Some (\<lambda>pkt _ _ _. tls_construct_ctos_clnt_type_ext e pkt)"
  "xd_construct_stoc (ext_defs e xl ! 0) = Some (\<lambda>pkt _ _ _. tls_construct_stoc_srv_type_ext e pkt)"
  "xd_construct_stoc (ext_defs e xl ! 1) = Some (\<lambda>pkt _ _ _. tls_construct_stoc_clnt_type_ext e pkt)"
  by (simp_all add: ext_defs_def)

section \<open>What they leave alone\<close>

lemma inits_keep: "list_all def_ok ds \<Longrightarrow> run_inits ds ctx s = (r, s1) \<Longrightarrow> kept_version s s1"
proof (induction ds arbitrary: s)
  case (Cons d ds)
  show ?case
  proof (cases "xd_init d")
    case (Some f)
    obtain b s2 where f: "f ctx s = (b, s2)" by fastforce
    have "kept_version s s2" using Cons.prems(1) Some f by (auto simp: def_ok_def) (metis snd_conv)
    then show ?thesis using Cons Some f kept_trans(2) by (auto split: if_split_asm bool.split_asm)
  qed (use Cons in simp)
qed simp

lemma finals_keep: "list_all def_ok ds \<Longrightarrow> run_finals i ds ctx exts s = (r, s1) \<Longrightarrow> kept s s1"
proof (induction ds arbitrary: i s)
  case (Cons d ds)
  show ?case
  proof (cases "xd_final d")
    case (Some f)
    obtain b s2 where f: "f ctx (re_present (exts ! i)) s = (b, s2)" by fastforce
    have "kept s s2" using Cons.prems(1) Some f by (auto simp: def_ok_def) (metis snd_conv)
    then show ?thesis using Cons Some f kept_trans(1) by (auto split: if_split_asm bool.split_asm)
  qed (use Cons in auto)
qed simp

lemma def_ok_at: "others_ok xl \<Longrightarrow> 2 \<le> i \<Longrightarrow> i < 28 \<Longrightarrow> def_ok (ext_defs e xl ! i)"
  using others_defs [of xl e] by (auto simp: list_all_length length_ext_defs dest!: spec [of _ "i - 2"] le_Suc_ex)

lemma no_custom: "custext s = [] \<Longrightarrow> custom_ext_parse xl ctx t d x n s = (True, s)"
  by (simp add: custom_ext_parse_def custom_ext_find_def Let_def)

lemma parse_one_keeps:
  assumes "others_ok xl" "custext s = []" "2 \<le> i" "i < 28" "tls_parse_extension e xl i ctx exts x n s = Some (r, exts1, s1)"
  shows "kept s s1"
proof -
  have d: "def_ok (ext_defs e xl ! i)" by (rule def_ok_at [OF assms(1,3,4)])
  have P: "kept s s2" if "(if server s then xd_parse_ctos (ext_defs e xl ! i) else xd_parse_stoc (ext_defs e xl ! i)) = Some f"
    "f dat ctx x n s = Some (b, s2)" for f dat b s2
    using d that by (auto simp: def_ok_def keeps_parse_def outcome_def split: if_split_asm)
  show ?thesis using assms(2,4,5)
    by (auto simp: tls_parse_extension_def no_custom length_ext_defs Let_def bind_eq_Some_conv
        split: if_split_asm option.split_asm intro: P)
qed

lemma parse_from_keeps:
  "others_ok xl \<Longrightarrow> custext s = [] \<Longrightarrow> 2 \<le> i \<Longrightarrow> i + k \<le> 28 \<Longrightarrow> parse_from k i e xl ctx exts x n s = Some (r, exts1, s1) \<Longrightarrow> kept s s1"
proof (induction k arbitrary: i exts s)
  case (Suc k)
  obtain b e1 s2 where one: "tls_parse_extension e xl i ctx exts x n s = Some (b, e1, s2)"
    and rest: "if b then parse_from k (Suc i) e xl ctx e1 x n s2 = Some (r, exts1, s1) else s1 = s2"
    using Suc.prems(5) by (auto simp: bind_eq_Some_conv split: if_split_asm)
  have k: "kept s s2" using parse_one_keeps [OF Suc.prems(1-3) _ one] Suc.prems(4) by simp
  then have "custext s2 = []" using Suc.prems(2) by (simp add: kept_def)
  then show ?case using rest k Suc.IH [OF Suc.prems(1), of s2 "Suc i" e1] Suc.prems(3,4) kept_trans(1)
    by (auto split: if_split_asm)
qed simp

text \<open>The parsers of the certificate type extensions, by the side.\<close>

definition type_parser :: "nat \<Rightarrow> SSL \<Rightarrow> bytes \<Rightarrow> SSL \<Rightarrow> (bool \<times> SSL) option" where
  "type_parser i s0 = (if i = 0 then if server s0 then tls_parse_ctos_srv_type_ext else tls_parse_stoc_srv_type_ext
     else if server s0 then tls_parse_ctos_clnt_type_ext else tls_parse_stoc_clnt_type_ext)"

lemma parse_stoc_accepts:
  assumes "tls_parse_stoc_cert_type_ext i pkt s = Some (True, s1)"
  shows "\<exists>t. s1 = set_type_decided i t s"
  using assms by (auto simp: tls_parse_stoc_cert_type_ext_def bind_eq_Some_conv split: if_split_asm option.split_asm)

lemma type_parser_frame: "type_parser i s0 d s = Some (True, s1) \<Longrightarrow> i < 2 \<Longrightarrow>
    version s1 = version s \<and> method_version s1 = method_version s \<and> dtls s1 = dtls s \<and> server s1 = server s \<and> hit s1 = hit s \<and> custext s1 = custext s"
  by (auto simp: type_parser_def tls_parse_ctos_srv_type_ext_def tls_parse_ctos_clnt_type_ext_def tls_parse_stoc_srv_type_ext_def
      tls_parse_stoc_clnt_type_ext_def set_type_decided_def SSL_set_verify_def split: if_split_asm dest!: parse_ctos_accepts parse_stoc_accepts)

text \<open>The place of a type extension in the table: present and not parsed yet.\<close>

definition awaiting :: "RAW_EXTENSION list \<Rightarrow> nat \<Rightarrow> bytes \<Rightarrow> bool" where
  "awaiting exts i d \<longleftrightarrow> i < length exts \<and> re_present (exts ! i) \<and> \<not> re_parsed (exts ! i) \<and> re_data (exts ! i) = d"

lemma parse_type_ext:
  assumes "i < 2" "awaiting exts i d" "extension_is_relevant s 0x2A0 ctx"
  shows "tls_parse_extension e xl i ctx exts x n s =
    map_option (\<lambda>(r, s1). (r, exts[i := (exts ! i)\<lparr>re_parsed := True\<rparr>], s1)) (type_parser i s d s)"
proof -
  have "i = 0 \<or> i = 1" using assms(1) by auto
  then show ?thesis using assms(2,3)
    by (cases "type_parser i s d s")
      (auto simp: tls_parse_extension_def awaiting_def length_ext_defs type_ext_defs type_ext_funs type_parser_def Let_def
        simp del: One_nat_def split: if_split_asm)
qed

lemma parse_from_type:
  assumes "i < 2" "awaiting exts i d" "extension_is_relevant s 0x2A0 ctx" "parse_from (Suc k) i e xl ctx exts x n s = Some (True, e9, s9)"
  shows "\<exists>v. type_parser i s d s = Some (True, v) \<and>
    parse_from k (Suc i) e xl ctx (exts[i := (exts ! i)\<lparr>re_parsed := True\<rparr>]) x n v = Some (True, e9, s9)"
  using assms(4) parse_type_ext [OF assms(1-3), of e xl x n]
  by (cases "type_parser i s d s") (auto split: if_split_asm)

lemma types_parsed:
  assumes "others_ok xl" "custext s = []" "awaiting exts 0 d0" "awaiting exts 1 d1" "extension_is_relevant s 0x2A0 ctx"
    "tls_parse_all_extensions e xl ctx exts x n fin s = Some (True, exts1, s1)"
  shows "\<exists>v1 v2. type_parser 0 s d0 s = Some (True, v1) \<and> type_parser 1 s d1 v1 = Some (True, v2) \<and> kept v2 s1"
proof -
  let ?e1 = "exts[0 := (exts ! 0)\<lparr>re_parsed := True\<rparr>]"
  obtain e9 s9 where run: "parse_from 28 0 e xl ctx exts x n s = Some (True, e9, s9)"
    and fin: "if fin then run_finals 0 (ext_defs e xl) ctx e9 s9 = (True, s1) else s1 = s9"
    using assms(2,6) by (auto simp: tls_parse_all_extensions_def length_ext_defs bind_eq_Some_conv split: if_split_asm prod.split_asm)
  have "parse_from (Suc (Suc 26)) 0 e xl ctx exts x n s = Some (True, e9, s9)" using run by (simp only: numeral_eq_Suc) simp
  then obtain v1 where v1: "type_parser 0 s d0 s = Some (True, v1)"
    and r1: "parse_from (Suc 26) (Suc 0) e xl ctx ?e1 x n v1 = Some (True, e9, s9)"
    using parse_from_type [OF _ assms(3,5), of "Suc 26" e xl x n e9 s9] by (auto simp del: parse_from.simps)
  note f1 = type_parser_frame [OF v1]
  have rel: "extension_is_relevant v1 0x2A0 ctx"
    using assms(5) f1 by (simp add: extension_is_relevant_def SSL_IS_TLS13_def SSL_IS_DTLS_def)
  have a1: "awaiting ?e1 1 d1" using assms(4) by (simp add: awaiting_def)
  have tp: "type_parser 1 v1 = type_parser 1 s" using f1 by (simp add: type_parser_def)
  obtain v2 e2 where v2: "type_parser 1 s d1 v1 = Some (True, v2)"
    and r2: "parse_from 26 2 e xl ctx e2 x n v2 = Some (True, e9, s9)"
    using parse_from_type [OF _ a1 rel, of 26 e xl x n e9 s9] r1 tp
    by (auto simp: numeral_2_eq_2 simp del: parse_from.simps)
  have "custext v2 = []" using type_parser_frame [OF v2] f1 assms(2) by simp
  then have "kept v2 s9" using parse_from_keeps [OF assms(1) _ _ _ r2] by simp
  moreover have "kept s9 s1"
  proof (cases fin)
    case True
    then have "run_finals 2 (drop 2 (ext_defs e xl)) ctx e9 s9 = (True, s1)"
      using fin by (subst (asm) ext_defs_split) (simp add: type_ext_funs type_ext_funs [unfolded One_nat_def] numeral_2_eq_2)
    then show ?thesis by (rule finals_keep [OF others_defs [OF assms(1)]])
  qed (use fin in simp)
  ultimately show ?thesis using v1 v2 kept_trans(1) by blast
qed

section \<open>Construction\<close>

lemma kept_mark [simp]: "kept s (mark_sent i s1) \<longleftrightarrow> kept s s1"
  by (simp add: kept_def mark_sent_def)

lemma kept_mark_left [simp]: "kept (mark_sent i s) s1 \<longleftrightarrow> kept s s1"
  by (simp add: kept_def mark_sent_def)

lemma construct_others:
  "list_all def_ok ds \<Longrightarrow> wpacket_inv pkt \<Longrightarrow> construct_from i ds ctx x n mv pkt s = Some (True, p1, s1) \<Longrightarrow>
    wpacket_inv p1 \<and> subs p1 = subs pkt \<and> (\<exists>d. wcontent p1 = wcontent pkt @ d) \<and> kept s s1"
proof (induction ds arbitrary: i pkt s)
  case (Cons d ds)
  let ?c = "if server s then xd_construct_stoc d else xd_construct_ctos d"
  show ?case
  proof (cases "should_add_extension s (xd_context d) ctx mv \<and> ?c \<noteq> None")
    case False
    then have "construct_from (Suc i) ds ctx x n mv pkt s = Some (True, p1, s1)"
      using Cons.prems(3) by (auto split: if_split_asm option.split_asm)
    then show ?thesis using Cons.IH Cons.prems(1,2) by simp
  next
    case True
    then obtain f where f: "?c = Some f" by auto
    then have "appends_ext f" using Cons.prems(1) by (auto simp: def_ok_def split: if_split_asm)
    moreover obtain ret p2 s2 where c: "f pkt ctx x n s = Some (ret, p2, s2)" "ret \<noteq> EXT_RETURN_FAIL"
      and r: "\<exists>s3. (s3 = s2 \<or> s3 = mark_sent i s2) \<and> construct_from (Suc i) ds ctx x n mv p2 s3 = Some (True, p1, s1)"
      using Cons.prems(3) True f by (auto simp: bind_eq_Some_conv split: if_split_asm)
    ultimately have F: "wpacket_inv p2" "subs p2 = subs pkt" "\<exists>d. wcontent p2 = wcontent pkt @ d" "kept s s2"
      using Cons.prems(2) by (auto simp: appends_ext_def outcome_def)
    obtain s3 where s3: "kept s s3" "construct_from (Suc i) ds ctx x n mv p2 s3 = Some (True, p1, s1)"
      using r F(4) kept_mark by metis
    show ?thesis using Cons.IH [OF _ F(1) s3(2)] Cons.prems(1) F(2,3) kept_trans(1) [OF s3(1)] by auto
  qed
qed simp

definition type_body :: "nat \<Rightarrow> SSL \<Rightarrow> bytes" where
  "type_body i s = (if server s then be_bytes 1 (unat (word_of_int (type_decided (ct_of i s)) :: u64))
     else put_prefixed 1 (offer (support (ct_of i s))))"

definition type_writer :: "nat \<Rightarrow> env \<Rightarrow> SSL \<Rightarrow> WPACKET \<Rightarrow> SSL \<Rightarrow> (EXT_RETURN \<times> WPACKET \<times> SSL) option" where
  "type_writer i e s0 = (if server s0 then tls_construct_stoc_cert_type_ext e i else tls_construct_ctos_cert_type_ext e i)"

lemma type_written:
  assumes "ct_idx i" "SSL_is_RFC8902_supported s" "wpacket_inv pkt" "type_writer i e s pkt s = Some (ret, p1, s1)" "ret \<noteq> EXT_RETURN_FAIL"
  shows "ret = EXT_RETURN_SENT" "s1 = s" "wpacket_inv p1" "subs p1 = subs pkt" "wcontent p1 = wcontent pkt @ ext_block (i, type_body i s)"
proof -
  note A = wp.appendsD [OF ctos_appends [of "malloc_ok e" i "support (ct_of i s)"] assms(3)]
    wp.appendsD [OF stoc_appends [of "malloc_ok e" i "unat (word_of_int (type_decided (ct_of i s)) :: u64)"] assms(3)]
  show "ret = EXT_RETURN_SENT" "s1 = s" "wpacket_inv p1" "subs p1 = subs pkt" "wcontent p1 = wcontent pkt @ ext_block (i, type_body i s)"
    using assms A by (auto simp: type_writer_def tls_construct_stoc_cert_type_ext_def tls_construct_ctos_cert_type_ext_def
        ext_block_def type_body_def split: if_split_asm prod.split_asm bool.split_asm)
qed

lemma type_constructs:
  "(if server t then xd_construct_stoc (ext_defs e xl ! 0) else xd_construct_ctos (ext_defs e xl ! 0)) = Some (\<lambda>p _ _ _. type_writer 20 e t p)"
  "(if server t then xd_construct_stoc (ext_defs e xl ! 1) else xd_construct_ctos (ext_defs e xl ! 1)) = Some (\<lambda>p _ _ _. type_writer 19 e t p)"
  by (simp_all add: type_ext_funs type_writer_def tls_construct_stoc_srv_type_ext_def tls_construct_ctos_srv_type_ext_def
      tls_construct_stoc_clnt_type_ext_def tls_construct_ctos_clnt_type_ext_def fun_eq_iff del: One_nat_def)

text \<open>Marking the extension as sent, where the message asks for answers.\<close>

definition flagged :: "u32 \<Rightarrow> nat \<Rightarrow> SSL \<Rightarrow> SSL" where
  "flagged ctx i t = (if has ctx (SSL_EXT_CLIENT_HELLO OR SSL_EXT_TLS1_3_CERTIFICATE_REQUEST OR SSL_EXT_TLS1_3_NEW_SESSION_TICKET)
     then mark_sent i t else t)"

lemma flagged_frame [simp]: "SSL_is_RFC8902_supported (flagged ctx i t) = SSL_is_RFC8902_supported t"
  "should_add_extension (flagged ctx i t) a b mv = should_add_extension t a b mv" "type_body j (flagged ctx i t) = type_body j t"
  "kept s (flagged ctx i t) = kept s t" "kept (flagged ctx i t) s = kept t s" "type_writer j e (flagged ctx i t) = type_writer j e t" "server (flagged ctx i t) = server t"
  "ct_of j (flagged ctx i t) = ct_of j t"
  by (simp_all add: flagged_def mark_sent_def SSL_is_RFC8902_supported_def should_add_extension_def extension_is_relevant_def SSL_IS_TLS13_def
      SSL_IS_DTLS_def type_body_def ct_of_def kept_def type_writer_def)

lemma construct_first:
  "should_add_extension s (xd_context d) ctx mv \<Longrightarrow> (if server s then xd_construct_stoc d else xd_construct_ctos d) = Some (\<lambda>p _ _ _. f p) \<Longrightarrow>
    construct_from i (d # ds) ctx x n mv pkt s = Option.bind (f pkt s) (\<lambda>(ret, p1, s1).
      if ret = EXT_RETURN_FAIL then Some (False, p1, s1)
      else construct_from (Suc i) ds ctx x n mv p1 (if ret = EXT_RETURN_SENT then flagged ctx i s1 else s1))"
  by (cases "f pkt s") (auto simp: flagged_def)

lemma types_constructed_from:
  assumes "others_ok xl" "SSL_is_RFC8902_supported s" "wpacket_inv pkt" "should_add_extension s 0x2A0 ctx mv"
    "construct_from 0 (ext_defs e xl) ctx x n mv pkt s = Some (True, p1, s1)"
  shows "wpacket_inv p1 \<and> subs p1 = subs pkt \<and> kept s s1 \<and>
    (\<exists>d. wcontent p1 = wcontent pkt @ ext_block (20, type_body 20 s) @ ext_block (19, type_body 19 s) @ d)"
proof -
  have ix: "ct_idx 20" "ct_idx 19" by (simp_all add: ct_idx_def)
  note c = construct_first [OF _ type_constructs(1), of s e xl ctx mv] construct_first [OF _ type_constructs(2), of _ e xl ctx mv]
  obtain r2 p2 s2 where w2: "type_writer 20 e s pkt s = Some (r2, p2, s2)" "r2 \<noteq> EXT_RETURN_FAIL"
    and c2: "construct_from (Suc 0) (ext_defs e xl ! 1 # drop 2 (ext_defs e xl)) ctx x n mv p2
      (if r2 = EXT_RETURN_SENT then flagged ctx 0 s2 else s2) = Some (True, p1, s1)"
    using assms(4,5) by (subst (asm) ext_defs_split)
      (auto simp: c type_ext_defs bind_eq_Some_conv simp del: One_nat_def construct_from.simps split: if_split_asm)
  note T2 = type_written [OF ix(1) assms(2,3) w2]
  let ?s2 = "flagged ctx 0 s"
  obtain r3 p3 s3 where w3: "type_writer 19 e ?s2 p2 ?s2 = Some (r3, p3, s3)" "r3 \<noteq> EXT_RETURN_FAIL"
    and c3: "construct_from (Suc (Suc 0)) (drop 2 (ext_defs e xl)) ctx x n mv p3
      (if r3 = EXT_RETURN_SENT then flagged ctx (Suc 0) s3 else s3) = Some (True, p1, s1)"
    using assms(4) c2 T2(1,2)
    by (auto simp: c type_ext_defs bind_eq_Some_conv simp del: One_nat_def construct_from.simps split: if_split_asm)
  have "SSL_is_RFC8902_supported ?s2" using assms(2) by simp
  note T3 = type_written [OF ix(2) this T2(3) w3]
  note O = construct_others [OF others_defs [OF assms(1)] T3(3) c3]
  show ?thesis using O T2 T3 by (auto split: if_split_asm)
qed

text \<open>The highest version the framework works with.\<close>

definition hello_max :: "ext_lib \<Rightarrow> u32 \<Rightarrow> SSL \<Rightarrow> nat" where
  "hello_max xl ctx s = (if has ctx SSL_EXT_CLIENT_HELLO then snd (snd (xl_min_max xl s)) else 0)"

lemma set_flags_frame:
  assumes "wpacket_inv p" "WPACKET_set_flags fl p = (True, p1)"
  shows "wpacket_inv p1" "wcontent p1 = wcontent p" "subs p1 = (hd (subs p))\<lparr>wflags := fl\<rparr> # tl (subs p)"
proof -
  obtain u us where u: "subs p = u # us" "p1 = p\<lparr>subs := u\<lparr>wflags := fl\<rparr> # us\<rparr>"
    using assms(2) by (auto simp: WPACKET_set_flags_def split: list.split_asm)
  have "list_all (sub_ok (written p)) (u\<lparr>wflags := fl\<rparr> # us)" using wpacket_invD(7) [OF assms(1)] u(1) by (simp add: sub_ok_def)
  then show "wpacket_inv p1" "wcontent p1 = wcontent p" "subs p1 = (hd (subs p))\<lparr>wflags := fl\<rparr> # tl (subs p)"
    using wpacket_inv_subs [OF assms(1)] u by simp_all
qed

lemma types_constructed:
  assumes "others_ok xl" "custext s = []" "SSL_is_RFC8902_supported s" "wpacket_inv pkt"
    "should_add_extension s 0x2A0 ctx (hello_max xl ctx s)" "tls_construct_extensions e xl pkt ctx x n s = Some (True, p4, s4)"
  shows "\<exists>d. wcontent p4 = wcontent pkt @ put_prefixed 2 (ext_block (20, type_body 20 s) @ ext_block (19, type_body 19 s) @ d) \<and>
    wpacket_inv p4 \<and> kept s s4 \<and> fits_prefix 2 (ext_block (20, type_body 20 s) @ ext_block (19, type_body 19 s) @ d)"
proof -
  have ci: "s\<lparr>custext := custom_ext_init (custext s)\<rparr> = s" using assms(2) by (cases s) (simp add: custom_ext_init_def)
  have ca: "custom_ext_add e xl ctx q x n mv s = (True, q, s)" for q mv using assms(2) by (simp add: custom_ext_add_def)
  let ?fl = "if has ctx (SSL_EXT_CLIENT_HELLO OR SSL_EXT_TLS1_2_SERVER_HELLO) then WPACKET_set_flags WPACKET_FLAGS_ABANDON_ON_ZERO_LENGTH else Pair True"
  obtain b p1 where w0: "wseq (WPACKET_start_sub_packet_len (malloc_ok e) 2) ?fl pkt = (b, p1)" by fastforce
  obtain reason lo hi where mm: "(if has ctx SSL_EXT_CLIENT_HELLO then xl_min_max xl s else (0, 0, 0)) = (reason, lo, hi)"
    by (cases "if has ctx SSL_EXT_CLIENT_HELLO then xl_min_max xl s else (0, 0, 0)")
  have hi: "hello_max xl ctx s = hi" using mm by (simp add: hello_max_def split: if_split_asm)
  note run = assms(6) [unfolded tls_construct_extensions_def w0 mm ci ca if_cancel prod.case bool.case]
  have w: "wseq (WPACKET_start_sub_packet_len (malloc_ok e) 2) ?fl pkt = (True, p1)" using run w0 by (cases b) simp_all
  have r0: "reason = 0" using run w w0 by (auto split: if_split_asm)
  have "construct_from 0 (ext_defs e xl) ctx x n hi p1 s \<noteq> None"
    using run w w0 r0 by (cases "construct_from 0 (ext_defs e xl) ctx x n hi p1 s") simp_all
  then obtain ok p3 s5 where c5: "construct_from 0 (ext_defs e xl) ctx x n hi p1 s = Some (ok, p3, s5)" by auto
  obtain b4 q4 where cl0: "WPACKET_close (malloc_ok e) p3 = (b4, q4)" by fastforce
  have "ok \<and> b4 \<and> q4 = p4 \<and> s5 = s4" using run w w0 r0 c5 cl0 by (cases ok; cases b4) auto
  then have c: "construct_from 0 (ext_defs e xl) ctx x n (hello_max xl ctx s) p1 s = Some (True, p3, s4)"
    and cl: "WPACKET_close (malloc_ok e) p3 = (True, p4)" using c5 cl0 hi by simp_all
  obtain q1 where st: "WPACKET_start_sub_packet_len (malloc_ok e) 2 pkt = (True, q1)" and f: "?fl q1 = (True, p1)"
    using w by (auto simp: wseq_def split: prod.split_asm bool.split_asm)
  note S = WPACKET_start_spec [OF assms(4) st]
  have P: "wpacket_inv p1" "wcontent p1 = wcontent q1" "\<exists>fl. subs p1 = (hd (subs q1))\<lparr>wflags := fl\<rparr> # tl (subs q1)"
    using f S set_flags_frame [of q1 _ p1] by (auto split: if_split_asm)
  then obtain fl where fl: "subs p1 = (hd (subs q1))\<lparr>wflags := fl\<rparr> # tl (subs q1)" by blast
  obtain d where T: "wpacket_inv p3" "subs p3 = subs p1" "kept s s4"
    "wcontent p3 = wcontent p1 @ ext_block (20, type_body 20 s) @ ext_block (19, type_body 19 s) @ d"
    using types_constructed_from [OF assms(1,3) P(1) assms(5) c] by blast
  let ?b = "ext_block (20, type_body 20 s) @ ext_block (19, type_body 19 s) @ d"
  have cont: "wcontent p3 = wcontent q1 @ ?b" "subs p3 = (hd (subs q1))\<lparr>wflags := fl\<rparr> # tl (subs q1)" using T(2,4) P(2) fl by simp_all
  have ne: "fl = 0 \<or> ?b \<noteq> []" using ext_block_nonempty by simp
  note C = WPACKET_start_close_flags [OF assms(4) _ st T(1) cont ne cl]
  show ?thesis using C T(3) by (intro exI [of _ d]) simp
qed

text \<open>Blocks are read in one way.\<close>

lemma ext_block_inject:
  assumes "block_ok b" "block_ok c" "ext_block b @ p = ext_block c @ q"
  shows "b = c \<and> p = q"
proof -
  obtain t d u d1 where bc: "b = (t, d)" "c = (u, d1)" by (cases b, cases c)
  have "\<exists>tw p1. PACKET_get_net_2 (ext_block b @ p) = Some (tw, p1) \<and> unat tw = t \<and> PACKET_get_length_prefixed_2 p1 = Some (d, p)"
    "\<exists>tw p1. PACKET_get_net_2 (ext_block b @ p) = Some (tw, p1) \<and> unat tw = u \<and> PACKET_get_length_prefixed_2 p1 = Some (d1, q)"
    using read_block [of "ext_block b @ p" t d p] read_block [of "ext_block b @ p" u d1 q] assms bc by auto
  then show ?thesis using bc by auto
qed

lemma ext_bytes_starts:
  assumes "block_ok b" "\<forall>c\<in>set bs. block_ok c" "ext_bytes bs = ext_block b @ p"
  shows "\<exists>bs1. bs = b # bs1 \<and> p = ext_bytes bs1"
proof (cases bs)
  case Nil
  then show ?thesis using assms(3) ext_block_nonempty [of b] by simp
next
  case (Cons c cs)
  then show ?thesis using ext_block_inject [of c b "ext_bytes cs" p] assms by auto
qed

section \<open>From the hello to the decision\<close>

lemma install_parsed: "re_parsed (install e xl ctx s bs raw i ! j) = re_parsed (raw ! j)"
proof (induction bs arbitrary: raw i)
  case (Cons b bs)
  have "re_parsed (raw[k := (raw ! k)\<lparr>re_data := d, re_present := True, re_type := t, re_order := i\<rparr>] ! j) = re_parsed (raw ! j)" for k d t
    by (cases "j = k \<and> k < length raw") (auto simp: list_update_beyond not_less)
  then show ?case using Cons by (simp split: option.split)
qed simp

lemma collected_awaiting:
  assumes "exts_ok e xl ctx (collecting ctx s) bs" "(t, d) \<in> set bs" "has ctx 0x2A0" "i = 0 \<and> t = 20 \<or> i = 1 \<and> t = 19"
  shows "awaiting (raw_table e xl ctx s bs) i d"
proof -
  have p: "ext_place e xl ctx (collecting ctx s) t = Some i" using assms(3,4) place_type by metis
  then have "i \<in> set (places e xl ctx (collecting ctx s) bs)" using assms(2) by (force simp: places_iff)
  then show ?thesis using raw_table_facts(1) [OF assms(1), of i] raw_table_facts(2) [OF assms(1,2), of i] p ext_place_range [OF p]
    by (simp add: awaiting_def install_parsed raw_none_def)
qed

lemma hello_received:
  assumes "others_ok xl" "custext s = []" "block_ok (20, d0)" "block_ok (19, d1)" "has ctx 0x2A0"
    "tls_collect_extensions e xl (ext_block (20, d0) @ ext_block (19, d1) @ d) ctx ini s = (Some raw, s1)"
    "length raw1 = length raw" "\<forall>i<2. raw1 ! i = raw ! i"
    "kept s1 t" "extension_is_relevant t 0x2A0 ctx1" "tls_parse_all_extensions e xl ctx1 raw1 x n fin t = Some (True, exts1, s2)"
  shows "\<exists>v1 v2. type_parser 0 t d0 t = Some (True, v1) \<and> type_parser 1 t d1 v1 = Some (True, v2) \<and> kept v2 s2 \<and> kept s t"
proof -
  obtain w bs where b: "ext_block (20, d0) @ ext_block (19, d1) @ d = ext_bytes bs" "exts_ok e xl ctx (collecting ctx s) bs"
    "raw = raw_table e xl ctx s bs"
    and i: "if ini then run_inits (ext_defs e xl) ctx ((collecting ctx s)\<lparr>os := w\<rparr>) = (True, s1) else s1 = (collecting ctx s)\<lparr>os := w\<rparr>"
    by (rule collected [OF assms(6)])
  have ok: "\<forall>c\<in>set bs. block_ok c" using b(2) by (auto simp: exts_ok_def)
  obtain bs1 where 1: "bs = (20, d0) # bs1" "ext_block (19, d1) @ d = ext_bytes bs1"
    using ext_bytes_starts [OF assms(3) ok b(1) [symmetric]] by blast
  obtain bs2 where 2: "bs1 = (19, d1) # bs2" using ext_bytes_starts [OF assms(4) _ 1(2) [symmetric]] ok 1(1) by auto
  have "(20, d0) \<in> set bs" "(19, d1) \<in> set bs" using 1(1) 2 by simp_all
  then have aw: "awaiting raw 0 d0" "awaiting raw 1 d1" using collected_awaiting [OF b(2) _ assms(5), folded b(3)] by blast+
  then have aw: "awaiting raw1 0 d0" "awaiting raw1 1 d1" using assms(7,8) by (simp_all add: awaiting_def)
  have col: "kept s ((collecting ctx s)\<lparr>os := w\<rparr>)"
    using assms(2) by (simp add: kept_def collecting_def custom_ext_init_def)
  have "kept s s1"
  proof (cases ini)
    case True
    then have "run_inits (drop 2 (ext_defs e xl)) ctx ((collecting ctx s)\<lparr>os := w\<rparr>) = (True, s1)"
      using i by (subst (asm) ext_defs_split) (simp add: type_ext_funs type_ext_funs [unfolded One_nat_def])
    then have "kept ((collecting ctx s)\<lparr>os := w\<rparr>) s1"
      using inits_keep [OF others_defs [OF assms(1)]] by (simp add: kept_version_def)
    with col show ?thesis by (rule kept_trans(1))
  qed (use i col in simp)
  then have k: "kept s t" using assms(9) kept_trans(1) by blast
  then have "custext t = []" using assms(2) by (simp add: kept_def)
  from types_parsed [OF assms(1) this aw assms(10,11)] k show ?thesis by blast
qed

lemma kept_types: "kept s s1 \<Longrightarrow> ct_of i s1 = ct_of i s \<and> SSL_is_RFC8902_supported s1 = SSL_is_RFC8902_supported s"
  by (simp add: kept_def ct_of_def SSL_is_RFC8902_supported_def)

lemma set_type_other: "ct_idx i \<Longrightarrow> ct_idx j \<Longrightarrow> i \<noteq> j \<Longrightarrow> ct_of j (set_type_decided i t s) = ct_of j s"
  by (auto simp: ct_idx_def ct_of_def set_type_decided_def)

lemma set_verify_types [simp]: "ct_of i (SSL_set_verify m s) = ct_of i s" "SSL_is_RFC8902_supported (SSL_set_verify m s) = SSL_is_RFC8902_supported s"
  by (simp_all add: SSL_set_verify_def ct_of_def SSL_is_RFC8902_supported_def)

lemma offer_short: "length (offer cs) < 256" "block_ok (20, put_prefixed 1 (offer cs))" "block_ok (19, put_prefixed 1 (offer cs))"
  by (simp_all add: offer_def block_ok_def put_prefixed_def)

text \<open>The server decides, the client takes the decision over.\<close>

definition decided :: "SSL \<Rightarrow> SSL \<Rightarrow> SSL \<Rightarrow> bool" where
  "decided c v r \<longleftrightarrow> SSL_is_RFC8902_supported r \<and> (\<forall>i. ct_idx i \<longrightarrow>
     decide (support (ct_of i v)) (offer (support (ct_of i c))) = Some (type_decided (ct_of i r)))"

lemma server_decides:
  assumes "server t" "SSL_is_RFC8902_supported t" "type_parser 0 t (put_prefixed 1 (offer (support (ct_of 20 c)))) t = Some (True, v1)"
    "type_parser 1 t (put_prefixed 1 (offer (support (ct_of 19 c)))) v1 = Some (True, v2)" "kept v2 s2"
  shows "decided c t s2"
proof -
  have ix: "ct_idx 20" "ct_idx 19" by (simp_all add: ct_idx_def)
  obtain t0 where t0: "decide (support (ct_of 20 t)) (offer (support (ct_of 20 c))) = Some t0" "v1 = set_type_decided 20 t0 t"
    using assms(1,3) parse_ctos_eq [OF ix(1) assms(2) offer_short(1)]
    by (auto simp: type_parser_def tls_parse_ctos_srv_type_ext_def split: option.split_asm)
  have s: "SSL_is_RFC8902_supported (SSL_set_verify SSL_VERIFY_PEER v1)" using assms(2) t0(2) by simp
  have n: "ct_of 19 v1 = ct_of 19 t" using set_type_other [OF ix] t0(2) by simp
  obtain t1 where t1: "decide (support (ct_of 19 t)) (offer (support (ct_of 19 c))) = Some t1"
    "v2 = set_type_decided 19 t1 (SSL_set_verify SSL_VERIFY_PEER v1)"
    using assms(1,4) parse_ctos_eq [OF ix(2) s offer_short(1)] n
    by (auto simp: type_parser_def tls_parse_ctos_clnt_type_ext_def split: option.split_asm)
  have "type_decided (ct_of 20 v2) = t0" using t1(2) t0(2) set_type_other [OF ix(2,1)] by simp
  moreover have "type_decided (ct_of 19 v2) = t1" using t1(2) by simp
  moreover have "SSL_is_RFC8902_supported v2" using t1(2) s by simp
  ultimately show ?thesis using t0(1) t1(1) kept_types [OF assms(5)] by (auto simp: decided_def ct_idx_def)
qed

lemma client_takes:
  assumes "\<not> server t" "SSL_is_RFC8902_supported t" "decided t v r"
    "type_parser 0 t (be_bytes 1 (unat (word_of_int (type_decided (ct_of 20 r)) :: u64))) t = Some (True, v1)"
    "type_parser 1 t (be_bytes 1 (unat (word_of_int (type_decided (ct_of 19 r)) :: u64))) v1 = Some (True, v2)" "kept v2 s2"
  shows "decided t v s2"
proof -
  have ix: "ct_idx 20" "ct_idx 19" by (simp_all add: ct_idx_def)
  have d: "decide (support (ct_of i v)) (offer (support (ct_of i t))) = Some (type_decided (ct_of i r))" if "ct_idx i" for i
    using assms(3) that by (simp add: decided_def)
  have v1: "v1 = set_type_decided 20 (type_decided (ct_of 20 r)) t"
    using assms(1,4) parse_stoc_offer [OF ix(1) assms(2) d [OF ix(1)]] by (simp add: type_parser_def tls_parse_stoc_srv_type_ext_def)
  then have n: "ct_of 19 v1 = ct_of 19 t" "SSL_is_RFC8902_supported v1" using set_type_other [OF ix] assms(2) by simp_all
  have v2: "v2 = set_type_decided 19 (type_decided (ct_of 19 r)) v1"
    using assms(1,5) parse_stoc_offer [OF ix(2) n(2)] d [OF ix(2)] n(1) by (simp add: type_parser_def tls_parse_stoc_clnt_type_ext_def)
  have "type_decided (ct_of 20 v2) = type_decided (ct_of 20 r)" using v1 v2 set_type_other [OF ix(2,1)] by simp
  moreover have "type_decided (ct_of 19 v2) = type_decided (ct_of 19 r)" using v2 by simp
  moreover have "SSL_is_RFC8902_supported v2" using v2 n(2) by simp
  ultimately show ?thesis using d kept_types [OF assms(6)] by (auto simp: decided_def ct_idx_def)
qed

section \<open>The negotiation in the hellos\<close>

text \<open>
  The extensions of a hello are written with \<open>body\<close> as their block. They are read: collected with their
  initialisation and, once the version is TLS 1.3, parsed; single extensions other than the two may
  have been parsed before.
\<close>

definition hello_written :: "env \<Rightarrow> ext_lib \<Rightarrow> u32 \<Rightarrow> SSL \<Rightarrow> bytes \<Rightarrow> SSL \<Rightarrow> bool" where
  "hello_written e xl ctx s body s1 \<longleftrightarrow> (\<exists>pkt x n pkt1. wpacket_inv pkt \<and>
     tls_construct_extensions e xl pkt ctx x n s = Some (True, pkt1, s1) \<and> wcontent pkt1 = wcontent pkt @ put_prefixed 2 body)"

definition hello_read :: "env \<Rightarrow> ext_lib \<Rightarrow> u32 \<Rightarrow> u32 \<Rightarrow> bytes \<Rightarrow> SSL \<Rightarrow> SSL \<Rightarrow> bool" where
  "hello_read e xl cctx ctx body s s2 \<longleftrightarrow> (\<exists>raw s1 raw1 t x n fin exts.
     tls_collect_extensions e xl body cctx True s = (Some raw, s1) \<and> length raw1 = length raw \<and> (\<forall>i<2. raw1 ! i = raw ! i) \<and>
     kept s1 t \<and> SSL_IS_TLS13 t \<and> version t \<noteq> SSL3_VERSION \<and> tls_parse_all_extensions e xl ctx raw1 x n fin t = Some (True, exts, s2))"

lemma tls13_relevant: "SSL_IS_TLS13 s \<Longrightarrow> version s \<noteq> SSL3_VERSION \<Longrightarrow> extension_is_relevant s 0x2A0 ctx"
  by (simp add: extension_is_relevant_def Let_def has_def)

lemma hello_starts:
  assumes "others_ok xl" "custext s = []" "SSL_is_RFC8902_supported s" "should_add_extension s 0x2A0 ctx (hello_max xl ctx s)"
    "hello_written e xl ctx s body s1"
  shows "\<exists>d. body = ext_block (20, type_body 20 s) @ ext_block (19, type_body 19 s) @ d \<and> kept s s1"
proof -
  obtain pkt x n pkt1 where w: "wpacket_inv pkt" "tls_construct_extensions e xl pkt ctx x n s = Some (True, pkt1, s1)"
    "wcontent pkt1 = wcontent pkt @ put_prefixed 2 body"
    using assms(5) by (auto simp: hello_written_def)
  obtain d where d: "wcontent pkt1 = wcontent pkt @ put_prefixed 2 (ext_block (20, type_body 20 s) @ ext_block (19, type_body 19 s) @ d)" "kept s s1"
    using types_constructed [OF assms(1-3) w(1) assms(4) w(2)] by blast
  then have "put_prefixed 2 body = put_prefixed 2 (ext_block (20, type_body 20 s) @ ext_block (19, type_body 19 s) @ d)"
    using w(3) by simp
  then show ?thesis using d(2) by (auto simp: put_prefixed_def)
qed

lemma hello_parsed:
  assumes "others_ok xl" "custext s = []" "block_ok (20, d0)" "block_ok (19, d1)" "has cctx 0x2A0"
    "hello_read e xl cctx ctx (ext_block (20, d0) @ ext_block (19, d1) @ d) s s2"
  shows "\<exists>t v1 v2. type_parser 0 t d0 t = Some (True, v1) \<and> type_parser 1 t d1 v1 = Some (True, v2) \<and> kept v2 s2 \<and> kept s t"
  using assms(6) hello_received [OF assms(1-5)] tls13_relevant unfolding hello_read_def by metis

lemma decided_cong:
  "(\<And>i. ct_of i c1 = ct_of i c) \<Longrightarrow> (\<And>i. ct_of i v1 = ct_of i v) \<Longrightarrow> decided c1 v1 r = decided c v r"
  by (simp add: decided_def)

text \<open>
  C6. The certificate types negotiated by a TLS 1.3 ClientHello and ServerHello, through their complete
  extension blocks and whatever the other extensions of the two endpoints write and parse: when the server
  has read the client's extensions and the client the server's answer, without a failure, both sides have the same
  type for the server's and for the client's certificate, IEEE 1609.2 where both support it and X.509
  otherwise, and then both support that.
\<close>

theorem hello_types_agree:
  assumes "others_ok xl" "others_ok yl"
    and client: "\<not> server c" "custext c = []" "SSL_is_RFC8902_supported c" "\<not> SSL_IS_DTLS c" "version c \<noteq> SSL3_VERSION"
      "TLS1_3_VERSION \<le> snd (snd (xl_min_max xl c))"
    and srvr: "server v" "custext v = []" "SSL_is_RFC8902_supported v"
    and hello: "hello_written ce xl SSL_EXT_CLIENT_HELLO c hello c1" "hello_read se yl SSL_EXT_CLIENT_HELLO SSL_EXT_CLIENT_HELLO hello v v1"
    and answer: "kept v1 v2" "SSL_IS_TLS13 v2" "version v2 \<noteq> SSL3_VERSION" "hello_written se yl SSL_EXT_TLS1_3_SERVER_HELLO v2 answer v3"
      "kept c1 c2" "hello_read ce xl (SSL_EXT_TLS1_2_SERVER_HELLO OR SSL_EXT_TLS1_3_SERVER_HELLO) SSL_EXT_TLS1_3_SERVER_HELLO answer c2 c3"
    and i: "ct_idx i"
  shows "type_decided (ct_of i c3) = type_decided (ct_of i v3) \<and>
    (if has (support (ct_of i v)) SSL_RFC8902_1609 \<and> has (support (ct_of i c)) SSL_RFC8902_1609
     then type_decided (ct_of i c3) = CertificateType1609Dot2
     else type_decided (ct_of i c3) = CertificateTypeX509 \<and> has (support (ct_of i v)) SSL_RFC8902_X509 \<and> has (support (ct_of i c)) SSL_RFC8902_X509)"
proof -
  have cx: "has (0x80 :: u32) 0x2A0" "has (0x100 OR 0x200 :: u32) 0x2A0" by (simp_all add: has_def)
  have add: "should_add_extension c 0x2A0 0x80 (hello_max xl 0x80 c)"
    using client by (simp add: should_add_extension_def hello_max_def extension_is_relevant_def Let_def has_def)
  obtain d where h: "hello = ext_block (20, put_prefixed 1 (offer (support (ct_of 20 c)))) @
      ext_block (19, put_prefixed 1 (offer (support (ct_of 19 c)))) @ d" and kc: "kept c c1"
    using hello_starts [OF assms(1) client(2,3) add hello(1)] client(1) by (auto simp: type_body_def)
  obtain t u1 u2 where s: "type_parser 0 t (put_prefixed 1 (offer (support (ct_of 20 c)))) t = Some (True, u1)"
    "type_parser 1 t (put_prefixed 1 (offer (support (ct_of 19 c)))) u1 = Some (True, u2)" "kept u2 v1" "kept v t"
    using hello_parsed [OF assms(2) srvr(2) offer_short(2,3) cx(1) hello(2) [unfolded h]] by blast
  have "server t" "SSL_is_RFC8902_supported t" using srvr(1,3) kept_types [OF s(4)] kept_server [OF s(4)] by simp_all
  from server_decides [OF this s(1-3)] have D: "decided c v v1" using kept_types [OF s(4)] decided_cong [of c c t v v1] by simp
  have k2: "custext v2 = []" "server v2" "ct_of i v2 = ct_of i v1" for i
    using kept_types [OF answer(1)] answer(1) s srvr(1,2) type_parser_frame [OF s(1)] type_parser_frame [OF s(2)] by (auto simp: kept_def)
  have sup2: "SSL_is_RFC8902_supported v2" using D kept_types [OF answer(1)] by (simp add: decided_def)
  have add2: "should_add_extension v2 0x2A0 0x200 (hello_max yl 0x200 v2)"
    using answer(2,3) by (simp add: should_add_extension_def tls13_relevant has_def)
  let ?b = "\<lambda>i. be_bytes 1 (unat (word_of_int (type_decided (ct_of i v1)) :: u64))"
  obtain d2 where a: "answer = ext_block (20, ?b 20) @ ext_block (19, ?b 19) @ d2" and kv: "kept v2 v3"
    using hello_starts [OF assms(2) k2(1) sup2 add2 answer(4)] k2(2,3) by (auto simp: type_body_def)
  have k0: "kept c c2" using kc answer(5) kept_trans(1) by blast
  have bo: "block_ok (20, ?b 20)" "block_ok (19, ?b 19)" "custext c2 = []" using k0 client(2) by (simp_all add: block_ok_def kept_def)
  obtain t2 w1 w2 where r: "type_parser 0 t2 (?b 20) t2 = Some (True, w1)" "type_parser 1 t2 (?b 19) w1 = Some (True, w2)" "kept w2 c3" "kept c2 t2"
    using hello_parsed [OF assms(1) bo(3,1,2) cx(2) answer(6) [unfolded a]] by blast
  have k9: "kept c t2" using k0 r(4) kept_trans(1) by blast
  then have "\<not> server t2" "SSL_is_RFC8902_supported t2" "decided t2 v v1"
    using client(1,3) kept_types [OF k9] D decided_cong [of t2 c v v v1] by (auto simp: kept_def)
  from client_takes [OF this r(1-3)] have "decided c v c3" using kept_types [OF k9] decided_cong [of t2 c v v c3] by simp
  then have "decide (support (ct_of i v)) (offer (support (ct_of i c))) = Some (type_decided (ct_of i c3))"
    "decide (support (ct_of i v)) (offer (support (ct_of i c))) = Some (type_decided (ct_of i v3))"
    using D i kept_types [OF kv] k2(3) by (simp_all add: decided_def)
  then show ?thesis by (auto simp: decide_offer)
qed

section \<open>Extensions that do nothing\<close>

definition idle_ext :: "EXTENSION_DEFINITION \<Rightarrow> bool" where
  "idle_ext d \<longleftrightarrow> (\<forall>f. xd_init d = Some f \<longrightarrow> f = (\<lambda>_ s. (True, s))) \<and>
     (\<forall>f. xd_construct_stoc d = Some f \<or> xd_construct_ctos d = Some f \<longrightarrow> f = (\<lambda>p _ _ _ s. Some (EXT_RETURN_NOT_SENT, p, s)))"

lemma idle_defs: "list_all idle_ext (drop 2 (ext_defs e xl0))"
proof -
  have "idle_ext (ext_def xl0 i t c b1 b2 b3 b4 b5 b6)" for i t c b1 b2 b3 b4 b5 b6
    by (simp add: idle_ext_def ext_def_def xl0_def)
  moreover have "idle_ext INVALID_EXTENSION" by (simp add: idle_ext_def INVALID_EXTENSION_def)
  ultimately show ?thesis by (simp add: ext_defs_def)
qed

lemma idle_others: "others_ok xl0"
  by (simp add: others_ok_def xl0_def keeps_parse_def appends_ext_def outcome_def)

lemma idle_inits: "list_all idle_ext ds \<Longrightarrow> run_inits ds ctx s = (True, s)"
  by (induction ds arbitrary: s) (auto simp: idle_ext_def split: option.split)

lemma idle_construct: "list_all idle_ext ds \<Longrightarrow> construct_from i ds ctx x n mv p s = Some (True, p, s)"
proof (induction ds arbitrary: i)
  case (Cons d ds)
  have "f = (\<lambda>p _ _ _ s. Some (EXT_RETURN_NOT_SENT, p, s))" if "(if server s then xd_construct_stoc d else xd_construct_ctos d) = Some f" for f
    using Cons.prems that by (auto simp: idle_ext_def split: if_split_asm)
  then show ?case using Cons by (auto split: option.split)
qed simp

lemma parse_absent:
  "i + k \<le> length exts \<Longrightarrow> \<forall>j. i \<le> j \<and> j < i + k \<longrightarrow> \<not> re_present (exts ! j) \<Longrightarrow> parse_from k i e xl ctx exts x n s = Some (True, exts, s)"
  by (induction k arbitrary: i) (simp_all add: tls_parse_extension_def Let_def)

text \<open>Only the two extensions are in the table: they are parsed one after the other.\<close>

lemma parse_two:
  assumes "custext s = []" "awaiting raw 0 d0" "awaiting raw 1 d1" "length raw = 28" "\<forall>j. 2 \<le> j \<and> j < 28 \<longrightarrow> \<not> re_present (raw ! j)"
    "extension_is_relevant s 0x2A0 ctx" "type_parser 0 s d0 s = Some (True, v1)" "type_parser 1 s d1 v1 = Some (True, v2)"
  shows "\<exists>raw1. tls_parse_all_extensions e xl ctx raw x n False s = Some (True, raw1, v2)"
proof -
  let ?e1 = "raw[0 := (raw ! 0)\<lparr>re_parsed := True\<rparr>]"
  let ?e2 = "?e1[1 := (?e1 ! 1)\<lparr>re_parsed := True\<rparr>]"
  note f = type_parser_frame [OF assms(7)]
  have r: "extension_is_relevant v1 0x2A0 ctx" using assms(6) f by (simp add: extension_is_relevant_def SSL_IS_TLS13_def SSL_IS_DTLS_def)
  have a: "awaiting ?e1 1 d1" using assms(3) by (simp add: awaiting_def)
  have tp: "type_parser 1 v1 = type_parser 1 s" using f by (simp add: type_parser_def)
  have p0: "tls_parse_extension e xl 0 ctx raw x n s = Some (True, ?e1, v1)"
    using parse_type_ext [OF _ assms(2,6), of e xl x n] assms(7) by simp
  have p1: "tls_parse_extension e xl 1 ctx ?e1 x n v1 = Some (True, ?e2, v2)"
    using parse_type_ext [OF _ a r, of e xl x n] assms(8) tp by simp
  have "parse_from 26 2 e xl ctx ?e2 x n v2 = Some (True, ?e2, v2)" using assms(4,5) by (intro parse_absent) auto
  then have "parse_from (Suc (Suc 26)) 0 e xl ctx raw x n s = Some (True, ?e2, v2)"
    using p0 p1 by (simp only: parse_from.simps bind.simps prod.case if_True One_nat_def numeral_2_eq_2)
  then show ?thesis using assms(1) by (simp add: tls_parse_all_extensions_def length_ext_defs)
qed

lemma two_places:
  assumes "has ctx 0x2A0"
  shows "ext_place e xl ctx s 20 = Some 0" "ext_place e xl ctx s 19 = Some 1" "places e xl ctx s [(20, d0), (19, d1)] = [0, 1]"
proof -
  show p: "ext_place e xl ctx s 20 = Some 0" "ext_place e xl ctx s 19 = Some 1" using assms place_type by blast+
  then show "places e xl ctx s [(20, d0), (19, d1)] = [0, 1]" by (simp add: places_simps)
qed

lemma collect_inits:
  assumes "\<And>t. run_inits (ext_defs e xl) ctx t = (True, t)"
  shows "tls_collect_extensions e xl p ctx True s = tls_collect_extensions e xl p ctx False s"
  by (simp add: tls_collect_extensions_def assms Let_def split: prod.split bool.split option.split)

lemma hello_read_idle:
  assumes "custext s = []" "block_ok (20, d0)" "block_ok (19, d1)" "has cctx 0x2A0" "malloc_ok e = mem_always"
    "\<not> unsolicited cctx 20 0 s" "\<not> unsolicited cctx 19 1 s" "SSL_IS_TLS13 s" "version s \<noteq> SSL3_VERSION"
    "type_parser 0 s d0 s = Some (True, v1)" "type_parser 1 s d1 v1 = Some (True, v2)"
  shows "hello_read e xl0 cctx ctx (ext_block (20, d0) @ ext_block (19, d1)) s v2"
proof -
  let ?bs = "[(20, d0), (19, d1)]" and ?c = "collecting cctx s"
  define raw where "raw = raw_table e xl0 cctx s ?bs"
  have c: "?c = s" using assms(1) by (cases s) (simp add: collecting_def custom_ext_init_def)
  note pl = two_places [OF assms(4), of e xl0 s]
  have ok: "exts_ok e xl0 cctx ?c ?bs" unfolding c using assms(2-4,6,7) pl
    by (auto simp: exts_ok_def verify_type_ext simp del: One_nat_def)
  obtain w where w: "tls_collect_extensions e xl0 (ext_bytes ?bs) cctx False s = (Some raw, s\<lparr>os := w\<rparr>)"
    using collect_accepts [OF assms(5) ok] c unfolding raw_def by auto
  have ini: "run_inits (ext_defs e xl0) cctx t = (True, t)" for t
    using idle_inits [OF idle_defs] by (subst ext_defs_split) (simp add: type_ext_funs type_ext_funs [unfolded One_nat_def])
  have col: "tls_collect_extensions e xl0 (ext_bytes ?bs) cctx True s = (Some raw, s\<lparr>os := w\<rparr>)"
    unfolding collect_inits [OF ini] by (rule w)
  have aw: "awaiting raw 0 d0" "awaiting raw 1 d1"
    using collected_awaiting [OF ok _ assms(4), folded raw_def] by (auto simp del: One_nat_def)
  have len: "length raw = 28" using assms(1) by (simp only: raw_def length_install length_replicate list.size add_0_right)
  have "\<forall>j. 2 \<le> j \<and> j < 28 \<longrightarrow> \<not> re_present (raw ! j)"
    using raw_table_facts(1) [OF ok, folded raw_def] assms(1) pl(3) by (auto simp: c)
  from parse_two [OF assms(1) aw len this tls13_relevant [OF assms(8,9)] assms(10,11)]
  obtain raw1 where "tls_parse_all_extensions e xl0 ctx raw None 0 False s = Some (True, raw1, v2)" by blast
  moreover have "kept (s\<lparr>os := w\<rparr>) s" by (simp add: kept_def)
  ultimately show ?thesis using assms(8,9) col unfolding hello_read_def by (simp del: install.simps) blast
qed

lemma type_writer_room:
  assumes "ct_idx i" "SSL_is_RFC8902_supported s" "malloc_ok e = mem_always" "server s \<longrightarrow> type_decided (ct_of i s) \<in> {0, 3}"
    "wpacket_inv p" "subs p \<noteq> []" "7 \<le> wspace p"
  shows "\<exists>p1. type_writer i e s p s = Some (EXT_RETURN_SENT, p1, s) \<and> wspace p \<le> wspace p1 + 7"
proof (cases "server s")
  case True
  let ?t = "unat (word_of_int (type_decided (ct_of i s)) :: u64)"
  have b: "i < 65536" "?t < 256" "5 \<le> wspace p" using assms(1,4,7) True by (auto simp: ct_idx_def)
  obtain p1 where "stoc_writes mem_always i ?t p = (True, p1)" "wspace p1 = wspace p - 5"
    by (rule wpt.succeedsD [OF stoc_succeeds [OF b(1,2)] assms(5,6) b(3)])
  then show ?thesis using assms(1-4) True by (auto simp: type_writer_def tls_construct_stoc_cert_type_ext_def)
next
  case False
  let ?o = "offer (support (ct_of i s))"
  have b: "i < 65536" "5 + length ?o \<le> wspace p" "length ?o \<le> 2" using assms(1,7) by (auto simp: ct_idx_def offer_def)
  obtain p1 where "ctos_writes mem_always i (support (ct_of i s)) p = (True, p1)" "wspace p1 = wspace p - (5 + length ?o)"
    by (rule wpt.succeedsD [OF ctos_succeeds [OF b(1)] assms(5,6) b(2)])
  then show ?thesis using assms(1-3) b(3) False by (auto simp: type_writer_def tls_construct_ctos_cert_type_ext_def)
qed

lemma two_written:
  assumes "SSL_is_RFC8902_supported s" "malloc_ok e = mem_always" "\<And>i. ct_idx i \<Longrightarrow> server s \<Longrightarrow> type_decided (ct_of i s) \<in> {0, 3}"
    "wpacket_inv p" "subs p \<noteq> []" "14 \<le> wspace p" "should_add_extension s 0x2A0 ctx mv"
  shows "\<exists>p2 s2. construct_from 0 (ext_defs e xl0) ctx x n mv p s = Some (True, p2, s2) \<and> wpacket_inv p2 \<and> subs p2 = subs p \<and>
    wcontent p2 = wcontent p @ ext_block (20, type_body 20 s) @ ext_block (19, type_body 19 s)"
proof -
  have ix: "ct_idx 20" "ct_idx 19" by (simp_all add: ct_idx_def)
  have sp: "7 \<le> wspace p" using assms(6) by simp
  obtain p1 where p1: "type_writer 20 e s p s = Some (EXT_RETURN_SENT, p1, s)" "wspace p \<le> wspace p1 + 7"
    using type_writer_room [OF ix(1) assms(1,2) _ assms(4,5) sp] assms(3) ix(1) by blast
  note T1 = type_written [OF ix(1) assms(1,4) p1(1)]
  let ?s = "flagged ctx 0 s"
  have S: "SSL_is_RFC8902_supported ?s" "server ?s \<longrightarrow> type_decided (ct_of 19 ?s) \<in> {0, 3}" "subs p1 \<noteq> []" "7 \<le> wspace p1"
    using assms(1,3,5,6) ix(2) p1(2) T1 by simp_all
  obtain p2 where p2: "type_writer 19 e ?s p1 ?s = Some (EXT_RETURN_SENT, p2, ?s)"
    using type_writer_room [OF ix(2) S(1) assms(2) S(2) _ S(3,4)] T1(3) by auto
  note T2 = type_written [OF ix(2) S(1) T1(3) p2]
  have "construct_from 0 (ext_defs e xl0) ctx x n mv p s = Some (True, p2, flagged ctx (Suc 0) ?s)"
    using assms(7) p1(1) p2 idle_construct [OF idle_defs]
    by (subst ext_defs_split) (simp add: construct_first [OF _ type_constructs(1)] construct_first [OF _ type_constructs(2)] type_ext_defs
        del: construct_from.simps One_nat_def)
  then show ?thesis using T1 T2 by simp
qed

lemma hello_written_idle:
  assumes "custext s = []" "SSL_is_RFC8902_supported s" "malloc_ok e = mem_always"
    "\<And>i. ct_idx i \<Longrightarrow> server s \<Longrightarrow> type_decided (ct_of i s) \<in> {0, 3}"
    "wpacket_inv pkt" "subs pkt \<noteq> []" "16 \<le> wspace pkt" "should_add_extension s 0x2A0 ctx (hello_max xl0 ctx s)"
  shows "\<exists>s1. hello_written e xl0 ctx s (ext_block (20, type_body 20 s) @ ext_block (19, type_body 19 s)) s1"
proof -
  let ?b = "ext_block (20, type_body 20 s) @ ext_block (19, type_body 19 s)"
  have ci: "s\<lparr>custext := custom_ext_init (custext s)\<rparr> = s" using assms(1) by (cases s) (simp add: custom_ext_init_def)
  have ca: "custom_ext_add e xl0 ctx q x n mv s = (True, q, s)" for q mv x n using assms(1) by (simp add: custom_ext_add_def)
  have mm: "(if has ctx SSL_EXT_CLIENT_HELLO then xl_min_max xl0 s else (0, 0, 0)) =
      (0, (if has ctx SSL_EXT_CLIENT_HELLO then 0x303 else 0), hello_max xl0 ctx s)" by (simp add: xl0_def hello_max_def)
  obtain q1 where st: "WPACKET_start_sub_packet_len mem_always 2 pkt = (True, q1)" "wspace q1 = wspace pkt - 2" "subs q1 \<noteq> []"
    using start_room [OF assms(5,6), of 2] assms(7) by auto
  note S = WPACKET_start_spec [OF assms(5) st(1)]
  let ?fl = "if has ctx (SSL_EXT_CLIENT_HELLO OR SSL_EXT_TLS1_2_SERVER_HELLO) then WPACKET_set_flags WPACKET_FLAGS_ABANDON_ON_ZERO_LENGTH else Pair True"
  obtain p1 fl where f: "?fl q1 = (True, p1)" "wpacket_inv p1" "wcontent p1 = wcontent q1" "subs p1 = (hd (subs q1))\<lparr>wflags := fl\<rparr> # tl (subs q1)"
    "wspace p1 = wspace q1"
  proof (cases "has ctx (SSL_EXT_CLIENT_HELLO OR SSL_EXT_TLS1_2_SERVER_HELLO)")
    case True
    obtain p1 where p1: "WPACKET_set_flags WPACKET_FLAGS_ABANDON_ON_ZERO_LENGTH q1 = (True, p1)" "wspace p1 = wspace q1"
      using st(3) by (auto simp: WPACKET_set_flags_def neq_Nil_conv wspace_def)
    show ?thesis using that [of p1] set_flags_frame [OF _ p1(1)] S p1 True by auto
  qed (use that [of q1 0] S in auto)
  have sp: "14 \<le> wspace p1" "subs p1 \<noteq> []" using f(4,5) st(2) assms(7) by simp_all
  obtain p2 s2 where c: "construct_from 0 (ext_defs e xl0) ctx None 0 (hello_max xl0 ctx s) p1 s = Some (True, p2, s2)"
    "wpacket_inv p2" "subs p2 = subs p1" "wcontent p2 = wcontent p1 @ ?b"
    using two_written [OF assms(2-4) f(2) sp(2,1) assms(8)] by blast
  obtain r p3 where cl: "WPACKET_close mem_always p2 = (r, p3)" by fastforce
  have cont: "wcontent p2 = wcontent q1 @ ?b" "subs p2 = (hd (subs q1))\<lparr>wflags := fl\<rparr> # tl (subs q1)" "fl = 0 \<or> ?b \<noteq> []"
    using c f ext_block_nonempty by simp_all
  note C = WPACKET_start_close_flags [OF assms(5) _ st(1) c(2) cont cl]
  have "length ?b \<le> 30" by (simp add: ext_block_def put_prefixed_def type_body_def offer_def)
  then have r: r using C(1) by (simp add: fits_prefix_def)
  have "tls_construct_extensions e xl0 pkt ctx None 0 s = Some (True, p3, s2)"
    unfolding tls_construct_extensions_def mm ci if_cancel using st(1) f(1) c(1) cl r assms(3) ca by (simp add: wseq_def)
  moreover have "wcontent p3 = wcontent pkt @ put_prefixed 2 ?b" using C(2) r by simp
  ultimately show ?thesis using assms(5) unfolding hello_written_def by blast
qed

text \<open>A client whose two extensions are marked as sent, and a server.\<close>

definition sent0 :: SSL where
  "sent0 = ssl0\<lparr>ext := (ext ssl0)\<lparr>extflags := replicate 28 2\<rparr>\<rparr>"

definition srv0 :: SSL where
  "srv0 = ssl0\<lparr>server := True\<rparr>"

lemma hello0:
  "SSL_is_RFC8902_supported ssl0" "custext ssl0 = []" "support (ct_of i ssl0) = 3" "server srv0" "kept ssl0 sent0" "\<not> server ssl0"
  "SSL_is_RFC8902_supported srv0" "SSL_IS_TLS13 srv0" "SSL_IS_TLS13 sent0" "custext srv0 = []" "ct_of i srv0 = ct_of i ssl0"
  "SSL_is_RFC8902_supported sent0" "\<not> server sent0" "custext sent0 = []" "ct_of i sent0 = ct_of i ssl0" "SSL_IS_TLS13 ssl0"
  "version ssl0 = 0x304" "version srv0 = 0x304" "version sent0 = 0x304"
  by (simp_all add: ssl0_def srv0_def sent0_def SSL_is_RFC8902_supported_def ieee0_def rfc0_def ct_of_def SSL_IS_TLS13_def SSL_IS_DTLS_def kept_def)

lemma read0_server:
  "hello_read env0 xl0 0x80 0x80 (ext_block (20, put_prefixed 1 (offer 3)) @ ext_block (19, put_prefixed 1 (offer 3))) srv0
     (set_type_decided 19 3 (SSL_set_verify SSL_VERIFY_PEER (set_type_decided 20 3 srv0)))"
proof (rule hello_read_idle [OF hello0(10) offer_short(2,3) _ sample_malloc _ _ hello0(8)])
  have ix: "ct_idx 20" "ct_idx 19" by (simp_all add: ct_idx_def)
  have d: "decide 3 (offer 3) = Some 3" by (simp add: decide_offer has_def)
  show "type_parser 0 srv0 (put_prefixed 1 (offer 3)) srv0 = Some (True, set_type_decided 20 3 srv0)"
    using parse_ctos_eq [OF ix(1) hello0(7) offer_short(1)] hello0(3,4,11) d by (simp add: type_parser_def tls_parse_ctos_srv_type_ext_def)
  let ?s = "SSL_set_verify SSL_VERIFY_PEER (set_type_decided 20 3 srv0)"
  have "SSL_is_RFC8902_supported ?s" "support (ct_of 19 ?s) = 3" using hello0(3,7,11) set_type_other [OF ix] by simp_all
  then show "type_parser 1 srv0 (put_prefixed 1 (offer 3)) (set_type_decided 20 3 srv0) = Some (True, set_type_decided 19 3 ?s)"
    using parse_ctos_eq [OF ix(2) _ offer_short(1), of ?s] hello0(4) d by (simp add: type_parser_def tls_parse_ctos_clnt_type_ext_def)
qed (simp_all add: has_def unsolicited_def hello0)

lemma read0_client:
  "hello_read env0 xl0 (0x100 OR 0x200) 0x200 (ext_block (20, [3]) @ ext_block (19, [3])) sent0 (set_type_decided 19 3 (set_type_decided 20 3 sent0))"
proof (rule hello_read_idle [OF hello0(14) _ _ _ sample_malloc _ _ hello0(9)])
  have ix: "ct_idx 20" "ct_idx 19" by (simp_all add: ct_idx_def)
  have d: "decide 3 (offer 3) = Some 3" by (simp add: decide_offer has_def)
  have b: "be_bytes 1 (unat (word_of_int 3 :: u64)) = [3]" by simp
  show "type_parser 0 sent0 [3] sent0 = Some (True, set_type_decided 20 3 sent0)"
    using parse_stoc_offer [OF ix(1) hello0(12), of 3 3] hello0(3,13,15) d b by (simp add: type_parser_def tls_parse_stoc_srv_type_ext_def)
  show "type_parser 1 sent0 [3] (set_type_decided 20 3 sent0) = Some (True, set_type_decided 19 3 (set_type_decided 20 3 sent0))"
    using parse_stoc_offer [OF ix(2), of "set_type_decided 20 3 sent0" 3 3] hello0(3,12,13,15) set_type_other [OF ix] d b
    by (simp add: type_parser_def tls_parse_stoc_clnt_type_ext_def)
  show "\<not> unsolicited (0x100 OR 0x200) 20 0 sent0" "\<not> unsolicited (0x100 OR 0x200) 19 1 sent0"
    by (simp_all add: unsolicited_def extflag_def sent0_def has_def)
qed (simp_all add: has_def hello0 block_ok_def)

lemma hello_types_agree_witness:
  "\<exists>hello c1 v1 answer v3 c3. hello_written env0 xl0 SSL_EXT_CLIENT_HELLO ssl0 hello c1 \<and>
     hello_read env0 xl0 SSL_EXT_CLIENT_HELLO SSL_EXT_CLIENT_HELLO hello srv0 v1 \<and>
     hello_written env0 xl0 SSL_EXT_TLS1_3_SERVER_HELLO v1 answer v3 \<and>
     hello_read env0 xl0 (SSL_EXT_TLS1_2_SERVER_HELLO OR SSL_EXT_TLS1_3_SERVER_HELLO) SSL_EXT_TLS1_3_SERVER_HELLO answer sent0 c3 \<and>
     type_decided (ct_of 20 c3) = 3 \<and> type_decided (ct_of 20 v3) = 3"
proof -
  let ?v0 = "set_type_decided 20 3 srv0" and ?c0 = "set_type_decided 20 3 sent0"
  let ?v = "set_type_decided 19 3 (SSL_set_verify SSL_VERIFY_PEER ?v0)" and ?c = "set_type_decided 19 3 ?c0"
  let ?b = "\<lambda>s. ext_block (20, type_body 20 s) @ ext_block (19, type_body 19 s)"
  have ix: "ct_idx 20" "ct_idx 19" by (simp_all add: ct_idx_def)
  have tb: "type_body i ssl0 = put_prefixed 1 (offer 3)" "ct_idx i \<Longrightarrow> type_body i ?v = [3]" for i
    using hello0 by (auto simp: type_body_def ct_idx_def set_type_other [OF ix(2,1)] set_type_decided_def SSL_set_verify_def ct_of_def)
  have fr: "SSL_is_RFC8902_supported ?v" "SSL_IS_TLS13 ?v" "custext ?v = []" "server ?v" "version ?v = 0x304" "kept ssl0 c1 \<Longrightarrow> kept c1 sent0"
    "\<And>i. ct_idx i \<Longrightarrow> type_decided (ct_of i ?v) = 3" for c1
    using hello0 by (auto simp: SSL_is_RFC8902_supported_def SSL_IS_TLS13_def SSL_IS_DTLS_def set_type_decided_def SSL_set_verify_def kept_def ct_of_def ct_idx_def)
  have add: "should_add_extension ssl0 0x2A0 0x80 (hello_max xl0 0x80 ssl0)" "should_add_extension ?v 0x2A0 0x200 (hello_max xl0 0x200 ?v)"
    using tls13_relevant [OF hello0(16)] tls13_relevant [OF fr(2)] hello0(16,17) fr(5)
    by (simp_all add: should_add_extension_def hello_max_def xl0_def has_def SSL_IS_TLS13_def)
  obtain c1 where w1: "hello_written env0 xl0 0x80 ssl0 (?b ssl0) c1"
    using hello_written_idle [OF hello0(2,1) sample_malloc _ wpacket0_ok(1,2) _ add(1)] hello0(6) by auto
  obtain v3 where w2: "hello_written env0 xl0 0x200 ?v (?b ?v) v3"
    using hello_written_idle [OF fr(3,1) sample_malloc _ wpacket0_ok(1,2) _ add(2)] fr(7) by auto
  have r1: "hello_read env0 xl0 0x80 0x80 (?b ssl0) srv0 ?v"
    using read0_server tb(1) by simp
  have r2: "hello_read env0 xl0 (0x100 OR 0x200) 0x200 (?b ?v) sent0 ?c"
    using read0_client tb(2) ix by simp
  have "kept ssl0 c1" using hello_starts [OF idle_others hello0(2,1) add(1) w1] by blast
  from hello_types_agree [OF idle_others idle_others hello0(6,2,1) _ _ _ hello0(4,10,7) w1 r1 kept_refl(1) fr(2) _ w2 fr(6) [OF this] r2 ix(1)]
  have "type_decided (ct_of 20 ?c) = 3 \<and> type_decided (ct_of 20 v3) = 3"
    using hello0(3,11,16,17) fr(5) by (simp add: xl0_def has_def SSL_IS_TLS13_def)
  then show ?thesis using w1 w2 r1 r2 by blast
qed

end
