(* ===== verification/Version_Negotiation.thy ===== *)
theory Version_Negotiation
  imports Ext_Framework
begin

text \<open>
  The choice of the protocol version (\<^verbatim>\<open>ssl/statem/statem_lib.c\<close>, from \<open>version_cmp\<close> to
  \<open>ssl_set_client_hello_version\<close>), the supported versions extension (\<^verbatim>\<open>extensions_clnt.c\<close>, \<^verbatim>\<open>extensions_srvr.c\<close>) and
  the downgrade sentinels in the random value of a hello (\<open>ssl_fill_hello_random\<close> of \<^verbatim>\<open>s3_lib.c\<close>). The certificate type
  extensions exist in TLS 1.3 only, so which certificates count depends on this choice.
\<close>

section \<open>Methods and tables\<close>

abbreviation (input) TLS1_1_VERSION :: nat where "TLS1_1_VERSION \<equiv> 0x302"
abbreviation (input) TLS1_2_VERSION :: nat where "TLS1_2_VERSION \<equiv> 0x303"
abbreviation (input) DTLS1_VERSION :: nat where "DTLS1_VERSION \<equiv> 0xFEFF"
abbreviation (input) DTLS1_2_VERSION :: nat where "DTLS1_2_VERSION \<equiv> 0xFEFD"
abbreviation (input) DTLS_ANY_VERSION :: nat where "DTLS_ANY_VERSION \<equiv> 0x1FFFF"

abbreviation (input) SSL_OP_NO_TLSv1 :: u64 where "SSL_OP_NO_TLSv1 \<equiv> 0x4000000"
abbreviation (input) SSL_OP_NO_TLSv1_2 :: u64 where "SSL_OP_NO_TLSv1_2 \<equiv> 0x8000000"
abbreviation (input) SSL_OP_NO_TLSv1_1 :: u64 where "SSL_OP_NO_TLSv1_1 \<equiv> 0x10000000"
abbreviation (input) SSL_OP_NO_TLSv1_3 :: u64 where "SSL_OP_NO_TLSv1_3 \<equiv> 0x20000000"
abbreviation (input) SSL_METHOD_NO_SUITEB :: u32 where "SSL_METHOD_NO_SUITEB \<equiv> 2"
abbreviation (input) SSL_MODE_SEND_CLIENTHELLO_TIME :: u32 where "SSL_MODE_SEND_CLIENTHELLO_TIME \<equiv> 0x20"
abbreviation (input) SSL_MODE_SEND_SERVERHELLO_TIME :: u32 where "SSL_MODE_SEND_SERVERHELLO_TIME \<equiv> 0x40"
abbreviation (input) SSL_MODE_SEND_FALLBACK_SCSV :: u32 where "SSL_MODE_SEND_FALLBACK_SCSV \<equiv> 0x80"

abbreviation (input) SSL_R_VERSION_TOO_LOW :: err_reason where "SSL_R_VERSION_TOO_LOW \<equiv> ERR_CODE 396"
abbreviation (input) SSL_R_VERSION_TOO_HIGH :: err_reason where "SSL_R_VERSION_TOO_HIGH \<equiv> ERR_CODE 166"
abbreviation (input) SSL_R_UNSUPPORTED_PROTOCOL :: err_reason where "SSL_R_UNSUPPORTED_PROTOCOL \<equiv> ERR_CODE 258"
abbreviation (input) SSL_R_AT_LEAST_TLS_1_2_NEEDED_IN_SUITEB_MODE :: err_reason where
  "SSL_R_AT_LEAST_TLS_1_2_NEEDED_IN_SUITEB_MODE \<equiv> ERR_CODE 158"
abbreviation (input) SSL_R_WRONG_SSL_VERSION :: err_reason where "SSL_R_WRONG_SSL_VERSION \<equiv> ERR_CODE 266"
abbreviation (input) SSL_R_BAD_LEGACY_VERSION :: err_reason where "SSL_R_BAD_LEGACY_VERSION \<equiv> ERR_CODE 292"
abbreviation (input) SSL_R_INAPPROPRIATE_FALLBACK :: err_reason where "SSL_R_INAPPROPRIATE_FALLBACK \<equiv> ERR_CODE 373"
abbreviation (input) SSL_R_BAD_PROTOCOL_VERSION_NUMBER :: err_reason where "SSL_R_BAD_PROTOCOL_VERSION_NUMBER \<equiv> ERR_CODE 116"

abbreviation (input) TLSEXT_IDX_supported_versions :: nat where "TLSEXT_IDX_supported_versions \<equiv> 19"

text \<open>What is used of a method: its version, its flags and the option that switches it off.\<close>

record SSL_METHOD =
  mt_version :: nat
  mt_flags :: u32
  mt_mask :: u64

definition tlsv1_3_method :: SSL_METHOD where
  "tlsv1_3_method = \<lparr>mt_version = TLS1_3_VERSION, mt_flags = 0, mt_mask = SSL_OP_NO_TLSv1_3\<rparr>"

definition tlsv1_2_method :: SSL_METHOD where
  "tlsv1_2_method = \<lparr>mt_version = TLS1_2_VERSION, mt_flags = 0, mt_mask = SSL_OP_NO_TLSv1_2\<rparr>"

definition tlsv1_1_method :: SSL_METHOD where
  "tlsv1_1_method = \<lparr>mt_version = TLS1_1_VERSION, mt_flags = SSL_METHOD_NO_SUITEB, mt_mask = SSL_OP_NO_TLSv1_1\<rparr>"

definition tlsv1_method :: SSL_METHOD where
  "tlsv1_method = \<lparr>mt_version = TLS1_VERSION, mt_flags = SSL_METHOD_NO_SUITEB, mt_mask = SSL_OP_NO_TLSv1\<rparr>"

record version_info =
  vi_version :: nat
  cmeth :: "SSL_METHOD option"
  smeth :: "SSL_METHOD option"

text \<open>The tables without their final entry of version 0; SSL 3.0 and DTLS are not in the build.\<close>

definition tls_version_table :: "version_info list" where
  "tls_version_table = [
     \<lparr>vi_version = TLS1_3_VERSION, cmeth = Some tlsv1_3_method, smeth = Some tlsv1_3_method\<rparr>,
     \<lparr>vi_version = TLS1_2_VERSION, cmeth = Some tlsv1_2_method, smeth = Some tlsv1_2_method\<rparr>,
     \<lparr>vi_version = TLS1_1_VERSION, cmeth = Some tlsv1_1_method, smeth = Some tlsv1_1_method\<rparr>,
     \<lparr>vi_version = TLS1_VERSION, cmeth = Some tlsv1_method, smeth = Some tlsv1_method\<rparr>,
     \<lparr>vi_version = SSL3_VERSION, cmeth = None, smeth = None\<rparr>]"

definition dtls_version_table :: "version_info list" where
  "dtls_version_table = [
     \<lparr>vi_version = DTLS1_2_VERSION, cmeth = None, smeth = None\<rparr>,
     \<lparr>vi_version = DTLS1_VERSION, cmeth = None, smeth = None\<rparr>,
     \<lparr>vi_version = DTLS1_BAD_VER, cmeth = None, smeth = None\<rparr>]"

text \<open>The table of a version-flexible method.\<close>

definition version_table :: "nat \<Rightarrow> version_info list option" where
  "version_table mv = (if mv = TLS_ANY_VERSION then Some tls_version_table
     else if mv = DTLS_ANY_VERSION then Some dtls_version_table else None)"

text \<open>
  What the choice asks of the rest: the security callback for a version, Suite B mode, the callbacks that may
  bring a certificate later and whether the curve of the EC certificate goes with the signature algorithms.
\<close>

record ver_lib =
  vl_security :: "SSL \<Rightarrow> nat \<Rightarrow> bool"
  vl_suiteb :: "SSL \<Rightarrow> bool"
  vl_servername_cb :: "SSL \<Rightarrow> bool"
  vl_psk_find_session_cb :: "SSL \<Rightarrow> bool"
  vl_cert_cb :: "SSL \<Rightarrow> bool"
  vl_sigalg_curve :: "SSL \<Rightarrow> bool"

section \<open>Which versions are supported\<close>

definition version_cmp :: "SSL \<Rightarrow> nat \<Rightarrow> nat \<Rightarrow> int" where
  "version_cmp s a b = (if a = b then 0
     else if \<not> SSL_IS_DTLS s then (if a < b then -1 else 1)
     else if dtls_ver_ordinal b < dtls_ver_ordinal a then -1 else 1)"

definition ssl_method_error :: "ver_lib \<Rightarrow> SSL \<Rightarrow> SSL_METHOD \<Rightarrow> err_reason option" where
  "ssl_method_error vl s method =
     (if (min_proto_version s \<noteq> 0 \<and> version_cmp s (mt_version method) (min_proto_version s) < 0) \<or> \<not> vl_security vl s (mt_version method)
      then Some SSL_R_VERSION_TOO_LOW
      else if max_proto_version s \<noteq> 0 \<and> 0 < version_cmp s (mt_version method) (max_proto_version s) then Some SSL_R_VERSION_TOO_HIGH
      else if has (options s) (mt_mask method) then Some SSL_R_UNSUPPORTED_PROTOCOL
      else if has (mt_flags method) SSL_METHOD_NO_SUITEB \<and> vl_suiteb vl s then Some SSL_R_AT_LEAST_TLS_1_2_NEEDED_IN_SUITEB_MODE
      else None)"

definition ssl_has_cert :: "SSL \<Rightarrow> nat \<Rightarrow> bool" where
  "ssl_has_cert s idx \<longleftrightarrow> idx < 9 \<and> idx < length (pkeys s) \<and> pk_x509 (pkeys s ! idx) \<noteq> None \<and> pk_privatekey (pkeys s ! idx)"

text \<open>The slots of DSA and GOST certificates are passed over; slot 3 is that of EC certificates.\<close>

definition is_tls13_capable :: "ver_lib \<Rightarrow> SSL \<Rightarrow> bool" where
  "is_tls13_capable vl s \<longleftrightarrow> vl_servername_cb vl s \<or> vl_psk_find_session_cb vl s \<or> vl_cert_cb vl s \<or>
     list_ex (\<lambda>i. i \<notin> {2, 4, 5, 6} \<and> ssl_has_cert s i \<and> (i \<noteq> 3 \<or> vl_sigalg_curve vl s)) [0..<9]"

fun supported_in :: "ver_lib \<Rightarrow> SSL \<Rightarrow> nat \<Rightarrow> version_info list \<Rightarrow> SSL_METHOD option" where
  "supported_in vl s ver [] = None"
| "supported_in vl s ver (vent # vents) =
     (if 0 < version_cmp s ver (vi_version vent) then None
      else (case cmeth vent of
          None \<Rightarrow> supported_in vl s ver vents
        | Some method \<Rightarrow>
            if version_cmp s ver (vi_version vent) = 0 \<and> ssl_method_error vl s method = None \<and>
               (\<not> server s \<or> ver \<noteq> TLS1_3_VERSION \<or> is_tls13_capable vl s)
            then Some method else supported_in vl s ver vents))"

text \<open>Whether the version is supported, and the method that is then stored.\<close>

definition ssl_version_supported :: "ver_lib \<Rightarrow> SSL \<Rightarrow> nat \<Rightarrow> bool \<times> SSL_METHOD option" where
  "ssl_version_supported vl s ver = (case version_table (method_version s) of
      None \<Rightarrow> (version_cmp s ver (version s) = 0, None)
    | Some table \<Rightarrow> (case supported_in vl s ver table of
        None \<Rightarrow> (False, None)
      | Some method \<Rightarrow> (True, Some method)))"

definition method_ok :: "ver_lib \<Rightarrow> SSL \<Rightarrow> SSL_METHOD option \<Rightarrow> bool" where
  "method_ok vl s m \<longleftrightarrow> (case m of None \<Rightarrow> False | Some method \<Rightarrow> ssl_method_error vl s method = None)"

definition ssl_check_version_downgrade :: "ver_lib \<Rightarrow> SSL \<Rightarrow> bool" where
  "ssl_check_version_downgrade vl s =
     (if version s = ctx_method_version s then True
      else (case version_table (ctx_method_version s) of
          None \<Rightarrow> False
        | Some table \<Rightarrow> (case find (\<lambda>vent. method_ok vl s (smeth vent)) table of
            None \<Rightarrow> False
          | Some vent \<Rightarrow> version s = vi_version vent)))"

text \<open>The bound after the call.\<close>

definition ssl_set_version_bound :: "nat \<Rightarrow> int \<Rightarrow> nat \<Rightarrow> bool \<times> nat" where
  "ssl_set_version_bound mv ver bound =
     (if ver = 0 then (True, 0)
      else let ordinal = (if ver = int DTLS1_BAD_VER then 0xff00 else ver);
               valid_tls = (int SSL3_VERSION \<le> ver \<and> ver \<le> int TLS1_3_VERSION);
               valid_dtls = (int DTLS1_2_VERSION \<le> ordinal \<and> ordinal \<le> 0xff00)
      in if \<not> valid_tls \<and> \<not> valid_dtls then (False, bound)
         else if mv = TLS_ANY_VERSION then (True, if valid_tls then nat ver else bound)
         else if mv = DTLS_ANY_VERSION then (True, if valid_dtls then nat ver else bound)
         else (True, bound))"

datatype DOWNGRADE = DOWNGRADE_NONE | DOWNGRADE_TO_1_2 | DOWNGRADE_TO_1_1

definition check_for_downgrade :: "ver_lib \<Rightarrow> SSL \<Rightarrow> nat \<Rightarrow> DOWNGRADE" where
  "check_for_downgrade vl s vers =
     (if vers = TLS1_2_VERSION \<and> fst (ssl_version_supported vl s TLS1_3_VERSION) then DOWNGRADE_TO_1_2
      else if \<not> SSL_IS_DTLS s \<and> vers < TLS1_2_VERSION \<and> fst (ssl_version_supported vl s TLS1_2_VERSION) then DOWNGRADE_TO_1_1
      else DOWNGRADE_NONE)"

section \<open>The server\<close>

record CLIENTHELLO_MSG =
  isv2 :: bool
  legacy_version :: nat
  hello_random :: bytes
  hello_session_id :: bytes
  dtls_cookie :: bytes
  ciphersuites :: PACKET
  compressions :: bytes
  hello_exts :: PACKET
  pre_proc_exts :: "RAW_EXTENSION list"

text \<open>The loop over the list of the extension: the best version so far and its method.\<close>

function pick_version :: "ver_lib \<Rightarrow> SSL \<Rightarrow> PACKET \<Rightarrow> nat \<Rightarrow> SSL_METHOD option \<Rightarrow> nat \<times> SSL_METHOD option \<times> PACKET" where
  "pick_version vl s versionslist best_vers best_method = (case PACKET_get_net_2 versionslist of
      None \<Rightarrow> (best_vers, best_method, versionslist)
    | Some (candidate, rest) \<Rightarrow>
        if version_cmp s (unat candidate) best_vers \<le> 0 then pick_version vl s rest best_vers best_method
        else (case ssl_version_supported vl s (unat candidate) of
            (False, _) \<Rightarrow> pick_version vl s rest best_vers best_method
          | (True, m) \<Rightarrow> pick_version vl s rest (unat candidate) (if m = None then best_method else m)))"
  by pat_completeness auto

termination
  by (relation "measure (\<lambda>(vl, s, versionslist, best_vers, best_method). length versionslist)")
    (auto simp: get_net_2_eq split: if_split_asm)

declare pick_version.simps [simp del]

text \<open>The loop over the table when there is no such extension: a version, or whether one was disabled.\<close>

fun legacy_choice :: "ver_lib \<Rightarrow> SSL \<Rightarrow> nat \<Rightarrow> bool \<Rightarrow> version_info list \<Rightarrow> (nat \<times> SSL_METHOD) + err_reason" where
  "legacy_choice vl s client_ver disabled [] = Inr (if disabled then SSL_R_UNSUPPORTED_PROTOCOL else SSL_R_VERSION_TOO_LOW)"
| "legacy_choice vl s client_ver disabled (vent # vents) = (case smeth vent of
      None \<Rightarrow> legacy_choice vl s client_ver disabled vents
    | Some method \<Rightarrow>
        if version_cmp s client_ver (vi_version vent) < 0 then legacy_choice vl s client_ver disabled vents
        else if ssl_method_error vl s method = None then Inl (vi_version vent, method)
        else legacy_choice vl s client_ver True vents)"

definition use_version :: "ver_lib \<Rightarrow> nat \<Rightarrow> SSL_METHOD \<Rightarrow> SSL \<Rightarrow> DOWNGRADE \<times> SSL" where
  "use_version vl ver method s = (check_for_downgrade vl s ver, s\<lparr>version := ver, method_version := mt_version method\<rparr>)"

text \<open>
  The reason (none when a version was chosen), the downgrade mark, the message, in which the extension is marked as
  parsed, and the connection. \<open>None\<close>: the message has no place for the extension, or a
  method that was never set is stored.
\<close>

definition choose_listed :: "ver_lib \<Rightarrow> DOWNGRADE \<Rightarrow> PACKET \<Rightarrow> SSL \<Rightarrow> (err_reason option \<times> DOWNGRADE \<times> SSL) option" where
  "choose_listed vl dgrd versionslist s = (case pick_version vl s versionslist 0 None of
     (best_vers, best_method, rest) \<Rightarrow>
       if PACKET_remaining rest \<noteq> 0 then Some (Some SSL_R_LENGTH_MISMATCH, dgrd, s)
       else if 0 < best_vers
       then if hello_retry_request s \<noteq> SSL_HRR_NONE
            then Some (if best_vers \<noteq> TLS1_3_VERSION then Some SSL_R_UNSUPPORTED_PROTOCOL else None, dgrd, s)
            else (case best_method of
                None \<Rightarrow> None
              | Some method \<Rightarrow> Some (None, use_version vl best_vers method s))
       else Some (Some SSL_R_UNSUPPORTED_PROTOCOL, dgrd, s))"

definition ssl_choose_server_version ::
    "ver_lib \<Rightarrow> CLIENTHELLO_MSG \<Rightarrow> DOWNGRADE \<Rightarrow> SSL \<Rightarrow> (err_reason option \<times> DOWNGRADE \<times> CLIENTHELLO_MSG \<times> SSL) option" where
  "ssl_choose_server_version vl hello dgrd s0 =
     (let client_ver = legacy_version hello; s = s0\<lparr>client_version := client_ver\<rparr>;
          exts = pre_proc_exts hello; suppversions = exts ! TLSEXT_IDX_supported_versions
      in if version_table (method_version s) = None \<and> \<not> SSL_IS_TLS13 s
         then Some (if version_cmp s client_ver (version s) < 0 then (Some SSL_R_WRONG_SSL_VERSION, dgrd, hello, s)
                    else (None, DOWNGRADE_NONE, hello, s))
         else if length exts \<le> TLSEXT_IDX_supported_versions then None
         else if \<not> re_present suppversions \<and> hello_retry_request s \<noteq> SSL_HRR_NONE
         then Some (Some SSL_R_UNSUPPORTED_PROTOCOL, dgrd, hello, s)
         else if re_present suppversions \<and> \<not> SSL_IS_DTLS s
         then let parsed = (\<lambda>d. hello\<lparr>pre_proc_exts := exts[TLSEXT_IDX_supported_versions := suppversions\<lparr>re_parsed := True, re_data := d\<rparr>]\<rparr>)
           in (case PACKET_as_length_prefixed_1 (re_data suppversions) of
               None \<Rightarrow> Some (Some SSL_R_LENGTH_MISMATCH, dgrd, parsed (re_data suppversions), s)
             | Some (versionslist, rest) \<Rightarrow>
                 if client_ver \<le> SSL3_VERSION then Some (Some SSL_R_BAD_LEGACY_VERSION, dgrd, parsed rest, s)
                 else map_option (\<lambda>(r, d, s1). (r, d, parsed rest, s1)) (choose_listed vl dgrd versionslist s))
         else (case legacy_choice vl s (if 0 \<le> version_cmp s client_ver TLS1_3_VERSION then TLS1_2_VERSION else client_ver) False
                      (case version_table (method_version s) of None \<Rightarrow> tls_version_table | Some table \<Rightarrow> table) of
             Inl (ver, method) \<Rightarrow> Some (case use_version vl ver method s of (d, s1) \<Rightarrow> (None, d, hello, s1))
           | Inr r \<Rightarrow> Some (Some r, dgrd, hello, s)))"

section \<open>The range of a client\<close>

text \<open>The loop over the table: in a hole, the highest version below a hole of the build, the lowest and highest version.\<close>

fun min_max_loop :: "ver_lib \<Rightarrow> SSL \<Rightarrow> version_info list \<Rightarrow> bool \<Rightarrow> nat \<Rightarrow> nat \<Rightarrow> nat \<Rightarrow> nat \<Rightarrow> nat \<times> nat \<times> nat" where
  "min_max_loop vl s [] hole tmp_real_max real_max ver min_ver = (min_ver, ver, real_max)"
| "min_max_loop vl s (vent # vents) hole tmp_real_max real_max ver min_ver = (case cmeth vent of
      None \<Rightarrow> min_max_loop vl s vents True 0 real_max ver min_ver
    | Some method \<Rightarrow>
        let tmp = (if hole \<and> tmp_real_max = 0 then vi_version vent else tmp_real_max)
        in if ssl_method_error vl s method \<noteq> None then min_max_loop vl s vents True tmp real_max ver min_ver
           else if \<not> hole then min_max_loop vl s vents False tmp real_max ver (mt_version method)
           else min_max_loop vl s vents False tmp (if tmp \<noteq> 0 then tmp else real_max) (mt_version method) (mt_version method))"

text \<open>The reason, the lowest and highest version and, where it is asked for, the highest of the build.\<close>

definition ssl_get_min_max_version :: "ver_lib \<Rightarrow> bool \<Rightarrow> SSL \<Rightarrow> err_reason option \<times> nat \<times> nat \<times> nat" where
  "ssl_get_min_max_version vl want_real_max s = (case version_table (method_version s) of
      None \<Rightarrow> (if want_real_max then Some ERR_R_INTERNAL_ERROR else None, version s, version s, 0)
    | Some table \<Rightarrow> (case min_max_loop vl s table True 0 0 0 0 of (min_ver, ver, real_max) \<Rightarrow>
        (if ver = 0 then Some SSL_R_NO_PROTOCOLS_AVAILABLE else None, min_ver, ver, real_max)))"

definition ssl_set_client_hello_version :: "ver_lib \<Rightarrow> SSL \<Rightarrow> err_reason option \<times> SSL" where
  "ssl_set_client_hello_version vl s =
     (if \<not> SSL_IS_FIRST_HANDSHAKE s then (None, s)
      else (case ssl_get_min_max_version vl False s of
          (Some r, _) \<Rightarrow> (Some r, s)
        | (None, ver_min, ver_max, _) \<Rightarrow>
            (None, s\<lparr>version := ver_max,
               client_version := (if \<not> SSL_IS_DTLS s \<and> TLS1_2_VERSION < ver_max then TLS1_2_VERSION else ver_max)\<rparr>)))"

section \<open>The supported versions extension\<close>

fun put_versions :: "mem_ok \<Rightarrow> nat list \<Rightarrow> WPACKET \<Rightarrow> bool \<times> WPACKET" where
  "put_versions ok [] = Pair True"
| "put_versions ok (currv # vs) = wseq (WPACKET_put_bytes ok currv 2) (put_versions ok vs)"

definition ctos_versions_writes :: "mem_ok \<Rightarrow> nat \<Rightarrow> nat \<Rightarrow> WPACKET \<Rightarrow> bool \<times> WPACKET" where
  "ctos_versions_writes ok min_ver max_ver = wseq (WPACKET_put_bytes ok TLSEXT_TYPE_supported_versions 2)
     (wseq (WPACKET_start_sub_packet_len ok 2) (wseq (wseq (WPACKET_start_sub_packet_len ok 1)
       (wseq (put_versions ok (rev [min_ver..<Suc max_ver])) (WPACKET_close ok))) (WPACKET_close ok)))"

definition tls_construct_ctos_supported_versions :: "env \<Rightarrow> ver_lib \<Rightarrow> WPACKET \<Rightarrow> SSL \<Rightarrow> (EXT_RETURN \<times> WPACKET \<times> SSL) option" where
  "tls_construct_ctos_supported_versions e vl pkt s = Some (case ssl_get_min_max_version vl False s of
      (Some reason, _) \<Rightarrow> (EXT_RETURN_FAIL, pkt, SSLfatal SSL_AD_INTERNAL_ERROR reason s)
    | (None, min_ver, max_ver, _) \<Rightarrow>
        if max_ver < TLS1_3_VERSION then (EXT_RETURN_NOT_SENT, pkt, s)
        else (case ctos_versions_writes (malloc_ok e) min_ver max_ver pkt of
            (True, pkt1) \<Rightarrow> (EXT_RETURN_SENT, pkt1, s)
          | (False, pkt1) \<Rightarrow> (EXT_RETURN_FAIL, pkt1, fatal_internal s)))"

definition tls_construct_stoc_supported_versions :: "env \<Rightarrow> WPACKET \<Rightarrow> SSL \<Rightarrow> (EXT_RETURN \<times> WPACKET \<times> SSL) option" where
  "tls_construct_stoc_supported_versions e pkt s = Some
     (if \<not> SSL_IS_TLS13 s then (EXT_RETURN_FAIL, pkt, fatal_internal s)
      else (case wseq (WPACKET_put_bytes (malloc_ok e) TLSEXT_TYPE_supported_versions 2) (wseq (WPACKET_start_sub_packet_len (malloc_ok e) 2)
                 (wseq (WPACKET_put_bytes (malloc_ok e) (version s) 2) (WPACKET_close (malloc_ok e)))) pkt of
          (True, pkt1) \<Rightarrow> (EXT_RETURN_SENT, pkt1, s)
        | (False, pkt1) \<Rightarrow> (EXT_RETURN_FAIL, pkt1, fatal_internal s)))"

definition tls_parse_stoc_supported_versions :: "PACKET \<Rightarrow> u32 \<Rightarrow> SSL \<Rightarrow> (bool \<times> SSL) option" where
  "tls_parse_stoc_supported_versions pkt ctx s = Some (case PACKET_get_net_2 pkt of
      None \<Rightarrow> (False, SSLfatal SSL_AD_DECODE_ERROR SSL_R_LENGTH_MISMATCH s)
    | Some (ver, rest) \<Rightarrow>
        if PACKET_remaining rest \<noteq> 0 then (False, SSLfatal SSL_AD_DECODE_ERROR SSL_R_LENGTH_MISMATCH s)
        else if unat ver \<noteq> TLS1_3_VERSION then (False, SSLfatal SSL_AD_ILLEGAL_PARAMETER SSL_R_BAD_PROTOCOL_VERSION_NUMBER s)
        else if ctx = SSL_EXT_TLS1_3_HELLO_RETRY_REQUEST then (True, s)
        else (True, s\<lparr>version := unat ver\<rparr>))"

text \<open>The extensions with these functions in their place of the table.\<close>

definition reason_int :: "err_reason option \<Rightarrow> int" where
  "reason_int r = (case r of None \<Rightarrow> 0 | Some (ERR_CODE n) \<Rightarrow> n | Some _ \<Rightarrow> -1)"

definition with_versions :: "env \<Rightarrow> ver_lib \<Rightarrow> ext_lib \<Rightarrow> ext_lib" where
  "with_versions e vl xl = xl\<lparr>
     xl_parse_stoc := (xl_parse_stoc xl)(TLSEXT_IDX_supported_versions := \<lambda>pkt ctx _ _. tls_parse_stoc_supported_versions pkt ctx),
     xl_construct_stoc := (xl_construct_stoc xl)(TLSEXT_IDX_supported_versions := \<lambda>pkt _ _ _. tls_construct_stoc_supported_versions e pkt),
     xl_construct_ctos := (xl_construct_ctos xl)(TLSEXT_IDX_supported_versions := \<lambda>pkt _ _ _. tls_construct_ctos_supported_versions e vl pkt),
     xl_min_max := (\<lambda>s. case ssl_get_min_max_version vl False s of (r, min_ver, max_ver, _) \<Rightarrow> (reason_int r, int min_ver, max_ver))\<rparr>"

section \<open>The client\<close>

definition tls12downgrade :: bytes where
  "tls12downgrade = [0x44, 0x4f, 0x57, 0x4e, 0x47, 0x52, 0x44, 0x01]"

definition tls11downgrade :: bytes where
  "tls11downgrade = [0x44, 0x4f, 0x57, 0x4e, 0x47, 0x52, 0x44, 0x00]"

definition random_ends :: "bytes \<Rightarrow> bytes \<Rightarrow> bool" where
  "random_ends sentinel r \<longleftrightarrow> take 8 (drop 24 r) = sentinel"

text \<open>The outcome for a version that is within the range of the client.\<close>

definition accept_version :: "nat \<Rightarrow> nat \<Rightarrow> version_info list \<Rightarrow> SSL \<Rightarrow> bool \<times> SSL" where
  "accept_version origv real_max table s =
     (let refuse = (\<lambda>al r. (False, SSLfatal al r (s\<lparr>version := origv\<rparr>)))
      in if version s = TLS1_2_VERSION \<and> version s < real_max \<and> random_ends tls12downgrade (server_random (s3 s))
         then refuse SSL_AD_ILLEGAL_PARAMETER SSL_R_INAPPROPRIATE_FALLBACK
         else if version s \<noteq> TLS1_2_VERSION \<and> \<not> SSL_IS_DTLS s \<and> version s < TLS1_2_VERSION \<and> version s < real_max
                 \<and> random_ends tls11downgrade (server_random (s3 s))
         then refuse SSL_AD_ILLEGAL_PARAMETER SSL_R_INAPPROPRIATE_FALLBACK
         else (case find (\<lambda>vent. cmeth vent \<noteq> None \<and> version s = vi_version vent) table of
             Some vent \<Rightarrow> (True, s\<lparr>method_version := mt_version (the (cmeth vent))\<rparr>)
           | None \<Rightarrow> refuse SSL_AD_PROTOCOL_VERSION SSL_R_UNSUPPORTED_PROTOCOL))"

definition ssl_choose_client_version ::
    "env \<Rightarrow> ver_lib \<Rightarrow> ext_lib \<Rightarrow> nat \<Rightarrow> RAW_EXTENSION list \<Rightarrow> SSL \<Rightarrow> (bool \<times> RAW_EXTENSION list \<times> SSL) option" where
  "ssl_choose_client_version e vl xl ver exts s0 = do {
     (ok, exts1, s) \<leftarrow> tls_parse_extension e xl TLSEXT_IDX_supported_versions (SSL_EXT_TLS1_2_SERVER_HELLO OR SSL_EXT_TLS1_3_SERVER_HELLO)
        exts None 0 (s0\<lparr>version := ver\<rparr>);
     let refuse = (\<lambda>r. (False, SSLfatal SSL_AD_PROTOCOL_VERSION r (s\<lparr>version := version s0\<rparr>)));
     let res = (if \<not> ok then (False, s\<lparr>version := version s0\<rparr>)
       else if hello_retry_request s \<noteq> SSL_HRR_NONE \<and> version s \<noteq> TLS1_3_VERSION then refuse SSL_R_WRONG_SSL_VERSION
       else (case version_table (method_version s) of
           None \<Rightarrow> if version s \<noteq> method_version s then refuse SSL_R_WRONG_SSL_VERSION else (True, s)
         | Some table \<Rightarrow> (case ssl_get_min_max_version vl True s of
             (Some r, _) \<Rightarrow> refuse r
           | (None, ver_min, ver_max, real_max) \<Rightarrow>
               if (if SSL_IS_DTLS s then dtls_ver_ordinal ver_min < dtls_ver_ordinal (version s) else version s < ver_min)
               then refuse SSL_R_UNSUPPORTED_PROTOCOL
               else if (if SSL_IS_DTLS s then dtls_ver_ordinal (version s) < dtls_ver_ordinal ver_max else ver_max < version s)
               then refuse SSL_R_UNSUPPORTED_PROTOCOL
               else accept_version (version s0) (if has (ssl_mode s) SSL_MODE_SEND_FALLBACK_SCSV then real_max else ver_max) table s)));
     Some (case res of (r, s1) \<Rightarrow> (r, exts1, s1)) }"

section \<open>The random value of a hello\<close>

text \<open>\<open>rand n\<close> is the result of \<open>RAND_bytes_ex\<close> with the \<open>n\<close> octets it wrote, \<open>now\<close> the time.\<close>

definition ssl_fill_hello_random :: "(nat \<Rightarrow> int \<times> bytes) \<Rightarrow> nat \<Rightarrow> bool \<Rightarrow> nat \<Rightarrow> DOWNGRADE \<Rightarrow> bytes \<Rightarrow> SSL \<Rightarrow> int \<times> bytes" where
  "ssl_fill_hello_random rand now is_srv len dgrd result s =
     (if len < 4 then (0, result)
      else let send_time = has (ssl_mode s) (if is_srv then SSL_MODE_SEND_SERVERHELLO_TIME else SSL_MODE_SEND_CLIENTHELLO_TIME);
               ret = fst (rand (if send_time then len - 4 else len));
               filled = (if send_time then be_bytes 4 (now mod 2 ^ 32) @ snd (rand (len - 4)) else snd (rand len))
      in if 0 < ret
         then if len \<le> 8 then (0, filled)
              else (ret, if dgrd = DOWNGRADE_TO_1_2 then take (len - 8) filled @ tls12downgrade
                         else if dgrd = DOWNGRADE_TO_1_1 then take (len - 8) filled @ tls11downgrade else filled)
         else (ret, filled))"

end
