(* ===== verification/Version_Properties.thy ===== *)
theory Version_Properties
  imports Version_Negotiation Ext_Negotiation
begin

text \<open>
  The properties of the version negotiation: the server takes the highest version both sides enable, the client takes it
  over, and a client that can speak TLS 1.3 does not accept less from a server that can.
\<close>

section \<open>The versions of a version-flexible connection\<close>

definition flexible :: "SSL \<Rightarrow> bool" where
  "flexible s \<longleftrightarrow> method_version s = TLS_ANY_VERSION \<and> \<not> SSL_IS_DTLS s"

definition tls_method :: "nat \<Rightarrow> SSL_METHOD option" where
  "tls_method v = (if v = TLS1_3_VERSION then Some tlsv1_3_method else if v = TLS1_2_VERSION then Some tlsv1_2_method
     else if v = TLS1_1_VERSION then Some tlsv1_1_method else if v = TLS1_VERSION then Some tlsv1_method else None)"

definition enabled :: "ver_lib \<Rightarrow> SSL \<Rightarrow> nat \<Rightarrow> bool" where
  "enabled vl s v \<longleftrightarrow> method_ok vl s (tls_method v) \<and> (server s \<and> v = TLS1_3_VERSION \<longrightarrow> is_tls13_capable vl s)"

lemma tls_method_version: "tls_method v = Some m \<Longrightarrow> mt_version m = v"
  by (auto simp: tls_method_def tlsv1_3_method_def tlsv1_2_method_def tlsv1_1_method_def tlsv1_method_def split: if_split_asm)

lemma method_versions [simp]: "mt_version tlsv1_3_method = 0x304" "mt_version tlsv1_2_method = 0x303"
  "mt_version tlsv1_1_method = 0x302" "mt_version tlsv1_method = 0x301"
  by (simp_all add: tlsv1_3_method_def tlsv1_2_method_def tlsv1_1_method_def tlsv1_method_def)

lemma enabled_range: "enabled vl s v \<Longrightarrow> 0x301 \<le> v \<and> v \<le> 0x304"
  by (auto simp: enabled_def method_ok_def tls_method_def split: if_split_asm)

lemma cmp_tls: "flexible s \<Longrightarrow> version_cmp s a b \<le> 0 \<longleftrightarrow> a \<le> b" "flexible s \<Longrightarrow> version_cmp s a b = 0 \<longleftrightarrow> a = b"
  "flexible s \<Longrightarrow> version_cmp s a b < 0 \<longleftrightarrow> a < b" "flexible s \<Longrightarrow> 0 < version_cmp s a b \<longleftrightarrow> b < a" "flexible s \<Longrightarrow> 0 \<le> version_cmp s a b \<longleftrightarrow> b \<le> a"
  by (auto simp: version_cmp_def flexible_def)

lemma flexible_table: "flexible s \<Longrightarrow> version_table (method_version s) = Some tls_version_table"
  by (simp add: flexible_def version_table_def)

lemma supported_iff:
  assumes "flexible s"
  shows "ssl_version_supported vl s v = (enabled vl s v, if enabled vl s v then tls_method v else None)"
proof -
  have "supported_in vl s v tls_version_table = (if enabled vl s v then tls_method v else None)"
  proof (cases "v = 0x304 \<or> v = 0x303 \<or> v = 0x302 \<or> v = 0x301")
    case True
    then show ?thesis
      by (elim disjE) (simp_all add: tls_version_table_def cmp_tls [OF assms] enabled_def method_ok_def tls_method_def)
  qed (simp add: tls_version_table_def cmp_tls [OF assms] enabled_def method_ok_def tls_method_def)
  moreover have "enabled vl s v \<Longrightarrow> tls_method v \<noteq> None" by (auto simp: enabled_def method_ok_def split: option.split_asm)
  ultimately show ?thesis by (auto simp: ssl_version_supported_def flexible_table [OF assms])
qed

text \<open>The range of a client has no holes: every version in it is enabled.\<close>

lemma min_max_range:
  assumes "flexible s" "ssl_get_min_max_version vl b s = (None, lo, hi, real_max)"
  shows "0x301 \<le> lo \<and> lo \<le> hi \<and> hi \<le> real_max \<and> real_max \<le> 0x304" "lo \<le> v \<Longrightarrow> v \<le> hi \<Longrightarrow> method_ok vl s (tls_method v)"
proof -
  let ?E = "\<lambda>m. ssl_method_error vl s m = None"
  have r: "min_max_loop vl s tls_version_table True 0 0 0 0 = (lo, hi, real_max)" "hi \<noteq> 0"
    using assms(2) by (auto simp: ssl_get_min_max_version_def flexible_table [OF assms(1)] split: prod.split_asm if_split_asm)
  show range: "0x301 \<le> lo \<and> lo \<le> hi \<and> hi \<le> real_max \<and> real_max \<le> 0x304"
    using r by (cases "?E tlsv1_3_method"; cases "?E tlsv1_2_method"; cases "?E tlsv1_1_method"; cases "?E tlsv1_method")
      (auto simp: tls_version_table_def)
  show "method_ok vl s (tls_method v)" if "lo \<le> v" "v \<le> hi"
  proof -
    have "v = 0x304 \<or> v = 0x303 \<or> v = 0x302 \<or> v = 0x301" using that range by auto
    then show ?thesis
      using r that by (cases "?E tlsv1_3_method"; cases "?E tlsv1_2_method"; cases "?E tlsv1_1_method"; cases "?E tlsv1_method")
      (auto simp: tls_version_table_def method_ok_def tls_method_def)
  qed
qed

section \<open>The choice of the server\<close>

definition version_bytes :: "nat list \<Rightarrow> bytes" where
  "version_bytes vs = concat (map (be_bytes 2) vs)"

lemma version_bytes_simps [simp]: "version_bytes [] = []" "version_bytes (v # vs) = be_bytes 2 v @ version_bytes vs"
  "length (version_bytes vs) = 2 * length vs"
  by (induction vs) (simp_all add: version_bytes_def)

text \<open>The best version of a list, and the method that goes with it.\<close>

definition best_of :: "ver_lib \<Rightarrow> SSL \<Rightarrow> nat list \<Rightarrow> nat \<Rightarrow> nat" where
  "best_of vl s vs b = Max (insert b {v \<in> set vs. enabled vl s v})"

lemma best_of_simps: "best_of vl s [] b = b"
  "best_of vl s (v # vs) b = best_of vl s vs (if enabled vl s v \<and> b < v then v else b)"
proof -
  show "best_of vl s [] b = b" by (simp add: best_of_def)
  let ?S = "{v \<in> set vs. enabled vl s v}"
  have s: "{w \<in> set (v # vs). enabled vl s w} = (if enabled vl s v then insert v ?S else ?S)" by auto
  have M: "Max (insert c (insert d T)) = Max (insert (max c d) T)" if "finite T" for c d :: nat and T
    using that by (cases "T = {}") (simp_all add: max.assoc)
  show "best_of vl s (v # vs) b = best_of vl s vs (if enabled vl s v \<and> b < v then v else b)"
    unfolding best_of_def s using M [of ?S b v] by (auto simp: max_def)
qed

definition goes_with :: "SSL_METHOD option \<Rightarrow> nat \<Rightarrow> bool" where
  "goes_with m b \<longleftrightarrow> (if b = 0 then m = None else m = tls_method b)"

lemma pick_version_best:
  "flexible s \<Longrightarrow> \<forall>v\<in>set vs. v < 65536 \<Longrightarrow> goes_with m b \<Longrightarrow>
    \<exists>m1. pick_version vl s (version_bytes vs) b m = (best_of vl s vs b, m1, []) \<and> goes_with m1 (best_of vl s vs b)"
proof (induction vs arbitrary: b m)
  case Nil
  then show ?case by (subst pick_version.simps) (simp add: get_net_2_eq best_of_simps)
next
  case (Cons v vs)
  have r: "PACKET_get_net_2 (be_bytes 2 v @ version_bytes vs) = Some (word_of_nat v, version_bytes vs)"
    using Cons.prems(2) by (simp add: get_net_2_eq)
  have u: "unat (word_of_nat v :: u32) = v" using Cons.prems(2) by (simp add: unat_u32_of_nat)
  let ?b = "if enabled vl s v \<and> b < v then v else b"
  let ?m = "if enabled vl s v \<and> b < v then tls_method v else m"
  have "enabled vl s v \<Longrightarrow> tls_method v \<noteq> None" by (auto simp: enabled_def method_ok_def split: option.split_asm)
  then have "pick_version vl s (version_bytes (v # vs)) b m = pick_version vl s (version_bytes vs) ?b ?m"
    by (subst pick_version.simps) (auto simp: r u cmp_tls [OF Cons.prems(1)] supported_iff [OF Cons.prems(1)] not_le)
  moreover have "goes_with ?m ?b" using Cons.prems(3) by (simp add: goes_with_def)
  ultimately show ?case using Cons.IH [OF Cons.prems(1), of ?m ?b] Cons.prems(2) by (simp add: best_of_simps del: version_bytes_simps(2))
qed

definition lists_versions :: "CLIENTHELLO_MSG \<Rightarrow> nat list \<Rightarrow> bool" where
  "lists_versions hello vs \<longleftrightarrow> 19 < length (pre_proc_exts hello) \<and> re_present (pre_proc_exts hello ! 19) \<and>
     re_data (pre_proc_exts hello ! 19) = put_prefixed 1 (version_bytes vs) \<and> length vs < 128 \<and> (\<forall>v\<in>set vs. v < 65536) \<and>
     SSL3_VERSION < legacy_version hello"

lemma flexible_frame [simp]: "flexible (s\<lparr>client_version := c\<rparr>) = flexible s" "flexible (s\<lparr>version := c\<rparr>) = flexible s"
  by (simp_all add: flexible_def SSL_IS_DTLS_def)

lemma as_prefixed_put: "length d < 256 \<Longrightarrow> PACKET_as_length_prefixed_1 (put_prefixed 1 d) = Some (d, [])"
  using get_1_Cons [of "word_of_nat (length d)" d]
  by (simp add: PACKET_as_length_prefixed_1_def put_prefixed_def get_bytes_eq PACKET_remaining_def unat_of_nat take_bit_nat_eq_self)

lemma server_version_best:
  assumes "flexible s" "hello_retry_request s = SSL_HRR_NONE" "lists_versions hello vs"
  shows "\<exists>h. ssl_choose_server_version vl hello dgrd s = Some
    (let s1 = s\<lparr>client_version := legacy_version hello\<rparr>; b = best_of vl s1 vs 0
     in if b = 0 then (Some SSL_R_UNSUPPORTED_PROTOCOL, dgrd, h, s1)
        else (None, check_for_downgrade vl s1 b, h, s1\<lparr>version := b, method_version := b\<rparr>))"
proof -
  let ?s = "s\<lparr>client_version := legacy_version hello\<rparr>"
  note L = assms(3) [unfolded lists_versions_def]
  have f: "flexible ?s" "\<not> SSL_IS_DTLS ?s" using assms(1) by (simp_all add: flexible_def SSL_IS_DTLS_def)
  obtain m where p: "pick_version vl ?s (version_bytes vs) 0 None = (best_of vl ?s vs 0, m, [])" "goes_with m (best_of vl ?s vs 0)"
    using pick_version_best [OF f(1), of vs None 0 vl] L by (auto simp: goes_with_def)
  have a: "PACKET_as_length_prefixed_1 (re_data (pre_proc_exts hello ! 19)) = Some (version_bytes vs, [])"
    using L as_prefixed_put [of "version_bytes vs"] by simp
  have "best_of vl ?s vs 0 = 0 \<or> enabled vl ?s (best_of vl ?s vs 0)"
    using Max_in [of "insert 0 {v \<in> set vs. enabled vl ?s v}"] by (auto simp: best_of_def)
  then obtain mm where mm: "best_of vl ?s vs 0 \<noteq> 0 \<Longrightarrow> m = Some mm \<and> mt_version mm = best_of vl ?s vs 0"
    using p(2) tls_method_version by (auto simp: goes_with_def enabled_def method_ok_def split: option.split_asm if_split_asm)
  have c: "choose_listed vl dgrd (version_bytes vs) ?s = Some (let b = best_of vl ?s vs 0 in
      if b = 0 then (Some SSL_R_UNSUPPORTED_PROTOCOL, dgrd, ?s)
      else (None, check_for_downgrade vl ?s b, ?s\<lparr>version := b, method_version := b\<rparr>))"
    using p(1) mm assms(2) by (simp add: choose_listed_def PACKET_remaining_def use_version_def Let_def)
  show ?thesis using L a c f assms(2) flexible_table [OF f(1)]
    by (simp add: ssl_choose_server_version_def Let_def)
qed

section \<open>The extension and the random value on the wire\<close>

lemma put_versions_appends: "wp.appends (put_versions ok vs) (version_bytes vs)"
  by (induction vs) (simp_all add: wp.appends_skip wp.appends_seq put_bytes_appends)

lemma ctos_versions_appends:
  "wp.appends (ctos_versions_writes ok lo hi) (ext_block (43, put_prefixed 1 (version_bytes (rev [lo..<Suc hi]))))"
  unfolding ctos_versions_writes_def ext_block_def fst_conv snd_conv
  by (intro wp.appends_seq wp.appends_sub put_bytes_appends put_versions_appends) simp_all

lemma construct_versions:
  assumes "wpacket_inv pkt" "tls_construct_ctos_supported_versions e vl pkt c = Some (EXT_RETURN_SENT, pkt1, c1)"
    "ssl_get_min_max_version vl False c = (None, lo, hi, rm)"
  shows "wcontent pkt1 = wcontent pkt @ ext_block (43, put_prefixed 1 (version_bytes (rev [lo..<Suc hi])))" "0x304 \<le> hi"
  using assms(2,3) wp.appendsD [OF ctos_versions_appends [of "malloc_ok e" lo hi] assms(1)]
  by (auto simp: tls_construct_ctos_supported_versions_def split: if_split_asm prod.split_asm bool.split_asm)

text \<open>A random value with the sentinel that was asked for.\<close>

definition rand_ok :: "(nat \<Rightarrow> int \<times> bytes) \<Rightarrow> bool" where
  "rand_ok rand \<longleftrightarrow> (\<forall>n. length (snd (rand n)) = n)"

lemma fill_random:
  assumes "rand_ok rand" "ssl_fill_hello_random rand now srvr 32 dg res s = (ret, rnd)" "0 < ret"
  shows "length rnd = 32" "dg = DOWNGRADE_TO_1_2 \<Longrightarrow> random_ends tls12downgrade rnd" "dg = DOWNGRADE_TO_1_1 \<Longrightarrow> random_ends tls11downgrade rnd"
proof -
  obtain fill where fill: "length fill = 32" "rnd = (if dg = DOWNGRADE_TO_1_2 then take 24 fill @ tls12downgrade
      else if dg = DOWNGRADE_TO_1_1 then take 24 fill @ tls11downgrade else fill)"
  proof
    let ?t = "has (ssl_mode s) (if srvr then SSL_MODE_SEND_SERVERHELLO_TIME else SSL_MODE_SEND_CLIENTHELLO_TIME)"
    let ?f = "if ?t then be_bytes 4 (now mod 2 ^ 32) @ snd (rand (32 - 4)) else snd (rand 32)"
    show "length ?f = 32" using assms(1) by (simp add: rand_ok_def)
    show "rnd = (if dg = DOWNGRADE_TO_1_2 then take 24 ?f @ tls12downgrade
      else if dg = DOWNGRADE_TO_1_1 then take 24 ?f @ tls11downgrade else ?f)"
      using assms(2,3) by (simp add: ssl_fill_hello_random_def Let_def split: if_split_asm)
  qed
  then show "length rnd = 32" "dg = DOWNGRADE_TO_1_2 \<Longrightarrow> random_ends tls12downgrade rnd" "dg = DOWNGRADE_TO_1_1 \<Longrightarrow> random_ends tls11downgrade rnd"
    by (auto simp: random_ends_def tls12downgrade_def tls11downgrade_def)
qed

section \<open>The choice of the client\<close>

text \<open>The range of a client, which does not depend on the version it is asked to take.\<close>

definition client_range :: "ver_lib \<Rightarrow> SSL \<Rightarrow> nat \<Rightarrow> nat \<Rightarrow> nat \<Rightarrow> bool" where
  "client_range vl c lo hi rm \<longleftrightarrow> flexible c \<and> \<not> server c \<and> hello_retry_request c = SSL_HRR_NONE \<and>
     (\<forall>b w. ssl_get_min_max_version vl b (c\<lparr>version := w\<rparr>) = (None, lo, hi, rm))"

text \<open>The extension among those of a ServerHello, as it is written for TLS 1.3 only.\<close>

definition answers_version :: "RAW_EXTENSION list \<Rightarrow> nat \<Rightarrow> bool" where
  "answers_version exts w \<longleftrightarrow> 19 < length exts \<and> (if w = TLS1_3_VERSION
     then re_present (exts ! 19) \<and> \<not> re_parsed (exts ! 19) \<and> re_data (exts ! 19) = be_bytes 2 w else \<not> re_present (exts ! 19))"

lemma versions_def: "xd_parse_stoc (ext_defs e (with_versions e1 vl xl) ! 19) = Some (\<lambda>pkt ctx _ _. tls_parse_stoc_supported_versions pkt ctx)"
  "xd_context (ext_defs e xl ! 19) = 0xA84"
  by (simp_all add: ext_defs_def ext_def_def with_versions_def)

lemma client_parse_versions:
  assumes "answers_version exts w" "flexible c" "\<not> server c" "v \<noteq> SSL3_VERSION" "w < 65536" "w \<noteq> TLS1_3_VERSION \<longrightarrow> v = w"
  shows "\<exists>exts1. tls_parse_extension e (with_versions e1 vl xl) 19 (0x100 OR 0x200) exts None 0 (c\<lparr>version := v\<rparr>) = Some (True, exts1, c\<lparr>version := w\<rparr>)"
proof (cases "w = TLS1_3_VERSION")
  case True
  have "extension_is_relevant (c\<lparr>version := v\<rparr>) 0xA84 (0x100 OR 0x200)"
    using assms(2-4) by (simp add: extension_is_relevant_def flexible_def has_def SSL_IS_DTLS_def SSL_IS_TLS13_def)
  moreover have "tls_parse_stoc_supported_versions (be_bytes 2 w) (0x100 OR 0x200) (c\<lparr>version := v\<rparr>) = Some (True, c\<lparr>version := w\<rparr>)"
    using True by (simp add: tls_parse_stoc_supported_versions_def get_net_2_eq PACKET_remaining_def unat_u32_of_nat)
  ultimately show ?thesis using assms(1,3) True
    by (simp add: tls_parse_extension_def answers_version_def length_ext_defs Let_def versions_def)
qed (use assms in \<open>simp add: tls_parse_extension_def answers_version_def Let_def\<close>)

text \<open>A version in the range is taken unless the random value carries the sentinel for it.\<close>

definition downgraded :: "nat \<Rightarrow> bytes \<Rightarrow> bool" where
  "downgraded w r \<longleftrightarrow> w = TLS1_2_VERSION \<and> random_ends tls12downgrade r \<or> w < TLS1_2_VERSION \<and> random_ends tls11downgrade r"

lemma accept_version_tls:
  assumes "flexible s" "0x301 \<le> version s" "version s \<le> 0x304" "\<not> (version s < rm \<and> downgraded (version s) (server_random (s3 s)))"
  shows "accept_version o0 rm tls_version_table s = (True, s\<lparr>method_version := version s\<rparr>)"
proof -
  have "version s = 0x304 \<or> version s = 0x303 \<or> version s = 0x302 \<or> version s = 0x301" using assms(2,3) by auto
  then show ?thesis using assms(1,4)
    by (elim disjE) (simp_all add: accept_version_def downgraded_def tls_version_table_def Let_def flexible_def)
qed

lemma accept_version_downgraded:
  assumes "flexible s" "version s < rm" "downgraded (version s) (server_random (s3 s))"
  shows "fst (accept_version o0 rm tls_version_table s) = False"
  using assms by (auto simp: accept_version_def downgraded_def Let_def flexible_def)

lemma client_choice:
  assumes "client_range vl c lo hi rm" "answers_version exts w" "v \<noteq> SSL3_VERSION" "w < 65536" "w \<noteq> TLS1_3_VERSION \<longrightarrow> v = w" "lo \<le> w" "w \<le> hi"
  shows "\<exists>exts1. ssl_choose_client_version e vl (with_versions e1 vl xl) v exts c = Some
    (case accept_version (version c) (if has (ssl_mode c) SSL_MODE_SEND_FALLBACK_SCSV then rm else hi) tls_version_table (c\<lparr>version := w\<rparr>)
     of (r, c3) \<Rightarrow> (r, exts1, c3))"
proof -
  have f: "flexible c" "\<not> server c" "hello_retry_request c = SSL_HRR_NONE" using assms(1) by (simp_all add: client_range_def)
  obtain exts1 where p: "tls_parse_extension e (with_versions e1 vl xl) 19 (0x100 OR 0x200) exts None 0 (c\<lparr>version := v\<rparr>) =
      Some (True, exts1, c\<lparr>version := w\<rparr>)"
    using client_parse_versions [OF assms(2) f(1,2) assms(3-5)] by blast
  have g: "ssl_get_min_max_version vl True (c\<lparr>version := w\<rparr>) = (None, lo, hi, rm)" using assms(1) by (simp add: client_range_def)
  show ?thesis unfolding ssl_choose_client_version_def p using f g assms(6,7) flexible_table [OF f(1)]
    by (intro exI [of _ exts1]) (simp add: Let_def flexible_def SSL_IS_DTLS_def)
qed

section \<open>Both sides\<close>

lemma best_of_Max:
  assumes "best_of vl s vs 0 \<noteq> 0"
  shows "best_of vl s vs 0 = Max {v \<in> set vs. enabled vl s v}" "best_of vl s vs 0 \<in> {v \<in> set vs. enabled vl s v}"
proof -
  let ?S = "{v \<in> set vs. enabled vl s v}"
  have ne: "?S \<noteq> {}"
  proof
    assume "?S = {}"
    then have "best_of vl s vs 0 = Max {0}" unfolding best_of_def by (rule arg_cong)
    then show False using assms by simp
  qed
  have fin: "finite ?S" by simp
  show m: "best_of vl s vs 0 = Max ?S" unfolding best_of_def using Max_insert [OF fin ne, of 0] by simp
  show "best_of vl s vs 0 \<in> ?S" unfolding m by (rule Max_in [OF fin ne])
qed

lemma no_downgrade:
  assumes "flexible s" "best_of vl s (rev [lo..<Suc 0x304]) 0 = b" "b \<noteq> 0"
  shows "check_for_downgrade vl s b = DOWNGRADE_NONE"
proof -
  have nz: "best_of vl s (rev [lo..<Suc 0x304]) 0 \<noteq> 0" using assms(2,3) by simp
  have le: "w \<le> b" if "lo \<le> w" "w \<le> 0x304" "enabled vl s w" for w
  proof -
    have "w \<le> Max {v \<in> set (rev [lo..<Suc 0x304]). enabled vl s v}" by (rule Max_ge) (use that in auto)
    then show ?thesis using best_of_Max(1) [OF nz] assms(2) by simp
  qed
  have lo: "lo \<le> b" using best_of_Max(2) [OF nz] assms(2) by auto
  have "\<not> (b = 0x303 \<and> enabled vl s 0x304)" "\<not> (b < 0x303 \<and> enabled vl s 0x303)" using le [of "0x304"] le [of "0x303"] lo by auto
  then show ?thesis by (simp add: check_for_downgrade_def supported_iff [OF assms(1)])
qed


lemma client_parse_any:
  assumes "19 < length exts" "flexible c" "\<not> server c"
  shows "\<exists>ok exts1 t. tls_parse_extension e (with_versions e1 vl xl) 19 (0x100 OR 0x200) exts None 0 (c\<lparr>version := v\<rparr>) = Some (ok, exts1, t) \<and>
    (ok \<longrightarrow> t = c\<lparr>version := v\<rparr> \<or> t = c\<lparr>version := TLS1_3_VERSION\<rparr>)"
proof -
  have p: "\<exists>ok t. tls_parse_stoc_supported_versions d (0x100 OR 0x200) (c\<lparr>version := v\<rparr>) = Some (ok, t) \<and>
      (ok \<longrightarrow> t = c\<lparr>version := v\<rparr> \<or> t = c\<lparr>version := TLS1_3_VERSION\<rparr>)" for d
    by (auto simp: tls_parse_stoc_supported_versions_def split: option.split)
  show ?thesis using assms p [of "re_data (exts ! 19)"]
    by (auto simp: tls_parse_extension_def length_ext_defs versions_def Let_def)
qed

lemma server_choice_downgrade:
  assumes "flexible v" "hello_retry_request v = SSL_HRR_NONE" "ssl_choose_server_version vl hello dg0 v = Some (None, dg, h, v1)"
  shows "dg = check_for_downgrade vl (v\<lparr>client_version := legacy_version hello\<rparr>) (version v1)"
proof -
  let ?v = "v\<lparr>client_version := legacy_version hello\<rparr>"
  have f: "version_table (method_version ?v) = Some tls_version_table" "\<not> SSL_IS_DTLS ?v" using flexible_table [OF assms(1)] assms(1)
    by (simp_all add: flexible_def SSL_IS_DTLS_def)
  have c: "d = check_for_downgrade vl ?v (version s1)" if "choose_listed vl dg0 p ?v = Some (None, d, s1)" for p d s1
    using that assms(2) by (auto simp: choose_listed_def use_version_def split: prod.split_asm if_split_asm option.split_asm)
  show ?thesis using assms(3) f
    by (auto simp: ssl_choose_server_version_def use_version_def Let_def split: if_split_asm option.split_asm prod.split_asm sum.split_asm dest!: c)
qed

text \<open>
  C8. Protection against a downgrade: when a client with TLS 1.3 enabled and a server with TLS 1.3 and TLS 1.2 enabled meet and the
  server has chosen a lower version all the same, because of what it was given as the client's hello, then the client
  does not accept that version together with the server's random value, whatever extensions it is given with it: it
  ends with an error or goes on with TLS 1.3.
\<close>

theorem downgrade_detected:
  assumes client: "client_range vc c lo TLS1_3_VERSION rm" "19 < length exts"
    and srvr: "flexible v" "hello_retry_request v = SSL_HRR_NONE" "enabled vl (v\<lparr>client_version := legacy_version hello\<rparr>) TLS1_3_VERSION"
      "enabled vl (v\<lparr>client_version := legacy_version hello\<rparr>) TLS1_2_VERSION"
      "ssl_choose_server_version vl hello dg0 v = Some (None, dg, h, v1)" "version v1 \<noteq> TLS1_3_VERSION"
    and rand: "rand_ok rand" "ssl_fill_hello_random rand now True 32 dg res v1 = (ret, server_random (s3 c))" "0 < ret"
  shows "\<exists>r exts1 c3. ssl_choose_client_version ce vc (with_versions ce vc xl) (version v1) exts c = Some (r, exts1, c3) \<and>
    (r \<longrightarrow> version c3 = TLS1_3_VERSION)"
proof -
  let ?w = "version v1" and ?v = "v\<lparr>client_version := legacy_version hello\<rparr>"
  have f: "flexible c" "\<not> server c" "hello_retry_request c = SSL_HRR_NONE" using client(1) by (simp_all add: client_range_def)
  have R: "ssl_get_min_max_version vc b (c\<lparr>version := w\<rparr>) = (None, lo, 0x304, rm)" "flexible (c\<lparr>version := w\<rparr>)" for b w
    using client(1) by (simp_all add: client_range_def)
  have rm: "0x304 \<le> rm" using min_max_range(1) [OF R(2,1)] by simp
  have dg: "dg = check_for_downgrade vl ?v ?w" by (rule server_choice_downgrade [OF srvr(1,2,5)])
  have sup: "fst (ssl_version_supported vl ?v 0x304)" "fst (ssl_version_supported vl ?v 0x303)" "\<not> SSL_IS_DTLS ?v"
    using supported_iff [of ?v] srvr(1,3,4) by (simp_all add: flexible_def SSL_IS_DTLS_def)
  have D: "downgraded ?w (server_random (s3 c))" if "?w < 0x304"
    using that fill_random(2,3) [OF rand] dg sup by (cases "?w = 0x303") (simp_all add: check_for_downgrade_def downgraded_def)
  have A: "\<not> fst (accept_version o0 x tls_version_table (c\<lparr>version := ?w\<rparr>))" if "?w \<le> 0x304" "0x304 \<le> x" for o0 x
    using accept_version_downgraded [of "c\<lparr>version := ?w\<rparr>" x o0] R(2) D srvr(6) that by simp
  have V: "fst (accept_version o0 x tls_version_table t) \<longrightarrow> version (snd (accept_version o0 x tls_version_table t)) = version t" for o0 x t
    by (auto simp: accept_version_def Let_def split: option.split)
  obtain ok exts1 t where p: "tls_parse_extension ce (with_versions ce vc xl) 19 (0x100 OR 0x200) exts None 0 (c\<lparr>version := ?w\<rparr>) = Some (ok, exts1, t)"
    "ok \<longrightarrow> t = c\<lparr>version := ?w\<rparr> \<or> t = c\<lparr>version := 0x304\<rparr>"
    using client_parse_any [OF client(2) f(1,2)] by blast
  show ?thesis
  proof (cases ok)
    case True
    then obtain w where t: "t = c\<lparr>version := w\<rparr>" "w = ?w \<or> w = 0x304" using p(2) by blast
    let ?x = "if has (ssl_mode c) SSL_MODE_SEND_FALLBACK_SCSV then rm else 0x304"
    let ?a = "accept_version (version c) ?x tls_version_table t"
    have run: "ssl_choose_client_version ce vc (with_versions ce vc xl) ?w exts c = Some
      (if w < lo \<or> 0x304 < w then (False, exts1, SSLfatal SSL_AD_PROTOCOL_VERSION SSL_R_UNSUPPORTED_PROTOCOL (c\<lparr>version := version c\<rparr>))
       else (fst ?a, exts1, snd ?a))"
      unfolding ssl_choose_client_version_def p(1) t(1) using True f R(1) flexible_table [OF f(1)]
      by (auto simp: Let_def flexible_def SSL_IS_DTLS_def split_beta)
    have "fst ?a \<longrightarrow> version (snd ?a) = 0x304" if "w \<le> 0x304"
      using V [of "version c" ?x t] A [of ?x "version c"] t that rm by auto
    then show ?thesis using run by auto
  next
    case False
    then show ?thesis unfolding ssl_choose_client_version_def p(1) by (auto simp: Let_def)
  qed
qed

section \<open>Concrete sides\<close>

definition vl0 :: ver_lib where
  "vl0 = \<lparr>vl_security = (\<lambda>_ _. True), vl_suiteb = (\<lambda>_. False), vl_servername_cb = (\<lambda>_. False), vl_psk_find_session_cb = (\<lambda>_. False),
     vl_cert_cb = (\<lambda>_. False), vl_sigalg_curve = (\<lambda>_. True)\<rparr>"

text \<open>A client that has not negotiated yet and a server; the hello that reaches the server, and one without the extension.\<close>

definition flex0 :: SSL where
  "flex0 = ssl0\<lparr>method_version := TLS_ANY_VERSION\<rparr>"

definition ext19 :: "bytes \<Rightarrow> RAW_EXTENSION list" where
  "ext19 d = (replicate 28 raw_none)[19 := raw_none\<lparr>re_present := True, re_type := 43, re_data := d\<rparr>]"

definition hello_msg0 :: "RAW_EXTENSION list \<Rightarrow> CLIENTHELLO_MSG" where
  "hello_msg0 exts = \<lparr>isv2 = False, legacy_version = 0x303, hello_random = replicate 32 0, hello_session_id = [], dtls_cookie = [], ciphersuites = [],
     compressions = [0], hello_exts = [], pre_proc_exts = exts\<rparr>"

lemma flex0_facts:
  "flexible flex0" "\<not> server flex0" "hello_retry_request flex0 = SSL_HRR_NONE" "ssl_method_error vl0 (flex0\<lparr>version := w\<rparr>) m = None"
  "version flex0 = 0x304" "ssl_method_error vl0 (flex0\<lparr>server := b, client_version := c\<rparr>) m = None"
  "server_random (s3 flex0) = replicate 32 0" "ssl_mode flex0 = 0"
  by (simp_all add: flex0_def ssl0_def s30_def flexible_def SSL_IS_DTLS_def ssl_method_error_def vl0_def has_def)

lemma client_range0: "client_range vl0 (upd_s3 f flex0) 0x301 0x304 0x304"
proof -
  let ?c = "upd_s3 f flex0"
  have e: "ssl_method_error vl0 (?c\<lparr>version := w\<rparr>) m = None" for w m
    by (simp add: flex0_def ssl0_def ssl_method_error_def vl0_def has_def)
  have f: "flexible (?c\<lparr>version := w\<rparr>)" for w using flex0_facts(1) by (simp add: flexible_def SSL_IS_DTLS_def)
  show ?thesis using e f [of "version ?c"] flexible_table [OF f] flex0_facts(2,3) f
    by (simp add: client_range_def ssl_get_min_max_version_def tls_version_table_def flexible_def SSL_IS_DTLS_def)
qed

lemma enabled0: "enabled vl0 (flex0\<lparr>server := True, client_version := c\<rparr>) v \<longleftrightarrow> v \<in> {0x301, 0x302, 0x303, 0x304}"
proof -
  have "ssl_has_cert (flex0\<lparr>server := True, client_version := c\<rparr>) 0" by (simp add: ssl_has_cert_def flex0_def ssl0_def)
  then have "is_tls13_capable vl0 (flex0\<lparr>server := True, client_version := c\<rparr>)" by (simp add: is_tls13_capable_def upt_rec)
  then show ?thesis by (auto simp: enabled_def method_ok_def flex0_facts tls_method_def)
qed

lemma put_versions_succeeds: "\<forall>v\<in>set vs. v < 65536 \<Longrightarrow> wpt.succeeds (put_versions mem_always vs) (2 * length vs)"
proof (induction vs)
  case (Cons v vs)
  have "wpt.succeeds (WPACKET_put_bytes mem_always v 2) 2" using Cons.prems put_bytes_succeeds [of v 2] by simp
  from wpt.succeeds_seq [OF put_bytes_appends this, of "put_versions mem_always vs" "2 * length vs"] Cons show ?case by simp
qed (simp add: wpt.succeeds_skip)

lemma ctos_versions_succeeds:
  assumes "lo \<le> Suc hi" "Suc hi - lo < 100" "hi < 65536"
  shows "wpt.succeeds (ctos_versions_writes mem_always lo hi) (5 + 2 * (Suc hi - lo))"
proof -
  let ?vs = "rev [lo..<Suc hi]" and ?n = "2 * (Suc hi - lo)"
  have l: "length (version_bytes ?vs) = ?n" by (simp del: upt_Suc)
  have s: "wpt.succeeds (put_versions mem_always ?vs) ?n" using put_versions_succeeds [of ?vs] assms(3) by (simp del: upt_Suc)
  have f: "fits_prefix 1 (version_bytes ?vs)" "fits_prefix 2 (put_prefixed 1 (version_bytes ?vs))"
    using l assms(2) by (simp_all add: fits_prefix_def put_prefixed_def del: upt_Suc)
  note 1 = wpt.succeeds_sub [OF _ put_versions_appends s f(1)] wp.appends_sub [OF _ put_versions_appends]
  note 2 = wpt.succeeds_sub [OF _ 1(2) 1(1) f(2)]
  have p: "wpt.succeeds (WPACKET_put_bytes mem_always 43 2) 2" using put_bytes_succeeds [of 43 2] by simp
  have k: "5 + ?n = 2 + (2 + (1 + ?n))" by simp
  show ?thesis unfolding k ctos_versions_writes_def by (rule wpt.succeeds_seq [OF put_bytes_appends p 2]) simp_all
qed


lemma downgrade_detected_witness:
  "\<exists>h v1 r exts1 c3. ssl_choose_server_version vl0 (hello_msg0 (replicate 28 raw_none)) DOWNGRADE_NONE (flex0\<lparr>server := True\<rparr>)
       = Some (None, DOWNGRADE_TO_1_2, h, v1) \<and> version v1 = 0x303 \<and>
     ssl_choose_client_version env0 vl0 (with_versions env0 vl0 xl0) 0x303 (replicate 28 raw_none)
       (upd_s3 (\<lambda>t. t\<lparr>server_random := replicate 24 0 @ tls12downgrade\<rparr>) flex0) = Some (r, exts1, c3) \<and> (r \<longrightarrow> version c3 = TLS1_3_VERSION)"
proof -
  let ?h = "hello_msg0 (replicate 28 raw_none)" and ?v = "flex0\<lparr>server := True\<rparr>" and ?s = "flex0\<lparr>server := True, client_version := 0x303\<rparr>"
  let ?c = "upd_s3 (\<lambda>t. t\<lparr>server_random := replicate 24 0 @ tls12downgrade\<rparr>) flex0"
  have f: "flexible ?v" "hello_retry_request ?v = SSL_HRR_NONE" "flexible ?s" using flex0_facts(1,3) by (simp_all add: flexible_def SSL_IS_DTLS_def)
  have dg: "check_for_downgrade vl0 ?s 0x303 = DOWNGRADE_TO_1_2"
    by (simp add: check_for_downgrade_def supported_iff [OF f(3)] enabled0)
  have sv: "ssl_choose_server_version vl0 ?h DOWNGRADE_NONE ?v = Some (None, DOWNGRADE_TO_1_2, ?h, ?s\<lparr>version := 0x303, method_version := 0x303\<rparr>)"
    using f flexible_table [OF f(3)] dg flex0_facts(6)
    by (simp add: ssl_choose_server_version_def hello_msg0_def raw_none_def Let_def cmp_tls [OF f(3)] tls_version_table_def use_version_def)
  let ?r = "\<lambda>n. (1 :: int, replicate n 0 :: bytes)"
  have rr: "ssl_fill_hello_random ?r 0 True 32 DOWNGRADE_TO_1_2 [] (?s\<lparr>version := 0x303, method_version := 0x303\<rparr>) = (1, server_random (s3 ?c))"
    using flex0_facts(8) by (simp add: ssl_fill_hello_random_def Let_def has_def)
  have cr: "client_range vl0 ?c 0x301 0x304 0x304" by (rule client_range0)
  have en: "enabled vl0 (?v\<lparr>client_version := legacy_version ?h\<rparr>) 0x304" "enabled vl0 (?v\<lparr>client_version := legacy_version ?h\<rparr>) 0x303"
    by (simp_all add: enabled0 hello_msg0_def)
  have "\<exists>r exts1 c3. ssl_choose_client_version env0 vl0 (with_versions env0 vl0 xl0) 0x303 (replicate 28 raw_none) ?c = Some (r, exts1, c3) \<and>
      (r \<longrightarrow> version c3 = TLS1_3_VERSION)"
    using downgrade_detected [OF cr _ f(1,2) en sv _ _ rr, of "replicate 28 raw_none" env0 xl0] by (simp add: rand_ok_def)
  then show ?thesis using sv by auto
qed

end
