(* ===== verification/Msg_Framing.thy ===== *)
theory Msg_Framing
  imports Statem_Flow
begin

text \<open>
  Handshake messages on the record layer (\<^verbatim>\<open>ssl/statem/statem_lib.c\<close>): \<open>ssl3_do_write\<close>, \<open>tls_get_message_header\<close> and
  \<open>tls_get_message_body\<close>, with the handshake transcript (\<open>ssl3_finish_mac\<close> of \<^verbatim>\<open>ssl/s3_enc.c\<close>), \<open>statem_do_write\<close> and
  \<open>grow_init_buf\<close> of \<^verbatim>\<open>ssl/statem/statem.c\<close>. The record layer is a parameter with a state of its own. The functions return
  \<open>None\<close> when they use memory outside the length of \<open>init_buf\<close>, and the reading loops also when the record layer
  goes on without delivering anything. The message callback, which
  only observes, is left out.
\<close>

section \<open>The record layer as seen from here\<close>

abbreviation (input) SSL3_RT_CHANGE_CIPHER_SPEC :: nat where "SSL3_RT_CHANGE_CIPHER_SPEC \<equiv> 20"
abbreviation (input) SSL3_RT_HANDSHAKE :: nat where "SSL3_RT_HANDSHAKE \<equiv> 22"
abbreviation (input) SSL3_HM_HEADER_LENGTH :: nat where "SSL3_HM_HEADER_LENGTH \<equiv> 4"
abbreviation (input) SSL3_RANDOM_SIZE :: nat where "SSL3_RANDOM_SIZE \<equiv> 32"
abbreviation (input) SSL_R_OVERFLOW_ERROR :: err_reason where "SSL_R_OVERFLOW_ERROR \<equiv> ERR_CODE 237"

text \<open>
  \<open>io_read\<close>: whether the caller wants to know the record type, and how many octets it wants; the result, the type, the
  octets read. \<open>io_write\<close>: the record type and the octets; the result and how many were written. \<open>None\<close>: the call does not return.
\<close>

record 'r msg_io =
  io_read :: "bool \<Rightarrow> nat \<Rightarrow> 'r \<Rightarrow> SSL \<Rightarrow> (int \<times> nat \<times> bytes \<times> 'r \<times> SSL) option"
  io_write :: "nat \<Rightarrow> bytes \<Rightarrow> 'r \<Rightarrow> SSL \<Rightarrow> (int \<times> nat \<times> 'r \<times> SSL) option"
  io_is_sslv2_record :: "'r \<Rightarrow> bool"
  io_rrec_length :: "'r \<Rightarrow> nat"
  io_dtls_write :: "nat \<Rightarrow> 'r \<Rightarrow> SSL \<Rightarrow> int \<times> 'r \<times> SSL"
  io_bio_write :: "bytes \<Rightarrow> SSL \<Rightarrow> int"
  io_digest_update :: "bytes \<Rightarrow> SSL \<Rightarrow> bool"

section \<open>The transcript\<close>

text \<open>A memory BIO that takes octets keeps them in order; one that is not there, or is given nothing, reports no success.\<close>

definition ssl3_finish_mac :: "'r msg_io \<Rightarrow> bytes \<Rightarrow> SSL \<Rightarrow> bool \<times> SSL" where
  "ssl3_finish_mac io buf s = (case handshake_dgst (s3 s) of
      None \<Rightarrow>
        if INT_MAX < length buf then (False, SSLfatal SSL_AD_INTERNAL_ERROR SSL_R_OVERFLOW_ERROR s)
        else (case handshake_buffer (s3 s) of
            None \<Rightarrow> (False, fatal_internal s)
          | Some b \<Rightarrow>
              if io_bio_write io buf s \<le> 0 \<or> io_bio_write io buf s \<noteq> int (length buf) then (False, fatal_internal s)
              else (True, upd_s3 (\<lambda>t. t\<lparr>handshake_buffer := Some (b @ buf)\<rparr>) s))
    | Some d \<Rightarrow>
        if \<not> io_digest_update io buf s then (False, fatal_internal s)
        else (True, upd_s3 (\<lambda>t. t\<lparr>handshake_dgst := Some (d @ buf)\<rparr>) s))"

section \<open>Writing\<close>

definition ssl3_do_write :: "'r msg_io \<Rightarrow> nat \<Rightarrow> 'r \<Rightarrow> SSL \<Rightarrow> (int \<times> 'r \<times> SSL) option" where
  "ssl3_do_write io type r s0 = do {
     buf \<leftarrow> init_buf s0;
     d \<leftarrow> read_at (bm_data buf) (init_off s0) (init_num s0);
     (ret, nwritten, r1, s) \<leftarrow> io_write io type d r s0;
     if ret < 0 then Some (-1, r1, s)
     else do {
         (ok, s1) \<leftarrow> (if type = SSL3_RT_HANDSHAKE \<and> (\<not> SSL_IS_TLS13 s \<or> hand s \<noteq> TLS_ST_SW_SESSION_TICKET
                           \<and> hand s \<noteq> TLS_ST_CW_KEY_UPDATE \<and> hand s \<noteq> TLS_ST_SW_KEY_UPDATE)
            then do {
              buf1 \<leftarrow> init_buf s;
              d1 \<leftarrow> read_at (bm_data buf1) (init_off s) nwritten;
              Some (ssl3_finish_mac io d1 s) }
            else Some (True, s));
         Some (if \<not> ok then (-1, r1, s1)
               else if nwritten = init_num s1 then (1, r1, s1)
               else (0, r1, s1\<lparr>init_off := init_off s1 + nwritten, init_num := init_num s1 - nwritten\<rparr>)) } }"

definition ssl3_handshake_write :: "'r msg_io \<Rightarrow> 'r \<Rightarrow> SSL \<Rightarrow> (int \<times> 'r \<times> SSL) option" where
  "ssl3_handshake_write io = ssl3_do_write io SSL3_RT_HANDSHAKE"

definition statem_do_write :: "'r msg_io \<Rightarrow> 'r \<Rightarrow> SSL \<Rightarrow> (int \<times> 'r \<times> SSL) option" where
  "statem_do_write io r s =
     (if hand s = TLS_ST_CW_CHANGE \<or> hand s = TLS_ST_SW_CHANGE
      then if SSL_IS_DTLS s then Some (io_dtls_write io SSL3_RT_CHANGE_CIPHER_SPEC r s)
           else ssl3_do_write io SSL3_RT_CHANGE_CIPHER_SPEC r s
      else if SSL_IS_DTLS s then Some (io_dtls_write io SSL3_RT_HANDSHAKE r s)
      else ssl3_handshake_write io r s)"

section \<open>The message buffer\<close>

definition BUF_MEM_grow_clean :: "mem_ok \<Rightarrow> nat \<Rightarrow> BUF_MEM \<Rightarrow> nat \<Rightarrow> nat \<times> BUF_MEM" where
  "BUF_MEM_grow_clean ok t0 str len =
     (if len \<le> length (bm_data str) then (len, str\<lparr>bm_data := take len (bm_data str)\<rparr>)
      else if len \<le> bm_max str then (len, str\<lparr>bm_data := bm_data str @ replicate (len - length (bm_data str)) 0\<rparr>)
      else if LIMIT_BEFORE_EXPANSION < len then (0, str)
      else let n = (len + 3) div 3 * 4
        in if \<not> ok t0 n then (0, str)
           else (len, str\<lparr>bm_data := bm_data str @ replicate (len - length (bm_data str)) 0, bm_max := n\<rparr>))"

text \<open>The size goes through an \<open>int\<close>, which turns what does not fit into a number far above every limit.\<close>

definition through_int :: "nat \<Rightarrow> nat" where
  "through_int n = (let m = n mod 2 ^ 32 in if m < 2 ^ 31 then m else 2 ^ 64 - 2 ^ 32 + m)"

definition grow_init_buf :: "mem_ok \<Rightarrow> nat \<Rightarrow> nat \<Rightarrow> SSL \<Rightarrow> (bool \<times> SSL) option" where
  "grow_init_buf ok t0 n s = do {
     buf \<leftarrow> init_buf s;
     Some (case BUF_MEM_grow_clean ok t0 buf (through_int n) of (r, buf1) \<Rightarrow>
       if r = 0 then (False, s)
       else if n < init_msg s then (False, s\<lparr>init_buf := Some buf1\<rparr>)
       else (True, s\<lparr>init_buf := Some buf1\<rparr>)) }"

text \<open>What the record layer puts into the buffer.\<close>

definition store_init_buf :: "nat \<Rightarrow> bytes \<Rightarrow> SSL \<Rightarrow> SSL option" where
  "store_init_buf off bs s = do {
     buf \<leftarrow> init_buf s;
     guardb (off + length bs \<le> length (bm_data buf));
     Some (s\<lparr>init_buf := Some (buf\<lparr>bm_data := write_at (bm_data buf) off bs\<rparr>)\<rparr>) }"

section \<open>Reading the header\<close>

datatype header_read = Header_full | Header_none | Header_ccs

text \<open>A record of the type ChangeCipherSpec where a header was to be read; \<open>n\<close> octets of it are in the buffer.\<close>

definition header_ccs :: "nat \<Rightarrow> bytes \<Rightarrow> SSL \<Rightarrow> header_read \<times> SSL" where
  "header_ccs n p s =
     (if init_num s \<noteq> 0 \<or> n \<noteq> 1 \<or> p ! 0 \<noteq> 1
      then (Header_none, SSLfatal SSL_AD_UNEXPECTED_MESSAGE SSL_R_BAD_CHANGE_CIPHER_SPEC s)
      else if hand s = TLS_ST_BEFORE \<and> has (s3_flags (s3 s)) TLS1_FLAGS_STATELESS then (Header_none, s)
      else (Header_ccs, upd_s3 (\<lambda>t. t\<lparr>message_type := SSL3_MT_CHANGE_CIPHER_SPEC, message_size := n\<rparr>) (s\<lparr>init_num := n - 1, init_msg := 0\<rparr>)))"

partial_function (option) header_loop :: "'r msg_io \<Rightarrow> 'r \<Rightarrow> SSL \<Rightarrow> (header_read \<times> 'r \<times> SSL) option" where
  "header_loop io r s =
     (if SSL3_HM_HEADER_LENGTH \<le> init_num s then Some (Header_full, r, s)
      else do {
        (i, recvd_type, bs, r1, s1) \<leftarrow> io_read io True (SSL3_HM_HEADER_LENGTH - init_num s) r s;
        if i \<le> 0 then Some (Header_none, r1, s1\<lparr>rwstate := SSL_READING\<rparr>)
        else do {
          s2 \<leftarrow> store_init_buf (init_num s) bs s1;
          buf \<leftarrow> init_buf s2;
          if recvd_type = SSL3_RT_CHANGE_CIPHER_SPEC then (case header_ccs (length bs) (bm_data buf) s2 of (h, s4) \<Rightarrow> Some (h, r1, s4))
          else if recvd_type \<noteq> SSL3_RT_HANDSHAKE
          then Some (Header_none, r1, SSLfatal SSL_AD_UNEXPECTED_MESSAGE SSL_R_CCS_RECEIVED_EARLY s2)
          else header_loop io r1 (s2\<lparr>init_num := init_num s2 + length bs\<rparr>) } })"

text \<open>The four octets of the header are there.\<close>

definition header_done :: "'r msg_io \<Rightarrow> bytes \<Rightarrow> 'r \<Rightarrow> SSL \<Rightarrow> nat option \<times> SSL" where
  "header_done io p r s0 =
     (let mt = unat (p ! 0); s = upd_s3 (\<lambda>t. t\<lparr>message_type := mt\<rparr>) s0
      in if io_is_sslv2_record io r
         then (Some mt, upd_s3 (\<lambda>t. t\<lparr>message_size := io_rrec_length io r + SSL3_HM_HEADER_LENGTH\<rparr>)
                 (s\<lparr>init_msg := 0, init_num := SSL3_HM_HEADER_LENGTH\<rparr>))
         else let l = be_val (drop 1 p)
           in if INT_MAX - SSL3_HM_HEADER_LENGTH < l
              then (None, SSLfatal SSL_AD_ILLEGAL_PARAMETER SSL_R_EXCESSIVE_MESSAGE_SIZE s)
              else (Some mt, upd_s3 (\<lambda>t. t\<lparr>message_size := l\<rparr>) (s\<lparr>init_msg := SSL3_HM_HEADER_LENGTH, init_num := 0\<rparr>)))"

definition hello_request_skipped :: "bytes \<Rightarrow> SSL \<Rightarrow> bool" where
  "hello_request_skipped p s \<longleftrightarrow> \<not> server s \<and> hand s \<noteq> TLS_ST_OK \<and> unat (p ! 0) = SSL3_MT_HELLO_REQUEST \<and> p ! 1 = 0 \<and> p ! 2 = 0 \<and> p ! 3 = 0"

partial_function (option) tls_get_message_header :: "'r msg_io \<Rightarrow> 'r \<Rightarrow> SSL \<Rightarrow> (nat option \<times> 'r \<times> SSL) option" where
  "tls_get_message_header io r s = do {
     (h, r1, s1) \<leftarrow> header_loop io r s;
     if h = Header_none then Some (None, r1, s1)
     else if h = Header_ccs then Some (Some SSL3_MT_CHANGE_CIPHER_SPEC, r1, s1)
     else do {
       buf \<leftarrow> init_buf s1;
       p \<leftarrow> read_at (bm_data buf) 0 SSL3_HM_HEADER_LENGTH;
       if hello_request_skipped p s1 then tls_get_message_header io r1 (s1\<lparr>init_num := 0\<rparr>)
       else (case header_done io p r1 s1 of (mt, s2) \<Rightarrow> Some (mt, r1, s2)) } }"

section \<open>Reading the body\<close>

definition hrrrandom :: bytes where
  "hrrrandom = [0xcf, 0x21, 0xad, 0x74, 0xe5, 0x9a, 0x61, 0x11, 0xbe, 0x1d, 0x8c, 0x02,
    0x1e, 0x65, 0xb8, 0x91, 0xc2, 0xa2, 0x11, 0x16, 0x7a, 0xbb, 0x8c, 0x5e,
    0x07, 0x9e, 0x09, 0xe2, 0xc8, 0xa8, 0x33, 0x9c]"

text \<open>The loop; False when the record layer has nothing.\<close>

partial_function (option) body_loop :: "'r msg_io \<Rightarrow> nat \<Rightarrow> 'r \<Rightarrow> SSL \<Rightarrow> (bool \<times> 'r \<times> SSL) option" where
  "body_loop io n r s =
     (if n = 0 then Some (True, r, s)
      else do {
        (i, _, bs, r1, s1) \<leftarrow> io_read io False n r s;
        if i \<le> 0 then Some (False, r1, s1\<lparr>rwstate := SSL_READING\<rparr>)
        else do {
          s2 \<leftarrow> store_init_buf (init_msg s + init_num s) bs s1;
          body_loop io (size_sub n (length bs)) r1 (s2\<lparr>init_num := init_num s2 + length bs\<rparr>) } })"

definition defers_hrr :: "bytes \<Rightarrow> SSL \<Rightarrow> bool" where
  "defers_hrr d s \<longleftrightarrow> message_type (s3 s) = SSL3_MT_SERVER_HELLO \<and> SSL3_HM_HEADER_LENGTH + 2 + SSL3_RANDOM_SIZE \<le> init_num s \<and>
     take SSL3_RANDOM_SIZE (drop (SSL3_HM_HEADER_LENGTH + 2) d) = hrrrandom"

text \<open>The whole message is in the buffer and goes into the transcript.\<close>

definition body_done :: "'r msg_io \<Rightarrow> hooks \<Rightarrow> 'r \<Rightarrow> SSL \<Rightarrow> (nat option \<times> SSL) option" where
  "body_done io hk r s0 = do {
     buf \<leftarrow> init_buf s0;
     p0 \<leftarrow> read_at (bm_data buf) 0 1;
     (taken, s) \<leftarrow> Some (if unat (hd p0) = SSL3_MT_FINISHED then ssl3_take_mac hk s0 else (True, s0));
     if \<not> taken then Some (None, s)
     else do {
       (ok, s1) \<leftarrow> (if io_is_sslv2_record io r
          then do { d \<leftarrow> read_at (bm_data buf) 0 (init_num s); Some (ssl3_finish_mac io d s) }
          else if (\<not> SSL_IS_TLS13 s \<or> message_type (s3 s) \<noteq> SSL3_MT_NEWSESSION_TICKET \<and> message_type (s3 s) \<noteq> SSL3_MT_KEY_UPDATE)
                  \<and> \<not> defers_hrr (bm_data buf) s
          then do { d \<leftarrow> read_at (bm_data buf) 0 (init_num s + SSL3_HM_HEADER_LENGTH); Some (ssl3_finish_mac io d s) }
          else Some (True, s));
       Some (if ok then Some (init_num s1) else None, s1) } }"

definition tls_get_message_body :: "'r msg_io \<Rightarrow> hooks \<Rightarrow> 'r \<Rightarrow> SSL \<Rightarrow> (nat option \<times> 'r \<times> SSL) option" where
  "tls_get_message_body io hk r s =
     (if message_type (s3 s) = SSL3_MT_CHANGE_CIPHER_SPEC then Some (Some (init_num s), r, s)
      else do {
        (ok, r1, s1) \<leftarrow> body_loop io (size_sub (message_size (s3 s)) (init_num s)) r s;
        if \<not> ok then Some (None, r1, s1)
        else do {
          (len, s2) \<leftarrow> body_done io hk r1 s1;
          Some (len, r1, s2) } })"

end
