(* ===== verification/Record_Layer.thy ===== *)
theory Record_Layer
  imports Msg_Framing
begin

text \<open>
  The record layer of TLS above the protection of single records (\<^verbatim>\<open>ssl/record/rec_layer_s3.c\<close>): \<open>ssl3_write_bytes\<close> cuts what is
  to be sent into fragments and \<open>ssl3_write_pending\<close> hands the protected records to the BIO; \<open>ssl3_read_bytes\<close> gives out
  the contents of received records and deals with alerts, ChangeCipherSpec records, early data and unexpected handshake messages.
  Parameters (\<open>rec_env\<close>) are \<open>ssl3_get_record\<close>, which reads, checks and decrypts records, the construction of protected
  records inside \<open>do_ssl3_write\<close>, the buffers, the BIO and a handshake that is run in the middle. The branch for several
  blocks at once, which needs the assembler code of another processor, and kernel TLS are not in the build.
\<close>

section \<open>State\<close>

abbreviation (input) SSL3_RT_ALERT :: nat where "SSL3_RT_ALERT \<equiv> 21"
abbreviation (input) SSL3_RT_APPLICATION_DATA :: nat where "SSL3_RT_APPLICATION_DATA \<equiv> 23"
abbreviation (input) SSL2_VERSION :: nat where "SSL2_VERSION \<equiv> 2"
abbreviation (input) SSL3_AL_WARNING :: nat where "SSL3_AL_WARNING \<equiv> 1"
abbreviation (input) SSL3_AL_FATAL :: nat where "SSL3_AL_FATAL \<equiv> 2"
abbreviation (input) SSL_AD_CLOSE_NOTIFY :: nat where "SSL_AD_CLOSE_NOTIFY \<equiv> 0"
abbreviation (input) SSL_AD_USER_CANCELLED :: nat where "SSL_AD_USER_CANCELLED \<equiv> 90"
abbreviation (input) SSL_AD_NO_RENEGOTIATION :: nat where "SSL_AD_NO_RENEGOTIATION \<equiv> 100"
abbreviation (input) MAX_WARN_ALERT_COUNT :: nat where "MAX_WARN_ALERT_COUNT \<equiv> 5"
abbreviation (input) SSL_MAX_PIPELINES :: nat where "SSL_MAX_PIPELINES \<equiv> 32"
abbreviation (input) EARLY_DATA_CIPHERTEXT_OVERHEAD :: nat where "EARLY_DATA_CIPHERTEXT_OVERHEAD \<equiv> 104"
abbreviation (input) SSL_ST_READ_HEADER :: nat where "SSL_ST_READ_HEADER \<equiv> 0xF0"
abbreviation (input) SSL_ST_READ_BODY :: nat where "SSL_ST_READ_BODY \<equiv> 0xF1"
abbreviation (input) SSL_RECEIVED_SHUTDOWN :: u32 where "SSL_RECEIVED_SHUTDOWN \<equiv> 2"
abbreviation (input) SSL_MODE_ENABLE_PARTIAL_WRITE :: u32 where "SSL_MODE_ENABLE_PARTIAL_WRITE \<equiv> 1"
abbreviation (input) SSL_MODE_ACCEPT_MOVING_WRITE_BUFFER :: u32 where "SSL_MODE_ACCEPT_MOVING_WRITE_BUFFER \<equiv> 2"
abbreviation (input) SSL_MODE_AUTO_RETRY :: u32 where "SSL_MODE_AUTO_RETRY \<equiv> 4"
abbreviation (input) SSL_MODE_RELEASE_BUFFERS :: u32 where "SSL_MODE_RELEASE_BUFFERS \<equiv> 0x10"

abbreviation (input) SSL_R_BAD_WRITE_RETRY :: err_reason where "SSL_R_BAD_WRITE_RETRY \<equiv> ERR_CODE 127"
abbreviation (input) SSL_R_BIO_NOT_SET :: err_reason where "SSL_R_BIO_NOT_SET \<equiv> ERR_CODE 128"
abbreviation (input) SSL_R_MIXED_HANDSHAKE_AND_NON_HANDSHAKE_DATA :: err_reason where "SSL_R_MIXED_HANDSHAKE_AND_NON_HANDSHAKE_DATA \<equiv> ERR_CODE 293"
abbreviation (input) SSL_R_DATA_BETWEEN_CCS_AND_FINISHED :: err_reason where "SSL_R_DATA_BETWEEN_CCS_AND_FINISHED \<equiv> ERR_CODE 145"
abbreviation (input) SSL_R_APP_DATA_IN_HANDSHAKE :: err_reason where "SSL_R_APP_DATA_IN_HANDSHAKE \<equiv> ERR_CODE 100"
abbreviation (input) SSL_R_INVALID_ALERT :: err_reason where "SSL_R_INVALID_ALERT \<equiv> ERR_CODE 205"
abbreviation (input) SSL_R_TOO_MANY_WARN_ALERTS :: err_reason where "SSL_R_TOO_MANY_WARN_ALERTS \<equiv> ERR_CODE 409"
abbreviation (input) SSL_R_NO_RENEGOTIATION :: err_reason where "SSL_R_NO_RENEGOTIATION \<equiv> ERR_CODE 339"
abbreviation (input) SSL_R_UNKNOWN_ALERT_TYPE :: err_reason where "SSL_R_UNKNOWN_ALERT_TYPE \<equiv> ERR_CODE 246"
abbreviation (input) SSL_R_APPLICATION_DATA_AFTER_CLOSE_NOTIFY :: err_reason where "SSL_R_APPLICATION_DATA_AFTER_CLOSE_NOTIFY \<equiv> ERR_CODE 291"
abbreviation (input) SSL_R_UNEXPECTED_RECORD :: err_reason where "SSL_R_UNEXPECTED_RECORD \<equiv> ERR_CODE 245"
abbreviation (input) SSL_R_TOO_MUCH_EARLY_DATA :: err_reason where "SSL_R_TOO_MUCH_EARLY_DATA \<equiv> ERR_CODE 164"

text \<open>A received record: what is left of its contents (\<open>length\<close> octets from \<open>off\<close>).\<close>

record SSL3_RECORD =
  rec_version :: nat
  rr_type :: nat
  rr_data :: bytes
  rr_read :: bool

text \<open>
  The record layer; \<open>rrec\<close> has the \<open>numrpipes\<close> records in use, \<open>wrbuf\<close> for each of the \<open>numwpipes\<close> write buffers the octets
  that are left to write. The last group are fields of the connection only this code uses; \<open>rl_world\<close> is the state of the parameters.
\<close>

record 'b RECORD_LAYER =
  rstate :: nat
  rbuf :: bool                     \<comment> \<open>the read buffer is set up\<close>
  rbuf_left :: nat
  rrec :: "SSL3_RECORD list"
  handshake_fragment :: bytes
  alert_count :: nat
  wnum :: nat
  wrbuf :: "bytes list"
  wpend_tot :: nat
  wpend_type :: nat
  wpend_ret :: nat
  wpend_buf :: nat                 \<comment> \<open>an address\<close>
  wbio :: bool
  alert_dispatch :: bool
  empty_fragment_done :: bool
  warn_alert :: nat
  fatal_alert :: nat
  max_send_fragment :: nat
  split_send_fragment :: nat
  max_fragment_len_mode :: nat     \<comment> \<open>of the session\<close>
  max_pipelines :: nat
  sess_max_early_data :: nat       \<comment> \<open>of the session\<close>
  psk_max_early_data :: "nat option" \<comment> \<open>of the session of the pre-shared key\<close>
  recv_max_early_data :: nat
  early_data_count :: nat
  enc_read_ctx :: bool
  rl_world :: 'b

type_synonym 'b rl_call = "'b RECORD_LAYER \<Rightarrow> SSL \<Rightarrow> int \<times> 'b RECORD_LAYER \<times> SSL"

record 'b rec_env =
  re_setup_read :: "'b rl_call"
  re_setup_write :: "nat \<Rightarrow> 'b rl_call"
  re_get_record :: "'b rl_call"
  re_handshake :: "'b rl_call"
  re_dispatch_alert :: "'b rl_call"
  re_seal :: "nat \<Rightarrow> bytes list \<Rightarrow> 'b RECORD_LAYER \<Rightarrow> SSL \<Rightarrow> bytes list option \<times> 'b RECORD_LAYER \<times> SSL"
  re_bio_write :: "bytes \<Rightarrow> 'b \<Rightarrow> int \<times> 'b"
  re_pipelined :: "SSL \<Rightarrow> bool"    \<comment> \<open>a cipher that can work on several records at once, with explicit IVs\<close>
  re_remove_session :: "SSL \<Rightarrow> SSL"

section \<open>Small functions\<close>

definition RECORD_LAYER_read_pending :: "'b RECORD_LAYER \<Rightarrow> bool" where
  "RECORD_LAYER_read_pending r \<longleftrightarrow> rbuf_left r \<noteq> 0"

definition RECORD_LAYER_processed_read_pending :: "'b RECORD_LAYER \<Rightarrow> bool" where
  "RECORD_LAYER_processed_read_pending r \<longleftrightarrow> length (takeWhile rr_read (rrec r)) < length (rrec r)"

definition RECORD_LAYER_write_pending :: "'b RECORD_LAYER \<Rightarrow> bool" where
  "RECORD_LAYER_write_pending r \<longleftrightarrow> wrbuf r \<noteq> [] \<and> last (wrbuf r) \<noteq> []"

text \<open>Without DTLS: the octets of the leading records of application data.\<close>

fun pending_from :: "SSL3_RECORD list \<Rightarrow> nat \<Rightarrow> nat" where
  "pending_from [] num = num"
| "pending_from (rr # rrs) num = (if rr_type rr \<noteq> SSL3_RT_APPLICATION_DATA then num else pending_from rrs (num + length (rr_data rr)))"

definition ssl3_pending :: "'b RECORD_LAYER \<Rightarrow> nat" where
  "ssl3_pending r = (if rstate r = SSL_ST_READ_BODY then 0 else pending_from (rrec r) 0)"

fun sequence_carry :: "u8 list \<Rightarrow> u8 list" where
  "sequence_carry [] = []"
| "sequence_carry (b # bs) = (if b + 1 \<noteq> 0 then (b + 1) # bs else (b + 1) # sequence_carry bs)"

definition ssl3_record_sequence_update :: "bytes \<Rightarrow> bytes" where
  "ssl3_record_sequence_update seq = rev (sequence_carry (rev seq))"

definition ssl_get_max_send_fragment :: "'b RECORD_LAYER \<Rightarrow> nat" where
  "ssl_get_max_send_fragment r =
     (if 1 \<le> max_fragment_len_mode r \<and> max_fragment_len_mode r \<le> 4 then 512 * 2 ^ (max_fragment_len_mode r - 1) else max_send_fragment r)"

definition ssl_get_split_send_fragment :: "'b RECORD_LAYER \<Rightarrow> nat" where
  "ssl_get_split_send_fragment r =
     (if 1 \<le> max_fragment_len_mode r \<and> max_fragment_len_mode r \<le> 4 \<and> 512 * 2 ^ (max_fragment_len_mode r - 1) < split_send_fragment r
      then 512 * 2 ^ (max_fragment_len_mode r - 1)
      else if max_send_fragment r < split_send_fragment r then max_send_fragment r else split_send_fragment r)"

text \<open>The limit is an unsigned integer of 32 bits, to which the overhead is added.\<close>

definition early_data_count_ok :: "nat \<Rightarrow> nat \<Rightarrow> bool \<Rightarrow> 'b RECORD_LAYER \<Rightarrow> SSL \<Rightarrow> bool \<times> 'b RECORD_LAYER \<times> SSL" where
  "early_data_count_ok len overhead send r s =
     (let al = (if send then SSL_AD_INTERNAL_ERROR else SSL_AD_UNEXPECTED_MESSAGE);
          too_much = (False, r, SSLfatal al SSL_R_TOO_MUCH_EARLY_DATA s)
      in if \<not> server s \<and> sess_max_early_data r = 0 \<and> (psk_max_early_data r = None \<or> psk_max_early_data r = Some 0)
         then (False, r, fatal_internal s)
         else let sess_max = (if \<not> server s \<and> sess_max_early_data r = 0 then the (psk_max_early_data r) else sess_max_early_data r);
                  limit = (if \<not> server s then sess_max
                           else if early_data (ext s) \<noteq> SSL_EARLY_DATA_ACCEPTED then recv_max_early_data r
                           else min (recv_max_early_data r) sess_max)
           in if limit = 0 then too_much
              else if (limit + overhead) mod 2 ^ 32 < early_data_count r + len then too_much
              else (True, r\<lparr>early_data_count := (early_data_count r + len) mod 2 ^ 32\<rparr>, s))"

section \<open>Writing\<close>

partial_function (option) write_pending_loop :: "'b rec_env \<Rightarrow> 'b RECORD_LAYER \<Rightarrow> SSL \<Rightarrow> (int \<times> nat \<times> 'b RECORD_LAYER \<times> SSL) option" where
  "write_pending_loop e r s =
     (if wrbuf r = [] then None
      else let k = length (takeWhile (\<lambda>b. b = []) (butlast (wrbuf r))); d = wrbuf r ! k
      in if \<not> wbio r
         then Some (-1, 0, if SSL_IS_DTLS s then r\<lparr>wrbuf := (wrbuf r)[k := []]\<rparr> else r, SSLfatal SSL_AD_INTERNAL_ERROR SSL_R_BIO_NOT_SET s)
         else (case re_bio_write e d (rl_world r) of (i, w) \<Rightarrow>
           if 0 \<le> i \<and> nat i = length d
           then if Suc k < length (wrbuf r) then write_pending_loop e (r\<lparr>wrbuf := (wrbuf r)[k := []], rl_world := w\<rparr>) (s\<lparr>rwstate := SSL_WRITING\<rparr>)
                else Some (1, wpend_ret r, r\<lparr>wrbuf := (wrbuf r)[k := []], rl_world := w\<rparr>, s\<lparr>rwstate := SSL_NOTHING\<rparr>)
           else if i \<le> 0
           then Some (i, 0, if SSL_IS_DTLS s then r\<lparr>wrbuf := (wrbuf r)[k := []], rl_world := w\<rparr> else r\<lparr>rl_world := w\<rparr>, s\<lparr>rwstate := SSL_WRITING\<rparr>)
           else write_pending_loop e (r\<lparr>wrbuf := (wrbuf r)[k := drop (nat i) d], rl_world := w\<rparr>) (s\<lparr>rwstate := SSL_WRITING\<rparr>)))"

text \<open>\<open>buf\<close> is the address of the data, \<open>len\<close> its length; the result is followed by the number of octets written.\<close>

definition ssl3_write_pending :: "'b rec_env \<Rightarrow> nat \<Rightarrow> nat \<Rightarrow> nat \<Rightarrow> 'b RECORD_LAYER \<Rightarrow> SSL \<Rightarrow> (int \<times> nat \<times> 'b RECORD_LAYER \<times> SSL) option" where
  "ssl3_write_pending e typ buf len r s =
     (if len < wpend_tot r \<or> \<not> has (ssl_mode s) SSL_MODE_ACCEPT_MOVING_WRITE_BUFFER \<and> wpend_buf r \<noteq> buf \<or> wpend_type r \<noteq> typ
      then Some (-1, 0, r, SSLfatal SSL_AD_INTERNAL_ERROR SSL_R_BAD_WRITE_RETRY s)
      else write_pending_loop e r s)"

text \<open>The protected records of the fragments go into the write buffers; the construction of a record is \<open>re_seal\<close>.\<close>

definition do_ssl3_write :: "'b rec_env \<Rightarrow> nat \<Rightarrow> nat \<Rightarrow> bytes list \<Rightarrow> 'b RECORD_LAYER \<Rightarrow> SSL \<Rightarrow> (int \<times> nat \<times> 'b RECORD_LAYER \<times> SSL) option" where
  "do_ssl3_write e typ buf frags r s =
     (let totlen = length (concat frags)
      in if RECORD_LAYER_write_pending r then ssl3_write_pending e typ buf totlen r s
         else (case (if alert_dispatch r then re_dispatch_alert e r s else (1, r, s)) of (i, r1, s1) \<Rightarrow>
           if i \<le> 0 then Some (i, 0, r1, s1)
           else (case (if length (wrbuf r1) < length frags then re_setup_write e (length frags) r1 s1 else (1, r1, s1)) of (j, r2, s2) \<Rightarrow>
             if j = 0 then Some (-1, 0, r2, s2)
             else if totlen = 0 then Some (0, 0, r2, s2)
             else (case re_seal e typ frags r2 s2 of
                 (None, r4, s4) \<Rightarrow> Some (-1, 0, r4, s4)
               | (Some recs, r4, s4) \<Rightarrow>
                   ssl3_write_pending e typ buf totlen (r4\<lparr>wrbuf := recs @ drop (length recs) (wrbuf r4), wpend_tot := totlen, wpend_buf := buf,
                     wpend_type := typ, wpend_ret := totlen\<rparr>) s4))))"

text \<open>How many records are written at once, and how the data is spread over them.\<close>

definition pipelens :: "nat \<Rightarrow> nat \<Rightarrow> nat \<Rightarrow> nat list" where
  "pipelens n split maxpipes =
     (let numpipes = min (if n = 0 then 1 else (n - 1) div split + 1) maxpipes
      in if split \<le> n div numpipes then replicate numpipes split
         else map (\<lambda>j. if j < n mod numpipes then n div numpipes + 1 else n div numpipes) [0..<numpipes])"

fun cut :: "nat list \<Rightarrow> bytes \<Rightarrow> bytes list" where
  "cut [] d = []"
| "cut (l # ls) d = take l d # cut ls (drop l d)"

partial_function (option) write_loop_frags ::
    "'b rec_env \<Rightarrow> nat \<Rightarrow> nat \<Rightarrow> nat \<Rightarrow> nat \<Rightarrow> bytes \<Rightarrow> nat \<Rightarrow> 'b RECORD_LAYER \<Rightarrow> SSL \<Rightarrow> (int \<times> nat \<times> 'b RECORD_LAYER \<times> SSL) option" where
  "write_loop_frags e typ split maxpipes buf d tot r s = do {
     (i, tmpwrit, r1, s1) \<leftarrow> do_ssl3_write e typ (buf + tot) (cut (pipelens (length d - tot) split maxpipes) (drop tot d)) r s;
     if i \<le> 0 then Some (i, 0, r1\<lparr>wnum := tot\<rparr>, s1)
     else if tmpwrit = length d - tot \<or> typ = SSL3_RT_APPLICATION_DATA \<and> has (ssl_mode s1) SSL_MODE_ENABLE_PARTIAL_WRITE
     then Some (1, tot + tmpwrit, (if tmpwrit = length d - tot \<and> has (ssl_mode s1) SSL_MODE_RELEASE_BUFFERS \<and> \<not> SSL_IS_DTLS s1
            then r1\<lparr>empty_fragment_done := False, wrbuf := []\<rparr> else r1\<lparr>empty_fragment_done := False\<rparr>), s1)
     else write_loop_frags e typ split maxpipes buf d (tot + tmpwrit) r1 s1 }"

definition write_rest :: "'b rec_env \<Rightarrow> nat \<Rightarrow> nat \<Rightarrow> bytes \<Rightarrow> nat \<Rightarrow> 'b RECORD_LAYER \<Rightarrow> SSL \<Rightarrow> (int \<times> nat \<times> 'b RECORD_LAYER \<times> SSL) option" where
  "write_rest e typ buf d tot r s =
     (if tot = length d
      then Some (1, tot, if has (ssl_mode s) SSL_MODE_RELEASE_BUFFERS \<and> \<not> SSL_IS_DTLS s then r\<lparr>wrbuf := []\<rparr> else r, s)
      else if SSL_MAX_PIPELINES < max_pipelines r then Some (-1, 0, r, fatal_internal s)
      else if ssl_get_max_send_fragment r = 0 \<or> ssl_get_split_send_fragment r = 0 \<or> ssl_get_max_send_fragment r < ssl_get_split_send_fragment r
      then Some (-1, 0, r, fatal_internal s)
      else write_loop_frags e typ (ssl_get_split_send_fragment r) (if max_pipelines r = 0 \<or> \<not> re_pipelined e s then 1 else max_pipelines r) buf d tot r s)"

text \<open>The octets left in the first write buffer.\<close>

definition first_left :: "'b RECORD_LAYER \<Rightarrow> nat" where
  "first_left r = (case wrbuf r of [] \<Rightarrow> 0 | b # _ \<Rightarrow> length b)"

definition ssl3_write_bytes :: "'b rec_env \<Rightarrow> nat \<Rightarrow> nat \<Rightarrow> bytes \<Rightarrow> 'b RECORD_LAYER \<Rightarrow> SSL \<Rightarrow> (int \<times> nat \<times> 'b RECORD_LAYER \<times> SSL) option" where
  "ssl3_write_bytes e typ buf d r0 s0 =
     (let s1 = s0\<lparr>rwstate := SSL_NOTHING\<rparr>; tot = wnum r0
      in if length d < wnum r0 \<or> first_left r0 \<noteq> 0 \<and> length d < wnum r0 + wpend_tot r0
         then Some (-1, 0, r0, SSLfatal SSL_AD_INTERNAL_ERROR SSL_R_BAD_LENGTH s1)
         else (case (if early_data_state s1 = SSL_EARLY_DATA_WRITING then early_data_count_ok (length d) 0 True r0 s1 else (True, r0, s1)) of
             (False, r1, s2) \<Rightarrow> Some (-1, 0, r1, s2)
           | (True, r1, s2) \<Rightarrow>
               let r2 = r1\<lparr>wnum := 0\<rparr>;
                   s4 = (if first_left r2 = 0 \<and> (key_update s2 \<noteq> SSL_KEY_UPDATE_NONE \<or> 0 < extra_tickets_expected (ext s2))
                         then ossl_statem_set_in_init True s2 else s2)
               in (case (if SSL_in_init s4 \<and> ossl_statem_get_in_handshake s4 = 0 \<and> early_data_state s4 \<noteq> SSL_EARLY_DATA_UNAUTH_WRITING
                         then re_handshake e r2 s4 else (1, r2, s4)) of (i, r4, s5) \<Rightarrow>
                   if i < 0 then Some (i, 0, r4, s5)
                   else if i = 0 then Some (-1, 0, r4, s5)
                   else if first_left r4 \<noteq> 0
                   then do {
                     (j, tmpwrit, r5, s6) \<leftarrow> ssl3_write_pending e typ (buf + tot) (wpend_tot r4) r4 s5;
                     if j \<le> 0 then Some (j, 0, r5\<lparr>wnum := tot\<rparr>, s6)
                     else write_rest e typ buf d (tot + tmpwrit) r5 s6 }
                   else write_rest e typ buf d tot r4 s5)))"

section \<open>Reading\<close>

definition upd_rec :: "nat \<Rightarrow> (SSL3_RECORD \<Rightarrow> SSL3_RECORD) \<Rightarrow> 'b RECORD_LAYER \<Rightarrow> 'b RECORD_LAYER" where
  "upd_rec i f r = r\<lparr>rrec := (rrec r)[i := f (rrec r ! i)]\<rparr>"

text \<open>The first record that is not read yet; when there is none, records are fetched. \<open>Inl\<close> is the result of the call.\<close>

partial_function (option) current_record :: "'b rec_env \<Rightarrow> 'b RECORD_LAYER \<Rightarrow> SSL \<Rightarrow> ((int + nat) \<times> 'b RECORD_LAYER \<times> SSL) option" where
  "current_record e r s = (case (if rrec r = [] then re_get_record e r s else (1, r, s)) of (ret, r1, s1) \<Rightarrow>
     if ret \<le> 0 then Some (Inl ret, r1, s1)
     else if rrec r1 = [] then Some (Inl (-1), r1, fatal_internal s1)
     else if list_all rr_read (rrec r1) then current_record e (r1\<lparr>rrec := []\<rparr>) s1
     else Some (Inr (length (takeWhile rr_read (rrec r1))), r1, s1))"

text \<open>
  The copying loop: the octets, the records from the current one on, and how many of them are used up. Only application data
  is taken from several records.
\<close>

fun take_records :: "bool \<Rightarrow> bool \<Rightarrow> nat \<Rightarrow> SSL3_RECORD list \<Rightarrow> bytes \<times> SSL3_RECORD list \<times> nat" where
  "take_records several peek len [] = ([], [], 0)"
| "take_records several peek len (rr # rrs) =
     (let n = (if length (rr_data rr) < len then length (rr_data rr) else len);
          rest = drop n (rr_data rr);
          rr1 = (if peek then (if rr_data rr = [] then rr\<lparr>rr_read := True\<rparr> else rr)
                 else rr\<lparr>rr_data := rest, rr_read := rr_read rr \<or> rest = []\<rparr>)
      in if rr_data rr1 = [] \<or> peek \<and> n = length (rr_data rr1)
         then if several \<and> rrs \<noteq> [] \<and> n < len
              then (case take_records several peek (len - n) rrs of (bs, rrs1, k) \<Rightarrow> (take n (rr_data rr) @ bs, rr1 # rrs1, Suc k))
              else (take n (rr_data rr), rr1 # rrs, 1)
         else (take n (rr_data rr), rr1 # rrs, 0))"

text \<open>
  One pass after the label \<open>start\<close> ends the call with a result, the type and the octets, or goes back to it.
\<close>

datatype read_outcome = Return int nat bytes | Start

abbreviation (input) read_fails :: read_outcome where "read_fails \<equiv> Return (-1) 0 []"

text \<open>The record has the type that is asked for, or is a ChangeCipherSpec where a handshake message was expected.\<close>

definition read_data :: "nat \<Rightarrow> bool \<Rightarrow> nat \<Rightarrow> bool \<Rightarrow> nat \<Rightarrow> 'b RECORD_LAYER \<Rightarrow> SSL \<Rightarrow> read_outcome \<times> 'b RECORD_LAYER \<times> SSL" where
  "read_data typ want len peek i r s =
     (let rr = rrec r ! i; t = (if want then rr_type rr else 0)
      in if SSL_in_init s \<and> typ = SSL3_RT_APPLICATION_DATA \<and> \<not> enc_read_ctx r
         then (read_fails, r, SSLfatal SSL_AD_UNEXPECTED_MESSAGE SSL_R_APP_DATA_IN_HANDSHAKE s)
         else if typ = SSL3_RT_HANDSHAKE \<and> rr_type rr = SSL3_RT_CHANGE_CIPHER_SPEC \<and> handshake_fragment r \<noteq> []
         then (read_fails, r, SSLfatal SSL_AD_UNEXPECTED_MESSAGE SSL_R_CCS_RECEIVED_EARLY s)
         else if len = 0 then (Return 0 t [], if rr_data rr = [] then upd_rec i (\<lambda>x. x\<lparr>rr_read := True\<rparr>) r else r, s)
         else (case take_records (typ = SSL3_RT_APPLICATION_DATA) peek len (drop i (rrec r)) of (bs, recs, k) \<Rightarrow>
           let r1 = r\<lparr>rrec := take i (rrec r) @ recs, rstate := (if \<not> peek \<and> 0 < k then SSL_ST_READ_HEADER else rstate r)\<rparr>
           in if bs = [] then (Start, r1, s)
              else (Return 1 t bs, if \<not> peek \<and> i + k = length (rrec r) \<and> has (ssl_mode s) SSL_MODE_RELEASE_BUFFERS \<and> rbuf_left r1 = 0
                                   then r1\<lparr>rbuf := False\<rparr> else r1, s)))"

text \<open>An alert.\<close>

definition read_alert :: "'b rec_env \<Rightarrow> bool \<Rightarrow> nat \<Rightarrow> 'b RECORD_LAYER \<Rightarrow> SSL \<Rightarrow> read_outcome \<times> 'b RECORD_LAYER \<times> SSL" where
  "read_alert e is_tls13 i r s = (case rr_data (rrec r ! i) of
      [lv, ds] \<Rightarrow>
        let level = unat lv; descr = unat ds; warning = (level = SSL3_AL_WARNING \<or> is_tls13 \<and> descr = SSL_AD_USER_CANCELLED);
            r1 = (if warning then (upd_rec i (\<lambda>x. x\<lparr>rr_read := True\<rparr>) r)\<lparr>warn_alert := descr, alert_count := Suc (alert_count r)\<rparr> else r)
        in if warning \<and> alert_count r1 = MAX_WARN_ALERT_COUNT
           then (read_fails, r1, SSLfatal SSL_AD_UNEXPECTED_MESSAGE SSL_R_TOO_MANY_WARN_ALERTS s)
           else if is_tls13 \<and> descr = SSL_AD_USER_CANCELLED then (Start, r1, s)
           else if descr = SSL_AD_CLOSE_NOTIFY \<and> (is_tls13 \<or> level = SSL3_AL_WARNING)
           then (Return 0 0 [], r1, s\<lparr>shutdown := shutdown s OR SSL_RECEIVED_SHUTDOWN\<rparr>)
           else if level = SSL3_AL_FATAL \<or> is_tls13
           then let s1 = SSLfatal SSL_AD_NO_ALERT (ERR_CODE (1000 + int descr)) (s\<lparr>rwstate := SSL_NOTHING\<rparr>)
             in (Return 0 0 [], (upd_rec i (\<lambda>x. x\<lparr>rr_read := True\<rparr>) r1)\<lparr>fatal_alert := descr\<rparr>,
                 re_remove_session e (s1\<lparr>shutdown := shutdown s1 OR SSL_RECEIVED_SHUTDOWN\<rparr>))
           else if descr = SSL_AD_NO_RENEGOTIATION then (read_fails, r1, SSLfatal SSL_AD_HANDSHAKE_FAILURE SSL_R_NO_RENEGOTIATION s)
           else if level = SSL3_AL_WARNING then (Start, r1, s)
           else (read_fails, r1, SSLfatal SSL_AD_ILLEGAL_PARAMETER SSL_R_UNKNOWN_ALERT_TYPE s)
    | _ \<Rightarrow> (read_fails, r, SSLfatal SSL_AD_UNEXPECTED_MESSAGE SSL_R_INVALID_ALERT s))"

text \<open>A record of another type than the one asked for, once its handshake octets, if any, are in the fragment store.\<close>

definition read_other :: "'b rec_env \<Rightarrow> nat \<Rightarrow> 'b RECORD_LAYER \<Rightarrow> SSL \<Rightarrow> read_outcome \<times> 'b RECORD_LAYER \<times> SSL" where
  "read_other e i r s =
     (let rr = rrec r ! i
      in if rr_type rr = SSL3_RT_CHANGE_CIPHER_SPEC
         then (read_fails, r, SSLfatal SSL_AD_UNEXPECTED_MESSAGE SSL_R_CCS_RECEIVED_EARLY s)
         else if 4 \<le> length (handshake_fragment r) \<and> ossl_statem_get_in_handshake s = 0
         then (case re_handshake e r (ossl_statem_set_in_init True s) of (j, r1, s1) \<Rightarrow>
           if j < 0 then (Return j 0 [], r1, s1)
           else if j = 0 then (read_fails, r1, s1)
           else if early_data_state s = SSL_EARLY_DATA_READING then (read_fails, r1, s1)
           else if \<not> has (ssl_mode s1) SSL_MODE_AUTO_RETRY \<and> rbuf_left r1 = 0 then (read_fails, r1, s1\<lparr>rwstate := SSL_READING\<rparr>)
           else (Start, r1, s1))
         else if rr_type rr = SSL3_RT_ALERT \<or> rr_type rr = SSL3_RT_HANDSHAKE
         then (read_fails, r, SSLfatal SSL_AD_UNEXPECTED_MESSAGE ERR_R_INTERNAL_ERROR s)
         else if rr_type rr \<noteq> SSL3_RT_APPLICATION_DATA
         then (read_fails, r, SSLfatal SSL_AD_UNEXPECTED_MESSAGE SSL_R_UNEXPECTED_RECORD s)
         else if ossl_statem_app_data_allowed s then (read_fails, r, upd_s3 (\<lambda>t. t\<lparr>in_read_app_data := 2\<rparr>) s)
         else if ossl_statem_skip_early_data s
         then (case early_data_count_ok (length (rr_data rr)) EARLY_DATA_CIPHERTEXT_OVERHEAD False r s of
             (False, r1, s1) \<Rightarrow> (read_fails, r1, s1)
           | (True, r1, s1) \<Rightarrow> (Start, upd_rec i (\<lambda>x. x\<lparr>rr_read := True\<rparr>) r1, s1))
         else (read_fails, r, SSLfatal SSL_AD_UNEXPECTED_MESSAGE SSL_R_UNEXPECTED_RECORD s))"

text \<open>The octets of a handshake record that was not asked for, up to a message header.\<close>

definition store_fragment :: "nat \<Rightarrow> 'b RECORD_LAYER \<Rightarrow> 'b RECORD_LAYER" where
  "store_fragment i r =
     (let rr = rrec r ! i; n = min (4 - length (handshake_fragment r)) (length (rr_data rr))
      in (upd_rec i (\<lambda>x. x\<lparr>rr_data := drop n (rr_data x), rr_read := rr_read x \<or> drop n (rr_data x) = []\<rparr>) r)
           \<lparr>handshake_fragment := handshake_fragment r @ take n (rr_data rr)\<rparr>)"

definition read_record :: "'b rec_env \<Rightarrow> bool \<Rightarrow> nat \<Rightarrow> bool \<Rightarrow> nat \<Rightarrow> bool \<Rightarrow> nat \<Rightarrow> 'b RECORD_LAYER \<Rightarrow> SSL \<Rightarrow> read_outcome \<times> 'b RECORD_LAYER \<times> SSL" where
  "read_record e is_tls13 typ want len peek i r0 s =
     (let rr = rrec r0 ! i; r = (if rr_type rr \<noteq> SSL3_RT_ALERT \<and> rr_data rr \<noteq> [] then r0\<lparr>alert_count := 0\<rparr> else r0);
          discard = upd_rec i (\<lambda>x. x\<lparr>rr_data := [], rr_read := True\<rparr>) r
      in if handshake_fragment r0 \<noteq> [] \<and> rr_type rr \<noteq> SSL3_RT_HANDSHAKE \<and> SSL_IS_TLS13 s
         then (read_fails, r0, SSLfatal SSL_AD_UNEXPECTED_MESSAGE SSL_R_MIXED_HANDSHAKE_AND_NON_HANDSHAKE_DATA s)
         else if change_cipher_spec (s3 s) \<and> rr_type rr \<noteq> SSL3_RT_HANDSHAKE
         then (read_fails, r, SSLfatal SSL_AD_UNEXPECTED_MESSAGE SSL_R_DATA_BETWEEN_CCS_AND_FINISHED s)
         else if has (shutdown s) SSL_RECEIVED_SHUTDOWN
         then (Return 0 0 [], upd_rec i (\<lambda>x. x\<lparr>rr_data := []\<rparr>) r, s\<lparr>rwstate := SSL_NOTHING\<rparr>)
         else if typ = rr_type rr \<or> rr_type rr = SSL3_RT_CHANGE_CIPHER_SPEC \<and> typ = SSL3_RT_HANDSHAKE \<and> want \<and> \<not> is_tls13
         then read_data typ want len peek i r s
         else if rec_version rr = SSL2_VERSION then (read_fails, r, fatal_internal s)
         else if method_version s = TLS_ANY_VERSION \<and> (server s \<or> rr_type rr \<noteq> SSL3_RT_ALERT)
         then (read_fails, r, SSLfatal SSL_AD_UNEXPECTED_MESSAGE SSL_R_UNEXPECTED_MESSAGE (s\<lparr>version := rec_version rr\<rparr>))
         else if rr_type rr = SSL3_RT_ALERT then read_alert e is_tls13 i r s
         else if has (shutdown s) SSL_SENT_SHUTDOWN \<and> rr_type rr \<noteq> SSL3_RT_HANDSHAKE
         then (read_fails, discard, SSLfatal SSL_AD_NO_ALERT SSL_R_APPLICATION_DATA_AFTER_CLOSE_NOTIFY s)
         else if has (shutdown s) SSL_SENT_SHUTDOWN \<and> \<not> SSL_IS_TLS13 s
         then (if has (ssl_mode s) SSL_MODE_AUTO_RETRY then (Start, discard, s) else (read_fails, discard, s\<lparr>rwstate := SSL_READING\<rparr>))
         else let r1 = (if rr_type rr = SSL3_RT_HANDSHAKE then store_fragment i r else r)
           in if rr_type rr = SSL3_RT_HANDSHAKE \<and> length (handshake_fragment r1) < 4 then (Start, r1, s) else read_other e i r1 s)"

partial_function (option) read_start :: "'b rec_env \<Rightarrow> bool \<Rightarrow> nat \<Rightarrow> bool \<Rightarrow> nat \<Rightarrow> bool \<Rightarrow> 'b RECORD_LAYER \<Rightarrow> SSL
    \<Rightarrow> (int \<times> nat \<times> bytes \<times> 'b RECORD_LAYER \<times> SSL) option" where
  "read_start e is_tls13 typ want len peek r s = do {
     (c, r1, s1) \<leftarrow> current_record e r (s\<lparr>rwstate := SSL_NOTHING\<rparr>);
     case c of
       Inl ret \<Rightarrow> Some (ret, 0, [], r1, s1)
     | Inr i \<Rightarrow> (case read_record e is_tls13 typ want len peek i r1 s1 of (out, r2, s2) \<Rightarrow>
         (case out of
            Return ret t bs \<Rightarrow> Some (ret, t, bs, r2, s2)
          | Start \<Rightarrow> read_start e is_tls13 typ want len peek r2 s2)) }"

text \<open>The result, the record type where it is wanted, and the octets read.\<close>

definition ssl3_read_bytes :: "'b rec_env \<Rightarrow> nat \<Rightarrow> bool \<Rightarrow> nat \<Rightarrow> bool \<Rightarrow> 'b RECORD_LAYER \<Rightarrow> SSL
    \<Rightarrow> (int \<times> nat \<times> bytes \<times> 'b RECORD_LAYER \<times> SSL) option" where
  "ssl3_read_bytes e typ want len peek r0 s0 = (case (if rbuf r0 then (1, r0, s0) else re_setup_read e r0 s0) of (j, r, s) \<Rightarrow>
     if j = 0 then Some (-1, 0, [], r, s)
     else if typ \<noteq> 0 \<and> typ \<noteq> SSL3_RT_APPLICATION_DATA \<and> typ \<noteq> SSL3_RT_HANDSHAKE \<or> peek \<and> typ \<noteq> SSL3_RT_APPLICATION_DATA
     then Some (-1, 0, [], r, fatal_internal s)
     else if typ = SSL3_RT_HANDSHAKE \<and> handshake_fragment r \<noteq> []
     then Some (1, if want then SSL3_RT_HANDSHAKE else 0, take len (handshake_fragment r), r\<lparr>handshake_fragment := drop len (handshake_fragment r)\<rparr>, s)
     else (case (if ossl_statem_get_in_handshake s = 0 \<and> SSL_in_init s then re_handshake e r s else (1, r, s)) of (i, r1, s1) \<Rightarrow>
       if i < 0 then Some (i, 0, [], r1, s1)
       else if i = 0 then Some (-1, 0, [], r1, s1)
       else read_start e (SSL_IS_TLS13 s0) typ want len peek r1 s1))"

text \<open>These are asked when records have been read, so that the first is in place.\<close>

definition RECORD_LAYER_is_sslv2_record :: "'b RECORD_LAYER \<Rightarrow> bool" where
  "RECORD_LAYER_is_sslv2_record r \<longleftrightarrow> rrec r \<noteq> [] \<and> rec_version (hd (rrec r)) = SSL2_VERSION"

definition RECORD_LAYER_get_rrec_length :: "'b RECORD_LAYER \<Rightarrow> nat" where
  "RECORD_LAYER_get_rrec_length r = (case rrec r of [] \<Rightarrow> 0 | rr # _ \<Rightarrow> length (rr_data rr))"

text \<open>This record layer under the messages: \<open>ssl_read_bytes\<close> and \<open>ssl_write_bytes\<close> of the method. The data is written from the message buffer.\<close>

definition rec_io :: "'b rec_env \<Rightarrow> 'b RECORD_LAYER msg_io \<Rightarrow> 'b RECORD_LAYER msg_io" where
  "rec_io e io = io\<lparr>io_read := (\<lambda>want n r s. ssl3_read_bytes e SSL3_RT_HANDSHAKE want n False r s),
     io_write := (\<lambda>ty d r s. ssl3_write_bytes e ty (init_off s) d r s),
     io_is_sslv2_record := RECORD_LAYER_is_sslv2_record, io_rrec_length := RECORD_LAYER_get_rrec_length\<rparr>"

end
