(* ===== verification/Record_Crypt.thy ===== *)
theory Record_Crypt
  imports Record_Layer
begin

text \<open>
  The protection of records in TLS 1.3 (\<^verbatim>\<open>ssl/record/ssl3_record_tls13.c\<close>) and the state the record layer keeps for
  reading and protecting records: the read buffer with the packet in it, keys, IVs and sequence numbers. The ciphers are
  parameters (\<open>rec_lib\<close>), as are the protection of the versions before TLS 1.3, compression and the network.
\<close>

section \<open>State and parameters\<close>

text \<open>
  \<open>rb_buf\<close> are the octets of the read buffer, \<open>packet\<close> is a position in it; \<open>cur_type\<close>, \<open>cur_version\<close> and
  \<open>cur_length\<close> belong to the record whose header was read last. A key is there exactly when its context is set. A digest
  context may be there without a digest; the number is the size of the digest. \<open>wb_lens\<close> are the lengths of the write buffers.
\<close>

record 'w prot =
  rb_buf :: bytes
  rb_default_len :: nat
  rb_offset :: nat
  packet :: nat
  packet_length :: nat
  read_ahead :: bool
  is_first_record :: bool
  empty_record_count :: nat
  cur_type :: nat
  cur_version :: nat
  cur_length :: nat
  read_sequence :: bytes
  write_sequence :: bytes
  read_iv :: bytes
  write_iv :: bytes
  read_key :: bytes
  write_key :: bytes
  enc_write_ctx :: bool
  read_hash :: "int option option"
  write_hash :: "int option option"
  need_empty_fragments :: bool
  block_padding :: nat
  wb_lens :: "nat list"
  rbio :: bool
  network :: 'w

type_synonym 'w rlayer = "'w prot RECORD_LAYER"

record 'w rec_lib =
  rl_env :: env
  rl_rbuf_addr :: nat
  rl_wbuf_addr :: nat
  rl_bio_read :: "nat \<Rightarrow> 'w \<Rightarrow> int \<times> bytes \<times> 'w"
  rl_bio_eof :: "'w \<Rightarrow> bool"
  rl_read_pipelined :: "SSL \<Rightarrow> bool"
  rl_iv_length :: "bool \<Rightarrow> 'w rlayer \<Rightarrow> int"
  rl_algorithm_enc :: "SSL_CIPHER \<Rightarrow> u32"
  rl_psk_cipher :: SSL_CIPHER
  rl_cipher_init :: "bool \<Rightarrow> nat \<Rightarrow> bytes \<Rightarrow> bool"
  rl_ccm_tag :: "nat \<Rightarrow> bool"
  rl_seal :: "bytes \<Rightarrow> bytes \<Rightarrow> bytes \<Rightarrow> nat \<Rightarrow> bytes \<Rightarrow> (bytes \<times> bytes option) option"
  rl_open :: "bytes \<Rightarrow> bytes \<Rightarrow> bytes \<Rightarrow> bytes \<Rightarrow> bytes \<Rightarrow> bytes option"
  rl_tls1_enc :: "bool \<Rightarrow> nat \<Rightarrow> SSL3_RECORD list \<Rightarrow> 'w rlayer \<Rightarrow> SSL \<Rightarrow> bool \<times> SSL3_RECORD list \<times> bytes option list \<times> 'w rlayer \<times> SSL"
  rl_mac :: "bool \<Rightarrow> SSL3_RECORD \<Rightarrow> 'w rlayer \<Rightarrow> SSL \<Rightarrow> bytes option \<times> 'w rlayer \<times> SSL"
  rl_compress :: "(bytes \<Rightarrow> bytes option) option"
  rl_expand :: "(bytes \<Rightarrow> bytes option) option"
  rl_allow_compression :: "SSL \<Rightarrow> bool"
  rl_eivlen :: "SSL \<Rightarrow> int option"   \<comment> \<open>the length of the explicit IV of the cipher, where the version has one\<close>
  rl_padding_cb :: "(nat \<Rightarrow> nat \<Rightarrow> nat) option"

definition upd_prot :: "('w prot \<Rightarrow> 'w prot) \<Rightarrow> 'w rlayer \<Rightarrow> 'w rlayer" where
  "upd_prot f r = r\<lparr>rl_world := f (rl_world r)\<rparr>"

lemma upd_prot_fields [simp]:
  "rl_world (upd_prot f r) = f (rl_world r)" "rrec (upd_prot f r) = rrec r" "rbuf (upd_prot f r) = rbuf r" "rbuf_left (upd_prot f r) = rbuf_left r"
  "rstate (upd_prot f r) = rstate r" "enc_read_ctx (upd_prot f r) = enc_read_ctx r" "max_pipelines (upd_prot f r) = max_pipelines r"
  "max_fragment_len_mode (upd_prot f r) = max_fragment_len_mode r" "max_send_fragment (upd_prot f r) = max_send_fragment r"
  "wrbuf (upd_prot f r) = wrbuf r"
  by (simp_all add: upd_prot_def)

abbreviation (input) SSL3_RT_HEADER_LENGTH :: nat where "SSL3_RT_HEADER_LENGTH \<equiv> 5"
abbreviation (input) SEQ_NUM_SIZE :: nat where "SEQ_NUM_SIZE \<equiv> 8"
abbreviation (input) SSL_AESGCM :: u32 where "SSL_AESGCM \<equiv> 0x3000"
abbreviation (input) SSL_AESCCM :: u32 where "SSL_AESCCM \<equiv> 0x3C000"
abbreviation (input) SSL_AESCCM8 :: u32 where "SSL_AESCCM8 \<equiv> 0x30000"
abbreviation (input) SSL_CHACHA20 :: u32 where "SSL_CHACHA20 \<equiv> 0x80000"

section \<open>TLS 1.3\<close>

text \<open>The cipher whose tag length counts; a session with early data has one.\<close>

definition record_cipher :: "'w rec_lib \<Rightarrow> 'w rlayer \<Rightarrow> SSL \<Rightarrow> SSL_CIPHER option" where
  "record_cipher L r s =
     (if early_data_state s = SSL_EARLY_DATA_WRITING \<or> early_data_state s = SSL_EARLY_DATA_WRITE_RETRY
      then if 0 < sess_max_early_data r then sess_cipher (session s)
           else (case psk_max_early_data r of None \<Rightarrow> None | Some m \<Rightarrow> if 0 < m then Some (rl_psk_cipher L) else None)
      else new_cipher (s3 s))"

definition tag_length :: "u32 \<Rightarrow> nat option" where
  "tag_length alg_enc =
     (if alg_enc AND SSL_AESCCM \<noteq> 0 then Some (if alg_enc AND SSL_AESCCM8 \<noteq> 0 then 8 else 16)
      else if alg_enc AND SSL_AESGCM \<noteq> 0 then Some 16
      else if alg_enc AND SSL_CHACHA20 \<noteq> 0 then Some 16
      else None)"

definition record_nonce :: "nat \<Rightarrow> bytes \<Rightarrow> bytes \<Rightarrow> bytes" where
  "record_nonce ivlen staticiv seq =
     (let offset = ivlen - SEQ_NUM_SIZE in take offset staticiv @ map2 (XOR) (take SEQ_NUM_SIZE (drop offset staticiv)) seq)"

text \<open>The additional data, written into the array \<open>recheader\<close>.\<close>

definition record_aad :: "mem_ok \<Rightarrow> nat \<Rightarrow> nat \<Rightarrow> nat \<Rightarrow> bytes option" where
  "record_aad ok typ vers len =
     (case wseq (WPACKET_init_static_len ok (replicate SSL3_RT_HEADER_LENGTH 0) 0)
           (wseq (WPACKET_put_bytes ok typ 1) (wseq (WPACKET_put_bytes ok vers 2) (WPACKET_put_bytes ok len 2))) (raw_packet 0) of
        (False, _) \<Rightarrow> None
      | (True, p) \<Rightarrow> if WPACKET_get_total_written p \<noteq> SSL3_RT_HEADER_LENGTH then None
          else (case WPACKET_finish ok p of (False, _) \<Rightarrow> None | (True, p1) \<Rightarrow> GETBUF p1))"

definition set_sequence :: "bool \<Rightarrow> bytes \<Rightarrow> 'w rlayer \<Rightarrow> 'w rlayer" where
  "set_sequence sending seq = upd_prot (\<lambda>w. if sending then w\<lparr>write_sequence := seq\<rparr> else w\<lparr>read_sequence := seq\<rparr>)"

text \<open>The record through the cipher, with its IV, the additional data and the tag.\<close>

definition aead_record :: "'w rec_lib \<Rightarrow> bool \<Rightarrow> bytes \<Rightarrow> bytes \<Rightarrow> nat \<Rightarrow> bytes \<Rightarrow> bytes \<Rightarrow> bytes \<Rightarrow> SSL3_RECORD \<Rightarrow> SSL \<Rightarrow> bool \<times> SSL3_RECORD \<times> SSL" where
  "aead_record L sending key iv taglen aad body tag rec s =
     (if sending
      then (case rl_seal L key iv aad taglen body of
          None \<Rightarrow> (False, rec, s)
        | Some (ct, t) \<Rightarrow> if length ct \<noteq> length body then (False, rec, s)
            else (case t of None \<Rightarrow> (False, rec\<lparr>rr_data := ct\<rparr>, fatal_internal s) | Some tg \<Rightarrow> (True, rec\<lparr>rr_data := ct @ tg\<rparr>, s)))
      else (case rl_open L key iv aad body tag of
          None \<Rightarrow> (False, rec\<lparr>rr_data := body\<rparr>, s)
        | Some pt \<Rightarrow> if length pt \<noteq> length body then (False, rec\<lparr>rr_data := body\<rparr>, s) else (True, rec\<lparr>rr_data := pt\<rparr>, s)))"

definition tls13_record :: "'w rec_lib \<Rightarrow> bool \<Rightarrow> SSL3_RECORD \<Rightarrow> 'w rlayer \<Rightarrow> SSL \<Rightarrow> bool \<times> SSL3_RECORD \<times> 'w rlayer \<times> SSL" where
  "tls13_record L sending rec r s =
     (let w = rl_world r; ctx = (if sending then enc_write_ctx w else enc_read_ctx r); ivlen = rl_iv_length L sending r;
          staticiv = (if sending then write_iv w else read_iv w); seq = (if sending then write_sequence w else read_sequence w)
      in if \<not> ctx \<or> rr_type rec = SSL3_RT_ALERT then (True, rec, r, s)
         else if ivlen < 0 then (False, rec, r, fatal_internal s)
         else case record_cipher L r s of None \<Rightarrow> (False, rec, r, fatal_internal s) | Some c \<Rightarrow>
           (let alg_enc = rl_algorithm_enc L c
            in case tag_length alg_enc of None \<Rightarrow> (False, rec, r, fatal_internal s) | Some taglen \<Rightarrow>
              (let body = (if sending then rr_data rec else take (length (rr_data rec) - taglen) (rr_data rec));
                   tag = (if sending then [] else drop (length (rr_data rec) - taglen) (rr_data rec));
                   seq1 = ssl3_record_sequence_update seq; r1 = set_sequence sending seq1 r; iv = record_nonce (nat ivlen) staticiv seq
               in if sending \<and> alg_enc AND SSL_AESCCM \<noteq> 0 \<and> \<not> rl_ccm_tag L taglen then (False, rec, r, fatal_internal s)
                  else if \<not> sending \<and> length (rr_data rec) < taglen + 1 then (False, rec, r, s)
                  else if ivlen < int SEQ_NUM_SIZE then (False, rec\<lparr>rr_data := body\<rparr>, r, fatal_internal s)
                  else if seq1 = replicate SEQ_NUM_SIZE 0 then (False, rec\<lparr>rr_data := body\<rparr>, r1, s)
                  else if \<not> rl_cipher_init L sending taglen iv then (False, rec\<lparr>rr_data := body\<rparr>, r1, fatal_internal s)
                  else (case record_aad (malloc_ok (rl_env L)) (rr_type rec) (rec_version rec) (length body + taglen) of
                      None \<Rightarrow> (False, rec\<lparr>rr_data := body\<rparr>, r1, fatal_internal s)
                    | Some aad \<Rightarrow> (case aead_record L sending (if sending then write_key w else read_key w) iv taglen aad body tag rec s of
                        (ok, rec1, s1) \<Rightarrow> (ok, rec1, r1, s1))))))"

definition tls13_enc :: "'w rec_lib \<Rightarrow> bool \<Rightarrow> SSL3_RECORD list \<Rightarrow> 'w rlayer \<Rightarrow> SSL \<Rightarrow> bool \<times> SSL3_RECORD list \<times> 'w rlayer \<times> SSL" where
  "tls13_enc L sending recs r s = (case recs of
      [rec] \<Rightarrow> (case tls13_record L sending rec r s of (ok, rec1, r1, s1) \<Rightarrow> (ok, [rec1], r1, s1))
    | _ \<Rightarrow> (False, recs, r, fatal_internal s))"

text \<open>The function of the method in use.\<close>

definition ssl3_enc_enc :: "'w rec_lib \<Rightarrow> bool \<Rightarrow> nat \<Rightarrow> SSL3_RECORD list \<Rightarrow> 'w rlayer \<Rightarrow> SSL \<Rightarrow> bool \<times> SSL3_RECORD list \<times> bytes option list \<times> 'w rlayer \<times> SSL" where
  "ssl3_enc_enc L sending mac_size recs r s =
     (if SSL_IS_TLS13 s then (case tls13_enc L sending recs r s of (ok, recs1, r1, s1) \<Rightarrow> (ok, recs1, map (\<lambda>_. None) recs, r1, s1))
      else rl_tls1_enc L sending mac_size recs r s)"

end
