(* ===== verification/Record_Input.thy ===== *)
theory Record_Input
  imports Record_Crypt
begin

text \<open>
  Records from the network: \<open>ssl3_read_n\<close> of \<^verbatim>\<open>ssl/record/rec_layer_s3.c\<close> fills the read buffer and
  \<open>ssl3_get_record\<close> of \<^verbatim>\<open>ssl/record/ssl3_record.c\<close> takes records out of it, opens them and checks what they are. DTLS and kernel
  TLS are not in the build.
\<close>

abbreviation (input) SSL3_RT_MAX_PLAIN_LENGTH :: nat where "SSL3_RT_MAX_PLAIN_LENGTH \<equiv> 16384"
abbreviation (input) SSL3_RT_MAX_COMPRESSED_OVERHEAD :: nat where "SSL3_RT_MAX_COMPRESSED_OVERHEAD \<equiv> 1024"
abbreviation (input) SSL3_RT_MAX_ENCRYPTED_OVERHEAD :: nat where "SSL3_RT_MAX_ENCRYPTED_OVERHEAD \<equiv> 320"
abbreviation (input) SSL3_RT_MAX_COMPRESSED_LENGTH :: nat where "SSL3_RT_MAX_COMPRESSED_LENGTH \<equiv> 17408"
abbreviation (input) SSL3_RT_MAX_ENCRYPTED_LENGTH :: nat where "SSL3_RT_MAX_ENCRYPTED_LENGTH \<equiv> 17728"
abbreviation (input) SSL3_RT_MAX_TLS13_ENCRYPTED_LENGTH :: nat where "SSL3_RT_MAX_TLS13_ENCRYPTED_LENGTH \<equiv> 16640"
abbreviation (input) SSL3_ALIGN_PAYLOAD :: nat where "SSL3_ALIGN_PAYLOAD \<equiv> 8"
abbreviation (input) SSL2_RT_HEADER_LENGTH :: nat where "SSL2_RT_HEADER_LENGTH \<equiv> 2"
abbreviation (input) SSL2_MT_CLIENT_HELLO :: nat where "SSL2_MT_CLIENT_HELLO \<equiv> 1"
abbreviation (input) MIN_SSL2_RECORD_LEN :: nat where "MIN_SSL2_RECORD_LEN \<equiv> 9"
abbreviation (input) MAX_EMPTY_RECORDS :: nat where "MAX_EMPTY_RECORDS \<equiv> 32"
abbreviation (input) SSL_OP_IGNORE_UNEXPECTED_EOF :: u64 where "SSL_OP_IGNORE_UNEXPECTED_EOF \<equiv> 0x80"
abbreviation (input) TLS1_FLAGS_ENCRYPT_THEN_MAC_READ :: u32 where "TLS1_FLAGS_ENCRYPT_THEN_MAC_READ \<equiv> 0x100"
abbreviation (input) SSL_AD_BAD_RECORD_MAC :: ALERT where "SSL_AD_BAD_RECORD_MAC \<equiv> SSL_AD_CODE 20"
abbreviation (input) SSL_AD_RECORD_OVERFLOW :: ALERT where "SSL_AD_RECORD_OVERFLOW \<equiv> SSL_AD_CODE 22"
abbreviation (input) SSL_AD_DECOMPRESSION_FAILURE :: ALERT where "SSL_AD_DECOMPRESSION_FAILURE \<equiv> SSL_AD_CODE 30"

abbreviation (input) SSL_R_READ_BIO_NOT_SET :: err_reason where "SSL_R_READ_BIO_NOT_SET \<equiv> ERR_CODE 211"
abbreviation (input) SSL_R_UNEXPECTED_EOF_WHILE_READING :: err_reason where "SSL_R_UNEXPECTED_EOF_WHILE_READING \<equiv> ERR_CODE 294"
abbreviation (input) SSL_R_PACKET_LENGTH_TOO_LONG :: err_reason where "SSL_R_PACKET_LENGTH_TOO_LONG \<equiv> ERR_CODE 198"
abbreviation (input) SSL_R_LENGTH_TOO_SHORT :: err_reason where "SSL_R_LENGTH_TOO_SHORT \<equiv> ERR_CODE 160"
abbreviation (input) SSL_R_WRONG_VERSION_NUMBER :: err_reason where "SSL_R_WRONG_VERSION_NUMBER \<equiv> ERR_CODE 267"
abbreviation (input) SSL_R_HTTP_REQUEST :: err_reason where "SSL_R_HTTP_REQUEST \<equiv> ERR_CODE 156"
abbreviation (input) SSL_R_HTTPS_PROXY_REQUEST :: err_reason where "SSL_R_HTTPS_PROXY_REQUEST \<equiv> ERR_CODE 155"
abbreviation (input) SSL_R_BAD_RECORD_TYPE :: err_reason where "SSL_R_BAD_RECORD_TYPE \<equiv> ERR_CODE 443"
abbreviation (input) SSL_R_ENCRYPTED_LENGTH_TOO_LONG :: err_reason where "SSL_R_ENCRYPTED_LENGTH_TOO_LONG \<equiv> ERR_CODE 150"
abbreviation (input) SSL_R_INVALID_CCS_MESSAGE :: err_reason where "SSL_R_INVALID_CCS_MESSAGE \<equiv> ERR_CODE 260"
abbreviation (input) SSL_R_UNEXPECTED_CCS_MESSAGE :: err_reason where "SSL_R_UNEXPECTED_CCS_MESSAGE \<equiv> ERR_CODE 262"
abbreviation (input) SSL_R_DECRYPTION_FAILED_OR_BAD_RECORD_MAC :: err_reason where "SSL_R_DECRYPTION_FAILED_OR_BAD_RECORD_MAC \<equiv> ERR_CODE 281"
abbreviation (input) SSL_R_COMPRESSED_LENGTH_TOO_LONG :: err_reason where "SSL_R_COMPRESSED_LENGTH_TOO_LONG \<equiv> ERR_CODE 140"
abbreviation (input) SSL_R_BAD_DECOMPRESSION :: err_reason where "SSL_R_BAD_DECOMPRESSION \<equiv> ERR_CODE 107"
abbreviation (input) SSL_R_DATA_LENGTH_TOO_LONG :: err_reason where "SSL_R_DATA_LENGTH_TOO_LONG \<equiv> ERR_CODE 146"
abbreviation (input) SSL_R_RECORD_TOO_SMALL :: err_reason where "SSL_R_RECORD_TOO_SMALL \<equiv> ERR_CODE 298"

section \<open>The read buffer\<close>

text \<open>What is left free at the start of a buffer, so that the contents of a record are aligned.\<close>

definition payload_align :: "nat \<Rightarrow> nat" where
  "payload_align addr = SSL3_ALIGN_PAYLOAD - 1 - (addr + SSL3_RT_HEADER_LENGTH - 1) mod SSL3_ALIGN_PAYLOAD"

definition ssl3_setup_read_buffer :: "'w rec_lib \<Rightarrow> 'w rlayer \<Rightarrow> SSL \<Rightarrow> bool \<times> 'w rlayer \<times> SSL" where
  "ssl3_setup_read_buffer L r s =
     (let one = SSL3_RT_MAX_PLAIN_LENGTH + SSL3_RT_MAX_ENCRYPTED_OVERHEAD + SSL3_RT_HEADER_LENGTH + 3 +
            (if rl_allow_compression L s then SSL3_RT_MAX_COMPRESSED_OVERHEAD else 0);
          len = max (if 1 < max_pipelines r then one * max_pipelines r else one) (rb_default_len (rl_world r))
      in if rbuf r then (True, r, s)
         else (case OPENSSL_malloc (rl_env L) len (os s) of
             (False, w1) \<Rightarrow> (False, r, SSLfatal SSL_AD_NO_ALERT ERR_R_MALLOC_FAILURE (s\<lparr>os := w1\<rparr>))
           | (True, w1) \<Rightarrow> (True, upd_prot (\<lambda>w. w\<lparr>rb_buf := replicate len 0\<rparr>) (r\<lparr>rbuf := True\<rparr>), s\<lparr>os := w1\<rparr>)))"

text \<open>
  The reading loop: octets are stored from \<open>base + left\<close> on until there are \<open>n\<close>. The result is followed by the number of octets that are there.
\<close>

function read_n_loop :: "'w rec_lib \<Rightarrow> nat \<Rightarrow> nat \<Rightarrow> nat \<Rightarrow> nat \<Rightarrow> 'w rlayer \<Rightarrow> SSL \<Rightarrow> int \<times> nat \<times> 'w rlayer \<times> SSL" where
  "read_n_loop L base n mx left r s =
     (if n \<le> left then (1, left, r, s)
      else if \<not> rbio (rl_world r) then (-1, left, r, SSLfatal SSL_AD_INTERNAL_ERROR SSL_R_READ_BIO_NOT_SET s)
      else (case rl_bio_read L (mx - left) (network (rl_world r)) of (ret, d, nw) \<Rightarrow>
        let got = take (nat ret) d; s1 = s\<lparr>rwstate := SSL_READING\<rparr>;
            r1 = upd_prot (\<lambda>w. w\<lparr>network := nw, rb_buf := write_at (rb_buf w) (base + left) got\<rparr>) r
        in if 0 < ret then read_n_loop L base n mx (left + nat ret) r1 s1
           else if \<not> rl_bio_eof L nw then (ret, left, r1, s1)
           else if has (options s) SSL_OP_IGNORE_UNEXPECTED_EOF
           then (ret, left, r1\<lparr>warn_alert := SSL_AD_CLOSE_NOTIFY\<rparr>, s1\<lparr>shutdown := SSL_RECEIVED_SHUTDOWN\<rparr>)
           else (ret, left, r1, SSLfatal SSL_AD_DECODE_ERROR SSL_R_UNEXPECTED_EOF_WHILE_READING s1)))"
  by pat_completeness auto
termination by (relation "measure (\<lambda>(L, base, n, mx, left, r, s). n - left)") auto

declare read_n_loop.simps [simp del]

text \<open>\<open>n\<close> octets are added to the packet, which ends at the offset of the buffer.\<close>

definition read_packet :: "'w rec_lib \<Rightarrow> nat \<Rightarrow> nat \<Rightarrow> 'w rlayer \<Rightarrow> SSL \<Rightarrow> int \<times> 'w rlayer \<times> SSL" where
  "read_packet L n mx r s =
     (let w = rl_world r; left = rbuf_left r; len = packet_length w; off = rb_offset w; room = size_sub (length (rb_buf w)) off;
          taken = upd_prot (\<lambda>w. w\<lparr>rb_offset := off + n, packet_length := len + n\<rparr>)
      in if n \<le> left then (1, (taken r)\<lparr>rbuf_left := left - n\<rparr>, s)
         else if room < n then (-1, r, fatal_internal s)
         else (case read_n_loop L (payload_align (rl_rbuf_addr L) + len) n (if read_ahead w then min (max mx n) room else n) left r s of
           (ret, left1, r1, s1) \<Rightarrow>
             if ret \<le> 0
             then (ret, if has (ssl_mode s1) SSL_MODE_RELEASE_BUFFERS \<and> len + left1 = 0 then r1\<lparr>rbuf_left := left1, rbuf := False\<rparr>
                        else r1\<lparr>rbuf_left := left1\<rparr>, s1)
             else (1, (taken r1)\<lparr>rbuf_left := left1 - n\<rparr>, s1\<lparr>rwstate := SSL_NOTHING\<rparr>)))"

text \<open>\<open>n\<close> octets are made a packet, or (\<open>ext_pk\<close>) added to the packet; \<open>clearold\<close> moves what is there to the front of the buffer.\<close>

definition place_packet :: "'w rec_lib \<Rightarrow> bool \<Rightarrow> bool \<Rightarrow> 'w rlayer \<Rightarrow> 'w rlayer" where
  "place_packet L ext_pk clearold r =
     (let w = rl_world r; left = rbuf_left r; align = payload_align (rl_rbuf_addr L);
          off = (if \<not> ext_pk \<and> left = 0 then align else rb_offset w);
          pk = (if ext_pk then packet w else off); len = (if ext_pk then packet_length w else 0)
      in if pk \<noteq> align \<and> clearold
         then upd_prot (\<lambda>w. w\<lparr>rb_buf := write_at (rb_buf w) align (take (len + left) (drop pk (rb_buf w))), rb_offset := len + align, packet := align, packet_length := len\<rparr>) r
         else upd_prot (\<lambda>w. w\<lparr>rb_offset := off, packet := pk, packet_length := len\<rparr>) r)"

definition ssl3_read_n :: "'w rec_lib \<Rightarrow> nat \<Rightarrow> nat \<Rightarrow> bool \<Rightarrow> bool \<Rightarrow> 'w rlayer \<Rightarrow> SSL \<Rightarrow> int \<times> 'w rlayer \<times> SSL" where
  "ssl3_read_n L n mx ext_pk clearold r0 s0 =
     (if n = 0 then (0, r0, s0)
      else (case ssl3_setup_read_buffer L r0 s0 of (ok, r, s) \<Rightarrow>
        if \<not> ok then (-1, r, s) else read_packet L n mx (place_packet L ext_pk clearold r) s))"

definition packet_bytes :: "'w rlayer \<Rightarrow> bytes" where
  "packet_bytes r = take (packet_length (rl_world r)) (drop (packet (rl_world r)) (rb_buf (rl_world r)))"

definition ssl3_record_app_data_waiting :: "'w rlayer \<Rightarrow> bool" where
  "ssl3_record_app_data_waiting r =
     (let left = rbuf_left r; p = drop (rb_offset (rl_world r)) (rb_buf (rl_world r))
      in if \<not> rbuf r then False
         else if left < SSL3_RT_HEADER_LENGTH then False
         else if unat (p ! 0) \<noteq> SSL3_RT_APPLICATION_DATA then False
         else \<not> left < SSL3_RT_HEADER_LENGTH + be_val (take 2 (drop 3 p)))"

section \<open>The header of a record\<close>

text \<open>A version that is not one of TLS: what a client of another protocol may have sent.\<close>

definition not_tls :: "'w rlayer \<Rightarrow> SSL \<Rightarrow> SSL" where
  "not_tls r s =
     (let p = map (\<lambda>b. char_of (unat b)) (packet_bytes r)
      in if \<not> is_first_record (rl_world r) then SSLfatal SSL_AD_PROTOCOL_VERSION SSL_R_WRONG_VERSION_NUMBER s
         else if take 4 p = ''GET '' \<or> take 5 p = ''POST '' \<or> take 5 p = ''HEAD '' \<or> take 4 p = ''PUT ''
         then SSLfatal SSL_AD_NO_ALERT SSL_R_HTTP_REQUEST s
         else if take 5 p = ''CONNE'' then SSLfatal SSL_AD_NO_ALERT SSL_R_HTTPS_PROXY_REQUEST s
         else SSLfatal SSL_AD_NO_ALERT SSL_R_WRONG_VERSION_NUMBER s)"

text \<open>The version of a record is not the one of the connection.\<close>

definition wrong_version :: "nat \<Rightarrow> nat \<Rightarrow> 'w rlayer \<Rightarrow> SSL \<Rightarrow> SSL" where
  "wrong_version typ vers r s =
     (let same_major = (version s div 256 mod 256 = vers div 256 \<and> \<not> enc_write_ctx (rl_world r) \<and> write_hash (rl_world r) = None)
      in if same_major \<and> typ = SSL3_RT_ALERT then SSLfatal SSL_AD_NO_ALERT SSL_R_WRONG_VERSION_NUMBER s
         else SSLfatal SSL_AD_PROTOCOL_VERSION SSL_R_WRONG_VERSION_NUMBER (if same_major then s\<lparr>version := vers\<rparr> else s))"

definition tls_header :: "nat \<Rightarrow> nat \<Rightarrow> nat \<Rightarrow> 'w rlayer \<Rightarrow> SSL \<Rightarrow> int \<times> 'w rlayer \<times> SSL" where
  "tls_header typ vers len r0 s =
     (let r = upd_prot (\<lambda>w. w\<lparr>cur_type := typ, cur_version := vers, cur_length := len\<rparr>) r0
      in if \<not> first_packet s \<and> \<not> SSL_IS_TLS13 s \<and> hello_retry_request s \<noteq> SSL_HRR_PENDING \<and> vers \<noteq> version s then (-1, r, wrong_version typ vers r s)
         else if vers div 256 \<noteq> 3 then (-1, r, not_tls r s)
         else if SSL_IS_TLS13 s \<and> enc_read_ctx r \<and> typ \<noteq> SSL3_RT_APPLICATION_DATA
                \<and> (typ \<noteq> SSL3_RT_CHANGE_CIPHER_SPEC \<or> \<not> SSL_IS_FIRST_HANDSHAKE s)
                \<and> (typ \<noteq> SSL3_RT_ALERT \<or> enc_read_state (statem s) \<noteq> ENC_READ_STATE_ALLOW_PLAIN_ALERTS)
         then (-1, r, SSLfatal SSL_AD_UNEXPECTED_MESSAGE SSL_R_BAD_RECORD_TYPE s)
         else if SSL_IS_TLS13 s \<and> enc_read_ctx r \<and> vers \<noteq> 0x303 then (-1, r, SSLfatal SSL_AD_DECODE_ERROR SSL_R_WRONG_VERSION_NUMBER s)
         else if size_sub (length (rb_buf (rl_world r))) SSL3_RT_HEADER_LENGTH < len
         then (-1, r, SSLfatal SSL_AD_RECORD_OVERFLOW SSL_R_PACKET_LENGTH_TOO_LONG s)
         else (1, r, s))"

definition sslv2_header :: "nat \<Rightarrow> 'w rlayer \<Rightarrow> SSL \<Rightarrow> int \<times> 'w rlayer \<times> SSL" where
  "sslv2_header len r0 s =
     (let r = upd_prot (\<lambda>w. w\<lparr>cur_type := SSL3_RT_HANDSHAKE, cur_version := SSL2_VERSION, cur_length := len\<rparr>) r0
      in if size_sub (length (rb_buf (rl_world r))) SSL2_RT_HEADER_LENGTH < len
         then (-1, r, SSLfatal SSL_AD_RECORD_OVERFLOW SSL_R_PACKET_LENGTH_TOO_LONG s)
         else if len < MIN_SSL2_RECORD_LEN then (-1, r, SSLfatal SSL_AD_DECODE_ERROR SSL_R_LENGTH_TOO_SHORT s)
         else (1, r, s))"

definition parse_header :: "'w rlayer \<Rightarrow> SSL \<Rightarrow> int \<times> 'w rlayer \<times> SSL" where
  "parse_header r s =
     (case PACKET_buf_init (packet_bytes r) (packet_length (rl_world r)) of None \<Rightarrow> (-1, r, fatal_internal s) | Some pkt \<Rightarrow>
       (case do { (l2, p) \<leftarrow> PACKET_get_net_2 pkt; (ty, p) \<leftarrow> PACKET_get_1 p; Some (unat l2, unat ty) } of
          None \<Rightarrow> (-1, r, SSLfatal SSL_AD_DECODE_ERROR ERR_R_INTERNAL_ERROR s)
        | Some (sslv2len, ty2) \<Rightarrow>
            if server s \<and> is_first_record (rl_world r) \<and> 0x8000 \<le> sslv2len \<and> ty2 = SSL2_MT_CLIENT_HELLO
            then sslv2_header (sslv2len - 0x8000) r s
            else (case do { (ty, p) \<leftarrow> PACKET_get_1 pkt; (v, p) \<leftarrow> PACKET_get_net_2 p; (l, p) \<leftarrow> PACKET_get_net_2 p; Some (unat ty, unat v, unat l) } of
                None \<Rightarrow> (-1, r, SSLfatal SSL_AD_DECODE_ERROR ERR_R_INTERNAL_ERROR s)
              | Some (ty, v, l) \<Rightarrow> tls_header ty v l r s)))"

definition get_header :: "'w rec_lib \<Rightarrow> bool \<Rightarrow> 'w rlayer \<Rightarrow> SSL \<Rightarrow> int \<times> 'w rlayer \<times> SSL" where
  "get_header L first r s =
     (if rstate r = SSL_ST_READ_BODY \<and> SSL3_RT_HEADER_LENGTH \<le> packet_length (rl_world r) then (1, r, s)
      else (case ssl3_read_n L SSL3_RT_HEADER_LENGTH (length (rb_buf (rl_world r))) False first r s of (rret, r1, s1) \<Rightarrow>
        if rret \<le> 0 then (rret, r1, s1) else parse_header (r1\<lparr>rstate := SSL_ST_READ_BODY\<rparr>) s1))"

section \<open>Complete records\<close>

text \<open>One record with its contents as they came; \<open>Inl\<close> is the result of the call.\<close>

definition get_one_record :: "'w rec_lib \<Rightarrow> bool \<Rightarrow> 'w rlayer \<Rightarrow> SSL \<Rightarrow> (int + SSL3_RECORD) \<times> 'w rlayer \<times> SSL" where
  "get_one_record L first r00 s00 =
     (case get_header L first r00 s00 of (h, r0, s0) \<Rightarrow>
       if h \<le> 0 then (Inl h, r0, s0)
       else let len = cur_length (rl_world r0);
                limit = (if SSL_IS_TLS13 s0 then SSL3_RT_MAX_TLS13_ENCRYPTED_LENGTH
                         else if rl_expand L = None then SSL3_RT_MAX_ENCRYPTED_LENGTH - SSL3_RT_MAX_COMPRESSED_OVERHEAD else SSL3_RT_MAX_ENCRYPTED_LENGTH);
                sslv2 = (cur_version (rl_world r0) = SSL2_VERSION);
                more = (if sslv2 then len + SSL2_RT_HEADER_LENGTH - SSL3_RT_HEADER_LENGTH else len)
            in if limit < len then (Inl (-1), r0, SSLfatal SSL_AD_RECORD_OVERFLOW SSL_R_ENCRYPTED_LENGTH_TOO_LONG s0)
               else (case (if 0 < more then ssl3_read_n L more more True False r0 s0 else (1, r0, s0)) of (rret, r, s) \<Rightarrow>
                 if rret \<le> 0 then (Inl rret, r, s)
                 else let input = drop (if sslv2 then SSL2_RT_HEADER_LENGTH else SSL3_RT_HEADER_LENGTH) (drop (packet (rl_world r)) (rb_buf (rl_world r)))
                      in (Inr \<lparr>rec_version = cur_version (rl_world r), rr_type = cur_type (rl_world r), rr_data = take len input, rr_read = False\<rparr>,
                          upd_prot (\<lambda>w. w\<lparr>packet_length := 0, is_first_record := False\<rparr>) (r\<lparr>rstate := SSL_ST_READ_HEADER\<rparr>), s)))"

text \<open>At most \<open>k\<close> records after the first one; several only of application data, for a cipher that works on several at once.\<close>

fun get_records :: "'w rec_lib \<Rightarrow> nat \<Rightarrow> SSL3_RECORD list \<Rightarrow> 'w rlayer \<Rightarrow> SSL \<Rightarrow> (int + SSL3_RECORD list) \<times> 'w rlayer \<times> SSL" where
  "get_records L k recs r s = (case get_one_record L (recs = []) r s of
      (Inl ret, r1, s1) \<Rightarrow> (Inl ret, r1, s1)
    | (Inr rec, r1, s1) \<Rightarrow>
        (case k of 0 \<Rightarrow> (Inr (recs @ [rec]), r1, s1)
         | Suc k1 \<Rightarrow> if rr_type rec = SSL3_RT_APPLICATION_DATA \<and> enc_read_ctx r1 \<and> rl_read_pipelined L s1 \<and> ssl3_record_app_data_waiting r1
             then get_records L k1 (recs @ [rec]) r1 s1
             else (Inr (recs @ [rec]), r1, s1)))"

declare get_records.simps [simp del]

section \<open>Opening records\<close>

text \<open>Encrypt-then-MAC: the MAC at the end of every record, over what is before it.\<close>

fun etm_records :: "'w rec_lib \<Rightarrow> nat \<Rightarrow> SSL3_RECORD list \<Rightarrow> 'w rlayer \<Rightarrow> SSL \<Rightarrow> bool \<times> SSL3_RECORD list \<times> 'w rlayer \<times> SSL" where
  "etm_records L mac_size [] r s = (True, [], r, s)"
| "etm_records L mac_size (rec # recs) r s =
     (if length (rr_data rec) < mac_size then (False, rec # recs, r, SSLfatal SSL_AD_DECODE_ERROR SSL_R_LENGTH_TOO_SHORT s)
      else let n = length (rr_data rec) - mac_size; rec1 = rec\<lparr>rr_data := take n (rr_data rec)\<rparr>
        in (case rl_mac L False rec1 r s of (md, r1, s1) \<Rightarrow>
          if md = None \<or> take mac_size (the md) \<noteq> drop n (rr_data rec)
          then (False, rec1 # recs, r1, SSLfatal SSL_AD_BAD_RECORD_MAC SSL_R_DECRYPTION_FAILED_OR_BAD_RECORD_MAC s1)
          else (case etm_records L mac_size recs r1 s1 of (ok, recs1, r2, s2) \<Rightarrow> (ok, rec1 # recs1, r2, s2))))"

text \<open>MAC-then-encrypt: the MACs that decryption found; every record is looked at.\<close>

fun mac_records :: "'w rec_lib \<Rightarrow> nat \<Rightarrow> SSL3_RECORD list \<Rightarrow> bytes option list \<Rightarrow> 'w rlayer \<Rightarrow> SSL \<Rightarrow> bool \<times> 'w rlayer \<times> SSL" where
  "mac_records L mac_size [] macs r s = (True, r, s)"
| "mac_records L mac_size (rec # recs) macs r s = (case rl_mac L False rec r s of (md, r1, s1) \<Rightarrow>
     (case mac_records L mac_size recs (drop 1 macs) r1 s1 of (ok, r2, s2) \<Rightarrow>
       (ok \<and> md \<noteq> None \<and> macs \<noteq> [] \<and> hd macs \<noteq> None \<and> take mac_size (the md) = take mac_size (the (hd macs))
        \<and> length (rr_data rec) \<le> SSL3_RT_MAX_COMPRESSED_LENGTH + mac_size, r2, s2)))"

text \<open>Where the padding of a TLS 1.3 record starts: the position of its last octet that is not zero, or 0.\<close>

definition inner_end :: "bytes \<Rightarrow> nat" where
  "inner_end d = length (dropWhile (\<lambda>b. b = 0) (rev d)) - 1"

definition inner_type :: "SSL3_RECORD \<Rightarrow> 'w rlayer \<Rightarrow> SSL \<Rightarrow> bool \<times> SSL3_RECORD \<times> SSL" where
  "inner_type rec r s =
     (let n = inner_end (rr_data rec); rec1 = rec\<lparr>rr_data := take n (rr_data rec), rr_type := unat (rr_data rec ! n)\<rparr>
      in if \<not> (SSL_IS_TLS13 s \<and> enc_read_ctx r \<and> rr_type rec \<noteq> SSL3_RT_ALERT) then (True, rec, s)
         else if rr_data rec = [] \<or> rr_type rec \<noteq> SSL3_RT_APPLICATION_DATA then (False, rec, SSLfatal SSL_AD_UNEXPECTED_MESSAGE SSL_R_BAD_RECORD_TYPE s)
         else if rr_type rec1 \<noteq> SSL3_RT_APPLICATION_DATA \<and> rr_type rec1 \<noteq> SSL3_RT_ALERT \<and> rr_type rec1 \<noteq> SSL3_RT_HANDSHAKE
         then (False, rec1, SSLfatal SSL_AD_UNEXPECTED_MESSAGE SSL_R_BAD_RECORD_TYPE s)
         else (True, rec1, s))"

definition expand_record :: "'w rec_lib \<Rightarrow> SSL3_RECORD \<Rightarrow> SSL \<Rightarrow> bool \<times> SSL3_RECORD \<times> SSL" where
  "expand_record L rec s = (case rl_expand L of
      None \<Rightarrow> (True, rec, s)
    | Some expand \<Rightarrow>
        if SSL3_RT_MAX_COMPRESSED_LENGTH < length (rr_data rec) then (False, rec, SSLfatal SSL_AD_RECORD_OVERFLOW SSL_R_COMPRESSED_LENGTH_TOO_LONG s)
        else (case expand (rr_data rec) of
            None \<Rightarrow> (False, rec, SSLfatal SSL_AD_DECOMPRESSION_FAILURE SSL_R_BAD_DECOMPRESSION s)
          | Some d \<Rightarrow> (True, rec\<lparr>rr_data := d\<rparr>, s)))"

definition check_record :: "SSL3_RECORD \<Rightarrow> 'w rlayer \<Rightarrow> SSL \<Rightarrow> bool \<times> 'w rlayer \<times> SSL" where
  "check_record rec r s =
     (let n = length (rr_data rec); r1 = upd_prot (\<lambda>w. w\<lparr>empty_record_count := (if n = 0 then Suc (empty_record_count w) else 0)\<rparr>) r
      in if SSL_IS_TLS13 s \<and> (rr_type rec = SSL3_RT_HANDSHAKE \<or> rr_type rec = SSL3_RT_ALERT) \<and> n = 0
         then (False, r, SSLfatal SSL_AD_UNEXPECTED_MESSAGE SSL_R_BAD_LENGTH s)
         else if SSL3_RT_MAX_PLAIN_LENGTH < n then (False, r, SSLfatal SSL_AD_RECORD_OVERFLOW SSL_R_DATA_LENGTH_TOO_LONG s)
         else if 1 \<le> max_fragment_len_mode r \<and> max_fragment_len_mode r \<le> 4 \<and> 512 * 2 ^ (max_fragment_len_mode r - 1) < n
         then (False, r, SSLfatal SSL_AD_RECORD_OVERFLOW SSL_R_DATA_LENGTH_TOO_LONG s)
         else if n = 0 \<and> MAX_EMPTY_RECORDS < empty_record_count (rl_world r1) then (False, r1, SSLfatal SSL_AD_UNEXPECTED_MESSAGE SSL_R_RECORD_TOO_SMALL s)
         else (True, r1, s))"

fun finish_records :: "'w rec_lib \<Rightarrow> SSL3_RECORD list \<Rightarrow> 'w rlayer \<Rightarrow> SSL \<Rightarrow> bool \<times> SSL3_RECORD list \<times> 'w rlayer \<times> SSL" where
  "finish_records L [] r s = (True, [], r, s)"
| "finish_records L (rec # recs) r s = (case expand_record L rec s of (ok1, rec1, s1) \<Rightarrow>
     if \<not> ok1 then (False, rec1 # recs, r, s1)
     else (case inner_type rec1 r s1 of (ok2, rec2, s2) \<Rightarrow>
       if \<not> ok2 then (False, rec2 # recs, r, s2)
       else (case check_record rec2 r s2 of (ok3, r1, t) \<Rightarrow>
         if \<not> ok3 then (False, rec2 # recs, r1, t)
         else (case finish_records L recs r1 t of (ok4, recs1, r2, s4) \<Rightarrow> (ok4, rec2 # recs1, r2, s4)))))"

text \<open>A ChangeCipherSpec record in TLS 1.3 is passed over, as a record that was read already.\<close>

definition skip_ccs :: "SSL3_RECORD \<Rightarrow> 'w rlayer \<Rightarrow> SSL \<Rightarrow> int \<times> 'w rlayer \<times> SSL" where
  "skip_ccs rec r s =
     (let r1 = upd_prot (\<lambda>w. w\<lparr>empty_record_count := Suc (empty_record_count w)\<rparr>) r
      in if rr_data rec \<noteq> [1] then (-1, r, SSLfatal SSL_AD_ILLEGAL_PARAMETER SSL_R_INVALID_CCS_MESSAGE s)
         else if MAX_EMPTY_RECORDS < empty_record_count (rl_world r1) then (-1, r1, SSLfatal SSL_AD_UNEXPECTED_MESSAGE SSL_R_UNEXPECTED_CCS_MESSAGE s)
         else (1, r1\<lparr>rrec := [rec\<lparr>rr_type := SSL3_RT_HANDSHAKE, rr_read := True\<rparr>]\<rparr>, s))"

text \<open>Decryption failed: early data that was refused is passed over.\<close>

definition not_opened :: "SSL3_RECORD list \<Rightarrow> 'w rlayer \<Rightarrow> SSL \<Rightarrow> int \<times> 'w rlayer \<times> SSL" where
  "not_opened recs r s =
     (if ossl_statem_in_error s then (-1, r, s)
      else if length recs = 1 \<and> ossl_statem_skip_early_data s
      then (case early_data_count_ok (length (rr_data (hd recs))) EARLY_DATA_CIPHERTEXT_OVERHEAD False r s of
          (False, r1, s1) \<Rightarrow> (-1, r1, s1)
        | (True, r1, s1) \<Rightarrow> (1, upd_prot (\<lambda>w. w\<lparr>read_sequence := replicate SEQ_NUM_SIZE 0\<rparr>)
              (r1\<lparr>rrec := [(hd recs)\<lparr>rr_data := [], rr_read := True\<rparr>]\<rparr>), s1))
      else (-1, r, SSLfatal SSL_AD_BAD_RECORD_MAC SSL_R_DECRYPTION_FAILED_OR_BAD_RECORD_MAC s))"

definition deliver_records :: "'w rec_lib \<Rightarrow> SSL3_RECORD list \<Rightarrow> 'w rlayer \<Rightarrow> SSL \<Rightarrow> int \<times> 'w rlayer \<times> SSL" where
  "deliver_records L recs r s = (case finish_records L recs r s of (ok, recs1, r1, s1) \<Rightarrow>
     if \<not> ok then (-1, r1, s1)
     else (case (if early_data_state s1 = SSL_EARLY_DATA_READING \<and> rr_type (hd recs1) = SSL3_RT_APPLICATION_DATA
                 then early_data_count_ok (length (rr_data (hd recs1))) 0 False r1 s1 else (True, r1, s1)) of
         (False, r2, s2) \<Rightarrow> (-1, r2, s2)
       | (True, r2, s2) \<Rightarrow> (1, r2\<lparr>rrec := recs1\<rparr>, s2)))"

definition open_records :: "'w rec_lib \<Rightarrow> SSL3_RECORD list \<Rightarrow> 'w rlayer \<Rightarrow> SSL \<Rightarrow> int \<times> 'w rlayer \<times> SSL" where
  "open_records L recs0 r0 s0 =
     (let hash = read_hash (rl_world r0); md_size = (case hash of Some (Some n) \<Rightarrow> n | _ \<Rightarrow> 0);
          etm = has (s3_flags (s3 s0)) TLS1_FLAGS_ENCRYPT_THEN_MAC_READ
      in if md_size < 0 \<or> 64 < md_size then (-1, r0, SSLfatal SSL_AD_INTERNAL_ERROR ERR_R_EVP_LIB s0)
         else (case (if etm \<and> hash \<noteq> None then etm_records L (nat md_size) recs0 r0 s0 else (True, recs0, r0, s0)) of (ok, recs, r, s) \<Rightarrow>
           if \<not> ok then (-1, r, s)
           else let mac_size = (if etm \<and> hash \<noteq> None then 0 else nat md_size)
             in (case (if 0 < mac_size then OPENSSL_malloc (rl_env L) (16 * length recs) (os s) else (True, os s)) of (got, os1) \<Rightarrow>
               if \<not> got then (-1, r, SSLfatal SSL_AD_INTERNAL_ERROR ERR_R_MALLOC_FAILURE (s\<lparr>os := os1\<rparr>))
               else (case ssl3_enc_enc L False mac_size recs r (s\<lparr>os := os1\<rparr>) of (enc_ok, recs1, macs, r1, s1) \<Rightarrow>
                 let release = (\<lambda>(ret :: int, q, t). (ret, q, t\<lparr>os := OPENSSL_free (0 < mac_size) (os t)\<rparr>))
                 in release
                  (if \<not> enc_ok then not_opened recs1 r1 s1
                   else (case (if enc_read_ctx r1 \<and> \<not> etm \<and> (case hash of Some (Some _) \<Rightarrow> True | _ \<Rightarrow> False) then mac_records L mac_size recs1 macs r1 s1 else (True, r1, s1)) of
                     (mac_ok, r2, s2) \<Rightarrow>
                       if \<not> mac_ok
                       then (-1, r2, if ossl_statem_in_error s2 then s2 else SSLfatal SSL_AD_BAD_RECORD_MAC SSL_R_DECRYPTION_FAILED_OR_BAD_RECORD_MAC s2)
                       else deliver_records L recs1 r2 s2))))))"

definition ssl3_get_record :: "'w rec_lib \<Rightarrow> 'w rlayer \<Rightarrow> SSL \<Rightarrow> int \<times> 'w rlayer \<times> SSL" where
  "ssl3_get_record L r0 s0 = (case get_records L (max_pipelines r0 - 1) [] r0 s0 of
      (Inl ret, r, s) \<Rightarrow> (ret, r, s)
    | (Inr recs, r, s) \<Rightarrow>
        if length recs = 1 \<and> rr_type (hd recs) = SSL3_RT_CHANGE_CIPHER_SPEC \<and> (SSL_IS_TLS13 s \<or> hello_retry_request s \<noteq> SSL_HRR_NONE) \<and> SSL_IS_FIRST_HANDSHAKE s
        then skip_ccs (hd recs) r s
        else open_records L recs r s)"

end
