(* ===== verification/Record_Output.thy ===== *)
theory Record_Output
  imports Record_Input
begin

text \<open>
  Records to the network: the part of \<open>do_ssl3_write\<close> (\<^verbatim>\<open>ssl/record/rec_layer_s3.c\<close>) that makes protected records of fragments, with the packet writer
  on the write buffers, and the set-up of these buffers (\<^verbatim>\<open>ssl/record/ssl3_buffer.c\<close>). \<open>rec_env_of\<close> puts this and \<open>ssl3_get_record\<close> in the place of
  the parameters of the record layer.
\<close>

abbreviation (input) SSL3_RT_SEND_MAX_ENCRYPTED_OVERHEAD :: nat where "SSL3_RT_SEND_MAX_ENCRYPTED_OVERHEAD \<equiv> 80"
abbreviation (input) SSL_RT_MAX_CIPHER_BLOCK_SIZE :: nat where "SSL_RT_MAX_CIPHER_BLOCK_SIZE \<equiv> 16"
abbreviation (input) SSL_OP_DONT_INSERT_EMPTY_FRAGMENTS :: u64 where "SSL_OP_DONT_INSERT_EMPTY_FRAGMENTS \<equiv> 0x800"
abbreviation (input) TLS1_FLAGS_ENCRYPT_THEN_MAC_WRITE :: u32 where "TLS1_FLAGS_ENCRYPT_THEN_MAC_WRITE \<equiv> 0x400"
abbreviation (input) SSL_R_COMPRESSION_FAILURE :: err_reason where "SSL_R_COMPRESSION_FAILURE \<equiv> ERR_CODE 141"
abbreviation (input) SSL_R_LIBRARY_BUG :: err_reason where "SSL_R_LIBRARY_BUG \<equiv> ERR_CODE 274"

section \<open>Write buffers\<close>

definition write_buffer_len :: "'w rec_lib \<Rightarrow> 'w rlayer \<Rightarrow> SSL \<Rightarrow> nat" where
  "write_buffer_len L r s =
     ssl_get_max_send_fragment r + SSL3_RT_SEND_MAX_ENCRYPTED_OVERHEAD + SSL3_RT_HEADER_LENGTH + (SSL3_ALIGN_PAYLOAD - 1) + SSL_RT_MAX_CIPHER_BLOCK_SIZE
     + (if rl_allow_compression L s then SSL3_RT_MAX_COMPRESSED_OVERHEAD else 0)
     + (if has (options s) SSL_OP_DONT_INSERT_EMPTY_FRAGMENTS then 0 else SSL3_RT_HEADER_LENGTH + (SSL3_ALIGN_PAYLOAD - 1) + SSL3_RT_SEND_MAX_ENCRYPTED_OVERHEAD)"

text \<open>The buffers from the \<open>k\<close>-th on, \<open>n\<close> of them; one of another length is allocated anew.\<close>

fun setup_pipes :: "'w rec_lib \<Rightarrow> nat \<Rightarrow> nat \<Rightarrow> nat \<Rightarrow> 'w rlayer \<Rightarrow> SSL \<Rightarrow> bool \<times> 'w rlayer \<times> SSL" where
  "setup_pipes L len k 0 r s = (True, r, s)"
| "setup_pipes L len k (Suc n) r s =
     (let there = k < length (wrbuf r); lens = wb_lens (rl_world r)
      in if there \<and> lens ! k = len then setup_pipes L len (Suc k) n r s
         else (case OPENSSL_malloc (rl_env L) len (OPENSSL_free there (os s)) of
             (False, w1) \<Rightarrow> (False, r\<lparr>wrbuf := take k (wrbuf r)\<rparr>, SSLfatal SSL_AD_NO_ALERT ERR_R_MALLOC_FAILURE (s\<lparr>os := w1\<rparr>))
           | (True, w1) \<Rightarrow> setup_pipes L len (Suc k) n
               (upd_prot (\<lambda>w. w\<lparr>wb_lens := take k lens @ len # drop (Suc k) lens\<rparr>) (r\<lparr>wrbuf := take k (wrbuf r) @ [] # drop (Suc k) (wrbuf r)\<rparr>)) (s\<lparr>os := w1\<rparr>)))"

definition ssl3_setup_write_buffer :: "'w rec_lib \<Rightarrow> nat \<Rightarrow> 'w rlayer \<Rightarrow> SSL \<Rightarrow> bool \<times> 'w rlayer \<times> SSL" where
  "ssl3_setup_write_buffer L numwpipes r s = setup_pipes L (write_buffer_len L r s) 0 numwpipes (r\<lparr>wrbuf := take numwpipes (wrbuf r)\<rparr>) s"

section \<open>One record\<close>

definition SSL_TREAT_AS_TLS13 :: "SSL \<Rightarrow> bool" where
  "SSL_TREAT_AS_TLS13 s \<longleftrightarrow> SSL_IS_TLS13 s \<or> early_data_state s = SSL_EARLY_DATA_CONNECTING \<or> early_data_state s = SSL_EARLY_DATA_CONNECT_RETRY
     \<or> early_data_state s = SSL_EARLY_DATA_WRITING \<or> early_data_state s = SSL_EARLY_DATA_WRITE_RETRY \<or> hello_retry_request s = SSL_HRR_PENDING"

definition TLS1_get_version :: "SSL \<Rightarrow> nat" where
  "TLS1_get_version s = (if version s div 256 = 3 then version s else 0)"

definition record_version :: "SSL \<Rightarrow> nat" where
  "record_version s =
     (if SSL_get_state s = TLS_ST_CW_CLNT_HELLO \<and> \<not> renegotiate s \<and> 0x301 < TLS1_get_version s \<and> hello_retry_request s = SSL_HRR_NONE then 0x301
      else if version s = TLS1_3_VERSION then 0x303 else version s)"

text \<open>The record is one of TLS 1.3 with its type inside.\<close>

definition type_inside :: "nat \<Rightarrow> 'w rlayer \<Rightarrow> SSL \<Rightarrow> bool" where
  "type_inside typ r s \<longleftrightarrow> SSL_TREAT_AS_TLS13 s \<and> enc_write_ctx (rl_world r)
     \<and> (enc_write_state (statem s) \<noteq> ENC_WRITE_STATE_WRITE_PLAIN_ALERTS \<or> typ \<noteq> SSL3_RT_ALERT)"

definition record_padding :: "'w rec_lib \<Rightarrow> nat \<Rightarrow> nat \<Rightarrow> 'w rlayer \<Rightarrow> nat" where
  "record_padding L typ rlen r =
     (let mx = ssl_get_max_send_fragment r; block = block_padding (rl_world r)
      in if \<not> rlen < mx then 0
         else min (mx - rlen) (case rl_padding_cb L of
             Some cb \<Rightarrow> cb typ rlen
           | None \<Rightarrow> if 0 < block then (if rlen mod block = 0 then 0 else block - rlen mod block) else 0))"

definition wallocate :: "mem_ok \<Rightarrow> nat \<Rightarrow> WPACKET \<Rightarrow> bool \<times> WPACKET" where
  "wallocate ok n p = (case WPACKET_allocate_bytes ok n p of (b, _, q) \<Rightarrow> (b, q))"

definition wreserve :: "mem_ok \<Rightarrow> nat \<Rightarrow> WPACKET \<Rightarrow> bool \<times> WPACKET" where
  "wreserve ok n p = (case WPACKET_reserve_bytes ok n p of (b, _, q) \<Rightarrow> (b, q))"

definition wopt :: "bool \<Rightarrow> (WPACKET \<Rightarrow> bool \<times> WPACKET) \<Rightarrow> WPACKET \<Rightarrow> bool \<times> WPACKET" where
  "wopt b f = (if b then f else Pair True)"

text \<open>A MAC of the record, in octets allocated for it.\<close>

definition put_mac :: "'w rec_lib \<Rightarrow> nat \<Rightarrow> SSL3_RECORD \<Rightarrow> WPACKET \<Rightarrow> 'w rlayer \<Rightarrow> SSL \<Rightarrow> bool \<times> WPACKET \<times> 'w rlayer \<times> SSL" where
  "put_mac L mac_size rec p r s = (case WPACKET_allocate_bytes (malloc_ok (rl_env L)) mac_size p of
      (False, _, p1) \<Rightarrow> (False, p1, r, s)
    | (True, a, p1) \<Rightarrow> (case rl_mac L True rec r s of
        (None, r1, s1) \<Rightarrow> (False, p1, r1, s1)
      | (Some md, r1, s1) \<Rightarrow> (True, case a of None \<Rightarrow> p1 | Some off \<Rightarrow> wstore p1 off (take mac_size md), r1, s1)))"

text \<open>The header and the contents of a record, and the inner type with its padding.\<close>

definition record_start :: "'w rec_lib \<Rightarrow> nat \<Rightarrow> nat \<Rightarrow> bytes \<Rightarrow> WPACKET \<Rightarrow> 'w rlayer \<Rightarrow> SSL \<Rightarrow> bool \<times> WPACKET" where
  "record_start L typ eivlen frag p r s =
     (let ok = malloc_ok (rl_env L); maxcomplen = length frag + (if rl_compress L = None then 0 else SSL3_RT_MAX_COMPRESSED_OVERHEAD)
      in wseq (WPACKET_put_bytes ok (if type_inside typ r s then SSL3_RT_APPLICATION_DATA else typ) 1)
          (wseq (WPACKET_put_bytes ok (record_version s) 2)
          (wseq (WPACKET_start_sub_packet_len ok 2)
          (wseq (wopt (0 < eivlen) (wallocate ok eivlen)) (wopt (0 < maxcomplen) (wreserve ok maxcomplen))))) p)"

definition record_contents :: "'w rec_lib \<Rightarrow> nat \<Rightarrow> bytes \<Rightarrow> WPACKET \<Rightarrow> 'w rlayer \<Rightarrow> SSL \<Rightarrow> bytes option \<times> WPACKET \<times> SSL" where
  "record_contents L typ frag p r s =
     (let ok = malloc_ok (rl_env L);
          data = (case rl_compress L of None \<Rightarrow> Some frag | Some c \<Rightarrow> (case c frag of Some (b # d) \<Rightarrow> Some (b # d) | _ \<Rightarrow> None))
      in case data of None \<Rightarrow> (None, p, SSLfatal SSL_AD_INTERNAL_ERROR SSL_R_COMPRESSION_FAILURE s) | Some d \<Rightarrow>
        (let pad = record_padding L typ (length d + 1) r;
             inner = (if type_inside typ r s then wseq (WPACKET_put_bytes ok typ 1) (wopt (0 < pad) (WPACKET_memset ok 0 pad)) else Pair True)
         in case WPACKET_memcpy ok d p of
             (False, p1) \<Rightarrow> (None, p1, SSLfatal SSL_AD_INTERNAL_ERROR (if rl_compress L = None then ERR_R_INTERNAL_ERROR else SSL_R_COMPRESSION_FAILURE) s)
           | (True, p1) \<Rightarrow> (case inner p1 of
               (False, p2) \<Rightarrow> (None, p2, fatal_internal s)
             | (True, p2) \<Rightarrow> (Some (if type_inside typ r s then d @ word_of_nat typ # replicate pad 0 else d), p2, s))))"

text \<open>A record before encryption: its packet, the position of its contents and the record.\<close>

type_synonym out_record = "WPACKET \<times> nat \<times> SSL3_RECORD"

definition begin_record :: "'w rec_lib \<Rightarrow> nat \<Rightarrow> nat \<Rightarrow> nat \<Rightarrow> bytes \<Rightarrow> WPACKET \<Rightarrow> 'w rlayer \<Rightarrow> SSL \<Rightarrow> out_record option \<times> 'w rlayer \<times> SSL" where
  "begin_record L typ mac_size eivlen frag p0 r s =
     (let rectype = (if type_inside typ r s then SSL3_RT_APPLICATION_DATA else typ);
          rec = (\<lambda>d. \<lparr>rec_version = record_version s, rr_type = rectype, rr_data = d, rr_read = False\<rparr>)
      in case record_start L typ eivlen frag p0 r s of (False, _) \<Rightarrow> (None, r, fatal_internal s) | (True, p1) \<Rightarrow>
        (case record_contents L typ frag p1 r s of (None, _, s1) \<Rightarrow> (None, r, s1) | (Some d, p2, s1) \<Rightarrow>
          (case (if \<not> has (s3_flags (s3 s1)) TLS1_FLAGS_ENCRYPT_THEN_MAC_WRITE \<and> mac_size \<noteq> 0 then put_mac L mac_size (rec d) p2 r s1 else (True, p2, r, s1)) of
             (False, _, r1, s2) \<Rightarrow> (None, r1, fatal_internal s2)
           | (True, p3, r1, s2) \<Rightarrow>
              (case wreserve (malloc_ok (rl_env L)) (SSL3_RT_SEND_MAX_ENCRYPTED_OVERHEAD - mac_size) p3 of (False, _) \<Rightarrow> (None, r1, fatal_internal s2)
               | (True, p4) \<Rightarrow> (case WPACKET_get_length p4 of None \<Rightarrow> (None, r1, fatal_internal s2) | Some len \<Rightarrow>
                  (let start = curr p4 - len in (Some (p4, start, rec (take len (drop start (wdata p4)))), r1, s2)))))))"

text \<open>A record after encryption; \<open>off\<close> is where the octets to send start. The result is what the buffer has to send.\<close>

definition end_record :: "'w rec_lib \<Rightarrow> nat \<Rightarrow> nat \<Rightarrow> out_record \<Rightarrow> 'w rlayer \<Rightarrow> SSL \<Rightarrow> (bytes \<times> bytes) option \<times> 'w rlayer \<times> SSL" where
  "end_record L mac_size off x r s = (case x of (p0, start, rec) \<Rightarrow>
     let ok = malloc_ok (rl_env L); n = length (rr_data rec)
     in case WPACKET_get_length p0 of None \<Rightarrow> (None, r, fatal_internal s) | Some origlen \<Rightarrow>
       (if origlen + SSL3_RT_SEND_MAX_ENCRYPTED_OVERHEAD - mac_size < n \<or> n < origlen then (None, r, fatal_internal s)
        else (case wopt (origlen < n) (wallocate ok (n - origlen)) p0 of
            (False, _) \<Rightarrow> (None, r, fatal_internal s)
          | (True, p1) \<Rightarrow>
             (case (if has (s3_flags (s3 s)) TLS1_FLAGS_ENCRYPT_THEN_MAC_WRITE \<and> mac_size \<noteq> 0
                    then (case put_mac L mac_size rec (wstore p1 start (rr_data rec)) r s of (b, p2, r1, s1) \<Rightarrow> (b, n + mac_size, p2, r1, s1))
                    else (True, n, wstore p1 start (rr_data rec), r, s)) of
                (False, _, _, r1, s1) \<Rightarrow> (None, r1, fatal_internal s1)
              | (True, n1, p2, r1, s1) \<Rightarrow>
                 (case wseq (WPACKET_close ok) (WPACKET_finish ok) p2 of
                    (False, _) \<Rightarrow> (None, r1, fatal_internal s1)
                  | (True, p3) \<Rightarrow> (Some (take (start + n1 - off) (drop off (wdata p3)), wdata p3), r1, s1))))))"

section \<open>All records of a call\<close>

fun begin_records :: "'w rec_lib \<Rightarrow> nat \<Rightarrow> nat \<Rightarrow> nat \<Rightarrow> bytes list \<Rightarrow> WPACKET list \<Rightarrow> 'w rlayer \<Rightarrow> SSL \<Rightarrow> out_record list option \<times> 'w rlayer \<times> SSL" where
  "begin_records L typ mac_size eivlen (frag # frags) (p # ps) r s =
     (case begin_record L typ mac_size eivlen frag p r s of
        (None, r1, s1) \<Rightarrow> (None, r1, s1)
      | (Some x, r1, s1) \<Rightarrow> (case begin_records L typ mac_size eivlen frags ps r1 s1 of (xs, r2, s2) \<Rightarrow> (map_option (\<lambda>l. x # l) xs, r2, s2)))"
| "begin_records L typ mac_size eivlen _ _ r s = (Some [], r, s)"

fun end_records :: "'w rec_lib \<Rightarrow> nat \<Rightarrow> nat \<Rightarrow> out_record list \<Rightarrow> 'w rlayer \<Rightarrow> SSL \<Rightarrow> (bytes \<times> bytes) list option \<times> 'w rlayer \<times> SSL" where
  "end_records L mac_size off [] r s = (Some [], r, s)"
| "end_records L mac_size off (x # xs) r s = (case end_record L mac_size off x r s of
      (None, r1, s1) \<Rightarrow> (None, r1, s1)
    | (Some y, r1, s1) \<Rightarrow> (case end_records L mac_size off xs r1 s1 of (ys, r2, s2) \<Rightarrow> (map_option (\<lambda>l. y # l) ys, r2, s2)))"

text \<open>A packet on each of the write buffers, with \<open>skip\<close> octets left free at its start.\<close>

fun init_packets :: "mem_ok \<Rightarrow> nat \<Rightarrow> bytes list \<Rightarrow> WPACKET list option" where
  "init_packets ok skip [] = Some []"
| "init_packets ok skip (b # bs) = (case wseq (WPACKET_init_static_len ok b 0) (wallocate ok skip) (raw_packet 0) of
      (False, _) \<Rightarrow> None
    | (True, p) \<Rightarrow> map_option (\<lambda>l. p # l) (init_packets ok skip bs))"

definition encrypt_records :: "'w rec_lib \<Rightarrow> nat \<Rightarrow> SSL3_RECORD list \<Rightarrow> 'w rlayer \<Rightarrow> SSL \<Rightarrow> bool \<times> SSL3_RECORD list \<times> 'w rlayer \<times> SSL" where
  "encrypt_records L mac_size recs r s =
     (case (if enc_write_state (statem s) = ENC_WRITE_STATE_WRITE_PLAIN_ALERTS then tls13_enc L True recs r s
            else (case ssl3_enc_enc L True mac_size recs r s of (ok, recs1, _, r1, s1) \<Rightarrow> (ok, recs1, r1, s1))) of
        (ok, recs1, r1, s1) \<Rightarrow> (ok, recs1, r1, if ok \<or> ossl_statem_in_error s1 then s1 else fatal_internal s1))"

text \<open>The records of the fragments in the buffers \<open>bufs\<close>; \<open>off\<close> is where what is to be sent starts, \<open>skip\<close> where the first record does.\<close>

definition write_records :: "'w rec_lib \<Rightarrow> nat \<Rightarrow> nat \<Rightarrow> nat \<Rightarrow> nat \<Rightarrow> bytes list \<Rightarrow> bytes list \<Rightarrow> 'w rlayer \<Rightarrow> SSL \<Rightarrow> (bytes \<times> bytes) list option \<times> 'w rlayer \<times> SSL" where
  "write_records L typ mac_size off skip bufs frags r s =
     (let use_eiv = (enc_write_ctx (rl_world r) \<and> \<not> SSL_TREAT_AS_TLS13 s); iv = (if use_eiv then (case rl_eivlen L s of None \<Rightarrow> 0 | Some n \<Rightarrow> n) else 0)
      in case init_packets (malloc_ok (rl_env L)) skip bufs of None \<Rightarrow> (None, r, fatal_internal s) | Some ps \<Rightarrow>
        if iv < 0 then (None, r, SSLfatal SSL_AD_INTERNAL_ERROR SSL_R_LIBRARY_BUG s)
        else (case begin_records L typ mac_size (if iv \<le> 1 then 0 else nat iv) frags ps r s of
            (None, r1, s1) \<Rightarrow> (None, r1, s1)
          | (Some outs, r1, s1) \<Rightarrow> (case encrypt_records L mac_size (map (\<lambda>(p, start, rec). rec) outs) r1 s1 of (ok, recs, r2, s2) \<Rightarrow>
              if \<not> ok then (None, r2, s2)
              else end_records L mac_size off (map2 (\<lambda>(p, start, _) rec. (p, start, rec)) outs recs) r2 s2)))"

text \<open>The countermeasure for CBC ciphers before TLS 1.1, which write one record at a time: an empty record in front of application data.\<close>

definition empty_fragment :: "'w rec_lib \<Rightarrow> nat \<Rightarrow> nat \<Rightarrow> bytes \<Rightarrow> 'w rlayer \<Rightarrow> SSL \<Rightarrow> (bytes \<times> bytes) option \<times> 'w rlayer \<times> SSL" where
  "empty_fragment L typ mac_size b r s =
     (let align = payload_align (rl_wbuf_addr L + SSL3_RT_HEADER_LENGTH)
      in case write_records L typ mac_size align align [b] [[]] r s of
          (Some [(pre, b1)], r1, s1) \<Rightarrow>
            if SSL3_RT_HEADER_LENGTH + SSL3_RT_SEND_MAX_ENCRYPTED_OVERHEAD < length pre then (None, r1, fatal_internal s1) else (Some (pre, b1), r1, s1)
        | (_, r1, s1) \<Rightarrow> (None, r1, s1))"

definition seal_records :: "'w rec_lib \<Rightarrow> nat \<Rightarrow> bytes list \<Rightarrow> 'w rlayer \<Rightarrow> SSL \<Rightarrow> bytes list option \<times> 'w rlayer \<times> SSL" where
  "seal_records L typ frags r0 s0 =
     (let w = rl_world r0; ctx = enc_write_ctx w; md = (case write_hash w of Some (Some n) \<Rightarrow> Some n | _ \<Rightarrow> None);
          clear = \<not> ctx; mac_size = (if ctx then (case md of None \<Rightarrow> 0 | Some n \<Rightarrow> n) else 0);
          bufs = map (\<lambda>n. replicate n 0) (take (length frags) (wb_lens w));
          align = payload_align (rl_wbuf_addr L)
      in if mac_size < 0 then (None, r0, fatal_internal s0)
         else if \<not> clear \<and> \<not> empty_fragment_done r0 \<and> need_empty_fragments w \<and> typ = SSL3_RT_APPLICATION_DATA
         then (case empty_fragment L typ (nat mac_size) (hd bufs) r0 s0 of
             (None, r1, s1) \<Rightarrow> (None, r1, s1)
           | (Some (pre, b1), r1, s1) \<Rightarrow>
               (let off = payload_align (rl_wbuf_addr L + SSL3_RT_HEADER_LENGTH)
                in case write_records L typ (nat mac_size) off (off + length pre) [b1] frags (r1\<lparr>empty_fragment_done := True\<rparr>) s1 of
                  (outs, r2, s2) \<Rightarrow> (map_option (map fst) outs, r2, s2)))
         else (case write_records L typ (nat mac_size) align align bufs frags (if clear then r0 else r0\<lparr>empty_fragment_done := True\<rparr>) s0 of
             (outs, r2, s2) \<Rightarrow> (map_option (map fst) outs, r2, s2)))"

text \<open>The parameters of the record layer, provided by this.\<close>

definition rec_env_of :: "'w rec_lib \<Rightarrow> 'w prot rec_env \<Rightarrow> 'w prot rec_env" where
  "rec_env_of L e = e\<lparr>re_setup_read := (\<lambda>r s. case ssl3_setup_read_buffer L r s of (b, r1, s1) \<Rightarrow> (of_bool b, r1, s1)),
     re_setup_write := (\<lambda>n r s. case ssl3_setup_write_buffer L n r s of (b, r1, s1) \<Rightarrow> (of_bool b, r1, s1)),
     re_get_record := ssl3_get_record L, re_seal := seal_records L\<rparr>"

end
