(* ===== verification/Framing_Properties.thy ===== *)
theory Framing_Properties
  imports Msg_Framing
begin

text \<open>
  Messages on the record layer: what one side writes is what the other side reads, and both add the same octets to their
  transcripts.
\<close>

section \<open>What is asked of the record layer\<close>

text \<open>The parts of a connection a read or write on the record layer may change.\<close>

definition same_msg :: "SSL \<Rightarrow> SSL \<Rightarrow> bool" where
  "same_msg s s1 \<longleftrightarrow> s1 = s\<lparr>rwstate := rwstate s1, os := os s1\<rparr>"

text \<open>A connection that is in a handshake, before the other side has shut down.\<close>

definition in_progress :: "SSL \<Rightarrow> bool" where
  "in_progress s \<longleftrightarrow> \<not> dtls s \<and> in_init (statem s) \<and> in_handshake (statem s) \<noteq> 0 \<and> early_data_state s \<noteq> SSL_EARLY_DATA_WRITING \<and> \<not> has (shutdown s) 2"

text \<open>
  Writing: \<open>sent_out\<close> is what was handed over for sending in completed writes, and \<open>fits r off d\<close> that the data \<open>d\<close> at the offset
  \<open>off\<close> of the message buffer can be written, or its unfinished write be resumed.
\<close>

definition accepts :: "'r msg_io \<Rightarrow> ('r \<Rightarrow> bytes) \<Rightarrow> ('r \<Rightarrow> nat \<Rightarrow> bytes \<Rightarrow> bool) \<Rightarrow> bool" where
  "accepts io sent_out fits \<longleftrightarrow> (\<forall>d r s ret n r1 s1. io_write io SSL3_RT_HANDSHAKE d r s = Some (ret, n, r1, s1) \<longrightarrow> in_progress s \<longrightarrow> fits r (init_off s) d \<longrightarrow>
     same_msg s s1 \<and> (if ret \<le> 0 then n = 0 \<and> sent_out r1 = sent_out r \<and> fits r1 (init_off s) d
                      else n \<le> length d \<and> sent_out r1 = sent_out r @ take n d \<and> (\<forall>off d1. fits r1 off d1)))"

text \<open>Reading: \<open>arrived\<close> is what has arrived in handshake records; a read gives some of it, in order.\<close>

definition delivers :: "'r msg_io \<Rightarrow> ('r \<Rightarrow> bytes) \<Rightarrow> bool" where
  "delivers io arrived \<longleftrightarrow> (\<forall>want n q s. 0 < n \<longrightarrow> arrived q \<noteq> [] \<longrightarrow> in_progress s \<longrightarrow>
     (\<exists>i typ bs q1 s1. io_read io want n q s = Some (i, typ, bs, q1, s1) \<and> 0 < i \<and> (want \<longrightarrow> typ = SSL3_RT_HANDSHAKE) \<and> bs \<noteq> [] \<and> length bs \<le> n \<and>
        arrived q = bs @ arrived q1 \<and> same_msg s s1 \<and> \<not> io_is_sslv2_record io q1))"

text \<open>The transcript takes what it is given.\<close>

definition hashes :: "'r msg_io \<Rightarrow> bool" where
  "hashes io \<longleftrightarrow> (\<forall>d s. io_digest_update io d s \<and> (d \<noteq> [] \<longrightarrow> io_bio_write io d s = int (length d)))"

definition transcript :: "SSL \<Rightarrow> bytes option" where
  "transcript s = (if handshake_dgst (s3 s) = None then handshake_buffer (s3 s) else handshake_dgst (s3 s))"

definition add_transcript :: "bytes \<Rightarrow> SSL \<Rightarrow> SSL" where
  "add_transcript d s = upd_s3 (\<lambda>t. case handshake_dgst t of
      None \<Rightarrow> t\<lparr>handshake_buffer := map_option (\<lambda>b. b @ d) (handshake_buffer t)\<rparr>
    | Some x \<Rightarrow> t\<lparr>handshake_dgst := Some (x @ d)\<rparr>) s"

lemma same_msg_refl [simp]: "same_msg s s"
  by (simp add: same_msg_def)

lemma same_msg_fields:
  assumes "same_msg s s1"
  shows "init_buf s1 = init_buf s" "init_off s1 = init_off s" "init_num s1 = init_num s" "init_msg s1 = init_msg s" "statem s1 = statem s"
    "s3 s1 = s3 s" "SSL_IS_TLS13 s1 = SSL_IS_TLS13 s" "server s1 = server s" "in_progress s1 = in_progress s"
  by (subst assms [unfolded same_msg_def], simp add: SSL_IS_TLS13_def SSL_IS_DTLS_def in_progress_def)+

lemma transcript_s3: "s3 s1 = s3 s \<Longrightarrow> transcript s1 = transcript s"
  by (simp only: transcript_def)

lemma transcript_add [simp]: "transcript (add_transcript d s) = map_option (\<lambda>b. b @ d) (transcript s)"
  by (simp add: transcript_def add_transcript_def split: option.split)

lemma add_transcript_fields [simp]:
  "init_buf (add_transcript d s) = init_buf s" "init_off (add_transcript d s) = init_off s" "init_num (add_transcript d s) = init_num s"
  "init_msg (add_transcript d s) = init_msg s" "statem (add_transcript d s) = statem s" "SSL_IS_TLS13 (add_transcript d s) = SSL_IS_TLS13 s"
  "in_progress (add_transcript d s) = in_progress s"
  by (simp_all add: add_transcript_def SSL_IS_TLS13_def SSL_IS_DTLS_def in_progress_def)

lemma finish_mac_True:
  assumes "ssl3_finish_mac io d s = (True, s1)"
  shows "s1 = add_transcript d s"
  using assms by (auto simp: ssl3_finish_mac_def add_transcript_def split: option.split_asm if_split_asm)

lemma finish_mac_False: "ssl3_finish_mac io d s = (False, s1) \<Longrightarrow> ossl_statem_in_error s1"
  by (auto simp: ssl3_finish_mac_def fatal_internal_def split: option.split_asm if_split_asm)

lemma finish_mac_hashes:
  assumes "hashes io" "d \<noteq> []" "length d \<le> INT_MAX" "transcript s \<noteq> None"
  shows "ssl3_finish_mac io d s = (True, add_transcript d s)"
  using assms by (cases "handshake_dgst (s3 s)") (auto simp: ssl3_finish_mac_def hashes_def add_transcript_def transcript_def)

lemma deliversE:
  assumes "delivers io arrived" "0 < n" "arrived q \<noteq> []" "in_progress s"
  obtains i ty bs q1 s1 where "io_read io want n q s = Some (i, ty, bs, q1, s1)" "0 < i" "want \<longrightarrow> ty = 22" "bs \<noteq> []" "length bs \<le> n"
    "arrived q = bs @ arrived q1" "same_msg s s1" "\<not> io_is_sslv2_record io q1"
  using assms unfolding delivers_def by metis

section \<open>Writing a message\<close>

text \<open>Whether the sender adds the message of its handshake state to the transcript.\<close>

definition sender_logs :: "SSL \<Rightarrow> bool" where
  "sender_logs s \<longleftrightarrow> \<not> SSL_IS_TLS13 s \<or> hand s \<notin> {TLS_ST_SW_SESSION_TICKET, TLS_ST_CW_KEY_UPDATE, TLS_ST_SW_KEY_UPDATE}"

text \<open>What is still to be sent of the message in the buffer.\<close>

definition unsent :: "SSL \<Rightarrow> bytes" where
  "unsent s = (case init_buf s of None \<Rightarrow> [] | Some buf \<Rightarrow> take (init_num s) (drop (init_off s) (bm_data buf)))"

definition has_unsent :: "SSL \<Rightarrow> bool" where
  "has_unsent s \<longleftrightarrow> (case init_buf s of None \<Rightarrow> False | Some buf \<Rightarrow> init_off s + init_num s \<le> length (bm_data buf))"

text \<open>A message is written in as many calls as the record layer makes necessary.\<close>

inductive sends :: "'r msg_io \<Rightarrow> 'r \<Rightarrow> SSL \<Rightarrow> 'r \<Rightarrow> SSL \<Rightarrow> bool" for io where
  sent: "statem_do_write io r s = Some (1, r1, s1) \<Longrightarrow> sends io r s r1 s1"
| again: "statem_do_write io r s = Some (i, r1, s1) \<Longrightarrow> i \<le> 0 \<Longrightarrow> \<not> ossl_statem_in_error s1 \<Longrightarrow> sends io r1 s1 r2 s2 \<Longrightarrow> sends io r s r2 s2"

lemma unsent_length: "has_unsent s \<Longrightarrow> length (unsent s) = init_num s"
  by (auto simp: has_unsent_def unsent_def split: option.split_asm)

lemma do_write_step:
  assumes a: "accepts io sent_out fits" "fits r (init_off s) (unsent s)"
    and b: "has_unsent s" "in_progress s" "hand s \<noteq> TLS_ST_CW_CHANGE" "hand s \<noteq> TLS_ST_SW_CHANGE"
    and w: "statem_do_write io r s = Some (i, r1, s1)" "i = 1 \<or> \<not> ossl_statem_in_error s1"
  shows "\<exists>n \<le> init_num s. sent_out r1 = sent_out r @ take n (unsent s) \<and> statem s1 = statem s \<and>
     SSL_IS_TLS13 s1 = SSL_IS_TLS13 s \<and> in_progress s1 \<and> init_buf s1 = init_buf s \<and>
     transcript s1 = (if sender_logs s then map_option (\<lambda>t. t @ take n (unsent s)) (transcript s) else transcript s) \<and>
     (if i = 1 then n = init_num s \<and> (unsent s \<noteq> [] \<longrightarrow> (\<forall>off d. fits r1 off d))
      else (unsent s \<noteq> [] \<longrightarrow> n < init_num s) \<and> init_off s1 = init_off s + n \<and> init_num s1 = init_num s - n \<and> fits r1 (init_off s1) (drop n (unsent s)))"
proof -
  obtain buf where buf: "init_buf s = Some buf" "init_off s + init_num s \<le> length (bm_data buf)"
    using b(1) by (auto simp: has_unsent_def split: option.split_asm)
  have u: "unsent s = take (init_num s) (drop (init_off s) (bm_data buf))" by (simp add: unsent_def buf)
  have W: "ssl3_do_write io 22 r s = Some (i, r1, s1)" using w(1) b by (simp add: statem_do_write_def ssl3_handshake_write_def in_progress_def SSL_IS_DTLS_def)
  then obtain ret n r2 s2 where io: "io_write io 22 (unsent s) r s = Some (ret, n, r2, s2)"
    using buf u by (cases "io_write io 22 (unsent s) r s") (auto simp: ssl3_do_write_def read_at_def)
  have lu: "length (unsent s) = init_num s" "unsent s \<noteq> [] \<longrightarrow> 0 < init_num s" using u buf by auto
  have A: "same_msg s s2" "n \<le> init_num s" "sent_out r2 = sent_out r @ take n (unsent s)" "fits r2 (init_off s + n) (drop n (unsent s))" "ret < 0 \<Longrightarrow> n = 0"
      "0 < n \<Longrightarrow> \<forall>off d. fits r2 off d"
  proof -
    have "same_msg s s2 \<and> (if ret \<le> 0 then n = 0 \<and> sent_out r2 = sent_out r \<and> fits r2 (init_off s) (unsent s)
        else n \<le> length (unsent s) \<and> sent_out r2 = sent_out r @ take n (unsent s) \<and> (\<forall>off d1. fits r2 off d1))"
      using a(1) [unfolded accepts_def] io b(2) a(2) by blast
    then show "same_msg s s2" "n \<le> init_num s" "sent_out r2 = sent_out r @ take n (unsent s)" "fits r2 (init_off s + n) (drop n (unsent s))" "ret < 0 \<Longrightarrow> n = 0"
      "0 < n \<Longrightarrow> \<forall>off d. fits r2 off d" using lu by (simp_all split: if_split_asm)
  qed
  note F = same_msg_fields [OF A(1)]
  have tr: "transcript (t\<lparr>init_off := x, init_num := y\<rparr>) = transcript t" "SSL_IS_TLS13 (t\<lparr>init_off := x, init_num := y\<rparr>) = SSL_IS_TLS13 t"
    "in_progress (t\<lparr>init_off := x, init_num := y\<rparr>) = in_progress t" for t x y
    by (rule transcript_s3, simp) (simp_all add: SSL_IS_TLS13_def SSL_IS_DTLS_def in_progress_def)
  have rd: "read_at (bm_data buf) (init_off s) n = Some (take n (unsent s))" using A(2) buf(2) by (simp add: read_at_def u min_def)
  show ?thesis
  proof (cases "ret < 0")
    case True
    then have "i = -1" "r1 = r2" "s1 = s2" using W io buf u by (auto simp: ssl3_do_write_def read_at_def)
    then show ?thesis using A True F b(2) lu transcript_s3 [OF F(6)] by (intro exI [of _ 0]) (auto simp: option.map_ident)
  next
    case False
    let ?v = "if sender_logs s then ssl3_finish_mac io (take n (unsent s)) s2 else (True, s2)"
    obtain ok t where m: "?v = (ok, t)" by fastforce
    have R: "i = (if \<not> ok then -1 else if n = init_num t then 1 else 0) \<and> r1 = r2 \<and>
        s1 = (if \<not> ok \<or> n = init_num t then t else t\<lparr>init_off := init_off t + n, init_num := init_num t - n\<rparr>)"
    proof (cases "sender_logs s")
      case True
      then show ?thesis using W io buf u False F rd m
        by (auto simp: ssl3_do_write_def read_at_def [of _ _ "init_num s"] sender_logs_def split: if_split_asm)
    next
      case no: False
      then have "t = s2" "ok" using m by simp_all
      then show ?thesis using W io buf u False F no by (auto simp: ssl3_do_write_def read_at_def sender_logs_def split: if_split_asm)
    qed
    have T: "t = (if sender_logs s then add_transcript (take n (unsent s)) s2 else s2)" if ok
      using finish_mac_True [of io _ s2 t] m that by (auto split: if_split_asm)
    have ok: ok using R w(2) m finish_mac_False [of io _ s2 t] by (auto split: if_split_asm)
    show ?thesis using R ok T [OF ok] A(2-4,6) F b(2) lu by (intro exI [of _ n]) (auto simp: tr transcript_s3 [OF F(6)])
  qed
qed

lemma sends_all:
  assumes "sends io r s r2 s2" "accepts io sent_out fits" "fits r (init_off s) (unsent s)" "has_unsent s" "in_progress s"
    "hand s \<noteq> TLS_ST_CW_CHANGE" "hand s \<noteq> TLS_ST_SW_CHANGE"
  shows "sent_out r2 = sent_out r @ unsent s \<and>
    transcript s2 = (if sender_logs s then map_option (\<lambda>t. t @ unsent s) (transcript s) else transcript s) \<and>
    (unsent s \<noteq> [] \<longrightarrow> (\<forall>off d. fits r2 off d))"
  using assms(1,3-)
proof (induction rule: sends.induct)
  case (sent r s r1 s1)
  have "length (unsent s) \<le> init_num s" by (simp add: unsent_def split: option.split)
  then show ?case using do_write_step [OF assms(2) sent(2-6,1)] by auto
next
  case (again r s i r1 s1 r2 s2)
  obtain n where n: "n \<le> init_num s" "sent_out r1 = sent_out r @ take n (unsent s)" "statem s1 = statem s" "SSL_IS_TLS13 s1 = SSL_IS_TLS13 s"
      "in_progress s1" "init_buf s1 = init_buf s" "init_off s1 = init_off s + n" "init_num s1 = init_num s - n" "fits r1 (init_off s1) (drop n (unsent s))"
      "transcript s1 = (if sender_logs s then map_option (\<lambda>t. t @ take n (unsent s)) (transcript s) else transcript s)"
      "unsent s \<noteq> [] \<longrightarrow> n < init_num s"
    using do_write_step [OF assms(2) again(6-10,1)] again(2,3) by auto
  have u: "has_unsent s1" "unsent s1 = drop n (unsent s)" "sender_logs s1 = sender_logs s"
    using n(1,3-8) again(7) by (auto simp: has_unsent_def unsent_def sender_logs_def drop_take add.commute split: option.splits)
  show ?case using again(5) [OF _ u(1) n(5)] again(9,10) n u(2,3) by (cases "transcript s") (auto simp: unsent_length [OF again(7)])
qed

section \<open>Reading a message\<close>

lemma write_at_append:
  assumes "off + length a + length b \<le> length d"
  shows "write_at (write_at d off a) (off + length a) b = write_at d off (a @ b)"
  using assms by (simp add: write_at_def add.assoc add.left_commute add.commute)

lemma same_msg_upd:
  assumes "same_msg s s1"
  shows "same_msg (s\<lparr>init_num := n, init_buf := b\<rparr>) (s1\<lparr>init_num := n, init_buf := b\<rparr>)"
  by (subst assms [unfolded same_msg_def]) (simp add: same_msg_def)

lemma same_msg_trans: "same_msg s s1 \<Longrightarrow> same_msg s1 s2 \<Longrightarrow> same_msg s s2"
proof -
  assume "same_msg s s1" "same_msg s1 s2"
  then obtain a b c d where "s1 = s\<lparr>rwstate := a, os := b\<rparr>" "s2 = s1\<lparr>rwstate := c, os := d\<rparr>"
    unfolding same_msg_def by metis
  then show ?thesis by (simp add: same_msg_def)
qed

text \<open>The connection after octets were put into the buffer behind those that are there.\<close>

definition filled :: "nat \<Rightarrow> bytes \<Rightarrow> SSL \<Rightarrow> SSL" where
  "filled off p s = s\<lparr>init_num := init_num s + length p,
     init_buf := map_option (\<lambda>b. b\<lparr>bm_data := write_at (bm_data b) (off + init_num s) p\<rparr>) (init_buf s)\<rparr>"

definition room_at :: "nat \<Rightarrow> nat \<Rightarrow> SSL \<Rightarrow> bool" where
  "room_at off n s \<longleftrightarrow> (case init_buf s of None \<Rightarrow> False | Some b \<Rightarrow> off + init_num s + n \<le> length (bm_data b))"

lemma filled_Nil [simp]: "filled off [] s = s"
  by (cases "init_buf s") (simp_all add: filled_def write_at_def)

lemma filled_step:
  assumes "room_at off (length bs + length p) s" "same_msg s s1" "store_init_buf (off + init_num s) bs s1 = Some s2"
    "same_msg (filled off p (s2\<lparr>init_num := init_num s2 + length bs\<rparr>)) t"
  shows "same_msg (filled off (bs @ p) s) t"
proof -
  obtain b where b: "init_buf s = Some b" "off + init_num s + (length bs + length p) \<le> length (bm_data b)"
    using assms(1) by (auto simp: room_at_def split: option.split_asm)
  note F = same_msg_fields [OF assms(2)]
  have s2: "s2 = s1\<lparr>init_buf := Some (b\<lparr>bm_data := write_at (bm_data b) (off + init_num s) bs\<rparr>)\<rparr>"
    using assms(3) b F by (simp add: store_init_buf_def)
  have "filled off p (s2\<lparr>init_num := init_num s2 + length bs\<rparr>) = s1\<lparr>init_num := init_num s + length (bs @ p),
      init_buf := Some (b\<lparr>bm_data := write_at (bm_data b) (off + init_num s) (bs @ p)\<rparr>)\<rparr>"
    using b F write_at_append [of "off + init_num s" bs p "bm_data b"] by (simp add: filled_def s2 add.assoc)
  moreover have "filled off (bs @ p) s = s\<lparr>init_num := init_num s + length (bs @ p),
      init_buf := Some (b\<lparr>bm_data := write_at (bm_data b) (off + init_num s) (bs @ p)\<rparr>)\<rparr>"
    using b by (simp add: filled_def)
  ultimately show ?thesis using same_msg_trans [OF same_msg_upd [OF assms(2)]] assms(4) by metis
qed

lemma store_room:
  assumes "room_at off (length bs + n) s" "same_msg s s1"
  shows "\<exists>s2. store_init_buf (off + init_num s) bs s1 = Some s2 \<and> room_at off n (s2\<lparr>init_num := init_num s2 + length bs\<rparr>)
     \<and> init_num s2 = init_num s \<and> init_msg s2 = init_msg s \<and> init_buf s2 \<noteq> None"
  using assms(1) same_msg_fields [OF assms(2)]
  by (auto simp: room_at_def store_init_buf_def split: option.split_asm)

lemma store_progress: "store_init_buf off bs s = Some s2 \<Longrightarrow> in_progress (s2\<lparr>init_num := n\<rparr>) = in_progress s"
  by (auto simp: store_init_buf_def in_progress_def bind_eq_Some_conv)

lemma split_prefix:
  assumes "p @ rest = bs @ ys" "length bs \<le> length p"
  obtains p1 where "p = bs @ p1" "ys = p1 @ rest"
  using assms that by (auto simp: append_eq_append_conv2)

lemma header_loop_reads:
  assumes "delivers io arrived"
  shows "init_num s + length p = 4 \<Longrightarrow> room_at 0 (length p) s \<Longrightarrow> in_progress s \<Longrightarrow> arrived q = p @ rest \<Longrightarrow>
    \<exists>q1 s1. header_loop io q s = Some (Header_full, q1, s1) \<and> arrived q1 = rest \<and> same_msg (filled 0 p s) s1 \<and> (p \<noteq> [] \<or> \<not> io_is_sslv2_record io q \<longrightarrow> \<not> io_is_sslv2_record io q1)"
proof (induction p arbitrary: q s rule: length_induct)
  case (1 p)
  show ?case
  proof (cases "p = []")
    case True
    then show ?thesis using 1(2,5) by (subst header_loop.simps) simp
  next
    case False
    then have lt: "0 < 4 - init_num s" "arrived q \<noteq> []" "init_num s < 4" using 1(2,5) by (cases p; simp)+
    obtain i ty bs q1 s1 where r: "io_read io True (4 - init_num s) q s = Some (i, ty, bs, q1, s1)" "0 < i" "True \<longrightarrow> ty = 22"
        "bs \<noteq> []" "length bs \<le> 4 - init_num s" "arrived q = bs @ arrived q1" "same_msg s s1" "\<not> io_is_sslv2_record io q1"
      by (rule deliversE [OF assms lt(1,2) 1(4)])
    have "length bs \<le> length p" using r(5) 1(2) by simp
    then obtain p1 where p: "p = bs @ p1" "arrived q1 = p1 @ rest" using r(6) 1(5) split_prefix [of p rest bs "arrived q1"] by metis
    obtain s2 where s2: "store_init_buf (0 + init_num s) bs s1 = Some s2" "room_at 0 (length p1) (s2\<lparr>init_num := init_num s2 + length bs\<rparr>)"
        "init_num s2 = init_num s" "init_buf s2 \<noteq> None"
      using store_room [of 0 bs "length p1" s s1] 1(3) r(7) p by auto
    let ?s3 = "s2\<lparr>init_num := init_num s2 + length bs\<rparr>"
    have "length p1 < length p" "init_num ?s3 + length p1 = 4" "arrived q1 = p1 @ rest" using p r(4) 1(2,5) s2(3) by auto
    moreover have "in_progress ?s3" using store_progress [OF s2(1)] same_msg_fields(9) [OF r(7)] 1(4) by simp
    ultimately obtain q2 t where t: "header_loop io q1 ?s3 = Some (Header_full, q2, t)" "arrived q2 = rest" "same_msg (filled 0 p1 ?s3) t"
        "\<not> io_is_sslv2_record io q2" using 1(1) s2(2) r(8) by blast
    have "header_loop io q s = header_loop io q1 ?s3" using lt(3) r(1-3) s2 by (subst header_loop.simps) auto
    moreover have "same_msg (filled 0 p s) t" using filled_step [OF _ r(7) s2(1) t(3)] 1(3) p by simp
    ultimately show ?thesis using t by auto
  qed
qed

lemma body_loop_reads:
  assumes "delivers io arrived"
  shows "room_at (init_msg s) (length p) s \<Longrightarrow> length p < 2 ^ 64 \<Longrightarrow> in_progress s \<Longrightarrow> arrived q = p @ rest \<Longrightarrow>
    \<exists>q1 s1. body_loop io (length p) q s = Some (True, q1, s1) \<and> arrived q1 = rest \<and> same_msg (filled (init_msg s) p s) s1 \<and>
      (p \<noteq> [] \<or> \<not> io_is_sslv2_record io q \<longrightarrow> \<not> io_is_sslv2_record io q1)"
proof (induction p arbitrary: q s rule: length_induct)
  case (1 p)
  show ?case
  proof (cases "p = []")
    case True
    then show ?thesis using 1(5) by (subst body_loop.simps) simp
  next
    case False
    then have lt: "0 < length p" "arrived q \<noteq> []" using 1(5) by auto
    obtain i ty bs q1 s1 where r: "io_read io False (length p) q s = Some (i, ty, bs, q1, s1)" "0 < i" "bs \<noteq> []" "length bs \<le> length p"
        "arrived q = bs @ arrived q1" "same_msg s s1" "\<not> io_is_sslv2_record io q1"
      by (rule deliversE [OF assms lt 1(4)])
    obtain p1 where p: "p = bs @ p1" "arrived q1 = p1 @ rest" by (rule split_prefix [OF _ r(4)]) (use r(5) 1(5) in simp)
    obtain s2 where s2: "store_init_buf (init_msg s + init_num s) bs s1 = Some s2" "room_at (init_msg s) (length p1) (s2\<lparr>init_num := init_num s2 + length bs\<rparr>)"
        "init_num s2 = init_num s" "init_msg s2 = init_msg s"
      using store_room [of "init_msg s" bs "length p1" s s1] 1(2) r(6) p by auto
    let ?s3 = "s2\<lparr>init_num := init_num s2 + length bs\<rparr>"
    have "length p1 < length p" "length p1 < 2 ^ 64" "room_at (init_msg ?s3) (length p1) ?s3" using p r(3) 1(3) s2(2,4) by auto
    moreover have "init_msg ?s3 = init_msg s" "in_progress ?s3" using s2(4) store_progress [OF s2(1)] same_msg_fields(9) [OF r(6)] 1(4) by simp_all
    ultimately obtain q2 t where t: "body_loop io (length p1) q1 ?s3 = Some (True, q2, t)" "arrived q2 = rest"
        "same_msg (filled (init_msg s) p1 ?s3) t" "\<not> io_is_sslv2_record io q2" using 1(1) [rule_format, of p1 ?s3 q1] p(2) r(7) by metis
    have "size_sub (length p) (length bs) = length p1" using p 1(3) by (simp add: size_sub_le SIZE_MAX_def)
    then have "body_loop io (length p) q s = body_loop io (length p1) q1 ?s3" using lt(1) r(1,2) s2(1) by (subst body_loop.simps) auto
    moreover have "same_msg (filled (init_msg s) p s) t" using filled_step [OF _ r(6) s2(1) t(3)] 1(2) p by simp
    ultimately show ?thesis using t by auto
  qed
qed

text \<open>A handshake message: type, length in three octets, body.\<close>

definition handshake_msg :: "nat \<Rightarrow> bytes \<Rightarrow> bytes" where
  "handshake_msg mt body = be_bytes 1 mt @ be_bytes 3 (length body) @ body"

text \<open>The header is read and taken apart; the rest is still to come.\<close>

definition header_known :: "nat \<Rightarrow> bytes \<Rightarrow> SSL \<Rightarrow> SSL \<Rightarrow> bool" where
  "header_known mt body s s1 \<longleftrightarrow> message_type (s3 s1) = mt \<and> message_size (s3 s1) = length body \<and> init_num s1 = 0 \<and> init_msg s1 = 4 \<and>
     transcript s1 = transcript s \<and> statem s1 = statem s \<and> SSL_IS_TLS13 s1 = SSL_IS_TLS13 s \<and> in_progress s1 = in_progress s \<and>
     (\<exists>b. init_buf s1 = Some b \<and> 4 \<le> length (bm_data b) \<and> take 4 (bm_data b) = take 4 (handshake_msg mt body))"

lemma header_reads:
  assumes d: "delivers io arrived" and s: "init_num s = 0" "room_at 0 4 s" "in_progress s" and m: "0 < mt" "mt < 256" "length body < 2 ^ 24"
    and q: "arrived q = handshake_msg mt body @ rest"
  shows "\<exists>q1 s1. tls_get_message_header io q s = Some (Some mt, q1, s1) \<and> arrived q1 = body @ rest \<and> header_known mt body s s1 \<and>
    \<not> io_is_sslv2_record io q1"
proof -
  define h where "h = be_bytes 1 mt @ be_bytes 3 (length body)"
  have lh: "length h = 4" and hm: "handshake_msg mt body = h @ body" by (simp_all add: h_def handshake_msg_def)
  obtain b where b: "init_buf s = Some b" "4 \<le> length (bm_data b)" using s by (auto simp: room_at_def split: option.split_asm)
  obtain q1 s1 where r: "header_loop io q s = Some (Header_full, q1, s1)" "arrived q1 = body @ rest" "same_msg (filled 0 h s) s1" and v2: "\<not> io_is_sslv2_record io q1"
    using header_loop_reads [OF d, of s h q "body @ rest"] s q lh by (auto simp: hm simp flip: length_0_conv)
  note F = same_msg_fields [OF r(3)]
  have d1: "init_buf s1 = Some (b\<lparr>bm_data := write_at (bm_data b) 0 h\<rparr>)" using F(1) b s(1) by (simp add: filled_def)
  have w: "write_at (bm_data b) 0 h = h @ drop 4 (bm_data b)" using lh by (simp add: write_at_def)
  have p: "read_at (write_at (bm_data b) 0 h) 0 4 = Some h" using b(2) lh by (simp add: w read_at_def)
  have p0: "h ! 0 = word_of_nat mt" by (simp add: h_def)
  have mt: "unat (h ! 0) = mt" using m(2) by (simp add: p0 unat_of_nat)
  have l: "be_val (drop 1 h) = length body" using m(3) be_val_be_bytes_id [of "length body" 3] by (simp add: h_def del: be_val_be_bytes_id)
  have sk: "\<not> hello_request_skipped h s1" using m(1) mt by (simp add: hello_request_skipped_def)
  let ?t = "upd_s3 (\<lambda>t. t\<lparr>message_size := length body\<rparr>) ((upd_s3 (\<lambda>t. t\<lparr>message_type := mt\<rparr>) s1)\<lparr>init_msg := 4, init_num := 0\<rparr>)"
  have "\<not> INT_MAX - 4 < length body" using m(3) by (simp add: INT_MAX_def)
  then have "header_done io h q1 s1 = (Some mt, ?t)" using v2 l mt by (simp add: header_done_def Let_def)
  then have "tls_get_message_header io q s = Some (Some mt, q1, ?t)"
    using r(1) d1 p sk by (subst tls_get_message_header.simps) (simp)
  moreover have "header_known mt body s ?t"
  proof -
    have "transcript ?t = transcript s" using F(6) by (simp add: transcript_def filled_def)
    moreover have "SSL_IS_TLS13 ?t = SSL_IS_TLS13 s1" "SSL_IS_TLS13 (filled 0 h s) = SSL_IS_TLS13 s" "statem (filled 0 h s) = statem s"
        "in_progress ?t = in_progress s1" "in_progress (filled 0 h s) = in_progress s"
      by (simp_all add: SSL_IS_TLS13_def SSL_IS_DTLS_def filled_def in_progress_def)
    ultimately show ?thesis using F(5,7,9) d1 w lh b(2) by (simp add: header_known_def hm)
  qed
  ultimately show ?thesis using r(2) v2 by blast
qed

text \<open>Whether the receiver adds a message to the transcript when it reads it; a HelloRetryRequest is added later.\<close>

definition is_hrr :: "nat \<Rightarrow> bytes \<Rightarrow> bool" where
  "is_hrr mt body \<longleftrightarrow> mt = SSL3_MT_SERVER_HELLO \<and> 38 \<le> length body \<and> take 32 (drop 2 body) = hrrrandom"

definition receiver_logs :: "nat \<Rightarrow> bytes \<Rightarrow> SSL \<Rightarrow> bool" where
  "receiver_logs mt body s \<longleftrightarrow> (\<not> SSL_IS_TLS13 s \<or> mt \<notin> {SSL3_MT_NEWSESSION_TICKET, SSL3_MT_KEY_UPDATE}) \<and> \<not> is_hrr mt body"

lemma grow_room:
  assumes "init_buf s = Some b" "init_msg s \<le> n" "0 < n" "n \<le> 2 ^ 24 + 4"
  shows "\<exists>b1. grow_init_buf mem_always t0 n s = Some (True, s\<lparr>init_buf := Some b1\<rparr>) \<and> length (bm_data b1) = n \<and>
    (\<forall>k. k \<le> n \<longrightarrow> k \<le> length (bm_data b) \<longrightarrow> take k (bm_data b1) = take k (bm_data b))"
proof -
  have t: "through_int n = n" "\<not> LIMIT_BEFORE_EXPANSION < n" using assms(4) by (simp_all add: through_int_def LIMIT_BEFORE_EXPANSION_def)
  let ?g = "BUF_MEM_grow_clean mem_always t0 b n"
  have "fst ?g = n \<and> length (bm_data (snd ?g)) = n \<and> (\<forall>k. k \<le> n \<longrightarrow> k \<le> length (bm_data b) \<longrightarrow> take k (bm_data (snd ?g)) = take k (bm_data b))"
    using t(2) by (auto simp: BUF_MEM_grow_clean_def Let_def min_def)
  then show ?thesis using assms t(1) by (cases ?g) (auto simp: grow_init_buf_def intro!: exI [of _ "snd ?g"])
qed

lemma body_reads:
  assumes d: "delivers io arrived" "hashes io" and s: "message_type (s3 s) = mt" "message_size (s3 s) = length body" "init_num s = 0" "init_msg s = 4"
      "init_buf s = Some b" "4 + length body \<le> length (bm_data b)" "take 4 (bm_data b) = take 4 (handshake_msg mt body)" "transcript s \<noteq> None"
      "in_progress s" "\<not> io_is_sslv2_record io q"
    and m: "mt < 256" "length body < 2 ^ 24" "mt = SSL3_MT_FINISHED \<longrightarrow> (\<forall>u. hk_finish_mac hk (\<not> server u) u \<noteq> [])" and q: "arrived q = body @ rest"
  shows "\<exists>q1 s1 b1. tls_get_message_body io hk q s = Some (Some (length body), q1, s1) \<and> arrived q1 = rest \<and> init_msg s1 = 4 \<and>
    init_buf s1 = Some b1 \<and> read_at (bm_data b1) 4 (length body) = Some body \<and>
    transcript s1 = (if receiver_logs mt body s then map_option (\<lambda>t. t @ handshake_msg mt body) (transcript s) else transcript s)"
proof -
  let ?m = "handshake_msg mt body" and ?d = "take 4 (bm_data b) @ body @ drop (4 + length body) (bm_data b)"
  have h4: "length (take 4 ?m) = 4" "drop 4 ?m = body" by (simp_all add: handshake_msg_def)
  then have dm: "?d = ?m @ drop (4 + length body) (bm_data b)" using s(7) by (metis append_assoc append_take_drop_id)
  have lm: "length ?m = 4 + length body" by (simp add: handshake_msg_def)
  obtain q1 s1 where r: "body_loop io (length body) q s = Some (True, q1, s1)" "arrived q1 = rest" "same_msg (filled 4 body s) s1" and v2: "\<not> io_is_sslv2_record io q1"
    using body_loop_reads [OF d(1), of s body q rest] s(3-6,9,10) m(2) q by (auto simp: room_at_def)
  note F = same_msg_fields [OF r(3)]
  have f: "init_buf s1 = Some (b\<lparr>bm_data := ?d\<rparr>)" "init_num s1 = length body" "init_msg s1 = 4" "s3 s1 = s3 s" "SSL_IS_TLS13 s1 = SSL_IS_TLS13 s"
    using F s(3-5) by (simp_all add: filled_def write_at_def SSL_IS_TLS13_def SSL_IS_DTLS_def)
  have p0: "read_at ?d 0 1 = Some [word_of_nat mt]" unfolding dm by (simp add: read_at_def handshake_msg_def)
  define u where "u = snd (if mt = 20 then ssl3_take_mac hk s1 else (True, s1))"
  have u: "(if unat (hd [word_of_nat mt :: u8]) = 20 then ssl3_take_mac hk s1 else (True, s1)) = (True, u)"
    using m(1,3) by (auto simp: u_def ssl3_take_mac_def Let_def unat_of_nat)
  have v: "init_buf u = init_buf s1" "init_num u = init_num s1" "init_msg u = init_msg s1" "transcript u = transcript s1" "message_type (s3 u) = mt"
      "SSL_IS_TLS13 u = SSL_IS_TLS13 s1"
    using s(1) f(4) m(3) by (auto simp: u_def ssl3_take_mac_def Let_def transcript_def SSL_IS_TLS13_def SSL_IS_DTLS_def)
  have hr: "defers_hrr ?d u \<longleftrightarrow> is_hrr mt body" using v(2,5) f(2) by (auto simp: defers_hrr_def is_hrr_def dm handshake_msg_def)
  have tr: "transcript u = transcript s" using v(4) f(4) by (metis transcript_s3)
  have rd: "read_at ?d 0 (length body + 4) = Some ?m" unfolding dm using lm by (simp add: read_at_def add.commute)
  have fm: "ssl3_finish_mac io ?m u = (True, add_transcript ?m u)"
    using lm m(2) tr s(8) by (intro finish_mac_hashes [OF d(2)]) (auto simp: INT_MAX_def)
  have "\<exists>v. body_done io hk q1 s1 = Some (Some (length body), v) \<and> init_msg v = 4 \<and> init_buf v = Some (b\<lparr>bm_data := ?d\<rparr>) \<and>
      transcript v = (if receiver_logs mt body s then map_option (\<lambda>t. t @ ?m) (transcript s) else transcript s)"
    using u v f p0 hr rd fm v2 tr by (auto simp: body_done_def receiver_logs_def)
  then obtain w where w: "body_done io hk q1 s1 = Some (Some (length body), w)" "init_msg w = 4" "init_buf w = Some (b\<lparr>bm_data := ?d\<rparr>)"
      "transcript w = (if receiver_logs mt body s then map_option (\<lambda>t. t @ ?m) (transcript s) else transcript s)" by blast
  have "size_sub (length body) 0 = length body" using m(2) by (simp add: SIZE_MAX_def)
  then have "tls_get_message_body io hk q s = Some (Some (length body), q1, w)" using s(1-3) m(1) r(1) w(1) by (simp add: tls_get_message_body_def)
  moreover have "read_at ?d 4 (length body) = Some body" using s(6) by (simp add: read_at_def)
  ultimately show ?thesis using r(2) w(2-4) by auto
qed

text \<open>
  One message as \<open>read_state_machine\<close> reads it: header, change of the handshake state, room in the buffer, body. The
  result is the type and the octets the handler is given.
\<close>

definition receive_message :: "'r msg_io \<Rightarrow> hooks \<Rightarrow> mem_ok \<Rightarrow> nat \<Rightarrow> (nat \<Rightarrow> OSSL_STATEM \<Rightarrow> OSSL_HANDSHAKE_STATE) \<Rightarrow> 'r \<Rightarrow> SSL
    \<Rightarrow> ((nat \<times> bytes) option \<times> 'r \<times> SSL) option" where
  "receive_message io hk ok t0 tran q s = do {
     (mt, q1, s1) \<leftarrow> tls_get_message_header io q s;
     case mt of
       None \<Rightarrow> Some (None, q1, s1)
     | Some mt \<Rightarrow> do {
         s2 \<leftarrow> Some (set_hand (tran mt (statem s1)) s1);
         (grown, t) \<leftarrow> (if 0 < message_size (s3 s2) then grow_init_buf ok t0 (message_size (s3 s2) + 4) s2 else Some (True, s2));
         if \<not> grown then Some (None, q1, t)
         else do {
           (len, q2, t1) \<leftarrow> tls_get_message_body io hk q1 t;
           case len of
             None \<Rightarrow> Some (None, q2, t1)
           | Some n \<Rightarrow> do {
               buf \<leftarrow> init_buf t1;
               msg \<leftarrow> read_at (bm_data buf) (init_msg t1) n;
               Some (Some (mt, msg), q2, t1) } } } }"

lemma message_received:
  assumes d: "delivers io arrived" "hashes io" and s: "init_num s = 0" "room_at 0 4 s" "in_progress s" "transcript s \<noteq> None"
    and m: "0 < mt" "mt < 256" "length body < 2 ^ 24" "mt = SSL3_MT_FINISHED \<longrightarrow> (\<forall>u. hk_finish_mac hk (\<not> server u) u \<noteq> [])"
    and q: "arrived q = handshake_msg mt body @ rest"
  shows "\<exists>q2 s2. receive_message io hk mem_always t0 tran q s = Some (Some (mt, body), q2, s2) \<and> arrived q2 = rest \<and>
    transcript s2 = (if receiver_logs mt body s then map_option (\<lambda>t. t @ handshake_msg mt body) (transcript s) else transcript s)"
proof -
  obtain q1 s1 where h: "tls_get_message_header io q s = Some (Some mt, q1, s1)" "arrived q1 = body @ rest" "header_known mt body s s1"
      "\<not> io_is_sslv2_record io q1" using header_reads [OF d(1) s(1-3) m(1-3) q] by blast
  let ?s2 = "s1\<lparr>statem := (statem s1)\<lparr>hand_state := tran mt (statem s1)\<rparr>\<rparr>"
  obtain b where b: "init_buf s1 = Some b" "4 \<le> length (bm_data b)" "take 4 (bm_data b) = take 4 (handshake_msg mt body)"
    using h(3) by (auto simp: header_known_def)
  have k: "message_type (s3 s1) = mt" "message_size (s3 s1) = length body" "init_num s1 = 0" "init_msg s1 = 4" "transcript s1 = transcript s"
      "SSL_IS_TLS13 s1 = SSL_IS_TLS13 s" "in_progress s1" using h(3) s(3) by (simp_all add: header_known_def)
  have "\<exists>b1. (if 0 < length body then grow_init_buf mem_always t0 (length body + 4) ?s2 else Some (True, ?s2)) = Some (True, ?s2\<lparr>init_buf := Some b1\<rparr>) \<and>
      4 + length body \<le> length (bm_data b1) \<and> take 4 (bm_data b1) = take 4 (bm_data b)"
  proof (cases "body = []")
    case True
    have "?s2 = ?s2\<lparr>init_buf := Some b\<rparr>" using b(1) by (cases s1) simp
    then show ?thesis using True b(2) by (intro exI [of _ b]) simp
  next
    case False
    then show ?thesis using grow_room [of ?s2 b "length body + 4" t0] b(1,2) k(4) m(3) by force
  qed
  then obtain b1 where g: "(if 0 < length body then grow_init_buf mem_always t0 (length body + 4) ?s2 else Some (True, ?s2)) = Some (True, ?s2\<lparr>init_buf := Some b1\<rparr>)"
      "4 + length body \<le> length (bm_data b1)" "take 4 (bm_data b1) = take 4 (bm_data b)" by blast
  let ?t = "?s2\<lparr>init_buf := Some b1\<rparr>"
  have tr: "transcript ?t = transcript s" "receiver_logs mt body ?t = receiver_logs mt body s" "in_progress ?t"
    using k(5-7) transcript_s3 [of ?t s1] by (simp_all add: receiver_logs_def SSL_IS_TLS13_def SSL_IS_DTLS_def in_progress_def)
  have "\<exists>q2 t1 b2. tls_get_message_body io hk q1 ?t = Some (Some (length body), q2, t1) \<and> arrived q2 = rest \<and> init_msg t1 = 4 \<and>
      init_buf t1 = Some b2 \<and> read_at (bm_data b2) 4 (length body) = Some body \<and>
      transcript t1 = (if receiver_logs mt body ?t then map_option (\<lambda>t. t @ handshake_msg mt body) (transcript ?t) else transcript ?t)"
    by (rule body_reads [OF d]) (use k(1-4) g(2,3) b(3) s(4) tr(1,3) m(2-4) h(2,4) in simp_all)
  then obtain q2 t1 b2 where r: "tls_get_message_body io hk q1 ?t = Some (Some (length body), q2, t1)" "arrived q2 = rest" "init_msg t1 = 4"
      "init_buf t1 = Some b2" "read_at (bm_data b2) 4 (length body) = Some body"
      "transcript t1 = (if receiver_logs mt body s then map_option (\<lambda>t. t @ handshake_msg mt body) (transcript s) else transcript s)"
    unfolding tr(1,2) by blast
  have "receive_message io hk mem_always t0 tran q s = Some (Some (mt, body), q2, t1)"
    using h(1) k(2) g(1) r(1,3-5) by (simp add: receive_message_def del: length_greater_0_conv split del: if_split cong del: if_weak_cong)
  then show ?thesis using r(2,6) by blast
qed

text \<open>The messages that are left out of the transcript are the same for the sender, by its state, and the receiver, by their type.\<close>

lemma message_type_logs:
  assumes "get_construct_message s = (Some (Some mt), s1)" "mt < 256"
  shows "hand s \<noteq> TLS_ST_CW_CHANGE" "hand s \<noteq> TLS_ST_SW_CHANGE"
    "hand s \<in> {TLS_ST_SW_SESSION_TICKET, TLS_ST_CW_KEY_UPDATE, TLS_ST_SW_KEY_UPDATE} \<longleftrightarrow> mt \<in> {SSL3_MT_NEWSESSION_TICKET, SSL3_MT_KEY_UPDATE}"
  using assms by (auto simp: get_construct_message_def ossl_statem_server_construct_message_def ossl_statem_client_construct_message_def
      server_message_type_def client_message_type_def split: if_split_asm option.split_asm)

text \<open>
  A handshake message goes over the record layer unchanged: when a side has written the message in its buffer, in as many
  calls as it took, and what it sent has arrived, then the other side reads exactly this type and body, leaves what follows for the next
  message, and the transcripts of both sides, if they were equal before, are equal afterwards.
\<close>

lemma message_delivered:
  assumes sender: "accepts io sent_out fits" "fits r (init_off s) (unsent s)" "has_unsent s" "unsent s = handshake_msg mt body" "in_progress s"
      "get_construct_message s = (Some (Some mt), s)" "sends io r s r2 s2"
    and msg: "0 < mt" "mt < 256" "length body < 2 ^ 24" "\<not> is_hrr mt body"
    and receiver: "delivers io2 arrived" "hashes io2" "init_num t = 0" "room_at 0 4 t" "in_progress t" "transcript t = transcript s" "transcript t \<noteq> None"
      "SSL_IS_TLS13 t = SSL_IS_TLS13 s" "mt = SSL3_MT_FINISHED \<longrightarrow> (\<forall>u. hk_finish_mac hk (\<not> server u) u \<noteq> [])"
    and wire: "sent_out r2 = sent_out r @ w" "arrived q = w @ rest"
  shows "\<exists>q2 t2. receive_message io2 hk mem_always t0 tran q t = Some (Some (mt, body), q2, t2) \<and> arrived q2 = rest \<and> transcript t2 = transcript s2"
proof -
  note T = message_type_logs [OF sender(6) msg(2)]
  have S: "sent_out r2 = sent_out r @ handshake_msg mt body"
      "transcript s2 = (if sender_logs s then map_option (\<lambda>t. t @ handshake_msg mt body) (transcript s) else transcript s)"
    using sends_all [OF sender(7,1-3,5) T(1,2)] sender(4) by simp_all
  have "sender_logs s = receiver_logs mt body t" using T(3) receiver(8) msg(4) by (simp add: sender_logs_def receiver_logs_def)
  moreover have "arrived q = handshake_msg mt body @ rest" using S(1) wire by simp
  ultimately show ?thesis using message_received [OF receiver(1-5,7) msg(1-3) receiver(9), of q rest t0 tran] S(2) receiver(6) by metis
qed

end
