(* ===== verification/Record_Properties.thy ===== *)
theory Record_Properties
  imports Record_Layer Framing_Properties Sample_Data
begin

text \<open>
  The record layer keeps what message framing asks of it: fragments in both directions, and with them a handshake message from
  the buffer of one side to the handler of the other.
\<close>

section \<open>Sequence numbers\<close>

lemma sequence_carry_val: "be_val (rev (sequence_carry bs)) = (be_val (rev bs) + 1) mod 256 ^ length bs"
proof (induction bs)
  case (Cons b bs)
  have e: "unat (b + 1) = (unat b + 1) mod 256" by (simp add: unat_word_ariths)
  have lb: "unat b < 256" by (rule unat_u8_less)
  show ?case
  proof (cases "b + 1 = 0")
    case True
    then have "unat b = 255" using e lb by (cases "unat b + 1 = 256") simp_all
    then have eq: "(be_val (rev bs) + 1) * 256 = be_val (rev (b # bs)) + 1" by simp
    have "be_val (rev (sequence_carry (b # bs))) = be_val (rev (sequence_carry bs)) * 256" using True by simp
    also have "\<dots> = ((be_val (rev bs) + 1) * 256) mod (256 ^ length bs * 256)" by (simp only: Cons mult_mod_left)
    finally show ?thesis by (simp only: eq length_Cons power_Suc2)
  next
    case False
    then have "(unat b + 1) mod 256 \<noteq> 0" using e unat_eq_0 [of "b + 1"] by metis
    then have "unat b \<noteq> 255" by auto
    then have "unat b + 1 < 256" using lb by linarith
    then have ub: "unat (b + 1) = unat b + 1" "unat b + 1 < 256" using e by simp_all
    have "be_val (rev bs) + 1 \<le> 256 ^ length bs" using be_val_bound [of "rev bs"] by simp
    then have "(be_val (rev bs) + 1) * 256 \<le> 256 ^ length bs * 256" by (rule mult_le_mono1)
    then have "be_val (rev bs) * 256 + 256 \<le> 256 ^ length bs * 256" by (simp only: add_mult_distrib mult_1)
    then have "be_val (rev bs) * 256 + unat b + 1 < 256 ^ length bs * 256" using ub(2) by linarith
    then have "(be_val (rev bs) * 256 + unat b + 1) mod 256 ^ Suc (length bs) = be_val (rev bs) * 256 + unat b + 1"
      by (intro mod_less) (simp only: power_Suc2)
    moreover have "be_val (rev (sequence_carry (b # bs))) = be_val (rev bs) * 256 + unat b + 1" using False ub(1) by simp
    ultimately show ?thesis by (simp only: rev.simps be_val_snoc length_Cons)
  qed
qed simp

text \<open>The sequence number of a record is a counter of eight octets.\<close>

lemma sequence_counts: "length seq = 8 \<Longrightarrow> be_val (ssl3_record_sequence_update seq) = (be_val seq + 1) mod 2 ^ 64"
  using sequence_carry_val [of "rev seq"] by (simp add: ssl3_record_sequence_update_def)

section \<open>Reading\<close>

text \<open>What \<open>ssl3_get_record\<close> delivers: the next of the incoming fragments, as a record of a handshake.\<close>

definition fetches :: "'b rec_env \<Rightarrow> ('b \<Rightarrow> bytes list) \<Rightarrow> bool" where
  "fetches e incoming \<longleftrightarrow> (\<forall>r s. \<exists>n. re_setup_read e r s = (1, r\<lparr>rbuf := True, rbuf_left := n\<rparr>, s)) \<and>
     (\<forall>r s f fs. rrec r = [] \<longrightarrow> incoming (rl_world r) = f # fs \<longrightarrow> f \<noteq> [] \<and>
        (\<exists>v n w s1. re_get_record e r s = (1, r\<lparr>rrec := [\<lparr>rec_version = v, rr_type = 22, rr_data = f, rr_read = False\<rparr>], rbuf_left := n, rl_world := w\<rparr>, s1) \<and>
           v \<noteq> SSL2_VERSION \<and> incoming w = fs \<and> same_msg s s1))"

definition hs_records :: "'b RECORD_LAYER \<Rightarrow> bool" where
  "hs_records r \<longleftrightarrow> list_all (\<lambda>rr. rr_type rr = 22 \<and> rec_version rr \<noteq> SSL2_VERSION \<and> (rr_read rr \<longleftrightarrow> rr_data rr = [])) (rrec r)"

definition stream :: "('b \<Rightarrow> bytes list) \<Rightarrow> 'b RECORD_LAYER \<Rightarrow> bytes" where
  "stream incoming r = (if hs_records r then handshake_fragment r @ concat (map rr_data (rrec r)) @ concat (incoming (rl_world r)) else [])"

lemma all_read_empty: "hs_records r \<Longrightarrow> list_all rr_read (rrec r) \<Longrightarrow> concat (map rr_data (rrec r)) = []"
  by (auto simp: hs_records_def list_all_iff)

lemma current_record_reads:
  assumes "fetches e incoming" "hs_records r" "concat (map rr_data (rrec r)) @ concat (incoming (rl_world r)) \<noteq> []"
  shows "\<exists>i r1 s1. current_record e r s = Some (Inr i, r1, s1) \<and> hs_records r1 \<and> i < length (rrec r1) \<and> rr_data (rrec r1 ! i) \<noteq> [] \<and>
    concat (map rr_data (take i (rrec r1))) = [] \<and> handshake_fragment r1 = handshake_fragment r \<and>
    concat (map rr_data (rrec r1)) @ concat (incoming (rl_world r1)) = concat (map rr_data (rrec r)) @ concat (incoming (rl_world r)) \<and> same_msg s s1"
proof (cases "list_all rr_read (rrec r)")
  case True
  let ?r = "r\<lparr>rrec := []\<rparr>"
  have c: "concat (map rr_data (rrec r)) = []" using all_read_empty [OF assms(2) True] .
  then obtain f fs where f: "incoming (rl_world r) = f # fs" using assms(3) by (cases "incoming (rl_world r)") auto
  have "rrec ?r = []" "incoming (rl_world ?r) = f # fs" using f by simp_all
  then obtain v n w s1 where g: "f \<noteq> []" "re_get_record e ?r s = (1, ?r\<lparr>rrec := [\<lparr>rec_version = v, rr_type = 22, rr_data = f, rr_read = False\<rparr>], rbuf_left := n, rl_world := w\<rparr>, s1)"
      "v \<noteq> SSL2_VERSION" "incoming w = fs" "same_msg s s1"
    using assms(1) unfolding fetches_def by metis
  let ?r1 = "?r\<lparr>rrec := [\<lparr>rec_version = v, rr_type = 22, rr_data = f, rr_read = False\<rparr>], rbuf_left := n, rl_world := w\<rparr>"
  have e: "current_record e ?r s = Some (Inr 0, ?r1, s1)" using g(2) by (subst current_record.simps) simp
  have "current_record e r s = current_record e ?r s"
  proof (cases "rrec r = []")
    case False
    then show ?thesis using True by (subst current_record.simps) simp
  next
    case True
    then have "?r = r" by simp
    then show ?thesis by simp
  qed
  then show ?thesis using e g f c by (intro exI [of _ 0] exI [of _ ?r1] exI [of _ s1]) (simp add: hs_records_def)
next
  case False
  let ?i = "length (takeWhile rr_read (rrec r))"
  have i: "?i < length (rrec r)" using False by (metis length_takeWhile_le nat_less_le takeWhile_eq_all_conv list_all_iff takeWhile_eq_take take_all_iff order_refl)
  have "rrec r \<noteq> []" using False by auto
  then have "current_record e r s = Some (Inr ?i, r, s)" using False by (subst current_record.simps) simp
  moreover have "\<not> rr_read (rrec r ! ?i)" using i nth_length_takeWhile by blast
  then have "rr_data (rrec r ! ?i) \<noteq> []" using assms(2) i by (simp add: hs_records_def list_all_length)
  moreover have "\<forall>x \<in> set (take ?i (rrec r)). rr_data x = []" using assms(2)
    by (auto simp: hs_records_def list_all_iff simp flip: takeWhile_eq_take dest: set_takeWhileD)
  ultimately show ?thesis using i assms(2) by (intro exI [of _ ?i] exI [of _ r] exI [of _ s]) auto
qed

lemma read_start_delivers:
  assumes "fetches e incoming" "hs_records r" "handshake_fragment r = []" "stream incoming r \<noteq> []" "0 < n" "in_progress s"
  shows "\<exists>t bs r1 s1. read_start e tls13 22 want n False r s = Some (1, t, bs, r1, s1) \<and> (want \<longrightarrow> t = 22) \<and> bs \<noteq> [] \<and> length bs \<le> n \<and>
    stream incoming r = bs @ stream incoming r1 \<and> hs_records r1 \<and> same_msg s s1"
proof -
  let ?s = "s\<lparr>rwstate := SSL_NOTHING\<rparr>"
  have ne: "concat (map rr_data (rrec r)) @ concat (incoming (rl_world r)) \<noteq> []" using assms(2-4) by (simp add: stream_def)
  obtain i r1 s1 where c: "current_record e r ?s = Some (Inr i, r1, s1)" "hs_records r1" "i < length (rrec r1)" "rr_data (rrec r1 ! i) \<noteq> []"
      "concat (map rr_data (take i (rrec r1))) = []" "handshake_fragment r1 = handshake_fragment r"
      "concat (map rr_data (rrec r1)) @ concat (incoming (rl_world r1)) = concat (map rr_data (rrec r)) @ concat (incoming (rl_world r))" "same_msg ?s s1"
    using current_record_reads [OF assms(1,2) ne] by blast
  obtain rr rrs where d: "drop i (rrec r1) = rr # rrs" "rrec r1 ! i = rr" "rrec r1 = take i (rrec r1) @ rr # rrs"
    using c(3) by (metis Cons_nth_drop_Suc append_take_drop_id)
  have h: "rr_type rr = 22" "rec_version rr \<noteq> 2" "rr_data rr \<noteq> []" using c(2,3,4) d(2) by (auto simp: hs_records_def list_all_length)
  define x where "x = drop n (rr_data rr)"
  define rr1 where "rr1 = rr\<lparr>rr_data := x, rr_read := rr_read rr \<or> x = []\<rparr>"
  have rd: "rr_read rr = False" using c(2,3,4) d(2) by (auto simp: hs_records_def list_all_length)
  have "\<exists>k. take_records False False n (rr # rrs) = (take n (rr_data rr), rr1 # rrs, k)"
    by (cases "length (rr_data rr) < n") (auto simp: Let_def rr1_def x_def)
  then obtain k where t: "take_records False False n (rr # rrs) = (take n (rr_data rr), rr1 # rrs, k)" by blast
  have P: "in_progress s1" "\<not> has (shutdown s1) 2" using same_msg_fields(9) [OF c(8)] assms(6) by (simp_all add: in_progress_def)
  obtain r2 where R: "read_record e tls13 22 want n False i r1 s1 = (Return 1 (if want then 22 else 0) (take n (rr_data rr)), r2, s1)"
      "rrec r2 = take i (rrec r1) @ rr1 # rrs" "handshake_fragment r2 = handshake_fragment r1" "rl_world r2 = rl_world r1"
    using d h t assms(3,5) c(6) P(2) by (simp add: read_record_def read_data_def Let_def)
  have "stream incoming r = take n (rr_data rr) @ stream incoming r2" "hs_records r2"
  proof -
    have "list_all (\<lambda>rr. rr_type rr = 22 \<and> rec_version rr \<noteq> 2 \<and> rr_read rr = (rr_data rr = [])) (take i (rrec r1) @ rr # rrs)"
      using c(2) d(3) unfolding hs_records_def by metis
    then show g: "hs_records r2" using R(2) rd by (simp add: hs_records_def rr1_def)
    let ?rest = "concat (map rr_data rrs) @ concat (incoming (rl_world r1))"
    have "concat (map rr_data (rrec r1)) = rr_data rr @ concat (map rr_data rrs)" using c(5) by (subst d(3)) simp
    then have A: "stream incoming r = rr_data rr @ ?rest" using assms(2,3) c(7) by (simp add: stream_def)
    have "stream incoming r2 = concat (map rr_data (take i (rrec r1))) @ drop n (rr_data rr) @ ?rest"
      using g R(2-4) c(6) assms(3) by (simp add: stream_def rr1_def x_def)
    then have B: "stream incoming r2 = drop n (rr_data rr) @ ?rest" by (simp only: c(5) append_Nil)
    show "stream incoming r = take n (rr_data rr) @ stream incoming r2" by (simp only: A B append_assoc [symmetric] append_take_drop_id)
  qed
  moreover have "same_msg s s1" using same_msg_trans [OF _ c(8), of s] by (simp add: same_msg_def)
  moreover have "read_start e tls13 22 want n False r s = Some (1, if want then 22 else 0, take n (rr_data rr), r2, s1)"
    using c(1) R(1) by (subst read_start.simps) simp
  ultimately show ?thesis using h(3) assms(5) by (intro exI [of _ "if want then 22 else 0"] exI [of _ "take n (rr_data rr)"] exI [of _ r2] exI [of _ s1]) auto
qed

lemma records_deliver:
  assumes "fetches e incoming"
  shows "delivers (rec_io e io) (stream incoming)"
  unfolding delivers_def
proof (intro allI impI)
  fix want :: bool and n :: nat and q :: "'a RECORD_LAYER" and s :: SSL
  assume A: "0 < n" "stream incoming q \<noteq> []" "in_progress s"
  have h: "hs_records q" using A(2) by (simp add: stream_def split: if_split_asm)
  have v: "\<not> RECORD_LAYER_is_sslv2_record r" if "hs_records r" for r :: "'a RECORD_LAYER"
    using that by (cases "rrec r") (auto simp: RECORD_LAYER_is_sslv2_record_def hs_records_def)
  obtain m where m: "re_setup_read e q s = (1, q\<lparr>rbuf := True, rbuf_left := m\<rparr>, s)" using assms unfolding fetches_def by blast
  define r where "r = (if rbuf q then q else q\<lparr>rbuf := True, rbuf_left := m\<rparr>)"
  have r: "hs_records r" "stream incoming r = stream incoming q" "handshake_fragment r = handshake_fragment q"
    using h by (simp_all add: r_def hs_records_def stream_def)
  have start: "(if rbuf q then (1, q, s) else re_setup_read e q s) = (1, r, s)" using m by (simp add: r_def)
  have ih: "ossl_statem_get_in_handshake s \<noteq> 0" using A(3) by (simp add: in_progress_def ossl_statem_get_in_handshake_def)
  show "\<exists>i ty bs q1 s1. io_read (rec_io e io) want n q s = Some (i, ty, bs, q1, s1) \<and> 0 < i \<and> (want \<longrightarrow> ty = 22) \<and> bs \<noteq> [] \<and> length bs \<le> n \<and>
      stream incoming q = bs @ stream incoming q1 \<and> same_msg s s1 \<and> \<not> io_is_sslv2_record (rec_io e io) q1"
  proof (cases "handshake_fragment r = []")
    case True
    obtain t bs r1 s1 where "read_start e (SSL_IS_TLS13 s) 22 want n False r s = Some (1, t, bs, r1, s1)" "want \<longrightarrow> t = 22" "bs \<noteq> []" "length bs \<le> n"
        "stream incoming r = bs @ stream incoming r1" "hs_records r1" "same_msg s s1"
      using read_start_delivers [OF assms r(1) True _ A(1,3)] r(2) A(2) by metis
    then show ?thesis using start ih True r v by (intro exI [of _ 1] exI [of _ t] exI [of _ bs] exI [of _ r1] exI [of _ s1]) (simp add: rec_io_def ssl3_read_bytes_def)
  next
    case False
    let ?f = "handshake_fragment r" and ?r1 = "r\<lparr>handshake_fragment := drop n (handshake_fragment r)\<rparr>"
    have "hs_records ?r1" "stream incoming r = take n ?f @ stream incoming ?r1" using r(1) by (simp_all add: hs_records_def stream_def flip: append_assoc)
    then show ?thesis using start ih False r v [of ?r1] A(1)
      by (intro exI [of _ 1] exI [of _ "if want then 22 else 0"] exI [of _ "take n ?f"] exI [of _ ?r1] exI [of _ s]) (simp add: rec_io_def ssl3_read_bytes_def)
  qed
qed

section \<open>Writing\<close>

text \<open>
  What is asked of the construction of records and of the BIO: \<open>sealed\<close> is the list of the fragments that were put into records, in
  order; protection makes one record of each, and the BIO takes no more than it is given.
\<close>

definition seals :: "'b rec_env \<Rightarrow> ('b \<Rightarrow> bytes list) \<Rightarrow> bool" where
  "seals e sealed \<longleftrightarrow>
     (\<forall>n r s. re_setup_write e n r s = (1, r\<lparr>wrbuf := replicate n []\<rparr>, s)) \<and>
     (\<forall>ty frags r s. \<exists>recs b w. re_seal e ty frags r s = (recs, r\<lparr>empty_fragment_done := b, rl_world := w\<rparr>, s) \<and>
        (case recs of None \<Rightarrow> sealed w = sealed (rl_world r)
         | Some rs \<Rightarrow> length rs = length frags \<and> [] \<notin> set rs \<and> sealed w = sealed (rl_world r) @ frags)) \<and>
     (\<forall>d w. \<exists>i w1. re_bio_write e d w = (i, w1) \<and> i \<le> int (length d) \<and> sealed w1 = sealed w)"

text \<open>A record layer that writes one record at a time.\<close>

definition one_pipe :: "'b RECORD_LAYER \<Rightarrow> bool" where
  "one_pipe r \<longleftrightarrow> length (wrbuf r) \<le> 1 \<and> max_pipelines r \<le> 1 \<and> wbio r \<and> \<not> alert_dispatch r \<and> 0 < split_send_fragment r \<and> 0 < max_send_fragment r"

lemma fragment_sizes:
  assumes "one_pipe r"
  shows "0 < ssl_get_split_send_fragment r" "ssl_get_split_send_fragment r \<le> ssl_get_max_send_fragment r"
  using assms by (auto simp: one_pipe_def ssl_get_split_send_fragment_def ssl_get_max_send_fragment_def)

text \<open>What writing keeps.\<close>

definition same_limits :: "'b RECORD_LAYER \<Rightarrow> 'b RECORD_LAYER \<Rightarrow> bool" where
  "same_limits r r1 \<longleftrightarrow> max_pipelines r1 = max_pipelines r \<and> wbio r1 = wbio r \<and> alert_dispatch r1 = alert_dispatch r \<and>
     split_send_fragment r1 = split_send_fragment r \<and> max_send_fragment r1 = max_send_fragment r \<and> max_fragment_len_mode r1 = max_fragment_len_mode r \<and>
     length (wrbuf r1) \<le> 1"

lemma same_limits_pipe: "one_pipe r \<Longrightarrow> same_limits r r1 \<Longrightarrow> one_pipe r1"
  by (simp add: one_pipe_def same_limits_def)

lemma same_limits_trans: "same_limits r r1 \<Longrightarrow> same_limits r1 r2 \<Longrightarrow> same_limits r r2"
  by (simp add: same_limits_def)

text \<open>A record that could not be written to its end is resumed from these.\<close>

definition resumes :: "nat \<Rightarrow> nat \<Rightarrow> 'b RECORD_LAYER \<Rightarrow> bool" where
  "resumes buf n r \<longleftrightarrow> wpend_buf r = buf \<and> wpend_type r = 22 \<and> wpend_ret r = n \<and> wpend_tot r = n"

lemma dtls_same: "same_msg s s1 \<Longrightarrow> SSL_IS_DTLS s1 = SSL_IS_DTLS s"
proof -
  assume "same_msg s s1"
  then show ?thesis by (subst \<open>same_msg s s1\<close> [unfolded same_msg_def]) (simp add: SSL_IS_DTLS_def)
qed

lemma pending_loop_ends:
  assumes "seals e sealed"
  shows "wrbuf r = [x] \<Longrightarrow> wbio r \<Longrightarrow> \<not> SSL_IS_DTLS s \<Longrightarrow> \<exists>i n y w s1. write_pending_loop e r s = Some (i, n, r\<lparr>wrbuf := [y], rl_world := w\<rparr>, s1) \<and>
    same_msg s s1 \<and> sealed w = sealed (rl_world r) \<and> (if i \<le> 0 then n = 0 \<and> (x \<noteq> [] \<longrightarrow> y \<noteq> []) else i = 1 \<and> n = wpend_ret r \<and> y = [])"
proof (induction x arbitrary: r s rule: length_induct)
  case (1 x)
  obtain i w where b: "re_bio_write e x (rl_world r) = (i, w)" "i \<le> int (length x)" "sealed w = sealed (rl_world r)"
    using assms unfolding seals_def by metis
  have sm: "same_msg s (s\<lparr>rwstate := c\<rparr>)" for c by (simp add: same_msg_def)
  consider (full) "0 \<le> i" "nat i = length x" | (none) "i \<le> 0" "\<not> (0 \<le> i \<and> nat i = length x)" | (part) "0 < i" "nat i < length x"
    using b(2) by linarith
  then show ?case
  proof cases
    case full
    then have "write_pending_loop e r s = Some (1, wpend_ret r, r\<lparr>wrbuf := [[]], rl_world := w\<rparr>, s\<lparr>rwstate := SSL_NOTHING\<rparr>)"
      using 1(2,3) b(1) by (subst write_pending_loop.simps) simp
    then show ?thesis using b(3) sm by fastforce
  next
    case none
    then have "write_pending_loop e r s = Some (i, 0, r\<lparr>rl_world := w\<rparr>, s\<lparr>rwstate := SSL_WRITING\<rparr>)"
      using 1(2-4) b(1) by (subst write_pending_loop.simps) simp
    moreover have "r\<lparr>rl_world := w\<rparr> = r\<lparr>wrbuf := [x], rl_world := w\<rparr>" using 1(2) by simp
    ultimately show ?thesis using none(1) b(3) sm by metis
  next
    case part
    let ?r = "r\<lparr>wrbuf := [drop (nat i) x], rl_world := w\<rparr>" and ?s = "s\<lparr>rwstate := SSL_WRITING\<rparr>"
    have "write_pending_loop e r s = write_pending_loop e ?r ?s" using 1(2,3) part b(1) by (subst write_pending_loop.simps) simp
    moreover have "length (drop (nat i) x) < length x" "wrbuf ?r = [drop (nat i) x]" "wbio ?r" "\<not> SSL_IS_DTLS ?s" "drop (nat i) x \<noteq> []"
      using part 1(3,4) by (simp_all add: SSL_IS_DTLS_def)
    then obtain j n y v s1 where "write_pending_loop e ?r ?s = Some (j, n, ?r\<lparr>wrbuf := [y], rl_world := v\<rparr>, s1)" "same_msg ?s s1"
        "sealed v = sealed (rl_world ?r)" "if j \<le> 0 then n = 0 \<and> y \<noteq> [] else j = 1 \<and> n = wpend_ret ?r \<and> y = []" using 1(1) by metis
    ultimately show ?thesis using b(3) same_msg_trans [OF sm] by (intro exI [of _ j] exI [of _ n] exI [of _ y] exI [of _ v] exI [of _ s1]) (auto split: if_split_asm)
  qed
qed

lemma do_write_one:
  assumes e: "seals e sealed" and r: "one_pipe r" "first_left r = 0" and f: "f \<noteq> []" and s: "\<not> SSL_IS_DTLS s"
  shows "\<exists>i n r1 s1. do_ssl3_write e 22 buf [f] r s = Some (i, n, r1, s1) \<and> same_msg s s1 \<and> same_limits r r1 \<and> wnum r1 = wnum r \<and>
    (if i \<le> 0 then n = 0 \<and> (if first_left r1 = 0 then sealed (rl_world r1) = sealed (rl_world r)
                              else sealed (rl_world r1) = sealed (rl_world r) @ [f] \<and> resumes buf (length f) r1)
     else i = 1 \<and> n = length f \<and> first_left r1 = 0 \<and> sealed (rl_world r1) = sealed (rl_world r) @ [f])"
proof -
  have w: "wrbuf r = [] \<or> wrbuf r = [[]]" using r by (cases "wrbuf r") (auto simp: one_pipe_def first_left_def)
  let ?r = "r\<lparr>wrbuf := [[]]\<rparr>"
  have p: "\<not> RECORD_LAYER_write_pending r" "\<not> alert_dispatch r" using w r(1) by (auto simp: RECORD_LAYER_write_pending_def one_pipe_def)
  have su: "(if wrbuf r = [] then re_setup_write e (length [f]) r s else (1, r, s)) = (1, ?r, s)"
    using e w unfolding seals_def by auto
  obtain recs b v where q: "re_seal e 22 [f] ?r s = (recs, ?r\<lparr>empty_fragment_done := b, rl_world := v\<rparr>, s)"
      "case recs of None \<Rightarrow> sealed v = sealed (rl_world ?r) | Some rs \<Rightarrow> length rs = length [f] \<and> [] \<notin> set rs \<and> sealed v = sealed (rl_world ?r) @ [f]"
    using e unfolding seals_def by meson
  show ?thesis
  proof (cases recs)
    case None
    then have "do_ssl3_write e 22 buf [f] r s = Some (-1, 0, ?r\<lparr>empty_fragment_done := b, rl_world := v\<rparr>, s)"
      using p q(1) f by (simp add: do_ssl3_write_def Let_def su split del: if_split)
    then show ?thesis using q(2) None by (auto simp: same_limits_def first_left_def)
  next
    case (Some rs)
    then obtain x where x: "rs = [x]" "x \<noteq> []" "sealed v = sealed (rl_world r) @ [f]" using q(2) by (cases rs) auto
    let ?t = "?r\<lparr>empty_fragment_done := b, rl_world := v, wrbuf := [x], wpend_tot := length f, wpend_buf := buf, wpend_type := 22, wpend_ret := length f\<rparr>"
    have "do_ssl3_write e 22 buf [f] r s = write_pending_loop e ?t s"
      using p q(1) f Some x(1) by (simp add: do_ssl3_write_def Let_def ssl3_write_pending_def su split del: if_split)
    moreover have "wrbuf ?t = [x]" "wbio ?t" using r(1) by (simp_all add: one_pipe_def)
    then obtain i n y u s1 where "write_pending_loop e ?t s = Some (i, n, ?t\<lparr>wrbuf := [y], rl_world := u\<rparr>, s1)" "same_msg s s1" "sealed u = sealed (rl_world ?t)"
        "if i \<le> 0 then n = 0 \<and> (x \<noteq> [] \<longrightarrow> y \<noteq> []) else i = 1 \<and> n = wpend_ret ?t \<and> y = []"
      using pending_loop_ends [OF e _ _ s] by meson
    ultimately show ?thesis using x
      by (intro exI [of _ i] exI [of _ n] exI [of _ "?t\<lparr>wrbuf := [y], rl_world := u\<rparr>"] exI [of _ s1]) (auto simp: same_limits_def first_left_def resumes_def split: if_split_asm)
  qed
qed

text \<open>How much of the data at hand went into records in an unfinished write.\<close>

definition pend :: "'b RECORD_LAYER \<Rightarrow> nat" where
  "pend r = wnum r + (if first_left r = 0 then 0 else wpend_tot r)"

lemma pipelens_one: "0 < n \<Longrightarrow> 0 < split \<Longrightarrow> pipelens n split 1 = [min split n]"
  by (auto simp: pipelens_def Let_def min_def)

text \<open>The outcome of writing \<open>d\<close> from \<open>tot\<close> on: which fragments were put into records, and what is left to resume.\<close>

definition wrote :: "('b \<Rightarrow> bytes list) \<Rightarrow> nat \<Rightarrow> nat \<Rightarrow> bytes \<Rightarrow> nat \<Rightarrow> 'b RECORD_LAYER \<Rightarrow> SSL \<Rightarrow> (int \<times> nat \<times> 'b RECORD_LAYER \<times> SSL) option \<Rightarrow> bool" where
  "wrote sealed split buf d tot r s res \<longleftrightarrow> (\<exists>ret n r1 s1 fs. res = Some (ret, n, r1, s1) \<and> same_msg s s1 \<and> same_limits r r1 \<and>
      sealed (rl_world r1) = sealed (rl_world r) @ fs \<and> (\<forall>f \<in> set fs. f \<noteq> [] \<and> length f \<le> split) \<and>
      (if ret \<le> 0 then n = 0 \<and> tot \<le> pend r1 \<and> pend r1 \<le> length d \<and> take tot d @ concat fs = take (pend r1) d \<and>
                        (first_left r1 \<noteq> 0 \<longrightarrow> resumes (buf + wnum r1) (wpend_tot r1) r1)
       else n = length d \<and> take tot d @ concat fs = d \<and> pend r1 = 0 \<and> first_left r1 = 0))"

lemma wrote_more:
  assumes "wrote sealed split buf d (tot + length f) r1 s1 res" "same_msg s s1" "same_limits r r1" "sealed (rl_world r1) = sealed (rl_world r) @ [f]"
    "f \<noteq> []" "length f \<le> split" "take tot d @ f = take (tot + length f) d"
  shows "wrote sealed split buf d tot r s res"
proof -
  obtain ret n r2 s2 fs where R: "res = Some (ret, n, r2, s2)" "same_msg s1 s2" "same_limits r1 r2" "sealed (rl_world r2) = sealed (rl_world r1) @ fs"
      "\<forall>f \<in> set fs. f \<noteq> [] \<and> length f \<le> split"
      "if ret \<le> 0 then n = 0 \<and> tot + length f \<le> pend r2 \<and> pend r2 \<le> length d \<and> take (tot + length f) d @ concat fs = take (pend r2) d \<and>
          (first_left r2 \<noteq> 0 \<longrightarrow> resumes (buf + wnum r2) (wpend_tot r2) r2)
       else n = length d \<and> take (tot + length f) d @ concat fs = d \<and> pend r2 = 0 \<and> first_left r2 = 0"
    using assms(1) unfolding wrote_def by auto
  have c: "take tot d @ concat (f # fs) = take (tot + length f) d @ concat fs" by (simp add: assms(7) [symmetric])
  show ?thesis unfolding wrote_def
    using R assms(4-6) c same_msg_trans [OF assms(2) R(2)] same_limits_trans [OF assms(3) R(3)]
    by (intro exI [of _ ret] exI [of _ n] exI [of _ r2] exI [of _ s2] exI [of _ "f # fs"]) (auto simp del: concat.simps split: if_split_asm)
qed

lemma write_frags:
  assumes e: "seals e sealed" and sp: "0 < split"
  shows "one_pipe r \<Longrightarrow> first_left r = 0 \<Longrightarrow> wnum r = 0 \<Longrightarrow> \<not> SSL_IS_DTLS s \<Longrightarrow> tot < length d \<Longrightarrow>
    wrote sealed split buf d tot r s (write_loop_frags e 22 split 1 buf d tot r s)"
proof (induction "length d - tot" arbitrary: tot r s rule: less_induct)
  case less
  define f where "f = take (min split (length d - tot)) (drop tot d)"
  have f: "f \<noteq> []" "length f = min split (length d - tot)" "length f \<le> split" using less(6) sp by (auto simp: f_def)
  have lf: "0 < length f" using f(1) by simp
  have tf: "take tot d @ f = take (tot + length f) d" using f(2) by (simp add: f_def take_add)
  have c: "cut (pipelens (length d - tot) split 1) (drop tot d) = [f]" using pipelens_one less(6) sp by (simp add: f_def)
  obtain i n r1 s1 where w: "do_ssl3_write e 22 (buf + tot) [f] r s = Some (i, n, r1, s1)" "same_msg s s1" "same_limits r r1" "wnum r1 = wnum r"
      "if i \<le> 0 then n = 0 \<and> (if first_left r1 = 0 then sealed (rl_world r1) = sealed (rl_world r)
                              else sealed (rl_world r1) = sealed (rl_world r) @ [f] \<and> resumes (buf + tot) (length f) r1)
       else i = 1 \<and> n = length f \<and> first_left r1 = 0 \<and> sealed (rl_world r1) = sealed (rl_world r) @ [f]"
    using do_write_one [OF e less(2,3) f(1) less(5), of "buf + tot"] by meson
  show ?case
  proof (cases "i \<le> 0")
    case True
    let ?fs = "if first_left r1 = 0 then [] else [f]"
    have "write_loop_frags e 22 split 1 buf d tot r s = Some (i, 0, r1\<lparr>wnum := tot\<rparr>, s1)" using w(1) c True by (subst write_loop_frags.simps) simp
    then show ?thesis unfolding wrote_def using True w(2-5) f less(6) tf
      by (intro exI [of _ i] exI [of _ 0] exI [of _ "r1\<lparr>wnum := tot\<rparr>"] exI [of _ s1] exI [of _ ?fs])
        (auto simp: pend_def first_left_def resumes_def same_limits_def)
  next
    case False
    then have k: "i = 1" "n = length f" "first_left r1 = 0" "sealed (rl_world r1) = sealed (rl_world r) @ [f]" using w(5) by simp_all
    note F = same_msg_fields [OF w(2)]
    show ?thesis
    proof (cases "n = length d - tot")
      case True
      let ?r = "if has (ssl_mode s1) 0x10 \<and> \<not> SSL_IS_DTLS s1 then r1\<lparr>empty_fragment_done := False, wrbuf := []\<rparr> else r1\<lparr>empty_fragment_done := False\<rparr>"
      have "write_loop_frags e 22 split 1 buf d tot r s = Some (1, length d, ?r, s1)" using w(1) c k True less(6) by (subst write_loop_frags.simps) simp
      then show ?thesis unfolding wrote_def using k w(2-4) f tf True less(4,6)
        by (intro exI [of _ 1] exI [of _ "length d"] exI [of _ ?r] exI [of _ s1] exI [of _ "[f]"]) (auto simp: pend_def first_left_def same_limits_def)
    next
      case no: False
      have "write_loop_frags e 22 split 1 buf d tot r s = write_loop_frags e 22 split 1 buf d (tot + n) r1 s1"
        using w(1) c k no by (subst write_loop_frags.simps) simp
      moreover have "length d - (tot + n) < length d - tot" "tot + n < length d" "one_pipe r1" "wnum r1 = 0" "\<not> SSL_IS_DTLS s1"
        using k(2) lf f(2) no less(2,4,6) same_limits_pipe [OF less(2) w(3)] w(4) less(5) dtls_same [OF w(2)] by linarith+
      then have "wrote sealed split buf d (tot + n) r1 s1 (write_loop_frags e 22 split 1 buf d (tot + n) r1 s1)"
        using less(1) [of "tot + n" r1 s1] k(3) by blast
      ultimately show ?thesis using k(2,4) f(1,3) tf w(2,3)
        wrote_more [OF _ w(2,3) k(4) f(1,3)] by simp
    qed
  qed
qed

lemma write_rest_wrote:
  assumes "seals e sealed" "one_pipe r" "first_left r = 0" "wnum r = 0" "\<not> SSL_IS_DTLS s" "tot \<le> length d"
  shows "wrote sealed (ssl_get_split_send_fragment r) buf d tot r s (write_rest e 22 buf d tot r s)"
proof (cases "tot = length d")
  case True
  let ?r = "if has (ssl_mode s) 0x10 \<and> \<not> SSL_IS_DTLS s then r\<lparr>wrbuf := []\<rparr> else r"
  have "same_limits r ?r" "pend ?r = 0" "first_left ?r = 0" "rl_world ?r = rl_world r" using assms(2-4) by (auto simp: same_limits_def one_pipe_def pend_def first_left_def)
  then show ?thesis using True unfolding wrote_def write_rest_def
    by (intro exI [of _ 1] exI [of _ "length d"] exI [of _ ?r] exI [of _ s] exI [of _ "[]"]) simp
next
  case False
  have "(if max_pipelines r = 0 \<or> \<not> re_pipelined e s then 1 else max_pipelines r) = 1" "\<not> 32 < max_pipelines r" using assms(2) by (auto simp: one_pipe_def)
  moreover have "wrote sealed (ssl_get_split_send_fragment r) buf d tot r s (write_loop_frags e 22 (ssl_get_split_send_fragment r) 1 buf d tot r s)"
    using write_frags [OF assms(1) fragment_sizes(1) [OF assms(2)] assms(2-5)] assms(6) False by simp
  ultimately show ?thesis using False fragment_sizes [OF assms(2)] by (simp add: write_rest_def split del: if_split)
qed

lemma set_in_init_id: "in_init (statem s) \<Longrightarrow> ossl_statem_set_in_init True s = s"
  by (simp add: ossl_statem_set_in_init_def)

lemma wrote_after:
  assumes "wrote sealed split buf d tot r1 s1 res" "same_msg s s1" "same_limits r r1" "sealed (rl_world r1) = sealed (rl_world r)"
  shows "wrote sealed split buf d tot r s res"
  using assms same_msg_trans [OF assms(2)] same_limits_trans [OF assms(3)] unfolding wrote_def by metis

lemma write_bytes_wrote:
  assumes e: "seals e sealed" and s: "in_progress s" and r: "one_pipe r" "pend r \<le> length d" "first_left r \<noteq> 0 \<Longrightarrow> resumes (buf + wnum r) (wpend_tot r) r"
  shows "wrote sealed (ssl_get_split_send_fragment r) buf d (pend r) r s (ssl3_write_bytes e 22 buf d r s)"
proof -
  let ?s = "s\<lparr>rwstate := SSL_NOTHING\<rparr>" and ?r = "r\<lparr>wnum := 0\<rparr>"
  have P: "in_progress ?s" "\<not> SSL_IS_DTLS ?s" "same_msg s ?s" using s by (simp_all add: in_progress_def same_msg_def SSL_IS_DTLS_def)
  have ini: "ossl_statem_set_in_init True ?s = ?s" "ossl_statem_get_in_handshake ?s \<noteq> 0" "early_data_state ?s \<noteq> SSL_EARLY_DATA_WRITING"
    using P(1) by (auto simp: in_progress_def ossl_statem_get_in_handshake_def intro!: set_in_init_id)
  have L: "\<not> (length d < wnum r \<or> first_left r \<noteq> 0 \<and> length d < wnum r + wpend_tot r)" using r(2) by (auto simp: pend_def split: if_split_asm)
  have fl: "first_left ?r = first_left r" "one_pipe ?r" "same_limits r ?r" "ssl_get_split_send_fragment ?r = ssl_get_split_send_fragment r"
    using r(1) by (simp_all add: first_left_def one_pipe_def same_limits_def ssl_get_split_send_fragment_def)
  have W: "ssl3_write_bytes e 22 buf d r s = (if first_left r \<noteq> 0
      then do { (j, n, r5, s6) \<leftarrow> ssl3_write_pending e 22 (buf + wnum r) (wpend_tot ?r) ?r ?s;
                if j \<le> 0 then Some (j, 0, r5\<lparr>wnum := wnum r\<rparr>, s6) else write_rest e 22 buf d (wnum r + n) r5 s6 }
      else write_rest e 22 buf d (wnum r) ?r ?s)"
    using L ini fl(1) by (auto simp: ssl3_write_bytes_def Let_def)
  show ?thesis
  proof (cases "first_left r = 0")
    case True
    then have "wrote sealed (ssl_get_split_send_fragment ?r) buf d (wnum r) ?r ?s (write_rest e 22 buf d (wnum r) ?r ?s)"
      using r(2) fl P(2) by (intro write_rest_wrote [OF e]) (simp_all add: pend_def)
    then show ?thesis using W True P(3) fl(3,4) by (auto simp: pend_def intro: wrote_after)
  next
    case False
    then obtain x where x: "wrbuf ?r = [x]" "x \<noteq> []" using r(1) by (cases "wrbuf r") (auto simp: first_left_def one_pipe_def)
    have R: "resumes (buf + wnum r) (wpend_tot r) r" using r(3) False by simp
    obtain i n y w s1 where l: "write_pending_loop e ?r ?s = Some (i, n, ?r\<lparr>wrbuf := [y], rl_world := w\<rparr>, s1)" "same_msg ?s s1" "sealed w = sealed (rl_world ?r)"
        "if i \<le> 0 then n = 0 \<and> (x \<noteq> [] \<longrightarrow> y \<noteq> []) else i = 1 \<and> n = wpend_ret ?r \<and> y = []"
      using pending_loop_ends [OF e x(1) _ P(2)] r(1) unfolding one_pipe_def by auto
    let ?t = "?r\<lparr>wrbuf := [y], rl_world := w\<rparr>"
    have lim: "same_limits r ?t" "sealed (rl_world ?t) = sealed (rl_world r)" "same_msg s s1" "ssl_get_split_send_fragment ?t = ssl_get_split_send_fragment r" "\<not> SSL_IS_DTLS s1"
      using l(2,3) same_msg_trans [OF P(3)] P(2) dtls_same [OF l(2)] by (simp_all add: same_limits_def ssl_get_split_send_fragment_def)
    have wp: "ssl3_write_pending e 22 (buf + wnum r) (wpend_tot ?r) ?r ?s = Some (i, n, ?t, s1)" using R l(1) by (simp add: ssl3_write_pending_def resumes_def)
    show ?thesis
    proof (cases "i \<le> 0")
      case True
      let ?u = "?t\<lparr>wnum := wnum r\<rparr>"
      have "ssl3_write_bytes e 22 buf d r s = Some (i, 0, ?u, s1)" using W False wp True by simp
      moreover have "pend ?u = pend r" "same_limits r ?u" "resumes (buf + wnum ?u) (wpend_tot ?u) ?u" "sealed (rl_world ?u) = sealed (rl_world r) @ []"
        using True l(4) x(2) False R lim(1,2) by (simp_all add: pend_def first_left_def resumes_def same_limits_def)
      ultimately show ?thesis unfolding wrote_def using True r(2) lim(3)
        by (intro exI [of _ i] exI [of _ 0] exI [of _ ?u] exI [of _ s1] exI [of _ "[]"]) simp
    next
      case ok: False
      then have "n = wpend_tot r" "y = []" using l(4) R by (simp_all add: resumes_def)
      then have "ssl3_write_bytes e 22 buf d r s = write_rest e 22 buf d (pend r) ?t s1" using W False wp ok by (simp add: pend_def)
      moreover have "wrote sealed (ssl_get_split_send_fragment ?t) buf d (pend r) ?t s1 (write_rest e 22 buf d (pend r) ?t s1)"
        using r lim \<open>y = []\<close> by (intro write_rest_wrote [OF e same_limits_pipe [OF r(1)]]) (simp_all add: first_left_def)
      ultimately show ?thesis using wrote_after [OF _ lim(3,1,2)] lim(4) by simp
    qed
  qed
qed

text \<open>What was sent in completed writes, and when data can be written or its write be resumed.\<close>

definition sent_of :: "('b \<Rightarrow> bytes list) \<Rightarrow> 'b RECORD_LAYER \<Rightarrow> bytes" where
  "sent_of sealed r = (let S = concat (sealed (rl_world r)) in take (length S - pend r) S)"

definition fits_in :: "('b \<Rightarrow> bytes list) \<Rightarrow> 'b RECORD_LAYER \<Rightarrow> nat \<Rightarrow> bytes \<Rightarrow> bool" where
  "fits_in sealed r off d \<longleftrightarrow> (let S = concat (sealed (rl_world r)) in one_pipe r \<and> pend r \<le> length S \<and> pend r \<le> length d \<and>
     drop (length S - pend r) S = take (pend r) d \<and> (first_left r \<noteq> 0 \<longrightarrow> resumes (off + wnum r) (wpend_tot r) r))"

lemma records_accept:
  assumes "seals e sealed"
  shows "accepts (rec_io e io) (sent_of sealed) (fits_in sealed)"
  unfolding accepts_def
proof (intro allI impI)
  fix d r s ret n r1 s1
  assume A: "io_write (rec_io e io) 22 d r s = Some (ret, n, r1, s1)" "in_progress s" "fits_in sealed r (init_off s) d"
  let ?S = "concat (sealed (rl_world r))" and ?S1 = "concat (sealed (rl_world r1))"
  have f: "one_pipe r" "pend r \<le> length ?S" "pend r \<le> length d" "drop (length ?S - pend r) ?S = take (pend r) d"
      "first_left r \<noteq> 0 \<Longrightarrow> resumes (init_off s + wnum r) (wpend_tot r) r" using A(3) by (simp_all add: fits_in_def Let_def)
  have "ssl3_write_bytes e 22 (init_off s) d r s = Some (ret, n, r1, s1)" using A(1) by (simp add: rec_io_def)
  then obtain fs where R: "same_msg s s1" "same_limits r r1" "sealed (rl_world r1) = sealed (rl_world r) @ fs"
      "if ret \<le> 0 then n = 0 \<and> pend r \<le> pend r1 \<and> pend r1 \<le> length d \<and> take (pend r) d @ concat fs = take (pend r1) d \<and>
          (first_left r1 \<noteq> 0 \<longrightarrow> resumes (init_off s + wnum r1) (wpend_tot r1) r1)
       else n = length d \<and> take (pend r) d @ concat fs = d \<and> pend r1 = 0 \<and> first_left r1 = 0"
    using write_bytes_wrote [OF assms A(2) f(1,3,5)] unfolding wrote_def by auto
  define base where "base = take (length ?S - pend r) ?S"
  have S: "?S = base @ take (pend r) d" using f(4) by (metis base_def append_take_drop_id)
  have S1: "?S1 = base @ take (pend r) d @ concat fs" by (simp add: R(3) S [symmetric])
  have out: "sent_of sealed r = base" by (simp only: sent_of_def base_def Let_def)
  have p1: "one_pipe r1" using same_limits_pipe [OF f(1) R(2)] .
  show "same_msg s s1 \<and> (if ret \<le> 0 then n = 0 \<and> sent_of sealed r1 = sent_of sealed r \<and> fits_in sealed r1 (init_off s) d
      else n \<le> length d \<and> sent_of sealed r1 = sent_of sealed r @ take n d \<and> (\<forall>off d1. fits_in sealed r1 off d1))"
  proof (cases "ret \<le> 0")
    case True
    then have "?S1 = base @ take (pend r1) d" "pend r1 \<le> length d" using R(4) S1 by simp_all
    moreover from this have "length ?S1 = length base + pend r1" by simp
    ultimately show ?thesis using True R(1,4) out p1 by (simp add: sent_of_def fits_in_def Let_def del: length_concat)
  next
    case False
    have "?S1 = base @ d" "pend r1 = 0" "first_left r1 = 0" using R(4) S1 False by simp_all
    moreover have "\<forall>off d1. fits_in sealed r1 off d1" using calculation(2,3) p1 unfolding fits_in_def by (intro allI) simp
    ultimately show ?thesis using False R(1,4) out by (simp add: sent_of_def)
  qed
qed

section \<open>A message from end to end\<close>

text \<open>Nothing of an earlier write is left.\<close>

definition idle :: "'b RECORD_LAYER \<Rightarrow> bool" where
  "idle r \<longleftrightarrow> one_pipe r \<and> wnum r = 0 \<and> first_left r = 0"

lemma idle_fits: "idle r \<Longrightarrow> fits_in sealed r off d" "idle r \<Longrightarrow> sent_of sealed r = concat (sealed (rl_world r))"
  by (simp_all add: idle_def fits_in_def sent_of_def pend_def)



section \<open>Two record layers\<close>

text \<open>The network holds the fragments that were sent. Fragments are at most five octets long.\<close>

definition rec_env0 :: "bytes list rec_env" where
  "rec_env0 = \<lparr>re_setup_read = (\<lambda>r s. (1, r\<lparr>rbuf := True, rbuf_left := 0\<rparr>, s)), re_setup_write = (\<lambda>n r s. (1, r\<lparr>wrbuf := replicate n []\<rparr>, s)),
     re_get_record = (\<lambda>r s. case filter (\<lambda>f. f \<noteq> []) (rl_world r) of [] \<Rightarrow> (0, r, s)
       | f # fs \<Rightarrow> (1, r\<lparr>rrec := [\<lparr>rec_version = 0x303, rr_type = 22, rr_data = f, rr_read = False\<rparr>], rbuf_left := 0, rl_world := fs\<rparr>, s)),
     re_handshake = (\<lambda>r s. (1, r, s)), re_dispatch_alert = (\<lambda>r s. (1, r, s)),
     re_seal = (\<lambda>ty frags r s. (Some (map (\<lambda>f. 0 # f) frags), r\<lparr>empty_fragment_done := False, rl_world := rl_world r @ frags\<rparr>, s)),
     re_bio_write = (\<lambda>d w. (int (length d), w)), re_pipelined = (\<lambda>_. False), re_remove_session = (\<lambda>s. s)\<rparr>"

definition layer0 :: "bytes list \<Rightarrow> bytes list RECORD_LAYER" where
  "layer0 w = \<lparr>rstate = SSL_ST_READ_HEADER, rbuf = True, rbuf_left = 0, rrec = [], handshake_fragment = [], alert_count = 0, wnum = 0, wrbuf = [],
     wpend_tot = 0, wpend_type = 0, wpend_ret = 0, wpend_buf = 0, wbio = True, alert_dispatch = False, empty_fragment_done = False, warn_alert = 0,
     fatal_alert = 0, max_send_fragment = 16384, split_send_fragment = 5, max_fragment_len_mode = 0, max_pipelines = 0, sess_max_early_data = 0,
     psk_max_early_data = None, recv_max_early_data = 0, early_data_count = 0, enc_read_ctx = False, rl_world = w\<rparr>"

definition base_io0 :: "bytes list RECORD_LAYER msg_io" where
  "base_io0 = \<lparr>io_read = (\<lambda>_ _ r s. Some (0, 0, [], r, s)), io_write = (\<lambda>_ _ r s. Some (0, 0, r, s)), io_is_sslv2_record = (\<lambda>_. False),
     io_rrec_length = (\<lambda>_. 0), io_dtls_write = (\<lambda>_ r s. (0, r, s)), io_bio_write = (\<lambda>d _. int (length d)), io_digest_update = (\<lambda>_ _. True)\<rparr>"

definition msg_sender0 :: SSL where
  "msg_sender0 = (at TLS_ST_SW_CERT)\<lparr>server := True, init_off := 0, init_num := 8, init_buf := Some \<lparr>bm_data = handshake_msg 11 [0, 0, 0, 0], bm_max = 100\<rparr>,
     statem := statem0\<lparr>hand_state := TLS_ST_SW_CERT, in_handshake := 1\<rparr>\<rparr>"

definition msg_reader0 :: SSL where
  "msg_reader0 = (at TLS_ST_CR_ENCRYPTED_EXTENSIONS)\<lparr>init_num := 0, init_buf := Some \<lparr>bm_data = [9, 9, 9, 9], bm_max = 100\<rparr>,
     statem := statem0\<lparr>hand_state := TLS_ST_CR_ENCRYPTED_EXTENSIONS, in_handshake := 1\<rparr>\<rparr>"

lemma sample_seals: "seals rec_env0 (\<lambda>w. w)"
  by (auto simp: seals_def rec_env0_def)

definition incoming0 :: "bytes list \<Rightarrow> bytes list" where
  "incoming0 = filter (\<lambda>f. f \<noteq> [])"

lemma incoming0_Cons: "incoming0 w = f # fs \<Longrightarrow> f \<noteq> [] \<and> incoming0 fs = fs"
  unfolding incoming0_def by (induction w) (auto split: if_split_asm)

lemma sample_fetches: "fetches rec_env0 incoming0"
proof -
  have "\<exists>n. re_setup_read rec_env0 r s = (1, r\<lparr>rbuf := True, rbuf_left := n\<rparr>, s)" for r s by (auto simp: rec_env0_def)
  moreover have "\<exists>v n w s1. re_get_record rec_env0 r s = (1, r\<lparr>rrec := [\<lparr>rec_version = v, rr_type = 22, rr_data = f, rr_read = False\<rparr>], rbuf_left := n, rl_world := w\<rparr>, s1) \<and>
      v \<noteq> SSL2_VERSION \<and> incoming0 w = fs \<and> same_msg s s1" if "incoming0 (rl_world r) = f # fs" for r s f fs
    using incoming0_Cons [OF that] that
    by (intro exI [of _ "0x303"] exI [of _ 0] exI [of _ fs] exI [of _ s]) (simp add: rec_env0_def incoming0_def)
  ultimately show ?thesis using incoming0_Cons unfolding fetches_def by blast
qed

lemma sample_idle: "idle (layer0 w)"
  by (simp add: idle_def one_pipe_def layer0_def first_left_def)

lemma sample_in_progress: "in_progress msg_sender0" "in_progress msg_reader0"
  by (simp_all add: in_progress_def msg_sender0_def msg_reader0_def at_def ssl0_def statem0_def has_def)


lemma msg_sender0_fields:
  "msg_sender0\<lparr>rwstate := SSL_NOTHING\<rparr> = msg_sender0" "early_data_state msg_sender0 = SSL_EARLY_DATA_NONE" "key_update msg_sender0 = -1" "dtls msg_sender0 = False"
  "extra_tickets_expected (ext msg_sender0) = 0" "ssl_mode msg_sender0 = 0" "ossl_statem_get_in_handshake msg_sender0 = 1" "init_off msg_sender0 = 0" "init_num msg_sender0 = 8"
  "init_buf msg_sender0 = Some \<lparr>bm_data = handshake_msg 11 [0, 0, 0, 0], bm_max = 100\<rparr>" "hand msg_sender0 = TLS_ST_SW_CERT" "server msg_sender0" "s3 msg_sender0 = s30"
  by (simp_all add: msg_sender0_def at_def ssl0_def ossl_statem_get_in_handshake_def)

lemma sample_seal: "re_seal rec_env0 ty frags r s = (Some (map (\<lambda>f. 0 # f) frags), r\<lparr>empty_fragment_done := False, rl_world := rl_world r @ frags\<rparr>, s)"
    "re_bio_write rec_env0 d w = (int (length d), w)" "re_setup_write rec_env0 n r s = (1, r\<lparr>wrbuf := replicate n []\<rparr>, s)" "re_pipelined rec_env0 s = False"
  by (simp_all add: rec_env0_def)

lemma sample_one_record:
  assumes "wrbuf r = [] \<or> wrbuf r = [[]]" "wbio r" "\<not> alert_dispatch r" "f \<noteq> []"
  shows "do_ssl3_write rec_env0 22 buf [f] r s = Some (1, length f, r\<lparr>wrbuf := [[]], wpend_tot := length f, wpend_buf := buf, wpend_type := 22,
    wpend_ret := length f, empty_fragment_done := False, rl_world := rl_world r @ [f]\<rparr>, s\<lparr>rwstate := SSL_NOTHING\<rparr>)"
proof -
  have "write_pending_loop rec_env0 r s = Some (1, wpend_ret r, r\<lparr>wrbuf := [[]]\<rparr>, s\<lparr>rwstate := SSL_NOTHING\<rparr>)"
    if "wbio r" "wrbuf r = [x]" for r x s using that by (subst write_pending_loop.simps) (simp add: sample_seal)
  then show ?thesis using assms by (auto simp: do_ssl3_write_def RECORD_LAYER_write_pending_def sample_seal ssl3_write_pending_def Let_def)
qed

lemma sample_write:
  "\<exists>r2. ssl3_write_bytes rec_env0 22 0 [11, 0, 0, 4, 0, 0, 0, 0] (layer0 []) msg_sender0 = Some (1, 8, r2, msg_sender0) \<and> rl_world r2 = [[11, 0, 0, 4, 0], [0, 0, 0]]"
proof -
  have "ssl3_write_bytes rec_env0 22 0 [11, 0, 0, 4, 0, 0, 0, 0] (layer0 []) msg_sender0 =
      write_loop_frags rec_env0 22 5 1 0 [11, 0, 0, 4, 0, 0, 0, 0] 0 (layer0 []) msg_sender0"
    by (simp add: ssl3_write_bytes_def Let_def msg_sender0_fields write_rest_def ssl_get_max_send_fragment_def ssl_get_split_send_fragment_def first_left_def layer0_def)
  also have "\<exists>r2. \<dots> = Some (1, 8, r2, msg_sender0) \<and> rl_world r2 = [[11, 0, 0, 4, 0], [0, 0, 0]]"
    by (subst write_loop_frags.simps, simp add: pipelens_def sample_one_record msg_sender0_fields layer0_def,
      subst write_loop_frags.simps, simp add: pipelens_def sample_one_record msg_sender0_fields has_def)
  finally show ?thesis .
qed

lemma msg_sender0_construct: "get_construct_message msg_sender0 = (Some (Some 11), msg_sender0)"
  by (simp add: get_construct_message_def ossl_statem_server_construct_message_def server_message_type_def msg_sender0_fields)

lemma sample_sends: "\<exists>r2 s2. sends (rec_io rec_env0 base_io0) (layer0 []) msg_sender0 r2 s2 \<and> rl_world r2 = [[11, 0, 0, 4, 0], [0, 0, 0]]"
proof -
  obtain r2 where r2: "ssl3_write_bytes rec_env0 22 0 [11, 0, 0, 4, 0, 0, 0, 0] (layer0 []) msg_sender0 = Some (1, 8, r2, msg_sender0)"
      "rl_world r2 = [[11, 0, 0, 4, 0], [0, 0, 0]]" using sample_write by blast
  have m: "handshake_msg 11 [0, 0, 0, 0] = [11, 0, 0, 4, 0, 0, 0, 0]" by code_simp
  let ?io = "rec_io rec_env0 base_io0"
  have "statem_do_write ?io (layer0 []) msg_sender0 = ssl3_do_write ?io 22 (layer0 []) msg_sender0"
    by (simp add: statem_do_write_def ssl3_handshake_write_def msg_sender0_fields SSL_IS_DTLS_def)
  moreover have "read_at (handshake_msg 11 [0, 0, 0, 0]) 0 8 = Some [11, 0, 0, 4, 0, 0, 0, 0]" by (simp add: m read_at_def)
  moreover have "io_write ?io 22 [11, 0, 0, 4, 0, 0, 0, 0] (layer0 []) msg_sender0 = Some (1, 8, r2, msg_sender0)" using r2(1) by (simp add: rec_io_def msg_sender0_fields)
  moreover obtain s2 where "ssl3_finish_mac ?io [11, 0, 0, 4, 0, 0, 0, 0] msg_sender0 = (True, s2)" "init_num s2 = 8"
    by (simp add: ssl3_finish_mac_def msg_sender0_fields s30_def rec_io_def base_io0_def)
  ultimately have "statem_do_write ?io (layer0 []) msg_sender0 = Some (1, r2, s2)"
    by (simp add: ssl3_do_write_def msg_sender0_fields)
  from sends.sent [OF this] r2(2) show ?thesis by blast
qed


end
