(* ===== verification/Record_Sealing.thy ===== *)
theory Record_Sealing
  imports Record_Output Record_Properties
begin

text \<open>
  Making records of TLS 1.3: the octets of a record, that what was sealed can be opened, and that the write buffer as it is set up has room for every record.
\<close>

section \<open>TLS 1.3 protection\<close>

text \<open>The cipher: what was sealed is opened with the same key, nonce and additional data, and the tag has its length.\<close>

definition aead_ok :: "'w rec_lib \<Rightarrow> 'v rec_lib \<Rightarrow> bool" where
  "aead_ok L L2 \<longleftrightarrow> (\<forall>key iv aad n pt ct tag. rl_seal L key iv aad n pt = Some (ct, Some tag) \<longrightarrow> length ct = length pt \<longrightarrow>
     length tag = n \<and> rl_open L2 key iv aad ct tag = Some pt) \<and> (\<forall>n iv. rl_cipher_init L2 False n iv)
     \<and> malloc_ok (rl_env L2) = malloc_ok (rl_env L) \<and> rl_algorithm_enc L2 = rl_algorithm_enc L"

text \<open>The sender's keys and sequence number are those of the receiver.\<close>

definition in_step :: "'w rec_lib \<Rightarrow> 'v rec_lib \<Rightarrow> 'w rlayer \<Rightarrow> 'v rlayer \<Rightarrow> bool" where
  "in_step L L2 r q \<longleftrightarrow> enc_write_ctx (rl_world r) \<and> enc_read_ctx q \<and> write_key (rl_world r) = read_key (rl_world q) \<and>
     write_iv (rl_world r) = read_iv (rl_world q) \<and> write_sequence (rl_world r) = read_sequence (rl_world q) \<and>
     (\<forall>r1 q1. rl_iv_length L True r1 = rl_iv_length L2 False q1)"

lemma set_sequence_fields [simp]:
  "enc_write_ctx (rl_world (set_sequence b sq r)) = enc_write_ctx (rl_world r)" "enc_read_ctx (set_sequence b sq r) = enc_read_ctx r"
  "write_key (rl_world (set_sequence b sq r)) = write_key (rl_world r)" "read_key (rl_world (set_sequence b sq r)) = read_key (rl_world r)"
  "write_iv (rl_world (set_sequence b sq r)) = write_iv (rl_world r)" "read_iv (rl_world (set_sequence b sq r)) = read_iv (rl_world r)"
  "write_sequence (rl_world (set_sequence True sq r)) = sq" "read_sequence (rl_world (set_sequence False sq r)) = sq"
  by (simp_all add: set_sequence_def)

text \<open>The connections agree on the cipher, and neither is in early data.\<close>

definition same_cipher :: "SSL \<Rightarrow> SSL \<Rightarrow> bool" where
  "same_cipher s t \<longleftrightarrow> new_cipher (s3 s) = new_cipher (s3 t) \<and>
     early_data_state s \<notin> {SSL_EARLY_DATA_WRITING, SSL_EARLY_DATA_WRITE_RETRY} \<and> early_data_state t \<notin> {SSL_EARLY_DATA_WRITING, SSL_EARLY_DATA_WRITE_RETRY}"

lemma tls13_record_roundtrip:
  assumes "aead_ok L L2" "in_step L L2 r q" "same_cipher s t" "rr_data rec \<noteq> []" "rr_type rec \<noteq> SSL3_RT_ALERT"
    and e: "tls13_record L True rec r s = (True, rec1, r1, s1)"
  shows "\<exists>q1 sq. tls13_record L2 False rec1 q t = (True, rec, q1, t) \<and> in_step L L2 r1 q1 \<and> q1 = set_sequence False sq q \<and> r1 = set_sequence True sq r \<and> s1 = s \<and>
    rr_type rec1 = rr_type rec \<and> rec_version rec1 = rec_version rec \<and> rr_read rec1 = rr_read rec \<and> length (rr_data rec) < length (rr_data rec1) \<and> length (rr_data rec1) \<le> length (rr_data rec) + 16"
proof -
  let ?sq = "ssl3_record_sequence_update (write_sequence (rl_world r))"
  let ?iv = "record_nonce (nat (rl_iv_length L True r)) (write_iv (rl_world r)) (write_sequence (rl_world r))"
  have ctx: "enc_write_ctx (rl_world r)" using assms(2) by (simp add: in_step_def)
  have c: "record_cipher L r s = new_cipher (s3 s)" "record_cipher L2 q t = new_cipher (s3 s)" using assms(3) by (auto simp: record_cipher_def same_cipher_def)
  obtain c taglen aad ct tag where e: "new_cipher (s3 s) = Some c" "tag_length (rl_algorithm_enc L c) = Some taglen" "0 \<le> rl_iv_length L True r" "\<not> rl_iv_length L True r < 8"
      "?sq \<noteq> replicate 8 0" "record_aad (malloc_ok (rl_env L)) (rr_type rec) (rec_version rec) (length (rr_data rec) + taglen) = Some aad"
      "rl_seal L (write_key (rl_world r)) ?iv aad taglen (rr_data rec) = Some (ct, Some tag)" "length ct = length (rr_data rec)"
      "rec1 = rec\<lparr>rr_data := ct @ tag\<rparr>" "r1 = set_sequence True ?sq r" "s1 = s"
    using e ctx assms(5) unfolding tls13_record_def aead_record_def Let_def c(1) by (auto split: option.split_asm if_split_asm prod.split_asm)
  have o: "length tag = taglen" "rl_open L2 (write_key (rl_world r)) ?iv aad ct tag = Some (rr_data rec)" "\<And>n iv. rl_cipher_init L2 False n iv"
      "malloc_ok (rl_env L2) = malloc_ok (rl_env L)" "rl_algorithm_enc L2 = rl_algorithm_enc L"
    using assms(1) e(7,8) unfolding aead_ok_def by blast+
  have iv: "rl_iv_length L2 False q = rl_iv_length L True r" using assms(2) unfolding in_step_def by metis
  have n: "taglen = 8 \<or> taglen = 16" using e(2) by (auto simp: tag_length_def split: if_split_asm)
  show ?thesis
    using assms(2,4,5) e o n c(2) iv by (intro exI [of _ "set_sequence False ?sq q"] exI [of _ ?sq]) (auto simp: tls13_record_def aead_record_def Let_def in_step_def)
qed

section \<open>The bytes of a record\<close>

lemma memset_spec:
  assumes "wpacket_inv p" "WPACKET_memset ok ch n p = (True, p1)"
  shows "wpacket_inv p1 \<and> wcontent p1 = wcontent p @ replicate n ch \<and> subs p1 = subs p"
proof -
  have "WPACKET_memset ok ch n p = WPACKET_memcpy ok (replicate n ch) p" by (simp add: WPACKET_memset_def WPACKET_memcpy_def)
  then show ?thesis using WPACKET_memcpy_spec [OF assms(1)] assms(2) by simp
qed

lemma wseq_True: "wseq f g p = (True, p2) \<longleftrightarrow> (\<exists>p1. f p = (True, p1) \<and> g p1 = (True, p2))"
  by (simp add: wseq_def split: prod.split bool.split)

lemma wopt_True: "wopt b f p = (True, p1) \<longleftrightarrow> (if b then f p = (True, p1) else p1 = p)"
  by (auto simp: wopt_def)

lemma wreserve_spec:
  assumes "wpacket_inv p" "wreserve ok n p = (True, p1)"
  shows "wpacket_inv p1 \<and> wcontent p1 = wcontent p \<and> subs p1 = subs p"
  using WPACKET_reserve_bytes_spec [OF assms(1)] assms(2) by (fastforce simp: wreserve_def split: prod.split_asm)

lemma wallocate_spec:
  assumes "wpacket_inv p" "wallocate ok n p = (True, p1)"
  shows "wpacket_inv p1 \<and> (\<exists>h. length h = n \<and> wcontent p1 = wcontent p @ h) \<and> subs p1 = subs p"
proof -
  obtain a where "WPACKET_allocate_bytes ok n p = (True, a, p1)" using assms(2) by (auto simp: wallocate_def split: prod.split_asm)
  note S = WPACKET_allocate_bytes_spec [OF assms(1) this]
  then have l: "length (wcontent p1) = written p + n" using length_wcontent by force
  moreover have "wcontent p1 = wcontent p @ drop (written p) (wcontent p1)"
    using S by (metis append_take_drop_id le_add1 min.absorb1 take_take wcontent_def)
  ultimately show ?thesis using S by (intro conjI exI [of _ "drop (written p) (wcontent p1)"]) simp_all
qed

text \<open>A fresh packet on a buffer, with octets left free at its start.\<close>

lemma init_static_spec:
  assumes "WPACKET_init_static_len ok b 0 (raw_packet 0) = (True, p)" "length b \<le> SIZE_MAX"
  shows "wpacket_inv p" "wcontent p = []" "subs p = [new_sub]" "wbuf p = WStatic b"
  using assms by (auto simp: WPACKET_init_static_len_def wpacket_intern_init_len_def raw_packet_def maxmaxsize_def wpacket_inv_def buf_inv_def wcontent_def sub_ok_def new_sub_def Let_def
      split: if_split_asm)

lemma init_packet_spec:
  assumes "wseq (WPACKET_init_static_len ok b 0) (wallocate ok n) (raw_packet 0) = (True, p)" "length b \<le> SIZE_MAX"
  shows "wpacket_inv p \<and> length (wcontent p) = n \<and> subs p = [new_sub]"
proof -
  obtain p0 where p0: "WPACKET_init_static_len ok b 0 (raw_packet 0) = (True, p0)" "wallocate ok n p0 = (True, p)" using assms(1) by (auto simp: wseq_True)
  then show ?thesis using init_static_spec [OF p0(1) assms(2)] wallocate_spec [OF _ p0(2)] by auto
qed

lemma be_bytes_1 [simp]: "be_bytes (Suc 0) v = [word_of_nat v]"
  by simp

lemma contents_spec:
  assumes "wpacket_inv p" "type_inside typ r s" "rl_compress L = None" "record_contents L typ f p r s = (Some d, p3, s1)"
  shows "d = f @ word_of_nat typ # replicate (record_padding L typ (length f + 1) r) 0 \<and> s1 = s \<and> wpacket_inv p3 \<and> wcontent p3 = wcontent p @ d \<and>
    subs p3 = subs p \<and> typ < 256"
proof -
  let ?ok = "malloc_ok (rl_env L)" and ?pad = "record_padding L typ (length f + 1) r"
  obtain p1 p2 where x: "WPACKET_memcpy ?ok f p = (True, p1)" "WPACKET_put_bytes ?ok typ 1 p1 = (True, p2)" "wopt (0 < ?pad) (WPACKET_memset ?ok 0 ?pad) p2 = (True, p3)"
      "d = f @ word_of_nat typ # replicate ?pad 0" "s1 = s"
    using assms(2-4) by (auto simp: record_contents_def wseq_True Let_def split: prod.split_asm bool.split_asm if_split_asm)
  note a = WPACKET_memcpy_spec [OF assms(1) x(1)]
  note b = WPACKET_put_bytes_spec [OF conjunct1 [OF a] x(2)]
  have "wpacket_inv p3 \<and> wcontent p3 = wcontent p2 @ replicate ?pad 0 \<and> subs p3 = subs p2"
    using memset_spec [of p2] b x(3) by (cases "0 < ?pad") (auto simp: wopt_True)
  then show ?thesis using a b x(4,5) by simp
qed

text \<open>The record in the buffer before encryption.\<close>

lemma begin_record_spec:
  assumes p0: "wpacket_inv p0" "subs p0 = [new_sub]" and t: "type_inside typ r s" and L: "rl_compress L = None"
    and e: "begin_record L typ 0 0 f p0 r s = (Some (p4, start, rec), r1, s1)"
  shows "\<exists>p p1. r1 = r \<and> s1 = s \<and> start = written p1 \<and> wpacket_inv p \<and> WPACKET_start_sub_packet_len (malloc_ok (rl_env L)) 2 p = (True, p1) \<and>
    wcontent p = wcontent p0 @ 23 # be_bytes 2 (record_version s) \<and> subs p = [new_sub] \<and> wpacket_inv p4 \<and> subs p4 = subs p1 \<and>
    wcontent p4 = wcontent p1 @ rr_data rec \<and> typ < 256 \<and> record_version s < 65536 \<and>
    rec = \<lparr>rec_version = record_version s, rr_type = 23, rr_data = f @ word_of_nat typ # replicate (record_padding L typ (length f + 1) r) 0, rr_read = False\<rparr>"
proof -
  let ?ok = "malloc_ok (rl_env L)"
  obtain p1 d p3 s2 len where x: "record_start L typ 0 f p0 r s = (True, p1)" "record_contents L typ f p1 r s = (Some d, p3, s2)" "wreserve ?ok 80 p3 = (True, p4)"
      "WPACKET_get_length p4 = Some len" "start = curr p4 - len" "r1 = r" "s1 = s2"
      "rec = \<lparr>rec_version = record_version s, rr_type = 23, rr_data = take len (drop start (wdata p4)), rr_read = False\<rparr>"
    using e t by (auto simp: begin_record_def Let_def split: prod.split_asm bool.split_asm option.split_asm if_split_asm)
  obtain q1 p q2 where y: "WPACKET_put_bytes ?ok 23 1 p0 = (True, q1)" "WPACKET_put_bytes ?ok (record_version s) 2 q1 = (True, p)"
      "WPACKET_start_sub_packet_len ?ok 2 p = (True, q2)" "wopt (f \<noteq> []) (wreserve ?ok (length f)) q2 = (True, p1)"
    using x(1) t L by (auto simp: record_start_def Let_def wseq_True wopt_True)
  note a = WPACKET_put_bytes_spec [OF p0(1) y(1)]
  note b = WPACKET_put_bytes_spec [OF conjunct1 [OF a] y(2)]
  note c = WPACKET_start_spec [OF conjunct1 [OF b] y(3)]
  have g: "wpacket_inv p1 \<and> wcontent p1 = wcontent q2 \<and> subs p1 = subs q2" using wreserve_spec [of q2] c y(4) by (cases "f = []") (auto simp: wopt_True)
  note h = contents_spec [OF conjunct1 [OF g] t L x(2)]
  note k = wreserve_spec [OF conjunct1 [OF conjunct2 [OF conjunct2 [OF h]]] x(3)]
  have w: "curr p4 = written p4" "length (wcontent p4) = written p4" "length (wcontent q2) = written q2" "written p4 \<le> SIZE_MAX"
    using k c wpacket_invD(3,4,5) [of p4] length_wcontent by force+
  have "written q2 = written p + 2" using c w(3) length_wcontent [of p] b by fastforce
  moreover have "written p4 = written q2 + length d" using k h g w by (metis length_append)
  ultimately have len: "len = length d" using x(4) k h g c w(4) by (simp add: WPACKET_get_length_def)
  moreover have "start = written q2" using x(5) w(1) len \<open>written p4 = written q2 + length d\<close> by simp
  moreover have "wcontent p4 = wcontent q2 @ d" using k h g by simp
  then have "take len (drop start (wdata p4)) = d" using len \<open>start = written q2\<close> w \<open>written p4 = written q2 + length d\<close>
    by (metis append_eq_conv_conj drop_take wcontent_def diff_add_inverse)
  ultimately show ?thesis using x(6-8) y(3) a b c g h k p0 by (intro exI [of _ p] exI [of _ q2]) simp
qed

lemma finish_spec:
  assumes "subs p = [new_sub]" "wpacket_inv p" "WPACKET_finish ok p = (True, p1)"
  shows "wdata p1 = wdata p \<and> written p1 = written p"
  using assms wpacket_invD(2) [OF assms(2)] by (auto simp: WPACKET_finish_def wpacket_intern_close_def new_sub_def Let_def)

text \<open>The encrypted data in the place of the contents \<open>d\<close> of the record, with the octets it has more.\<close>

lemma length_after_start:
  assumes p: "wpacket_inv p" "WPACKET_start_sub_packet_len ok 2 p = (True, p1)" and q: "wpacket_inv p4" "subs p4 = subs p1" "wcontent p4 = wcontent p1 @ d"
  shows "WPACKET_get_length p4 = Some (length d)" "written p4 = written p1 + length d" "written p1 = written p + 2" "wpacket_inv p1"
proof -
  note S = WPACKET_start_spec [OF p]
  then show i1: "wpacket_inv p1" by simp
  have l: "length (wcontent p4) = written p4" "length (wcontent p1) = written p1" "length (wcontent p) = written p" "written p4 \<le> SIZE_MAX"
    using length_wcontent q(1) i1 p(1) wpacket_invD(4,5) [OF q(1)] by force+
  show w: "written p4 = written p1 + length d" "written p1 = written p + 2" using S l q(3) by (auto dest!: arg_cong [of _ _ length])
  then show "WPACKET_get_length p4 = Some (length d)" using S q(2) l(4) by (simp add: WPACKET_get_length_def)
qed

lemma record_stored:
  assumes i1: "wpacket_inv p1" and q: "wpacket_inv p4" "subs p4 = subs p1" "wcontent p4 = wcontent p1 @ d"
    and n: "length d \<le> length data" "data \<noteq> []" "wopt (length d < length data) (wallocate ok (length data - length d)) p4 = (True, q1)"
  shows "wpacket_inv (wstore q1 (written p1) data)" "subs (wstore q1 (written p1) data) = subs p1" "written (wstore q1 (written p1) data) = written p1 + length data"
    "wcontent (wstore q1 (written p1) data) = wcontent p1 @ data"
proof -
  have l: "length (wcontent p4) = written p4" "length (wcontent p1) = written p1" using length_wcontent q(1) i1 by force+
  have a: "wpacket_inv q1 \<and> (\<exists>g. length g = length data - length d \<and> wcontent q1 = wcontent p4 @ g) \<and> subs q1 = subs p4"
    using wallocate_spec [OF q(1), of ok "length data - length d"] n(1,3) q(1) by (cases "length d < length data") (auto simp: wopt_True)
  then have len: "length (wcontent q1) = written q1" "written q1 = written p1 + length data" using length_wcontent [of q1] l q(3) n(1) by (force, force)
  then have "written p1 + length data \<le> written q1" by simp
  note W = wstore_spec [OF conjunct1 [OF a] this n(2)]
  have "take (written p1) (wdata q1) = take (written p1) (wcontent q1)" using len by (simp add: wcontent_def)
  also have "\<dots> = wcontent p1" using a q(3) l(2) by auto
  finally have tk: "take (written p1) (wdata q1) = wcontent p1" .
  show c: "wpacket_inv (wstore q1 (written p1) data)" "subs (wstore q1 (written p1) data) = subs p1" "written (wstore q1 (written p1) data) = written p1 + length data"
    using conjunct1 [OF conjunct2 [OF W]] a q(2) len(2) by (simp_all add: conjunct1 [OF W])
  have "written p1 \<le> length (wdata q1)" using wpacket_invD(8) [OF conjunct1 [OF a]] len(2) by simp
  then show "wcontent (wstore q1 (written p1) data) = wcontent p1 @ data" using conjunct2 [OF conjunct2 [OF W]] c(3) tk by (simp add: wcontent_def take_write_at_end)
qed

text \<open>The record after encryption: its header, with the length of what is in it.\<close>

lemma end_record_spec:
  assumes p: "wpacket_inv p" "subs p = [new_sub]" "WPACKET_start_sub_packet_len (malloc_ok (rl_env L)) 2 p = (True, p1)" "wcontent p = c @ h"
    and q: "wpacket_inv p4" "subs p4 = subs p1" "wcontent p4 = wcontent p1 @ d" and d: "d \<noteq> []"
    and e: "end_record L 0 (length c) (p4, written p1, rec) r s = (Some (x, b), r1, s1)"
  shows "x = h @ be_bytes 2 (length (rr_data rec)) @ rr_data rec \<and> length (rr_data rec) < 65536 \<and> r1 = r \<and> s1 = s"
proof -
  let ?ok = "malloc_ok (rl_env L)" and ?n = "length (rr_data rec)"
  note G = length_after_start [OF p(1,3) q]
  obtain q1 q3 where x: "length d \<le> ?n" "wopt (length d < ?n) (wallocate ?ok (?n - length d)) p4 = (True, q1)"
      "wseq (WPACKET_close ?ok) (WPACKET_finish ?ok) (wstore q1 (written p1) (rr_data rec)) = (True, q3)"
      "x = take (written p1 + ?n - length c) (drop (length c) (wdata q3))" "r1 = r" "s1 = s"
    using e G(1) by (auto simp: end_record_def Let_def split: prod.split_asm bool.split_asm if_split_asm)
  have ne: "rr_data rec \<noteq> []" using x(1) d by auto
  note R = record_stored [OF G(4) q x(1) ne x(2)]
  obtain q4 where cl: "WPACKET_close ?ok (wstore q1 (written p1) (rr_data rec)) = (True, q4)" "WPACKET_finish ?ok q4 = (True, q3)" using x(3) by (auto simp: wseq_True)
  note C = WPACKET_start_close [OF p(1) _ p(3) R(1,4,2) cl(1)]
  have f: "fits_prefix 2 (rr_data rec)" "wpacket_inv q4" "wcontent q4 = wcontent p @ put_prefixed 2 (rr_data rec)" "subs q4 = [new_sub]" using C p(2) by simp_all
  note F = finish_spec [OF f(4,2) cl(2)]
  have "take (written q4) (wdata q3) = c @ h @ be_bytes 2 ?n @ rr_data rec" using F f(3) p(4) by (simp add: wcontent_def put_prefixed_def)
  moreover have "written q4 = written p1 + ?n" using length_wcontent [OF f(2)] f(3) length_wcontent [OF p(1)] G(3) by (simp add: put_prefixed_def)
  ultimately have "x = h @ be_bytes 2 ?n @ rr_data rec" using x(4) by (metis append_eq_conv_conj drop_take)
  then show ?thesis using f(1) x(5,6) by (simp add: fits_prefix_def)
qed

text \<open>One fragment of a handshake as a record of TLS 1.3.\<close>

definition seals13 :: "'w rec_lib \<Rightarrow> 'w rlayer \<Rightarrow> SSL \<Rightarrow> bool" where
  "seals13 L r s \<longleftrightarrow> SSL_IS_TLS13 s \<and> enc_write_ctx (rl_world r) \<and> enc_write_state (statem s) \<noteq> ENC_WRITE_STATE_WRITE_PLAIN_ALERTS \<and>
     (\<forall>n. write_hash (rl_world r) \<noteq> Some (Some n)) \<and> rl_compress L = None \<and> (\<forall>n \<in> set (wb_lens (rl_world r)). n \<le> SIZE_MAX)"

lemma seal_one:
  assumes s: "seals13 L r s" and e: "seal_records L SSL3_RT_HANDSHAKE [f] r s = (Some [x], r1, s1)"
  shows "\<exists>rec1 pad. tls13_record L True \<lparr>rec_version = record_version s, rr_type = 23, rr_data = f @ 22 # replicate pad 0, rr_read = False\<rparr>
      (r\<lparr>empty_fragment_done := True\<rparr>) s = (True, rec1, r1, s1) \<and>
    pad = record_padding L SSL3_RT_HANDSHAKE (length f + 1) r \<and> record_version s < 65536 \<and>
    x = 23 # be_bytes 2 (record_version s) @ be_bytes 2 (length (rr_data rec1)) @ rr_data rec1 \<and> length (rr_data rec1) < 65536"
proof -
  let ?r = "r\<lparr>empty_fragment_done := True\<rparr>" and ?a = "payload_align (rl_wbuf_addr L)" and ?ok = "malloc_ok (rl_env L)"
  have h: "(case write_hash (rl_world r) of Some (Some n) \<Rightarrow> Some n | _ \<Rightarrow> None) = None" using s by (auto simp: seals13_def split: option.split)
  have ti: "type_inside 22 ?r s" "SSL_TREAT_AS_TLS13 s" using s by (simp_all add: seals13_def type_inside_def SSL_TREAT_AS_TLS13_def)
  obtain outs where w: "write_records L 22 0 ?a ?a (map (\<lambda>n. replicate n 0) (take 1 (wb_lens (rl_world r)))) [f] ?r s = (Some outs, r1, s1)" "map fst outs = [x]"
    using e s h by (auto simp: seal_records_def Let_def seals13_def split: prod.split_asm)
  obtain b where b: "outs = [(x, b)]" using w(2) by (cases outs) auto
  obtain n ns where n: "wb_lens (rl_world r) = n # ns" using w b by (cases "wb_lens (rl_world r)") (auto simp: write_records_def Let_def encrypt_records_def ssl3_enc_enc_def tls13_enc_def split: prod.split_asm if_split_asm)
  obtain p0 where p0: "wseq (WPACKET_init_static_len ?ok (replicate n 0) 0) (wallocate ?ok ?a) (raw_packet 0) = (True, p0)"
    using w(1) n b by (auto simp: write_records_def Let_def split: prod.split_asm option.split_asm bool.split_asm)
  have n1: "length (replicate n (0 :: u8)) \<le> SIZE_MAX" using s n by (simp add: seals13_def)
  note P = init_packet_spec [OF p0 n1]
  obtain p4 start rec r2 s2 where br: "begin_record L 22 0 0 f p0 ?r s = (Some (p4, start, rec), r2, s2)"
    using w(1) n b p0 ti by (auto simp: write_records_def Let_def split: prod.split_asm option.split_asm)
  have P2: "wpacket_inv p0" "subs p0 = [new_sub]" "length (wcontent p0) = ?a" "rl_compress L = None" using P s by (simp_all add: seals13_def)
  obtain p p1 where B: "r2 = ?r" "s2 = s" "start = written p1" "wpacket_inv p" "WPACKET_start_sub_packet_len ?ok 2 p = (True, p1)"
      "wcontent p = wcontent p0 @ 23 # be_bytes 2 (record_version s)" "subs p = [new_sub]" "wpacket_inv p4" "subs p4 = subs p1"
      "wcontent p4 = wcontent p1 @ rr_data rec" "record_version s < 65536"
      "rec = \<lparr>rec_version = record_version s, rr_type = 23, rr_data = f @ word_of_nat 22 # replicate (record_padding L 22 (length f + 1) ?r) 0, rr_read = False\<rparr>"
    using begin_record_spec [OF P2(1,2) ti(1) P2(4) br] by blast
  have E: "encrypt_records L 0 [rec] ?r s = (case tls13_record L True rec ?r s of (ok, rec1, r1, s1) \<Rightarrow> (ok, [rec1], r1, if ok \<or> ossl_statem_in_error s1 then s1 else fatal_internal s1))"
    using s by (auto simp: encrypt_records_def ssl3_enc_enc_def tls13_enc_def seals13_def split: prod.split)
  obtain rec1 r3 s3' where t: "tls13_record L True rec ?r s = (True, rec1, r3, s3')" "end_record L 0 ?a (p4, start, rec1) r3 s3' = (Some (x, b), r1, s1)"
    using w(1) n b p0 ti br B(1,2) E by (auto simp: write_records_def Let_def split: prod.split_asm option.split_asm if_split_asm)
  have ne: "rr_data rec \<noteq> []" using B(12) by simp
  have "end_record L 0 (length (wcontent p0)) (p4, written p1, rec1) r3 s3' = (Some (x, b), r1, s1)" using t(2) B(3) P2(3) by simp
  note F = end_record_spec [OF B(4,7,5,6,8,9,10) ne this]
  have pad: "record_padding L 22 (length f + 1) ?r = record_padding L 22 (length f + 1) r" by (simp add: record_padding_def ssl_get_max_send_fragment_def)
  show ?thesis using F t(1) B(11,12) pad by (intro exI [of _ rec1]) simp
qed

section \<open>Room for a record\<close>

lemma wreserve_room:
  assumes "wpacket_inv p" "subs p \<noteq> []" "0 < k" "k \<le> wspace p"
  shows "\<exists>p1. wreserve ok k p = (True, p1) \<and> wspace p1 = wspace p"
proof -
  obtain a p1 where r: "WPACKET_reserve_bytes ok k p = (True, a, p1)" "p1\<lparr>written := written p1 + k, curr := curr p1 + k\<rparr> = p\<lparr>written := written p + k, curr := curr p + k\<rparr>"
    using allocate_room [OF assms, of ok] by (auto simp: WPACKET_allocate_bytes_def split: prod.split_asm bool.split_asm)
  have "wbuf p1 = wbuf p" "maxsize p1 = maxsize p" "written p1 = written p"
    using arg_cong [OF r(2), of wbuf] arg_cong [OF r(2), of maxsize] arg_cong [OF r(2), of written] by simp_all
  then show ?thesis using r(1) by (simp add: wreserve_def wspace_def wdata_def)
qed

lemma wallocate_room:
  assumes "wpacket_inv p" "subs p \<noteq> []" "0 < k" "k \<le> wspace p"
  shows "\<exists>p1. wallocate ok k p = (True, p1) \<and> wspace p1 = wspace p - k"
  using allocate_room [OF assms, of ok] by (auto simp: wallocate_def wspace_def wdata_def)

lemma memset_succeeds: "wpt.succeeds (WPACKET_memset mem_always ch n) n"
proof -
  have "WPACKET_memset mem_always ch n = WPACKET_memcpy mem_always (replicate n ch)" by (simp add: fun_eq_iff WPACKET_memset_def WPACKET_memcpy_def)
  then show ?thesis using memcpy_succeeds [of "replicate n ch"] by simp
qed

lemma record_start_room:
  assumes p: "wpacket_inv p" "subs p \<noteq> []" and t: "type_inside ty r s" and L: "rl_compress L = None" "malloc_ok (rl_env L) = mem_always" "record_version s < 65536"
    and k: "5 + length f \<le> wspace p"
  shows "\<exists>p1. record_start L ty 0 f p r s = (True, p1) \<and> wspace p1 = wspace p - 5 \<and> wpacket_inv p1 \<and> subs p1 \<noteq> []"
proof -
  have v: "record_version s < 256 ^ 2" using L(3) by simp
  have k1: "1 \<le> wspace p" using k by simp
  obtain p1 where a: "WPACKET_put_bytes mem_always 23 1 p = (True, p1)" "wspace p1 = wspace p - 1"
    by (rule wpt.succeedsD [OF put_bytes_succeeds [of 23 1] p k1]) simp_all
  note A = WPACKET_put_bytes_spec [OF p(1) a(1)]
  have i1: "wpacket_inv p1" "subs p1 \<noteq> []" "2 \<le> wspace p1" using A p(2) a(2) k by simp_all
  obtain p2 where b: "WPACKET_put_bytes mem_always (record_version s) 2 p1 = (True, p2)" "wspace p2 = wspace p1 - 2"
    by (rule wpt.succeedsD [OF put_bytes_succeeds [OF v] i1]) simp_all
  note B = WPACKET_put_bytes_spec [OF i1(1) b(1)]
  have i2: "wpacket_inv p2" "subs p2 \<noteq> []" "0 < (2 :: nat)" "2 \<le> wspace p2" using B i1(2) a(2) b(2) k by simp_all
  obtain p3 where c: "WPACKET_start_sub_packet_len mem_always 2 p2 = (True, p3)" "wspace p3 = wspace p2 - 2" "subs p3 \<noteq> []" using start_room [OF i2] by blast
  have i3: "wpacket_inv p3" "length f \<le> wspace p3" using WPACKET_start_spec [OF i2(1) c(1)] a(2) b(2) c(2) k by simp_all
  have "\<exists>p4. wopt (f \<noteq> []) (wreserve mem_always (length f)) p3 = (True, p4) \<and> wspace p4 = wspace p3 \<and> wpacket_inv p4 \<and> subs p4 = subs p3"
    using wreserve_room [OF i3(1) c(3) _ i3(2), of mem_always] wreserve_spec [OF i3(1)] i3(1) by (cases "f = []") (auto simp: wopt_def)
  then obtain p4 where d: "wopt (f \<noteq> []) (wreserve mem_always (length f)) p3 = (True, p4)" "wspace p4 = wspace p3" "wpacket_inv p4" "subs p4 = subs p3" by blast
  have "record_start L ty 0 f p r s = (True, p4)" using a(1) b(1) c(1) d(1) t L by (auto simp: record_start_def Let_def wseq_True wopt_True)
  then show ?thesis using d a(2) b(2) c(2,3) by simp
qed

lemma record_contents_room:
  assumes p: "wpacket_inv p" "subs p \<noteq> []" and t: "type_inside ty r s" "ty < 256" and L: "rl_compress L = None" "malloc_ok (rl_env L) = mem_always"
    and k: "length f + 1 + record_padding L ty (length f + 1) r \<le> wspace p"
  shows "\<exists>d p1. record_contents L ty f p r s = (Some d, p1, s) \<and> wspace p1 = wspace p - (length f + 1 + record_padding L ty (length f + 1) r)"
proof -
  let ?pad = "record_padding L ty (length f + 1) r"
  have v: "ty < 256 ^ 1" using t(2) by simp
  have k0: "length f \<le> wspace p" using k by simp
  obtain p1 where a: "WPACKET_memcpy mem_always f p = (True, p1)" "wspace p1 = wspace p - length f" by (rule wpt.succeedsD [OF memcpy_succeeds p k0])
  note A = WPACKET_memcpy_spec [OF p(1) a(1)]
  have i1: "wpacket_inv p1" "subs p1 \<noteq> []" "1 \<le> wspace p1" using A p(2) a(2) k by simp_all
  obtain p2 where b: "WPACKET_put_bytes mem_always ty 1 p1 = (True, p2)" "wspace p2 = wspace p1 - 1"
    by (rule wpt.succeedsD [OF put_bytes_succeeds [OF v] i1]) simp_all
  note B = WPACKET_put_bytes_spec [OF i1(1) b(1)]
  have i2: "wpacket_inv p2" "subs p2 \<noteq> []" "?pad \<le> wspace p2" using B i1(2) a(2) b(2) k by simp_all
  obtain p3 where c: "WPACKET_memset mem_always 0 ?pad p2 = (True, p3)" "wspace p3 = wspace p2 - ?pad" by (rule wpt.succeedsD [OF memset_succeeds i2])
  have "\<exists>p4. wopt (0 < ?pad) (WPACKET_memset mem_always 0 ?pad) p2 = (True, p4) \<and> wspace p4 = wspace p2 - ?pad" using c by (cases "0 < ?pad") (auto simp: wopt_def)
  then obtain p4 where d: "wopt (0 < ?pad) (WPACKET_memset mem_always 0 ?pad) p2 = (True, p4)" "wspace p4 = wspace p2 - ?pad" by blast
  have w: "wseq (WPACKET_put_bytes mem_always ty 1) (wopt (0 < ?pad) (WPACKET_memset mem_always 0 ?pad)) p1 = (True, p4)" using b(1) d(1) by (auto simp: wseq_True)
  have "wspace p4 = wspace p - (length f + 1 + ?pad)" using a(2) b(2) d(2) by simp
  then show ?thesis using a(1) w t(1) L by (simp add: record_contents_def Let_def)
qed

lemma get_length_subs: "subs p \<noteq> [] \<Longrightarrow> \<exists>n. WPACKET_get_length p = Some n"
  by (cases "subs p") (simp_all add: WPACKET_get_length_def)

lemma begin_record_room:
  assumes p: "wpacket_inv p" "subs p \<noteq> []" and t: "type_inside ty r s" "ty < 256" and L: "rl_compress L = None" "malloc_ok (rl_env L) = mem_always" "record_version s < 65536"
    and k: "5 + (length f + 1 + record_padding L ty (length f + 1) r) + 80 \<le> wspace p"
  shows "\<exists>p4 start rec. begin_record L ty 0 0 f p r s = (Some (p4, start, rec), r, s) \<and> wspace p4 = wspace p - (5 + (length f + 1 + record_padding L ty (length f + 1) r))"
proof -
  let ?k = "length f + 1 + record_padding L ty (length f + 1) r"
  have k5: "5 + length f \<le> wspace p" using k by simp
  obtain p1 where a: "record_start L ty 0 f p r s = (True, p1)" "wspace p1 = wspace p - 5" "wpacket_inv p1" "subs p1 \<noteq> []" using record_start_room [OF p t(1) L k5] by blast
  have k1: "?k \<le> wspace p1" using k a(2) by simp
  obtain d p2 where b: "record_contents L ty f p1 r s = (Some d, p2, s)" "wspace p2 = wspace p1 - ?k" using record_contents_room [OF a(3,4) t L(1,2) k1] by blast
  note B = contents_spec [OF a(3) t(1) L(1) b(1)]
  have i2: "wpacket_inv p2" "subs p2 \<noteq> []" "0 < (80 :: nat)" "80 \<le> wspace p2" using B a(2,4) b(2) k by simp_all
  obtain p3 where c: "wreserve mem_always 80 p2 = (True, p3)" "wspace p3 = wspace p2" using wreserve_room [OF i2] by blast
  obtain len where "WPACKET_get_length p3 = Some len" using get_length_subs [of p3] wreserve_spec [OF i2(1) c(1)] i2(2) by auto
  then show ?thesis using a(1,2) b c L(2) by (simp add: begin_record_def Let_def)
qed

lemma finish_room: "wpacket_inv p \<Longrightarrow> subs p = [new_sub] \<Longrightarrow> \<exists>p1. WPACKET_finish ok p = (True, p1)"
  using wpacket_invD(2) [of p] by (auto simp: WPACKET_finish_def wpacket_intern_close_def new_sub_def Let_def)

lemma end_record_room:
  assumes p: "wpacket_inv p" "subs p = [new_sub]" "WPACKET_start_sub_packet_len mem_always 2 p = (True, p1)"
    and q: "wpacket_inv p4" "subs p4 = subs p1" "wcontent p4 = wcontent p1 @ d" and L: "malloc_ok (rl_env L) = mem_always"
    and n: "length d < length (rr_data rec)" "length (rr_data rec) \<le> length d + 80" "length (rr_data rec) < 65536" "length (rr_data rec) - length d \<le> wspace p4"
  shows "\<exists>x b. end_record L 0 off (p4, written p1, rec) r s = (Some (x, b), r, s)"
proof -
  let ?n = "length (rr_data rec)" and ?q2 = "\<lambda>q1. wstore q1 (written p1) (rr_data rec)"
  note G = length_after_start [OF p(1,3) q(1-3)]
  have i: "subs p4 \<noteq> []" "0 < ?n - length d" "rr_data rec \<noteq> []" "length d \<le> ?n" using WPACKET_start_spec [OF p(1,3)] q(2) n(1) by auto
  obtain q1 where a: "wallocate mem_always (?n - length d) p4 = (True, q1)" using wallocate_room [OF q(1) i(1,2) n(4)] by blast
  then have "wopt (length d < ?n) (wallocate mem_always (?n - length d)) p4 = (True, q1)" using n(1) by (simp add: wopt_def)
  note R = record_stored [OF G(4) q i(4,3) this]
  have fp: "fits_prefix 2 (rr_data rec)" using n(3) by (simp add: fits_prefix_def)
  obtain q4 where cl: "WPACKET_close mem_always (?q2 q1) = (True, q4)" using close_room [OF p(1) _ p(3) R(1,4,2) fp] by auto
  have "wpacket_inv q4" "subs q4 = [new_sub]" using WPACKET_start_close [OF p(1) _ p(3) R(1,4,2) cl] p(2) by simp_all
  then obtain q5 where "WPACKET_finish mem_always q4 = (True, q5)" using finish_room by blast
  then have "wseq (WPACKET_close mem_always) (WPACKET_finish mem_always) (?q2 q1) = (True, q5)" using cl by (auto simp: wseq_True)
  then show ?thesis using G(1) a n L by (simp add: end_record_def Let_def wopt_def)
qed

lemma put_value_loop_length: "length (fst (put_value_loop b off n v)) = length b"
  by (induction b off n v rule: put_value_loop.induct) simp_all

lemma put_bytes_static:
  assumes "WPACKET_put_bytes ok v n p = (True, p1)" "wbuf p = WStatic b"
  shows "\<exists>b1. wbuf p1 = WStatic b1 \<and> length b1 = length b"
  using assms put_value_loop_length [of b _ n v]
  by (auto simp: WPACKET_put_bytes_def WPACKET_allocate_bytes_def WPACKET_reserve_bytes_def wpacket_ensure_def put_value_def set_buf_def GETBUF_def
      split: if_split_asm prod.split_asm bool.split_asm option.split_asm) (metis fst_conv)+

text \<open>The additional data of a record is its header.\<close>

lemma record_aad_bytes:
  assumes "record_aad ok ty v n = Some aad"
  shows "aad = word_of_nat ty # be_bytes 2 v @ be_bytes 2 n"
proof -
  obtain p p1 where p: "wseq (WPACKET_init_static_len ok (replicate 5 0) 0) (wseq (WPACKET_put_bytes ok ty 1) (wseq (WPACKET_put_bytes ok v 2) (WPACKET_put_bytes ok n 2))) (raw_packet 0) = (True, p)"
      "WPACKET_finish ok p = (True, p1)" "GETBUF p1 = Some aad"
    using assms by (auto simp: record_aad_def split: prod.split_asm bool.split_asm if_split_asm)
  obtain p0 p2 p3 where q: "WPACKET_init_static_len ok (replicate 5 0) 0 (raw_packet 0) = (True, p0)" "WPACKET_put_bytes ok ty 1 p0 = (True, p2)"
      "WPACKET_put_bytes ok v 2 p2 = (True, p3)" "WPACKET_put_bytes ok n 2 p3 = (True, p)" using p(1) by (auto simp: wseq_True)
  note i = init_static_spec [OF q(1)]
  have sz: "length (replicate 5 (0 :: u8)) \<le> SIZE_MAX" by (simp add: SIZE_MAX_def)
  note a = WPACKET_put_bytes_spec [OF i(1) [OF sz] q(2)]
  note b = WPACKET_put_bytes_spec [OF conjunct1 [OF a] q(3)]
  note c = WPACKET_put_bytes_spec [OF conjunct1 [OF b] q(4)]
  have w: "wcontent p = word_of_nat ty # be_bytes 2 v @ be_bytes 2 n" using a b c i(2) [OF sz] by simp
  then have "length (wcontent p) = 5" by simp
  then have w5: "written p = 5" using c length_wcontent by metis
  obtain x where x: "wbuf p = WStatic x" "length x = 5"
    using put_bytes_static [OF q(2) i(4) [OF sz]] put_bytes_static [OF q(3)] put_bytes_static [OF q(4)] by fastforce
  have "subs p = [new_sub]" using a b c i(3) [OF sz] by simp
  then have "wbuf p1 = wbuf p" using p(2) c wpacket_invD(2) [of p] by (auto simp: WPACKET_finish_def wpacket_intern_close_def new_sub_def Let_def)
  then have "aad = x" using p(3) x by (simp add: GETBUF_def)
  then show ?thesis using w w5 x by (simp add: wcontent_def wdata_def)
qed

lemma init_static_room:
  assumes "b \<noteq> []" "length b \<le> SIZE_MAX"
  shows "\<exists>p. WPACKET_init_static_len mem_always b 0 (raw_packet 0) = (True, p) \<and> wspace p = length b"
  using assms by (auto simp: WPACKET_init_static_len_def wpacket_intern_init_len_def raw_packet_def maxmaxsize_def wspace_def wdata_def Let_def)

lemma record_aad_total:
  assumes "ty < 256" "v < 65536" "n < 65536"
  shows "\<exists>aad. record_aad mem_always ty v n = Some aad"
proof -
  have sz: "length (replicate 5 (0 :: u8)) \<le> SIZE_MAX" "replicate 5 (0 :: u8) \<noteq> []" by (simp_all add: SIZE_MAX_def)
  obtain p where p: "WPACKET_init_static_len mem_always (replicate 5 0) 0 (raw_packet 0) = (True, p)" "wspace p = 5" using init_static_room [OF sz(2,1)] by auto
  note i = init_static_spec [OF p(1) sz(1)]
  have sp: "subs p \<noteq> []" "1 + (2 + 2) \<le> wspace p" using i(3) p(2) by simp_all
  have S: "wpt.succeeds (wseq (WPACKET_put_bytes mem_always ty 1) (wseq (WPACKET_put_bytes mem_always v 2) (WPACKET_put_bytes mem_always n 2))) (1 + (2 + 2))"
    by (intro wpt.succeeds_seq [OF put_bytes_appends put_bytes_succeeds] put_bytes_succeeds) (use assms in simp_all)
  obtain p1 where w: "wseq (WPACKET_put_bytes mem_always ty 1) (wseq (WPACKET_put_bytes mem_always v 2) (WPACKET_put_bytes mem_always n 2)) p = (True, p1)"
    by (rule wpt.succeedsD [OF S i(1) sp])
  from w obtain p2 p3 where q: "WPACKET_put_bytes mem_always ty 1 p = (True, p2)" "WPACKET_put_bytes mem_always v 2 p2 = (True, p3)" "WPACKET_put_bytes mem_always n 2 p3 = (True, p1)"
    by (auto simp: wseq_True)
  note a = WPACKET_put_bytes_spec [OF i(1) q(1)]
  note b = WPACKET_put_bytes_spec [OF conjunct1 [OF a] q(2)]
  note c = WPACKET_put_bytes_spec [OF conjunct1 [OF b] q(3)]
  have "wcontent p1 = word_of_nat ty # be_bytes 2 v @ be_bytes 2 n" using a b c i(2) by simp
  then have "length (wcontent p1) = 5" by simp
  then have w5: "written p1 = 5" using c length_wcontent by metis
  obtain x where x: "wbuf p1 = WStatic x"
    using put_bytes_static [OF q(1) i(4)] put_bytes_static [OF q(2)] put_bytes_static [OF q(3)] by fastforce
  have sb: "subs p1 = [new_sub]" "\<not> endfirst p1" using a b c i(3) wpacket_invD(2) [of p1] by simp_all
  then obtain p4 where f: "WPACKET_finish mem_always p1 = (True, p4)" "wbuf p4 = wbuf p1" by (auto simp: WPACKET_finish_def wpacket_intern_close_def new_sub_def Let_def)
  have "wseq (WPACKET_init_static_len mem_always (replicate 5 0) 0) (wseq (WPACKET_put_bytes mem_always ty 1) (wseq (WPACKET_put_bytes mem_always v 2) (WPACKET_put_bytes mem_always n 2)))
      (raw_packet 0) = (True, p1)" using p(1) w unfolding wseq_True by blast
  then show ?thesis using f w5 x by (simp add: record_aad_def WPACKET_get_total_written_def GETBUF_def)
qed

text \<open>Encryption works and memory is there; memory that was allocated is aligned.\<close>

definition seals_always :: "'w rec_lib \<Rightarrow> bool" where
  "seals_always L \<longleftrightarrow> (\<forall>key iv aad n pt. \<exists>ct tag. rl_seal L key iv aad n pt = Some (ct, Some tag) \<and> length ct = length pt \<and> length tag = n) \<and>
     (\<forall>n iv. rl_cipher_init L True n iv) \<and> (\<forall>n. rl_ccm_tag L n) \<and> malloc_ok (rl_env L) = mem_always \<and> 8 dvd rl_wbuf_addr L"

lemma tls13_seals:
  assumes L: "seals_always L" and c: "enc_write_ctx (rl_world r)" "record_cipher L r s = Some c" "tag_length (rl_algorithm_enc L c) = Some taglen" "8 \<le> rl_iv_length L True r"
      "ssl3_record_sequence_update (write_sequence (rl_world r)) \<noteq> replicate 8 0"
    and x: "rr_type rec \<noteq> SSL3_RT_ALERT" "rr_type rec < 256" "rec_version rec < 65536" "length (rr_data rec) + taglen < 65536"
  shows "\<exists>rec1 r1. tls13_record L True rec r s = (True, rec1, r1, s) \<and> length (rr_data rec1) = length (rr_data rec) + taglen"
proof -
  let ?iv = "record_nonce (nat (rl_iv_length L True r)) (write_iv (rl_world r)) (write_sequence (rl_world r))"
  have M: "malloc_ok (rl_env L) = mem_always" using L by (simp add: seals_always_def)
  obtain aad where a: "record_aad mem_always (rr_type rec) (rec_version rec) (length (rr_data rec) + taglen) = Some aad" using record_aad_total [OF x(2-4)] by blast
  obtain ct tag where t: "rl_seal L (write_key (rl_world r)) ?iv aad taglen (rr_data rec) = Some (ct, Some tag)" "length ct = length (rr_data rec)" "length tag = taglen"
    using L unfolding seals_always_def by blast
  show ?thesis using L c x(1) a t M by (auto simp: tls13_record_def aead_record_def Let_def seals_always_def)
qed

text \<open>The write buffer as it is set up.\<close>

lemma write_buffer_set_up:
  assumes "ssl3_setup_write_buffer L 1 r0 s0 = (True, r, s)" "wrbuf r0 \<noteq> [] \<longrightarrow> wb_lens (rl_world r0) \<noteq> []"
  shows "\<exists>ns. wb_lens (rl_world r) = write_buffer_len L r0 s0 # ns" "ssl_get_max_send_fragment r = ssl_get_max_send_fragment r0"
proof -
  let ?len = "write_buffer_len L r0 s0"
  have "(\<exists>ns. wb_lens (rl_world r) = ?len # ns) \<and> ssl_get_max_send_fragment r = ssl_get_max_send_fragment r0"
  proof (cases "wrbuf r0 \<noteq> [] \<and> wb_lens (rl_world r0) ! 0 = ?len")
    case True
    then obtain n ns where "wb_lens (rl_world r0) = n # ns" using assms(2) by (cases "wb_lens (rl_world r0)") auto
    then show ?thesis using True assms(1) by (auto simp: ssl3_setup_write_buffer_def ssl_get_max_send_fragment_def)
  next
    case False
    then show ?thesis using assms(1)
      by (auto simp: ssl3_setup_write_buffer_def ssl_get_max_send_fragment_def Let_def split: prod.split_asm bool.split_asm if_split_asm)
  qed
  then show "\<exists>ns. wb_lens (rl_world r) = ?len # ns" "ssl_get_max_send_fragment r = ssl_get_max_send_fragment r0" by blast+
qed

lemma padding_le: "rlen + record_padding L ty rlen r \<le> max rlen (ssl_get_max_send_fragment r)"
  by (auto simp: record_padding_def Let_def)

lemma align_3: "8 dvd addr \<Longrightarrow> payload_align addr = 3"
  by (auto simp: payload_align_def dvd_def)

lemma seal_room:
  assumes s: "seals13 L r s" "record_version s < 65536" and L: "seals_always L"
    and c: "record_cipher L r s = Some c" "tag_length (rl_algorithm_enc L c) = Some taglen" "\<forall>q. 8 \<le> rl_iv_length L True q"
      "ssl3_record_sequence_update (write_sequence (rl_world r)) \<noteq> replicate 8 0"
    and f: "length f \<le> ssl_get_max_send_fragment r" "ssl_get_max_send_fragment r \<le> 16384"
    and b: "wb_lens (rl_world r) = n # ns" "ssl_get_max_send_fragment r + 89 \<le> n"
  shows "\<exists>x r1. seal_records L SSL3_RT_HANDSHAKE [f] r s = (Some [x], r1, s)"
proof -
  let ?r = "r\<lparr>empty_fragment_done := True\<rparr>" and ?k = "length f + 1 + record_padding L 22 (length f + 1) (r\<lparr>empty_fragment_done := True\<rparr>)"
  have M: "malloc_ok (rl_env L) = mem_always" "payload_align (rl_wbuf_addr L) = 3" using L align_3 by (auto simp: seals_always_def)
  have h: "(case write_hash (rl_world r) of Some (Some n) \<Rightarrow> Some n | _ \<Rightarrow> None) = None" using s(1) by (auto simp: seals13_def split: option.split)
  have ti: "type_inside 22 ?r s" "SSL_TREAT_AS_TLS13 s" "rl_compress L = None" using s(1) by (simp_all add: seals13_def type_inside_def SSL_TREAT_AS_TLS13_def)
  have mx: "ssl_get_max_send_fragment ?r = ssl_get_max_send_fragment r" by (simp add: ssl_get_max_send_fragment_def)
  have k: "?k \<le> ssl_get_max_send_fragment r + 1" using padding_le [of "length f + 1" L 22 ?r] f(1) mx by simp
  have sz: "length (replicate n (0 :: u8)) \<le> SIZE_MAX" "replicate n (0 :: u8) \<noteq> []" using s(1) b by (auto simp: seals13_def)
  obtain q0 where q0: "WPACKET_init_static_len mem_always (replicate n 0) 0 (raw_packet 0) = (True, q0)" "wspace q0 = n" using init_static_room [OF sz(2,1)] by auto
  note i = init_static_spec [OF q0(1) sz(1)]
  have j: "subs q0 \<noteq> []" "0 < (3 :: nat)" "3 \<le> wspace q0" using i(3) q0(2) b(2) by simp_all
  obtain p0 where p0: "wallocate mem_always 3 q0 = (True, p0)" "wspace p0 = n - 3" using wallocate_room [OF i(1) j] q0(2) by auto
  then have P0: "wseq (WPACKET_init_static_len mem_always (replicate n 0) 0) (wallocate mem_always 3) (raw_packet 0) = (True, p0)" using q0(1) unfolding wseq_True by blast
  note P = init_packet_spec [OF P0 sz(1)]
  have sb: "wpacket_inv p0" "subs p0 = [new_sub]" "subs p0 \<noteq> []" "(22 :: nat) < 256" using P by simp_all
  have sp: "5 + ?k + 80 \<le> wspace p0" using p0(2) b(2) k by simp
  obtain p4 start rec where br: "begin_record L 22 0 0 f p0 ?r s = (Some (p4, start, rec), ?r, s)" "wspace p4 = n - 3 - (5 + ?k)"
    using begin_record_room [OF sb(1,3) ti(1) sb(4) ti(3) M(1) s(2) sp] p0(2) by auto
  obtain p p1 where B: "start = written p1" "wpacket_inv p" "WPACKET_start_sub_packet_len mem_always 2 p = (True, p1)" "subs p = [new_sub]" "wpacket_inv p4" "subs p4 = subs p1"
      "wcontent p4 = wcontent p1 @ rr_data rec" "rec_version rec = record_version s" "rr_type rec = 23" "length (rr_data rec) = ?k"
    using begin_record_spec [OF sb(1,2) ti(1,3) br(1)] M(1) by auto
  have t8: "taglen = 8 \<or> taglen = 16" using c(2) by (auto simp: tag_length_def split: if_split_asm)
  have "record_cipher L ?r s = record_cipher L r s" by (simp add: record_cipher_def)
  then have rc: "record_cipher L ?r s = Some c" "enc_write_ctx (rl_world ?r)" "ssl3_record_sequence_update (write_sequence (rl_world ?r)) \<noteq> replicate 8 0"
    using c(1,4) s(1) by (simp_all add: seals13_def)
  obtain rec1 r1 where t: "tls13_record L True rec ?r s = (True, rec1, r1, s)" "length (rr_data rec1) = ?k + taglen"
    using tls13_seals [OF L rc(2,1) c(2) spec [OF c(3)] rc(3), of rec] B(8-10) s(2) k f(2) t8 by auto
  have "\<exists>x b. end_record L 0 3 (p4, written p1, rec1) r1 s = (Some (x, b), r1, s)"
    using end_record_room [OF B(2,4,3,5,6,7) M(1), of rec1] t(2) B(10) t8 k f(2) br(2) b(2) by auto
  then obtain x b where e: "end_record L 0 3 (p4, start, rec1) r1 s = (Some (x, b), r1, s)" using B(1) by auto
  have E: "encrypt_records L 0 [rec] ?r s = (True, [rec1], r1, s)" using s(1) t(1) by (simp add: encrypt_records_def ssl3_enc_enc_def tls13_enc_def seals13_def)
  have "write_records L 22 0 3 3 [replicate n 0] [f] ?r s = (Some [(x, b)], r1, s)"
    using P0 M(1) br(1) E e ti(2) by (simp add: write_records_def Let_def)
  then show ?thesis using h s(1) b(1) M(2) by (simp add: seal_records_def Let_def seals13_def)
qed

text \<open>
  C15. The write buffer is large enough: with the buffer \<open>ssl3_setup_write_buffer\<close> makes, every fragment up to the limit of the connection becomes a record of TLS 1.3,
  whatever its padding, when the cipher does not fail and the sequence number does not wrap.
\<close>

theorem sealing_succeeds:
  assumes "ssl3_setup_write_buffer L 1 r0 s0 = (True, r, s)" "wrbuf r0 \<noteq> [] \<longrightarrow> wb_lens (rl_world r0) \<noteq> []"
    "seals13 L r s" "record_version s < 65536" "seals_always L" "record_cipher L r s = Some c" "tag_length (rl_algorithm_enc L c) \<noteq> None" "\<forall>q. 8 \<le> rl_iv_length L True q"
    "ssl3_record_sequence_update (write_sequence (rl_world r)) \<noteq> replicate 8 0" "length f \<le> ssl_get_max_send_fragment r0" "ssl_get_max_send_fragment r0 \<le> 16384"
  shows "\<exists>x r1. seal_records L SSL3_RT_HANDSHAKE [f] r s = (Some [x], r1, s)"
proof -
  note W = write_buffer_set_up [OF assms(1,2)]
  obtain ns taglen where b: "wb_lens (rl_world r) = write_buffer_len L r0 s0 # ns" "tag_length (rl_algorithm_enc L c) = Some taglen" using W(1) assms(7) by auto
  have n: "ssl_get_max_send_fragment r + 89 \<le> write_buffer_len L r0 s0" using W(2) by (simp add: write_buffer_len_def)
  show ?thesis by (rule seal_room [OF assms(3-6) b(2) assms(8,9) _ _ b(1) n]) (use assms(10,11) W(2) in simp_all)
qed

lemma sealed_state:
  assumes s: "seals13 L r s" and e: "seal_records L SSL3_RT_HANDSHAKE [f] r s = (Some [x], r1, s1)"
  shows "r1 = set_sequence True (ssl3_record_sequence_update (write_sequence (rl_world r))) (r\<lparr>empty_fragment_done := True\<rparr>)"
proof -
  obtain rec rec1 where "tls13_record L True rec (r\<lparr>empty_fragment_done := True\<rparr>) s = (True, rec1, r1, s1)" "rr_type rec = 23" using seal_one [OF s e] by auto
  then show ?thesis using s unfolding tls13_record_def aead_record_def Let_def seals13_def by (auto split: option.split_asm if_split_asm prod.split_asm)
qed

section \<open>A sender and a receiver\<close>

text \<open>A checksum for a tag, and a network that gives four octets at a time.\<close>

definition tag0 :: "bytes \<Rightarrow> bytes \<Rightarrow> bytes \<Rightarrow> nat \<Rightarrow> bytes \<Rightarrow> bytes" where
  "tag0 key iv aad n d = replicate n (foldr (\<lambda>a b. 3 * b + a) (key @ iv @ aad @ d) 1)"

definition rec_lib0 :: "bytes rec_lib" where
  "rec_lib0 = \<lparr>rl_env = env0, rl_rbuf_addr = 0, rl_wbuf_addr = 0,
     rl_bio_read = (\<lambda>m w. let n = min 4 (min m (length w)) in (int n, take n w, drop n w)), rl_bio_eof = (\<lambda>w. w = []), rl_read_pipelined = (\<lambda>_. False),
     rl_iv_length = (\<lambda>_ _. 12), rl_algorithm_enc = (\<lambda>_. 0x1000), rl_psk_cipher = \<lparr>cipher_id = 0x1301, algorithm_mkey = 0, algorithm_auth = 0\<rparr>,
     rl_cipher_init = (\<lambda>_ _ _. True), rl_ccm_tag = (\<lambda>_. True), rl_seal = (\<lambda>key iv aad n pt. let ct = map (\<lambda>b. b XOR hd key) pt in Some (ct, Some (tag0 key iv aad n ct))),
     rl_open = (\<lambda>key iv aad ct tag. if tag = tag0 key iv aad (length tag) ct then Some (map (\<lambda>b. b XOR hd key) ct) else None),
     rl_tls1_enc = (\<lambda>_ _ recs r s. (False, recs, [], r, s)), rl_mac = (\<lambda>_ _ r s. (None, r, s)), rl_compress = None, rl_expand = None,
     rl_allow_compression = (\<lambda>_. False), rl_eivlen = (\<lambda>_. None), rl_padding_cb = None\<rparr>"

definition prot0 :: "bytes \<Rightarrow> bytes \<Rightarrow> bytes prot" where
  "prot0 buf net = \<lparr>rb_buf = buf, rb_default_len = 0, rb_offset = 3, packet = 0, packet_length = 0, read_ahead = True, is_first_record = False,
     empty_record_count = 0, cur_type = 0, cur_version = 0, cur_length = 0, read_sequence = [0, 0, 0, 0, 0, 0, 0, 255], write_sequence = [0, 0, 0, 0, 0, 0, 0, 255],
     read_iv = [1, 2, 3, 4, 5, 6, 7, 8, 9, 10, 11, 12], write_iv = [1, 2, 3, 4, 5, 6, 7, 8, 9, 10, 11, 12], read_key = [85], write_key = [85],
     enc_write_ctx = True, read_hash = None, write_hash = None, need_empty_fragments = False, block_padding = 4, wb_lens = [16584], rbio = True, network = net\<rparr>"

definition prot_layer0 :: "bytes \<Rightarrow> bytes \<Rightarrow> bytes rlayer" where
  "prot_layer0 buf net = \<lparr>rstate = SSL_ST_READ_HEADER, rbuf = True, rbuf_left = 0, rrec = [], handshake_fragment = [], alert_count = 0, wnum = 0, wrbuf = [[]],
     wpend_tot = 0, wpend_type = 0, wpend_ret = 0, wpend_buf = 0, wbio = True, alert_dispatch = False, empty_fragment_done = False, warn_alert = 0,
     fatal_alert = 0, max_send_fragment = 16384, split_send_fragment = 16384, max_fragment_len_mode = 0, max_pipelines = 0, sess_max_early_data = 0,
     psk_max_early_data = None, recv_max_early_data = 0, early_data_count = 0, enc_read_ctx = True, rl_world = prot0 buf net\<rparr>"

lemma sample_conn: "seals13 rec_lib0 (prot_layer0 b x) (at TLS_ST_OK)" "record_version (at TLS_ST_OK) = 0x303"
  by (simp_all add: seals13_def at_def ssl0_def statem0_def prot_layer0_def prot0_def rec_lib0_def
      SSL_IS_TLS13_def SSL_IS_DTLS_def record_version_def SSL_get_state_def SIZE_MAX_def)

lemma sample_lib: "seals_always rec_lib0" "record_cipher rec_lib0 (prot_layer0 b x) (at TLS_ST_OK) = Some \<lparr>cipher_id = 0x1301, algorithm_mkey = 0, algorithm_auth = 0\<rparr>"
    "tag_length (rl_algorithm_enc rec_lib0 c) = Some 16" "\<forall>q. 8 \<le> rl_iv_length rec_lib0 True q"
  by (simp_all add: seals_always_def rec_lib0_def env0_def Let_def tag0_def record_cipher_def at_def ssl0_def s30_def tag_length_def)

lemma sample_sequence: "ssl3_record_sequence_update [0, 0, 0, 0, 0, 0, 0, 255] = [0, 0, 0, 0, 0, 0, 1, 0]" "ssl3_record_sequence_update [0, 0, 0, 0, 0, 0, 1, 0] = [0, 0, 0, 0, 0, 0, 1, 1]"
    "replicate 8 (0 :: u8) = [0, 0, 0, 0, 0, 0, 0, 0]"
  by code_simp+

lemma sample_fields: "write_sequence (rl_world (prot_layer0 b x)) = [0, 0, 0, 0, 0, 0, 0, 255]" "wb_lens (rl_world (prot_layer0 b x)) = [16584]"
    "ssl_get_max_send_fragment (prot_layer0 b x) = 16384"
  by (simp_all add: prot_layer0_def prot0_def ssl_get_max_send_fragment_def)

lemma sealing_succeeds_witness:
  "\<exists>x r1. seal_records rec_lib0 SSL3_RT_HANDSHAKE [replicate 16384 7] (prot_layer0 [] []) (at TLS_ST_OK) = (Some [x], r1, at TLS_ST_OK)"
proof -
  have su: "ssl3_setup_write_buffer rec_lib0 1 (prot_layer0 [] []) (at TLS_ST_OK) = (True, prot_layer0 [] [], at TLS_ST_OK)"
    by (simp add: ssl3_setup_write_buffer_def write_buffer_len_def ssl_get_max_send_fragment_def prot_layer0_def prot0_def rec_lib0_def at_def ssl0_def has_def)
  show ?thesis using sample_conn(2) sample_fields
    by (intro sealing_succeeds [OF su _ sample_conn(1) _ sample_lib(1,2) _ sample_lib(4)]) (simp_all add: sample_lib(3) sample_sequence)
qed

end
