(* ===== verification/Protection_Properties.thy ===== *)
theory Protection_Properties
  imports Record_Sealing
begin

text \<open>
  Records from end to end: what one side makes of a fragment is what the other side takes for it, whatever pieces it arrives in, and with the
  keys of TLS 1.3 nothing else is taken for a record.
\<close>

section \<open>Reading from the network\<close>

text \<open>While there is something \<open>unread\<close>, the BIO gives a part of it, of any size up to what was asked for.\<close>

definition bio_gives :: "'w rec_lib \<Rightarrow> ('w \<Rightarrow> bytes) \<Rightarrow> bool" where
  "bio_gives L unread \<longleftrightarrow> (\<forall>m w. 0 < m \<longrightarrow> unread w \<noteq> [] \<longrightarrow>
     (\<exists>ret d w1. rl_bio_read L m w = (ret, d, w1) \<and> 0 < ret \<and> nat ret \<le> m \<and> nat ret \<le> length d \<and> unread w = take (nat ret) d @ unread w1))"

lemma read_loop_reads:
  assumes "bio_gives L unread" "rbio (rl_world r)" "n \<le> mx" "base + mx \<le> length (rb_buf (rl_world r))" "base + left \<le> length (rb_buf (rl_world r))"
    "n \<le> left + length (unread (network (rl_world r)))"
  shows "\<exists>left1 buf net s1. read_n_loop L base n mx left r s = (1, left1, upd_prot (\<lambda>w. w\<lparr>rb_buf := buf, network := net\<rparr>) r, s1) \<and> n \<le> left1 \<and>
    base + left1 \<le> length buf \<and> length buf = length (rb_buf (rl_world r)) \<and> take base buf = take base (rb_buf (rl_world r)) \<and>
    take left1 (drop base buf) @ unread net = take left (drop base (rb_buf (rl_world r))) @ unread (network (rl_world r)) \<and> same_msg s s1"
  using assms
proof (induction "n - left" arbitrary: left r s rule: less_induct)
  case less
  let ?w = "rl_world r"
  show ?case
  proof (cases "n \<le> left")
    case True
    have "upd_prot (\<lambda>w. w\<lparr>rb_buf := rb_buf ?w, network := network ?w\<rparr>) r = r" by (simp add: upd_prot_def)
    then show ?thesis using True less.prems
      by (intro exI [of _ left] exI [of _ "rb_buf ?w"] exI [of _ "network ?w"] exI [of _ s]) (simp add: read_n_loop.simps)
  next
    case False
    then have "unread (network ?w) \<noteq> []" "0 < mx - left" using less.prems by auto
    then obtain ret d nw where g: "rl_bio_read L (mx - left) (network ?w) = (ret, d, nw)" "0 < ret" "nat ret \<le> mx - left" "nat ret \<le> length d"
        "unread (network ?w) = take (nat ret) d @ unread nw" using less.prems(1) unfolding bio_gives_def by blast
    let ?b = "write_at (rb_buf ?w) (base + left) (take (nat ret) d)" and ?s = "s\<lparr>rwstate := SSL_READING\<rparr>"
    let ?r = "upd_prot (\<lambda>w. w\<lparr>network := nw, rb_buf := write_at (rb_buf w) (base + left) (take (nat ret) d)\<rparr>) r"
    have l: "length (take (nat ret) d) = nat ret" "base + left + nat ret \<le> length (rb_buf ?w)" using g(3,4) less.prems(3,4) False by simp_all
    then have lb: "length ?b = length (rb_buf ?w)" by simp
    have dec: "n - (left + nat ret) < n - left" using False g(2) by linarith
    have "read_n_loop L base n mx left r s = read_n_loop L base n mx (left + nat ret) ?r ?s" using False g(1,2) less.prems(2) by (simp add: read_n_loop.simps [of L base n mx left r s])
    moreover obtain left1 buf net s1 where I: "read_n_loop L base n mx (left + nat ret) ?r ?s = (1, left1, upd_prot (\<lambda>w. w\<lparr>rb_buf := buf, network := net\<rparr>) ?r, s1)" "n \<le> left1"
        "base + left1 \<le> length buf" "length buf = length (rb_buf (rl_world ?r))" "take base buf = take base (rb_buf (rl_world ?r))"
        "take left1 (drop base buf) @ unread net = take (left + nat ret) (drop base (rb_buf (rl_world ?r))) @ unread (network (rl_world ?r))" "same_msg ?s s1"
      using less.hyps [OF dec less.prems(1) _ less.prems(3), of ?r ?s] less.prems(2,4,6) g(5) l lb by auto
    moreover have "upd_prot (\<lambda>w. w\<lparr>rb_buf := buf, network := net\<rparr>) ?r = upd_prot (\<lambda>w. w\<lparr>rb_buf := buf, network := net\<rparr>) r" by (simp add: upd_prot_def)
    moreover have "same_msg s s1" using same_msg_trans [OF _ I(7), of s] by (simp add: same_msg_def)
    moreover have "take base ?b = take base (rb_buf ?w)" using l(2) by (simp add: take_write_at_before)
    moreover have "take (left + nat ret) (drop base ?b) = take left (drop base (rb_buf ?w)) @ take (nat ret) d"
    proof -
      have "take (base + left + nat ret) ?b = take (base + left) (rb_buf ?w) @ take (nat ret) d" using take_write_at_end [of "base + left" "rb_buf ?w" "take (nat ret) d"] l by simp
      then show ?thesis using l(2) by (simp add: take_drop add.commute add.left_commute min_def)
    qed
    ultimately show ?thesis using g(5) lb by (intro exI [of _ left1] exI [of _ buf] exI [of _ net] exI [of _ s1]) simp
  qed
qed

text \<open>The packet \<open>pkt\<close> is at the front of the read buffer, and \<open>rest\<close> is what comes after it, in the buffer and on the network.\<close>

definition rd_view :: "'w rec_lib \<Rightarrow> ('w \<Rightarrow> bytes) \<Rightarrow> bytes \<Rightarrow> bytes \<Rightarrow> 'w rlayer \<Rightarrow> bool" where
  "rd_view L unread pkt rest r \<longleftrightarrow> (let w = rl_world r; a = payload_align (rl_rbuf_addr L); k = length pkt in
     rbuf r \<and> rbio w \<and> packet w = a \<and> packet_length w = k \<and> rb_offset w = a + k \<and> a + k + rbuf_left r \<le> length (rb_buf w) \<and>
     length (rb_buf w) \<le> SIZE_MAX \<and> take k (drop a (rb_buf w)) = pkt \<and> rest = take (rbuf_left r) (drop (a + k) (rb_buf w)) @ unread (network w))"

text \<open>What reading leaves as it is.\<close>

definition rd_same :: "'w rlayer \<Rightarrow> 'w rlayer \<Rightarrow> bool" where
  "rd_same r r1 \<longleftrightarrow> (\<exists>left buf off net pk pl. r1 = upd_prot (\<lambda>w. w\<lparr>rb_buf := buf, rb_offset := off, network := net, packet := pk, packet_length := pl\<rparr>) (r\<lparr>rbuf_left := left\<rparr>))
     \<and> length (rb_buf (rl_world r1)) = length (rb_buf (rl_world r))"

lemma rd_same_trans: "rd_same r r1 \<Longrightarrow> rd_same r1 r2 \<Longrightarrow> rd_same r r2"
  unfolding rd_same_def by (elim exE conjE) (simp add: upd_prot_def, blast)

lemma view_take:
  assumes v: "rd_view L unread pkt rest r" and n: "n \<le> rbuf_left r"
  shows "rd_view L unread (pkt @ take n rest) (drop n rest)
    ((upd_prot (\<lambda>w. w\<lparr>rb_offset := payload_align (rl_rbuf_addr L) + length pkt + n, packet_length := length pkt + n\<rparr>) r)\<lparr>rbuf_left := rbuf_left r - n\<rparr>)"
proof -
  let ?w = "rl_world r" and ?a = "payload_align (rl_rbuf_addr L)" and ?k = "length pkt" and ?left = "rbuf_left r"
  define X where "X = drop (?a + ?k) (rb_buf ?w)"
  have V: "rbuf r" "rbio ?w" "packet ?w = ?a" "?a + ?k + ?left \<le> length (rb_buf ?w)"
      "length (rb_buf ?w) \<le> SIZE_MAX" "take ?k (drop ?a (rb_buf ?w)) = pkt" "rest = take ?left X @ unread (network ?w)"
    using v by (simp_all add: rd_view_def Let_def X_def)
  have lX: "?left \<le> length X" using V(4) by (simp add: X_def)
  have t: "take n rest = take n X" "length (take n X) = n" using V(7) n lX by (simp_all add: min_def)
  have d: "drop n rest = take (?left - n) (drop n X) @ unread (network ?w)" using V(7) n lX by (simp add: drop_take)
  have "drop ?k (drop ?a (rb_buf ?w)) = X" by (simp add: X_def add.commute)
  then have "take (?k + n) (drop ?a (rb_buf ?w)) = pkt @ take n X" by (simp only: take_add V(6))
  moreover have "drop (?a + (?k + n)) (rb_buf ?w) = drop n X" by (simp add: X_def add_ac)
  ultimately show ?thesis using V(1-5) t d n by (simp add: rd_view_def Let_def add.assoc)
qed

lemma read_more:
  assumes b: "bio_gives L unread" and v: "rd_view L unread pkt rest r" and n: "0 < n" "n \<le> length rest"
    and fit: "payload_align (rl_rbuf_addr L) + length pkt + n \<le> length (rb_buf (rl_world r))"
  shows "\<exists>r1 s1. read_packet L n mx r s = (1, r1, s1) \<and> rd_view L unread (pkt @ take n rest) (drop n rest) r1 \<and> rd_same r r1 \<and> same_msg s s1"
proof -
  let ?w = "rl_world r" and ?a = "payload_align (rl_rbuf_addr L)" and ?k = "length pkt" and ?left = "rbuf_left r"
  let ?take = "upd_prot (\<lambda>w. w\<lparr>rb_offset := ?a + ?k + n, packet_length := ?k + n\<rparr>)"
  have V: "rbuf r" "rbio ?w" "packet ?w = ?a" "packet_length ?w = ?k" "rb_offset ?w = ?a + ?k" "?a + ?k + ?left \<le> length (rb_buf ?w)"
      "length (rb_buf ?w) \<le> SIZE_MAX" "take ?k (drop ?a (rb_buf ?w)) = pkt" "rest = take ?left (drop (?a + ?k) (rb_buf ?w)) @ unread (network ?w)"
    using v by (simp_all add: rd_view_def Let_def)
  show ?thesis
  proof (cases "n \<le> ?left")
    case True
    let ?r1 = "(?take r)\<lparr>rbuf_left := ?left - n\<rparr>"
    have "read_packet L n mx r s = (1, ?r1, s)"
      using V(4,5) True by (simp add: read_packet_def Let_def)
    moreover have "rd_same r ?r1" unfolding rd_same_def
      by (intro conjI exI [of _ "?left - n"] exI [of _ "rb_buf ?w"] exI [of _ "?a + ?k + n"] exI [of _ "network ?w"] exI [of _ "packet ?w"] exI [of _ "?k + n"])
        (simp_all add: upd_prot_def)
    ultimately show ?thesis using view_take [OF v True] by (intro exI [of _ ?r1] exI [of _ s]) simp
  next
    case False
    let ?sz = "size_sub (length (rb_buf ?w)) (?a + ?k)" and ?mx = "\<lambda>m. if read_ahead ?w then min (max mx n) m else n"
    have sz: "?sz = length (rb_buf ?w) - (?a + ?k)" using V(6,7) by simp
    have m: "n \<le> ?mx ?sz" "?a + ?k + ?mx ?sz \<le> length (rb_buf ?w)" using fit sz by (auto split: if_split)
    have fit2: "\<not> ?sz < n" using fit sz by simp
    have en: "n \<le> ?left + length (unread (network ?w))" using n(2) V(6,9) by simp
    obtain left1 buf net s1 where lp: "read_n_loop L (?a + ?k) n (?mx ?sz) ?left r s = (1, left1, upd_prot (\<lambda>w. w\<lparr>rb_buf := buf, network := net\<rparr>) r, s1)" "n \<le> left1"
        "?a + ?k + left1 \<le> length buf" "length buf = length (rb_buf ?w)" "take (?a + ?k) buf = take (?a + ?k) (rb_buf ?w)"
        "take left1 (drop (?a + ?k) buf) @ unread net = rest" "same_msg s s1"
      using read_loop_reads [OF b V(2) m V(6) en, of s] V(9) by auto
    let ?r2 = "(upd_prot (\<lambda>w. w\<lparr>rb_buf := buf, network := net\<rparr>) r)\<lparr>rbuf_left := left1\<rparr>" and ?s1 = "s1\<lparr>rwstate := SSL_NOTHING\<rparr>"
    let ?r1 = "(?take ?r2)\<lparr>rbuf_left := left1 - n\<rparr>"
    have "take ?k (drop ?a buf) = pkt" using arg_cong [OF lp(5), of "drop ?a"] V(8) by (simp add: drop_take)
    then have "rd_view L unread pkt rest ?r2" using V(1-5,7) lp(3,4,6) by (simp add: rd_view_def Let_def)
    then have "rd_view L unread (pkt @ take n rest) (drop n rest) ?r1" using view_take [of L unread pkt rest ?r2 n] lp(2) by simp
    moreover have "?r1 = (?take (upd_prot (\<lambda>w. w\<lparr>rb_buf := buf, network := net\<rparr>) r))\<lparr>rbuf_left := left1 - n\<rparr>" by (simp add: upd_prot_def)
    then have "read_packet L n mx r s = (1, ?r1, ?s1)"
      using V(4,5) False fit2 lp(1) by (simp add: read_packet_def Let_def split del: if_split cong: if_cong)
    moreover have "rd_same r ?r1" unfolding rd_same_def
      by (intro conjI exI [of _ "left1 - n"] exI [of _ buf] exI [of _ "?a + ?k + n"] exI [of _ net] exI [of _ "packet ?w"] exI [of _ "?k + n"])
        (use lp(4) in \<open>simp_all add: upd_prot_def\<close>)
    moreover have "same_msg s ?s1" using same_msg_trans [OF lp(7), of ?s1] by (simp add: same_msg_def)
    ultimately show ?thesis by (intro exI [of _ ?r1] exI [of _ ?s1]) simp
  qed
qed

text \<open>Between records: nothing is taken out of the buffer, whose contents may be anywhere in it.\<close>

definition rd_idle :: "'w rec_lib \<Rightarrow> ('w \<Rightarrow> bytes) \<Rightarrow> bytes \<Rightarrow> 'w rlayer \<Rightarrow> bool" where
  "rd_idle L unread rest r \<longleftrightarrow> (let w = rl_world r in
     rbuf r \<and> rbio w \<and> rb_offset w + rbuf_left r \<le> length (rb_buf w) \<and> payload_align (rl_rbuf_addr L) \<le> rb_offset w \<and>
     length (rb_buf w) \<le> SIZE_MAX \<and> rest = take (rbuf_left r) (drop (rb_offset w) (rb_buf w)) @ unread (network w))"

lemma view_idle: "rd_view L unread pkt rest r \<Longrightarrow> rd_idle L unread rest r"
  by (simp add: rd_view_def rd_idle_def Let_def)

text \<open>Placing the packet for a first read moves what is in the buffer to its front; for a further read it changes nothing.\<close>

lemma place_first:
  assumes i: "rd_idle L unread rest r"
  shows "rd_view L unread [] rest (place_packet L False True r) \<and> rd_same r (place_packet L False True r)"
proof -
  let ?w = "rl_world r" and ?a = "payload_align (rl_rbuf_addr L)" and ?left = "rbuf_left r"
  have V: "rbuf r" "rbio ?w" "rb_offset ?w + ?left \<le> length (rb_buf ?w)" "?a \<le> rb_offset ?w" "length (rb_buf ?w) \<le> SIZE_MAX"
      "rest = take ?left (drop (rb_offset ?w) (rb_buf ?w)) @ unread (network ?w)" using i by (simp_all add: rd_idle_def Let_def)
  define off where "off = (if ?left = 0 then ?a else rb_offset ?w)"
  define buf where "buf = (if off \<noteq> ?a then write_at (rb_buf ?w) ?a (take ?left (drop off (rb_buf ?w))) else rb_buf ?w)"
  have P: "place_packet L False True r = upd_prot (\<lambda>w. w\<lparr>rb_buf := buf, rb_offset := ?a, packet := ?a, packet_length := 0\<rparr>) r" (is "_ = ?r1")
    by (simp add: place_packet_def Let_def off_def buf_def upd_prot_def)
  have o: "?a \<le> off" "off + ?left \<le> length (rb_buf ?w)" "take ?left (drop off (rb_buf ?w)) = take ?left (drop (rb_offset ?w) (rb_buf ?w))"
    using V(3,4) by (auto simp: off_def)
  have lb: "length buf = length (rb_buf ?w)" using o(1,2) by (auto simp: buf_def)
  have "take ?left (drop ?a buf) = take ?left (drop off (rb_buf ?w))"
  proof (cases "off = ?a")
    case False
    have "length (take ?left (drop off (rb_buf ?w))) = ?left" using o(2) by simp
    then show ?thesis using False o(1,2) by (simp add: buf_def write_at_def)
  qed (simp add: buf_def)
  then have "rd_view L unread [] rest ?r1" using V o lb by (simp add: rd_view_def Let_def)
  moreover have "rd_same r ?r1" unfolding rd_same_def
    by (intro conjI exI [of _ ?left] exI [of _ buf] exI [of _ ?a] exI [of _ "network ?w"] exI [of _ ?a] exI [of _ 0]) (use lb in \<open>simp_all add: upd_prot_def\<close>)
  ultimately show ?thesis by (simp add: P)
qed

lemma place_more: "rd_view L unread pkt rest r \<Longrightarrow> place_packet L True c r = r"
  by (auto simp: place_packet_def rd_view_def Let_def upd_prot_def)

section \<open>A record of TLS 1.3 is read\<close>

lemma rd_same_fields:
  assumes "rd_same r r1"
  shows "rstate r1 = rstate r" "enc_read_ctx r1 = enc_read_ctx r" "max_pipelines r1 = max_pipelines r" "max_fragment_len_mode r1 = max_fragment_len_mode r"
    "is_first_record (rl_world r1) = is_first_record (rl_world r)" "read_key (rl_world r1) = read_key (rl_world r)" "read_iv (rl_world r1) = read_iv (rl_world r)"
    "read_sequence (rl_world r1) = read_sequence (rl_world r)" "read_hash (rl_world r1) = read_hash (rl_world r)"
    "length (rb_buf (rl_world r1)) = length (rb_buf (rl_world r))" "cur_type (rl_world r1) = cur_type (rl_world r)"
    "cur_version (rl_world r1) = cur_version (rl_world r)" "cur_length (rl_world r1) = cur_length (rl_world r)"
  using assms by (auto simp: rd_same_def)

lemma be_bytes_2: "be_bytes 2 v = [word_of_nat (v div 256), word_of_nat v]"
  by (simp add: numeral_2_eq_2)

text \<open>The header of a record in the packet.\<close>

lemma parse_header_13:
  assumes v: "rd_view L unread (23 # be_bytes 2 0x303 @ be_bytes 2 n) rest r" and n: "n \<le> 16640" "16712 \<le> length (rb_buf (rl_world r))"
    and s: "SSL_IS_TLS13 s"
  shows "parse_header r s = (1, upd_prot (\<lambda>w. w\<lparr>cur_type := 23, cur_version := 0x303, cur_length := n\<rparr>) r, s)"
proof -
  obtain a b where ab: "be_bytes 2 n = [a, b]" using be_bytes_2 by blast
  then have val: "be_val [a, b] = n" using be_val_be_bytes_id [of n 2] n(1) by simp
  have v3: "be_bytes 2 0x303 = [3, 3]" by (simp add: be_bytes_2)
  have p: "packet_bytes r = [23, 3, 3, a, b]" "packet_length (rl_world r) = 5" "length (rb_buf (rl_world r)) \<le> SIZE_MAX"
    using v ab v3 by (simp_all add: rd_view_def packet_bytes_def Let_def)
  have u: "unat (word_of_nat n :: u32) = n" using n(1) by (simp add: unat_u32_of_nat)
  have h: "tls_header 23 0x303 n r s = (1, upd_prot (\<lambda>w. w\<lparr>cur_type := 23, cur_version := 0x303, cur_length := n\<rparr>) r, s)"
    using s n p(3) by (simp add: tls_header_def Let_def)
  have "be_val [23, 3 :: u8] = 5891" "be_val [3, 3 :: u8] = 771" "be_val [23 :: u8] = 23" by (simp_all add: be_val_def)
  then show ?thesis using p u val h
    by (simp add: parse_header_def PACKET_buf_init_def SIZE_MAX_def packet_simps)
qed

text \<open>What reading a record leaves as it is.\<close>

definition rd_keep :: "'w rlayer \<Rightarrow> 'w rlayer \<Rightarrow> bool" where
  "rd_keep r r1 \<longleftrightarrow> enc_read_ctx r1 = enc_read_ctx r \<and> max_pipelines r1 = max_pipelines r \<and> max_fragment_len_mode r1 = max_fragment_len_mode r \<and>
     read_key (rl_world r1) = read_key (rl_world r) \<and> read_iv (rl_world r1) = read_iv (rl_world r) \<and> read_hash (rl_world r1) = read_hash (rl_world r) \<and>
     length (rb_buf (rl_world r1)) = length (rb_buf (rl_world r))"

lemma rd_same_keep: "rd_same r r1 \<Longrightarrow> rd_keep r r1 \<and> read_sequence (rl_world r1) = read_sequence (rl_world r)"
  using rd_same_fields by (auto simp: rd_keep_def)

lemma align_less: "payload_align a \<le> 7"
  by (simp add: payload_align_def)

lemma at_length: "length h = n \<Longrightarrow> take n (h @ x) = h" "length h = n \<Longrightarrow> drop n (h @ x) = x" "length h = n \<Longrightarrow> n \<le> length (h @ x)"
  by auto

lemma get_one_13:
  assumes b: "bio_gives L unread" and i: "rd_idle L unread (23 # be_bytes 2 0x303 @ be_bytes 2 (length d) @ d @ rest) r"
    and n: "d \<noteq> []" "length d \<le> 16640" "16712 \<le> length (rb_buf (rl_world r))" "rstate r = SSL_ST_READ_HEADER" and s: "SSL_IS_TLS13 s"
  shows "\<exists>r1 s1. get_one_record L True r s = (Inr \<lparr>rec_version = 0x303, rr_type = 23, rr_data = d, rr_read = False\<rparr>, r1, s1) \<and>
    rd_idle L unread rest r1 \<and> rd_keep r r1 \<and> read_sequence (rl_world r1) = read_sequence (rl_world r) \<and> rstate r1 = SSL_ST_READ_HEADER \<and> same_msg s s1"
proof -
  let ?h = "23 # be_bytes 2 0x303 @ be_bytes 2 (length d)" and ?a = "payload_align (rl_rbuf_addr L)"
  let ?r0 = "place_packet L False True r"
  note P = place_first [OF i]
  have lh: "length ?h = 5" by simp
  have nb: "rbuf r" using i by (simp add: rd_idle_def Let_def)
  have l0: "length (rb_buf (rl_world ?r0)) = length (rb_buf (rl_world r))" using P rd_same_fields(10) by blast
  have f1: "?a + length [] + 5 \<le> length (rb_buf (rl_world ?r0))" using l0 n(3) align_less [of "rl_rbuf_addr L"] by simp
  have full: "23 # be_bytes 2 0x303 @ be_bytes 2 (length d) @ d @ rest = ?h @ (d @ rest)" by simp
  have v0: "rd_view L unread [] (?h @ (d @ rest)) ?r0" using P by (simp only: full)
  note tk = at_length [OF lh]
  obtain r1 s1 where h: "read_packet L 5 (length (rb_buf (rl_world r))) ?r0 s = (1, r1, s1)" "rd_view L unread ?h (d @ rest) r1" "rd_same ?r0 r1" "same_msg s s1"
    using read_more [OF b v0 _ tk(3) f1, of "length (rb_buf (rl_world r))" s] unfolding tk append_Nil by auto
  have l1: "length (rb_buf (rl_world r1)) = length (rb_buf (rl_world r))" using l0 rd_same_fields(10) [OF h(3)] by simp
  let ?r2 = "upd_prot (\<lambda>w. w\<lparr>cur_type := 23, cur_version := 0x303, cur_length := length d\<rparr>) (r1\<lparr>rstate := SSL_ST_READ_BODY\<rparr>)"
  have T: "SSL_IS_TLS13 s1" using same_msg_fields(7) [OF h(4)] s by simp
  have v1: "rd_view L unread ?h (d @ rest) (r1\<lparr>rstate := SSL_ST_READ_BODY\<rparr>)" using h(2) by (simp add: rd_view_def Let_def)
  have "get_header L True r s = parse_header (r1\<lparr>rstate := SSL_ST_READ_BODY\<rparr>) s1"
    using nb n(4) h(1) by (simp add: get_header_def ssl3_read_n_def ssl3_setup_read_buffer_def)
  then have H: "get_header L True r s = (1, ?r2, s1)" using parse_header_13 [OF v1 n(2) _ T] l1 n(3) by simp
  have v2: "rd_view L unread ?h (d @ rest) ?r2" using h(2) by (simp add: rd_view_def Let_def)
  have f2: "?a + length ?h + length d \<le> length (rb_buf (rl_world ?r2))" using l1 n(2,3) align_less [of "rl_rbuf_addr L"] lh by simp
  have ld: "length d \<le> length (d @ rest)" "0 < length d" using n(1) by simp_all
  obtain r3 s3' where g: "read_packet L (length d) (length d) ?r2 s1 = (1, r3, s3')" "rd_view L unread (?h @ d) rest r3" "rd_same ?r2 r3" "same_msg s1 s3'"
    using read_more [OF b v2 ld(2,1) f2, of "length d" s1] by auto
  have bf: "rbuf ?r2" using v2 by (simp add: rd_view_def Let_def)
  have R: "ssl3_read_n L (length d) (length d) True False ?r2 s1 = (1, r3, s3')" using ld(2) bf g(1) place_more [OF v2] by (simp add: ssl3_read_n_def ssl3_setup_read_buffer_def)
  let ?r4 = "upd_prot (\<lambda>w. w\<lparr>packet_length := 0, is_first_record := False\<rparr>) (r3\<lparr>rstate := SSL_ST_READ_HEADER\<rparr>)"
  have pk: "take (length d) (drop 5 (drop (packet (rl_world r3)) (rb_buf (rl_world r3)))) = d"
  proof -
    have "length (?h @ d) = 5 + length d" "packet (rl_world r3) = ?a" "take (length (?h @ d)) (drop ?a (rb_buf (rl_world r3))) = ?h @ d"
      using g(2) by (simp, simp_all only: rd_view_def Let_def)
    then have "take (5 + length d) (drop (packet (rl_world r3)) (rb_buf (rl_world r3))) = ?h @ d" by metis
    then show ?thesis using tk(2) [of d] by (metis drop_take diff_add_inverse)
  qed
  note F = rd_same_fields [OF g(3)]
  have "get_one_record L True r s = (Inr \<lparr>rec_version = 0x303, rr_type = 23, rr_data = d, rr_read = False\<rparr>, ?r4, s3')"
    using H R T n(2) ld(2) F(11-13) pk by (simp add: get_one_record_def Let_def)
  moreover have "rd_idle L unread rest ?r4" using view_idle [OF g(2)] by (simp add: rd_idle_def Let_def)
  moreover have "rd_keep r ?r4 \<and> read_sequence (rl_world ?r4) = read_sequence (rl_world r)"
    using F rd_same_fields [OF h(3)] rd_same_fields [OF conjunct2 [OF P]] by (simp add: rd_keep_def)
  moreover have "same_msg s s3'" using same_msg_trans [OF h(4) g(4)] .
  ultimately show ?thesis by (intro exI [of _ ?r4] exI [of _ s3']) simp
qed

section \<open>A record of TLS 1.3 is opened\<close>

lemma inner_end_pad: "b \<noteq> 0 \<Longrightarrow> inner_end (f @ b # replicate n 0) = length f"
  by (simp add: inner_end_def dropWhile_append)

text \<open>The receiver of records of TLS 1.3: no digest, no compression, no early data, no limit below that of the standard.\<close>

definition opens13 :: "'w rec_lib \<Rightarrow> 'w rlayer \<Rightarrow> SSL \<Rightarrow> bool" where
  "opens13 L r s \<longleftrightarrow> SSL_IS_TLS13 s \<and> enc_read_ctx r \<and> read_hash (rl_world r) = None \<and> rl_expand L = None \<and> early_data_state s \<noteq> SSL_EARLY_DATA_READING
     \<and> max_fragment_len_mode r = 0 \<and> max_pipelines r \<le> 1"

lemma open_13:
  assumes c: "opens13 L q t" and f: "f \<noteq> []" "length f \<le> 16384"
    and e: "tls13_record L False rec1 q t = (True, \<lparr>rec_version = v, rr_type = 23, rr_data = f @ 22 # replicate pad 0, rr_read = False\<rparr>, set_sequence False sq q, t)"
  shows "open_records L [rec1] q t = (1, (upd_prot (\<lambda>w. w\<lparr>empty_record_count := 0\<rparr>) (set_sequence False sq q))
    \<lparr>rrec := [\<lparr>rec_version = v, rr_type = 22, rr_data = f, rr_read = False\<rparr>]\<rparr>, t)"
proof -
  let ?rec = "\<lparr>rec_version = v, rr_type = 23, rr_data = f @ 22 # replicate pad 0, rr_read = False\<rparr>" and ?q = "set_sequence False sq q"
  let ?rec2 = "\<lparr>rec_version = v, rr_type = 22, rr_data = f, rr_read = False\<rparr>"
  have i: "inner_type ?rec ?q t = (True, ?rec2, t)" using c by (simp add: inner_type_def Let_def inner_end_pad opens13_def nth_append)
  have k: "check_record ?rec2 ?q t = (True, upd_prot (\<lambda>w. w\<lparr>empty_record_count := 0\<rparr>) ?q, t)"
    using c f by (simp add: check_record_def Let_def opens13_def set_sequence_def)
  have x: "expand_record L ?rec t = (True, ?rec, t)" using c by (simp add: expand_record_def opens13_def)
  have "deliver_records L [?rec] ?q t = (1, (upd_prot (\<lambda>w. w\<lparr>empty_record_count := 0\<rparr>) ?q)\<lparr>rrec := [?rec2]\<rparr>, t)"
    using c i k x by (simp add: deliver_records_def opens13_def)
  moreover have "ssl3_enc_enc L False 0 [rec1] q t = (True, [?rec], [None], ?q, t)" using c e by (simp add: ssl3_enc_enc_def tls13_enc_def opens13_def)
  ultimately show ?thesis using c by (simp add: open_records_def Let_def opens13_def OPENSSL_free_def)
qed

text \<open>The state between records: of the sender, and of the receiver with the octets \<open>bs\<close> still to come.\<close>

definition sends13 :: "'w rec_lib \<Rightarrow> 'w rlayer \<Rightarrow> SSL \<Rightarrow> bool" where
  "sends13 L r s \<longleftrightarrow> seals13 L r s \<and> record_version s = 0x303 \<and> ssl_get_max_send_fragment r \<le> 16384"

definition waits13 :: "'w rec_lib \<Rightarrow> ('w \<Rightarrow> bytes) \<Rightarrow> bytes \<Rightarrow> 'w rlayer \<Rightarrow> SSL \<Rightarrow> bool" where
  "waits13 L unread bs q t \<longleftrightarrow> opens13 L q t \<and> rd_idle L unread bs q \<and> rstate q = SSL_ST_READ_HEADER \<and> 16712 \<le> length (rb_buf (rl_world q))"

lemma same_msg_13:
  assumes "same_msg t t1"
  shows "same_cipher s t1 = same_cipher s t" "opens13 L q t1 = opens13 L q t"
  by (subst assms [unfolded same_msg_def], simp add: same_cipher_def opens13_def SSL_IS_TLS13_def SSL_IS_DTLS_def)+

lemma opens13_keep: "rd_keep q q1 \<Longrightarrow> opens13 L q1 t = opens13 L q t"
  by (simp add: opens13_def rd_keep_def)

lemma get_record_13:
  assumes b: "bio_gives L unread" and w: "waits13 L unread (23 # be_bytes 2 0x303 @ be_bytes 2 (length d) @ d @ rest) q t" and d: "d \<noteq> []" "length d \<le> 16640"
    and f: "f \<noteq> []" "length f \<le> 16384"
    and e: "\<And>q1 t1. rd_keep q q1 \<Longrightarrow> read_sequence (rl_world q1) = read_sequence (rl_world q) \<Longrightarrow> same_msg t t1 \<Longrightarrow>
      tls13_record L False \<lparr>rec_version = 0x303, rr_type = 23, rr_data = d, rr_read = False\<rparr> q1 t1 =
        (True, \<lparr>rec_version = 0x303, rr_type = 23, rr_data = f @ 22 # replicate pad 0, rr_read = False\<rparr>, set_sequence False sq q1, t1)"
  shows "\<exists>q1 t1. ssl3_get_record L q t = (1, q1, t1) \<and> rrec q1 = [\<lparr>rec_version = 0x303, rr_type = 22, rr_data = f, rr_read = False\<rparr>] \<and>
    waits13 L unread rest q1 t1 \<and> rd_keep q q1 \<and> read_sequence (rl_world q1) = sq \<and> same_msg t t1"
proof -
  let ?rec = "\<lparr>rec_version = 0x303, rr_type = 23, rr_data = d, rr_read = False\<rparr>"
  have W: "opens13 L q t" "rd_idle L unread (23 # be_bytes 2 0x303 @ be_bytes 2 (length d) @ d @ rest) q" "16712 \<le> length (rb_buf (rl_world q))"
      "rstate q = SSL_ST_READ_HEADER" "SSL_IS_TLS13 t" "max_pipelines q - 1 = 0" using w by (simp_all add: waits13_def opens13_def)
  obtain q1 t1 where g: "get_one_record L True q t = (Inr ?rec, q1, t1)" "rd_idle L unread rest q1" "rd_keep q q1"
      "read_sequence (rl_world q1) = read_sequence (rl_world q)" "rstate q1 = SSL_ST_READ_HEADER" "same_msg t t1"
    using get_one_13 [OF b W(2) d W(3,4,5)] by blast
  let ?q2 = "(upd_prot (\<lambda>w. w\<lparr>empty_record_count := 0\<rparr>) (set_sequence False sq q1))\<lparr>rrec := [\<lparr>rec_version = 0x303, rr_type = 22, rr_data = f, rr_read = False\<rparr>]\<rparr>"
  have O: "opens13 L q1 t1" using W(1) same_msg_13(2) [OF g(6)] opens13_keep [OF g(3)] by metis
  have "ssl3_get_record L q t = open_records L [?rec] q1 t1"
    using g(1) W(6) by (simp add: ssl3_get_record_def get_records.simps [of L 0])
  then have "ssl3_get_record L q t = (1, ?q2, t1)" using open_13 [OF O f e [OF g(3,4,6)]] by simp
  moreover have "waits13 L unread rest ?q2 t1" using O g(2,3,5) W(3) by (simp add: waits13_def opens13_def rd_idle_def rd_keep_def Let_def set_sequence_def upd_prot_def)
  moreover have "rd_keep q ?q2" using g(3) by (simp add: rd_keep_def set_sequence_def)
  ultimately show ?thesis using g(6) by (intro exI [of _ ?q2] exI [of _ t1]) simp
qed

lemma in_step_keep:
  assumes "in_step L L2 r q" "rd_keep q q1" "read_sequence (rl_world q1) = sq"
  shows "in_step L L2 (set_sequence True sq r) q1"
  using assms by (auto simp: in_step_def rd_keep_def)

lemma record_step:
  assumes c: "aead_ok L L2" "in_step L L2 r q" "same_cipher s t" and sd: "sends13 L r s" "seal_records L SSL3_RT_HANDSHAKE [f] r s = (Some [x], r1, s1)"
    and f: "f \<noteq> []" "length f \<le> 16384" and rd: "bio_gives L2 unread" "waits13 L2 unread (x @ rest) q t"
  shows "\<exists>q1 t1. ssl3_get_record L2 q t = (1, q1, t1) \<and> rrec q1 = [\<lparr>rec_version = 0x303, rr_type = 22, rr_data = f, rr_read = False\<rparr>] \<and>
    waits13 L2 unread rest q1 t1 \<and> in_step L L2 r1 q1 \<and> same_cipher s1 t1 \<and> sends13 L r1 s1 \<and> same_msg t t1"
proof -
  let ?pad = "record_padding L SSL3_RT_HANDSHAKE (length f + 1) r" and ?r = "r\<lparr>empty_fragment_done := True\<rparr>"
  let ?rec = "\<lparr>rec_version = 0x303, rr_type = 23, rr_data = f @ 22 # replicate ?pad 0, rr_read = False\<rparr>"
  have S: "seals13 L r s" "record_version s = 0x303" "ssl_get_max_send_fragment r \<le> 16384" using sd(1) by (simp_all add: sends13_def)
  obtain rec1 where e: "tls13_record L True ?rec ?r s = (True, rec1, r1, s1)" "x = 23 # be_bytes 2 0x303 @ be_bytes 2 (length (rr_data rec1)) @ rr_data rec1"
    using seal_one [OF S(1) sd(2)] S(2) by auto
  have st: "in_step L L2 ?r q1" if "rd_keep q q1" "read_sequence (rl_world q1) = read_sequence (rl_world q)" for q1
    using c(2) that by (simp add: in_step_def rd_keep_def)
  have ne: "rr_data ?rec \<noteq> []" "rr_type ?rec \<noteq> SSL3_RT_ALERT" by simp_all
  obtain sq where R: "r1 = set_sequence True sq ?r" "s1 = s" "rec1 = \<lparr>rec_version = 0x303, rr_type = 23, rr_data = rr_data rec1, rr_read = False\<rparr>"
      "length (rr_data ?rec) < length (rr_data rec1)" "length (rr_data rec1) \<le> length (rr_data ?rec) + 16"
    using tls13_record_roundtrip [OF c(1) st [of q] c(3) ne e(1)] by (auto simp: rd_keep_def)
  have d: "rr_data rec1 \<noteq> []" "length (rr_data rec1) \<le> 16640" using R(4,5) padding_le [of "length f + 1" L SSL3_RT_HANDSHAKE r] f(2) S(3) by auto
  have o: "tls13_record L2 False \<lparr>rec_version = 0x303, rr_type = 23, rr_data = rr_data rec1, rr_read = False\<rparr> q1 t1 = (True, ?rec, set_sequence False sq q1, t1)"
    if k: "rd_keep q q1" "read_sequence (rl_world q1) = read_sequence (rl_world q)" "same_msg t t1" for q1 t1
  proof -
    have "same_cipher s t1" using c(3) same_msg_13(1) [OF k(3)] by simp
    then obtain sq1 where "tls13_record L2 False rec1 q1 t1 = (True, ?rec, set_sequence False sq1 q1, t1)" "r1 = set_sequence True sq1 ?r"
      using tls13_record_roundtrip [OF c(1) st [OF k(1,2)] _ ne e(1)] by blast
    moreover from this(2) have "sq1 = sq" using R(1) set_sequence_fields(7) by metis
    ultimately show ?thesis using R(3) by simp
  qed
  have w: "waits13 L2 unread (23 # be_bytes 2 0x303 @ be_bytes 2 (length (rr_data rec1)) @ rr_data rec1 @ rest) q t" using rd(2) e(2) by simp
  have "\<exists>q1 t1. ssl3_get_record L2 q t = (1, q1, t1) \<and> rrec q1 = [\<lparr>rec_version = 0x303, rr_type = 22, rr_data = f, rr_read = False\<rparr>] \<and>
      waits13 L2 unread rest q1 t1 \<and> rd_keep q q1 \<and> read_sequence (rl_world q1) = sq \<and> same_msg t t1"
    by (rule get_record_13 [OF rd(1) w d f]) (rule o)
  then obtain q1 t1 where g: "ssl3_get_record L2 q t = (1, q1, t1)" "rrec q1 = [\<lparr>rec_version = 0x303, rr_type = 22, rr_data = f, rr_read = False\<rparr>]"
      "waits13 L2 unread rest q1 t1" "rd_keep q q1" "read_sequence (rl_world q1) = sq" "same_msg t t1" by blast
  have "in_step L L2 r1 q1" using in_step_keep [OF st [of q] g(4,5)] c(2) R(1) in_step_keep [OF _ g(4,5)] st by (metis rd_keep_def)
  moreover have "ssl_get_max_send_fragment r1 = ssl_get_max_send_fragment r" using R(1) by (simp add: ssl_get_max_send_fragment_def set_sequence_def)
  then have "sends13 L r1 s1" using sd(1) R(1,2) by (simp add: sends13_def seals13_def set_sequence_def)
  moreover have "same_cipher s1 t1" using c(3) R(2) same_msg_13(1) [OF g(6)] by simp
  ultimately show ?thesis using g by (intro exI [of _ q1] exI [of _ t1]) simp
qed

text \<open>The record layer with these records: \<open>do_ssl3_write\<close> leaves exactly the record in the write buffer, and reading finds its fragment as the current record.\<close>

lemma fragment_crosses:
  assumes c: "aead_ok L L2" "in_step L L2 r q" "same_cipher s t" and sd: "sends13 L r s" "seal_records L SSL3_RT_HANDSHAKE [f] r s = (Some [x], r1, s1)"
    and f: "f \<noteq> []" "length f \<le> 16384" and rd: "bio_gives L2 unread" "waits13 L2 unread (x @ rest) q t"
    and idle: "\<not> RECORD_LAYER_write_pending r" "\<not> alert_dispatch r" "wrbuf r \<noteq> []" "rrec q = []"
  shows "do_ssl3_write (rec_env_of L e) 22 buf [f] r s = ssl3_write_pending (rec_env_of L e) 22 buf (length f)
      (r1\<lparr>wrbuf := x # drop 1 (wrbuf r1), wpend_tot := length f, wpend_buf := buf, wpend_type := 22, wpend_ret := length f\<rparr>) s1"
    "\<exists>q1 t1. current_record (rec_env_of L2 e2) q t = Some (Inr 0, q1, t1) \<and> rrec q1 = [\<lparr>rec_version = 0x303, rr_type = 22, rr_data = f, rr_read = False\<rparr>] \<and>
      waits13 L2 unread rest q1 t1 \<and> in_step L L2 r1 q1"
proof -
  have "length (wrbuf r) \<noteq> 0" using idle(3) by simp
  then have n: "\<not> length (wrbuf r) < 1" by linarith
  show "do_ssl3_write (rec_env_of L e) 22 buf [f] r s = ssl3_write_pending (rec_env_of L e) 22 buf (length f)
      (r1\<lparr>wrbuf := x # drop 1 (wrbuf r1), wpend_tot := length f, wpend_buf := buf, wpend_type := 22, wpend_ret := length f\<rparr>) s1"
    using idle(1,2) n f(1) sd(2) by (simp add: do_ssl3_write_def rec_env_of_def Let_def)
  obtain q1 t1 where "ssl3_get_record L2 q t = (1, q1, t1)" "rrec q1 = [\<lparr>rec_version = 0x303, rr_type = 22, rr_data = f, rr_read = False\<rparr>]"
      "waits13 L2 unread rest q1 t1" "in_step L L2 r1 q1" using record_step [OF c sd f rd] by blast
  then show "\<exists>q1 t1. current_record (rec_env_of L2 e2) q t = Some (Inr 0, q1, t1) \<and> rrec q1 = [\<lparr>rec_version = 0x303, rr_type = 22, rr_data = f, rr_read = False\<rparr>] \<and>
      waits13 L2 unread rest q1 t1 \<and> in_step L L2 r1 q1"
    using idle(4) by (intro exI [of _ q1] exI [of _ t1]) (subst current_record.simps, simp add: rec_env_of_def)
qed

section \<open>A sequence of records\<close>

text \<open>The fragments of a handshake made into records one after the other, and as many records taken from the network.\<close>

fun seal_each :: "'w rec_lib \<Rightarrow> bytes list \<Rightarrow> 'w rlayer \<Rightarrow> SSL \<Rightarrow> bytes option \<times> 'w rlayer \<times> SSL" where
  "seal_each L [] r s = (Some [], r, s)"
| "seal_each L (f # fs) r s = (case seal_records L SSL3_RT_HANDSHAKE [f] r s of
      (Some [x], r1, s1) \<Rightarrow> (case seal_each L fs r1 s1 of (ys, r2, s2) \<Rightarrow> (map_option (\<lambda>y. x @ y) ys, r2, s2))
    | (_, r1, s1) \<Rightarrow> (None, r1, s1))"

fun get_each :: "'w rec_lib \<Rightarrow> nat \<Rightarrow> 'w rlayer \<Rightarrow> SSL \<Rightarrow> SSL3_RECORD list \<times> 'w rlayer \<times> SSL" where
  "get_each L 0 r s = ([], r, s)"
| "get_each L (Suc n) r s = (case ssl3_get_record L r s of (ret, r1, s1) \<Rightarrow>
     if ret \<le> 0 then ([], r1, s1) else (case get_each L n r1 s1 of (recs, r2, s2) \<Rightarrow> (rrec r1 @ recs, r2, s2)))"

text \<open>
  C12. Protected records under TLS 1.3: the records the sender makes of fragments of a handshake, read through a BIO that gives the octets in pieces of
  any size, are opened to exactly these fragments in their order; nothing else is taken from the network and the sequence numbers stay in step.
\<close>

theorem records_in_order:
  assumes "aead_ok L L2" "in_step L L2 r q" "same_cipher s t" "sends13 L r s" "seal_each L fs r s = (Some out_bytes, r1, s1)"
    "\<forall>f \<in> set fs. f \<noteq> [] \<and> length f \<le> 16384" "bio_gives L2 unread" "waits13 L2 unread (out_bytes @ rest) q t"
  shows "\<exists>q1 t1. get_each L2 (length fs) q t = (map (\<lambda>f. \<lparr>rec_version = 0x303, rr_type = 22, rr_data = f, rr_read = False\<rparr>) fs, q1, t1) \<and>
    waits13 L2 unread rest q1 t1 \<and> in_step L L2 r1 q1 \<and> same_msg t t1"
  using assms(2-6,8)
proof (induction fs arbitrary: r s q t out_bytes)
  case Nil
  then show ?case by (auto simp: same_msg_def)
next
  case (Cons f fs)
  obtain x r2 s2 ys where x: "seal_records L SSL3_RT_HANDSHAKE [f] r s = (Some [x], r2, s2)" "seal_each L fs r2 s2 = (Some ys, r1, s1)" "out_bytes = x @ ys"
    using Cons.prems(4) by (auto split: prod.split_asm option.split_asm list.split_asm)
  have f: "f \<noteq> []" "length f \<le> 16384" "\<forall>f \<in> set fs. f \<noteq> [] \<and> length f \<le> 16384" using Cons.prems(5) by simp_all
  have w: "waits13 L2 unread (x @ ys @ rest) q t" using Cons.prems(6) x(3) by simp
  obtain q2 t2 where g: "ssl3_get_record L2 q t = (1, q2, t2)" "rrec q2 = [\<lparr>rec_version = 0x303, rr_type = 22, rr_data = f, rr_read = False\<rparr>]"
      "waits13 L2 unread (ys @ rest) q2 t2" "in_step L L2 r2 q2" "same_cipher s2 t2" "sends13 L r2 s2" "same_msg t t2"
    using record_step [OF assms(1) Cons.prems(1-3) x(1) f(1,2) assms(7) w] by blast
  then obtain q1 t1 where "get_each L2 (length fs) q2 t2 = (map (\<lambda>f. \<lparr>rec_version = 0x303, rr_type = 22, rr_data = f, rr_read = False\<rparr>) fs, q1, t1)"
      "waits13 L2 unread rest q1 t1" "in_step L L2 r1 q1" "same_msg t2 t1"
    using Cons.IH [OF g(4,5,6) x(2) f(3) g(3)] by blast
  then show ?case using g(1,2) same_msg_trans [OF g(7)] by (intro exI [of _ q1] exI [of _ t1]) simp
qed

section \<open>Only authentic records\<close>

text \<open>What getting octets from the network keeps, whatever it returns.\<close>

definition rd_keys :: "'w rlayer \<Rightarrow> 'w rlayer \<Rightarrow> bool" where
  "rd_keys r r1 \<longleftrightarrow> enc_read_ctx r1 = enc_read_ctx r \<and> read_key (rl_world r1) = read_key (rl_world r) \<and> read_iv (rl_world r1) = read_iv (rl_world r) \<and>
     read_hash (rl_world r1) = read_hash (rl_world r) \<and> read_sequence (rl_world r1) = read_sequence (rl_world r)"

lemma rd_keys_trans: "rd_keys r r1 \<Longrightarrow> rd_keys r1 r2 \<Longrightarrow> rd_keys r r2"
  by (simp add: rd_keys_def)

lemma same_msg_io [simp]: "same_msg s s" "same_msg s (s\<lparr>rwstate := x\<rparr>)" "same_msg s (s\<lparr>os := w\<rparr>)"
  by (simp_all add: same_msg_def)

lemma read_loop_keys:
  "read_n_loop L base n mx left r s = (ret, left1, r1, s1) \<Longrightarrow> 0 < ret \<Longrightarrow> rd_keys r r1 \<and> cur_type (rl_world r1) = cur_type (rl_world r) \<and> rstate r1 = rstate r \<and> same_msg s s1"
proof (induction L base n mx left r s rule: read_n_loop.induct)
  case (1 L base n mx left r s)
  show ?case
  proof (cases "n \<le> left")
    case True
    then show ?thesis using 1(2) by (simp add: read_n_loop.simps [of L base n mx left r s] rd_keys_def)
  next
    case False
    obtain k d nw where b: "rl_bio_read L (mx - left) (network (rl_world r)) = (k, d, nw)" by (metis prod_cases3)
    let ?r = "upd_prot (\<lambda>w. w\<lparr>network := nw, rb_buf := write_at (rb_buf w) (base + left) (take (nat k) d)\<rparr>) r" and ?s = "s\<lparr>rwstate := SSL_READING\<rparr>"
    have g: "rbio (rl_world r)" "0 < k" "read_n_loop L base n mx (left + nat k) ?r ?s = (ret, left1, r1, s1)"
      using 1(2,3) False b by (auto simp: read_n_loop.simps [of L base n mx left r s] Let_def split: if_split_asm)
    have "rd_keys ?r r1 \<and> cur_type (rl_world r1) = cur_type (rl_world ?r) \<and> rstate r1 = rstate ?r \<and> same_msg ?s s1"
      using 1(1) [OF False _ b [symmetric] refl refl refl refl g(2,3) 1(3)] g(1) by simp
    then show ?thesis using same_msg_trans [of s ?s s1] by (simp add: rd_keys_def)
  qed
qed

lemma read_n_keys:
  assumes "ssl3_read_n L n mx ex cl r s = (ret, r1, s1)" "0 < ret"
  shows "rd_keys r r1 \<and> cur_type (rl_world r1) = cur_type (rl_world r) \<and> rstate r1 = rstate r \<and> same_msg s s1"
proof -
  obtain r2 s2 where a: "ssl3_setup_read_buffer L r s = (True, r2, s2)" "read_packet L n mx (place_packet L ex cl r2) s2 = (ret, r1, s1)"
    using assms by (auto simp: ssl3_read_n_def split: if_split_asm prod.split_asm)
  have A: "rd_keys r r2 \<and> cur_type (rl_world r2) = cur_type (rl_world r) \<and> rstate r2 = rstate r \<and> same_msg s s2"
    using a(1) by (auto simp: ssl3_setup_read_buffer_def Let_def rd_keys_def same_msg_def split: if_split_asm prod.split_asm bool.split_asm)
  let ?r3 = "place_packet L ex cl r2"
  have P: "rd_keys r2 ?r3 \<and> cur_type (rl_world ?r3) = cur_type (rl_world r2) \<and> rstate ?r3 = rstate r2" by (simp add: place_packet_def Let_def rd_keys_def)
  have "rd_keys ?r3 r1 \<and> cur_type (rl_world r1) = cur_type (rl_world ?r3) \<and> rstate r1 = rstate ?r3 \<and> same_msg s2 s1"
  proof (cases "n \<le> rbuf_left ?r3")
    case True
    then show ?thesis using a(2) by (auto simp: read_packet_def Let_def rd_keys_def)
  next
    case False
    then obtain base m left1 r4 s4 k where l: "read_n_loop L base n m (rbuf_left ?r3) ?r3 s2 = (k, left1, r4, s4)" "0 < k" "s1 = s4\<lparr>rwstate := SSL_NOTHING\<rparr>"
        "r1 = (upd_prot (\<lambda>w. w\<lparr>rb_offset := rb_offset (rl_world ?r3) + n, packet_length := packet_length (rl_world ?r3) + n\<rparr>) r4)\<lparr>rbuf_left := left1 - n\<rparr>"
      using a(2) assms(2) by (auto simp: read_packet_def Let_def split: if_split_asm prod.split_asm)
    then show ?thesis using read_loop_keys [OF l(1,2)] same_msg_trans [of s2 s4 s1] by (simp add: rd_keys_def)
  qed
  then show ?thesis using A P rd_keys_trans same_msg_trans by metis
qed

lemma parse_header_keys:
  assumes "parse_header r s = (h, r1, s1)" "0 < h" "SSL_IS_TLS13 s" "enc_read_ctx r" "enc_read_state (statem s) \<noteq> ENC_READ_STATE_ALLOW_PLAIN_ALERTS"
  shows "rd_keys r r1 \<and> cur_type (rl_world r1) \<noteq> SSL3_RT_ALERT \<and> s1 = s"
proof -
  have v2: "rd_keys r r1 \<and> cur_type (rl_world r1) \<noteq> SSL3_RT_ALERT \<and> s1 = s" if "sslv2_header n r s = (h, r1, s1)" for n
    using that assms(2) by (auto simp: sslv2_header_def Let_def rd_keys_def split: if_split_asm)
  have "rd_keys r r1 \<and> cur_type (rl_world r1) \<noteq> SSL3_RT_ALERT \<and> s1 = s" if "tls_header ty v l r s = (h, r1, s1)" for ty v l
    using that assms(2-5) by (auto simp: tls_header_def Let_def rd_keys_def split: if_split_asm)
  then show ?thesis using assms(1,2) v2 unfolding parse_header_def by (auto split: option.split_asm if_split_asm prod.split_asm)
qed

text \<open>A connection of TLS 1.3 that reads with keys and takes no plain alerts, also not one whose header it has read before.\<close>

definition reads13 :: "'w rlayer \<Rightarrow> SSL \<Rightarrow> bool" where
  "reads13 r s \<longleftrightarrow> SSL_IS_TLS13 s \<and> enc_read_ctx r \<and> enc_read_state (statem s) \<noteq> ENC_READ_STATE_ALLOW_PLAIN_ALERTS \<and>
     (rstate r = SSL_ST_READ_BODY \<longrightarrow> cur_type (rl_world r) \<noteq> SSL3_RT_ALERT)"

lemma get_header_keys:
  assumes "get_header L first r s = (h, r1, s1)" "0 < h" "reads13 r s"
  shows "rd_keys r r1 \<and> cur_type (rl_world r1) \<noteq> SSL3_RT_ALERT \<and> same_msg s s1"
proof (cases "rstate r = SSL_ST_READ_BODY \<and> SSL3_RT_HEADER_LENGTH \<le> packet_length (rl_world r)")
  case True
  then show ?thesis using assms by (auto simp: get_header_def rd_keys_def reads13_def)
next
  case False
  then obtain ret r2 s2 where n: "ssl3_read_n L 5 (length (rb_buf (rl_world r))) False first r s = (ret, r2, s2)" "0 < ret"
      "parse_header (r2\<lparr>rstate := SSL_ST_READ_BODY\<rparr>) s2 = (h, r1, s1)"
    using assms(1,2) unfolding get_header_def by (auto split: prod.split_asm if_split_asm)
  note K = read_n_keys [OF n(1,2)]
  have "SSL_IS_TLS13 s2" "statem s2 = statem s" "enc_read_ctx (r2\<lparr>rstate := SSL_ST_READ_BODY\<rparr>)"
    using same_msg_fields(5,7) K assms(3) by (auto simp: reads13_def rd_keys_def)
  then have "rd_keys (r2\<lparr>rstate := SSL_ST_READ_BODY\<rparr>) r1 \<and> cur_type (rl_world r1) \<noteq> SSL3_RT_ALERT \<and> s1 = s2"
    using parse_header_keys [OF n(3) assms(2)] assms(3) by (simp add: reads13_def)
  then show ?thesis using K by (simp add: rd_keys_def)
qed

lemma get_one_Inl: "get_one_record L first r s = (Inl h, r1, s1) \<Longrightarrow> h \<le> 0"
  by (auto simp: get_one_record_def Let_def split: prod.split_asm if_split_asm)

lemma get_one_keys:
  assumes "get_one_record L first r s = (Inr rec, r1, s1)" "reads13 r s"
  shows "rd_keys r r1 \<and> rr_type rec \<noteq> SSL3_RT_ALERT \<and> \<not> rr_read rec \<and> same_msg s s1"
proof -
  obtain h r2 s2 where h: "get_header L first r s = (h, r2, s2)" "0 < h" using assms(1) by (auto simp: get_one_record_def split: prod.split_asm if_split_asm)
  note H = get_header_keys [OF h assms(2)]
  define m where "m = (if cur_version (rl_world r2) = SSL2_VERSION then cur_length (rl_world r2) + SSL2_RT_HEADER_LENGTH - SSL3_RT_HEADER_LENGTH else cur_length (rl_world r2))"
  obtain ret r3 s3' where b1: "(if 0 < m then ssl3_read_n L m m True False r2 s2 else (1, r2, s2)) = (ret, r3, s3')" by (metis prod_cases3)
  have b: "(if 0 < m then ssl3_read_n L m m True False r2 s2 else (1, r2, s2)) = (ret, r3, s1)" "0 < ret"
      "r1 = upd_prot (\<lambda>w. w\<lparr>packet_length := 0, is_first_record := False\<rparr>) (r3\<lparr>rstate := SSL_ST_READ_HEADER\<rparr>)" "rr_type rec = cur_type (rl_world r3)" "\<not> rr_read rec"
    using assms(1) h(2) b1 unfolding get_one_record_def h(1) prod.case Let_def m_def [symmetric] b1 by (auto split: if_split_asm)
  have "rd_keys r2 r3 \<and> cur_type (rl_world r3) = cur_type (rl_world r2) \<and> same_msg s2 s1"
    using b(1,2) read_n_keys [of L m m True False r2 s2 ret r3 s1] by (auto simp: rd_keys_def split: if_split_asm)
  then show ?thesis using H b(3-5) same_msg_trans [of s s2 s1] by (simp add: rd_keys_def)
qed

lemma tls13_opened:
  assumes "tls13_record L False rec r s = (True, rec1, r1, s1)" "enc_read_ctx r" "rr_type rec \<noteq> SSL3_RT_ALERT"
  shows "s1 = s \<and> r1 = set_sequence False (ssl3_record_sequence_update (read_sequence (rl_world r))) r \<and> ssl3_record_sequence_update (read_sequence (rl_world r)) \<noteq> replicate 8 0 \<and>
    (\<exists>n aad ct tag pt. rl_open L (read_key (rl_world r)) (record_nonce n (read_iv (rl_world r)) (read_sequence (rl_world r))) aad ct tag = Some pt \<and> 8 \<le> n \<and>
      rr_data rec = ct @ tag \<and> aad = word_of_nat (rr_type rec) # be_bytes 2 (rec_version rec) @ be_bytes 2 (length (rr_data rec)) \<and> rec1 = rec\<lparr>rr_data := pt\<rparr>)"
proof -
  let ?seq = "read_sequence (rl_world r)" and ?k = "length (rr_data rec)" and ?n = "nat (rl_iv_length L False r)"
  obtain taglen aad pt where e: "\<not> ?k < Suc taglen" "\<not> rl_iv_length L False r < 8" "ssl3_record_sequence_update ?seq \<noteq> replicate 8 0"
      "record_aad (malloc_ok (rl_env L)) (rr_type rec) (rec_version rec) ?k = Some aad"
      "rl_open L (read_key (rl_world r)) (record_nonce ?n (read_iv (rl_world r)) ?seq) aad (take (?k - taglen) (rr_data rec)) (drop (?k - taglen) (rr_data rec)) = Some pt"
      "rec1 = rec\<lparr>rr_data := pt\<rparr>" "r1 = set_sequence False (ssl3_record_sequence_update ?seq) r" "s1 = s"
    using assms unfolding tls13_record_def aead_record_def Let_def by (auto split: option.split_asm if_split_asm prod.split_asm)
  have aad: "aad = word_of_nat (rr_type rec) # be_bytes 2 (rec_version rec) @ be_bytes 2 ?k" using record_aad_bytes [OF e(4)] by simp
  show ?thesis using e(2,3,5-8) aad
    by (intro conjI exI [of _ ?n] exI [of _ aad] exI [of _ "take (?k - taglen) (rr_data rec)"] exI [of _ "drop (?k - taglen) (rr_data rec)"] exI [of _ pt]) auto
qed

lemma inner_end_split:
  assumes "d \<noteq> []"
  shows "\<exists>k. d = take (inner_end d) d @ d ! inner_end d # replicate k 0"
proof -
  define z where "z = takeWhile (\<lambda>b. b = 0) (rev d)"
  define y where "y = dropWhile (\<lambda>b. b = 0) (rev d)"
  have d: "d = rev y @ rev z" unfolding y_def z_def by (metis rev_append rev_rev_ident takeWhile_dropWhile_id)
  have "\<forall>b \<in> set z. b = 0" unfolding z_def using set_takeWhileD by fastforce
  then have "z = replicate (length z) 0" by (metis replicate_length_same)
  then have z: "rev z = replicate (length z) 0" by (metis rev_replicate)
  show ?thesis
  proof (cases y)
    case Nil
    then have "inner_end d = 0" "d = replicate (length z) 0" using d z by (simp_all add: inner_end_def flip: y_def)
    moreover from this(2) assms obtain k where "length z = Suc k" by (cases "length z") auto
    ultimately show ?thesis by (intro exI [of _ k]) simp
  next
    case (Cons a ys)
    then have "inner_end d = length ys" by (simp add: inner_end_def flip: y_def)
    moreover have "d = rev ys @ a # replicate (length z) 0" using d z Cons by simp
    ultimately show ?thesis by (intro exI [of _ "length z"]) (metis append_eq_conv_conj length_rev nth_append_length)
  qed
qed

lemma delivered_13:
  assumes "deliver_records L [rec] r s = (1, r1, s1)" "rl_expand L = None" "SSL_IS_TLS13 s" "enc_read_ctx r" "rr_type rec \<noteq> SSL3_RT_ALERT"
  shows "\<exists>rec1 k. rrec r1 = [rec1] \<and> rr_type rec = SSL3_RT_APPLICATION_DATA \<and> rr_data rec = rr_data rec1 @ word_of_nat (rr_type rec1) # replicate k 0 \<and>
    rr_type rec1 \<in> {SSL3_RT_ALERT, SSL3_RT_HANDSHAKE, SSL3_RT_APPLICATION_DATA} \<and> length (rr_data rec1) \<le> SSL3_RT_MAX_PLAIN_LENGTH \<and>
    read_sequence (rl_world r1) = read_sequence (rl_world r)"
proof -
  obtain rec1 s2 r2 s3' where i: "inner_type rec r s = (True, rec1, s2)" "check_record rec1 r s2 = (True, r2, s3')" "rrec r1 = [rec1]" "read_sequence (rl_world r1) = read_sequence (rl_world r2)"
    using assms(1,2) by (auto simp: deliver_records_def expand_record_def early_data_count_ok_def Let_def split: prod.split_asm if_split_asm bool.split_asm)
  have t: "rr_type rec = SSL3_RT_APPLICATION_DATA" "rr_data rec \<noteq> []" "rr_data rec1 = take (inner_end (rr_data rec)) (rr_data rec)"
      "rr_type rec1 = unat (rr_data rec ! inner_end (rr_data rec))" "rr_type rec1 \<in> {21, 22, 23}"
    using i(1) assms(3-5) by (auto simp: inner_type_def Let_def split: if_split_asm)
  have "length (rr_data rec1) \<le> 16384" "read_sequence (rl_world r2) = read_sequence (rl_world r)"
    using i(2) by (auto simp: check_record_def Let_def split: if_split_asm)
  then show ?thesis using inner_end_split [OF t(2)] t i(3,4) by auto
qed

text \<open>
  C13. With the keys of TLS 1.3, once plain alerts are not taken any more, what the record layer delivers was opened by the cipher: with the reading key, the
  nonce of the expected sequence number and the header of the record as additional data. The plaintext is the data delivered, its type and
  padding, and the sequence number has moved on without wrapping.
\<close>

theorem record_authentic:
  assumes g: "ssl3_get_record L q t = (1, q1, t1)" and c: "reads13 q t" "read_hash (rl_world q) = None" "rl_expand L = None" "max_pipelines q \<le> 1"
    and m: "rec \<in> set (rrec q1)" "\<not> rr_read rec"
  shows "\<exists>n v ct tag k. rl_open L (read_key (rl_world q)) (record_nonce n (read_iv (rl_world q)) (read_sequence (rl_world q)))
      (23 # be_bytes 2 v @ be_bytes 2 (length (ct @ tag))) ct tag = Some (rr_data rec @ word_of_nat (rr_type rec) # replicate k 0) \<and> 8 \<le> n \<and>
    rr_type rec \<in> {SSL3_RT_ALERT, SSL3_RT_HANDSHAKE, SSL3_RT_APPLICATION_DATA} \<and> length (rr_data rec) \<le> SSL3_RT_MAX_PLAIN_LENGTH \<and>
    read_sequence (rl_world q1) = ssl3_record_sequence_update (read_sequence (rl_world q)) \<and> read_sequence (rl_world q1) \<noteq> replicate 8 0"
proof -
  have mp: "get_records L (max_pipelines q - 1) [] q t = (case get_one_record L True q t of (Inl ret, r1, s1) \<Rightarrow> (Inl ret, r1, s1) | (Inr rec, r1, s1) \<Rightarrow> (Inr [rec], r1, s1))"
    using c(4) by (simp add: get_records.simps [of L 0] split: prod.split sum.split)
  obtain rec0 q2 t2 where o: "get_one_record L True q t = (Inr rec0, q2, t2)"
    using g get_one_Inl [of L True q t] unfolding ssl3_get_record_def mp by (auto split: prod.split_asm sum.split_asm)
  note K = get_one_keys [OF o c(1)]
  have k: "enc_read_ctx q2" "read_hash (rl_world q2) = None" "SSL_IS_TLS13 t2" "rr_type rec0 \<noteq> SSL3_RT_ALERT"
    using K c(1,2) same_msg_fields(7) by (auto simp: rd_keys_def reads13_def)
  have r0: "rr_read r3" if "skip_ccs rec0 q2 t2 = (1, q1, t1)" "r3 \<in> set (rrec q1)" for r3
    using that by (auto simp: skip_ccs_def Let_def split: if_split_asm)
  have r1: "rr_read r3" if "not_opened recs q3 t3 = (1, q1, t4)" "r3 \<in> set (rrec q1)" for recs q3 t3 t4 r3
    using that by (auto simp: not_opened_def split: if_split_asm prod.split_asm bool.split_asm)
  have "open_records L [rec0] q2 t2 = (1, q1, t1)"
    using g r0 [OF _ m(1)] m(2) unfolding ssl3_get_record_def mp o by (auto split: if_split_asm)
  then obtain rec2 q3 t3 t4 where e: "tls13_record L False rec0 q2 t2 = (True, rec2, q3, t3)" "deliver_records L [rec2] q3 t3 = (1, q1, t4)"
    using k r1 [OF _ m(1)] m(2) by (auto simp: open_records_def Let_def ssl3_enc_enc_def tls13_enc_def split: prod.split_asm if_split_asm)
  obtain n aad ct tag pt where p: "rl_open L (read_key (rl_world q2)) (record_nonce n (read_iv (rl_world q2)) (read_sequence (rl_world q2))) aad ct tag = Some pt" "8 \<le> n"
      "rr_data rec0 = ct @ tag" "aad = word_of_nat (rr_type rec0) # be_bytes 2 (rec_version rec0) @ be_bytes 2 (length (rr_data rec0))" "rec2 = rec0\<lparr>rr_data := pt\<rparr>"
      "t3 = t2" "q3 = set_sequence False (ssl3_record_sequence_update (read_sequence (rl_world q2))) q2" "ssl3_record_sequence_update (read_sequence (rl_world q2)) \<noteq> replicate 8 0"
    using tls13_opened [OF e(1) k(1,4)] by blast
  have d: "SSL_IS_TLS13 t3" "enc_read_ctx q3" "rr_type rec2 \<noteq> SSL3_RT_ALERT" using k p(5-7) by simp_all
  obtain k where f: "rr_type rec0 = 23" "pt = rr_data rec @ word_of_nat (rr_type rec) # replicate k 0" "rr_type rec \<in> {21, 22, 23}" "length (rr_data rec) \<le> 16384"
      "read_sequence (rl_world q1) = ssl3_record_sequence_update (read_sequence (rl_world q2))"
    using delivered_13 [OF e(2) c(3) d] p(5,7) m(1) by auto
  show ?thesis using f p K
    by (intro exI [of _ n] exI [of _ "rec_version rec0"] exI [of _ ct] exI [of _ tag] exI [of _ k]) (simp add: rd_keys_def)
qed

section \<open>A sender and a receiver\<close>

lemma sample_protected:
  assumes "length f \<le> 16384" "ssl3_record_sequence_update sq \<noteq> replicate 8 0"
  shows "\<exists>x r1. seal_records rec_lib0 22 [f] (set_sequence True sq ((prot_layer0 b w)\<lparr>empty_fragment_done := e\<rparr>)) (at TLS_ST_OK) = (Some [x], r1, at TLS_ST_OK)"
proof -
  let ?r = "set_sequence True sq ((prot_layer0 b w)\<lparr>empty_fragment_done := e\<rparr>)"
  have "seals13 rec_lib0 ?r (at TLS_ST_OK)" using sample_conn(1) [of b w] by (simp add: seals13_def set_sequence_def)
  moreover have "record_cipher rec_lib0 ?r (at TLS_ST_OK) = record_cipher rec_lib0 (prot_layer0 b w) (at TLS_ST_OK)"
    by (simp add: record_cipher_def set_sequence_def upd_prot_def)
  moreover have "wb_lens (rl_world ?r) = [16584]" "ssl_get_max_send_fragment ?r = 16384"
    using sample_fields(2) by (simp_all add: set_sequence_def ssl_get_max_send_fragment_def prot_layer0_def)
  ultimately show ?thesis using assms sample_conn(2) sample_lib
    by (intro seal_room [of rec_lib0 ?r "at TLS_ST_OK" "\<lparr>cipher_id = 0x1301, algorithm_mkey = 0, algorithm_auth = 0\<rparr>" 16 f 16584 "[]"]) simp_all
qed

lemma sample_first:
  obtains x r1 where "seal_records rec_lib0 22 [[1, 2, 3]] (prot_layer0 [] []) (at TLS_ST_OK) = (Some [x], r1, at TLS_ST_OK)"
    "r1 = set_sequence True [0, 0, 0, 0, 0, 0, 1, 0] ((prot_layer0 [] [])\<lparr>empty_fragment_done := True\<rparr>)"
proof -
  have "set_sequence True [0, 0, 0, 0, 0, 0, 0, 255] ((prot_layer0 [] [])\<lparr>empty_fragment_done := False\<rparr>) = prot_layer0 [] []"
    by (simp add: set_sequence_def upd_prot_def prot_layer0_def prot0_def)
  then obtain x r1 where x: "seal_records rec_lib0 22 [[1, 2, 3]] (prot_layer0 [] []) (at TLS_ST_OK) = (Some [x], r1, at TLS_ST_OK)"
    using sample_protected [where f = "[1, 2, 3]" and sq = "[0, 0, 0, 0, 0, 0, 0, 255]" and b = "[]" and w = "[]" and e = False] by (auto simp: sample_sequence)
  show ?thesis using that [OF x] sealed_state [OF sample_conn(1) x] by (simp add: sample_fields sample_sequence)
qed

lemma sample_sealed: "\<exists>bs r1 s1. seal_each rec_lib0 [[1, 2, 3], [4]] (prot_layer0 [] []) (at TLS_ST_OK) = (Some bs, r1, s1)"
proof -
  obtain x r1 where x: "seal_records rec_lib0 22 [[1, 2, 3]] (prot_layer0 [] []) (at TLS_ST_OK) = (Some [x], r1, at TLS_ST_OK)"
      "r1 = set_sequence True [0, 0, 0, 0, 0, 0, 1, 0] ((prot_layer0 [] [])\<lparr>empty_fragment_done := True\<rparr>)" by (rule sample_first)
  moreover obtain y r2 where "seal_records rec_lib0 22 [[4]] r1 (at TLS_ST_OK) = (Some [y], r2, at TLS_ST_OK)"
    using sample_protected [where f = "[4]" and sq = "[0, 0, 0, 0, 0, 0, 1, 0]" and b = "[]" and w = "[]" and e = True] x(2) by (auto simp: sample_sequence)
  ultimately show ?thesis by simp
qed

lemma sample_aead: "aead_ok rec_lib0 rec_lib0"
  by (auto simp: aead_ok_def rec_lib0_def Let_def tag0_def o_def xor.assoc)

lemma sample_step: "in_step rec_lib0 rec_lib0 (prot_layer0 b x) (prot_layer0 c y)"
  by (simp add: in_step_def prot_layer0_def prot0_def rec_lib0_def)

lemma sample_receiver: "same_cipher (at TLS_ST_OK) (at TLS_ST_OK)" "reads13 (prot_layer0 b x) (at TLS_ST_OK)" "opens13 rec_lib0 (prot_layer0 b x) (at TLS_ST_OK)"
  "sends13 rec_lib0 (prot_layer0 b x) (at TLS_ST_OK)"
  using sample_conn by (simp_all add: same_cipher_def sends13_def reads13_def opens13_def at_def ssl0_def statem0_def prot_layer0_def prot0_def rec_lib0_def
      SSL_IS_TLS13_def SSL_IS_DTLS_def ssl_get_max_send_fragment_def)

lemma sample_bio: "bio_gives rec_lib0 (\<lambda>w. w)"
  by (auto simp: bio_gives_def rec_lib0_def Let_def)

lemma sample_waits: "waits13 rec_lib0 (\<lambda>w. w) x (prot_layer0 (replicate 16712 0) x) (at TLS_ST_OK)"
  using sample_receiver(3) by (simp add: waits13_def rd_idle_def prot_layer0_def prot0_def rec_lib0_def payload_align_def SIZE_MAX_def)

lemma records_in_order_witness:
  "\<exists>bs q1 t1. fst (seal_each rec_lib0 [[1, 2, 3], [4]] (prot_layer0 [] []) (at TLS_ST_OK)) = Some bs \<and>
    get_each rec_lib0 2 (prot_layer0 (replicate 16712 0) (bs @ [9])) (at TLS_ST_OK) =
      ([\<lparr>rec_version = 0x303, rr_type = 22, rr_data = [1, 2, 3], rr_read = False\<rparr>, \<lparr>rec_version = 0x303, rr_type = 22, rr_data = [4], rr_read = False\<rparr>], q1, t1)"
proof -
  obtain bs r1 s1 where b: "seal_each rec_lib0 [[1, 2, 3], [4]] (prot_layer0 [] []) (at TLS_ST_OK) = (Some bs, r1, s1)" using sample_sealed by blast
  show ?thesis
    using records_in_order [OF sample_aead sample_step sample_receiver(1,4) b _ sample_bio sample_waits [of "bs @ [9]"]] b by (auto simp: numeral_2_eq_2)
qed

lemma record_authentic_witness:
  "\<exists>x q1 t1. ssl3_get_record rec_lib0 (prot_layer0 (replicate 16712 0) x) (at TLS_ST_OK) = (1, q1, t1) \<and>
    (\<exists>n v ct tag k. rl_open rec_lib0 [85] (record_nonce n [1, 2, 3, 4, 5, 6, 7, 8, 9, 10, 11, 12] [0, 0, 0, 0, 0, 0, 0, 255])
      (23 # be_bytes 2 v @ be_bytes 2 (length (ct @ tag))) ct tag = Some ([1, 2, 3] @ 22 # replicate k 0)) \<and> read_sequence (rl_world q1) = [0, 0, 0, 0, 0, 0, 1, 0]"
proof -
  obtain x r1 where x: "seal_records rec_lib0 22 [[1, 2, 3]] (prot_layer0 [] []) (at TLS_ST_OK) = (Some [x], r1, at TLS_ST_OK)" by (rule sample_first)
  let ?q = "prot_layer0 (replicate 16712 0) x"
  have w: "waits13 rec_lib0 (\<lambda>w. w) (x @ []) ?q (at TLS_ST_OK)" using sample_waits [of x] by simp
  obtain q1 t1 where g: "ssl3_get_record rec_lib0 ?q (at TLS_ST_OK) = (1, q1, t1)" "rrec q1 = [\<lparr>rec_version = 0x303, rr_type = 22, rr_data = [1, 2, 3], rr_read = False\<rparr>]"
    using record_step [OF sample_aead sample_step sample_receiver(1,4) x _ _ sample_bio w] by auto
  have k: "read_key (rl_world ?q) = [85]" "read_iv (rl_world ?q) = [1, 2, 3, 4, 5, 6, 7, 8, 9, 10, 11, 12]" "read_sequence (rl_world ?q) = [0, 0, 0, 0, 0, 0, 0, 255]"
      "read_hash (rl_world ?q) = None" "rl_expand rec_lib0 = None" "max_pipelines ?q \<le> 1" by (simp_all add: prot_layer0_def prot0_def rec_lib0_def)
  show ?thesis
  proof (intro exI [of _ x] exI [of _ q1] exI [of _ t1] conjI)
    show "\<exists>n v ct tag k. rl_open rec_lib0 [85] (record_nonce n [1, 2, 3, 4, 5, 6, 7, 8, 9, 10, 11, 12] [0, 0, 0, 0, 0, 0, 0, 255])
        (23 # be_bytes 2 v @ be_bytes 2 (length (ct @ tag))) ct tag = Some ([1, 2, 3] @ 22 # replicate k 0)" "read_sequence (rl_world q1) = [0, 0, 0, 0, 0, 0, 1, 0]"
      using record_authentic [OF g(1) sample_receiver(2) k(4-6), of "\<lparr>rec_version = 0x303, rr_type = 22, rr_data = [1, 2, 3], rr_read = False\<rparr>"] g(2) k(1-3)
      by (auto simp: sample_sequence) blast
  qed (rule g(1))
qed

end
