(* ===== verification/Spec2Isabelle.thy ===== *)
theory Spec2Isabelle
  imports Entity_Properties Negotiation_Properties Certificate_Properties Handshake_Properties Chain_Properties Ext_Negotiation Version_Properties
    Protection_Properties
begin

text \<open>
  Verification of the IEEE 1609.2 extension of TLS 1.3.

  \<^bold>\<open>The program.\<close> The repository is an Android application for ISO 21177 sessions between a vehicle and
  a service. Its core is a copy of OpenSSL 3.0 (under \<^verbatim>\<open>src/iso21177poc/common/src/main/cpp/openssl\<close>)
  extended by RFC 8902: the two ends negotiate with two TLS extensions that they authenticate with
  IEEE 1609.2 certificates instead of X.509 certificates, and everything that concerns these
  certificates and their keys (approving a certificate, signing, verifying a signature) is done by a
  separate process, the security entity, which is asked over a socket. This development models that
  extension together with the parts of libssl it is built into, from the source.

  \<^bold>\<open>Parts and theories.\<close>
  \<^item> \<^verbatim>\<open>Iso_Prelude\<close>: bytes, big-endian numbers, host byte order, bounded reads and writes.
  \<^item> \<^verbatim>\<open>Packet_Reader\<close>: \<^verbatim>\<open>include/internal/packet.h\<close>, \<open>PACKET\<close> as the bytes that remain. The locale \<open>prefix_codec\<close>
    is the contract of the readers of length-prefixed vectors, interpreted for one, two and three bytes.
  \<^item> \<^verbatim>\<open>Wpacket\<close>: \<^verbatim>\<open>crypto/packet.c\<close> and \<^verbatim>\<open>crypto/buffer/buffer.c\<close>, the packet writer with its stack of
    sub-packets, limits and growing buffer. The locales \<open>byte_writer\<close> and \<open>total_writer\<close> are what a
    caller relies on: what was appended, and when there was room for it.
  \<^item> \<^verbatim>\<open>Process_World\<close>: the process, that is allocation, the error queue, sockets and the store of X509 objects with
    their reference counts, as the record \<open>os\<close>; the record \<open>env\<close> holds what the world answers.
  \<^item> \<^verbatim>\<open>Sec_Ent_Msg\<close>, \<^verbatim>\<open>Sec_Ent_Client\<close>: the messages of the security entity protocol and the exchange
    (\<^verbatim>\<open>ssl/ieee1609dot2.c\<close>, from \<open>SEC_ENT_MSG_new_from_type_allocate\<close> to \<open>sec_ent_process\<close>). The locale
    \<open>sec_ent_request\<close> states once what happens when a request of any type is built and sent.
  \<^item> \<^verbatim>\<open>Ieee1609_Tables\<close>, \<^verbatim>\<open>Ieee1609_Cert\<close>: the built-in certificates, certificates attached to X509 objects,
    \<open>IEEE1609_CERT_verify\<close> and the two CertificateVerify functions of \<^verbatim>\<open>ssl/ieee1609dot2.c\<close>.
  \<^item> \<^verbatim>\<open>Ieee1609_Config\<close>, \<^verbatim>\<open>Ieee1609_Chain\<close>: the functions an application calls (the rest of \<^verbatim>\<open>ssl/ieee1609dot2.c\<close>, with
    the functions of \<^verbatim>\<open>ssl/ssl_rsa.c\<close> they use): state creation, certificate, key and address, PSID, and
    the decoding of a certificate chain into the caller's array.
  \<^item> \<^verbatim>\<open>Ssl_State\<close>: the connection \<open>SSL\<close>, its state machine record, the fatal error path
    (\<open>ossl_statem_fatal\<close>, \<open>ossl_statem_send_fatal\<close>) and the accessors of \<^verbatim>\<open>ssl/statem/statem.c\<close>.
  \<^item> \<^verbatim>\<open>Cert_Type_Ext\<close>: \<^verbatim>\<open>ssl/statem/extensions_ieee1609dot2.c\<close>, the negotiation.
  \<^item> \<^verbatim>\<open>Ext_Framework\<close>: \<^verbatim>\<open>ssl/statem/extensions.c\<close> and \<^verbatim>\<open>ssl/statem/extensions_cust.c\<close>: the table of extensions and
    the messages they may stand in, collecting, parsing and constructing the extensions of a message,
    and the custom extensions of an application. The functions of the other built-in extensions are the parameter \<open>ext_lib\<close>.
  \<^item> \<^verbatim>\<open>Version_Negotiation\<close>: the choice of the protocol version on both sides (\<open>version_cmp\<close> to
    \<open>ssl_set_client_hello_version\<close> of \<^verbatim>\<open>ssl/statem/statem_lib.c\<close>), the supported versions extension, which takes
    its place in \<open>ext_lib\<close>, and the sentinels of \<open>ssl_fill_hello_random\<close> in \<^verbatim>\<open>ssl/s3_lib.c\<close>.
  \<^item> \<^verbatim>\<open>Statem_Common\<close>, \<^verbatim>\<open>Statem_Client\<close>, \<^verbatim>\<open>Statem_Server\<close>: the transitions, pre and post work and limits of
    both sides, for TLS 1.3 and for the earlier versions. The locale \<open>read_transition\<close> is the contract of
    a read transition (what it keeps, how it refuses) and is interpreted for both sides.
  \<^item> \<^verbatim>\<open>Cert_Messages\<close>, \<^verbatim>\<open>Statem_Messages\<close>: the Certificate, CertificateVerify, Finished, KeyUpdate and
    ChangeCipherSpec messages, written and read (\<^verbatim>\<open>statem_lib.c\<close>, \<^verbatim>\<open>statem_clnt.c\<close>, \<^verbatim>\<open>statem_srvr.c\<close>).
  \<^item> \<^verbatim>\<open>Statem_Flow\<close>: \<open>state_machine\<close> with its sub-machines, which call the transitions and handlers.
  \<^item> \<^verbatim>\<open>Msg_Framing\<close>: handshake messages on the record layer (\<open>ssl3_do_write\<close>, \<open>tls_get_message_header\<close>,
    \<open>tls_get_message_body\<close>), the message buffer and the transcript (\<open>ssl3_finish_mac\<close>).
  \<^item> \<^verbatim>\<open>Record_Layer\<close>: \<^verbatim>\<open>ssl/record/rec_layer_s3.c\<close>, fragments and records under the messages (\<open>ssl3_write_bytes\<close>,
    \<open>ssl3_write_pending\<close>, \<open>ssl3_read_bytes\<close> with alerts, early data and unexpected handshake messages).
  \<^item> \<^verbatim>\<open>Record_Crypt\<close>, \<^verbatim>\<open>Record_Input\<close>, \<^verbatim>\<open>Record_Output\<close>: the records themselves. The protection of TLS 1.3 (\<open>tls13_enc\<close> of
    \<^verbatim>\<open>ssl/record/ssl3_record_tls13.c\<close>), records from the network (\<open>ssl3_read_n\<close> and \<open>ssl3_get_record\<close>) and to it (the inner part
    of \<open>do_ssl3_write\<close>), with the buffers of \<^verbatim>\<open>ssl/record/ssl3_buffer.c\<close>. \<open>rec_env_of\<close> puts them in the place of the parameters of \<^verbatim>\<open>Record_Layer\<close>.
  \<^item> \<^verbatim>\<open>Flights\<close>, \<^verbatim>\<open>Cert_Exchange\<close>: what the messages of the two sides have to do with each other.
  \<^item> \<^verbatim>\<open>Sample_Data\<close>: one instance of every parameter and one connection, for the evaluated examples.
  \<^item> \<^verbatim>\<open>Outcomes\<close>: a small calculus for facts about every defined result of a function that may fail.
  \<^item> \<^verbatim>\<open>Wire_Properties\<close>, \<^verbatim>\<open>Entity_Properties\<close>, \<^verbatim>\<open>Negotiation_Properties\<close>, \<^verbatim>\<open>Certificate_Properties\<close>,
    \<^verbatim>\<open>Handshake_Properties\<close>, \<^verbatim>\<open>Config_Properties\<close>, \<^verbatim>\<open>Chain_Properties\<close>,
    \<^verbatim>\<open>Ext_Properties\<close>, \<^verbatim>\<open>Ext_Negotiation\<close>, \<^verbatim>\<open>Version_Properties\<close>, \<^verbatim>\<open>Framing_Properties\<close>, \<^verbatim>\<open>Record_Properties\<close>,
    \<^verbatim>\<open>Record_Sealing\<close>, \<^verbatim>\<open>Protection_Properties\<close> and this theory hold the properties.

  \<^bold>\<open>State and effects.\<close> A function of the source that works on a connection is a function on the record
  \<open>SSL\<close>, which carries the process \<open>os\<close>. \<open>SSL\<close>, \<open>SSL_SESSION\<close> and \<open>SSL3_STATE\<close> have the fields of the
  source's structures that the modelled functions read or write. Functions with
  undefined behaviour in some case (a read outside an object, a NULL or released pointer) return an
  option, and \<open>None\<close> is that case; a theorem that gives \<open>Some\<close> also says that it does not happen. Words keep
  their width (\<open>u8\<close>, \<open>u32\<close>, \<open>u64\<close>); \<open>size_t\<close> lengths are naturals with the wrap-around written out where it
  matters. Diagnostics and debug output are left out.

  \<^bold>\<open>Parameters.\<close> What the modelled code calls and is not modelled is an argument: \<open>env\<close> (allocation, sockets,
  the security entity, key slots), \<open>hooks\<close> (key schedule, MACs, record layer queries), \<open>tlslib\<close>
  (digests, X.509, extensions of a certificate), \<open>ext_lib\<close> (the other extensions), \<open>ver_lib\<close> (security level, Suite B, certificate callbacks), \<open>msg_io\<close> (the record layer under the messages, for
  which \<open>rec_io\<close> puts the modelled one), \<open>rec_env\<close> (protecting and opening records, buffers, the BIO, for which \<open>rec_env_of\<close> puts the modelled ones),
  \<open>rec_lib\<close> (ciphers, MACs, the encryption of the versions before TLS 1.3, compression, the network) and \<open>machine\<close> (the other
  handlers, message input and output).
  A call of the key schedule that fails is modelled with an internal error. The
  hypotheses of a property on them are named definitions such as \<open>entity_up\<close>, \<open>entity_replies\<close>,
  \<open>writes_exts\<close> or \<open>keys_ready\<close>, and every property with hypotheses is applied to \<^verbatim>\<open>Sample_Data\<close>.

  \<^bold>\<open>Loops.\<close> Loops over data are structural or have a measure (the certificate list: the bytes that remain;
  the length of a number: the number). The socket loops of \<open>send_recv_server\<close> and \<open>read_N_bytes\<close> end because every
  pass makes progress, which is proved. The three loops of \<open>state_machine\<close> run for as long as the peer
  sends messages; they are partial functions and properties of them are about runs that return, while the passes
  themselves are total. The loops of the record layer run for as long as the BIO takes only a part or records without contents arrive; that
  they return is shown for handshake messages. The loop that fills the read buffer ends because every pass adds octets.

  \<^bold>\<open>What is shown.\<close> Readers and writers: exactness, round trips, bounds. Security entity: every exchange ends
  without a leak and with a well-formed answer to the request sent; frames round trip and have one layout. Negotiation: both ends
  agree, on single extensions and through complete hello messages with any other extensions; what is collected of a
  message is exactly what is framed, allowed, asked for and not repeated in it. Versions: both ends take the highest
  version they share, and a client with TLS 1.3 is not brought below it by a changed hello. Messages and
  records: what is written is cut into fragments inside the limits, and a message sent in these fragments is the message
  the other side reads, with the same octets in both transcripts. Protected records of TLS 1.3: what was sealed is what is opened, in order and in
  whatever pieces it arrives; only what the cipher opens under the expected sequence number is delivered; the write buffer has room for every record. Certificates: a chain that is sent is the chain that is read; a certificate or a CertificateVerify is
  accepted only on the entity's word on exactly these octets and this handshake, and is accepted on that word;
  signed data of the two directions and of different handshakes never coincide. State machines: the order of
  the TLS 1.3 messages on both sides, that the flights one side writes are accepted by the other, that an
  error is final and success is the end of the handshake. Configuration: the 1609.2 state is well-formed after
  any calls, a certificate installed by its hash is the one served, and a chain is decoded inside the
  caller's array with the right dates. Where the code does not do what it means to,
  the property says what it does (the released object of an empty certificate, the short
  answer of the entity, the SSP of 100 bytes, the verify mode that the client's extension resets).

  \<^bold>\<open>Not modelled.\<close> Cryptography, with the key schedule, and the protection of records before TLS 1.3 (\<open>tls1_enc\<close>, \<open>tls1_mac\<close>), which are parameters; hello, key exchange and session ticket messages,
  which the extension leaves as they are; the functions of the other extensions; DTLS, which the build disables; the Java and C++ application, which is
  presentation and glue; the rest of the vendored library.
\<close>

section \<open>Authentication end to end\<close>

lemma construct_up:
  assumes "entity_up e" "cert_ok c" "x509_holds (os s) a c" "addr_ok s" "length input < 2 ^ 31 - 21"
    "sg \<noteq> []" "length sg \<le> 2043"
    and rep: "entity_replies e (conns (os s)) (sec_ent_frame 19
        (be_bytes 8 (unat (psid_this_side (ieee1609 s))) @ hashedid8 c @ input)) 19 sg"
  shows "\<exists>s1. tls_construct_IEEE1609_CERT_cert_verify e (Some a) input pkt s
    = Some (True, snd (WPACKET_memcpy (malloc_ok e) sg pkt), s1)"
proof -
  let ?arg = "(psid_this_side (ieee1609 s), hashedid8 c, input)"
  have ok: "case ?arg of (psid, hid, input) \<Rightarrow> length hid = 8 \<and> length input < 2 ^ 31 - 21"
    using cert_okD(3) [OF assms(2)] assms(5) by simp
  have ad: "0 \<in> set (sec_ent_addr (ieee1609 s))" using assms(4) by (simp add: addr_ok_def)
  have fx: "IEEE1609_CERT_from_X509 a (os s) = Some (Some c)" using assms(3) by (simp add: x509_holds_def)
  have r: "entity_replies e (conns (os s)) (sec_ent_frame 19
      (case ?arg of (psid, hid, input) \<Rightarrow> be_bytes 8 (unat psid) @ hid @ input)) 19 sg" using rep by simp
  have "\<exists>m w1 w2. SEC_ENT_MSG_new_TYPE_TLS_SIGN_DATA e (psid_this_side (ieee1609 s)) (hashedid8 c) input (os s) = Some (Some m, w1) \<and>
    sec_ent_process e (ieee1609 s) (Some m) w1 = Some (Some (raw_msg 19 sg), w2)"
    by (rule sign_data.ask_up [OF assms(1) ok ad r assms(6,7)]) auto
  moreover have "payload (raw_msg 19 sg) = sg" by simp
  ultimately show ?thesis using fx by (auto simp: tls_construct_IEEE1609_CERT_cert_verify_def)
qed

text \<open>The CertificateVerify a side with a certificate in the selected slot constructs.\<close>

lemma construct_cert_verify_up:
  assumes "entity_up e" "malloc_ok e = mem_always" "cert_ok c" "x509_holds (os s) a c" "addr_ok s" "tmp_cert (s3 s) = Some i" "tmp_sigalg (s3 s)"
    "slot i s = Some k" "pk_x509 k = Some a" "SSL_is_using_1609_this_side s" "SSL_IS_TLS13 s"
    "hand s = TLS_ST_SW_CERT_VRFY \<or> hand s = TLS_ST_CW_CERT_VRFY" "tl_hash lb s = Some h" "length h \<le> 64"
    "sg \<noteq> []" "length sg \<le> 2043" "wpacket_inv pkt" "subs pkt \<noteq> []" "length sg \<le> wspace pkt"
    and rep: "entity_replies e (conns (os s)) (sec_ent_frame 19 (be_bytes 8 (unat (psid_this_side (ieee1609 s))) @ hashedid8 c @
        tbs (if hand s = TLS_ST_SW_CERT_VRFY then servercontext else clientcontext) h)) 19 sg"
  shows "\<exists>pkt1 s1. tls_construct_cert_verify e lb pkt s = Some (True, pkt1, s1) \<and> wcontent pkt1 = wcontent pkt @ sg"
proof -
  let ?T = "tbs (if hand s = TLS_ST_SW_CERT_VRFY then servercontext else clientcontext) h"
  have "length ?T < 2 ^ 31 - 21" using assms(14) by (simp add: tbs_def context_facts)
  then obtain s1 where c: "tls_construct_IEEE1609_CERT_cert_verify e (Some a) ?T pkt s = Some (True, snd (WPACKET_memcpy mem_always sg pkt), s1)"
    using construct_up [OF assms(1,3-5) _ assms(15,16) rep] assms(2) by auto
  obtain p1 where p1: "WPACKET_memcpy mem_always sg pkt = (True, p1)"
    by (rule wpt.succeedsD [OF memcpy_succeeds assms(17-19)]) simp
  then have "wcontent p1 = wcontent pkt @ sg" using WPACKET_memcpy_spec [OF assms(17)] by simp
  then show ?thesis using c p1 tbs_signer [OF assms(11-14)] assms(6-10) by (simp add: tls_construct_cert_verify_def)
qed

text \<open>
  C2. Authentication from end to end: a side with an IEEE 1609.2 certificate constructs its
  CertificateVerify with the help of its security entity, and the other side, whose session has a
  certificate with the same octets and which has the same handshake hash, accepts it with the help of its own,
  when the second entity approves the certificate and confirms the signature of the first over
  exactly the data the first was given. The PSID the verifier stores is the one of that confirmation.
\<close>

theorem cert_verify_end_to_end:
  assumes "SSL_IS_TLS13 s" "hand s = TLS_ST_SW_CERT_VRFY" "tl_hash lb s = Some h" "length h \<le> 64"
    "entity_up e" "malloc_ok e = mem_always" "cert_ok c" "x509_holds (os s) a c" "addr_ok s" "tmp_cert (s3 s) = Some i" "tmp_sigalg (s3 s)"
    "slot i s = Some k" "pk_x509 k = Some a" "SSL_is_using_1609_this_side s"
    "sg \<noteq> []" "length sg \<le> 2043" "wpacket_inv pkt" "subs pkt \<noteq> []" "length sg \<le> wspace pkt"
    "entity_replies e (conns (os s)) (sec_ent_frame 19 (be_bytes 8 (unat (psid_this_side (ieee1609 s))) @ hashedid8 c @
        tbs servercontext h)) 19 sg"
    "SSL_IS_TLS13 v" "hand v = TLS_ST_CR_CERT_VRFY" "cert_verify_hash v = h" "SSL_is_using_1609_other_side v"
    "peer (session v) = Some b" "cert_ok c1" "x509_holds (os v) b c1" "cert_octets c1 = cert_octets c" "addr_ok v"
    "length (ssp_other_side (ieee1609 v)) = 100" "tl_md_ctx lb1 v"
    "entity_up e1" "8 \<le> length d" "length d \<le> 2043" "8 \<le> length d1" "length d1 \<le> 108"
    "entity_replies e1 (conns (os v)) (sec_ent_frame 18 (cert_octets c)) 18 d"
    "\<And>n. entity_replies e1 n (sec_ent_frame 20 (take 8 d @ sg @ tbs servercontext h)) 20 d1"
  shows "\<exists>pkt1 s1 r v1. tls_construct_cert_verify e lb pkt s = Some (True, pkt1, s1) \<and> wcontent pkt1 = wcontent pkt @ sg \<and>
    tls_process_cert_verify e1 lb1 sg v = Some (r, v1) \<and> r \<noteq> MSG_PROCESS_ERROR \<and>
    psid_other_side (ieee1609 v1) = word_of_nat (be_val (take 8 d1))"
proof -
  have "\<exists>pkt1 s1. tls_construct_cert_verify e lb pkt s = Some (True, pkt1, s1) \<and> wcontent pkt1 = wcontent pkt @ sg"
    by (rule construct_cert_verify_up [OF assms(5-14,1) disjI1 [OF assms(2)] assms(3,4,15-19)]) (simp add: assms)
  moreover obtain v2 where p: "process_1609_cert_verify e1 lb1 (Some b) sg v = Some (True, v2)"
    "ieee1609 v2 = set_peer_psid (host_little e1) d1 (ieee1609 v)"
    using process_1609_up [OF assms(32,26,27,29,30,21) disjI1 [OF assms(22)] _ assms(33-36), of sg lb1] assms by auto
  then have "\<exists>r v1. tls_process_cert_verify e1 lb1 sg v = Some (r, v1) \<and> r \<noteq> MSG_PROCESS_ERROR \<and>
    psid_other_side (ieee1609 v1) = word_of_nat (be_val (take 8 d1))"
    using assms(24,25,31) set_peer_psid_fields(1) [OF assms(35,36,30)] by (simp add: tls_process_cert_verify_def Let_def)
  ultimately show ?thesis by blast
qed

text \<open>A server about to sign, with the sample certificate in its slot.\<close>

definition signing0 :: SSL where
  "signing0 = both1609 (at TLS_ST_SW_CERT_VRFY)\<lparr>server := True\<rparr>"

lemma sample_signing:
  "SSL_IS_TLS13 signing0" "hand signing0 = TLS_ST_SW_CERT_VRFY" "x509_holds (os signing0) 0 cert0" "addr_ok signing0"
  "tmp_cert (s3 signing0) = Some 0" "tmp_sigalg (s3 signing0)" "slot 0 signing0 = Some \<lparr>pk_x509 = Some 0, pk_privatekey = True, pk_chain = None\<rparr>"
  "SSL_is_using_1609_this_side signing0" "tl_hash lib0 signing0 = Some [7, 7]" "conns (os signing0) = 0" "tl_md_ctx lib0 verifying0"
  "cert_verify_hash verifying0 = [7, 7]"
  using sample_holds
  by (simp_all add: signing0_def verifying0_def both1609_def at_def ssl0_def ieee0_def s30_def slot_def lib0_def SSL_IS_TLS13_def SSL_IS_DTLS_def
      addr_ok_def SSL_is_using_1609_this_side_def SSL_is_using_1609_server_def)

lemma cert_verify_end_to_end_witness:
  "\<exists>pkt1 s1 r v1. tls_construct_cert_verify env0 lib0 wpacket0 signing0 = Some (True, pkt1, s1) \<and> wcontent pkt1 = [9, 9] \<and>
    tls_process_cert_verify env0 lib0 [9, 9] verifying0 = Some (r, v1) \<and> r \<noteq> MSG_PROCESS_ERROR \<and> psid_other_side (ieee1609 v1) = 0x87"
  using cert_verify_end_to_end [OF sample_signing(1,2,9) _ sample_entity_up sample_malloc sample_cert_ok sample_signing(3-7) _ sample_signing(8)
      _ _ wpacket0_ok(1,2) _ sample_replies(2) sample_verifying(6,7) sample_signing(12) sample_verifying(1,2) sample_cert_ok sample_verifying(3)
      refl sample_verifying(4,5) sample_signing(11) sample_entity_up _ _ _ _ sample_replies(1) sample_replies(3)]
  by (auto simp: be_val_def)

section \<open>Mandatory client authentication\<close>

lemma parse_ctos_verify_mode:
  assumes "ct_idx i" "tls_parse_ctos_cert_type_ext i pkt s = Some (r, s1)"
  shows "verify_mode s1 = verify_mode s"
  using assms by (auto simp: tls_parse_ctos_cert_type_ext_def set_type_decided_def split: option.splits prod.splits if_splits)

text \<open>
  C24. A client that sends the \<open>client_certificate_type\<close> extension turns mandatory client
  authentication off: whatever the server's verify mode was, it is \<open>SSL_VERIFY_PEER\<close> alone once the
  extension was parsed, even when parsing refused it, and a server still in this mode when the client's
  Certificate message comes accepts an empty one.
\<close>

theorem client_type_ext_drops_mandatory:
  assumes "tls_parse_ctos_clnt_type_ext d s = Some (ok, s1)" "verify_mode t = verify_mode s1" "SSL_IS_TLS13 t" "pha_context t = None"
    "post_handshake_auth t = SSL_PHA_NONE" "hashing lb t" "peer (session t) = None" "peer_chain (session t) = None" "version t \<noteq> SSL3_VERSION"
  shows "verify_mode s1 = SSL_VERIFY_PEER \<and>
    (\<exists>t1. tls_process_client_certificate e lb (cert_message xb []) t = Some (MSG_PROCESS_CONTINUE_READING, t1) \<and> peer (session t1) = None)"
proof -
  have "verify_mode s1 = SSL_VERIFY_PEER"
    using parse_ctos_verify_mode [of 19 d "SSL_set_verify SSL_VERIFY_PEER s" ok s1] assms(1)
    by (simp add: tls_parse_ctos_clnt_type_ext_def SSL_set_verify_def ct_idx_def)
  then show ?thesis
    using empty_client_accepted [OF assms(3-9)] assms(2) by (simp add: has_def)
qed

lemma client_type_ext_drops_mandatory_witness:
  "\<exists>s1 t1. tls_parse_ctos_clnt_type_ext [1, 3] (ssl0\<lparr>verify_mode := 3\<rparr>) = Some (True, s1) \<and> verify_mode s1 = 1 \<and>
     tls_process_client_certificate env0 lib0 (cert_message [] []) (at TLS_ST_SR_CERT\<lparr>verify_mode := 1\<rparr>)
       = Some (MSG_PROCESS_CONTINUE_READING, t1) \<and> peer (session t1) = None"
proof -
  let ?s = "SSL_set_verify SSL_VERIFY_PEER (ssl0\<lparr>verify_mode := 3\<rparr>)"
  have "ct_idx 19" "SSL_is_RFC8902_supported ?s" "put_prefixed 1 [3] = [1, 3]" "has (support (ct_of 19 ?s)) SSL_RFC8902_1609"
    by (simp_all add: ct_idx_def SSL_is_RFC8902_supported_def SSL_set_verify_def ct_of_def put_prefixed_def ieee0_def rfc0_def has_def)
  with parse_ctos_eq [of 19 ?s "[3]"] obtain s1 where
    p: "tls_parse_ctos_clnt_type_ext [1, 3] (ssl0\<lparr>verify_mode := 3\<rparr>) = Some (True, s1)"
    by (auto simp: tls_parse_ctos_clnt_type_ext_def decide_def)
  have "verify_mode s1 = verify_mode ?s"
    by (rule parse_ctos_verify_mode [of 19 "[1, 3]" _ True]) (use p in \<open>simp_all add: ct_idx_def tls_parse_ctos_clnt_type_ext_def\<close>)
  then have "verify_mode (at TLS_ST_SR_CERT\<lparr>verify_mode := 1\<rparr>) = verify_mode s1" by (simp add: SSL_set_verify_def)
  from client_type_ext_drops_mandatory [OF p this sample_hashing] p show ?thesis by blast
qed

end
